(* ===== verification/Prelude.thy ===== *)
theory Prelude
  imports Complex_Main "HOL-Library.AList" "HOL-Library.Sublist"
begin

text \<open>
  Shared vocabulary of the development: the types that stand for Python's built-in values
  (text, numbers of seconds, JSON values, dictionaries that keep their insertion order), the
  few string operations the modelled code uses, and the generic lemmas on association lists
  and optional values that several components share.

  Python's \<open>float\<close> seconds are kept as exact rationals: the rounding of a machine float is
  not modelled. Text is a list of 8-bit characters; \<open>lower\<close> acts on ASCII letters, which is
  what every literal the code compares with is made of. A Python \<open>dict\<close> is an association
  list: \<open>AList.update\<close> overwrites in place or appends at the end, as \<open>d[k] = v\<close> does.
\<close>

named_theorems model_defs \<open>definitions unfolded by component proofs\<close>

type_synonym seconds = rat
type_synonym instant = rat
type_synonym ('k, 'v) dict = "('k \<times> 'v) list"

section \<open>Dictionaries\<close>

abbreviation dict_get :: "('k, 'v) dict \<Rightarrow> 'k \<Rightarrow> 'v option" where
  "dict_get d k \<equiv> map_of d k"

abbreviation dict_set :: "'k \<Rightarrow> 'v \<Rightarrow> ('k, 'v) dict \<Rightarrow> ('k, 'v) dict" where
  "dict_set \<equiv> AList.update"

abbreviation dict_del :: "'k \<Rightarrow> ('k, 'v) dict \<Rightarrow> ('k, 'v) dict" where
  "dict_del \<equiv> AList.delete"

definition get_or :: "'v \<Rightarrow> ('k, 'v) dict \<Rightarrow> 'k \<Rightarrow> 'v" where
  "get_or v d k = (case map_of d k of None \<Rightarrow> v | Some x \<Rightarrow> x)"

lemma dict_get_set [simp]: "dict_get (dict_set k v d) k' = (if k' = k then Some v else dict_get d k')"
  by (simp add: update_conv')

lemma dict_get_del [simp]: "dict_get (dict_del k d) k' = (if k' = k then None else dict_get d k')"
  by (simp add: delete_conv')

lemma get_or_set [simp]: "get_or z (dict_set k v d) k' = (if k' = k then v else get_or z d k')"
  by (simp add: get_or_def)

lemma dict_set_values: "(k', v') \<in> set (dict_set k v d) \<Longrightarrow> (k', v') \<in> set d \<or> (k' = k \<and> v' = v)"
  by (induction d) (auto split: if_splits)

lemma sum_values_set:
  "sum_list (map snd (dict_set k (get_or 0 d k + n) d)) = sum_list (map snd d) + (n::int)"
proof (induction d)
  case (Cons p d)
  then show ?case by (cases p) (simp add: get_or_def)
qed (simp add: get_or_def)

definition dict_all :: "('v \<Rightarrow> bool) \<Rightarrow> ('k, 'v) dict \<Rightarrow> bool" where
  "dict_all P d = (\<forall>(k, v) \<in> set d. P v)"

lemma dict_all_Nil [simp]: "dict_all P []"
  by (simp add: dict_all_def)

lemma dict_all_Cons [simp]: "dict_all P ((k, v) # d) = (P v \<and> dict_all P d)"
  by (simp add: dict_all_def)

lemma dict_all_set [simp]: "dict_all P d \<Longrightarrow> P v \<Longrightarrow> dict_all P (dict_set k v d)"
  by (auto simp: dict_all_def dest: dict_set_values)

lemma dict_all_get: "dict_all P d \<Longrightarrow> dict_get d k = Some v \<Longrightarrow> P v"
  by (auto simp: dict_all_def dest: map_of_SomeD)

lemma dict_all_get_or: "dict_all P d \<Longrightarrow> P z \<Longrightarrow> P (get_or z d k)"
  by (auto simp: get_or_def dest: dict_all_get split: option.split)

lemma dict_get_map: "map_of (map (\<lambda>(k, v). (k, f v)) d) k = map_option f (map_of d k)"
  by (induction d) auto

section \<open>Optional values\<close>

fun opt_max :: "'a::linorder option \<Rightarrow> 'a option \<Rightarrow> 'a option" where
  "opt_max None y = y"
| "opt_max x None = x"
| "opt_max (Some x) (Some y) = Some (max x y)"

fun opt_min :: "'a::linorder option \<Rightarrow> 'a option \<Rightarrow> 'a option" where
  "opt_min None y = y"
| "opt_min x None = x"
| "opt_min (Some x) (Some y) = Some (min x y)"

definition opt_all :: "('a \<Rightarrow> bool) \<Rightarrow> 'a option \<Rightarrow> bool" where
  "opt_all P x = (case x of None \<Rightarrow> True | Some y \<Rightarrow> P y)"

lemma opt_all_simps [simp]: "opt_all P None" "opt_all P (Some y) = P y"
  by (simp_all add: opt_all_def)

lemma opt_all_max: "opt_all P x \<Longrightarrow> opt_all P y \<Longrightarrow> opt_all P (opt_max x y)"
  by (cases x; cases y) (auto simp: max_def)

lemma opt_all_min: "opt_all P x \<Longrightarrow> opt_all P y \<Longrightarrow> opt_all P (opt_min x y)"
  by (cases x; cases y) (auto simp: min_def)

section \<open>Text\<close>

definition lower_char :: "char \<Rightarrow> char" where
  "lower_char c = (let n = of_char c :: nat in if 65 \<le> n \<and> n \<le> 90 then char_of (n + 32) else c)"

definition lower :: "string \<Rightarrow> string" where
  "lower = map lower_char"

definition upper_char :: "char \<Rightarrow> char" where
  "upper_char c = (let n = of_char c :: nat in if 97 \<le> n \<and> n \<le> 122 then char_of (n - 32) else c)"

definition upper :: "string \<Rightarrow> string" where
  "upper = map upper_char"

definition is_space :: "char \<Rightarrow> bool" where
  "is_space c = (let n = of_char c :: nat in n = 32 \<or> (9 \<le> n \<and> n \<le> 13) \<or> (28 \<le> n \<and> n \<le> 31))"

definition lstrip :: "string \<Rightarrow> string" where
  "lstrip = dropWhile is_space"

definition rstrip :: "string \<Rightarrow> string" where
  "rstrip s = rev (dropWhile is_space (rev s))"

definition strip :: "string \<Rightarrow> string" where
  "strip s = rstrip (lstrip s)"

fun contains :: "string \<Rightarrow> string \<Rightarrow> bool" where
  "contains p [] = (p = [])"
| "contains p (c # s) = (prefix p (c # s) \<or> contains p s)"

fun split_on :: "char \<Rightarrow> string \<Rightarrow> string list" where
  "split_on c [] = [[]]"
| "split_on c (x # xs) =
     (if x = c then [] # split_on c xs
      else case split_on c xs of [] \<Rightarrow> [[x]] | w # ws \<Rightarrow> (x # w) # ws)"

lemma split_on_nonempty [simp]: "split_on c s \<noteq> []"
  by (induction s) (auto split: list.splits)

definition falsy :: "string option \<Rightarrow> bool" where
  \<comment> \<open>Python's truth test of an optional text: \<open>None\<close> and the empty text are false.\<close>
  "falsy x = (x = None \<or> x = Some [])"

section \<open>JSON values\<close>

datatype json =
    JNull
  | JBool bool
  | JInt int
  | JFloat rat
  | JStr string
  | JArr "json list"
  | JObj "(string \<times> json) list"

fun jget :: "json \<Rightarrow> string \<Rightarrow> json" where
  \<comment> \<open>\<open>obj.get(key)\<close> of a JSON object: \<open>None\<close> reads as \<open>JNull\<close>.\<close>
  "jget (JObj kvs) k = (case map_of kvs k of None \<Rightarrow> JNull | Some v \<Rightarrow> v)"
| "jget _ _ = JNull"

fun is_obj :: "json \<Rightarrow> bool" where
  "is_obj (JObj _) = True"
| "is_obj _ = False"

definition trunc :: "rat \<Rightarrow> int" where
  "trunc x = (if x < 0 then - \<lfloor>- x\<rfloor> else \<lfloor>x\<rfloor>)"

section \<open>Python's number conversions\<close>

text \<open>
  \<open>int(text)\<close> and \<open>float(text)\<close> on decimal notation: surrounding white space, one sign,
  digits with single underscores between digits, and for \<open>float\<close> a fraction and an exponent.
  The spellings of infinity and not-a-number are not modelled: they read as malformed.
\<close>

datatype py_error = ValueError | TypeError | KeyError | AttributeError | IndexError

definition is_digit :: "char \<Rightarrow> bool" where
  "is_digit c = (let n = of_char c :: nat in 48 \<le> n \<and> n \<le> 57)"

definition is_word_char :: "char \<Rightarrow> bool" where
  \<comment> \<open>\<open>\w\<close> of a regular expression, on ASCII.\<close>
  "is_word_char c = (let n = of_char c :: nat in
     is_digit c \<or> (65 \<le> n \<and> n \<le> 90) \<or> (97 \<le> n \<and> n \<le> 122) \<or> n = 95)"

definition digit_val :: "char \<Rightarrow> int" where
  "digit_val c = int (of_char c) - 48"

fun digits_ok :: "bool \<Rightarrow> string \<Rightarrow> bool" where
  \<comment> \<open>The flag says that the character before was a digit.\<close>
  "digits_ok prev [] = prev"
| "digits_ok prev (c # s) =
     (if is_digit c then digits_ok True s
      else if c = CHR ''_'' \<and> prev then s \<noteq> [] \<and> is_digit (hd s) \<and> digits_ok False s
      else False)"

definition digits_val :: "string \<Rightarrow> int" where
  "digits_val s = foldl (\<lambda>acc c. 10 * acc + digit_val c) 0 (filter is_digit s)"

definition digits_of :: "string \<Rightarrow> int option" where
  "digits_of s = (if digits_ok False s then Some (digits_val s) else None)"

fun signed :: "(string \<Rightarrow> 'a::uminus option) \<Rightarrow> string \<Rightarrow> 'a option" where
  "signed f [] = f []"
| "signed f (c # s) =
     (if c = CHR ''-'' then map_option uminus (f s)
      else if c = CHR ''+'' then f s
      else f (c # s))"

definition int_of_text :: "string \<Rightarrow> int option" where
  "int_of_text s = signed digits_of (strip s)"

definition fraction_of :: "string \<Rightarrow> rat option" where
  "fraction_of s =
     (if s = [] then Some 0
      else map_option (\<lambda>n. of_int n / 10 ^ length (filter is_digit s)) (digits_of s))"

definition mantissa_of :: "string \<Rightarrow> rat option" where
  "mantissa_of s =
     (let whole = takeWhile (\<lambda>c. c \<noteq> CHR ''.'') s; rest = dropWhile (\<lambda>c. c \<noteq> CHR ''.'') s
      in if rest = [] then map_option of_int (digits_of whole)
         else if whole = [] \<and> tl rest = [] then None
         else (case (if whole = [] then Some 0 else digits_of whole, fraction_of (tl rest)) of
                 (Some n, Some f) \<Rightarrow> Some (of_int n + f)
               | _ \<Rightarrow> None))"

definition exponent_of :: "string \<Rightarrow> rat option" where
  "exponent_of s =
     map_option (\<lambda>e. if 0 \<le> e then 10 ^ nat e else 1 / 10 ^ nat (- e)) (signed digits_of s)"

definition decimal_of :: "string \<Rightarrow> rat option" where
  "decimal_of s =
     (let is_e = (\<lambda>c. c = CHR ''e'' \<or> c = CHR ''E'');
          body = takeWhile (\<lambda>c. \<not> is_e c) s; rest = dropWhile (\<lambda>c. \<not> is_e c) s
      in case (mantissa_of body, if rest = [] then Some 1 else exponent_of (tl rest)) of
           (Some m, Some e) \<Rightarrow> Some (m * e)
         | _ \<Rightarrow> None)"

definition float_of_text :: "string \<Rightarrow> rat option" where
  "float_of_text s = signed decimal_of (strip s)"

fun py_int :: "json \<Rightarrow> py_error + int" where
  "py_int (JInt n) = Inr n"
| "py_int (JBool b) = Inr (if b then 1 else 0)"
| "py_int (JFloat x) = Inr (trunc x)"
| "py_int (JStr s) = (case int_of_text s of Some n \<Rightarrow> Inr n | None \<Rightarrow> Inl ValueError)"
| "py_int _ = Inl TypeError"

fun py_float :: "json \<Rightarrow> py_error + rat" where
  "py_float (JInt n) = Inr (of_int n)"
| "py_float (JBool b) = Inr (if b then 1 else 0)"
| "py_float (JFloat x) = Inr x"
| "py_float (JStr s) = (case float_of_text s of Some x \<Rightarrow> Inr x | None \<Rightarrow> Inl ValueError)"
| "py_float _ = Inl TypeError"

fun optional :: "(json \<Rightarrow> 'e + 'a) \<Rightarrow> json \<Rightarrow> 'e + 'a option" where
  \<comment> \<open>\<open>f(v) if v is not None else None\<close>\<close>
  "optional f JNull = Inr None"
| "optional f v = (case f v of Inl e \<Rightarrow> Inl e | Inr x \<Rightarrow> Inr (Some x))"

fun opt_json :: "('a \<Rightarrow> json) \<Rightarrow> 'a option \<Rightarrow> json" where
  "opt_json f None = JNull"
| "opt_json f (Some x) = f x"

lemma optional_int [simp]: "optional py_int (opt_json JInt x) = Inr x"
  by (cases x) auto

lemma optional_float [simp]: "optional py_float (opt_json JFloat x) = Inr x"
  by (cases x) auto

fun json_truthy :: "json \<Rightarrow> bool" where
  "json_truthy JNull = False"
| "json_truthy (JBool b) = b"
| "json_truthy (JInt n) = (n \<noteq> 0)"
| "json_truthy (JFloat x) = (x \<noteq> 0)"
| "json_truthy (JStr s) = (s \<noteq> [])"
| "json_truthy (JArr vs) = (vs \<noteq> [])"
| "json_truthy (JObj kvs) = (kvs \<noteq> [])"

definition json_text :: "(json \<Rightarrow> string) \<Rightarrow> json \<Rightarrow> string" where
  "json_text repr v = (case v of JStr s \<Rightarrow> s | _ \<Rightarrow> repr v)"

text \<open>\<open>str(v or d)\<close> of a JSON value; \<open>repr\<close> is what \<open>str\<close> gives for a value that is no text.\<close>

definition text_or :: "(json \<Rightarrow> string) \<Rightarrow> json \<Rightarrow> string \<Rightarrow> string" where
  "text_or repr v d = (if json_truthy v then json_text repr v else d)"

text \<open>\<open>v.get(k, d)\<close>, which a value that is no object does not have.\<close>

fun attr_get :: "json \<Rightarrow> string \<Rightarrow> json \<Rightarrow> py_error + json" where
  "attr_get (JObj kvs) k d = Inr (case map_of kvs k of None \<Rightarrow> d | Some v \<Rightarrow> v)"
| "attr_get _ _ _ = Inl AttributeError"

text \<open>Maps a function that may fail over a list, and stops at its first error.\<close>

fun map_each :: "('a \<Rightarrow> 'e + 'b) \<Rightarrow> 'a list \<Rightarrow> 'e + 'b list" where
  "map_each f [] = Inr []"
| "map_each f (x # xs) =
     (case f x of
        Inl e \<Rightarrow> Inl e
      | Inr y \<Rightarrow> (case map_each f xs of Inl e \<Rightarrow> Inl e | Inr ys \<Rightarrow> Inr (y # ys)))"

lemma map_each_list: "map_each f xs = Inr ys \<Longrightarrow> list_all2 (\<lambda>x y. f x = Inr y) xs ys"
  by (induction xs arbitrary: ys) (auto split: sum.splits)

lemma map_each_in: "map_each f xs = Inr ys \<Longrightarrow> x \<in> set xs \<Longrightarrow> \<exists>y \<in> set ys. f x = Inr y"
  by (induction xs arbitrary: ys) (auto split: sum.splits)

lemma map_each_from: "map_each f xs = Inr ys \<Longrightarrow> y \<in> set ys \<Longrightarrow> \<exists>x \<in> set xs. f x = Inr y"
  by (induction xs arbitrary: ys) (auto split: sum.splits)

section \<open>Numbers as text\<close>

fun digits_text :: "nat \<Rightarrow> string" where
  "digits_text n =
     (if n < 10 then [char_of (48 + n)] else digits_text (n div 10) @ [char_of (48 + n mod 10)])"

declare digits_text.simps [simp del]

definition int_text :: "int \<Rightarrow> string" where
  \<comment> \<open>\<open>str(n)\<close>\<close>
  "int_text n = (if n < 0 then ''-'' @ digits_text (nat (- n)) else digits_text (nat n))"

section \<open>Sequences of steps\<close>

text \<open>Runs a list of operations from left to right, threading the state.\<close>

fun run_steps :: "('s \<Rightarrow> 'op \<Rightarrow> 's) \<Rightarrow> 's \<Rightarrow> 'op list \<Rightarrow> 's" where
  "run_steps f s [] = s"
| "run_steps f s (x # xs) = run_steps f (f s x) xs"

lemma run_steps_append: "run_steps f s (xs @ ys) = run_steps f (run_steps f s xs) ys"
  by (induction xs arbitrary: s) auto

lemma run_steps_inv:
  "(\<And>s x. P s \<Longrightarrow> x \<in> set xs \<Longrightarrow> P (f s x)) \<Longrightarrow> P s \<Longrightarrow> P (run_steps f s xs)"
  by (induction xs arbitrary: s) auto

end
