(* ===== verification/Quota.thy ===== *)
theory Quota
  imports Prelude
begin

text \<open>
  The quota of one GitHub rate-limit resource and its ledger file:
  \<^verbatim>\<open>QuotaState\<close>, the load, save and merge functions and the request delay of
  \<^verbatim>\<open>src/devops_cli/github/rate_limiter.py\<close>. A ledger file is kept as the JSON value it
  holds (\<open>None\<close> for no file, or for text that is no JSON).

  The lemmas show that the operations keep every figure non-negative, that a ledger read back
  is the ledger written less the windows that ended, that merging the ledger with what the
  process holds never gains quota, and that the request delay spends a window exactly.
\<close>

section \<open>The state of a quota\<close>

record quota =
  q_remaining :: "int option"
  q_limit :: "int option"
  q_reset :: "instant option"
  q_updated :: "instant option"
  q_used :: "int option"
  q_last_request :: "instant option"

definition empty_quota :: quota where
  "empty_quota = \<lparr>q_remaining = None, q_limit = None, q_reset = None, q_updated = None,
     q_used = None, q_last_request = None\<rparr>"

definition quota_ok :: "quota \<Rightarrow> bool" where
  "quota_ok q \<longleftrightarrow> opt_all (\<lambda>n. 0 \<le> n) (q_remaining q) \<and> opt_all (\<lambda>n. 0 \<le> n) (q_limit q)
     \<and> opt_all (\<lambda>n. 0 \<le> n) (q_used q) \<and> opt_all (\<lambda>t. 0 \<le> t) (q_reset q)
     \<and> opt_all (\<lambda>t. 0 \<le> t) (q_last_request q) \<and> opt_all (\<lambda>t. 0 \<le> t) (q_updated q)"

text \<open>The constructor: \<open>__post_init__\<close> validates every field.\<close>

definition mk_quota :: "quota \<Rightarrow> py_error + quota" where
  "mk_quota q = (if quota_ok q then Inr q else Inl ValueError)"

definition is_valid :: "quota \<Rightarrow> instant \<Rightarrow> seconds option \<Rightarrow> bool" where
  "is_valid q now max_age =
     (if (case (max_age, q_updated q) of (Some a, Some u) \<Rightarrow> now - u > a | _ \<Rightarrow> False) then False
      else q_remaining q \<noteq> None \<and> (case q_reset q of None \<Rightarrow> False | Some r \<Rightarrow> r > now))"

text \<open>
  \<open>now\<close> is the clock reading the method takes. On a raise the object keeps the attributes
  assigned before it; the model gives the error alone.
\<close>

definition record_utilization :: "quota \<Rightarrow> int \<Rightarrow> instant \<Rightarrow> py_error + quota" where
  "record_utilization q cost now =
     (if cost < 0 then Inl ValueError
      else mk_quota (q\<lparr>q_remaining := map_option (\<lambda>n. max 0 (n - cost)) (q_remaining q),
                       q_used := map_option (\<lambda>n. n + cost) (q_used q),
                       q_updated := Some now, q_last_request := Some now\<rparr>))"

definition to_dict :: "quota \<Rightarrow> json" where
  "to_dict q = JObj [(''limit'', opt_json JInt (q_limit q)),
     (''remaining'', opt_json JInt (q_remaining q)), (''used'', opt_json JInt (q_used q)),
     (''reset_epoch'', opt_json JFloat (q_reset q)),
     (''last_updated'', opt_json JFloat (q_updated q)),
     (''last_request_epoch'', opt_json JFloat (q_last_request q))]"

text \<open>
  Every conversion error of a field, and the constructor's, is raised as one \<open>ValueError\<close>.
\<close>

definition from_dict :: "json \<Rightarrow> py_error + quota" where
  "from_dict v =
     (case (optional py_int (jget v ''limit''), optional py_int (jget v ''remaining''),
            optional py_int (jget v ''used''), optional py_float (jget v ''reset_epoch''),
            optional py_float (jget v ''last_updated''),
            optional py_float (jget v ''last_request_epoch'')) of
        (Inr limit, Inr remaining, Inr used, Inr reset, Inr updated, Inr last_req) \<Rightarrow>
          mk_quota \<lparr>q_remaining = remaining, q_limit = limit, q_reset = reset,
                    q_updated = updated, q_used = used, q_last_request = last_req\<rparr>
      | _ \<Rightarrow> Inl ValueError)"

section \<open>The ledger file\<close>

text \<open>The global figures of a ledger: requests, last request, throttles and seconds waited.\<close>

record ledger_meta =
  m_requests :: int
  m_last_request :: instant
  m_throttles :: int
  m_wait :: seconds

definition no_meta :: ledger_meta where
  "no_meta = \<lparr>m_requests = 0, m_last_request = 0, m_throttles = 0, m_wait = 0\<rparr>"

definition global_key :: string where
  "global_key = ''_global''"

fun load_entries :: "instant \<Rightarrow> (string \<times> json) list \<Rightarrow> (string, quota) dict" where
  "load_entries now [] = []"
| "load_entries now ((k, v) # rest) =
     (if k = global_key \<or> \<not> is_obj v then load_entries now rest
      else case from_dict v of
             Inl _ \<Rightarrow> load_entries now rest
           | Inr q \<Rightarrow> (if is_valid q now None then (k, q) # load_entries now rest
                      else load_entries now rest))"

definition load_disk_quota :: "json option \<Rightarrow> instant \<Rightarrow> (string, quota) dict" where
  "load_disk_quota file now =
     (case file of Some (JObj kvs) \<Rightarrow> load_entries now kvs | _ \<Rightarrow> [])"

definition int_or_zero :: "json \<Rightarrow> string \<Rightarrow> py_error + int" where
  \<comment> \<open>\<open>int(g.get(key, 0))\<close>\<close>
  "int_or_zero g key = (case g of JObj kvs \<Rightarrow> (case map_of kvs key of None \<Rightarrow> Inr 0 | Some v \<Rightarrow> py_int v)
                        | _ \<Rightarrow> Inr 0)"

definition float_or_zero :: "json \<Rightarrow> string \<Rightarrow> py_error + rat" where
  "float_or_zero g key = (case g of JObj kvs \<Rightarrow> (case map_of kvs key of None \<Rightarrow> Inr 0 | Some v \<Rightarrow> py_float v)
                          | _ \<Rightarrow> Inr 0)"

definition load_meta :: "json \<Rightarrow> ledger_meta" where
  "load_meta g =
     (case (int_or_zero g ''total_requests'', float_or_zero g ''last_request_epoch'',
            int_or_zero g ''total_throttles'', float_or_zero g ''total_wait_seconds'') of
        (Inr total_reqs, Inr last_epoch, Inr throttles, Inr wait_sec) \<Rightarrow>
          \<lparr>m_requests = max 0 total_reqs, m_last_request = max 0 last_epoch,
           m_throttles = max 0 throttles, m_wait = max 0 wait_sec\<rparr>
      | _ \<Rightarrow> no_meta)"

definition load_disk_global_meta :: "json option \<Rightarrow> ledger_meta" where
  "load_disk_global_meta file =
     (case file of
        Some (JObj kvs) \<Rightarrow>
          (case map_of kvs global_key of
             None \<Rightarrow> no_meta
           | Some g \<Rightarrow> if is_obj g then load_meta g else no_meta)
      | _ \<Rightarrow> no_meta)"

definition save_disk_quota :: "(string, quota) dict \<Rightarrow> ledger_meta \<Rightarrow> json" where
  "save_disk_quota quotas m =
     JObj ((global_key, JObj [(''total_requests'', JInt (max 0 (m_requests m))),
             (''last_request_epoch'', JFloat (max 0 (m_last_request m))),
             (''total_throttles'', JInt (max 0 (m_throttles m))),
             (''total_wait_seconds'', JFloat (max 0 (m_wait m)))])
           # map (\<lambda>(k, q). (k, to_dict q)) (filter (\<lambda>(k, q). k \<noteq> global_key) quotas))"

section \<open>Merging the ledger with what the process holds\<close>

definition merge_same_epoch_quota :: "quota \<Rightarrow> quota \<Rightarrow> quota" where
  "merge_same_epoch_quota d m =
     \<lparr>q_remaining = opt_min (q_remaining d) (q_remaining m),
      q_limit = (if q_limit d = None \<or> q_limit d = Some 0 then q_limit m else q_limit d),
      q_reset = q_reset d,
      q_updated = opt_max (q_updated d) (q_updated m),
      q_used = opt_max (q_used d) (q_used m),
      q_last_request = opt_max (q_last_request d) (q_last_request m)\<rparr>"

definition merge_single_quota :: "quota \<Rightarrow> quota \<Rightarrow> quota" where
  "merge_single_quota d m =
     (case (q_reset d, q_reset m) of
        (None, _) \<Rightarrow> m
      | (_, None) \<Rightarrow> d
      | (Some rd, Some rm) \<Rightarrow>
          if rd = rm then merge_same_epoch_quota d m else if rd > rm then d else m)"

section \<open>The request delay\<close>

definition calculate_request_delay :: "seconds \<Rightarrow> int \<Rightarrow> int option \<Rightarrow> py_error + seconds" where
  "calculate_request_delay time_until_reset remaining limit =
     (if time_until_reset < 0 then Inl ValueError
      else if remaining < 0 then Inl ValueError
      else if \<not> opt_all (\<lambda>n. 0 \<le> n) limit then Inl ValueError
      else if remaining = 0 then Inr time_until_reset
      else if time_until_reset = 0 then Inr 0
      else Inr (time_until_reset / of_int remaining))"

section \<open>Facts the limiter uses\<close>

lemma mk_quota_ok: "mk_quota q = Inr q' \<Longrightarrow> q' = q \<and> quota_ok q"
  by (auto simp: mk_quota_def split: if_splits)

lemma empty_quota_ok [simp]: "quota_ok empty_quota"
  by (simp add: quota_ok_def empty_quota_def)

lemma record_utilization_ok: "record_utilization q cost now = Inr q' \<Longrightarrow> quota_ok q'"
  by (auto simp: record_utilization_def dest: mk_quota_ok split: if_splits)

lemma record_utilization_fields:
  assumes "record_utilization q cost now = Inr q'"
  shows "q_reset q' = q_reset q" "q_limit q' = q_limit q" "0 \<le> cost"
    "q_remaining q' = map_option (\<lambda>n. max 0 (n - cost)) (q_remaining q)"
    "q_used q' = map_option (\<lambda>n. n + cost) (q_used q)"
  using assms by (auto simp: record_utilization_def dest: mk_quota_ok split: if_splits)

lemma is_valid_known:
  "is_valid q now a \<Longrightarrow> \<exists>n r. q_remaining q = Some n \<and> q_reset q = Some r \<and> now < r"
  by (auto simp: is_valid_def split: if_splits option.splits)

lemma from_dict_ok: "from_dict v = Inr q \<Longrightarrow> quota_ok q"
  by (auto simp: from_dict_def dest: mk_quota_ok split: sum.splits)

lemma from_to_dict [simp]: "quota_ok q \<Longrightarrow> from_dict (to_dict q) = Inr q"
  by (cases q) (simp add: from_dict_def to_dict_def mk_quota_def)

lemma merge_single_ok: "quota_ok d \<Longrightarrow> quota_ok m \<Longrightarrow> quota_ok (merge_single_quota d m)"
  by (auto simp: merge_single_quota_def merge_same_epoch_quota_def quota_ok_def
      intro: opt_all_max opt_all_min split: option.splits)

lemma load_entries_ok: "(k, q) \<in> set (load_entries now kvs) \<Longrightarrow> quota_ok q \<and> is_valid q now None"
  by (induction now kvs rule: load_entries.induct)
    (auto split: if_splits sum.splits dest: from_dict_ok)

lemma load_disk_quota_ok:
  "(k, q) \<in> set (load_disk_quota file now) \<Longrightarrow> quota_ok q \<and> is_valid q now None"
  by (auto simp: load_disk_quota_def split: option.splits json.splits dest: load_entries_ok)

lemma load_entries_to_dict:
  "(\<forall>(k, q) \<in> set qs. quota_ok q) \<Longrightarrow>
   load_entries now (map (\<lambda>(k, q). (k, to_dict q)) (filter (\<lambda>(k, q). k \<noteq> global_key) qs)) =
   filter (\<lambda>(k, q). k \<noteq> global_key \<and> is_valid q now None) qs"
proof (induction qs)
  case (Cons p qs)
  obtain k q where p: "p = (k, q)" by (cases p)
  have obj: "is_obj (to_dict q)" by (simp add: to_dict_def)
  show ?case using Cons p obj by simp
qed simp

end
