(* ===== verification/GhErrors.thy ===== *)
theory GhErrors
  imports Prelude
begin

text \<open>
  The classes of a failed GitHub request: \<^verbatim>\<open>src/devops_cli/github/error_classifier.py\<close>, and the
  write test of \<^verbatim>\<open>src/devops_cli/github/request_classifier.py\<close> that it uses. An error is
  its class; the text of its message and its details are not modelled, except the resource a
  rate-limit error names. Response headers are a dictionary of lower-case names, as the client
  library hands them out. Whether a GraphQL document runs a query is decided by graphql-core and
  is a parameter.
\<close>

section \<open>Errors\<close>

datatype gh_error =
    PyError py_error
  | RateLimitError string
  | UnreadError
  | UnauthenticatedError
  | ScopeError
  | NotFoundError
  | OperationError
  | GateError
  | CalledProcessError int
  | TimeoutExpired

text \<open>A rate-limit error names a resource, \<open>core\<close> unless given, cut to 256 characters.\<close>

definition default_resource :: string where
  "default_resource = ''core''"

definition rate_limit_refusal :: "string \<Rightarrow> gh_error" where
  "rate_limit_refusal subcommand = RateLimitError (take 256 subcommand)"

section \<open>Reads and writes\<close>

record gh_request =
  req_method :: string
  req_endpoint :: string
  req_document :: "string option"
  req_operation :: "string option"

definition mutation_http_methods :: "string list" where
  "mutation_http_methods = [''POST'', ''PUT'', ''PATCH'', ''DELETE'']"

definition graphql_endpoint :: string where
  "graphql_endpoint = ''graphql''"

definition runs_a_query ::
  "(string \<Rightarrow> string option \<Rightarrow> bool) \<Rightarrow> string option \<Rightarrow> string option \<Rightarrow> bool" where
  "runs_a_query parses_as_query document operation =
     (case document of None \<Rightarrow> False | Some d \<Rightarrow> parses_as_query d operation)"

definition is_write_request :: "(string \<Rightarrow> string option \<Rightarrow> bool) \<Rightarrow> gh_request \<Rightarrow> bool" where
  "is_write_request parses_as_query r =
     (if req_endpoint r \<noteq> graphql_endpoint then upper (req_method r) \<in> set mutation_http_methods
      else \<not> runs_a_query parses_as_query (req_document r) (req_operation r))"

definition plain_request :: "string \<Rightarrow> string \<Rightarrow> gh_request" where
  "plain_request method path =
     \<lparr>req_method = method, req_endpoint = path, req_document = None, req_operation = None\<rparr>"

definition is_write :: "string \<Rightarrow> string \<Rightarrow> bool" where
  \<comment> \<open>\<open>is_write_request(GitHubRequest(method, path))\<close>: no document, so no parser is asked.\<close>
  "is_write method path = is_write_request (\<lambda>_ _. False) (plain_request method path)"

section \<open>A failed HTTP answer\<close>

text \<open>The exception gidgethub raises for an answer.\<close>

datatype http_class = RateLimitExceeded | GitHubBroken | RedirectionException | BadRequest

record http_failure =
  hf_class :: http_class
  hf_status :: int
  hf_headers :: "(string, string) dict"

text \<open>What a request failed with: an answer, or anything that left none to read.\<close>

datatype request_failure = HttpFailure http_failure | NoAnswer

definition retry_after_header :: string where
  "retry_after_header = ''retry-after''"

definition is_rate_limited :: "http_failure \<Rightarrow> bool" where
  "is_rate_limited e =
     (if hf_class e = RateLimitExceeded \<or> hf_status e = 429 then True
      else hf_status e = 403 \<and> dict_get (hf_headers e) retry_after_header \<noteq> None)"

definition is_server_error :: "http_failure \<Rightarrow> bool" where
  "is_server_error e = (hf_class e = GitHubBroken)"

text \<open>
  \<open>urllib.request.parse_http_list\<close>: the items of a comma-separated header, where a comma inside
  double quotes separates nothing. The arguments are the part read so far, reversed, and whether the
  scan is after a backslash and inside quotes.
\<close>

fun http_list_scan :: "string \<Rightarrow> bool \<Rightarrow> bool \<Rightarrow> string \<Rightarrow> string list" where
  "http_list_scan part esc quot [] = (if part = [] then [] else [rev part])"
| "http_list_scan part esc quot (c # s) =
     (if esc then http_list_scan (c # part) False quot s
      else if quot then
        (if c = CHR 0x5C then http_list_scan part True True s
         else http_list_scan (c # part) False (c \<noteq> CHR 0x22) s)
      else if c = CHR '','' then rev part # http_list_scan [] False False s
      else http_list_scan (c # part) False (c = CHR 0x22) s)"

definition scopes :: "http_failure \<Rightarrow> string \<Rightarrow> string set" where
  "scopes e header =
     set (map strip (http_list_scan [] False False (get_or [] (hf_headers e) header)))"

definition accepted_scopes_header :: string where
  "accepted_scopes_header = ''x-accepted-oauth-scopes''"

definition oauth_scopes_header :: string where
  "oauth_scopes_header = ''x-oauth-scopes''"

definition missing_scopes :: "http_failure \<Rightarrow> string set" where
  "missing_scopes e =
     (if hf_status e \<noteq> 403 \<or> dict_get (hf_headers e) accepted_scopes_header = None
         \<or> dict_get (hf_headers e) oauth_scopes_header = None then {}
      else let accepted = scopes e accepted_scopes_header
           in if accepted \<inter> scopes e oauth_scopes_header \<noteq> {} then {} else accepted)"

definition unanswered :: "http_failure \<Rightarrow> bool" where
  "unanswered e = (is_server_error e \<or> hf_class e = RedirectionException)"

definition rate_limit_prefix :: string where
  "rate_limit_prefix = ''x-ratelimit-''"

definition reports_no_quota :: "http_failure \<Rightarrow> bool" where
  "reports_no_quota e =
     (\<not> list_ex (\<lambda>(name, _). prefix rate_limit_prefix (lower name)) (hf_headers e))"

definition refused_write :: "http_failure \<Rightarrow> string \<Rightarrow> string \<Rightarrow> bool" where
  "refused_write e method path =
     (hf_status e = 403 \<and> is_write method path \<and> reports_no_quota e)"

definition rate_limit_error :: "http_failure \<Rightarrow> gh_error" where
  "rate_limit_error e =
     rate_limit_refusal (get_or default_resource (hf_headers e) ''x-ratelimit-resource'')"

text \<open>
  The table \<open>_HTTP_CLASSES\<close> read in order, and \<open>classify_http_error\<close>: the first row that
  matches builds the error.
\<close>

definition classify_http_error :: "request_failure \<Rightarrow> string \<Rightarrow> string \<Rightarrow> gh_error" where
  "classify_http_error failure method path =
     (case failure of
        NoAnswer \<Rightarrow> UnreadError
      | HttpFailure e \<Rightarrow>
          if is_rate_limited e then rate_limit_error e
          else if missing_scopes e \<noteq> {} then ScopeError
          else if hf_status e = 401 then UnauthenticatedError
          else if refused_write e method path then UnauthenticatedError
          else if hf_status e = 404 then NotFoundError
          else if unanswered e then UnreadError
          else OperationError)"

section \<open>A failed gh command\<close>

definition gh_says :: "string \<Rightarrow> string list \<Rightarrow> bool" where
  "gh_says output phrases = list_ex (\<lambda>p. contains p (lower output)) phrases"

definition rate_limit_patterns :: "string list" where
  "rate_limit_patterns =
     [''rate limit exceeded'', ''rate limit already exceeded'', ''secondary rate limit'',
      ''too many requests'', ''http 429'', ''wait a few minutes before you try again'']"

definition secondary_rate_limit_patterns :: "string list" where
  "secondary_rate_limit_patterns =
     [''secondary rate limit'', ''wait a few minutes before you try again'',
      ''please retry your request again later'', ''exceeded a secondary rate limit'']"

definition scope_patterns :: "string list" where
  "scope_patterns =
     [''missing required scopes'', ''this api operation needs the'', ''read:project'', ''oauth scope'']"

definition unauthenticated_patterns :: "string list" where
  "unauthenticated_patterns =
     [''not logged in'', ''http 401'', ''bad credentials'', ''account was suspended'',
      ''installation has been suspended'', ''suspended your access'']"

definition is_gh_rate_limited :: "string \<Rightarrow> bool" where
  "is_gh_rate_limited output = gh_says output (rate_limit_patterns @ secondary_rate_limit_patterns)"

definition is_gh_owner_lookup_failure :: "string \<Rightarrow> bool" where
  "is_gh_owner_lookup_failure output = gh_says output [''unknown owner type'']"

text \<open>The search for \<open>HTTP\<close>, a space and three digits, bounded as words on both sides.\<close>

fun gh_status_scan :: "bool \<Rightarrow> string \<Rightarrow> int option" where
  "gh_status_scan inside [] = None"
| "gh_status_scan inside (c # s) =
     (let rest = drop 5 (c # s); code = take 3 rest; after = drop 3 rest
      in if \<not> inside \<and> prefix ''HTTP '' (c # s) \<and> length code = 3 \<and> list_all is_digit code
            \<and> (after = [] \<or> \<not> is_word_char (hd after))
         then Some (digits_val code)
         else gh_status_scan (is_word_char c) s)"

definition gh_http_status :: "string \<Rightarrow> int option" where
  "gh_http_status output = gh_status_scan False output"

definition is_gh_refused_by_token :: "string \<Rightarrow> bool" where
  "is_gh_refused_by_token output =
     (gh_http_status output = Some 403
      \<and> gh_says output [''resource not accessible by integration''])"

definition auth_required_exit_code :: int where
  "auth_required_exit_code = 4"

definition classify_gh_failure :: "string \<Rightarrow> int option \<Rightarrow> gh_error option" where
  "classify_gh_failure output exit_code =
     (if exit_code = Some auth_required_exit_code then Some UnauthenticatedError
      else if is_gh_rate_limited output then Some (rate_limit_refusal default_resource)
      else if is_gh_owner_lookup_failure output then Some (rate_limit_refusal default_resource)
      else if gh_says output scope_patterns then Some ScopeError
      else if gh_says output unauthenticated_patterns then Some UnauthenticatedError
      else None)"

section \<open>Properties\<close>

lemma is_write_alt:
  "is_write m p = (if p = ''graphql'' then True else upper m \<in> set mutation_http_methods)"
  by (simp add: is_write_def is_write_request_def plain_request_def runs_a_query_def
      graphql_endpoint_def)

end
