(* ===== verification/Limiter.thy ===== *)
theory Limiter
  imports Quota GhErrors
begin

text \<open>
  The rate limiter of one GitHub identity: the class \<^verbatim>\<open>GitHubRateLimiter\<close> of
  \<^verbatim>\<open>src/devops_cli/github/rate_limiter.py\<close>, with the refresh of a quota from GitHub. Each
  method runs under the limiter's lock, so it is one function from a state to a result and a
  state. The state holds, beside the attributes of the object, what the methods reach outside
  it: the ledger file, the clock (the \<open>n\<close>-th reading is \<open>l_clock n\<close>; a method that reads the
  clock several times takes several readings), the answers of gh in the order they are asked for,
  the jitter tenacity draws, and the pauses slept. \<open>l_loads\<close> stands for \<open>json.loads\<close>, \<open>l_http_date\<close> for
  \<open>parsedate_to_datetime\<close>, \<open>l_iso_time\<close> for \<open>fromisoformat\<close> on the text of a JSON value, and
  \<open>l_repr\<close> for \<open>str\<close> of a JSON value that is no string. A write
  of the ledger file succeeds; the code logs a failed one and goes on.
\<close>

section \<open>State\<close>

record cache_entry =
  ce_data :: string
  ce_expires :: instant

record proc =
  returncode :: int
  p_stdout :: string
  p_stderr :: string

record limiter =
  l_persist :: bool
  l_min_interval :: seconds
  l_fallback_delay :: seconds
  l_mutation_min_interval :: seconds
  l_quota_max_age :: seconds
  l_secondary_rate_wait :: seconds
  l_secondary_max_cap :: seconds
  l_max_rate_limit_wait :: "seconds option"
  l_cache :: "(string, cache_entry) dict"
  l_next_allowed :: "(string, instant) dict"
  l_last_mutation :: instant
  l_total_requests :: int
  l_points :: "(string, int) dict"
  l_paced :: "(string, int) dict"
  l_last_request :: instant
  l_last_prune :: instant
  l_total_throttles :: int
  l_total_wait :: seconds
  l_held_until :: instant
  l_quotas :: "(string, quota) dict"
  l_ledger :: "json option"
  l_responses :: "(string, json option) dict"
  l_clock :: "nat \<Rightarrow> instant"
  l_ticks :: nat
  l_answers :: "nat \<Rightarrow> proc option"
  l_runs :: nat
  l_jitter :: "nat \<Rightarrow> seconds"
  l_draws :: nat
  l_slept :: "seconds list"
  l_loads :: "string \<Rightarrow> json option"
  l_http_date :: "string \<Rightarrow> instant option"
  l_iso_time :: "json \<Rightarrow> instant option"
  l_repr :: "json \<Rightarrow> string"

definition tick :: "limiter \<Rightarrow> instant \<times> limiter" where
  "tick l = (l_clock l (l_ticks l), l\<lparr>l_ticks := Suc (l_ticks l)\<rparr>)"

definition run_subprocess :: "limiter \<Rightarrow> proc option \<times> limiter" where
  \<comment> \<open>The answer of the next gh process, \<open>None\<close> when it runs past its timeout.\<close>
  "run_subprocess l = (l_answers l (l_runs l), l\<lparr>l_runs := Suc (l_runs l)\<rparr>)"

section \<open>Construction\<close>

definition new_limiter ::
  "bool \<Rightarrow> seconds \<Rightarrow> seconds \<Rightarrow> seconds \<Rightarrow> seconds \<Rightarrow> seconds \<Rightarrow> seconds \<Rightarrow> seconds option
   \<Rightarrow> limiter \<Rightarrow> py_error + limiter" where
  \<comment> \<open>The attributes \<open>__init__\<close> sets before the ledger is read; the last argument gives the
    environment (files, clock, answers).\<close>
  "new_limiter persist min_interval fallback_delay mutation_interval max_age wait cap max_wait env =
     (if mutation_interval < 0 \<or> max_age < 0 \<or> wait < 0 \<or> cap < 0
         \<or> \<not> opt_all (\<lambda>x. 0 \<le> x) max_wait then Inl ValueError
      else Inr (env\<lparr>l_persist := persist, l_min_interval := min_interval,
             l_fallback_delay := fallback_delay,
             l_mutation_min_interval := mutation_interval, l_quota_max_age := max_age,
             l_secondary_rate_wait := wait, l_secondary_max_cap := cap,
             l_max_rate_limit_wait := max_wait, l_cache := [], l_next_allowed := [],
             l_last_mutation := 0, l_total_requests := 0, l_points := [], l_paced := [],
             l_last_request := 0, l_last_prune := 0, l_total_throttles := 0, l_total_wait := 0,
             l_held_until := 0, l_quotas := []\<rparr>))"

section \<open>The ledger\<close>

fun merge_quotas :: "(string, quota) dict \<Rightarrow> (string, quota) dict \<Rightarrow> (string, quota) dict" where
  "merge_quotas [] mem = mem"
| "merge_quotas ((k, d) # disk) mem =
     merge_quotas disk
       (dict_set k (case dict_get mem k of Some m \<Rightarrow> merge_single_quota d m | None \<Rightarrow> d) mem)"

definition sync_from_disk :: "limiter \<Rightarrow> limiter" where
  "sync_from_disk l =
     (if \<not> l_persist l then l
      else let (now, l1) = (if l_ledger l = None then (0, l) else tick l);
               disk = load_disk_quota (l_ledger l) now;
               m = load_disk_global_meta (l_ledger l)
           in l1\<lparr>l_total_requests := max (l_total_requests l) (m_requests m),
                 l_last_request := max (l_last_request l) (m_last_request m),
                 l_total_throttles := max (l_total_throttles l) (m_throttles m),
                 l_total_wait := max (l_total_wait l) (m_wait m),
                 l_quotas := merge_quotas disk (l_quotas l)\<rparr>)"

definition ledger_meta_of :: "limiter \<Rightarrow> ledger_meta" where
  "ledger_meta_of l = \<lparr>m_requests = l_total_requests l, m_last_request = l_last_request l,
     m_throttles = l_total_throttles l, m_wait = l_total_wait l\<rparr>"

definition persist_to_disk :: "limiter \<Rightarrow> limiter" where
  "persist_to_disk l =
     (if l_persist l then l\<lparr>l_ledger := Some (save_disk_quota (l_quotas l) (ledger_meta_of l))\<rparr> else l)"

definition record_throttle :: "seconds \<Rightarrow> limiter \<Rightarrow> limiter" where
  "record_throttle wait_seconds l =
     (let wait = max 0 wait_seconds
      in persist_to_disk (l\<lparr>l_total_throttles := l_total_throttles l + 1,
                            l_total_wait := l_total_wait l + wait\<rparr>))"

definition hold_requests :: "seconds \<Rightarrow> limiter \<Rightarrow> limiter" where
  "hold_requests wait_seconds l =
     (let (now, l1) = tick l in l1\<lparr>l_held_until := max (l_held_until l1) (now + wait_seconds)\<rparr>)"

definition get_total_throttles :: "limiter \<Rightarrow> int \<times> limiter" where
  "get_total_throttles l = (let l1 = sync_from_disk l in (l_total_throttles l1, l1))"

definition get_total_wait_seconds :: "limiter \<Rightarrow> seconds \<times> limiter" where
  "get_total_wait_seconds l = (let l1 = sync_from_disk l in (l_total_wait l1, l1))"

definition get_global_request_count :: "limiter \<Rightarrow> int \<times> limiter" where
  "get_global_request_count l = (let l1 = sync_from_disk l in (l_total_requests l1, l1))"

definition get_last_request_epoch :: "limiter \<Rightarrow> instant \<times> limiter" where
  "get_last_request_epoch l = (let l1 = sync_from_disk l in (l_last_request l1, l1))"

section \<open>Updates of a quota\<close>

definition validate_quota_update_args ::
  "int \<Rightarrow> instant option \<Rightarrow> int option \<Rightarrow> int option \<Rightarrow> bool" where
  "validate_quota_update_args remaining reset_epoch limit used =
     (0 \<le> remaining \<and> opt_all (\<lambda>n. 0 \<le> n) limit \<and> opt_all (\<lambda>n. 0 \<le> n) used
      \<and> opt_all (\<lambda>t. 0 \<le> t) reset_epoch)"

definition or_else :: "'a option \<Rightarrow> 'a option \<Rightarrow> 'a option" where
  "or_else x y = (case x of None \<Rightarrow> y | Some v \<Rightarrow> Some v)"

definition apply_quota_update ::
  "string \<Rightarrow> int \<Rightarrow> instant option \<Rightarrow> int option \<Rightarrow> int option \<Rightarrow> instant \<Rightarrow> limiter
   \<Rightarrow> (py_error + unit) \<times> limiter" where
  \<comment> \<open>A new state is validated before it is stored, a held one after it is changed.\<close>
  "apply_quota_update subcommand remaining reset_epoch limit used now l =
     (case dict_get (l_quotas l) subcommand of
        None \<Rightarrow>
          (case mk_quota \<lparr>q_remaining = Some remaining, q_limit = limit, q_reset = reset_epoch,
                          q_updated = Some now, q_used = used, q_last_request = None\<rparr> of
             Inl e \<Rightarrow> (Inl e, l)
           | Inr q \<Rightarrow> (Inr (), l\<lparr>l_quotas := dict_set subcommand q (l_quotas l)\<rparr>))
      | Some state \<Rightarrow>
          let q = state\<lparr>q_remaining := Some remaining,
                        q_reset := or_else reset_epoch (q_reset state),
                        q_limit := or_else limit (q_limit state),
                        q_used := or_else used (q_used state),
                        q_updated := Some now\<rparr>
          in (if quota_ok q then Inr () else Inl ValueError,
              l\<lparr>l_quotas := dict_set subcommand q (l_quotas l)\<rparr>))"

definition apply_quota_update_locked ::
  "string \<Rightarrow> int \<Rightarrow> instant option \<Rightarrow> int option \<Rightarrow> int option \<Rightarrow> instant \<Rightarrow> limiter
   \<Rightarrow> (py_error + unit) \<times> limiter" where
  "apply_quota_update_locked subcommand remaining reset_epoch limit used now l =
     (case apply_quota_update subcommand remaining reset_epoch limit used now (sync_from_disk l) of
        (Inl e, l1) \<Rightarrow> (Inl e, l1)
      | (Inr (), l1) \<Rightarrow> (Inr (), persist_to_disk l1))"

definition update_quota ::
  "string \<Rightarrow> int \<Rightarrow> instant option \<Rightarrow> int option \<Rightarrow> int option \<Rightarrow> limiter
   \<Rightarrow> (py_error + unit) \<times> limiter" where
  "update_quota subcommand remaining reset_epoch limit used l =
     (if \<not> validate_quota_update_args remaining reset_epoch limit used then (Inl ValueError, l)
      else let (now, l1) = tick l
           in apply_quota_update_locked subcommand remaining reset_epoch limit used now l1)"

definition record_utilization_locked ::
  "string \<Rightarrow> int \<Rightarrow> limiter \<Rightarrow> (py_error + unit) \<times> limiter" where
  "record_utilization_locked subcommand cost l =
     (case dict_get (l_quotas l) subcommand of
        None \<Rightarrow> (Inr (), l)
      | Some state \<Rightarrow>
          let (now, l1) = tick l
          in if \<not> is_valid state now None then (Inr (), l1)
             else let (now2, l2) = tick l1
                  in case record_utilization state cost now2 of
                       Inl e \<Rightarrow> (Inl e, l2)
                     | Inr q \<Rightarrow> (Inr (), l2\<lparr>l_quotas := dict_set subcommand q (l_quotas l2),
                                            l_total_requests := l_total_requests l2 + cost\<rparr>))"

definition charge_utilization :: "string \<Rightarrow> int \<Rightarrow> limiter \<Rightarrow> (py_error + unit) \<times> limiter" where
  \<comment> \<open>The method \<open>record_utilization\<close> of the limiter.\<close>
  "charge_utilization subcommand cost l =
     (case record_utilization_locked subcommand cost (sync_from_disk l) of
        (Inl e, l1) \<Rightarrow> (Inl e, l1)
      | (Inr (), l1) \<Rightarrow> (Inr (), persist_to_disk l1))"

definition charge_points :: "string \<Rightarrow> int \<Rightarrow> limiter \<Rightarrow> (py_error + unit) \<times> limiter" where
  "charge_points subcommand points l =
     (if points < 0 then (Inl ValueError, l)
      else (Inr (), l\<lparr>l_points := dict_set subcommand (get_or 0 (l_points l) subcommand + points)
                                    (l_points l)\<rparr>))"

definition points_charged :: "limiter \<Rightarrow> string \<Rightarrow> int" where
  "points_charged l subcommand = get_or 0 (l_points l) subcommand"

definition get_quota :: "string \<Rightarrow> limiter \<Rightarrow> quota \<times> limiter" where
  "get_quota subcommand l =
     (let l1 = sync_from_disk l
      in (case dict_get (l_quotas l1) subcommand of None \<Rightarrow> empty_quota | Some q \<Rightarrow> q, l1))"

end
