(* ===== verification/Refresh.thy ===== *)
theory Refresh
  imports Limiter
begin

text \<open>
  Reading GitHub's \<open>/rate_limit\<close> answer into the stored quotas, and the request delay that rests
  on it: \<^verbatim>\<open>extract_json_payload\<close> to \<^verbatim>\<open>_calculate_target_delay\<close> of
  \<^verbatim>\<open>src/devops_cli/github/rate_limiter.py\<close>. gh runs once per refresh; a quota is refreshed
  only when the stored one is not valid, and every way a refresh can fail is an error value.
\<close>

section \<open>The answer\<close>

definition extract_json_payload :: "(string \<Rightarrow> json option) \<Rightarrow> string \<Rightarrow> json" where
  "extract_json_payload loads raw_stdout =
     (if raw_stdout = [] then JNull
      else let trimmed = strip raw_stdout
           in case loads trimmed of
                Some v \<Rightarrow> v
              | None \<Rightarrow>
                  let candidate = dropWhile (\<lambda>c. c \<noteq> CHR 0x7B \<and> c \<noteq> CHR 0x5B) trimmed
                  in if candidate = [] then JNull
                     else case loads candidate of Some v \<Rightarrow> v | None \<Rightarrow> JNull)"

definition malformed_metric :: gh_error where
  "malformed_metric = rate_limit_refusal default_resource"

definition parse_resource_quota ::
  "json \<Rightarrow> gh_error + (int \<times> instant option \<times> int option \<times> int option)" where
  "parse_resource_quota r_info =
     (case optional py_float (jget r_info ''reset'') of
        Inl _ \<Rightarrow> Inl malformed_metric
      | Inr reset_epoch \<Rightarrow>
          (case py_int (jget r_info ''remaining'') of
             Inl _ \<Rightarrow> Inl malformed_metric
           | Inr rem_val \<Rightarrow>
               (case optional py_int (jget r_info ''limit'') of
                  Inl _ \<Rightarrow> Inl malformed_metric
                | Inr limit_val \<Rightarrow>
                    (case optional py_int (jget r_info ''used'') of
                       Inl _ \<Rightarrow> Inl malformed_metric
                     | Inr used_val \<Rightarrow> Inr (rem_val, reset_epoch, limit_val, used_val)))))"

definition update_single_resource_quota ::
  "string \<Rightarrow> json \<Rightarrow> limiter \<Rightarrow> (gh_error + instant option) \<times> limiter" where
  "update_single_resource_quota r_name r_info l =
     (if \<not> is_obj r_info \<or> jget r_info ''remaining'' = JNull then (Inr None, l)
      else case parse_resource_quota r_info of
             Inl e \<Rightarrow> (Inl e, l)
           | Inr (rem_val, reset_epoch, limit_val, used_val) \<Rightarrow>
               (case update_quota r_name rem_val reset_epoch limit_val used_val l of
                  (Inl e, l1) \<Rightarrow> (Inl (PyError e), l1)
                | (Inr (), l1) \<Rightarrow> (Inr reset_epoch, l1)))"

fun update_resources ::
  "(string \<times> json) list \<Rightarrow> limiter \<Rightarrow> (gh_error + (string, instant) dict) \<times> limiter" where
  \<comment> \<open>The dictionary comprehension over the resources, and the resets it keeps.\<close>
  "update_resources [] l = (Inr [], l)"
| "update_resources ((r_name, r_info) # rest) l =
     (case update_single_resource_quota r_name r_info l of
        (Inl e, l1) \<Rightarrow> (Inl e, l1)
      | (Inr reset, l1) \<Rightarrow>
          (case update_resources rest l1 of
             (Inl e, l2) \<Rightarrow> (Inl e, l2)
           | (Inr resets, l2) \<Rightarrow>
               (Inr (case reset of None \<Rightarrow> resets | Some t \<Rightarrow> (r_name, t) # resets), l2)))"

definition extract_rate_limit_endpoint_response ::
  "string \<Rightarrow> limiter \<Rightarrow> (gh_error + (string, instant) dict) \<times> limiter" where
  "extract_rate_limit_endpoint_response output l =
     (let payload = extract_json_payload (l_loads l) output
      in if \<not> is_obj payload then (Inl (rate_limit_refusal default_resource), l)
         else case jget payload ''resources'' of
                JObj resources \<Rightarrow> update_resources resources l
              | _ \<Rightarrow> (Inl (rate_limit_refusal default_resource), l))"

section \<open>A refresh\<close>

definition refresh_failure :: "proc \<Rightarrow> gh_error" where
  "refresh_failure p =
     (case classify_gh_failure (p_stderr p) (Some (returncode p)) of
        Some e \<Rightarrow> e | None \<Rightarrow> UnreadError)"

definition refresh_from_github ::
  "limiter \<Rightarrow> (gh_error + (string, instant) dict) \<times> limiter" where
  "refresh_from_github l =
     (case run_subprocess l of
        (None, l1) \<Rightarrow> (Inl UnreadError, l1)
      | (Some p, l1) \<Rightarrow>
          if returncode p \<noteq> 0 then (Inl (refresh_failure p), l1)
          else if p_stdout p = [] then (Inl UnreadError, l1)
          else extract_rate_limit_endpoint_response (p_stdout p) l1)"

definition unreported_resource_error :: "string \<Rightarrow> gh_error" where
  "unreported_resource_error subcommand = rate_limit_refusal subcommand"

definition clock_skew_bound :: seconds where
  "clock_skew_bound = 5"

definition check_clocks_agree :: "string \<Rightarrow> instant \<Rightarrow> instant \<Rightarrow> gh_error + unit" where
  "check_clocks_agree subcommand reported_reset now =
     (let gap = now - reported_reset
      in if gap \<le> clock_skew_bound then Inr () else Inl (rate_limit_refusal subcommand))"

definition refresh_quota_state :: "string \<Rightarrow> limiter \<Rightarrow> (gh_error + quota) \<times> limiter" where
  \<comment> \<open>The part of \<open>_resolve_quota_state\<close> after the stored quota was found not valid.\<close>
  "refresh_quota_state subcommand l =
     (let (started, l1) = tick l
      in case refresh_from_github l1 of
           (Inl e, l2) \<Rightarrow> (Inl e, l2)
         | (Inr reported_resets, l2) \<Rightarrow>
             (case dict_get reported_resets subcommand of
                None \<Rightarrow> (Inl (unreported_resource_error subcommand), l2)
              | Some reset \<Rightarrow>
                  (case check_clocks_agree subcommand reset started of
                     Inl e \<Rightarrow> (Inl e, l2)
                   | Inr () \<Rightarrow>
                       (case dict_get (l_quotas l2) subcommand of
                          None \<Rightarrow> (Inl (PyError KeyError), l2)
                        | Some q \<Rightarrow> (Inr q, l2)))))"

definition resolve_quota_state :: "string \<Rightarrow> limiter \<Rightarrow> (gh_error + quota) \<times> limiter" where
  "resolve_quota_state subcommand l =
     (let l1 = sync_from_disk l
      in case dict_get (l_quotas l1) subcommand of
           None \<Rightarrow> refresh_quota_state subcommand l1
         | Some state \<Rightarrow>
             let (now, l2) = tick l1
             in if is_valid state now (Some (l_quota_max_age l2)) then (Inr state, l2)
                else refresh_quota_state subcommand l2)"

section \<open>The request delay\<close>

definition reset_margin :: seconds where
  "reset_margin = 1"

definition passed_reset_delay :: "limiter \<Rightarrow> instant \<Rightarrow> instant \<Rightarrow> seconds" where
  "passed_reset_delay l reset_epoch now =
     max (max (l_min_interval l) (reset_epoch + reset_margin - now)) 0"

definition delay_of_state :: "string \<Rightarrow> quota \<Rightarrow> instant \<Rightarrow> limiter \<Rightarrow> gh_error + seconds" where
  \<comment> \<open>The part of \<open>calculate_delay\<close> after the quota is resolved and the clock read.\<close>
  "delay_of_state subcommand state now l =
     (case q_reset state of
        None \<Rightarrow> Inl (rate_limit_refusal subcommand)
      | Some reset_epoch \<Rightarrow>
          (case q_remaining state of
             None \<Rightarrow> Inl (rate_limit_refusal subcommand)
           | Some remaining \<Rightarrow>
               if remaining < 0 then Inl (PyError ValueError)
               else let time_left = reset_epoch - now
                    in if time_left \<le> 0 then Inr (passed_reset_delay l reset_epoch now)
                       else case calculate_request_delay time_left remaining (q_limit state) of
                              Inl e \<Rightarrow> Inl (PyError e)
                            | Inr delay \<Rightarrow> Inr (max (l_min_interval l) delay)))"

definition calculate_delay :: "string \<Rightarrow> limiter \<Rightarrow> (gh_error + seconds) \<times> limiter" where
  "calculate_delay subcommand l =
     (case resolve_quota_state subcommand l of
        (Inl e, l1) \<Rightarrow> (Inl e, l1)
      | (Inr state, l1) \<Rightarrow>
          let (now, l2) = tick l1 in (delay_of_state subcommand state now l2, l2))"

definition calculate_target_delay ::
  "string \<Rightarrow> bool \<Rightarrow> limiter \<Rightarrow> (gh_error + seconds) \<times> limiter" where
  "calculate_target_delay target is_mutation l =
     (case calculate_delay target l of
        (Inl e, l1) \<Rightarrow> (Inl e, l1)
      | (Inr delay, l1) \<Rightarrow>
          (Inr (if is_mutation then max delay (l_mutation_min_interval l1) else delay), l1))"

end
