(* ===== verification/Pacing.thy ===== *)
theory Pacing
  imports Refresh
begin

text \<open>
  The turn of a request on the ledger, and the wait before a refused request is sent again:
  \<^verbatim>\<open>acquire\<close>, \<^verbatim>\<open>retry_delay\<close> and \<^verbatim>\<open>calculate_backoff_delay\<close> of
  \<^verbatim>\<open>src/devops_cli/github/rate_limiter.py\<close>, with the reading of a \<open>Retry-After\<close>. The request gate is a
  function on a state of its own, which \<open>Budget\<close> instantiates with the hourly request budget.
\<close>

section \<open>A turn\<close>

type_synonym 'g gate = "'g \<Rightarrow> (gh_error + unit) \<times> 'g"

definition no_gate :: "'g gate" where
  "no_gate g = (Inr (), g)"

definition write_slot :: "limiter \<Rightarrow> instant \<Rightarrow> instant" where
  "write_slot l scheduled_time = max scheduled_time (l_last_mutation l + l_mutation_min_interval l)"

definition reset_passed :: "quota option \<Rightarrow> instant \<Rightarrow> bool" where
  "reset_passed state now =
     (case state of None \<Rightarrow> False
      | Some q \<Rightarrow> (case q_reset q of None \<Rightarrow> False | Some r \<Rightarrow> r \<le> now))"

definition paced_time_of :: "limiter \<Rightarrow> string \<Rightarrow> instant \<Rightarrow> seconds \<Rightarrow> instant" where
  "paced_time_of l target now delay =
     (let prev = get_or 0 (l_next_allowed l) target;
          prev_scheduled =
            (if prev < now \<or> reset_passed (dict_get (l_quotas l) target) now then now else prev)
      in max (max now prev_scheduled + delay) (l_held_until l))"

definition charge_turn :: "string \<Rightarrow> instant \<Rightarrow> int \<Rightarrow> limiter \<Rightarrow> (gh_error + unit) \<times> limiter" where
  "charge_turn target now cost l =
     (case dict_get (l_quotas l) target of
        None \<Rightarrow> (Inr (), l)
      | Some state \<Rightarrow>
          if is_valid state now (Some (l_quota_max_age l))
          then let (now2, l1) = tick l
               in case record_utilization state cost now2 of
                    Inl e \<Rightarrow> (Inl (PyError e), l1)
                  | Inr q \<Rightarrow> (Inr (), l1\<lparr>l_quotas := dict_set target q (l_quotas l1)\<rparr>)
          else (Inr (), l))"

definition acquire_locked ::
  "string \<Rightarrow> bool \<Rightarrow> int \<Rightarrow> limiter \<Rightarrow> (gh_error + seconds) \<times> limiter" where
  "acquire_locked target is_mutation cost l =
     (let (now, l1) = tick (sync_from_disk l)
      in case calculate_target_delay target is_mutation l1 of
           (Inl e, l2) \<Rightarrow> (Inl e, l2)
         | (Inr delay, l2) \<Rightarrow>
             let paced_time = paced_time_of l2 target now delay;
                 scheduled_time = (if is_mutation then write_slot l2 paced_time else paced_time);
                 sleep_duration = max 0 (scheduled_time - now);
                 l3 = l2\<lparr>l_next_allowed := dict_set target paced_time (l_next_allowed l2),
                         l_last_request := now + sleep_duration,
                         l_last_mutation :=
                           (if is_mutation then scheduled_time else l_last_mutation l2)\<rparr>
             in case charge_turn target now cost l3 of
                  (Inl e, l4) \<Rightarrow> (Inl e, l4)
                | (Inr (), l4) \<Rightarrow>
                    (Inr sleep_duration,
                     persist_to_disk (l4\<lparr>l_total_requests := l_total_requests l4 + 1\<rparr>)))"

definition acquire ::
  "'g gate \<Rightarrow> string \<Rightarrow> string option \<Rightarrow> bool \<Rightarrow> int \<Rightarrow> 'g \<times> limiter
   \<Rightarrow> (gh_error + seconds) \<times> 'g \<times> limiter" where
  "acquire gate subcommand resource is_mutation cost w =
     (case gate (fst w) of
        (Inl e, g) \<Rightarrow> (Inl e, g, snd w)
      | (Inr (), g) \<Rightarrow>
          let target = (if falsy resource then subcommand else the resource);
              l1 = (snd w)\<lparr>l_paced := dict_set target (get_or 0 (l_paced (snd w)) target + 1)
                                        (l_paced (snd w))\<rparr>
          in case acquire_locked target is_mutation cost l1 of
               (Inl e, l2) \<Rightarrow> (Inl e, g, l2)
             | (Inr d, l2) \<Rightarrow> (Inr d, g, if 0 < d then l2\<lparr>l_slept := l_slept l2 @ [d]\<rparr> else l2))"

definition requests_paced :: "limiter \<Rightarrow> (string, int) dict" where
  "requests_paced l = l_paced l"

text \<open>
  \<open>count_request\<close>: an attempt answered 304 gives its place back to the gate. The counter it
  emits is not modelled.
\<close>

definition count_request :: "('g \<Rightarrow> 'g) \<Rightarrow> int option \<Rightarrow> 'g \<Rightarrow> 'g" where
  "count_request refund status g = (if status = Some 304 then refund g else g)"

section \<open>The wait before a retry\<close>

definition exceeds :: "seconds \<Rightarrow> seconds option \<Rightarrow> bool" where
  \<comment> \<open>\<open>limit is not None and wait > limit\<close>\<close>
  "exceeds wait max_wait = (case max_wait of None \<Rightarrow> False | Some m \<Rightarrow> wait > m)"

definition handle_retry_after_wait ::
  "seconds \<Rightarrow> seconds option \<Rightarrow> string \<Rightarrow> gh_error + seconds" where
  "handle_retry_after_wait retry_after max_wait subcommand =
     (if exceeds retry_after max_wait then Inl (rate_limit_refusal subcommand) else Inr retry_after)"

definition is_primary_exhausted :: "quota option \<Rightarrow> bool" where
  "is_primary_exhausted state =
     (case state of None \<Rightarrow> False
      | Some q \<Rightarrow> q_remaining q = Some 0 \<and> (case q_reset q of None \<Rightarrow> False | Some r \<Rightarrow> r > 0))"

definition calculate_primary_delay ::
  "quota option \<Rightarrow> seconds option \<Rightarrow> string \<Rightarrow> limiter \<Rightarrow> (gh_error + seconds option) \<times> limiter" where
  "calculate_primary_delay state max_wait subcommand l =
     (if \<not> is_primary_exhausted state then (Inr None, l)
      else let reset_epoch = the (q_reset (the state)); (now, l1) = tick l
           in if reset_epoch \<le> now then (Inr None, l1)
              else let wait = reset_epoch - now
                   in if exceeds wait max_wait then (Inl (rate_limit_refusal subcommand), l1)
                      else (Inr (Some wait), l1))"

definition draw_jitter :: "limiter \<Rightarrow> seconds \<times> limiter" where
  \<comment> \<open>What tenacity's exponential wait draws for this attempt, at most \<open>secondary_max_cap\<close>.\<close>
  "draw_jitter l = (l_jitter l (l_draws l), l\<lparr>l_draws := Suc (l_draws l)\<rparr>)"

definition calculate_secondary_delay ::
  "seconds \<Rightarrow> seconds \<Rightarrow> seconds option \<Rightarrow> string \<Rightarrow> limiter \<Rightarrow> (gh_error + seconds) \<times> limiter" where
  "calculate_secondary_delay base max_cap max_wait subcommand l =
     (let (tenacity_wait, l1) = draw_jitter l;
          delay = min (base + tenacity_wait) max_cap
      in if exceeds delay max_wait then (Inl (rate_limit_refusal subcommand), l1)
         else (Inr delay, l1))"

definition positive :: "seconds option \<Rightarrow> bool" where
  "positive x = (case x of None \<Rightarrow> False | Some t \<Rightarrow> t > 0)"

definition retry_delay ::
  "seconds option \<Rightarrow> string \<Rightarrow> seconds option \<Rightarrow> limiter \<Rightarrow> (gh_error + seconds) \<times> limiter" where
  "retry_delay retry_after subcommand base l =
     (if positive retry_after
      then (handle_retry_after_wait (the retry_after) (l_max_rate_limit_wait l) subcommand, l)
      else case calculate_primary_delay (dict_get (l_quotas l) subcommand)
                  (l_max_rate_limit_wait l) subcommand l of
             (Inl e, l1) \<Rightarrow> (Inl e, l1)
           | (Inr (Some wait), l1) \<Rightarrow> (Inr wait, l1)
           | (Inr None, l1) \<Rightarrow>
               calculate_secondary_delay
                 (case base of None \<Rightarrow> l_secondary_rate_wait l1 | Some f \<Rightarrow> f)
                 (l_secondary_max_cap l1) (l_max_rate_limit_wait l1) subcommand l1)"

section \<open>Headers in the output\<close>

definition parse_int_safe :: "string \<Rightarrow> int option" where
  "parse_int_safe value = int_of_text (strip value)"

definition parse_float_safe :: "string \<Rightarrow> rat option" where
  "parse_float_safe value = float_of_text (strip value)"

definition seconds_until :: "string \<Rightarrow> limiter \<Rightarrow> seconds option \<times> limiter" where
  "seconds_until http_date l =
     (case l_http_date l (strip http_date) of
        None \<Rightarrow> (None, l)
      | Some t \<Rightarrow> let (now, l1) = tick l in (Some (max 0 (t - now)), l1))"

definition parse_retry_after :: "string \<Rightarrow> limiter \<Rightarrow> seconds option \<times> limiter" where
  "parse_retry_after value l =
     (case float_of_text (strip value) of
        Some x \<Rightarrow> (Some x, l)
      | None \<Rightarrow> seconds_until value l)"

definition parse_header_line :: "string \<Rightarrow> (string \<times> string) option" where
  "parse_header_line line =
     (if CHR '':'' \<notin> set line then None
      else Some (lower (strip (takeWhile (\<lambda>c. c \<noteq> CHR '':'') line)),
                 strip (tl (dropWhile (\<lambda>c. c \<noteq> CHR '':'') line))))"

definition is_line_break :: "char \<Rightarrow> bool" where
  "is_line_break c = (let n = of_char c :: nat in
     (10 \<le> n \<and> n \<le> 13) \<or> (28 \<le> n \<and> n \<le> 30) \<or> n = 133)"

fun splitlines :: "string \<Rightarrow> string list" where
  \<comment> \<open>\<open>str.splitlines\<close>; a carriage return and the line feed after it break once.\<close>
  "splitlines [] = []"
| "splitlines (c # s) =
     (if c = CHR 0x0D \<and> s \<noteq> [] \<and> hd s = CHR 0x0A then splitlines s
      else if is_line_break c then [] # splitlines s
      else case splitlines s of [] \<Rightarrow> [[c]] | w # ls \<Rightarrow> (c # w) # ls)"

record metrics =
  mt_remaining :: "int option"
  mt_limit :: "int option"
  mt_used :: "int option"
  mt_reset :: "instant option"
  mt_retry_after :: "seconds option"

definition no_metrics :: metrics where
  "no_metrics = \<lparr>mt_remaining = None, mt_limit = None, mt_used = None, mt_reset = None,
     mt_retry_after = None\<rparr>"

definition process_header :: "string \<Rightarrow> string \<Rightarrow> metrics \<Rightarrow> limiter \<Rightarrow> metrics \<times> limiter" where
  "process_header hdr val m l =
     (if hdr = ''x-ratelimit-remaining'' then (m\<lparr>mt_remaining := parse_int_safe val\<rparr>, l)
      else if hdr = ''x-ratelimit-limit'' then (m\<lparr>mt_limit := parse_int_safe val\<rparr>, l)
      else if hdr = ''x-ratelimit-used'' then (m\<lparr>mt_used := parse_int_safe val\<rparr>, l)
      else if hdr = ''x-ratelimit-reset'' then (m\<lparr>mt_reset := parse_float_safe val\<rparr>, l)
      else if hdr = ''retry-after'' then
        (let (t, l1) = parse_retry_after val l in (m\<lparr>mt_retry_after := t\<rparr>, l1))
      else (m, l))"

fun process_header_lines :: "string list \<Rightarrow> metrics \<Rightarrow> limiter \<Rightarrow> metrics \<times> limiter" where
  "process_header_lines [] m l = (m, l)"
| "process_header_lines (line # ls) m l =
     (case parse_header_line line of
        None \<Rightarrow> process_header_lines ls m l
      | Some (hdr, val) \<Rightarrow>
          let (m1, l1) = process_header hdr val m l in process_header_lines ls m1 l1)"

definition process_header_metrics :: "string \<Rightarrow> limiter \<Rightarrow> metrics \<times> limiter" where
  "process_header_metrics output l = process_header_lines (splitlines output) no_metrics l"

text \<open>
  The search for \<open>retry after\<close> or \<open>retry-after\<close>, one or more colons and spaces, and a decimal
  number, whatever the case of the letters.
\<close>

definition number_at :: "string \<Rightarrow> string option" where
  "number_at s =
     (let whole = takeWhile is_digit s; rest = drop (length whole) s;
          frac = takeWhile is_digit (tl rest)
      in if whole = [] then None
         else if rest \<noteq> [] \<and> hd rest = CHR ''.'' \<and> frac \<noteq> [] then Some (whole @ ''.'' @ frac)
         else Some whole)"

definition retry_after_at :: "string \<Rightarrow> string option" where
  "retry_after_at s =
     (let low = lower s; after = drop 11 s;
          rest = dropWhile (\<lambda>c. c = CHR '':'' \<or> is_space c) after
      in if (prefix ''retry-after'' low \<or> prefix ''retry after'' low) \<and> rest \<noteq> after
         then number_at rest else None)"

fun search_retry_after :: "string \<Rightarrow> string option" where
  "search_retry_after [] = None"
| "search_retry_after (c # s) =
     (case retry_after_at (c # s) of Some n \<Rightarrow> Some n | None \<Rightarrow> search_retry_after s)"

definition extract_retry_after :: "string \<Rightarrow> limiter \<Rightarrow> seconds option \<times> limiter" where
  "extract_retry_after message l =
     (if message = [] then (None, l)
      else let (m, l1) = process_header_metrics message l
           in case mt_retry_after m of
                Some t \<Rightarrow> (Some t, l1)
              | None \<Rightarrow>
                  (case search_retry_after message of
                     None \<Rightarrow> (None, l1)
                   | Some n \<Rightarrow>
                       (case parse_float_safe n of
                          Some v \<Rightarrow> (if v \<ge> 0 then Some v else None, l1)
                        | None \<Rightarrow> (None, l1))))"

definition calculate_backoff_delay ::
  "string \<Rightarrow> string \<Rightarrow> limiter \<Rightarrow> (gh_error + seconds) \<times> limiter" where
  "calculate_backoff_delay message subcommand l =
     (if \<not> is_gh_rate_limited message then (Inr 0, l)
      else let (t, l1) = extract_retry_after message l in retry_delay t subcommand None l1)"

end
