(* ===== verification/Cache.thy ===== *)
theory Cache
  imports Pacing
begin

text \<open>
  The response cache of a limiter, in memory and as one file for each key:
  \<^verbatim>\<open>get_cached\<close>, \<^verbatim>\<open>set_cached\<close>, \<^verbatim>\<open>clear_cache\<close> and \<^verbatim>\<open>prune_expired_cache\<close> of
  \<^verbatim>\<open>src/devops_cli/github/rate_limiter.py\<close>. A file is named by the SHA-256 of its key; the model
  names it by the key itself, so distinct keys have distinct files. A file holds \<open>None\<close> when its text
  is no JSON or cannot be read. Writing and deleting a file succeed.
\<close>

definition cache_ttl_default :: seconds where
  "cache_ttl_default = 60"

text \<open>\<open>data.get\<close> on a file that holds JSON but no object is an \<open>AttributeError\<close>, which nothing catches.\<close>

definition is_expired_or_corrupt :: "json option \<Rightarrow> instant \<Rightarrow> py_error + bool" where
  "is_expired_or_corrupt file now =
     (case file of
        None \<Rightarrow> Inr True
      | Some v \<Rightarrow>
          if \<not> is_obj v then Inl AttributeError
          else case float_or_zero v ''expires_at'' of
                 Inl _ \<Rightarrow> Inr True
               | Inr expires_at \<Rightarrow> Inr (now > expires_at))"

fun prune_disk_cache ::
  "instant \<Rightarrow> (string, json option) dict \<Rightarrow> (py_error + nat) \<times> (string, json option) dict" where
  "prune_disk_cache now [] = (Inr 0, [])"
| "prune_disk_cache now ((k, file) # rest) =
     (case is_expired_or_corrupt file now of
        Inl e \<Rightarrow> (Inl e, (k, file) # rest)
      | Inr True \<Rightarrow>
          (case prune_disk_cache now rest of
             (Inl e, rest') \<Rightarrow> (Inl e, rest')
           | (Inr n, rest') \<Rightarrow> (Inr (Suc n), rest'))
      | Inr False \<Rightarrow>
          (case prune_disk_cache now rest of (r, rest') \<Rightarrow> (r, (k, file) # rest')))"

definition cache_text :: "limiter \<Rightarrow> json \<Rightarrow> string" where
  \<comment> \<open>\<open>str(data.get("data", ""))\<close>\<close>
  "cache_text l v =
     (case v of
        JObj kvs \<Rightarrow>
          (case map_of kvs ''data'' of None \<Rightarrow> [] | Some (JStr s) \<Rightarrow> s | Some w \<Rightarrow> l_repr l w)
      | _ \<Rightarrow> [])"

definition load_disk_cache :: "string \<Rightarrow> limiter \<Rightarrow> (py_error + cache_entry option) \<times> limiter" where
  "load_disk_cache key l =
     (case dict_get (l_responses l) key of
        None \<Rightarrow> (Inr None, l)
      | Some None \<Rightarrow> (Inr None, l)
      | Some (Some v) \<Rightarrow>
          if \<not> is_obj v then (Inl AttributeError, l)
          else case float_or_zero v ''expires_at'' of
                 Inl _ \<Rightarrow> (Inr None, l)
               | Inr expires_at \<Rightarrow>
                   let (now, l1) = tick l
                   in if now > expires_at
                      then (Inr None, l1\<lparr>l_responses := dict_del key (l_responses l1)\<rparr>)
                      else (Inr (Some \<lparr>ce_data = cache_text l1 v, ce_expires = expires_at\<rparr>), l1))"

definition save_disk_cache :: "string \<Rightarrow> cache_entry \<Rightarrow> limiter \<Rightarrow> limiter" where
  "save_disk_cache key entry l =
     l\<lparr>l_responses := dict_set key
        (Some (JObj [(''expires_at'', JFloat (ce_expires entry)), (''data'', JStr (ce_data entry))]))
        (l_responses l)\<rparr>"

definition read_disk_cached :: "string \<Rightarrow> limiter \<Rightarrow> (py_error + string option) \<times> limiter" where
  \<comment> \<open>The part of \<open>get_cached\<close> after the entry in memory was found missing or expired.\<close>
  "read_disk_cached key l =
     (if \<not> l_persist l then (Inr None, l)
      else case load_disk_cache key l of
             (Inl e, l1) \<Rightarrow> (Inl e, l1)
           | (Inr None, l1) \<Rightarrow> (Inr None, l1)
           | (Inr (Some entry), l1) \<Rightarrow>
               (Inr (Some (ce_data entry)), l1\<lparr>l_cache := dict_set key entry (l_cache l1)\<rparr>))"

definition get_cached :: "string \<Rightarrow> limiter \<Rightarrow> (py_error + string option) \<times> limiter" where
  "get_cached key l =
     (let (now, l1) = tick l
      in case dict_get (l_cache l1) key of
           None \<Rightarrow> read_disk_cached key l1
         | Some entry \<Rightarrow>
             if now \<le> ce_expires entry then (Inr (Some (ce_data entry)), l1)
             else read_disk_cached key (l1\<lparr>l_cache := dict_del key (l_cache l1)\<rparr>))"

definition prune_expired_cache :: "limiter \<Rightarrow> (py_error + nat) \<times> limiter" where
  "prune_expired_cache l =
     (let (now, l1) = tick l;
          expired = filter (\<lambda>(k, e). now > ce_expires e) (l_cache l1);
          l2 = l1\<lparr>l_last_prune := now,
                  l_cache := filter (\<lambda>(k, e). \<not> now > ce_expires e) (l_cache l1)\<rparr>
      in if \<not> l_persist l2 then (Inr (length expired), l2)
         else case prune_disk_cache now (l_responses l2) of
                (Inl e, files) \<Rightarrow> (Inl e, l2\<lparr>l_responses := files\<rparr>)
              | (Inr n, files) \<Rightarrow> (Inr (length expired + n), l2\<lparr>l_responses := files\<rparr>))"

definition set_cached :: "string \<Rightarrow> string \<Rightarrow> seconds \<Rightarrow> limiter \<Rightarrow> (py_error + unit) \<times> limiter" where
  "set_cached key data ttl l =
     (let (now, l1) = tick l;
          entry = \<lparr>ce_data = data, ce_expires = now + ttl\<rparr>;
          l2 = l1\<lparr>l_cache := dict_set key entry (l_cache l1)\<rparr>
      in if \<not> l_persist l2 then (Inr (), l2)
         else let (now2, l3) = tick (save_disk_cache key entry l2)
              in if now2 - l_last_prune l3 > cache_ttl_default
                 then case prune_expired_cache l3 of
                        (Inl e, l4) \<Rightarrow> (Inl e, l4)
                      | (Inr _, l4) \<Rightarrow> (Inr (), l4)
                 else (Inr (), l3))"

definition clear_cache :: "limiter \<Rightarrow> limiter" where
  "clear_cache l = l\<lparr>l_cache := [], l_responses := (if l_persist l then [] else l_responses l)\<rparr>"

text \<open>The constructor's last step: a limiter with a ledger reads it and prunes the cache.\<close>

definition open_limiter :: "limiter \<Rightarrow> py_error + limiter" where
  "open_limiter l =
     (if \<not> l_persist l then Inr l
      else case prune_expired_cache (sync_from_disk l) of
             (Inl e, _) \<Rightarrow> Inl e
           | (Inr _, l1) \<Rightarrow> Inr l1)"

end
