(* ===== verification/GhRun.thy ===== *)
theory GhRun
  imports Cache
begin

text \<open>
  Running gh under the limiter: the resource a command spends, whether its answer may be cached,
  and \<^verbatim>\<open>run_gh\<close> with its retry loop, of \<^verbatim>\<open>src/devops_cli/github/rate_limiter.py\<close>. What
  argparse reads in gh's argv is a parameter (\<open>argv_reader\<close>): the group and verb of a command, the
  arguments of \<open>gh api\<close>, and the request those describe, together with graphql-core's verdict on
  a document.
\<close>

section \<open>What a command asks for\<close>

record gh_api_args =
  ga_endpoint :: "string option"
  ga_method :: string
  ga_has_params :: bool
  ga_prints_body :: bool
  ga_hostname :: "string option"

record argv_reader =
  av_words :: "string list \<Rightarrow> (string option \<times> string option) option"
  av_api :: "string list \<Rightarrow> gh_api_args option"
  av_request :: "string list \<Rightarrow> gh_request option"
  av_query :: "string \<Rightarrow> string option \<Rightarrow> bool"

definition normalize_gh_args :: "string list \<Rightarrow> string list" where
  "normalize_gh_args args = (if args \<noteq> [] \<and> hd args = ''gh'' then tl args else args)"

definition graphql_groups :: "string list" where
  "graphql_groups = [''project'']"

definition graphql_porcelain_commands :: "(string \<times> string) list" where
  "graphql_porcelain_commands =
     [(''issue'', ''create''), (''issue'', ''list''), (''issue'', ''view''), (''pr'', ''checks''),
      (''pr'', ''close''), (''pr'', ''create''), (''pr'', ''edit''), (''pr'', ''list''),
      (''pr'', ''ready''), (''pr'', ''view''), (''release'', ''list'')]"

definition read_verbs :: "string list" where
  "read_verbs = [''view'', ''list'', ''status'', ''checks'', ''diff'', ''show'', ''item-list'',
     ''field-list'']"

definition read_groups :: "string list" where
  "read_groups = [''search'']"

definition cacheable_cli_groups :: "string list" where
  "cacheable_cli_groups = [''pr'', ''issue'', ''project'', ''label'', ''milestone'', ''repo'',
     ''workflow'', ''run'']"

definition detect_porcelain_resource :: "argv_reader \<Rightarrow> string list \<Rightarrow> string" where
  "detect_porcelain_resource av clean_args =
     (case av_words av clean_args of
        None \<Rightarrow> ''core''
      | Some (None, _) \<Rightarrow> ''core''
      | Some (Some grp, verb) \<Rightarrow>
          if lower grp \<in> set graphql_groups then ''graphql''
          else if (case verb of None \<Rightarrow> False
                   | Some v \<Rightarrow> (lower grp, lower v) \<in> set graphql_porcelain_commands)
          then ''graphql''
          else if lower grp = ''search'' then
            (if map_option lower verb = Some ''code'' then ''code_search'' else ''search'')
          else ''core'')"

definition clean_endpoint :: "string \<Rightarrow> string" where
  "clean_endpoint endpoint =
     lower (takeWhile (\<lambda>c. c \<noteq> CHR ''?'') (dropWhile (\<lambda>c. c = CHR ''/'') (strip endpoint)))"

definition detect_api_resource :: "argv_reader \<Rightarrow> string list \<Rightarrow> string" where
  "detect_api_resource av api_args =
     (case av_api av api_args of
        None \<Rightarrow> ''core''
      | Some a \<Rightarrow>
          (case ga_endpoint a of
             None \<Rightarrow> ''core''
           | Some endpoint \<Rightarrow>
               let clean = clean_endpoint endpoint; parts = split_on (CHR ''/'') clean
               in if clean = ''graphql'' then ''graphql''
                  else if clean = ''search/code'' \<or> prefix ''search/code/'' clean then ''code_search''
                  else if clean = ''search'' \<or> prefix ''search/'' clean then ''search''
                  else if 5 \<le> length parts \<and> parts ! 0 = ''repos'' then
                    (if parts ! 3 = ''dependency-graph'' \<and> parts ! 4 = ''sbom'' then ''dependency_sbom''
                     else if 6 \<le> length parts
                        \<and> (parts ! 3 = ''code-scanning'' \<or> parts ! 3 = ''code_scanning'')
                        \<and> ''autofix'' \<in> set (drop 4 parts) then ''code_scanning_autofix''
                     else ''core'')
                  else ''core''))"

definition detect_resource :: "argv_reader \<Rightarrow> string list \<Rightarrow> string" where
  "detect_resource av args =
     (let clean_args = normalize_gh_args args
      in if clean_args = [] then ''core''
         else if lower (hd clean_args) = ''api'' then detect_api_resource av (tl clean_args)
         else detect_porcelain_resource av clean_args)"

definition gh_request_resource :: "argv_reader \<Rightarrow> string list \<Rightarrow> string" where
  "gh_request_resource av args = detect_resource av (normalize_gh_args args)"

definition non_api_commands :: "string list" where
  "non_api_commands = [''auth'', ''version'', ''--version'', ''help'', ''--help'']"

definition is_local_gh_command :: "string list \<Rightarrow> bool" where
  "is_local_gh_command gh_args = (gh_args = [] \<or> lower (hd gh_args) \<in> set non_api_commands)"

definition without_gh :: "string list \<Rightarrow> string list" where
  "without_gh args = map lower (filter (\<lambda>a. a \<noteq> ''gh'') args)"

definition is_rate_limit_check :: "string list \<Rightarrow> bool" where
  "is_rate_limit_check args =
     (let clean = without_gh args
      in 2 \<le> length clean \<and> clean ! 0 = ''api''
         \<and> dropWhile (\<lambda>c. c = CHR ''/'') (clean ! 1) = ''rate_limit'')"

definition prints_rate_limit_answer :: "argv_reader \<Rightarrow> string list \<Rightarrow> bool" where
  "prints_rate_limit_answer av args =
     (is_rate_limit_check args \<and>
      (case av_api av (tl args) of
         None \<Rightarrow> False
       | Some a \<Rightarrow> ga_prints_body a
           \<and> (ga_hostname a = None \<or> ga_hostname a = Some ''github.com'')))"

definition is_rate_limit_exempt :: "string list \<Rightarrow> bool" where
  "is_rate_limit_exempt args =
     (let clean = without_gh args
      in clean \<noteq> [] \<and> (is_local_gh_command clean \<or> is_rate_limit_check clean))"

definition gh_request_is_paced :: "string list \<Rightarrow> bool" where
  "gh_request_is_paced args = (\<not> is_rate_limit_exempt (normalize_gh_args args))"

definition is_write_gh_command :: "argv_reader \<Rightarrow> string list \<Rightarrow> bool" where
  "is_write_gh_command av args =
     (if args \<noteq> [] \<and> hd args = ''api'' then
        (case av_request av (tl args) of None \<Rightarrow> True | Some r \<Rightarrow> is_write_request (av_query av) r)
      else case av_words av args of
             None \<Rightarrow> True
           | Some (grp, verb) \<Rightarrow>
               if (case grp of None \<Rightarrow> False | Some g \<Rightarrow> g \<in> set read_groups) then False
               else (case verb of None \<Rightarrow> True | Some v \<Rightarrow> v \<notin> set read_verbs))"

section \<open>Whether an answer may be cached\<close>

fun join_with :: "string \<Rightarrow> string list \<Rightarrow> string" where
  "join_with sep [] = []"
| "join_with sep [w] = w"
| "join_with sep (w # ws) = w @ sep @ join_with sep ws"

definition sensitive_markers :: "string list" where
  "sensitive_markers = [''token'', ''authorization'', ''bearer'', ''password'', ''secret'', ''cookie'']"

definition is_sensitive_command :: "string list \<Rightarrow> bool" where
  "is_sensitive_command args =
     list_ex (\<lambda>m. contains m (lower (join_with '' '' args))) sensitive_markers"

definition is_cacheable_cli_read :: "argv_reader \<Rightarrow> string list \<Rightarrow> bool" where
  "is_cacheable_cli_read av args =
     (case av_words av args of
        Some (Some grp, Some verb) \<Rightarrow> grp \<in> set cacheable_cli_groups \<and> verb \<in> set read_verbs
      | _ \<Rightarrow> False)"

definition is_cacheable_api_call :: "argv_reader \<Rightarrow> string list \<Rightarrow> bool" where
  "is_cacheable_api_call av args =
     (case av_api av (tl args) of
        None \<Rightarrow> False | Some a \<Rightarrow> ga_method a = ''GET'' \<and> \<not> ga_has_params a)"

definition should_cache :: "argv_reader \<Rightarrow> string list \<Rightarrow> bool \<Rightarrow> string option \<Rightarrow> bool" where
  "should_cache av args use_cache input =
     (if \<not> use_cache \<or> \<not> falsy input \<or> args = [] then False
      else if is_sensitive_command args then False
      else if is_cacheable_cli_read av args then True
      else if hd args = ''api'' then is_cacheable_api_call av args
      else False)"

text \<open>The key of a command without an input: only such a command is cached.\<close>

definition build_cache_key :: "string list \<Rightarrow> string" where
  "build_cache_key args = ''gh:'' @ join_with '':'' args"

section \<open>Reading an answer\<close>

definition parse_reset_at :: "limiter \<Rightarrow> json \<Rightarrow> py_error + instant option" where
  \<comment> \<open>\<open>parse_reset_epoch(str(reset_at)) if reset_at else None\<close>\<close>
  "parse_reset_at l reset_at =
     (if \<not> json_truthy reset_at then Inr None
      else case l_iso_time l reset_at of None \<Rightarrow> Inl ValueError | Some t \<Rightarrow> Inr (Some t))"

definition charge_reported_cost :: "json \<Rightarrow> limiter \<Rightarrow> (py_error + unit) \<times> limiter" where
  \<comment> \<open>A JSON boolean is an \<open>int\<close> of Python.\<close>
  "charge_reported_cost cost l =
     (case cost of
        JInt n \<Rightarrow> charge_points ''graphql'' n l
      | JBool b \<Rightarrow> charge_points ''graphql'' (if b then 1 else 0) l
      | _ \<Rightarrow> (Inr (), l))"

definition track_reported_quota :: "json \<Rightarrow> limiter \<Rightarrow> (py_error + unit) \<times> limiter" where
  "track_reported_quota rl l =
     (if jget rl ''remaining'' = JNull then (Inr (), l)
      else case parse_reset_at l (jget rl ''resetAt'') of
             Inl e \<Rightarrow> (Inl e, l)
           | Inr epoch \<Rightarrow>
               (case py_int (jget rl ''remaining'') of
                  Inl e \<Rightarrow> (Inl e, l)
                | Inr remaining \<Rightarrow>
                    (case optional py_int (jget rl ''limit'') of
                       Inl e \<Rightarrow> (Inl e, l)
                     | Inr limit \<Rightarrow>
                         (case optional py_int (jget rl ''used'') of
                            Inl e \<Rightarrow> (Inl e, l)
                          | Inr used \<Rightarrow> update_quota ''graphql'' remaining epoch limit used l))))"

definition extract_graphql_ratelimit_json :: "string \<Rightarrow> limiter \<Rightarrow> (py_error + unit) \<times> limiter" where
  "extract_graphql_ratelimit_json output l =
     (let rl = jget (jget (extract_json_payload (l_loads l) output) ''data'') ''rateLimit''
      in if \<not> is_obj rl then (Inr (), l)
         else case charge_reported_cost (jget rl ''cost'') l of
                (Inl e, l1) \<Rightarrow> (Inl e, l1)
              | (Inr (), l1) \<Rightarrow> track_reported_quota rl l1)"

definition extract_header_ratelimit :: "string \<Rightarrow> string \<Rightarrow> limiter \<Rightarrow> (py_error + unit) \<times> limiter" where
  "extract_header_ratelimit output resource l =
     (let (m, l1) = process_header_metrics output l
      in case mt_remaining m of
           None \<Rightarrow> (Inr (), l1)
         | Some remaining \<Rightarrow> update_quota resource remaining (mt_reset m) (mt_limit m) (mt_used m) l1)"

definition parse_rate_limit_from_output ::
  "string \<Rightarrow> string \<Rightarrow> limiter \<Rightarrow> (py_error + unit) \<times> limiter" where
  "parse_rate_limit_from_output output resource l =
     (if output = [] then (Inr (), l)
      else case (if resource = ''graphql'' then extract_graphql_ratelimit_json output l
                 else (Inr (), l)) of
             (Inl e, l1) \<Rightarrow> (Inl e, l1)
           | (Inr (), l1) \<Rightarrow> extract_header_ratelimit output resource l1)"

definition raised :: "(py_error + 'a) \<times> 's \<Rightarrow> (gh_error + 'a) \<times> 's" where
  \<comment> \<open>A built-in error that passes through unchanged.\<close>
  "raised r = (case r of (Inl e, s) \<Rightarrow> (Inl (PyError e), s) | (Inr x, s) \<Rightarrow> (Inr x, s))"

definition post_process_run ::
  "proc \<Rightarrow> string \<Rightarrow> bool \<Rightarrow> bool \<Rightarrow> limiter \<Rightarrow> (gh_error + unit) \<times> limiter" where
  "post_process_run p resource reads_quota is_exempt l =
     (if reads_quota then
        (if returncode p = 0 \<and> p_stdout p \<noteq> []
         then case extract_rate_limit_endpoint_response (p_stdout p) l of
                (Inl e, l1) \<Rightarrow> (Inl e, l1)
              | (Inr _, l1) \<Rightarrow> (Inr (), l1)
         else (Inr (), l))
      else if is_exempt then (Inr (), l)
      else case raised (parse_rate_limit_from_output (p_stdout p) resource l) of
             (Inl e, l1) \<Rightarrow> (Inl e, l1)
           | (Inr (), l1) \<Rightarrow>
               if p_stderr p = [] then (Inr (), l1)
               else raised (parse_rate_limit_from_output (p_stderr p) resource l1))"

section \<open>Attempts\<close>

text \<open>What \<open>run_gh\<close> has decided about a command before its first attempt.\<close>

record gh_call =
  gc_resource :: string
  gc_reads_quota :: bool
  gc_exempt :: bool
  gc_mutation :: bool
  gc_cost :: int
  gc_max_retries :: nat
  gc_caches :: bool
  gc_key :: string
  gc_ttl :: seconds
  gc_timeout :: string

definition timed_out :: "string \<Rightarrow> proc" where
  "timed_out t = \<lparr>returncode = 124, p_stdout = [],
     p_stderr = ''GitHub API command timed out after '' @ t @ '' seconds''\<rparr>"

definition paced_attempt ::
  "'g gate \<Rightarrow> gh_call \<Rightarrow> 'g \<times> limiter \<Rightarrow> (gh_error + unit) \<times> 'g \<times> limiter" where
  \<comment> \<open>The turn an attempt waits for, unless the command is exempt.\<close>
  "paced_attempt gate c w =
     (if gc_exempt c then (Inr (), w)
      else case acquire gate (gc_resource c) None (gc_mutation c) (gc_cost c) w of
             (Inl e, w1) \<Rightarrow> (Inl e, w1)
           | (Inr _, g, l) \<Rightarrow> (Inr (), count_request (\<lambda>x. x) None g, l))"

definition execute_gh_single_attempt ::
  "'g gate \<Rightarrow> gh_call \<Rightarrow> 'g \<times> limiter \<Rightarrow> (gh_error + proc) \<times> 'g \<times> limiter" where
  "execute_gh_single_attempt gate c w =
     (case paced_attempt gate c w of
        (Inl e, w1) \<Rightarrow> (Inl e, w1)
      | (Inr (), g, l) \<Rightarrow>
          let (ran, l1) = run_subprocess l;
              p = (case ran of None \<Rightarrow> timed_out (gc_timeout c) | Some p \<Rightarrow> p)
          in case post_process_run p (gc_resource c) (gc_reads_quota c) (gc_exempt c) l1 of
               (Inl e, l2) \<Rightarrow> (Inl e, g, l2)
             | (Inr (), l2) \<Rightarrow> (Inr p, g, l2))"

definition pause :: "seconds \<Rightarrow> limiter \<Rightarrow> limiter" where
  "pause d l = l\<lparr>l_slept := l_slept l @ [d]\<rparr>"

definition handle_attempt_backoff ::
  "proc \<Rightarrow> nat \<Rightarrow> nat \<Rightarrow> string \<Rightarrow> limiter \<Rightarrow> (gh_error + bool) \<times> limiter" where
  "handle_attempt_backoff p attempt max_retries target_resource l =
     (if \<not> is_gh_rate_limited (p_stderr p) then (Inr False, l)
      else case calculate_backoff_delay (p_stderr p @ '' '' @ p_stdout p) target_resource l of
             (Inl e, l1) \<Rightarrow> (Inl e, l1)
           | (Inr backoff, l1) \<Rightarrow>
               if backoff \<le> 0 then (Inr False, l1)
               else let l2 = hold_requests backoff l1
                    in if max_retries \<le> attempt then (Inr False, l2)
                       else (Inr True, pause backoff (record_throttle backoff l2)))"

definition keep_answer :: "gh_call \<Rightarrow> proc \<Rightarrow> limiter \<Rightarrow> (gh_error + proc) \<times> limiter" where
  "keep_answer c p l =
     (if gc_caches c \<and> p_stdout p \<noteq> []
      then case set_cached (gc_key c) (p_stdout p) (gc_ttl c) l of
             (Inl e, l1) \<Rightarrow> (Inl (PyError e), l1)
           | (Inr (), l1) \<Rightarrow> (Inr p, l1)
      else (Inr p, l))"

fun gh_attempts ::
  "'g gate \<Rightarrow> gh_call \<Rightarrow> nat list \<Rightarrow> proc \<Rightarrow> 'g \<times> limiter \<Rightarrow> (gh_error + proc) \<times> 'g \<times> limiter" where
  "gh_attempts gate c [] last_res w = (Inr last_res, w)"
| "gh_attempts gate c (attempt # later) last_res w =
     (case execute_gh_single_attempt gate c w of
        (Inl e, w1) \<Rightarrow> (Inl e, w1)
      | (Inr p, g, l) \<Rightarrow>
          if returncode p = 0 then (case keep_answer c p l of (r, l1) \<Rightarrow> (r, g, l1))
          else case handle_attempt_backoff p attempt (gc_max_retries c) (gc_resource c) l of
                 (Inl e, l1) \<Rightarrow> (Inl e, g, l1)
               | (Inr False, l1) \<Rightarrow> (Inr p, g, l1)
               | (Inr True, l1) \<Rightarrow> gh_attempts gate c later p (g, l1))"

definition run_gh_retry_loop ::
  "'g gate \<Rightarrow> gh_call \<Rightarrow> 'g \<times> limiter \<Rightarrow> (gh_error + proc) \<times> 'g \<times> limiter" where
  "run_gh_retry_loop gate c w =
     gh_attempts gate c [0 ..< gc_max_retries c + 1]
       \<lparr>returncode = 1, p_stdout = [], p_stderr = []\<rparr> w"

definition calculate_effective_cost :: "string list \<Rightarrow> string \<Rightarrow> int \<Rightarrow> int" where
  "calculate_effective_cost clean_args target_resource cost =
     (if cost \<noteq> 1 then cost
      else if target_resource = ''graphql'' \<or> (clean_args \<noteq> [] \<and> hd clean_args = ''project'') then 2
      else cost)"

definition raise_for_status :: "proc \<Rightarrow> bool \<Rightarrow> gh_error + proc" where
  "raise_for_status p check =
     (if check \<and> returncode p \<noteq> 0 then Inl (CalledProcessError (returncode p)) else Inr p)"

definition check_cached_result ::
  "argv_reader \<Rightarrow> string list \<Rightarrow> string option \<Rightarrow> bool \<Rightarrow> limiter
   \<Rightarrow> (py_error + proc option) \<times> limiter" where
  "check_cached_result av args input use_cache l =
     (if \<not> should_cache av args use_cache input then (Inr None, l)
      else case get_cached (build_cache_key args) l of
             (Inl e, l1) \<Rightarrow> (Inl e, l1)
           | (Inr None, l1) \<Rightarrow> (Inr None, l1)
           | (Inr (Some out), l1) \<Rightarrow>
               (Inr (Some \<lparr>returncode = 0, p_stdout = out, p_stderr = []\<rparr>), l1))"

record gh_options =
  go_input :: "string option"
  go_check :: bool
  go_use_cache :: bool
  go_ttl :: seconds
  go_timeout :: string
  go_max_retries :: nat
  go_resource :: "string option"
  go_cost :: int

definition gh_call_of :: "argv_reader \<Rightarrow> string list \<Rightarrow> gh_options \<Rightarrow> gh_call" where
  \<comment> \<open>The decisions of \<open>run_gh\<close> on an argv without its leading gh.\<close>
  "gh_call_of av clean_args opts =
     (let target = (if falsy (go_resource opts) then detect_resource av clean_args
                    else the (go_resource opts));
          exempt = is_rate_limit_exempt clean_args
      in \<lparr>gc_resource = target,
          gc_reads_quota = prints_rate_limit_answer av clean_args,
          gc_exempt = exempt,
          gc_mutation = (\<not> exempt \<and> is_write_gh_command av clean_args),
          gc_cost = calculate_effective_cost clean_args target (go_cost opts),
          gc_max_retries = go_max_retries opts,
          gc_caches = should_cache av clean_args (go_use_cache opts) (go_input opts),
          gc_key = build_cache_key clean_args,
          gc_ttl = go_ttl opts,
          gc_timeout = go_timeout opts\<rparr>)"

definition run_local_gh :: "bool \<Rightarrow> limiter \<Rightarrow> (gh_error + proc) \<times> limiter" where
  "run_local_gh check l =
     (case run_subprocess l of
        (None, l1) \<Rightarrow> (Inl TimeoutExpired, l1)
      | (Some p, l1) \<Rightarrow> (raise_for_status p check, l1))"

definition run_gh ::
  "argv_reader \<Rightarrow> 'g gate \<Rightarrow> string list \<Rightarrow> gh_options \<Rightarrow> 'g \<times> limiter
   \<Rightarrow> (gh_error + proc) \<times> 'g \<times> limiter" where
  "run_gh av gate args opts w =
     (let clean_args = normalize_gh_args args; (g, l) = w
      in if is_local_gh_command clean_args
         then (case run_local_gh (go_check opts) l of (r, l1) \<Rightarrow> (r, g, l1))
         else case check_cached_result av clean_args (go_input opts) (go_use_cache opts) l of
                (Inl e, l1) \<Rightarrow> (Inl (PyError e), g, l1)
              | (Inr (Some p), l1) \<Rightarrow> (Inr p, g, l1)
              | (Inr None, l1) \<Rightarrow>
                  (case run_gh_retry_loop gate (gh_call_of av clean_args opts) (g, l1) of
                     (Inl e, w1) \<Rightarrow> (Inl e, w1)
                   | (Inr p, w1) \<Rightarrow> (raise_for_status p (go_check opts), w1)))"

end
