(* ===== verification/LimiterFacts.thy ===== *)
theory LimiterFacts
  imports GhRun
begin

text \<open>
  What every operation of a limiter leaves alone and what it keeps: the parts of the state a
  refresh never touches, the figures that stay non-negative, and the properties of the ledger,
  the pacing, the retries and the cache that rest on them.
\<close>

section \<open>What a refresh leaves alone\<close>

text \<open>The settings, the schedule and the environment; a refresh changes quotas, totals, the ledger,
  and how far the clock and the answers were read.\<close>

definition schedule_part where
  "schedule_part l = (l_last_mutation l, l_mutation_min_interval l, l_next_allowed l,
     l_held_until l, l_clock l, l_min_interval l, l_quota_max_age l, l_paced l, l_cache l, l_slept l,
     l_max_rate_limit_wait l, l_persist l, l_answers l, l_loads l, l_points l, l_secondary_max_cap l,
     l_secondary_rate_wait l, l_jitter l, l_draws l, l_responses l, l_http_date l, l_iso_time l)"

lemma unit_case [simp]: "case_unit x u = x"
  by (metis (full_types) unit.case old.unit.exhaust)

lemmas flow = case_prod_beta Let_def

lemma schedule_tick [simp]: "schedule_part (snd (tick l)) = schedule_part l"
  by (simp add: tick_def schedule_part_def)

lemma fst_tick [simp]: "fst (tick l) = l_clock l (l_ticks l)"
  by (simp add: tick_def)

lemma schedule_persist [simp]: "schedule_part (persist_to_disk l) = schedule_part l"
  by (simp add: persist_to_disk_def schedule_part_def)

lemma schedule_quotas [simp]: "schedule_part (l\<lparr>l_quotas := qs\<rparr>) = schedule_part l"
  by (simp add: schedule_part_def)

lemma schedule_run_subprocess [simp]: "schedule_part (snd (run_subprocess l)) = schedule_part l"
  by (simp add: run_subprocess_def schedule_part_def)

lemma schedule_sync [simp]: "schedule_part (sync_from_disk l) = schedule_part l"
  by (simp add: sync_from_disk_def schedule_part_def tick_def flow)

lemma schedule_apply_quota_update [simp]:
  "schedule_part (snd (apply_quota_update k r t li u now l)) = schedule_part l"
  by (simp add: apply_quota_update_def flow split: option.split sum.split)

lemma schedule_update_quota [simp]: "schedule_part (snd (update_quota k r t li u l)) = schedule_part l"
  by (simp add: update_quota_def apply_quota_update_locked_def flow split: sum.split)

lemma schedule_update_single [simp]:
  "schedule_part (snd (update_single_resource_quota k v l)) = schedule_part l"
  by (simp add: update_single_resource_quota_def flow split: sum.split)

lemma schedule_update_resources [simp]:
  "schedule_part (snd (update_resources rs l)) = schedule_part l"
  by (induction rs arbitrary: l) (auto simp: flow split: sum.split)

lemma schedule_extract_response [simp]:
  "schedule_part (snd (extract_rate_limit_endpoint_response out l)) = schedule_part l"
  by (simp add: extract_rate_limit_endpoint_response_def flow split: json.split)

lemma schedule_refresh [simp]: "schedule_part (snd (refresh_from_github l)) = schedule_part l"
  by (simp add: refresh_from_github_def flow split: option.split)

lemma schedule_refresh_quota_state [simp]:
  "schedule_part (snd (refresh_quota_state k l)) = schedule_part l"
  by (simp add: refresh_quota_state_def flow split: option.split sum.split)

lemma schedule_resolve [simp]: "schedule_part (snd (resolve_quota_state k l)) = schedule_part l"
  by (simp add: resolve_quota_state_def flow split: option.split)

lemma schedule_calculate_delay [simp]: "schedule_part (snd (calculate_delay k l)) = schedule_part l"
  by (simp add: calculate_delay_def flow split: sum.split)

lemma schedule_target_delay [simp]:
  "schedule_part (snd (calculate_target_delay k m l)) = schedule_part l"
  by (simp add: calculate_target_delay_def flow split: sum.split)

lemma schedule_charge [simp]: "schedule_part (snd (charge_turn k now c l)) = schedule_part l"
  by (simp add: charge_turn_def flow split: option.split sum.split)

lemma charge_keeps [simp]:
  "l_last_request (snd (charge_turn k now c l)) = l_last_request l"
  "l_total_requests (snd (charge_turn k now c l)) = l_total_requests l"
  by (simp_all add: charge_turn_def tick_def flow split: option.split sum.split)

lemma persist_keeps [simp]:
  "l_last_request (persist_to_disk l) = l_last_request l"
  "l_quotas (persist_to_disk l) = l_quotas l"
  "l_ticks (persist_to_disk l) = l_ticks l"
  "l_runs (persist_to_disk l) = l_runs l"
  "l_total_requests (persist_to_disk l) = l_total_requests l"
  "l_total_throttles (persist_to_disk l) = l_total_throttles l"
  "l_total_wait (persist_to_disk l) = l_total_wait l"
  by (simp_all add: persist_to_disk_def)

lemma schedule_fields:
  assumes "schedule_part l' = schedule_part l"
  shows "l_last_mutation l' = l_last_mutation l"
    "l_mutation_min_interval l' = l_mutation_min_interval l"
    "l_next_allowed l' = l_next_allowed l" "l_held_until l' = l_held_until l"
    "l_clock l' = l_clock l" "l_min_interval l' = l_min_interval l"
    "l_quota_max_age l' = l_quota_max_age l" "l_paced l' = l_paced l" "l_cache l' = l_cache l"
    "l_slept l' = l_slept l" "l_max_rate_limit_wait l' = l_max_rate_limit_wait l"
    "l_persist l' = l_persist l" "l_points l' = l_points l"
    "l_secondary_max_cap l' = l_secondary_max_cap l" "l_responses l' = l_responses l"
  using assms by (simp_all add: schedule_part_def)

section \<open>A turn\<close>

definition turn_start :: "limiter \<Rightarrow> instant" where
  \<comment> \<open>The clock reading a turn is scheduled from.\<close>
  "turn_start l = l_clock l (l_ticks (sync_from_disk l))"

lemma clock_sync [simp]: "l_clock (sync_from_disk l) = l_clock l"
  by (rule schedule_fields) simp

lemma acquire_lockedE:
  assumes "acquire_locked t m c l = (Inr d, l')"
  obtains delay l2 p s where
    "calculate_target_delay t m (snd (tick (sync_from_disk l))) = (Inr delay, l2)"
    "schedule_part l2 = schedule_part l"
    "p = paced_time_of l2 t (turn_start l) delay" "s = (if m then write_slot l2 p else p)"
    "d = max 0 (s - turn_start l)" "l_last_request l' = turn_start l + d"
    "l_last_mutation l' = (if m then s else l_last_mutation l)"
    "l_held_until l' = l_held_until l" "l_next_allowed l' = dict_set t p (l_next_allowed l)"
    "l_mutation_min_interval l' = l_mutation_min_interval l" "l_clock l' = l_clock l"
    "l_paced l' = l_paced l"
proof -
  obtain l1 where now: "tick (sync_from_disk l) = (turn_start l, l1)"
    by (simp add: turn_start_def tick_def)
  have l1: "l1 = snd (tick (sync_from_disk l))" using now by simp
  obtain r l2 where r: "calculate_target_delay t m l1 = (r, l2)"
    by (cases "calculate_target_delay t m l1")
  have sch: "schedule_part l2 = schedule_part l"
    by (metis schedule_target_delay schedule_tick schedule_sync snd_conv r l1)
  from assms r now obtain delay where delay: "r = Inr delay"
    by (cases r) (auto simp: acquire_locked_def)
  let ?p = "paced_time_of l2 t (turn_start l) delay"
  let ?s = "if m then write_slot l2 ?p else ?p"
  let ?d = "max 0 (?s - turn_start l)"
  let ?l3 = "l2\<lparr>l_next_allowed := dict_set t ?p (l_next_allowed l2),
    l_last_request := turn_start l + ?d, l_last_mutation := (if m then ?s else l_last_mutation l2)\<rparr>"
  let ?c = "charge_turn t (turn_start l) c ?l3"
  have eq: "acquire_locked t m c l = (case ?c of (Inl e, l4) \<Rightarrow> (Inl e, l4)
      | (Inr (), l4) \<Rightarrow> (Inr ?d, persist_to_disk (l4\<lparr>l_total_requests := l_total_requests l4 + 1\<rparr>)))"
    unfolding acquire_locked_def using r delay now by (simp add: Let_def)
  obtain r4 l4 where c: "?c = (r4, l4)" by (cases ?c)
  have l4: "schedule_part l4 = schedule_part ?l3" "l_last_request l4 = turn_start l + ?d"
    using schedule_charge [of t "turn_start l" c ?l3] charge_keeps(1) [of t "turn_start l" c ?l3]
    by (simp_all only: c snd_conv) simp
  have out: "d = ?d \<and> l' = persist_to_disk (l4\<lparr>l_total_requests := l_total_requests l4 + 1\<rparr>)"
    using assms unfolding eq c by (cases r4) auto
  have l': "schedule_part l' = schedule_part ?l3"
    using out l4(1) by (simp add: schedule_part_def persist_to_disk_def)
  have req: "l_last_request l' = turn_start l + d" using out l4 by simp
  have kept: "l_last_mutation l' = (if m then ?s else l_last_mutation l)"
    "l_held_until l' = l_held_until l" "l_next_allowed l' = dict_set t ?p (l_next_allowed l)"
    "l_mutation_min_interval l' = l_mutation_min_interval l" "l_clock l' = l_clock l"
    "l_paced l' = l_paced l"
    using schedule_fields [OF sch] schedule_fields [OF l'] by simp_all
  have "calculate_target_delay t m (snd (tick (sync_from_disk l))) = (Inr delay, l2)"
    using r delay l1 by simp
  moreover have "d = max 0 (?s - turn_start l)" using out by simp
  ultimately show thesis using that [of delay l2 ?p ?s] sch req kept by blast
qed

end
