(* ===== verification/LimiterOps.thy ===== *)
theory LimiterOps
  imports LimiterFacts
begin

text \<open>
  The operations of a limiter as a datatype, and what any sequence of them keeps: the spacing of
  writes, the hold after a rate limit, and the figures that never go below zero.
\<close>

datatype limiter_op =
    Acquire string "string option" bool int
  | UpdateQuota string int "instant option" "int option" "int option"
  | RecordUtilization string int
  | ChargePoints string int
  | RecordThrottle seconds
  | HoldRequests seconds
  | RetryDelay "seconds option" string "seconds option"
  | BackoffDelay string string
  | CalculateDelay string
  | GetCached string
  | SetCached string string seconds
  | ClearCache
  | PruneCache
  | SyncFigures

fun limiter_step :: "'g gate \<Rightarrow> 'g \<times> limiter \<Rightarrow> limiter_op \<Rightarrow> 'g \<times> limiter" where
  "limiter_step gate w (Acquire k res m c) = snd (acquire gate k res m c w)"
| "limiter_step gate (g, l) (UpdateQuota k r t li u) = (g, snd (update_quota k r t li u l))"
| "limiter_step gate (g, l) (RecordUtilization k c) = (g, snd (charge_utilization k c l))"
| "limiter_step gate (g, l) (ChargePoints k n) = (g, snd (charge_points k n l))"
| "limiter_step gate (g, l) (RecordThrottle d) = (g, record_throttle d l)"
| "limiter_step gate (g, l) (HoldRequests d) = (g, hold_requests d l)"
| "limiter_step gate (g, l) (RetryDelay t k b) = (g, snd (retry_delay t k b l))"
| "limiter_step gate (g, l) (BackoffDelay msg k) = (g, snd (calculate_backoff_delay msg k l))"
| "limiter_step gate (g, l) (CalculateDelay k) = (g, snd (calculate_delay k l))"
| "limiter_step gate (g, l) (GetCached key) = (g, snd (get_cached key l))"
| "limiter_step gate (g, l) (SetCached key d ttl) = (g, snd (set_cached key d ttl l))"
| "limiter_step gate (g, l) ClearCache = (g, clear_cache l)"
| "limiter_step gate (g, l) PruneCache = (g, snd (prune_expired_cache l))"
| "limiter_step gate (g, l) SyncFigures = (g, sync_from_disk l)"

section \<open>What each operation leaves alone\<close>

text \<open>
  A retry's wait and the operations of the cache change the cache, its files, and how far the clock
  and the jitter were read, and nothing else.
\<close>

definition rest_part :: "limiter \<Rightarrow> limiter" where
  "rest_part l = l\<lparr>l_cache := [], l_responses := [], l_last_prune := 0, l_ticks := 0, l_draws := 0\<rparr>"

lemma rest_updates [simp]:
  "rest_part (l\<lparr>l_cache := a\<rparr>) = rest_part l" "rest_part (l\<lparr>l_responses := b\<rparr>) = rest_part l"
  "rest_part (l\<lparr>l_last_prune := c\<rparr>) = rest_part l" "rest_part (l\<lparr>l_ticks := d\<rparr>) = rest_part l"
  "rest_part (l\<lparr>l_draws := d\<rparr>) = rest_part l"
  by (simp_all add: rest_part_def)

lemma rest_tick [simp]: "rest_part (snd (tick l)) = rest_part l"
  by (simp add: tick_def)

lemma rest_draw [simp]: "rest_part (snd (draw_jitter l)) = rest_part l"
  by (simp add: draw_jitter_def)

lemma rest_primary: "rest_part (snd (calculate_primary_delay s m k l)) = rest_part l"
  by (simp add: calculate_primary_delay_def tick_def Let_def)

lemma rest_secondary: "rest_part (snd (calculate_secondary_delay b c m k l)) = rest_part l"
  by (simp add: calculate_secondary_delay_def draw_jitter_def Let_def)

lemma rest_retry [simp]: "rest_part (snd (retry_delay t k b l)) = rest_part l"
proof -
  obtain r l1 where primary: "calculate_primary_delay (dict_get (l_quotas l) k) (l_max_rate_limit_wait l) k l = (r, l1)"
    by fastforce
  then have "rest_part l1 = rest_part l" using rest_primary by (metis snd_conv)
  then show ?thesis
    by (simp add: retry_delay_def primary rest_secondary split: option.split sum.split)
qed

lemma rest_header: "rest_part (snd (process_header h v m l)) = rest_part l"
  by (simp add: process_header_def parse_retry_after_def seconds_until_def tick_def Let_def split: option.split)

lemma rest_header_lines [simp]: "rest_part (snd (process_header_lines ls m l)) = rest_part l"
proof (induction ls arbitrary: m l)
  case (Cons line ls)
  show ?case
  proof (cases "parse_header_line line")
    case (Some hv)
    obtain h v where hv: "hv = (h, v)" by fastforce
    obtain m1 l1 where step: "process_header h v m l = (m1, l1)" by fastforce
    then have "rest_part l1 = rest_part l" using rest_header [of h v m l] by simp
    then show ?thesis using Cons.IH [of m1 l1] Some hv step by simp
  qed (simp add: Cons.IH)
qed simp

lemma rest_extract_retry_after [simp]: "rest_part (snd (extract_retry_after msg l)) = rest_part l"
proof -
  obtain m l1 where lines: "process_header_lines (splitlines msg) no_metrics l = (m, l1)" by fastforce
  then have "rest_part l1 = rest_part l" using rest_header_lines [of "splitlines msg" no_metrics l] by simp
  then show ?thesis by (simp add: extract_retry_after_def process_header_metrics_def lines split: option.split)
qed

lemma rest_backoff [simp]: "rest_part (snd (calculate_backoff_delay msg k l)) = rest_part l"
  by (simp add: calculate_backoff_delay_def flow)

lemma rest_get_cached [simp]: "rest_part (snd (get_cached key l)) = rest_part l"
  by (simp add: get_cached_def read_disk_cached_def load_disk_cache_def flow
      split: option.split sum.split)

lemma rest_prune [simp]: "rest_part (snd (prune_expired_cache l)) = rest_part l"
  by (simp add: prune_expired_cache_def flow split: sum.split)

lemma rest_set_cached [simp]: "rest_part (snd (set_cached key d ttl l)) = rest_part l"
  by (simp add: set_cached_def save_disk_cache_def flow split: sum.split)

lemma rest_clear [simp]: "rest_part (clear_cache l) = rest_part l"
  by (simp add: clear_cache_def rest_part_def)

lemma rest_fields:
  assumes "rest_part l' = rest_part l"
  shows "l_quotas l' = l_quotas l" "l_clock l' = l_clock l" "l_total_requests l' = l_total_requests l"
    "l_total_throttles l' = l_total_throttles l" "l_total_wait l' = l_total_wait l"
    "l_points l' = l_points l" "l_paced l' = l_paced l" "l_last_mutation l' = l_last_mutation l"
    "l_mutation_min_interval l' = l_mutation_min_interval l" "l_held_until l' = l_held_until l"
    "l_runs l' = l_runs l" "l_next_allowed l' = l_next_allowed l"
    "l_max_rate_limit_wait l' = l_max_rate_limit_wait l" "l_slept l' = l_slept l"
  using arg_cong [OF assms, of l_quotas] arg_cong [OF assms, of l_clock]
    arg_cong [OF assms, of l_total_requests] arg_cong [OF assms, of l_total_throttles]
    arg_cong [OF assms, of l_total_wait] arg_cong [OF assms, of l_points]
    arg_cong [OF assms, of l_paced] arg_cong [OF assms, of l_last_mutation]
    arg_cong [OF assms, of l_mutation_min_interval] arg_cong [OF assms, of l_held_until]
    arg_cong [OF assms, of l_runs] arg_cong [OF assms, of l_next_allowed]
    arg_cong [OF assms, of l_max_rate_limit_wait] arg_cong [OF assms, of l_slept]
  by (simp_all add: rest_part_def)

section \<open>The schedule\<close>

definition turn_part where
  "turn_part l = (l_last_mutation l, l_mutation_min_interval l, l_clock l, l_held_until l, l_paced l)"

lemma turn_schedule: "schedule_part l' = schedule_part l \<Longrightarrow> turn_part l' = turn_part l"
  by (simp add: schedule_part_def turn_part_def)

lemma turn_rest:
  assumes "rest_part l' = rest_part l"
  shows "turn_part l' = turn_part l"
  using rest_fields [OF assms] by (simp add: turn_part_def)

lemma turn_updates [simp]:
  "turn_part (l\<lparr>l_total_throttles := e\<rparr>) = turn_part l"
  "turn_part (l\<lparr>l_total_wait := c\<rparr>) = turn_part l" "turn_part (l\<lparr>l_points := h\<rparr>) = turn_part l"
  "turn_part (l\<lparr>l_total_requests := e\<rparr>) = turn_part l" "turn_part (l\<lparr>l_quotas := q\<rparr>) = turn_part l"
  by (simp_all add: turn_part_def)

lemma turn_basic [simp]:
  "turn_part (snd (tick l)) = turn_part l" "turn_part (sync_from_disk l) = turn_part l"
  "turn_part (persist_to_disk l) = turn_part l" "turn_part (snd (update_quota k r t li u l)) = turn_part l"
  "turn_part (snd (calculate_delay k l)) = turn_part l"
  by (rule turn_schedule, simp)+

lemma turn_record_utilization [simp]: "turn_part (snd (charge_utilization k c l)) = turn_part l"
  by (simp add: charge_utilization_def record_utilization_locked_def flow split: option.split sum.split)

lemma turn_charge_points [simp]: "turn_part (snd (charge_points k n l)) = turn_part l"
  by (simp add: charge_points_def)

lemma turn_throttle [simp]: "turn_part (record_throttle d l) = turn_part l"
  by (simp add: record_throttle_def flow)

lemma turn_cache_ops [simp]:
  "turn_part (snd (retry_delay t k b l)) = turn_part l"
  "turn_part (snd (calculate_backoff_delay msg k l)) = turn_part l"
  "turn_part (snd (get_cached key l)) = turn_part l"
  "turn_part (snd (prune_expired_cache l)) = turn_part l"
  "turn_part (snd (set_cached key d ttl l)) = turn_part l"
  "turn_part (clear_cache l) = turn_part l"
  by (rule turn_rest, simp)+

definition is_turn :: "limiter_op \<Rightarrow> bool" where
  "is_turn op = (case op of Acquire _ _ _ _ \<Rightarrow> True | HoldRequests _ \<Rightarrow> True | _ \<Rightarrow> False)"

lemma turn_other: "\<not> is_turn op \<Longrightarrow> turn_part (snd (limiter_step gate w op)) = turn_part (snd w)"
  by (cases w; cases op) (simp_all add: is_turn_def)

lemma hold_keeps [simp]:
  "l_last_mutation (hold_requests d l) = l_last_mutation l"
  "l_mutation_min_interval (hold_requests d l) = l_mutation_min_interval l"
  "l_clock (hold_requests d l) = l_clock l" "l_paced (hold_requests d l) = l_paced l"
  "l_held_until (hold_requests d l) = max (l_held_until l) (l_clock l (l_ticks l) + d)"
  "l_quotas (hold_requests d l) = l_quotas l" "l_points (hold_requests d l) = l_points l"
  "l_total_requests (hold_requests d l) = l_total_requests l"
  "l_total_throttles (hold_requests d l) = l_total_throttles l"
  "l_total_wait (hold_requests d l) = l_total_wait l"
  by (simp_all add: hold_requests_def tick_def)

lemma turn_fields:
  assumes "turn_part l' = turn_part l"
  shows "l_last_mutation l' = l_last_mutation l"
    "l_mutation_min_interval l' = l_mutation_min_interval l" "l_clock l' = l_clock l"
    "l_held_until l' = l_held_until l" "l_paced l' = l_paced l"
  using assms by (simp_all add: turn_part_def)

lemmas kept_fields =
  schedule_fields [OF schedule_target_delay] schedule_fields [OF schedule_charge]
  schedule_fields [OF schedule_sync] schedule_fields [OF schedule_tick]
  schedule_fields [OF schedule_persist]

lemma acquire_locked_keeps:
  assumes "0 \<le> l_mutation_min_interval l"
  shows "l_last_mutation l \<le> l_last_mutation (snd (acquire_locked t m c l))"
    "l_mutation_min_interval (snd (acquire_locked t m c l)) = l_mutation_min_interval l"
    "l_held_until (snd (acquire_locked t m c l)) = l_held_until l"
    "l_clock (snd (acquire_locked t m c l)) = l_clock l"
    "l_paced (snd (acquire_locked t m c l)) = l_paced l"
  using assms
  by (auto simp: acquire_locked_def flow kept_fields write_slot_def le_max_iff_disj split: sum.split)

lemma acquire_keeps:
  assumes iv: "0 \<le> l_mutation_min_interval (snd w)"
  shows "l_last_mutation (snd w) \<le> l_last_mutation (snd (snd (acquire gate k res m c w)))"
    "l_mutation_min_interval (snd (snd (acquire gate k res m c w))) = l_mutation_min_interval (snd w)"
    "l_held_until (snd (snd (acquire gate k res m c w))) = l_held_until (snd w)"
    "l_clock (snd (snd (acquire gate k res m c w))) = l_clock (snd w)"
proof -
  have paced: "l_last_mutation (snd w) \<le> l_last_mutation (snd (acquire_locked t m c ((snd w)\<lparr>l_paced := p\<rparr>)))"
    for t p using acquire_locked_keeps(1) [of "(snd w)\<lparr>l_paced := p\<rparr>"] iv by simp
  show "l_last_mutation (snd w) \<le> l_last_mutation (snd (snd (acquire gate k res m c w)))"
    using paced by (simp add: acquire_def flow split: sum.split)
qed (use iv acquire_locked_keeps(2-4) in \<open>simp_all add: acquire_def flow split: sum.split\<close>)

lemma step_keeps:
  assumes iv: "0 \<le> l_mutation_min_interval (snd w)"
  shows "l_last_mutation (snd w) \<le> l_last_mutation (snd (limiter_step gate w op))"
    "l_mutation_min_interval (snd (limiter_step gate w op)) = l_mutation_min_interval (snd w)"
    "l_clock (snd (limiter_step gate w op)) = l_clock (snd w)"
    "l_held_until (snd w) \<le> l_held_until (snd (limiter_step gate w op))"
proof -
  have "l_last_mutation (snd w) \<le> l_last_mutation (snd (limiter_step gate w op))
    \<and> l_mutation_min_interval (snd (limiter_step gate w op)) = l_mutation_min_interval (snd w)
    \<and> l_clock (snd (limiter_step gate w op)) = l_clock (snd w)
    \<and> l_held_until (snd w) \<le> l_held_until (snd (limiter_step gate w op))"
  proof (cases "is_turn op")
    case True
    then show ?thesis using acquire_keeps [OF iv]
      by (cases w; cases op) (simp_all add: is_turn_def)
  next
    case False
    then show ?thesis using turn_fields [OF turn_other [OF False, of gate w]] by simp
  qed
  then show "l_last_mutation (snd w) \<le> l_last_mutation (snd (limiter_step gate w op))"
    "l_mutation_min_interval (snd (limiter_step gate w op)) = l_mutation_min_interval (snd w)"
    "l_clock (snd (limiter_step gate w op)) = l_clock (snd w)"
    "l_held_until (snd w) \<le> l_held_until (snd (limiter_step gate w op))" by auto
qed

section \<open>The slots of writes\<close>

definition paced_write :: "'g gate \<Rightarrow> 'g \<times> limiter \<Rightarrow> limiter_op \<Rightarrow> bool" where
  \<comment> \<open>The operation is a write's turn that the limiter let go.\<close>
  "paced_write gate w op =
     (case op of Acquire k res m c \<Rightarrow> m \<and> \<not> isl (fst (acquire gate k res m c w)) | _ \<Rightarrow> False)"

fun write_slots :: "'g gate \<Rightarrow> 'g \<times> limiter \<Rightarrow> limiter_op list \<Rightarrow> instant list" where
  \<comment> \<open>The instants the writes among the operations were scheduled for.\<close>
  "write_slots gate w [] = []"
| "write_slots gate w (op # ops) =
     (let w' = limiter_step gate w op
      in (if paced_write gate w op then [l_last_mutation (snd w')] else [])
         @ write_slots gate w' ops)"

lemma acquire_okE:
  assumes "acquire gate k res m c w = (Inr d, g, l)"
  obtains g' l0 l' where "gate (fst w) = (Inr (), g')" "g = g'"
    "l0 = (snd w)\<lparr>l_paced := dict_set (if falsy res then k else the res)
        (get_or 0 (l_paced (snd w)) (if falsy res then k else the res) + 1) (l_paced (snd w))\<rparr>"
    "acquire_locked (if falsy res then k else the res) m c l0 = (Inr d, l')"
    "l = (if 0 < d then l'\<lparr>l_slept := l_slept l' @ [d]\<rparr> else l')"
  using assms by (auto simp: acquire_def Let_def split: sum.splits prod.splits)

lemma acquire_locked_write:
  assumes "acquire_locked t True c l = (Inr d, l')"
  shows "l_last_mutation l + l_mutation_min_interval l \<le> l_last_mutation l'"
proof -
  obtain l2 p where l2: "schedule_part l2 = schedule_part l"
    and slot: "l_last_mutation l' = write_slot l2 p"
    using acquire_lockedE [OF assms] by (metis (full_types))
  show ?thesis unfolding slot write_slot_def schedule_fields(1,2) [OF l2] by simp
qed

lemma paced_write_slot:
  assumes "paced_write gate w op"
  shows "l_last_mutation (snd w) + l_mutation_min_interval (snd w)
    \<le> l_last_mutation (snd (limiter_step gate w op))"
proof -
  obtain k res c where op: "op = Acquire k res True c"
    using assms by (cases op) (auto simp: paced_write_def)
  obtain r g l where acq: "acquire gate k res True c w = (r, g, l)" by (metis prod.exhaust)
  with assms op obtain d where r: "r = Inr d" by (cases r) (auto simp: paced_write_def)
  from acq [unfolded r] show ?thesis
  proof (rule acquire_okE)
    fix g' l0 l'
    let ?t = "if falsy res then k else the res"
    assume l0: "l0 = (snd w)\<lparr>l_paced := dict_set ?t (get_or 0 (l_paced (snd w)) ?t + 1) (l_paced (snd w))\<rparr>"
      and locked: "acquire_locked ?t True c l0 = (Inr d, l')"
      and l: "l = (if 0 < d then l'\<lparr>l_slept := l_slept l' @ [d]\<rparr> else l')"
    from locked have "l_last_mutation l0 + l_mutation_min_interval l0 \<le> l_last_mutation l'"
      by (rule acquire_locked_write)
    with l0 l show ?thesis by (simp add: op acq)
  qed
qed

lemma write_slots_after:
  assumes "0 \<le> l_mutation_min_interval (snd w)" and "t \<in> set (write_slots gate w ops)"
  shows "l_last_mutation (snd w) + l_mutation_min_interval (snd w) \<le> t"
  using assms
proof (induction ops arbitrary: w)
  case (Cons op ops)
  let ?w = "limiter_step gate w op"
  have keeps: "l_last_mutation (snd w) \<le> l_last_mutation (snd ?w)"
    "l_mutation_min_interval (snd ?w) = l_mutation_min_interval (snd w)"
    using step_keeps [OF Cons.prems(1)] by auto
  show ?case
  proof (cases "t \<in> set (write_slots gate ?w ops)")
    case True
    then show ?thesis using Cons.IH [of ?w] keeps Cons.prems(1) by auto
  next
    case False
    then show ?thesis
      using Cons.prems(2) paced_write_slot [of gate w op] by (auto simp: Let_def split: if_splits)
  qed
qed simp

text \<open>
  C15: Any sequence of a limiter's operations schedules its writes at least the configured mutation
  interval apart, in the order they were let go, whichever resource each write spends, whatever
  the clock reads, and whatever else happens between them.
\<close>

theorem writes_are_spaced:
  assumes "0 \<le> l_mutation_min_interval (snd w)"
  shows "sorted_wrt (\<lambda>a b. a + l_mutation_min_interval (snd w) \<le> b) (write_slots gate w ops)"
  using assms
proof (induction ops arbitrary: w)
  case (Cons op ops)
  let ?w = "limiter_step gate w op"
  have keeps: "l_mutation_min_interval (snd ?w) = l_mutation_min_interval (snd w)"
    using step_keeps [OF Cons.prems] by auto
  show ?case
    using Cons.IH [of ?w] write_slots_after [of ?w _ gate ops] keeps Cons.prems
    by (auto simp: Let_def)
qed simp


section \<open>The hold after a rate limit\<close>

lemma steps_keep:
  assumes "0 \<le> l_mutation_min_interval (snd w)"
  shows "l_mutation_min_interval (snd (run_steps (limiter_step gate) w ops)) = l_mutation_min_interval (snd w)"
    "l_held_until (snd w) \<le> l_held_until (snd (run_steps (limiter_step gate) w ops))"
  using assms
proof (induction ops arbitrary: w)
  case (Cons op ops)
  {
    case 1
    then show ?case using Cons.IH(1) [of "limiter_step gate w op"] step_keeps(2) [of w gate op] by simp
  next
    case 2
    then show ?case
      using Cons.IH(2) [of "limiter_step gate w op"] step_keeps(2,4) [of w gate op] by simp
  }
qed simp_all

lemma acquire_held:
  assumes "acquire gate k res m c w = (Inr d, g, l)"
  shows "l_held_until (snd w) \<le> l_last_request l"
proof -
  obtain l0 l' t where l0: "l_held_until l0 = l_held_until (snd w)"
    and locked: "acquire_locked t m c l0 = (Inr d, l')" and l: "l_last_request l = l_last_request l'"
    by (rule acquire_okE [OF assms], rule that [rotated], assumption) auto
  obtain l2 p s where l2: "schedule_part l2 = schedule_part l0"
    and p: "\<exists>delay. p = paced_time_of l2 t (turn_start l0) delay"
    and s: "s = (if m then write_slot l2 p else p)" and d: "d = max 0 (s - turn_start l0)"
    and req: "l_last_request l' = turn_start l0 + d"
    using acquire_lockedE [OF locked] by metis
  have "l_held_until l2 \<le> p" using p by (auto simp: paced_time_of_def Let_def)
  also have "p \<le> s" using s by (simp add: write_slot_def)
  also have "s \<le> turn_start l0 + d" using d by (simp add: max_def)
  finally show ?thesis using schedule_fields(4) [OF l2] l0 l req by simp
qed

text \<open>
  When a request meets a rate limit and the limiter holds the identity's requests for d seconds,
  every request that takes its turn afterwards, on any resource and after any other operations,
  is scheduled no earlier than d seconds after the hold began.
\<close>

theorem held_requests_wait:
  assumes "0 \<le> l_mutation_min_interval (snd w)"
    and "acquire gate k res m c (run_steps (limiter_step gate) w (HoldRequests d # ops)) = (Inr s, g, l)"
  shows "l_clock (snd w) (l_ticks (snd w)) + d \<le> l_last_request l"
proof -
  let ?w = "limiter_step gate w (HoldRequests d)"
  have "l_clock (snd w) (l_ticks (snd w)) + d \<le> l_held_until (snd ?w)"
    and "0 \<le> l_mutation_min_interval (snd ?w)"
    using assms(1) by (cases w; simp)+
  then show ?thesis
    using steps_keep(2) [of ?w gate ops] acquire_held [OF assms(2)] by simp
qed

end
