(* ===== verification/LimiterProps.thy ===== *)
theory LimiterProps
  imports LimiterOps
begin

text \<open>
  Properties of the limiter of one GitHub identity: the figures it keeps, the delay it computes,
  the waits before a retry, and the running of gh under it. The properties of a single quota and
  of the ledger file come first.
\<close>

section \<open>A sample limiter\<close>

text \<open>
  A limiter that holds two quotas, for the examples: its clock reads 100 seconds, gh never answers,
  and it keeps no files.
\<close>

definition sample_quota :: quota where
  "sample_quota = \<lparr>q_remaining = Some 10, q_limit = Some 60, q_reset = Some 200, q_updated = Some 90,
     q_used = Some 50, q_last_request = None\<rparr>"

definition sample_limiter :: limiter where
  "sample_limiter =
     \<lparr>l_persist = False, l_min_interval = 0, l_fallback_delay = 1, l_mutation_min_interval = 1,
      l_quota_max_age = 300, l_secondary_rate_wait = 60, l_secondary_max_cap = 300,
      l_max_rate_limit_wait = None, l_cache = [], l_next_allowed = [], l_last_mutation = 0,
      l_total_requests = 0, l_points = [], l_paced = [], l_last_request = 0, l_last_prune = 0,
      l_total_throttles = 0, l_total_wait = 0, l_held_until = 0,
      l_quotas = [(''core'', sample_quota), (''graphql'', sample_quota)], l_ledger = None,
      l_responses = [], l_clock = (\<lambda>n. 100), l_ticks = 0, l_answers = (\<lambda>n. None), l_runs = 0,
      l_jitter = (\<lambda>n. 1), l_draws = 0, l_slept = [], l_loads = (\<lambda>s. None),
      l_http_date = (\<lambda>s. None), l_iso_time = (\<lambda>v. None), l_repr = (\<lambda>v. [])\<rparr>"

lemma sample_slots:
  "write_slots no_gate ((), sample_limiter)
     [Acquire ''core'' None True 1, HoldRequests 30, Acquire ''graphql'' None True 1] = [110, 130]"
  by code_simp

lemma writes_are_spaced_witness:
  "sorted_wrt (\<lambda>a b. a + 1 \<le> b)
     (write_slots no_gate ((), sample_limiter)
        [Acquire ''core'' None True 1, HoldRequests 30, Acquire ''graphql'' None True 1])
   \<and> l_mutation_min_interval sample_limiter = 1"
  using writes_are_spaced [of "((), sample_limiter)" no_gate
      "[Acquire ''core'' None True 1, HoldRequests 30, Acquire ''graphql'' None True 1]"]
  by (simp add: sample_limiter_def)

lemma gateless: "fst x = a \<Longrightarrow> x = (a, (), snd (snd x))" for x :: "'a \<times> unit \<times> 'b"
  by (cases x) auto

lemma sample_held:
  "acquire no_gate ''graphql'' None False 1
     (run_steps (limiter_step no_gate) ((), sample_limiter) [HoldRequests 30]) =
   (Inr 30, (), snd (snd (acquire no_gate ''graphql'' None False 1
     (run_steps (limiter_step no_gate) ((), sample_limiter) [HoldRequests 30]))))"
  by (rule gateless) code_simp

lemma held_requests_wait_witness:
  "100 + 30 \<le> l_last_request (snd (snd (acquire no_gate ''graphql'' None False 1
     (run_steps (limiter_step no_gate) ((), sample_limiter) [HoldRequests 30]))))"
  using held_requests_wait [OF _ sample_held] by (simp add: sample_limiter_def)

section \<open>The ledger and a quota\<close>

text \<open>
  A ledger written to its file and read back is the ledger less the windows that have ended,
  with the entries in their order, and its global figures are those written: nothing else is
  lost, changed or gained. The file keeps its global figures beside the quotas under a reserved name.
\<close>

theorem ledger_roundtrip:
  assumes "dict_all quota_ok qs"
    and "0 \<le> m_requests m" "0 \<le> m_last_request m" "0 \<le> m_throttles m" "0 \<le> m_wait m"
  shows "load_disk_quota (Some (save_disk_quota qs m)) now =
      filter (\<lambda>(k, q). k \<noteq> global_key \<and> is_valid q now None) qs
    \<and> load_disk_global_meta (Some (save_disk_quota qs m)) = m"
proof -
  have "load_disk_quota (Some (save_disk_quota qs m)) now =
      filter (\<lambda>(k, q). k \<noteq> global_key \<and> is_valid q now None) qs"
    using assms(1) load_entries_to_dict [of qs now]
    by (simp add: load_disk_quota_def save_disk_quota_def dict_all_def)
  moreover have "load_disk_global_meta (Some (save_disk_quota qs m)) = m"
    using assms(2-5)
    by (cases m) (simp add: load_disk_global_meta_def save_disk_quota_def load_meta_def
        int_or_zero_def float_or_zero_def max_def)
  ultimately show ?thesis by blast
qed

lemma ledger_roundtrip_witness:
  "load_disk_quota (Some (save_disk_quota
      [(''core'', \<lparr>q_remaining = Some 7, q_limit = Some 60, q_reset = Some 100, q_updated = Some 3,
                  q_used = Some 53, q_last_request = None\<rparr>),
       (''search'', \<lparr>q_remaining = Some 1, q_limit = None, q_reset = Some 5, q_updated = None,
                  q_used = None, q_last_request = None\<rparr>)]
      \<lparr>m_requests = 2, m_last_request = 3, m_throttles = 0, m_wait = 0\<rparr>)) 10 =
    [(''core'', \<lparr>q_remaining = Some 7, q_limit = Some 60, q_reset = Some 100, q_updated = Some 3,
                q_used = Some 53, q_last_request = None\<rparr>)]"
  using ledger_roundtrip
    [of "[(''core'', \<lparr>q_remaining = Some 7, q_limit = Some 60, q_reset = Some 100,
              q_updated = Some 3, q_used = Some 53, q_last_request = None\<rparr>),
          (''search'', \<lparr>q_remaining = Some 1, q_limit = None, q_reset = Some 5, q_updated = None,
              q_used = None, q_last_request = None\<rparr>)]"
        "\<lparr>m_requests = 2, m_last_request = 3, m_throttles = 0, m_wait = 0\<rparr>" 10]
  by (simp add: quota_ok_def is_valid_def global_key_def)

text \<open>
  Merging what the ledger file and the process know of a quota keeps the later window, and
  within one window it never gains quota: no more requests remain, and no fewer are used, than
  either of them recorded.
\<close>

theorem merge_never_gains:
  "let r = merge_single_quota d m in
     q_reset r = opt_max (q_reset d) (q_reset m) \<and>
     (q_reset d = q_reset m \<and> q_reset d \<noteq> None \<longrightarrow>
        (\<forall>x \<in> {d, m}. opt_all (\<lambda>n. \<exists>k. q_remaining r = Some k \<and> k \<le> n) (q_remaining x)
                    \<and> opt_all (\<lambda>n. \<exists>k. q_used r = Some k \<and> n \<le> k) (q_used x)))"
proof -
  have rem: "opt_all (\<lambda>n. \<exists>k. opt_min x y = Some k \<and> k \<le> n) x
      \<and> opt_all (\<lambda>n. \<exists>k. opt_min x y = Some k \<and> k \<le> n) y" for x y :: "int option"
    by (cases x; cases y) auto
  have used: "opt_all (\<lambda>n. \<exists>k. opt_max x y = Some k \<and> n \<le> k) x
      \<and> opt_all (\<lambda>n. \<exists>k. opt_max x y = Some k \<and> n \<le> k) y" for x y :: "int option"
    by (cases x; cases y) auto
  show ?thesis
    using rem [of "q_remaining d" "q_remaining m"] used [of "q_used d" "q_used m"]
    by (cases "q_reset d"; cases "q_reset m")
      (auto simp: merge_single_quota_def merge_same_epoch_quota_def Let_def max_def)
qed

lemma merge_never_gains_witness:
  "q_remaining (merge_single_quota
     \<lparr>q_remaining = Some 7, q_limit = None, q_reset = Some 9, q_updated = None, q_used = None,
      q_last_request = None\<rparr>
     \<lparr>q_remaining = Some 4, q_limit = None, q_reset = Some 9, q_updated = None, q_used = Some 2,
      q_last_request = None\<rparr>) = Some 4"
  using merge_never_gains
    [of "\<lparr>q_remaining = Some 7, q_limit = None, q_reset = Some 9, q_updated = None, q_used = None,
          q_last_request = None\<rparr>"
        "\<lparr>q_remaining = Some 4, q_limit = None, q_reset = Some 9, q_updated = None,
          q_used = Some 2, q_last_request = None\<rparr>"]
  by (simp add: merge_single_quota_def merge_same_epoch_quota_def)

section \<open>Figures that stay non-negative\<close>

definition limiter_ok :: "limiter \<Rightarrow> bool" where
  "limiter_ok l \<longleftrightarrow> dict_all quota_ok (l_quotas l) \<and> 0 \<le> l_total_requests l
     \<and> 0 \<le> l_total_throttles l \<and> 0 \<le> l_total_wait l
     \<and> dict_all (\<lambda>n. 0 \<le> n) (l_points l) \<and> dict_all (\<lambda>n. 0 \<le> n) (l_paced l)
     \<and> (\<forall>n. 0 \<le> l_clock l n)"

text \<open>The part of a limiter the invariant reads, in one tuple.\<close>

definition figures where
  "figures l = (l_quotas l, l_total_requests l, l_total_throttles l, l_total_wait l, l_points l,
     l_paced l, l_clock l)"

lemma figures_ok: "figures l' = figures l \<Longrightarrow> limiter_ok l' = limiter_ok l"
  by (simp add: figures_def limiter_ok_def)

lemma figures_rest:
  assumes "rest_part l' = rest_part l"
  shows "figures l' = figures l"
  using rest_fields [OF assms] by (simp add: figures_def)

lemma figures_updates [simp]:
  "figures (l\<lparr>l_ticks := n\<rparr>) = figures l" "figures (l\<lparr>l_runs := n\<rparr>) = figures l"
  "figures (l\<lparr>l_slept := x\<rparr>) = figures l" "figures (snd (tick l)) = figures l"
  "figures (persist_to_disk l) = figures l" "figures (snd (run_subprocess l)) = figures l"
  "figures (l\<lparr>l_next_allowed := na, l_last_request := t, l_last_mutation := t'\<rparr>) = figures l"
  "figures (hold_requests d l) = figures l"
  by (simp_all add: figures_def tick_def persist_to_disk_def run_subprocess_def hold_requests_def)

lemmas ok_figures [simp] = figures_updates [THEN figures_ok]

lemma ok_quota_update:
  "limiter_ok l \<Longrightarrow> quota_ok q \<Longrightarrow> limiter_ok (l\<lparr>l_quotas := dict_set k q (l_quotas l)\<rparr>)"
  by (simp add: limiter_ok_def)

lemma merge_quotas_ok:
  "dict_all quota_ok disk \<Longrightarrow> dict_all quota_ok mem \<Longrightarrow> dict_all quota_ok (merge_quotas disk mem)"
proof (induction disk mem rule: merge_quotas.induct)
  case (2 k d disk mem)
  then have "quota_ok (case dict_get mem k of None \<Rightarrow> d | Some m \<Rightarrow> merge_single_quota d m)"
    by (auto intro: merge_single_ok dict_all_get split: option.split)
  then show ?case using 2 by simp
qed simp

lemma load_meta_nonneg:
  "0 \<le> m_requests (load_disk_global_meta file)" "0 \<le> m_throttles (load_disk_global_meta file)"
  "0 \<le> m_wait (load_disk_global_meta file)"
  by (auto simp: load_disk_global_meta_def load_meta_def no_meta_def split: option.split json.split sum.split)

lemma ok_sync [simp]: "limiter_ok l \<Longrightarrow> limiter_ok (sync_from_disk l)"
proof -
  assume ok: "limiter_ok l"
  have "dict_all quota_ok (load_disk_quota (l_ledger l) now)" for now
    using load_disk_quota_ok by (force simp: dict_all_def)
  with ok show ?thesis
    by (simp add: sync_from_disk_def limiter_ok_def tick_def flow merge_quotas_ok le_max_iff_disj)
qed


lemma ok_clock: "limiter_ok l \<Longrightarrow> 0 \<le> l_clock l n"
  by (simp add: limiter_ok_def)

lemma ok_apply:
  assumes ok: "limiter_ok l" and args: "validate_quota_update_args r t li u" and now: "0 \<le> now"
  shows "limiter_ok (snd (apply_quota_update k r t li u now l))"
proof (cases "dict_get (l_quotas l) k")
  case None
  then show ?thesis using ok
    by (auto simp: apply_quota_update_def limiter_ok_def split: sum.split dest: mk_quota_ok)
next
  case (Some q)
  have "quota_ok q" using ok Some by (auto simp: limiter_ok_def intro: dict_all_get)
  then have "quota_ok (q\<lparr>q_remaining := Some r, q_reset := or_else t (q_reset q),
      q_limit := or_else li (q_limit q), q_used := or_else u (q_used q), q_updated := Some now\<rparr>)"
    using args now by (auto simp: quota_ok_def validate_quota_update_args_def or_else_def split: option.split)
  then show ?thesis using ok Some by (simp add: apply_quota_update_def Let_def ok_quota_update)
qed

lemma ok_update_quota [simp]: "limiter_ok l \<Longrightarrow> limiter_ok (snd (update_quota k r t li u l))"
  by (simp add: update_quota_def apply_quota_update_locked_def flow ok_apply ok_clock split: sum.split)

lemma ok_update_resources [simp]: "limiter_ok l \<Longrightarrow> limiter_ok (snd (update_resources rs l))"
  by (induction rs arbitrary: l)
    (auto simp: update_single_resource_quota_def flow split: sum.split)

lemma ok_extract [simp]:
  "limiter_ok l \<Longrightarrow> limiter_ok (snd (extract_rate_limit_endpoint_response out l))"
  by (simp add: extract_rate_limit_endpoint_response_def Let_def split: json.split)

lemma ok_refresh [simp]: "limiter_ok l \<Longrightarrow> limiter_ok (snd (refresh_from_github l))"
  by (simp add: refresh_from_github_def flow split: option.split)

lemma ok_refresh_state [simp]: "limiter_ok l \<Longrightarrow> limiter_ok (snd (refresh_quota_state k l))"
  by (simp add: refresh_quota_state_def flow split: sum.split option.split)

lemma ok_resolve [simp]: "limiter_ok l \<Longrightarrow> limiter_ok (snd (resolve_quota_state k l))"
  by (simp add: resolve_quota_state_def flow split: option.split)

lemma ok_calculate_delay [simp]: "limiter_ok l \<Longrightarrow> limiter_ok (snd (calculate_delay k l))"
  by (simp add: calculate_delay_def flow split: sum.split)

lemma ok_record_utilization [simp]:
  assumes "limiter_ok l"
  shows "limiter_ok (snd (charge_utilization k c l))"
proof -
  have "limiter_ok (snd (record_utilization_locked k c l'))" if "limiter_ok l'" for l'
    using that record_utilization_fields(3)
    by (auto simp: record_utilization_locked_def flow limiter_ok_def tick_def
        split: option.split sum.split dest: record_utilization_ok)
  then show ?thesis using assms by (simp add: charge_utilization_def flow split: sum.split)
qed

lemma ok_charge_points [simp]: "limiter_ok l \<Longrightarrow> limiter_ok (snd (charge_points k n l))"
  using dict_all_get_or [of "\<lambda>n. 0 \<le> n" "l_points l" 0 k]
  by (simp add: charge_points_def limiter_ok_def)

lemma ok_throttle [simp]: "limiter_ok l \<Longrightarrow> limiter_ok (record_throttle d l)"
proof -
  assume "limiter_ok l"
  then have "limiter_ok (l\<lparr>l_total_throttles := l_total_throttles l + 1,
      l_total_wait := l_total_wait l + max 0 d\<rparr>)" by (simp add: limiter_ok_def)
  then show ?thesis by (simp add: record_throttle_def Let_def)
qed

lemma ok_charge_turn: "limiter_ok l \<Longrightarrow> limiter_ok (snd (charge_turn k now c l))"
  by (auto simp: charge_turn_def flow limiter_ok_def tick_def split: option.split sum.split
      dest: record_utilization_ok)

lemma ok_acquire_locked: "limiter_ok l \<Longrightarrow> limiter_ok (snd (acquire_locked t m c l))"
proof -
  assume ok: "limiter_ok l"
  have target: "limiter_ok (snd (calculate_target_delay t m l'))" if "limiter_ok l'" for l'
    using that by (simp add: calculate_target_delay_def flow split: sum.split)
  have counted: "limiter_ok (l'\<lparr>l_total_requests := l_total_requests l' + 1\<rparr>)" if "limiter_ok l'" for l'
    using that by (simp add: limiter_ok_def)
  obtain now l1 where l1: "tick (sync_from_disk l) = (now, l1)" by (cases "tick (sync_from_disk l)")
  have ok1: "limiter_ok l1" using ok l1 by (metis ok_sync ok_figures(4) snd_conv)
  obtain r l2 where l2: "calculate_target_delay t m l1 = (r, l2)"
    by (cases "calculate_target_delay t m l1")
  have ok2: "limiter_ok l2" using target [OF ok1] l2 by simp
  show ?thesis
  proof (cases r)
    case (Inr delay)
    let ?p = "paced_time_of l2 t now delay"
    let ?s = "if m then write_slot l2 ?p else ?p"
    let ?l3 = "l2\<lparr>l_next_allowed := dict_set t ?p (l_next_allowed l2),
      l_last_request := now + max 0 (?s - now), l_last_mutation := (if m then ?s else l_last_mutation l2)\<rparr>"
    obtain r4 l4 where l4: "charge_turn t now c ?l3 = (r4, l4)" by (cases "charge_turn t now c ?l3")
    have "limiter_ok ?l3" using ok2 by (simp add: figures_ok [OF figures_updates(7)])
    then have "limiter_ok l4" using ok_charge_turn [of ?l3 t now c] l4 by simp
    then show ?thesis using l1 l2 Inr l4 counted [of l4]
      by (cases r4) (simp_all add: acquire_locked_def Let_def)
  qed (use l1 l2 ok2 in \<open>simp add: acquire_locked_def\<close>)
qed

lemma ok_acquire: "limiter_ok (snd w) \<Longrightarrow> limiter_ok (snd (snd (acquire gate k res m c w)))"
proof -
  assume ok: "limiter_ok (snd w)"
  have paced: "limiter_ok (l\<lparr>l_paced := dict_set t (get_or 0 (l_paced l) t + 1) (l_paced l)\<rparr>)"
    if "limiter_ok l" for l t
    using that dict_all_get_or [of "\<lambda>n. 0 \<le> n" "l_paced l" 0 t] by (simp add: limiter_ok_def)
  show ?thesis using ok
    by (simp add: acquire_def flow paced ok_acquire_locked split: sum.split)
qed

lemma ok_step:
  assumes "limiter_ok (snd w)"
  shows "limiter_ok (snd (limiter_step gate w op))"
proof -
  obtain g l where w: "w = (g, l)" by (cases w)
  have rest: "limiter_ok l'" if "rest_part l' = rest_part l" for l'
    using figures_ok [OF figures_rest [OF that]] assms w by simp
  show ?thesis
    using assms w ok_acquire [of w gate] by (cases op) (auto intro: rest)
qed

text \<open>
  Whatever operations a limiter performs, with whatever arguments and whatever GitHub answers,
  its figures stay non-negative: the remaining, limit, used and times of every quota it holds, the
  requests, throttles and seconds waited, the points charged and the requests paced.
\<close>

theorem figures_stay_nonnegative:
  assumes "limiter_ok (snd w)"
  shows "limiter_ok (snd (run_steps (limiter_step gate) w ops))"
  by (rule run_steps_inv [where P = "\<lambda>w. limiter_ok (snd w)"]) (use assms ok_step in auto)


lemma figures_stay_nonnegative_witness:
  "limiter_ok (snd (run_steps (limiter_step no_gate) ((), sample_limiter)
     [Acquire ''core'' None True 50, UpdateQuota ''core'' (-5) None None None, RecordThrottle (-3)]))"
  by (rule figures_stay_nonnegative)
    (simp add: limiter_ok_def sample_limiter_def sample_quota_def quota_ok_def)

section \<open>The request delay\<close>

lemma resolve_stored:
  "resolve_quota_state k l = (Inr q, l') \<Longrightarrow> dict_get (l_quotas l') k = Some q"
  by (auto simp: resolve_quota_state_def refresh_quota_state_def tick_def Let_def
      split: option.splits if_splits sum.splits prod.splits)

text \<open>
  The delay before a request spends its quota's window exactly. Counted from the last clock
  reading taken: with requests remaining, sending one request per delay takes at least the whole
  rest of the window; with none remaining, the delay runs to the reset; and at a reset that has
  passed, it runs to a second past it. The delay is never below the configured floor.
\<close>

theorem delay_spends_the_window:
  assumes "calculate_delay k l = (Inr d, l')"
  shows "\<exists>q r n. dict_get (l_quotas l') k = Some q \<and> q_reset q = Some r \<and> q_remaining q = Some n
    \<and> 0 \<le> n \<and> l_min_interval l \<le> d
    \<and> (let now = l_clock l (l_ticks l' - 1)
       in if r \<le> now then r + reset_margin \<le> now + d
          else if n = 0 then r \<le> now + d else r - now \<le> of_int n * d)"
proof -
  obtain res l1 where res: "resolve_quota_state k l = (res, l1)" by (cases "resolve_quota_state k l")
  have sch: "schedule_part l1 = schedule_part l"
    using arg_cong [OF res, of "\<lambda>x. schedule_part (snd x)"] by simp
  from assms res obtain q where q: "res = Inr q" by (cases res) (auto simp: calculate_delay_def)
  let ?now = "l_clock l1 (l_ticks l1)"
  have l': "l' = l1\<lparr>l_ticks := Suc (l_ticks l1)\<rparr>" and delay: "delay_of_state k q ?now l' = Inr d"
    using assms res q by (auto simp: calculate_delay_def tick_def)
  have floor: "l_min_interval l' = l_min_interval l" and clock: "l_clock l1 = l_clock l"
    using schedule_fields [OF sch] by (simp_all add: l')
  obtain r n where r: "q_reset q = Some r" and n: "q_remaining q = Some n" "0 \<le> n"
    using delay by (auto simp: delay_of_state_def split: option.splits if_splits)
  have "l_min_interval l \<le> d \<and> (if r \<le> ?now then r + reset_margin \<le> ?now + d
      else if n = 0 then r \<le> ?now + d else r - ?now \<le> of_int n * d)"
  proof (cases "r \<le> ?now")
    case True
    then show ?thesis using delay r n floor
      by (auto simp: delay_of_state_def passed_reset_delay_def max_def split: if_splits)
  next
    case False
    then obtain e where e: "calculate_request_delay (r - ?now) n (q_limit q) = Inr e"
      and d: "d = max (l_min_interval l) e"
      using delay r n floor by (auto simp: delay_of_state_def Let_def split: sum.splits)
    show ?thesis
    proof (cases "n = 0")
      case True
      then show ?thesis using e d False
        by (auto simp: calculate_request_delay_def max_def split: if_splits)
    next
      case n0: False
      then have "e = (r - ?now) / of_int n" and pos: "0 < n"
        using e False n(2) by (auto simp: calculate_request_delay_def split: if_splits)
      then have "r - ?now = of_int n * e" by simp
      also have "\<dots> \<le> of_int n * d" using pos d by (intro mult_left_mono) auto
      finally show ?thesis using False n0 d by simp
    qed
  qed
  then show ?thesis
    unfolding clock using resolve_stored [of k l q l1] res q r n by (simp add: l' Let_def)
qed

lemma delay_spends_the_window_witness:
  "\<exists>d l'. calculate_delay ''core'' sample_limiter = (Inr d, l') \<and> 100 \<le> 10 * d"
proof -
  obtain l' where l': "calculate_delay ''core'' sample_limiter = (Inr 10, l')"
    and quota: "dict_get (l_quotas l') ''core'' = Some sample_quota"
  proof -
    have "fst (calculate_delay ''core'' sample_limiter) = Inr 10" by code_simp
    moreover have "dict_get (l_quotas (snd (calculate_delay ''core'' sample_limiter))) ''core'' =
        Some sample_quota" by code_simp
    ultimately show thesis using that by (metis prod.collapse)
  qed
  show ?thesis
    using delay_spends_the_window [OF l'] quota l'
    by (auto simp: sample_quota_def sample_limiter_def Let_def)
qed

text \<open>
  Pacing fails closed. A request takes a turn only on a quota that the limiter knows: the stored
  one, while it is younger than the maximum age and its window has not ended; else one that a run of gh
  has just read from GitHub with success, whose answer reports a reset for that resource that the
  local clock, read before the run, is at most the allowed skew past. A timed-out, failed, empty or
  malformed answer, or one that reports no reset for the resource, lets no request go.
\<close>

theorem pacing_fails_closed:
  assumes "resolve_quota_state k l = (Inr q, l')"
  shows "(\<exists>n. is_valid q (l_clock l n) (Some (l_quota_max_age l)) \<and> l_runs l' = l_runs l)
    \<or> (\<exists>p reset n l1 resets l2. l_answers l (l_runs l) = Some p \<and> returncode p = 0 \<and> p_stdout p \<noteq> []
        \<and> extract_rate_limit_endpoint_response (p_stdout p) l1 = (Inr resets, l2)
        \<and> dict_get resets k = Some reset \<and> l_clock l n - reset \<le> clock_skew_bound)"
proof -
  have runs: "l_runs (sync_from_disk l) = l_runs l"
    by (simp add: sync_from_disk_def tick_def flow)
  have answers: "l_answers (sync_from_disk l) = l_answers l" "l_clock (sync_from_disk l) = l_clock l"
    "l_quota_max_age (sync_from_disk l) = l_quota_max_age l"
    using schedule_sync [of l] by (simp_all add: schedule_part_def)
  have refreshed: "\<exists>p reset n l1 resets l2. l_answers l0 (l_runs l0) = Some p \<and> returncode p = 0
        \<and> p_stdout p \<noteq> [] \<and> extract_rate_limit_endpoint_response (p_stdout p) l1 = (Inr resets, l2)
        \<and> dict_get resets k = Some reset \<and> l_clock l0 n - reset \<le> clock_skew_bound"
    if ref: "refresh_quota_state k l0 = (Inr q, l')" for l0
  proof -
    obtain resets l2 reset where g: "refresh_from_github (snd (tick l0)) = (Inr resets, l2)"
      and reset: "dict_get resets k = Some reset"
      and clock: "l_clock l0 (l_ticks l0) - reset \<le> clock_skew_bound"
      using ref by (auto simp: refresh_quota_state_def tick_def check_clocks_agree_def Let_def
          split: prod.splits sum.splits option.splits if_splits)
    obtain p l1 where "l_answers l0 (l_runs l0) = Some p" "returncode p = 0" "p_stdout p \<noteq> []"
      "extract_rate_limit_endpoint_response (p_stdout p) l1 = (Inr resets, l2)"
      using g by (auto simp: refresh_from_github_def run_subprocess_def tick_def
          split: option.splits if_splits)
    then show ?thesis using reset clock by blast
  qed
  let ?l1 = "sync_from_disk l"
  show ?thesis
  proof (cases "dict_get (l_quotas ?l1) k")
    case None
    then have "refresh_quota_state k ?l1 = (Inr q, l')"
      using assms by (simp add: resolve_quota_state_def)
    from refreshed [OF this] show ?thesis unfolding runs answers by blast
  next
    case (Some state)
    let ?l2 = "snd (tick ?l1)"
    show ?thesis
    proof (cases "is_valid state (l_clock l (l_ticks ?l1)) (Some (l_quota_max_age l))")
      case True
      then have "q = state \<and> l' = ?l2"
        using assms Some answers by (auto simp: resolve_quota_state_def tick_def Let_def)
      then show ?thesis using True runs by (auto simp: tick_def)
    next
      case False
      then have "refresh_quota_state k ?l2 = (Inr q, l')"
        using assms Some answers by (auto simp: resolve_quota_state_def tick_def Let_def)
      from refreshed [OF this] show ?thesis using runs answers by (simp add: tick_def)
    qed
  qed
qed

lemma pacing_fails_closed_witness:
  "(\<exists>n. is_valid sample_quota (l_clock sample_limiter n) (Some 300))
   \<and> fst (resolve_quota_state ''search'' sample_limiter) = Inl UnreadError"
proof -
  have fst: "fst (resolve_quota_state ''core'' sample_limiter) = Inr sample_quota" by code_simp
  obtain l' where l': "resolve_quota_state ''core'' sample_limiter = (Inr sample_quota, l')"
    using fst by (metis prod.collapse)
  have "\<exists>n. is_valid sample_quota (l_clock sample_limiter n) (Some 300)"
    using pacing_fails_closed [OF l'] by (simp add: sample_limiter_def)
  moreover have "fst (resolve_quota_state ''search'' sample_limiter) = Inl UnreadError" by code_simp
  ultimately show ?thesis by blast
qed

end
