(* ===== verification/GhProps.thy ===== *)
theory GhProps
  imports LimiterProps
begin

text \<open>
  Properties of the waits before a retry, of the response cache, of running gh under the limiter,
  and of the classes of a failed request.
\<close>

section \<open>The wait before a retry\<close>

text \<open>
  The wait before a refused request is sent again is the server's Retry-After when it gives one;
  else the time to the reset when the quota is spent and its reset is still ahead; else the base wait plus
  what tenacity draws, never above the cap and never below the base or the cap. No wait past the configured
  maximum is returned: such a wait is an error.
\<close>

theorem retry_wait_is_what_github_asks:
  assumes "retry_delay t k b l = (Inr d, l')" and "0 \<le> l_jitter l (l_draws l)"
  shows "\<not> exceeds d (l_max_rate_limit_wait l)
    \<and> (let base = (case b of None \<Rightarrow> l_secondary_rate_wait l | Some f \<Rightarrow> f);
           now = l_clock l (l_ticks l)
       in if positive t then d = the t
          else case dict_get (l_quotas l) k of
                 Some q \<Rightarrow>
                   (case q_reset q of
                      Some r \<Rightarrow>
                        if q_remaining q = Some 0 \<and> 0 < r \<and> now < r then now + d = r
                        else min base (l_secondary_max_cap l) \<le> d \<and> d \<le> l_secondary_max_cap l
                    | None \<Rightarrow> min base (l_secondary_max_cap l) \<le> d \<and> d \<le> l_secondary_max_cap l)
               | None \<Rightarrow> min base (l_secondary_max_cap l) \<le> d \<and> d \<le> l_secondary_max_cap l)"
proof (cases "positive t")
  case True
  then show ?thesis using assms
    by (auto simp: retry_delay_def handle_retry_after_wait_def split: if_splits)
next
  case False
  have sec: "calculate_secondary_delay base cap mw k s = (Inr d, s') \<Longrightarrow>
      l_jitter s (l_draws s) = j \<Longrightarrow> 0 \<le> j \<Longrightarrow> min base cap \<le> d \<and> d \<le> cap \<and> \<not> exceeds d mw"
    for base cap mw s s' j
    by (auto simp: calculate_secondary_delay_def draw_jitter_def Let_def split: if_splits)
  show ?thesis
  proof (cases "is_primary_exhausted (dict_get (l_quotas l) k)")
    case exhausted: True
    then obtain q r where q: "dict_get (l_quotas l) k = Some q" "q_remaining q = Some 0"
      "q_reset q = Some r" "0 < r"
      by (auto simp: is_primary_exhausted_def split: option.splits)
    show ?thesis
    proof (cases "r \<le> l_clock l (l_ticks l)")
      case True
      then have "calculate_secondary_delay (case b of None \<Rightarrow> l_secondary_rate_wait l | Some f \<Rightarrow> f)
          (l_secondary_max_cap l) (l_max_rate_limit_wait l) k (l\<lparr>l_ticks := Suc (l_ticks l)\<rparr>) = (Inr d, l')"
        using assms(1) False exhausted q
        by (cases b) (simp_all add: retry_delay_def calculate_primary_delay_def tick_def)
      from sec [OF this refl] True q False assms(2) show ?thesis by simp
    next
      case ahead: False
      then show ?thesis using assms(1) False exhausted q
        by (auto simp: retry_delay_def calculate_primary_delay_def tick_def Let_def split: if_splits)
    qed
  next
    case spent: False
    then have "calculate_secondary_delay (case b of None \<Rightarrow> l_secondary_rate_wait l | Some f \<Rightarrow> f)
        (l_secondary_max_cap l) (l_max_rate_limit_wait l) k l = (Inr d, l')"
      using assms(1) False by (simp add: retry_delay_def calculate_primary_delay_def)
    from sec [OF this refl assms(2)] False spent show ?thesis
      by (auto simp: is_primary_exhausted_def split: option.splits)
  qed
qed

lemma retry_wait_is_what_github_asks_witness:
  "60 \<le> (61::rat) \<and> fst (retry_delay None ''core'' None sample_limiter) = Inr 61"
proof -
  have fst: "fst (retry_delay None ''core'' None sample_limiter) = Inr 61" by code_simp
  then obtain l' where l': "retry_delay None ''core'' None sample_limiter = (Inr 61, l')"
    by (metis prod.collapse)
  show ?thesis
    using retry_wait_is_what_github_asks [OF l'] fst
    by (simp add: sample_limiter_def sample_quota_def positive_def)
qed

text \<open>
  When gh reports a rate limit on its standard error and a wait comes of it, the limiter holds
  every request of the identity until that wait ends, also after the last attempt, which is not
  repeated; an attempt that may be repeated is repeated only after that wait was slept.
\<close>

theorem rate_limit_holds_the_identity:
  assumes "handle_attempt_backoff p attempt max_retries k l = (Inr again, l')"
    and "is_gh_rate_limited (p_stderr p)"
    and "calculate_backoff_delay (p_stderr p @ '' '' @ p_stdout p) k l = (Inr d, l1)" and "0 < d"
  shows "l_clock l1 (l_ticks l1) + d \<le> l_held_until l' \<and> (again \<longleftrightarrow> attempt < max_retries)
    \<and> l_slept l' = l_slept l1 @ (if again then [d] else [])"
proof -
  have held: "l_held_until (record_throttle d s) = l_held_until s" "l_slept (record_throttle d s) = l_slept s" for s
    by (simp_all add: record_throttle_def persist_to_disk_def Let_def)
  have slept: "l_slept (hold_requests d l1) = l_slept l1" by (simp add: hold_requests_def tick_def)
  show ?thesis using assms held slept
    by (auto simp: handle_attempt_backoff_def pause_def Let_def split: if_splits)
qed

definition limited_proc :: proc where
  "limited_proc = \<lparr>returncode = 1, p_stdout = [], p_stderr = ''HTTP 429''\<rparr>"

lemma rate_limit_holds_the_identity_witness:
  "\<exists>l'. handle_attempt_backoff limited_proc 2 2 ''core'' sample_limiter = (Inr False, l')
     \<and> 161 \<le> l_held_until l'"
proof -
  have wait: "fst (calculate_backoff_delay (p_stderr limited_proc @ '' '' @ p_stdout limited_proc) ''core''
      sample_limiter) = Inr 61" by code_simp
  have hand: "fst (handle_attempt_backoff limited_proc 2 2 ''core'' sample_limiter) = Inr False"
    by code_simp
  obtain l1 where l1: "calculate_backoff_delay (p_stderr limited_proc @ '' '' @ p_stdout limited_proc)
      ''core'' sample_limiter = (Inr 61, l1)" using wait by (metis prod.collapse)
  obtain l' where l': "handle_attempt_backoff limited_proc 2 2 ''core'' sample_limiter = (Inr False, l')"
    using hand by (metis prod.collapse)
  have "l_clock l1 = l_clock sample_limiter"
    using rest_fields(2) [of l1 sample_limiter] rest_backoff l1 by (metis snd_conv)
  then have "l_clock l1 n = 100" for n by (simp add: sample_limiter_def)
  moreover have "is_gh_rate_limited (p_stderr limited_proc)" by code_simp
  ultimately show ?thesis
    using rate_limit_holds_the_identity [OF l' _ l1] l' by auto
qed

section \<open>Attempts of a gh command\<close>

lemma runs_sync_disk [simp]: "l_runs (sync_from_disk l) = l_runs l"
  by (simp add: sync_from_disk_def tick_def flow)

lemma runs_apply_quota: "l_runs (snd (apply_quota_update k r t li u now l)) = l_runs l"
  by (simp add: apply_quota_update_def Let_def split: option.split sum.split)

lemma runs_apply_locked: "l_runs (snd (apply_quota_update_locked k r t li u now l)) = l_runs l"
proof -
  obtain x l1 where "apply_quota_update k r t li u now (sync_from_disk l) = (x, l1)" by fastforce
  then show ?thesis using runs_apply_quota [of k r t li u now "sync_from_disk l"]
    by (cases x) (simp_all add: apply_quota_update_locked_def)
qed

lemma runs_update_quota [simp]: "l_runs (snd (update_quota k r t li u l)) = l_runs l"
  by (simp add: update_quota_def tick_def runs_apply_locked)

lemma runs_update_resources [simp]: "l_runs (snd (update_resources rs l)) = l_runs l"
  by (induction rs arbitrary: l) (auto simp: update_single_resource_quota_def flow split: sum.split)

lemma runs_extract [simp]: "l_runs (snd (extract_rate_limit_endpoint_response out l)) = l_runs l"
  by (simp add: extract_rate_limit_endpoint_response_def Let_def split: json.split)

lemma runs_tick [simp]: "l_runs (snd (tick l)) = l_runs l"
  by (simp add: tick_def)

lemma runs_sync [simp]: "l_runs (sync_from_disk l) = l_runs l"
  by (simp add: sync_from_disk_def flow)

lemma runs_refresh: "l_runs (snd (refresh_from_github l)) = Suc (l_runs l)"
  by (simp add: refresh_from_github_def run_subprocess_def flow split: option.split)

lemma runs_refresh_state: "l_runs (snd (refresh_quota_state k l)) = Suc (l_runs l)"
  by (simp add: refresh_quota_state_def flow runs_refresh split: sum.split option.split)

lemma runs_target_delay: "l_runs (snd (calculate_target_delay k m l)) \<le> Suc (l_runs l)"
  by (simp add: calculate_target_delay_def calculate_delay_def resolve_quota_state_def flow
      runs_refresh_state split: sum.split option.split)

lemma runs_charge [simp]: "l_runs (snd (charge_turn k now c l)) = l_runs l"
  by (simp add: charge_turn_def flow split: option.split sum.split)

lemma runs_acquire_locked: "l_runs (snd (acquire_locked t m c l)) \<le> Suc (l_runs l)"
  using runs_target_delay [of t m "snd (tick (sync_from_disk l))"]
  by (cases m) (simp_all add: acquire_locked_def flow split: sum.split)

lemma runs_acquire: "l_runs (snd (snd (acquire gate k res m c w))) \<le> Suc (l_runs (snd w))"
  using runs_acquire_locked [of _ m c "(snd w)\<lparr>l_paced := p\<rparr>" for p]
  by (simp add: acquire_def flow split: sum.split)

lemma runs_header_lines [simp]: "l_runs (snd (process_header_lines ls m l)) = l_runs l"
  using rest_fields(11) [OF rest_header_lines] .

lemma runs_from_output [simp]: "l_runs (snd (parse_rate_limit_from_output out k l)) = l_runs l"
proof -
  have json: "l_runs (snd (extract_graphql_ratelimit_json out s)) = l_runs s" for s
  proof -
    have "l_runs (snd (charge_reported_cost v s)) = l_runs s" for v s
      by (simp add: charge_reported_cost_def charge_points_def split: json.split)
    moreover have "l_runs (snd (track_reported_quota v s)) = l_runs s" for v s
      by (simp add: track_reported_quota_def split: sum.split)
    ultimately show ?thesis by (simp add: extract_graphql_ratelimit_json_def flow split: sum.split)
  qed
  have header: "l_runs (snd (extract_header_ratelimit out k' s)) = l_runs s" for k' s
    by (simp add: extract_header_ratelimit_def process_header_metrics_def flow split: option.split)
  show ?thesis by (simp add: parse_rate_limit_from_output_def flow json header split: sum.split)
qed

lemma runs_post_process [simp]: "l_runs (snd (post_process_run p k rq ex l)) = l_runs l"
  by (simp add: post_process_run_def raised_def flow split: sum.split)

lemma runs_attempt:
  "l_runs (snd (snd (execute_gh_single_attempt gate c w))) \<le> l_runs (snd w) + 2"
proof -
  have "l_runs (snd (snd (paced_attempt gate c w))) \<le> Suc (l_runs (snd w))"
    using runs_acquire [of gate "gc_resource c" None "gc_mutation c" "gc_cost c" w]
    by (simp add: paced_attempt_def flow split: sum.split)
  then show ?thesis
    by (simp add: execute_gh_single_attempt_def run_subprocess_def flow split: sum.split option.split)
qed

lemma runs_backoff [simp]:
  "l_runs (snd (handle_attempt_backoff p a n k l)) = l_runs l"
proof -
  have "l_runs (snd (calculate_backoff_delay msg k l)) = l_runs l" for msg
    using rest_fields(11) [OF rest_backoff] .
  then show ?thesis
    by (simp add: handle_attempt_backoff_def hold_requests_def record_throttle_def pause_def flow
        split: sum.split)
qed

lemma runs_keep_answer [simp]: "l_runs (snd (keep_answer c p l)) = l_runs l"
  using rest_fields(11) [OF rest_set_cached]
  by (simp add: keep_answer_def flow split: sum.split)

lemma runs_attempts:
  "l_runs (snd (snd (gh_attempts gate c as p w))) \<le> l_runs (snd w) + 2 * length as"
proof (induction as arbitrary: p w)
  case (Cons a as)
  obtain r g l where att: "execute_gh_single_attempt gate c w = (r, g, l)" by (metis prod.exhaust)
  have first: "l_runs l \<le> l_runs (snd w) + 2" using runs_attempt [of gate c w] att by simp
  show ?case
  proof (cases r)
    case (Inr p1)
    obtain r2 l2 where off: "handle_attempt_backoff p1 a (gc_max_retries c) (gc_resource c) l = (r2, l2)"
      by (metis prod.exhaust)
    have "l_runs l2 = l_runs l" using runs_backoff [of p1 a "gc_max_retries c" "gc_resource c" l] off by simp
    then show ?thesis
      using first Inr att off Cons.IH [of p1 "(g, l2)"]
      by (auto simp: flow split: sum.split bool.split)
  qed (use att first in simp)
qed simp

text \<open>
  Running gh ends, and sends gh at most twice for each of the attempts the retry limit allows: once
  for the command and at most once to refresh the quota. A command whose first run succeeds, or fails
  with anything but a rate limit, is not sent again.
\<close>

theorem gh_attempts_are_bounded:
  "l_runs (snd (snd (run_gh_retry_loop gate c w))) \<le> l_runs (snd w) + 2 * (gc_max_retries c + 1)
   \<and> (case execute_gh_single_attempt gate c w of
        (Inr p, g, l) \<Rightarrow>
          (if returncode p \<noteq> 0 \<and> is_gh_rate_limited (p_stderr p) then True
           else l_runs (snd (snd (run_gh_retry_loop gate c w))) = l_runs l)
      | (Inl e, w1) \<Rightarrow> run_gh_retry_loop gate c w = (Inl e, w1))"
proof -
  have up: "[0 ..< Suc (gc_max_retries c)] = 0 # [1 ..< Suc (gc_max_retries c)]"
    by (simp add: upt_rec)
  obtain r g l where att: "execute_gh_single_attempt gate c w = (r, g, l)" by (metis prod.exhaust)
  have first: "(if returncode p \<noteq> 0 \<and> is_gh_rate_limited (p_stderr p) then True
      else l_runs (snd (snd (run_gh_retry_loop gate c w))) = l_runs l)" if "r = Inr p" for p
    using that att
    by (auto simp: run_gh_retry_loop_def up handle_attempt_backoff_def flow simp del: upt_Suc)
  show ?thesis
    using runs_attempts [of gate c "[0 ..< gc_max_retries c + 1]"
        "\<lparr>returncode = 1, p_stdout = [], p_stderr = []\<rparr>" w] att first
    by (cases r) (auto simp: run_gh_retry_loop_def up simp del: upt_Suc)
qed

section \<open>The response cache\<close>

lemma cache_text_frame [simp]:
  "cache_text (l\<lparr>l_ticks := n\<rparr>) v = cache_text l v" "cache_text (l\<lparr>l_cache := c\<rparr>) v = cache_text l v"
  by (simp_all add: cache_text_def split: json.split option.split)

text \<open>
  The response cache never answers with an expired entry. What it answers is an entry held in
  memory, or one in the file of that key when the limiter keeps files, whose expiry the clock,
  read during the call, has not passed.
\<close>

theorem cache_answers_are_fresh:
  assumes "get_cached key l = (Inr (Some data), l')"
  shows "\<exists>n expires. l_ticks l \<le> n \<and> n < l_ticks l' \<and> l_clock l n \<le> expires
    \<and> (dict_get (l_cache l) key = Some \<lparr>ce_data = data, ce_expires = expires\<rparr>
       \<or> l_persist l \<and> (\<exists>v. dict_get (l_responses l) key = Some (Some v) \<and> is_obj v
            \<and> float_or_zero v ''expires_at'' = Inr expires \<and> cache_text l v = data))"
proof -
  have disk: "\<exists>expires v. l_clock s (l_ticks s) \<le> expires \<and> Suc (l_ticks s) = l_ticks l' \<and> l_persist s
      \<and> dict_get (l_responses s) key = Some (Some v) \<and> is_obj v
      \<and> float_or_zero v ''expires_at'' = Inr expires \<and> cache_text s v = data"
    if "read_disk_cached key s = (Inr (Some data), l')" for s
    using that
    by (auto simp: read_disk_cached_def load_disk_cache_def tick_def Let_def
        split: option.splits if_splits sum.splits prod.splits)
  let ?l1 = "l\<lparr>l_ticks := Suc (l_ticks l)\<rparr>"
  consider (memory) e where "dict_get (l_cache l) key = Some e" "l_clock l (l_ticks l) \<le> ce_expires e"
      "data = ce_data e" "l' = ?l1"
    | (stored) c where "read_disk_cached key (?l1\<lparr>l_cache := c\<rparr>) = (Inr (Some data), l')"
  proof (cases "dict_get (l_cache l) key")
    case None
    then have "read_disk_cached key (?l1\<lparr>l_cache := l_cache l\<rparr>) = (Inr (Some data), l')"
      using assms by (simp add: get_cached_def tick_def)
    then show thesis by (rule that(2))
  next
    case (Some e)
    show thesis
    proof (cases "l_clock l (l_ticks l) \<le> ce_expires e")
      case True
      then have "data = ce_data e" "l' = ?l1"
        using assms Some by (auto simp: get_cached_def tick_def Let_def)
      with Some True show thesis by (rule that(1))
    next
      case False
      then have "read_disk_cached key (?l1\<lparr>l_cache := dict_del key (l_cache l)\<rparr>) = (Inr (Some data), l')"
        using assms Some by (simp add: get_cached_def tick_def)
      then show thesis by (rule that(2))
    qed
  qed
  then show ?thesis
  proof cases
    case memory
    then show ?thesis
      by (intro exI [of _ "l_ticks l"] exI [of _ "ce_expires e"]) (cases e; simp)
  next
    case stored
    from disk [OF this] show ?thesis
      by (auto intro!: exI [of _ "Suc (l_ticks l)"])
  qed
qed

definition caching_limiter :: limiter where
  "caching_limiter = sample_limiter\<lparr>l_persist := True,
     l_cache := [(''k'', \<lparr>ce_data = ''old'', ce_expires = 99\<rparr>)],
     l_responses := [(''k'', Some (JObj [(''expires_at'', JInt 100), (''data'', JStr ''new'')]))]\<rparr>"

lemma cache_answers_are_fresh_witness:
  "\<exists>n expires l'. get_cached ''k'' caching_limiter = (Inr (Some ''new''), l')
     \<and> l_clock caching_limiter n \<le> expires \<and> expires = 100"
proof -
  have "fst (get_cached ''k'' caching_limiter) = Inr (Some ''new'')" by code_simp
  then obtain l' where l': "get_cached ''k'' caching_limiter = (Inr (Some ''new''), l')"
    by (metis prod.collapse)
  show ?thesis
    using cache_answers_are_fresh [OF l'] l'
    by (auto simp: caching_limiter_def float_or_zero_def)
qed

lemma prune_keeps_fresh:
  assumes "dict_get (l_cache l) key = Some e" and "l_clock l (l_ticks l) \<le> ce_expires e"
  shows "dict_get (l_cache (snd (prune_expired_cache l))) key = Some e"
proof -
  have kept: "map_of (filter (\<lambda>(k, v). P v) d) key = Some x"
    if "map_of d key = Some x" "P x" for d :: "(string \<times> cache_entry) list" and P x
    using that by (induction d) (auto split: if_splits)
  have "l_cache (snd (prune_expired_cache l)) = filter (\<lambda>(k, e). \<not> l_clock l (l_ticks l) > ce_expires e) (l_cache l)"
    by (simp add: prune_expired_cache_def tick_def flow split: sum.split)
  then show ?thesis using kept [OF assms(1), of "\<lambda>e. \<not> l_clock l (l_ticks l) > ce_expires e"] assms(2)
    by simp
qed

lemma ticks_prune: "l_ticks (snd (prune_expired_cache l)) = Suc (l_ticks l)"
  by (simp add: prune_expired_cache_def tick_def flow split: sum.split)

text \<open>
  An answer put into the cache is what the cache gives back for its key until its time to live has
  passed, on a clock that does not run backwards, although storing it may prune the expired entries.
\<close>

theorem cache_gives_back_what_was_put:
  assumes set: "set_cached key data ttl l = (Inr (), l1)"
    and mono: "\<forall>i j. i \<le> j \<longrightarrow> l_clock l i \<le> l_clock l j"
    and young: "l_clock l (l_ticks l1) \<le> l_clock l (l_ticks l) + ttl"
  shows "fst (get_cached key l1) = Inr (Some data)"
proof -
  let ?e = "\<lparr>ce_data = data, ce_expires = l_clock l (l_ticks l) + ttl\<rparr>"
  have clock: "l_clock l1 = l_clock l"
    using rest_fields(2) [OF rest_set_cached [of key data ttl l]] set by simp
  have "dict_get (l_cache l1) key = Some ?e"
  proof (cases "l_persist l")
    case False
    then have "l1 = l\<lparr>l_ticks := Suc (l_ticks l), l_cache := dict_set key ?e (l_cache l)\<rparr>"
      using set by (simp add: set_cached_def tick_def Let_def)
    then show ?thesis by simp
  next
    case True
    let ?s = "(save_disk_cache key ?e (l\<lparr>l_ticks := Suc (l_ticks l),
      l_cache := dict_set key ?e (l_cache l)\<rparr>))\<lparr>l_ticks := Suc (Suc (l_ticks l))\<rparr>"
    have s: "l_cache ?s = dict_set key ?e (l_cache l)" "l_clock ?s = l_clock l"
      by (simp_all add: save_disk_cache_def)
    consider "l1 = ?s" | "l1 = snd (prune_expired_cache ?s)"
      using set True
      by (auto simp: set_cached_def tick_def save_disk_cache_def Let_def split: if_splits sum.splits prod.splits)
    then show ?thesis
    proof cases
      case 2
      have "l_clock l (l_ticks ?s) \<le> l_clock l (l_ticks l1)"
        using mono by (simp add: 2 ticks_prune)
      then have "l_clock ?s (l_ticks ?s) \<le> ce_expires ?e" unfolding s using young by simp
      then show ?thesis unfolding 2 by (intro prune_keeps_fresh) (simp_all add: s)
    qed (simp add: s)
  qed
  then show ?thesis using young by (simp add: get_cached_def tick_def clock)
qed

lemma cache_gives_back_what_was_put_witness:
  "fst (get_cached ''k'' (snd (set_cached ''k'' ''fresh'' 60 caching_limiter))) = Inr (Some ''fresh'')"
proof (rule cache_gives_back_what_was_put [where data = "''fresh''" and ttl = 60 and l = caching_limiter])
  have "fst (set_cached ''k'' ''fresh'' 60 caching_limiter) = Inr ()" by code_simp
  then show "set_cached ''k'' ''fresh'' 60 caching_limiter =
      (Inr (), snd (set_cached ''k'' ''fresh'' 60 caching_limiter))"
    by (metis prod.collapse)
qed (simp_all add: caching_limiter_def sample_limiter_def)

text \<open>
  A cache file that holds JSON but no object is no corrupt entry to the pruning: reading it is an
  AttributeError that nothing catches, so a limiter with a ledger cannot be opened beside such a
  file, whatever the rest of its state. The function's own text says that it checks for a corrupt file.
\<close>

theorem array_file_blocks_opening:
  assumes "l_persist l" and "l_responses l = [(name, Some (JArr vs))]"
  shows "open_limiter l = Inl AttributeError"
proof -
  have "l_responses (sync_from_disk l) = l_responses l" "l_persist (sync_from_disk l) = l_persist l"
    by (rule schedule_fields, simp)+
  then show ?thesis using assms
    by (simp add: open_limiter_def prune_expired_cache_def tick_def is_expired_or_corrupt_def Let_def)
qed

lemma array_file_blocks_opening_witness:
  "open_limiter (sample_limiter\<lparr>l_persist := True, l_responses := [(''f'', Some (JArr []))]\<rparr>) =
     Inl AttributeError"
  by (rule array_file_blocks_opening [where name = "''f''" and vs = "[]"]) simp_all

section \<open>Classes of a failed request\<close>

text \<open>
  The classes of a failed answer are told apart as documented. It is a rate limit exactly when GitHub
  said so by its exception, by status 429, or by a 403 with Retry-After. Otherwise the identity
  counts as refused exactly for a 401, and for a 403 to a write that carries no rate-limit header,
  unless the token lacks the scopes; a 403 to a read never does. No answer at all is unread.
\<close>

theorem refusals_are_told_apart:
  "classify_http_error NoAnswer m p = UnreadError
   \<and> ((\<exists>k. classify_http_error (HttpFailure e) m p = RateLimitError k) \<longleftrightarrow> is_rate_limited e)
   \<and> (classify_http_error (HttpFailure e) m p = UnauthenticatedError \<longleftrightarrow>
        \<not> is_rate_limited e \<and> missing_scopes e = {}
        \<and> (hf_status e = 401 \<or> hf_status e = 403 \<and> is_write m p \<and> reports_no_quota e))
   \<and> (\<not> is_write m p \<and> hf_status e = 403 \<longrightarrow>
        classify_http_error (HttpFailure e) m p \<noteq> UnauthenticatedError)"
  by (auto simp: classify_http_error_def rate_limit_error_def rate_limit_refusal_def refused_write_def)

lemma refusals_are_told_apart_witness:
  "classify_http_error (HttpFailure \<lparr>hf_class = BadRequest, hf_status = 403, hf_headers = []\<rparr>)
     ''PATCH'' ''/repos/o/r'' = UnauthenticatedError
   \<and> classify_http_error (HttpFailure \<lparr>hf_class = BadRequest, hf_status = 403, hf_headers = []\<rparr>)
     ''GET'' ''/repos/o/r'' \<noteq> UnauthenticatedError"
proof -
  let ?e = "\<lparr>hf_class = BadRequest, hf_status = 403, hf_headers = []\<rparr>"
  have w: "is_write ''PATCH'' ''/repos/o/r''" "\<not> is_write ''GET'' ''/repos/o/r''"
    by code_simp+
  have q: "\<not> is_rate_limited ?e" "missing_scopes ?e = {}" "reports_no_quota ?e"
    by (simp_all add: is_rate_limited_def missing_scopes_def reports_no_quota_def)
  show ?thesis
    using refusals_are_told_apart [of "''PATCH''" "''/repos/o/r''" ?e]
      refusals_are_told_apart [of "''GET''" "''/repos/o/r''" ?e] w q by simp
qed

text \<open>
  A gh command that the limiter paces as a read is one that was read as one: a REST call whose method
  is none of POST, PUT, PATCH and DELETE, a GraphQL call whose document was given and parsed as a
  query, a search, or a command with a known read verb. An argv that cannot be read is paced as a write.
\<close>

theorem reads_are_known_reads:
  assumes "\<not> is_write_gh_command av args"
  shows "args \<noteq> [] \<and> hd args = ''api'' \<and>
      (\<exists>r. av_request av (tl args) = Some r \<and>
        (if req_endpoint r = graphql_endpoint
         then \<exists>d. req_document r = Some d \<and> av_query av d (req_operation r)
         else upper (req_method r) \<notin> set mutation_http_methods))
    \<or> (\<exists>grp verb. av_words av args = Some (grp, verb) \<and>
        (grp = Some ''search'' \<or> (\<exists>v. verb = Some v \<and> v \<in> set read_verbs)))"
  using assms
  by (auto simp: is_write_gh_command_def is_write_request_def runs_a_query_def read_groups_def
      split: if_splits option.splits)

definition sample_reader :: argv_reader where
  "sample_reader = \<lparr>av_words = (\<lambda>args. case args of g # v # _ \<Rightarrow> Some (Some g, Some v) | _ \<Rightarrow> None),
     av_api = (\<lambda>_. None), av_request = (\<lambda>_. None), av_query = (\<lambda>_ _. False)\<rparr>"

lemma reads_are_known_reads_witness:
  "\<exists>v. av_words sample_reader [''pr'', ''list''] = Some (Some ''pr'', Some v) \<and> v \<in> set read_verbs"
proof -
  have "\<not> is_write_gh_command sample_reader [''pr'', ''list'']" by code_simp
  from reads_are_known_reads [OF this] show ?thesis by (simp add: sample_reader_def)
qed

end
