(* ===== verification/Budget.thy ===== *)
theory Budget
  imports GhProps
begin

text \<open>
  The hourly request budget of the Service: the class \<^verbatim>\<open>RequestBudget\<close> of
  \<^verbatim>\<open>src/devops_cli/server/service.py\<close>. Each method holds the budget's lock, so it is one function
  on the budget's state, which includes the clock (as a stream of readings), the record file, which
  of its writes go through, and the waits slept. \<open>admit\<close> loops until the window has room, and lets
  the lock go after each round of its loop: the model gives it, for each of its waits, the
  operations that other threads do meanwhile.
\<close>

section \<open>State\<close>

record budget =
  b_limit :: int
  b_window :: seconds
  b_sent :: "(instant \<times> int) list"
  b_admitted :: int
  b_rounds :: int
  b_closed :: bool
  b_holding :: bool
  b_keeps :: bool
  b_record :: "(instant \<times> int) list"
  b_disk :: "nat \<Rightarrow> bool"
  b_saves :: nat
  b_holds_counted :: nat
  b_clock :: "nat \<Rightarrow> instant"
  b_ticks :: nat
  b_waits :: "seconds list"

datatype service_error = StateUnreadable

definition read_state_record :: "'a option option \<Rightarrow> 'a \<Rightarrow> service_error + 'a" where
  \<comment> \<open>The record: no file, a file that cannot be read, or what it holds.\<close>
  "read_state_record record none_kept =
     (case record of None \<Rightarrow> Inr none_kept | Some None \<Rightarrow> Inl StateUnreadable | Some (Some v) \<Rightarrow> Inr v)"

definition budget_now :: "budget \<Rightarrow> instant \<times> budget" where
  "budget_now b = (b_clock b (b_ticks b), b\<lparr>b_ticks := Suc (b_ticks b)\<rparr>)"

definition total_sent :: "(instant \<times> int) list \<Rightarrow> int" where
  "total_sent sent = sum_list (map snd sent)"

definition spent_locked :: "budget \<Rightarrow> int \<times> budget" where
  "spent_locked b =
     (let (now, b1) = budget_now b;
          cutoff = now - b_window b1;
          sent = dropWhile (\<lambda>(t, _). t \<le> cutoff) (b_sent b1)
      in (total_sent sent, b1\<lparr>b_sent := sent\<rparr>))"

definition budget_wait_slice :: seconds where
  "budget_wait_slice = 1"

definition new_budget ::
  "int \<Rightarrow> seconds \<Rightarrow> (instant \<times> int) list option option option \<Rightarrow> (nat \<Rightarrow> bool)
   \<Rightarrow> (nat \<Rightarrow> instant) \<Rightarrow> nat \<Rightarrow> service_error + budget" where
  \<comment> \<open>\<open>record\<close> is \<open>None\<close> for a budget that keeps none; \<open>disk\<close> says which of this process's writes of the
    record go through. The gauge of the requests spent reads the window.\<close>
  "new_budget limit window record disk clock ticks =
     (case (case record of None \<Rightarrow> Inr [] | Some file \<Rightarrow> read_state_record file []) of
        Inl e \<Rightarrow> Inl e
      | Inr kept \<Rightarrow>
          Inr (snd (spent_locked
            \<lparr>b_limit = limit, b_window = window, b_sent = kept, b_admitted = 0, b_rounds = 0,
             b_closed = False, b_holding = False, b_keeps = (record \<noteq> None), b_record = kept,
             b_disk = disk, b_saves = 0,
             b_holds_counted = 0, b_clock = clock, b_ticks = ticks, b_waits = []\<rparr>)))"

section \<open>Operations\<close>

definition keep_record :: "budget \<Rightarrow> budget" where
  \<comment> \<open>A write that fails is logged; the file keeps what it held, because the write is atomic.\<close>
  "keep_record b =
     (if b_keeps b
      then b\<lparr>b_record := (if b_disk b (b_saves b) then b_sent b else b_record b),
             b_saves := Suc (b_saves b)\<rparr>
      else b)"

definition give_place :: "budget \<Rightarrow> budget" where
  "give_place b =
     (let (now, b1) = budget_now b
      in keep_record (b1\<lparr>b_sent := b_sent b1 @ [(now, 1)], b_admitted := b_admitted b1 + 1\<rparr>))"

definition wait_for_room :: "budget \<Rightarrow> budget" where
  \<comment> \<open>The wait of a request the window has no room for.\<close>
  "wait_for_room b =
     (let (now, b1) = budget_now b; wait = fst (hd (b_sent b1)) + b_window b1 - now
      in b1\<lparr>b_waits := b_waits b1 @ [min (max wait 0) budget_wait_slice]\<rparr>)"

text \<open>
  One round of the loop of \<open>admit\<close>: a place, the error of a closed budget, or \<open>None\<close> for a
  wait after which it tries again.
\<close>

definition admit_round :: "budget \<Rightarrow> (gh_error + unit) option \<times> budget" where
  "admit_round b =
     (let (spent, b1) = spent_locked b
      in if spent < b_limit b1 then (Some (Inr ()), give_place b1)
         else if b_sent b1 = [] then (Some (Inl (PyError IndexError)), b1)
         else if b_closed b1 then (Some (Inl GateError), snd (budget_now b1))
         else (None, wait_for_room b1))"

definition take_back :: "(instant \<times> int) list \<Rightarrow> (instant \<times> int) list" where
  "take_back sent =
     (let (t, count) = last sent
      in if count > 1 then butlast sent @ [(t, count - 1)] else butlast sent)"

definition refund :: "budget \<Rightarrow> budget" where
  "refund b =
     (let b1 = snd (spent_locked b)
      in if b_sent b1 = [] then b1
         else keep_record (b1\<lparr>b_sent := take_back (b_sent b1),
                              b_admitted := max (b_admitted b1 - 1) 0\<rparr>))"

definition close_budget :: "budget \<Rightarrow> budget" where
  "close_budget b = b\<lparr>b_closed := True\<rparr>"

definition count_round :: "budget \<Rightarrow> budget" where
  "count_round b = b\<lparr>b_rounds := b_rounds b + 1\<rparr>"

definition spent :: "budget \<Rightarrow> int \<times> budget" where
  "spent b = spent_locked b"

definition budget_holds :: "budget \<Rightarrow> bool \<times> budget" where
  "budget_holds b =
     (let (n, b1) = spent_locked b;
          holding = (b_limit b1 \<le> n);
          began = (holding \<and> \<not> b_holding b1)
      in (holding, b1\<lparr>b_holding := holding,
                      b_holds_counted := b_holds_counted b1 + (if began then 1 else 0)\<rparr>))"

definition poll_interval :: "rat \<Rightarrow> int \<Rightarrow> budget \<Rightarrow> rat" where
  "poll_interval configured rounds_per_poll b =
     (if b_rounds b = 0 then configured
      else let cost = of_int (b_admitted b) / of_int (b_rounds b);
               needed = b_window b * of_int rounds_per_poll * cost / of_int (b_limit b)
           in max configured (of_int \<lceil>needed\<rceil>))"

section \<open>Waiting for a place\<close>

text \<open>
  What another thread may do to the budget while a request waits, each holding the lock for the whole
  of it: a round of another request's \<open>admit\<close>, and the other operations.
\<close>

datatype budget_op = AdmitRound | Refund | Close | CountRound | Spent | Holds

fun budget_step :: "budget \<Rightarrow> budget_op \<Rightarrow> budget" where
  "budget_step b AdmitRound = snd (admit_round b)"
| "budget_step b Refund = refund b"
| "budget_step b Close = close_budget b"
| "budget_step b CountRound = count_round b"
| "budget_step b Spent = snd (spent b)"
| "budget_step b Holds = snd (budget_holds b)"

fun admit :: "budget_op list list \<Rightarrow> budget \<Rightarrow> (gh_error + unit) option \<times> budget" where
  \<comment> \<open>A round, then for each wait the others' operations meanwhile and a round again; \<open>None\<close> is a
    request that still waits.\<close>
  "admit [] b = admit_round b"
| "admit (ops # later) b =
     (case admit_round b of
        (Some r, b1) \<Rightarrow> (Some r, b1)
      | (None, b1) \<Rightarrow> admit later (run_steps budget_step b1 ops))"

section \<open>The gate of the rate limiter\<close>

text \<open>A request still waiting after the given waits has not been let go.\<close>

definition budget_gate :: "budget_op list list \<Rightarrow> budget gate" where
  "budget_gate others b =
     (case admit others b of
        (Some r, b1) \<Rightarrow> (r, b1)
      | (None, b1) \<Rightarrow> (Inl GateError, b1))"

definition paced_total :: "limiter \<Rightarrow> int" where
  "paced_total l = sum_list (map snd (l_paced l))"

lemma kept_paced: "l_paced (snd (acquire_locked t m c l)) = l_paced l"
  by (simp add: acquire_locked_def flow kept_fields split: sum.split)

text \<open>
  What the rate limiter relies on of a gate: a request that it lets go took its place from a state of
  the budget that had room for one, which is the gate's own state or one that others' operations
  led to; and a request that it refuses took none.
\<close>

locale request_gate =
  fixes gate :: "'g \<Rightarrow> (gh_error + unit) \<times> 'g"
    and reached :: "'g \<Rightarrow> 'g \<Rightarrow> bool"
    and room :: "'g \<Rightarrow> bool"
    and place :: "'g \<Rightarrow> 'g"
  assumes let_go: "gate g = (Inr (), g') \<Longrightarrow> \<exists>g0. reached g g0 \<and> room g0 \<and> g' = place g0"
    and refused: "gate g = (Inl e, g') \<Longrightarrow> reached g g'"
begin

lemma request_took_its_place:
  assumes "acquire gate k res m c (g, l) = (Inr d, g', l')"
  shows "(\<exists>g0. reached g g0 \<and> room g0 \<and> g' = place g0) \<and> paced_total l' = paced_total l + 1"
proof -
  let ?t = "if falsy res then k else the res"
  let ?l = "l\<lparr>l_paced := dict_set ?t (get_or 0 (l_paced l) ?t + 1) (l_paced l)\<rparr>"
  obtain r g1 where g: "gate g = (r, g1)" by (cases "gate g")
  have paced: "paced_total (snd (acquire_locked ?t m c ?l)) = paced_total l + 1"
    using kept_paced [of ?t m c ?l] sum_values_set [of ?t "l_paced l" 1]
    by (simp add: paced_total_def)
  obtain u where r: "r = Inr u" using assms g by (cases r) (simp_all add: acquire_def)
  then have "g' = g1" using assms g by (auto simp: acquire_def flow Let_def split: sum.splits)
  moreover have "paced_total (snd (snd (acquire gate k res m c (g, l)))) = paced_total l + 1"
    using g r paced
    by (auto simp: acquire_def Let_def paced_total_def split: prod.split sum.split)
  ultimately show ?thesis using assms let_go [of g g1] g r by simp
qed

lemma refused_request_took_none:
  assumes "gate g = (Inl e, g')"
  shows "acquire gate k res m c (g, l) = (Inl e, g', l) \<and> reached g g'"
  using assms refused by (simp add: acquire_def)

end

end
