(* ===== verification/BudgetProps.thy ===== *)
theory BudgetProps
  imports Budget
begin

text \<open>
  The promise of the hourly budget: no hour holds more requests than the limit, whatever order the
  requests, the refunds and the restarts of the Service come in. A step is one section of the code
  that holds the lock, so the rounds of any number of waiting requests interleave. The history of a
  budget is the
  list of the places it gave and did not take back, which the budget itself does not keep.
\<close>

definition record_kept :: "budget \<Rightarrow> bool" where
  \<comment> \<open>The last write of the record, if this process made one, went through.\<close>
  "record_kept b = (b_saves b = 0 \<or> b_disk b (b_saves b - 1))"

definition restart :: "budget \<Rightarrow> budget" where
  \<comment> \<open>A new process reads the record of the last one.\<close>
  "restart b =
     (case new_budget (b_limit b) (b_window b) (if b_keeps b then Some (Some (Some (b_record b))) else None)
             (\<lambda>n. b_disk b (b_saves b + n)) (b_clock b) (b_ticks b) of
        Inl _ \<Rightarrow> b | Inr b' \<Rightarrow> b')"

datatype process_op = Runs budget_op | Restart

fun process_step :: "budget \<Rightarrow> process_op \<Rightarrow> budget" where
  "process_step b (Runs op) = budget_step b op"
| "process_step b Restart = restart b"

definition history_step ::
  "(instant \<times> int) list \<times> budget \<Rightarrow> process_op \<Rightarrow> (instant \<times> int) list \<times> budget" where
  "history_step w op =
     (let (h, b) = w; b' = process_step b op
      in (case op of
            Runs AdmitRound \<Rightarrow> if fst (admit_round b) = Some (Inr ()) then h @ [last (b_sent b')] else h
          | Runs Refund \<Rightarrow> if b_sent (snd (spent_locked b)) = [] then h else take_back h
          | _ \<Rightarrow> h, b'))"

definition in_window :: "instant \<Rightarrow> instant \<Rightarrow> (instant \<times> int) list \<Rightarrow> int" where
  \<comment> \<open>The requests of a history after one instant and up to another.\<close>
  "in_window a z h = total_sent (filter (\<lambda>(t, _). a < t \<and> t \<le> z) h)"

section \<open>The invariant\<close>

definition counts_ok :: "(instant \<times> int) list \<Rightarrow> bool" where
  "counts_ok h = (\<forall>(t, n) \<in> set h. 0 < n)"

definition expired :: "budget \<Rightarrow> (instant \<times> int) list \<Rightarrow> bool" where
  "expired b gone = (\<forall>(t, n) \<in> set gone. t \<le> b_clock b (b_ticks b) - b_window b)"

definition recent :: "budget \<Rightarrow> (instant \<times> int) list \<Rightarrow> int" where
  \<comment> \<open>The requests within a window before the last entry.\<close>
  "recent b h = total_sent (filter (\<lambda>(t, _). fst (last h) - b_window b < t) h)"

fun windows_ok :: "budget \<Rightarrow> (instant \<times> int) list \<Rightarrow> (instant \<times> int) list \<Rightarrow> bool" where
  "windows_ok b p [] = True"
| "windows_ok b p (e # s) = (recent b (p @ [e]) \<le> b_limit b \<and> windows_ok b (p @ [e]) s)"

definition times_ordered :: "budget \<Rightarrow> (instant \<times> int) list \<Rightarrow> bool" where
  \<comment> \<open>The times of the entries go up, and none is after the clock.\<close>
  "times_ordered b h = (sorted (map fst h) \<and> (\<forall>t \<in> set (map fst h). t \<le> b_clock b (b_ticks b)))"

definition history_ok :: "(instant \<times> int) list \<Rightarrow> budget \<Rightarrow> bool" where
  "history_ok h b \<longleftrightarrow>
     (\<exists>gone. h = gone @ b_sent b \<and> expired b gone)
     \<and> (b_keeps b \<and> record_kept b \<longrightarrow> (\<exists>gone. h = gone @ b_record b \<and> expired b gone))
     \<and> counts_ok h \<and> times_ordered b h \<and> windows_ok b [] h \<and> mono (b_clock b) \<and> 0 \<le> b_limit b"

lemma total_Nil [simp]: "total_sent [] = 0"
  by (simp add: total_sent_def)

lemma total_append [simp]: "total_sent (a @ b) = total_sent a + total_sent b"
  by (simp add: total_sent_def)

lemma total_Cons [simp]: "total_sent ((t, n) # h) = n + total_sent h"
  by (simp add: total_sent_def)

lemma counts_append [simp]: "counts_ok (a @ b) = (counts_ok a \<and> counts_ok b)"
  by (auto simp: counts_ok_def)

lemma total_filter_mono:
  "counts_ok h \<Longrightarrow> (\<And>t n. (t, n) \<in> set h \<Longrightarrow> P (t, n) \<Longrightarrow> Q (t, n))
   \<Longrightarrow> total_sent (filter P h) \<le> total_sent (filter Q h)"
proof (induction h)
  case (Cons e h)
  obtain t n where e: "e = (t, n)" by (cases e)
  have "counts_ok h" "0 < n" using Cons.prems(1) by (auto simp: counts_ok_def e)
  moreover have "total_sent (filter P h) \<le> total_sent (filter Q h)"
    using Cons.IH Cons.prems \<open>counts_ok h\<close> by simp
  ultimately show ?case using Cons.prems(2) [of t n] by (auto simp: e)
qed simp

lemma windows_append:
  "windows_ok b p (s @ s') \<longleftrightarrow> windows_ok b p s \<and> windows_ok b (p @ s) s'"
  by (induction s arbitrary: p) auto

lemma windows_cong:
  "b_limit b' = b_limit b \<Longrightarrow> b_window b' = b_window b \<Longrightarrow> windows_ok b' p s = windows_ok b p s"
  by (induction s arbitrary: p) (auto simp: recent_def)

lemma expired_later:
  assumes "expired b gone" "b_clock b' = b_clock b" "b_window b' = b_window b"
    and "b_ticks b \<le> b_ticks b'" "mono (b_clock b)"
  shows "expired b' gone"
proof -
  have "b_clock b (b_ticks b) \<le> b_clock b (b_ticks b')" using assms(4,5) by (simp add: monoD)
  then show ?thesis using assms(1-3) by (force simp: expired_def)
qed

lemma dated_later:
  assumes "times_ordered b h" "b_clock b' = b_clock b" "b_ticks b \<le> b_ticks b'" "mono (b_clock b)"
  shows "times_ordered b' h"
proof -
  have "b_clock b (b_ticks b) \<le> b_clock b (b_ticks b')" using assms(3,4) by (simp add: monoD)
  then show ?thesis using assms(1,2) by (force simp: times_ordered_def)
qed

text \<open>A step that changes none of the history, and at most forgets what has left the window.\<close>

lemma history_forward:
  assumes ok: "history_ok h b"
    and same: "b_clock b' = b_clock b" "b_window b' = b_window b" "b_limit b' = b_limit b"
      "b_keeps b' = b_keeps b" "b_record b' = b_record b" "b_disk b' = b_disk b"
      "b_saves b' = b_saves b" "b_ticks b \<le> b_ticks b'"
    and sent: "\<exists>gone. b_sent b = gone @ b_sent b' \<and> expired b' gone"
  shows "history_ok h b'"
proof -
  have mono: "mono (b_clock b)" using ok by (simp add: history_ok_def)
  have later: "expired b' gone" if "expired b gone" for gone
    using expired_later [OF that same(1,2,8) mono] .
  obtain g1 g2 where "h = g1 @ b_sent b" "expired b g1" "b_sent b = g2 @ b_sent b'" "expired b' g2"
    using ok sent by (auto simp: history_ok_def)
  then have "h = (g1 @ g2) @ b_sent b'" "expired b' (g1 @ g2)"
    using later [of g1] by (auto simp: expired_def)
  then have "\<exists>gone. h = gone @ b_sent b' \<and> expired b' gone" by blast
  then show ?thesis
    using ok same later windows_cong [of b' b "[]" h] dated_later [of b h b'] mono
    by (auto simp: history_ok_def record_kept_def)
qed

lemma history_tick: "history_ok h b \<Longrightarrow> history_ok h (snd (budget_now b))"
  by (rule history_forward) (auto simp: budget_now_def expired_def)

lemma dropWhile_split: "\<exists>gone. xs = gone @ dropWhile P xs \<and> (\<forall>x \<in> set gone. P x)"
  by (metis set_takeWhileD takeWhile_dropWhile_id)

lemma history_spent: "history_ok h b \<Longrightarrow> history_ok h (snd (spent_locked b))"
proof (rule history_forward)
  assume ok: "history_ok h b"
  let ?c = "b_clock b (b_ticks b) - b_window b"
  obtain gone where gone: "b_sent b = gone @ dropWhile (\<lambda>(t, _). t \<le> ?c) (b_sent b)"
    "\<forall>(t, _) \<in> set gone. t \<le> ?c"
    using dropWhile_split [of "b_sent b" "\<lambda>(t, _). t \<le> ?c"] by blast
  have "b_clock b (b_ticks b) \<le> b_clock b (Suc (b_ticks b))"
    using ok by (simp add: history_ok_def monoD)
  then have "expired (snd (spent_locked b)) gone"
    using gone(2) by (fastforce simp: spent_locked_def budget_now_def expired_def Let_def)
  moreover have "b_sent b = gone @ b_sent (snd (spent_locked b))"
    using gone(1) by (simp add: spent_locked_def budget_now_def Let_def)
  ultimately show "\<exists>gone. b_sent b = gone @ b_sent (snd (spent_locked b))
      \<and> expired (snd (spent_locked b)) gone" by blast
qed (auto simp: spent_locked_def budget_now_def Let_def)

lemma expired_total:
  "expired b gone \<Longrightarrow> b_clock b (b_ticks b) \<le> now
   \<Longrightarrow> filter (\<lambda>(t, _). now - b_window b < t) gone = []"
  by (force simp: expired_def filter_empty_conv)

lemma history_place:
  assumes ok: "history_ok h b" and room: "total_sent (b_sent b) < b_limit b"
  shows "history_ok (h @ [last (b_sent (give_place b))]) (give_place b)"
proof -
  let ?now = "b_clock b (b_ticks b)"
  let ?b = "give_place b"
  have sent: "b_sent ?b = b_sent b @ [(?now, 1)]"
    and rest: "b_clock ?b = b_clock b" "b_window ?b = b_window b" "b_limit ?b = b_limit b"
      "b_keeps ?b = b_keeps b" "b_ticks ?b = Suc (b_ticks b)"
      "b_keeps b \<Longrightarrow> record_kept ?b \<Longrightarrow> b_record ?b = b_sent ?b"
    by (simp_all add: give_place_def budget_now_def keep_record_def record_kept_def)
  obtain gone where gone: "h = gone @ b_sent b" "expired b gone" using ok by (auto simp: history_ok_def)
  have counts: "counts_ok (b_sent b)" using ok gone by (simp add: history_ok_def)
  have "recent ?b (h @ [(?now, 1)]) \<le> total_sent (filter (\<lambda>(t, _). ?now - b_window b < t) (b_sent b)) + 1"
    using expired_total [OF gone(2), of ?now] gone(1) by (simp add: recent_def rest)
  also have "\<dots> \<le> total_sent (filter (\<lambda>_. True) (b_sent b)) + 1"
    using total_filter_mono [OF counts, of "\<lambda>(t, _). ?now - b_window b < t" "\<lambda>_. True"] by simp
  finally have "recent ?b (h @ [(?now, 1)]) \<le> b_limit b" using room by simp
  moreover have "windows_ok ?b [] h" using ok windows_cong [of ?b b "[]" h] rest by (simp add: history_ok_def)
  ultimately have windows: "windows_ok ?b [] (h @ [(?now, 1)])" by (simp add: windows_append rest)
  have "expired ?b gone"
    by (rule expired_later [OF gone(2)]) (use ok rest in \<open>auto simp: history_ok_def\<close>)
  moreover have "counts_ok (h @ [(?now, 1)])" using ok by (simp add: history_ok_def counts_ok_def)
  moreover have "times_ordered ?b (h @ [(?now, 1)])"
    using ok dated_later [of b h ?b] rest monoD [of "b_clock b" "b_ticks b" "Suc (b_ticks b)"]
    by (auto simp: history_ok_def times_ordered_def sorted_append)
  ultimately show ?thesis
    using ok gone windows sent rest by (auto simp: history_ok_def)
qed

lemma take_back_append: "s \<noteq> [] \<Longrightarrow> take_back (p @ s) = p @ take_back s"
  by (simp add: take_back_def butlast_append case_prod_beta Let_def)

lemma take_back_ok:
  assumes "h \<noteq> []" "counts_ok h" "windows_ok b [] h"
  shows "counts_ok (take_back h) \<and> windows_ok b [] (take_back h)"
proof -
  obtain p t n where h: "h = p @ [(t, n)]" using assms(1) by (metis rev_exhaust surj_pair)
  have "recent b (p @ [(t, n - 1)]) \<le> recent b (p @ [(t, n)])" by (simp add: recent_def)
  then show ?thesis
    using assms(2,3) by (auto simp: h take_back_def windows_append counts_ok_def)
qed

lemma take_back_times:
  "h \<noteq> [] \<Longrightarrow> map fst (take_back h) = map fst h \<or> map fst (take_back h) = butlast (map fst h)"
  by (cases h rule: rev_cases) (auto simp: take_back_def case_prod_beta Let_def)

lemma times_ordered_take_back: "h \<noteq> [] \<Longrightarrow> times_ordered b h \<Longrightarrow> times_ordered b (take_back h)"
  using take_back_times [of h]
  by (auto simp del: set_map simp: times_ordered_def sorted_butlast dest!: in_set_butlastD)

lemma history_refund:
  assumes ok: "history_ok h b"
  shows "history_ok (if b_sent (snd (spent_locked b)) = [] then h else take_back h) (refund b)"
proof -
  let ?b1 = "snd (spent_locked b)"
  have ok1: "history_ok h ?b1" using history_spent [OF ok] .
  show ?thesis
  proof (cases "b_sent ?b1 = []")
    case True
    then show ?thesis using ok1 by (simp add: refund_def Let_def)
  next
    case False
    obtain gone where gone: "h = gone @ b_sent ?b1" "expired ?b1 gone"
      using ok1 by (auto simp: history_ok_def)
    have h: "take_back h = gone @ take_back (b_sent ?b1)" using False gone by (simp add: take_back_append)
    have "h \<noteq> []" using False gone by simp
    then have "counts_ok (take_back h)" "windows_ok ?b1 [] (take_back h)"
      using take_back_ok [of h ?b1] ok1 by (auto simp: history_ok_def)
    moreover have "windows_ok (refund b) [] (take_back h) = windows_ok ?b1 [] (take_back h)"
      by (rule windows_cong) (simp_all add: refund_def keep_record_def Let_def)
    moreover have "b_sent (refund b) = take_back (b_sent ?b1)" "expired (refund b) gone = expired ?b1 gone"
      "b_keeps (refund b) \<longrightarrow> record_kept (refund b) \<longrightarrow> b_record (refund b) = b_sent (refund b)"
      "b_ticks (refund b) = b_ticks ?b1"
      "b_clock (refund b) = b_clock ?b1" "b_limit (refund b) = b_limit ?b1"
      using False by (auto simp: refund_def keep_record_def expired_def record_kept_def Let_def)
    moreover have "times_ordered ?b1 (take_back h)"
      using times_ordered_take_back [OF \<open>h \<noteq> []\<close>] ok1 by (simp add: history_ok_def)
    ultimately show ?thesis using ok1 gone h False by (auto simp: history_ok_def times_ordered_def)
  qed
qed

lemma history_admit:
  assumes "history_ok h b"
  shows "history_ok
    (if fst (admit_round b) = Some (Inr ()) then h @ [last (b_sent (snd (admit_round b)))] else h)
    (snd (admit_round b))"
proof -
  obtain k b1 where b1: "spent_locked b = (k, b1)" by (cases "spent_locked b")
  have ok1: "history_ok h b1" using history_spent [OF assms] b1 by simp
  have k: "k = total_sent (b_sent b1)" using b1 by (auto simp: spent_locked_def budget_now_def Let_def)
  have waited: "history_ok h (wait_for_room b1)"
    by (rule history_forward [OF ok1]) (auto simp: wait_for_room_def budget_now_def expired_def Let_def)
  show ?thesis
    using history_place [OF ok1] history_tick [OF ok1] waited ok1 k
    by (auto simp: admit_round_def b1 Let_def)
qed

lemma history_restart:
  assumes "history_ok h b" "b_keeps b" "record_kept b"
  shows "history_ok h (restart b)"
proof -
  let ?b0 = "b\<lparr>b_sent := b_record b, b_admitted := 0, b_rounds := 0, b_closed := False,
    b_holding := False, b_disk := (\<lambda>n. b_disk b (b_saves b + n)), b_saves := 0,
    b_holds_counted := 0, b_waits := []\<rparr>"
  have "restart b = snd (spent_locked ?b0)"
    using assms(2) by (cases b) (simp add: restart_def new_budget_def read_state_record_def)
  moreover have "windows_ok ?b0 [] h = windows_ok b [] h" by (rule windows_cong) simp_all
  then have "history_ok h ?b0"
    using assms by (auto simp: history_ok_def expired_def times_ordered_def)
  ultimately show ?thesis using history_spent by simp
qed

text \<open>What every step keeps: the settings and the clock, which only goes on.\<close>

lemma round_settings:
  "b_limit (snd (admit_round b)) = b_limit b" "b_window (snd (admit_round b)) = b_window b"
  "b_keeps (snd (admit_round b)) = b_keeps b" "b_clock (snd (admit_round b)) = b_clock b"
  "b_closed (snd (admit_round b)) = b_closed b" "b_ticks b < b_ticks (snd (admit_round b))"
  by (auto simp: admit_round_def spent_locked_def give_place_def wait_for_room_def budget_now_def
      keep_record_def Let_def split: if_splits)

lemma step_settings:
  "b_limit (budget_step b op) = b_limit b" "b_window (budget_step b op) = b_window b"
  "b_keeps (budget_step b op) = b_keeps b" "b_clock (budget_step b op) = b_clock b"
  "b_ticks b \<le> b_ticks (budget_step b op)" "b_closed (budget_step b op) = (b_closed b \<or> op = Close)"
  by (cases op; use round_settings [of b] in \<open>simp add: refund_def close_budget_def
      count_round_def spent_def budget_holds_def spent_locked_def budget_now_def keep_record_def
      Let_def case_prod_beta less_imp_le\<close>)+

lemma restart_settings:
  "b_limit (restart b) = b_limit b" "b_window (restart b) = b_window b"
  "b_keeps (restart b) = b_keeps b" "b_clock (restart b) = b_clock b"
  by (simp_all add: restart_def new_budget_def read_state_record_def spent_locked_def budget_now_def Let_def)

lemma history_step_ok:
  assumes "history_ok (fst w) (snd w)" and "op = Restart \<Longrightarrow> b_keeps (snd w) \<and> record_kept (snd w)"
  shows "history_ok (fst (history_step w op)) (snd (history_step w op))"
proof -
  obtain h b where w: "w = (h, b)" by (cases w)
  have ok: "history_ok h b" using assms(1) w by simp
  show ?thesis
  proof (cases op)
    case Restart
    then show ?thesis using history_restart [OF ok] assms(2) by (simp add: w history_step_def)
  next
    case (Runs op')
    have close: "history_ok h (close_budget b)" and count: "history_ok h (count_round b)"
      by (rule history_forward [OF ok]; simp add: close_budget_def count_round_def expired_def)+
    have holds: "history_ok h (snd (budget_holds b))"
      by (rule history_forward [OF history_spent [OF ok]])
        (auto simp: budget_holds_def expired_def case_prod_beta Let_def)
    show ?thesis
      using history_admit [OF ok] history_refund [OF ok] history_spent [OF ok] close count holds
      by (cases op') (simp_all add: w Runs history_step_def spent_def Let_def)
  qed
qed

text \<open>
  A restart reads the record, so the history of the places is what the record held only when the last
  write went through.
\<close>

definition restarts_kept :: "budget \<Rightarrow> process_op list \<Rightarrow> bool" where
  "restarts_kept b ops =
     (\<forall>pre post. ops = pre @ Restart # post \<longrightarrow>
        b_keeps b \<and> record_kept (run_steps process_step b pre))"

lemma history_step_runs: "snd (history_step w op) = process_step (snd w) op"
  by (simp add: history_step_def Let_def case_prod_beta)

lemma history_runs: "snd (run_steps history_step w ops) = run_steps process_step (snd w) ops"
  by (induction ops arbitrary: w) (auto simp: history_step_runs)

lemma process_settings:
  "b_limit (process_step b op) = b_limit b" "b_window (process_step b op) = b_window b"
  "b_keeps (process_step b op) = b_keeps b" "b_clock (process_step b op) = b_clock b"
  by (cases op; simp add: step_settings restart_settings)+

lemma run_settings:
  "b_limit (run_steps process_step b ops) = b_limit b"
  "b_window (run_steps process_step b ops) = b_window b"
  "b_keeps (run_steps process_step b ops) = b_keeps b"
  "b_clock (run_steps process_step b ops) = b_clock b"
  by (induction ops arbitrary: b) (simp_all add: process_settings)

lemma history_run_ok:
  assumes "history_ok [] b" "restarts_kept b ops"
  shows "history_ok (fst (run_steps history_step ([], b) ops)) (run_steps process_step b ops)"
  using assms(2)
proof (induction ops rule: rev_induct)
  case (snoc op ops)
  have "restarts_kept b ops" using snoc.prems unfolding restarts_kept_def by (metis append_Cons append_assoc)
  then have ok: "history_ok (fst (run_steps history_step ([], b) ops)) (run_steps process_step b ops)"
    by (rule snoc.IH)
  have "b_keeps b \<and> record_kept (run_steps process_step b ops)" if "op = Restart"
    using snoc.prems that by (auto simp: restarts_kept_def)
  then have "op = Restart \<Longrightarrow> b_keeps (run_steps process_step b ops)
      \<and> record_kept (run_steps process_step b ops)" by (simp add: run_settings)
  then show ?case
    using history_step_ok [of "run_steps history_step ([], b) ops" op] ok
    by (simp add: run_steps_append history_step_runs history_runs)
qed (use assms(1) in simp)

lemma fresh_budget:
  assumes "new_budget limit window record disk clock n = Inr b" "record = None \<or> record = Some None"
  shows "b_sent b = []" "b_record b = []" "b_clock b = clock" "b_limit b = limit" "b_window b = window"
    "b_keeps b = (record \<noteq> None)"
    "mono clock \<Longrightarrow> 0 \<le> limit \<Longrightarrow> history_ok [] b"
  using assms
  by (auto simp: new_budget_def read_state_record_def spent_locked_def budget_now_def history_ok_def
      expired_def counts_ok_def times_ordered_def)

lemma windows_last:
  assumes "counts_ok h" "windows_ok b [] h" "0 \<le> b_limit b" "z \<le> a + b_window b"
  shows "in_window a z h \<le> b_limit b"
proof (cases "filter (\<lambda>(t, _). a < t \<and> t \<le> z) h = []")
  case False
  then obtain p e s where h: "h = p @ e # s" and e: "a < fst e" "fst e \<le> z"
    and s: "filter (\<lambda>(t, _). a < t \<and> t \<le> z) s = []"
    using split_list_last_prop [of h "\<lambda>(t, _). a < t \<and> t \<le> z"]
    by (auto simp: filter_empty_conv case_prod_beta)
  have "in_window a z h = total_sent (filter (\<lambda>(t, _). a < t \<and> t \<le> z) (p @ [e]))"
    unfolding in_window_def h using s by simp
  also have "\<dots> \<le> total_sent (filter (\<lambda>(t, _). fst (last (p @ [e])) - b_window b < t) (p @ [e]))"
    by (rule total_filter_mono) (use assms(1,4) e in \<open>auto simp: h counts_ok_def\<close>)
  also have "\<dots> \<le> b_limit b"
    using assms(2) unfolding h by (simp add: windows_append recent_def)
  finally show ?thesis .
qed (use assms(3) in \<open>simp add: in_window_def\<close>)

text \<open>
  C1: The hourly budget is hard, on a clock that never goes back. A budget with a limit that is not
  negative starts with an empty window. In any order of the rounds of waiting requests, refunds,
  closes, checks and restarts of the process, and at any instant, the places given and not taken back within
  one window are never more than the limit. For a restart the budget must keep its record file and
  its last write of that file before the restart must have gone through; any other write of the
  file may fail.
\<close>

theorem no_hour_exceeds_the_budget:
  assumes "new_budget limit window record disk clock n = Inr b" and "record = None \<or> record = Some None"
    and "mono clock" and "0 \<le> limit" and "restarts_kept b ops" and "z \<le> a + window"
  shows "in_window a z (fst (run_steps history_step ([], b) ops)) \<le> limit"
proof -
  note b = fresh_budget [OF assms(1,2)]
  have "history_ok (fst (run_steps history_step ([], b) ops)) (run_steps process_step b ops)"
    using history_run_ok [OF b(7) [OF assms(3,4)] assms(5)] .
  then show ?thesis
    using windows_last [of "fst (run_steps history_step ([], b) ops)" "run_steps process_step b ops" z a]
      assms(6) b by (auto simp: history_ok_def run_settings)
qed

definition sample_budget :: budget where
  \<comment> \<open>Its second write of the record fails.\<close>
  "sample_budget = \<lparr>b_limit = 2, b_window = 3600, b_sent = [], b_admitted = 0, b_rounds = 0,
     b_closed = False, b_holding = False, b_keeps = True, b_record = [], b_disk = (\<lambda>n. n \<noteq> 1),
     b_saves = 0, b_holds_counted = 0,
     b_clock = (\<lambda>n. 100 * of_nat n), b_ticks = 1, b_waits = []\<rparr>"

lemma sample_budget_new:
  "new_budget 2 3600 (Some None) (\<lambda>n. n \<noteq> 1) (\<lambda>n. 100 * of_nat n) 0 = Inr sample_budget"
  by (simp add: new_budget_def read_state_record_def spent_locked_def budget_now_def sample_budget_def)

definition sample_ops :: "process_op list" where
  "sample_ops = [Runs AdmitRound, Runs Refund, Runs AdmitRound, Restart, Runs AdmitRound, Runs AdmitRound]"

lemma sample_history:
  "fst (run_steps history_step ([], sample_budget) sample_ops) = [(500, 1), (800, 1)]"
  by code_simp

lemma sample_restarts: "restarts_kept sample_budget sample_ops"
proof -
  have "record_kept (run_steps process_step sample_budget (take 3 sample_ops))" by code_simp
  then show ?thesis
    by (auto simp: restarts_kept_def sample_ops_def sample_budget_def Cons_eq_append_conv)
qed

lemma no_hour_exceeds_the_budget_witness:
  "in_window 499 (499 + 3600) (fst (run_steps history_step ([], sample_budget) sample_ops)) \<le> 2"
  by (rule no_hour_exceeds_the_budget [OF sample_budget_new _ _ _ sample_restarts])
    (simp_all add: incseq_def)

section \<open>The window decides as the whole history does\<close>

text \<open>
  The budget keeps only the requests of its window, and forgets one when it leaves. The abstract
  budget keeps every place, and counts at each question the ones of the last window.
\<close>

lemma spent_counts_history:
  assumes "history_ok h b"
  shows "fst (spent_locked b) = in_window (b_clock b (b_ticks b) - b_window b) (b_clock b (b_ticks b)) h"
proof -
  let ?now = "b_clock b (b_ticks b)" and ?c = "b_clock b (b_ticks b) - b_window b"
  obtain gone where h: "h = gone @ b_sent b" and gone: "expired b gone" and times_ordered: "times_ordered b h"
    using assms by (auto simp: history_ok_def)
  have tail: "dropWhile (\<lambda>(t, _). t \<le> ?c) s = filter (\<lambda>(t, _). ?c < t) s"
    if "sorted (map fst s)" for s :: "(instant \<times> int) list"
    using that
  proof (induction s)
    case (Cons e s)
    show ?case
    proof (cases "fst e \<le> ?c")
      case False
      then have "\<forall>x \<in> set (e # s). ?c < fst x" using Cons.prems by auto
      then have "filter (\<lambda>(t, _). ?c < t) (e # s) = e # s"
        by (auto simp: filter_id_conv case_prod_beta)
      moreover have "dropWhile (\<lambda>(t, _). t \<le> ?c) (e # s) = e # s" using False by (simp add: case_prod_beta)
      ultimately show ?thesis by (rule trans [OF _ sym, rotated])
    qed (use Cons in \<open>simp add: case_prod_beta\<close>)
  qed simp
  have "sorted (map fst (b_sent b))" using times_ordered by (simp add: times_ordered_def h sorted_append)
  then have "fst (spent_locked b) = total_sent (filter (\<lambda>(t, _). ?c < t) (b_sent b))"
    by (simp add: spent_locked_def budget_now_def Let_def tail)
  also have "filter (\<lambda>(t, _). ?c < t) (b_sent b) = filter (\<lambda>(t, _). ?c < t) h"
    using expired_total [OF gone, of ?now] by (simp add: h)
  also have "\<dots> = filter (\<lambda>(t, _). ?c < t \<and> t \<le> ?now) h"
    using times_ordered by (force simp: times_ordered_def intro: filter_cong)
  finally show ?thesis by (simp add: in_window_def)
qed

text \<open>
  C37: The window that the budget keeps decides as the whole history of its places would. After any
  rounds, refunds, closes, checks and kept restarts, on a clock that never goes back, the spent
  requests that the budget reports are the places of the whole history within the last window; a
  round gives a place exactly when these are fewer than the limit, and the rounds of the Service hold exactly
  when they are not.
\<close>

theorem window_decides_as_the_history:
  assumes "new_budget limit window record disk clock n = Inr b" and "record = None \<or> record = Some None"
    and "mono clock" and "0 \<le> limit" and "restarts_kept b ops"
    and "run_steps history_step ([], b) ops = (h, b')" and "now = clock (b_ticks b')"
  shows "fst (spent b') = in_window (now - window) now h
    \<and> (fst (admit_round b') = Some (Inr ()) \<longleftrightarrow> in_window (now - window) now h < limit)
    \<and> (fst (budget_holds b') \<longleftrightarrow> limit \<le> in_window (now - window) now h)"
proof -
  note b = fresh_budget [OF assms(1,2)]
  have b': "b' = run_steps process_step b ops" using assms(6) history_runs [of "([], b)" ops] by simp
  have ok: "history_ok h b'" using history_run_ok [OF b(7) [OF assms(3,4)] assms(5)] assms(6) b' by simp
  have "fst (spent_locked b') = in_window (now - window) now h"
    using spent_counts_history [OF ok] by (simp add: b' run_settings b assms(7))
  moreover have "b_limit b' = limit" by (simp add: b' run_settings b)
  moreover have "b_limit (snd (spent_locked b')) = b_limit b'"
    by (simp add: spent_locked_def budget_now_def Let_def)
  ultimately show ?thesis
    by (auto simp: spent_def admit_round_def budget_holds_def case_prod_beta Let_def)
qed

lemma window_decides_as_the_history_witness:
  "fst (budget_holds (snd (run_steps history_step ([], sample_budget) sample_ops)))"
proof -
  obtain h b' where run: "run_steps history_step ([], sample_budget) sample_ops = (h, b')" by fastforce
  have "in_window (- 2500) 1100 [(500, 1), (800, 1)] = 2" by code_simp
  moreover have "b_ticks b' = 11"
  proof -
    have "b_ticks (snd (run_steps history_step ([], sample_budget) sample_ops)) = 11" by code_simp
    then show ?thesis by (simp add: run)
  qed
  moreover have "h = [(500, 1), (800, 1)]" using sample_history run by simp
  ultimately show ?thesis
    using window_decides_as_the_history [OF sample_budget_new _ _ _ sample_restarts run refl]
    by (simp add: incseq_def run)
qed

section \<open>A waiting request gets its place\<close>

text \<open>The clock passes every instant.\<close>

definition clock_runs :: "(nat \<Rightarrow> instant) \<Rightarrow> bool" where
  "clock_runs clock = (mono clock \<and> (\<forall>t. \<exists>n. t < clock n))"

text \<open>The places that others' operations take.\<close>

fun places_taken :: "budget_op list \<Rightarrow> budget \<Rightarrow> nat" where
  "places_taken [] b = 0"
| "places_taken (op # ops) b =
     (if op = AdmitRound \<and> fst (admit_round b) = Some (Inr ()) then 1 else 0)
     + places_taken ops (budget_step b op)"

lemma admit_snoc:
  "admit (others @ [ops]) b =
     (case admit others b of
        (Some r, b1) \<Rightarrow> (Some r, b1)
      | (None, b1) \<Rightarrow> admit_round (run_steps budget_step b1 ops))"
  by (induction others b rule: admit.induct) (auto split: prod.splits option.splits)

lemma runs_settings:
  "b_limit (run_steps budget_step b ops) = b_limit b"
  "b_window (run_steps budget_step b ops) = b_window b"
  "b_clock (run_steps budget_step b ops) = b_clock b"
  "b_ticks b \<le> b_ticks (run_steps budget_step b ops)"
  "b_closed (run_steps budget_step b ops) = (b_closed b \<or> Close \<in> set ops)"
proof (induction ops arbitrary: b)
  case (Cons op ops)
  case 4
  show ?case using Cons(4) [of "budget_step b op"] step_settings(5) [of b op] by simp
qed (auto simp: step_settings)

text \<open>A request that still waits has done all its rounds.\<close>

lemma still_waiting:
  assumes "admit others b = (None, b')"
  shows "b_limit b' = b_limit b" "b_window b' = b_window b" "b_clock b' = b_clock b"
    "b_ticks b + length others < b_ticks b'" "b_closed b' = (b_closed b \<or> (\<exists>ops \<in> set others. Close \<in> set ops))"
proof -
  have "b_limit b' = b_limit b \<and> b_window b' = b_window b \<and> b_clock b' = b_clock b
    \<and> b_ticks b + length others < b_ticks b'
    \<and> b_closed b' = (b_closed b \<or> (\<exists>ops \<in> set others. Close \<in> set ops))"
    using assms
  proof (induction others arbitrary: b' rule: rev_induct)
    case Nil
    then show ?case using round_settings [of b] by simp
  next
    case (snoc ops others)
    obtain b1 where b1: "admit others b = (None, b1)" "admit_round (run_steps budget_step b1 ops) = (None, b')"
      using snoc.prems by (auto simp: admit_snoc split: prod.splits option.splits)
    show ?case
      using snoc.IH [OF b1(1)] runs_settings [of b1 ops]
        round_settings [of "run_steps budget_step b1 ops"] b1(2) by auto
  qed
  then show "b_limit b' = b_limit b" "b_window b' = b_window b" "b_clock b' = b_clock b"
    "b_ticks b + length others < b_ticks b'" "b_closed b' = (b_closed b \<or> (\<exists>ops \<in> set others. Close \<in> set ops))"
    by blast+
qed

definition times :: "budget \<Rightarrow> instant set" where
  "times b = fst ` set (b_sent b)"

lemma spent_times: "times (snd (spent_locked b)) \<subseteq> times b"
  by (auto simp: times_def spent_locked_def budget_now_def Let_def dest: set_dropWhileD)

lemma round_times:
  assumes "fst (admit_round b) \<noteq> Some (Inr ())"
  shows "times (snd (admit_round b)) \<subseteq> times b"
  using assms spent_times [of b]
  by (auto simp: admit_round_def wait_for_room_def budget_now_def times_def Let_def case_prod_beta
      split: if_splits)

lemma refund_times: "times (refund b) \<subseteq> times b"
proof -
  let ?b1 = "snd (spent_locked b)"
  have "fst ` set (take_back s) \<subseteq> fst ` set s" if "s \<noteq> []" for s :: "(instant \<times> int) list"
    using that by (cases s rule: rev_cases) (auto simp: take_back_def Let_def)
  from this [of "b_sent ?b1"] have "times (refund b) \<subseteq> times ?b1"
    by (cases "b_sent ?b1 = []") (simp_all add: refund_def keep_record_def times_def Let_def)
  then show ?thesis using spent_times [of b] by blast
qed

lemma step_times:
  assumes "places_taken [op] b = 0"
  shows "times (budget_step b op) \<subseteq> times b"
  using assms round_times [of b] refund_times [of b] spent_times [of b]
  by (cases op)
    (auto simp: close_budget_def count_round_def spent_def budget_holds_def times_def Let_def case_prod_beta
      split: if_splits)

lemma runs_times:
  "places_taken ops b = 0 \<Longrightarrow> times (run_steps budget_step b ops) \<subseteq> times b"
proof (induction ops arbitrary: b)
  case (Cons op ops)
  then have "places_taken [op] b = 0" "places_taken ops (budget_step b op) = 0" by simp_all
  then show ?case using Cons.IH [of "budget_step b op"] step_times [of op b] by auto
qed simp

lemma round_with_room:
  assumes "\<forall>t \<in> times b. t + b_window b \<le> b_clock b (b_ticks b)" and "0 < b_limit b"
  shows "fst (admit_round b) = Some (Inr ())"
proof -
  have "dropWhile (\<lambda>(t, _). t \<le> b_clock b (b_ticks b) - b_window b) (b_sent b) = []"
    using assms(1) by (fastforce simp: times_def dropWhile_eq_Nil_conv)
  then show ?thesis using assms(2)
    by (simp add: admit_round_def spent_locked_def budget_now_def Let_def del: dropWhile_eq_Nil_conv)
qed

lemma round_outcome:
  assumes "0 < b_limit b" "fst (admit_round b) = Some r"
  shows "r = Inr () \<or> r = Inl GateError \<and> b_closed b"
  using assms
  by (auto simp: admit_round_def spent_locked_def budget_now_def Let_def
      simp del: dropWhile_eq_Nil_conv split: if_splits)

lemma closed_round: "b_closed b \<Longrightarrow> \<exists>r. fst (admit_round b) = Some r"
  by (auto simp: admit_round_def spent_locked_def budget_now_def Let_def)

text \<open>The state that each round of the request finds, when the ones before it made it wait.\<close>

fun before_round :: "(nat \<Rightarrow> budget_op list) \<Rightarrow> budget \<Rightarrow> nat \<Rightarrow> budget" where
  "before_round others b 0 = b"
| "before_round others b (Suc k) =
     run_steps budget_step (snd (admit (map others [0..<k]) b)) (others k)"

abbreviation waits_until :: "(nat \<Rightarrow> budget_op list) \<Rightarrow> budget \<Rightarrow> nat \<Rightarrow> bool" where
  "waits_until others b n \<equiv> \<forall>k<n. fst (admit (map others [0..<k]) b) = None"

lemma next_round:
  "waits_until others b n \<Longrightarrow> admit (map others [0..<n]) b = admit_round (before_round others b n)"
  by (cases n) (auto simp: admit_snoc split: prod.splits)

lemma before_settings:
  assumes "waits_until others b n"
  shows "b_limit (before_round others b n) = b_limit b"
    "b_window (before_round others b n) = b_window b"
    "b_clock (before_round others b n) = b_clock b" "n \<le> b_ticks (before_round others b n)"
    "b_closed (before_round others b n) = (b_closed b \<or> (\<exists>k<n. Close \<in> set (others k)))"
proof -
  let ?b = "before_round others b n"
  have "b_limit ?b = b_limit b \<and> b_window ?b = b_window b \<and> b_clock ?b = b_clock b \<and> n \<le> b_ticks ?b
    \<and> b_closed ?b = (b_closed b \<or> (\<exists>k<n. Close \<in> set (others k)))"
  proof (cases n)
    case (Suc k)
    have "fst (admit (map others [0..<k]) b) = None" using assms by (simp add: Suc)
    then obtain b1 where b1: "admit (map others [0..<k]) b = (None, b1)" by (metis prod.collapse)
    then show ?thesis
      using still_waiting [OF b1] runs_settings [of b1 "others k"] by (auto simp: Suc less_Suc_eq)
  qed simp
  then show "b_limit ?b = b_limit b" "b_window ?b = b_window b" "b_clock ?b = b_clock b"
    "n \<le> b_ticks ?b" "b_closed ?b = (b_closed b \<or> (\<exists>k<n. Close \<in> set (others k)))" by blast+
qed

lemma ended_stays:
  "fst (admit (map others [0..<k]) b) = Some r \<Longrightarrow> fst (admit (map others [0..<k + j]) b) = Some r"
  by (induction j) (auto simp: admit_snoc split: prod.splits)

lemma waits_before:
  assumes "fst (admit (map others [0..<n]) b) = None"
  shows "waits_until others b n"
proof (intro allI impI)
  fix k assume "k < n"
  then show "fst (admit (map others [0..<k]) b) = None"
    using ended_stays [of others k b _ "n - k"] assms by (cases "fst (admit (map others [0..<k]) b)") auto
qed

lemma request_end:
  assumes "fst (admit (map others [0..<n]) b) \<noteq> None" "0 < b_limit b"
  shows "\<exists>n r. fst (admit (map others [0..<n]) b) = Some r
    \<and> (r = Inr () \<or> r = Inl GateError \<and> (b_closed b \<or> (\<exists>k<n. Close \<in> set (others k))))"
proof -
  obtain k where k: "fst (admit (map others [0..<k]) b) \<noteq> None" and waits: "waits_until others b k"
    using exists_least_iff [of "\<lambda>n. fst (admit (map others [0..<n]) b) \<noteq> None"] assms(1) by blast
  obtain r where r: "fst (admit (map others [0..<k]) b) = Some r" using k by blast
  then have "fst (admit_round (before_round others b k)) = Some r" using next_round [OF waits] by simp
  then have "r = Inr () \<or> r = Inl GateError \<and> b_closed (before_round others b k)"
    using round_outcome before_settings(1) [OF waits] assms(2) by metis
  then show ?thesis using r before_settings(5) [OF waits] by blast
qed

text \<open>While the others take no place, the window of a waiting request holds only what it held.\<close>

lemma window_shrinks:
  assumes "\<forall>n. fst (admit (map others [0..<n]) b) = None"
    and "\<forall>k\<ge>m. places_taken (others k) (snd (admit (map others [0..<k]) b)) = 0"
  shows "times (before_round others b (Suc (m + j))) \<subseteq> times (snd (admit (map others [0..<m]) b))"
proof (induction j)
  case 0
  then show ?case using runs_times assms(2) by simp
next
  case (Suc j)
  let ?k = "Suc (m + j)"
  have "admit (map others [0..<?k]) b = admit_round (before_round others b ?k)"
    by (rule next_round) (use assms(1) in blast)
  then have "times (snd (admit (map others [0..<?k]) b)) \<subseteq> times (before_round others b ?k)"
    using round_times [of "before_round others b ?k"] assms(1) by (metis option.distinct(1))
  moreover have "times (before_round others b (Suc ?k)) \<subseteq> times (snd (admit (map others [0..<?k]) b))"
    unfolding before_round.simps by (rule runs_times) (rule assms(2) [rule_format], simp)
  ultimately show ?case using Suc.IH by simp
qed

lemma clock_passes:
  assumes "clock_runs clock" "finite T"
  shows "\<exists>i. \<forall>t \<in> T. t + w \<le> clock i"
  using assms(2)
proof (induction T)
  case (insert u T)
  obtain i where i: "\<forall>t \<in> T. t + w \<le> clock i" using insert.IH by blast
  obtain j where j: "u + w < clock j" using assms(1) by (auto simp: clock_runs_def)
  have "clock i \<le> clock (max i j)" "clock j \<le> clock (max i j)"
    using assms(1) by (simp_all add: clock_runs_def monoD)
  then show ?case using i j by (intro exI [of _ "max i j"]) fastforce
qed simp

lemma only_others_starve:
  assumes "clock_runs (b_clock b)" "0 < b_limit b" and none: "\<forall>n. fst (admit (map others [0..<n]) b) = None"
  shows "\<exists>k\<ge>m. 0 < places_taken (others k) (snd (admit (map others [0..<k]) b))"
proof (rule ccontr)
  assume "\<not> ?thesis"
  then have m: "\<forall>k\<ge>m. places_taken (others k) (snd (admit (map others [0..<k]) b)) = 0" by auto
  have "finite (times (snd (admit (map others [0..<m]) b)))" by (simp add: times_def)
  then obtain i where i: "\<forall>t \<in> times (snd (admit (map others [0..<m]) b)). t + b_window b \<le> b_clock b i"
    using clock_passes [OF assms(1)] by blast
  let ?n = "Suc (m + i)"
  have waits: "waits_until others b ?n" using none by blast
  note before = before_settings [OF waits]
  have "i \<le> b_ticks (before_round others b ?n)" using before(4) by (rule order_trans [rotated]) simp
  moreover have "mono (b_clock b)" using assms(1) by (simp add: clock_runs_def)
  ultimately have "b_clock b i \<le> b_clock b (b_ticks (before_round others b ?n))" by (rule monoD [rotated])
  then have "\<forall>t \<in> times (before_round others b ?n). t + b_window b \<le> b_clock b (b_ticks (before_round others b ?n))"
    using i window_shrinks [OF none m, of i] by fastforce
  then have "fst (admit_round (before_round others b ?n)) = Some (Inr ())"
    using assms(2) by (intro round_with_room) (simp_all only: before)
  moreover have "fst (admit (map others [0..<?n]) b) = None" using none by blast
  ultimately show False unfolding next_round [OF waits] by simp
qed

lemma closed_ends_waits:
  assumes "b_closed b \<or> (\<exists>k<n. Close \<in> set (others k))"
  shows "\<exists>r. fst (admit (map others [0..<n]) b) = Some r"
proof (rule ccontr)
  assume not: "\<not> ?thesis"
  then have waits: "waits_until others b n" using waits_before by auto
  then show False
    using not closed_round [of "before_round others b n"] before_settings(5) [OF waits] assms
      next_round [OF waits] by simp
qed

text \<open>
  C36: Only requests that are let go in its stead keep a request waiting for the budget, whatever the
  other threads do at each of its waits, on a clock that goes on and with a limit that allows any
  request at all. Its wait ends, with a place or with the error of a budget that was closed, or the
  others take places again and again for as long as it waits. And from the first round after the
  budget is closed no request waits, whatever the others do.
\<close>

theorem waiting_request_ends:
  assumes "clock_runs (b_clock b)" and "0 < b_limit b"
  shows "((\<exists>n r. fst (admit (map others [0..<n]) b) = Some r
        \<and> (r = Inr () \<or> r = Inl GateError \<and> (b_closed b \<or> (\<exists>k<n. Close \<in> set (others k)))))
      \<or> (\<forall>m. \<exists>k\<ge>m. 0 < places_taken (others k) (snd (admit (map others [0..<k]) b))))
    \<and> (\<forall>n. b_closed b \<or> (\<exists>k<n. Close \<in> set (others k)) \<longrightarrow>
        (\<exists>r. fst (admit (map others [0..<n]) b) = Some r))"
proof (cases "\<forall>n. fst (admit (map others [0..<n]) b) = None")
  case True
  then show ?thesis using only_others_starve [OF assms True] closed_ends_waits by blast
next
  case False
  then show ?thesis using request_end [OF _ assms(2)] closed_ends_waits by blast
qed

lemma sample_clock_runs: "clock_runs (\<lambda>n. 100 * rat_of_nat n)"
proof -
  have "\<exists>n. t < 100 * rat_of_nat n" for t :: rat
  proof -
    obtain n where "t < rat_of_nat n" using reals_Archimedean2 by blast
    also have "\<dots> \<le> 100 * rat_of_nat n" by simp
    finally have "t < 100 * rat_of_nat n" .
    then show ?thesis by blast
  qed
  then show ?thesis by (auto simp: clock_runs_def intro!: monoI)
qed

text \<open>A request that waits while the Service checks the window.\<close>

lemma waiting_request_ends_witness:
  "\<exists>n r. fst (admit (map (\<lambda>_. [Holds]) [0..<n]) (sample_budget\<lparr>b_sent := [(50, 1), (60, 1)]\<rparr>)) = Some r
    \<and> r = Inr ()"
  using waiting_request_ends [of "sample_budget\<lparr>b_sent := [(50, 1), (60, 1)]\<rparr>" "\<lambda>_. [Holds]"] sample_clock_runs
  by (auto simp: sample_budget_def)

section \<open>The budget is the gate of the limiter\<close>

text \<open>
  A request that the limiter lets go took its place from a reached state with room; one
  that it refuses, because the budget is closed, took none. \<open>reached_by\<close> is the budget after some of
  the others' operations and the waits in between.
\<close>

inductive reached_by :: "budget \<Rightarrow> budget \<Rightarrow> bool" where
  rb_none: "reached_by b b"
| rb_other: "reached_by b b1 \<Longrightarrow> reached_by b (budget_step b1 op)"

lemma reached_by_runs: "reached_by b b1 \<Longrightarrow> reached_by b (run_steps budget_step b1 ops)"
  by (induction ops arbitrary: b1) (auto intro: rb_other)

lemma admit_reached:
  "reached_by b b1 \<Longrightarrow> admit others b1 = (r, b') \<Longrightarrow>
   \<exists>b0. reached_by b b0 \<and> admit_round b0 = (r, b')"
proof (induction others b1 rule: admit.induct)
  case (2 ops later b1)
  obtain r1 b2 where b2: "admit_round b1 = (r1, b2)" by (cases "admit_round b1")
  show ?case
  proof (cases r1)
    case None
    have "reached_by b b2" using rb_other [OF 2(2), of AdmitRound] b2 by simp
    then show ?thesis using 2(1) [of None b2] reached_by_runs 2(3) b2 None by auto
  qed (use 2 b2 in auto)
qed auto

interpretation budget_gate: request_gate "budget_gate others" reached_by
  "\<lambda>b. fst (admit_round b) = Some (Inr ())" "\<lambda>b. snd (admit_round b)"
proof
  fix g g' :: budget and e
  show "budget_gate others g = (Inr (), g') \<Longrightarrow>
    \<exists>g0. reached_by g g0 \<and> fst (admit_round g0) = Some (Inr ()) \<and> g' = snd (admit_round g0)"
    using admit_reached [OF rb_none, of others g]
    by (cases "admit others g") (fastforce simp: budget_gate_def split: option.splits)
  show "budget_gate others g = (Inl e, g') \<Longrightarrow> reached_by g g'"
    using admit_reached [OF rb_none, of others g] rb_other [of g _ AdmitRound]
    by (cases "admit others g") (fastforce simp: budget_gate_def split: option.splits)
qed

text \<open>The waiting request's own rounds are among the steps of \<open>reached_by\<close>.\<close>

lemmas paced_request_took_its_place = budget_gate.request_took_its_place
lemmas starved_request_took_none = budget_gate.refused_request_took_none

section \<open>The cadence of the polls\<close>

text \<open>
  The Service polls no faster than the budget pays for: with the interval between polls that the
  budget gives, the rounds of the polls in one window cost no more, at the average cost of a
  round so far, than the limit; and the interval is never shorter than the configured one.
\<close>

theorem polls_fit_the_budget:
  assumes "0 < b_limit b" and "0 < b_rounds b"
  shows "configured \<le> poll_interval configured rounds b
    \<and> b_window b * of_int rounds * (of_int (b_admitted b) / of_int (b_rounds b))
        \<le> of_int (b_limit b) * poll_interval configured rounds b"
proof -
  let ?needed = "b_window b * of_int rounds * (of_int (b_admitted b) / of_int (b_rounds b))"
  have "?needed = of_int (b_limit b) * (?needed / of_int (b_limit b))" using assms(1) by simp
  also have "\<dots> \<le> of_int (b_limit b) * poll_interval configured rounds b"
    using assms by (intro mult_left_mono) (auto simp: poll_interval_def Let_def le_max_iff_disj)
  finally show ?thesis using assms(2) by (simp add: poll_interval_def Let_def)
qed

lemma polls_fit_the_budget_witness:
  "3600 * 2 * (30 / 10) \<le> 100 * poll_interval 60 2
     (sample_budget\<lparr>b_limit := 100, b_admitted := 30, b_rounds := 10\<rparr>)"
  using polls_fit_the_budget [of "sample_budget\<lparr>b_limit := 100, b_admitted := 30, b_rounds := 10\<rparr>" 60 2]
  by (simp add: sample_budget_def)

end
