(* ===== verification/Service.thy ===== *)
theory Service
  imports BudgetProps
begin

text \<open>
  The engine of the Service: \<^verbatim>\<open>RoundPause\<close>, \<^verbatim>\<open>RepoWorker\<close> and \<^verbatim>\<open>ServiceManager\<close> of
  \<^verbatim>\<open>src/devops_cli/server/service.py\<close>. A worker is a thread: its operations and those of the threads
  that enqueue are the rules of a step relation, each one critical section of the worker's
  condition. An error of a round is a value of a type of its own; what the Service reads in it (a
  time to wait for, a refusal of the identity, a stop) are functions given to the engine, as in the code. A
  scoped task is a value; running it and running a lane's job is the environment's step.
\<close>

section \<open>The pause\<close>

record halt =
  h_identity :: string
  h_repo :: string
  h_at :: instant

record round_pause =
  pa_until :: "instant option"
  pa_halted :: bool
  pa_identity :: string
  pa_keeps :: bool
  pa_record :: "halt option"
  pa_disk :: bool  \<comment> \<open>the write of the halt record goes through\<close>
  pa_refusals :: nat
  pa_clock :: "nat \<Rightarrow> instant"
  pa_ticks :: nat

text \<open>What the Service reads in an error of a round; a reader may raise.\<close>

record 'x readers =
  rd_refusal :: "'x \<Rightarrow> unit + bool"
  rd_until :: "'x \<Rightarrow> unit + instant option"
  rd_ended_by_stop :: "'x \<Rightarrow> bool"

definition pause_now :: "round_pause \<Rightarrow> instant \<times> round_pause" where
  "pause_now p = (pa_clock p (pa_ticks p), p\<lparr>pa_ticks := Suc (pa_ticks p)\<rparr>)"

definition new_pause :: "string \<Rightarrow> bool \<Rightarrow> halt option \<Rightarrow> bool \<Rightarrow> (nat \<Rightarrow> instant) \<Rightarrow> nat \<Rightarrow> round_pause" where
  \<comment> \<open>\<open>keeps\<close>: a halt record is configured; \<open>kept\<close>: the file it holds.\<close>
  "new_pause identity keeps kept disk clock ticks =
     (let halted = (keeps \<and> kept \<noteq> None)
      in \<lparr>pa_until = None, pa_halted = halted, pa_identity = identity, pa_keeps = keeps,
          pa_record = kept, pa_disk = disk, pa_refusals = (if halted then 1 else 0), pa_clock = clock,
          pa_ticks = ticks\<rparr>)"

definition halt_rounds :: "string \<Rightarrow> round_pause \<Rightarrow> round_pause" where
  \<comment> \<open>The pause is halted whether or not its record can be written.\<close>
  "halt_rounds repo p =
     (let first = \<not> pa_halted p; p1 = p\<lparr>pa_halted := True\<rparr>
      in if \<not> first then p1
         else let p2 = p1\<lparr>pa_refusals := pa_refusals p1 + 1\<rparr>
              in if \<not> pa_keeps p2 then p2
                 else let (now, p3) = pause_now p2
                      in if pa_disk p3
                         then p3\<lparr>pa_record :=
                              Some \<lparr>h_identity = pa_identity p3, h_repo = repo, h_at = now\<rparr>\<rparr>
                         else p3)"

definition hold_rounds :: "instant \<Rightarrow> round_pause \<Rightarrow> bool \<times> round_pause" where
  "hold_rounds until p =
     (let (now, p1) = pause_now p
      in if until \<le> now \<or> (case pa_until p1 of None \<Rightarrow> False | Some u \<Rightarrow> until \<le> u) then (False, p1)
         else (True, p1\<lparr>pa_until := Some until\<rparr>))"

definition after_failure :: "'x readers \<Rightarrow> 'x \<Rightarrow> string \<Rightarrow> round_pause \<Rightarrow> round_pause" where
  "after_failure rd exc repo p =
     (case rd_refusal rd exc of
        Inl _ \<Rightarrow> p
      | Inr True \<Rightarrow> halt_rounds repo p
      | Inr False \<Rightarrow>
          (case rd_until rd exc of
             Inl _ \<Rightarrow> p
           | Inr None \<Rightarrow> p
           | Inr (Some until) \<Rightarrow> snd (hold_rounds until p)))"

definition pause_holds :: "round_pause \<times> budget \<Rightarrow> bool \<times> round_pause \<times> budget" where
  \<comment> \<open>The budget is asked only when nothing else holds the rounds.\<close>
  "pause_holds pb =
     (let (p, b) = pb
      in if pa_halted p then (True, p, b)
         else case pa_until p of
                None \<Rightarrow> (case budget_holds b of (h, b1) \<Rightarrow> (h, p, b1))
              | Some until \<Rightarrow>
                  let (now, p1) = pause_now p
                  in if now < until then (True, p1, b)
                     else (case budget_holds b of (h, b1) \<Rightarrow> (h, p1, b1)))"

section \<open>A worker\<close>

type_synonym trigger = "string \<times> string \<times> string"

record round_result =
  rr_start :: instant
  rr_end :: instant
  rr_result :: string

datatype 's work =
    Scoped 's
  | Batch "(trigger, nat) dict" instant instant

record 's worker =
  w_repo :: string
  w_lane :: string
  w_pending :: "(trigger, nat) dict"
  w_scoped :: "'s list"
  w_first :: "instant option"
  w_last :: "instant option"
  w_active :: bool
  w_running :: "'s work option"
  w_stopped :: bool
  w_last_round :: "round_result option"
  w_depth :: nat

definition new_worker :: "string \<Rightarrow> string \<Rightarrow> 's worker" where
  "new_worker repo lane = \<lparr>w_repo = repo, w_lane = lane, w_pending = [], w_scoped = [],
     w_first = None, w_last = None, w_active = False, w_running = None, w_stopped = False,
     w_last_round = None, w_depth = 0\<rparr>"

definition pending_triggers :: "'s worker \<Rightarrow> nat" where
  "pending_triggers w = sum_list (map snd (w_pending w)) + length (w_scoped w)"

definition enqueue :: "trigger \<Rightarrow> instant \<Rightarrow> 's worker \<Rightarrow> 's worker" where
  \<comment> \<open>\<open>now\<close> is the clock reading the method takes.\<close>
  "enqueue key now w =
     w\<lparr>w_first := (if w_pending w = [] then Some now else w_first w), w_last := Some now,
       w_pending := dict_set key (get_or 0 (w_pending w) key + 1) (w_pending w), w_depth := 1\<rparr>"

definition enqueue_scoped :: "'s \<Rightarrow> 's worker \<Rightarrow> 's worker" where
  "enqueue_scoped f w = w\<lparr>w_scoped := w_scoped w @ [f], w_depth := 1\<rparr>"

definition stop_worker :: "'s worker \<Rightarrow> 's worker" where
  "stop_worker w = w\<lparr>w_stopped := True\<rparr>"

definition has_pending :: "'s worker \<Rightarrow> bool" where
  "has_pending w = (w_scoped w \<noteq> [] \<or> w_pending w \<noteq> [])"

definition has_runnable_batch :: "'s worker \<Rightarrow> round_pause \<times> budget \<Rightarrow> bool \<times> round_pause \<times> budget" where
  "has_runnable_batch w pb =
     (if \<not> has_pending w then (False, pb)
      else case pause_holds pb of (h, pb1) \<Rightarrow> (\<not> h, pb1))"

definition next_batch_ready ::
  "'s worker \<Rightarrow> round_pause \<times> budget \<Rightarrow> bool \<times> round_pause \<times> budget" where
  \<comment> \<open>The loop of \<open>_wait_for_next_batch\<close> ends when work may run or the worker is stopped; then the
    method asks once more.\<close>
  "next_batch_ready w pb =
     (case has_runnable_batch w pb of
        (runnable, pb1) \<Rightarrow>
          if runnable \<or> w_stopped w then has_runnable_batch w pb1 else (False, pb1))"

definition or_now :: "instant \<Rightarrow> instant option \<Rightarrow> instant" where
  "or_now now t = (case t of None \<Rightarrow> now | Some u \<Rightarrow> u)"

definition pop_work :: "instant \<Rightarrow> 's worker \<Rightarrow> 's work \<times> 's worker" where
  \<comment> \<open>The part of \<open>_wait_for_next_batch\<close> after something may run: a scoped task first.\<close>
  "pop_work now w =
     (case w_scoped w of
        f # later \<Rightarrow>
          (Scoped f, w\<lparr>w_scoped := later, w_active := True,
             w_depth := (if length later + length (w_pending w) \<noteq> 0 then 1 else 0)\<rparr>)
      | [] \<Rightarrow>
          (Batch (w_pending w) (or_now now (w_first w)) (or_now now (w_last w)),
           w\<lparr>w_pending := [], w_first := None, w_last := None, w_active := True, w_depth := 0\<rparr>))"

datatype 'x outcome = Succeeded | Raised 'x

definition round_end :: "'x readers \<Rightarrow> 'x outcome \<Rightarrow> string" where
  "round_end rd out =
     (case out of
        Succeeded \<Rightarrow> ''success''
      | Raised exc \<Rightarrow> if rd_ended_by_stop rd exc then ''stopped'' else ''error'')"

definition settle_round :: "'x readers \<Rightarrow> 'x outcome \<Rightarrow> string \<Rightarrow> round_pause \<times> budget \<Rightarrow> round_pause \<times> budget" where
  \<comment> \<open>What a round that ended leaves in the pause and the budget.\<close>
  "settle_round rd out repo pb =
     (let (p, b) = pb;
          p1 = (case out of
                  Succeeded \<Rightarrow> p
                | Raised exc \<Rightarrow> if rd_ended_by_stop rd exc then p else after_failure rd exc repo p)
      in (p1, count_round b))"

definition end_round :: "'x readers \<Rightarrow> 'x outcome \<Rightarrow> instant \<Rightarrow> instant \<Rightarrow> 's worker \<Rightarrow> 's worker" where
  "end_round rd out start finish w =
     w\<lparr>w_last_round := Some \<lparr>rr_start = start, rr_end = finish, rr_result = round_end rd out\<rparr>,
       w_active := False, w_running := None\<rparr>"

text \<open>
  The steps of one worker, with the pause and the budget it shares. The worker's own thread takes work
  only when it runs none, and ends the round it runs; other threads enqueue and stop at any time.
\<close>

datatype ('s, 'x) worker_event =
    Enqueued trigger
  | EnqueuedScoped 's
  | Stopped
  | Took "'s work"
  | Held
  | Ended "'x outcome"

inductive worker_step ::
  "'x readers \<Rightarrow> 's worker \<times> round_pause \<times> budget \<Rightarrow> ('s, 'x) worker_event
   \<Rightarrow> 's worker \<times> round_pause \<times> budget \<Rightarrow> bool"
  for rd :: "'x readers" where
  ws_enqueue: "worker_step rd (w, pb) (Enqueued key) (enqueue key now w, pb)"
| ws_scoped: "worker_step rd (w, pb) (EnqueuedScoped f) (enqueue_scoped f w, pb)"
| ws_stop: "worker_step rd (w, pb) Stopped (stop_worker w, pb)"
| ws_take: "w_running w = None \<Longrightarrow> next_batch_ready w pb = (True, pb1) \<Longrightarrow>
    pop_work now w = (work, w1) \<Longrightarrow>
    worker_step rd (w, pb) (Took work) (w1\<lparr>w_running := Some work\<rparr>, pb1)"
| ws_held: "w_running w = None \<Longrightarrow> next_batch_ready w pb = (False, pb1) \<Longrightarrow>
    worker_step rd (w, pb) Held (w, pb1)"
| ws_end: "w_running w = Some work \<Longrightarrow>
    worker_step rd (w, pb) (Ended out) (end_round rd out start finish w, settle_round rd out (w_repo w) pb)"

inductive_cases worker_stepE: "worker_step rd (w, pb) e s'"

section \<open>The manager\<close>

type_synonym lane_key = "string \<times> string"

type_synonym 's service = "(lane_key \<Rightarrow> 's worker option) \<times> round_pause \<times> budget"

text \<open>The workers of every lane share one pause and one budget; each step is a step of one of them.\<close>

inductive service_step ::
  "'x readers \<Rightarrow> 's service \<Rightarrow> lane_key \<times> ('s, 'x) worker_event \<Rightarrow> 's service \<Rightarrow> bool"
  for rd :: "'x readers" where
  sv_step: "ws k = Some w \<Longrightarrow> worker_step rd (w, pb) e (w1, pb1) \<Longrightarrow>
    service_step rd (ws, pb) (k, e) (ws(k \<mapsto> w1), pb1)"

inductive_cases service_stepE: "service_step rd (ws, pb) (k, e) s'"

inductive service_run ::
  "'x readers \<Rightarrow> 's service \<Rightarrow> (lane_key \<times> ('s, 'x) worker_event) list \<Rightarrow> 's service \<Rightarrow> bool"
  for rd :: "'x readers" where
  sr_none: "service_run rd s [] s"
| sr_step: "service_run rd s es s1 \<Longrightarrow> service_step rd s1 e s2 \<Longrightarrow> service_run rd s (es @ [e]) s2"

record 's manager =
  mg_repos :: "string list"
  mg_lanes :: "string list"
  mg_workers :: "(lane_key, 's worker) dict"
  mg_pause :: round_pause
  mg_budget :: budget
  mg_poll_seconds :: rat
  mg_gated :: bool
  mg_stop :: bool
  mg_ready :: bool
  mg_draining :: bool
  mg_polls_counted :: "(string, nat) dict"
  mg_clock :: "nat \<Rightarrow> instant"
  mg_ticks :: nat

definition new_manager ::
  "string list \<Rightarrow> string list \<Rightarrow> round_pause \<Rightarrow> budget \<Rightarrow> rat \<Rightarrow> (nat \<Rightarrow> instant) \<Rightarrow> 's manager" where
  "new_manager repos lanes p b seconds clock =
     \<lparr>mg_repos = repos, mg_lanes = lanes,
      mg_workers = [((repo, lane), new_worker repo lane). repo \<leftarrow> remdups repos, lane \<leftarrow> lanes],
      mg_pause = p, mg_budget = b, mg_poll_seconds = seconds, mg_gated = False, mg_stop = False,
      mg_ready = False, mg_draining = False, mg_polls_counted = [], mg_clock = clock, mg_ticks = 0\<rparr>"

definition start_manager :: "'s manager \<Rightarrow> 's manager" where
  "start_manager m = m\<lparr>mg_gated := True, mg_ready := True\<rparr>"

fun enqueue_lanes :: "string list \<Rightarrow> string \<Rightarrow> trigger \<Rightarrow> 's manager \<Rightarrow> 's manager" where
  "enqueue_lanes [] repo key m = m"
| "enqueue_lanes (lane # lanes) repo key m =
     enqueue_lanes lanes repo key
       (case dict_get (mg_workers m) (repo, lane) of
          None \<Rightarrow> m
        | Some w \<Rightarrow>
            m\<lparr>mg_workers := dict_set (repo, lane) (enqueue key (mg_clock m (mg_ticks m)) w) (mg_workers m),
              mg_ticks := Suc (mg_ticks m)\<rparr>)"

definition enqueue_trigger :: "string \<Rightarrow> trigger \<Rightarrow> 's manager \<Rightarrow> bool \<times> 's manager" where
  "enqueue_trigger repo key m =
     (if repo \<notin> set (mg_repos m) then (False, m)
      else (True, enqueue_lanes (mg_lanes m) repo key m))"

definition poll_source :: string where
  "poll_source = ''poll''"

fun poll_repos :: "string list \<Rightarrow> 's manager \<Rightarrow> 's manager" where
  "poll_repos [] m = m"
| "poll_repos (repo # repos) m =
     (let m1 = snd (enqueue_trigger repo (poll_source, [], []) m)
      in poll_repos repos (m1\<lparr>mg_polls_counted :=
           dict_set repo (get_or 0 (mg_polls_counted m1) repo + 1) (mg_polls_counted m1)\<rparr>))"

definition poll :: "'s manager \<Rightarrow> 's manager" where
  "poll m = poll_repos (remdups (mg_repos m)) m"

definition manager_poll_interval :: "'s manager \<Rightarrow> rat" where
  "manager_poll_interval m =
     poll_interval (mg_poll_seconds m) (int (length (mg_workers m))) (mg_budget m)"

definition manager_enqueue_scoped ::
  "string \<Rightarrow> string \<Rightarrow> 's \<Rightarrow> 's manager \<Rightarrow> bool \<times> 's manager" where
  "manager_enqueue_scoped repo lane f m =
     (if repo \<notin> set (mg_repos m) then (False, m)
      else case dict_get (mg_workers m) (repo, lane) of
             None \<Rightarrow> (False, m)
           | Some w \<Rightarrow>
               (True, m\<lparr>mg_workers := dict_set (repo, lane) (enqueue_scoped f w) (mg_workers m)\<rparr>))"

record lane_status =
  ls_repo :: string
  ls_lane :: string
  ls_active :: bool
  ls_pending :: nat
  ls_last_round :: "round_result option"

definition status_of :: "string \<Rightarrow> string \<Rightarrow> 's worker \<Rightarrow> lane_status" where
  "status_of repo lane w = \<lparr>ls_repo = repo, ls_lane = lane, ls_active = w_active w,
     ls_pending = pending_triggers w, ls_last_round = w_last_round w\<rparr>"

definition lane_statuses :: "string option \<Rightarrow> 's manager \<Rightarrow> lane_status list" where
  "lane_statuses repo m =
     concat (map (\<lambda>r. concat (map (\<lambda>lane.
       (case dict_get (mg_workers m) (r, lane) of None \<Rightarrow> [] | Some w \<Rightarrow> [status_of r lane w]))
       (mg_lanes m))) (case repo of None \<Rightarrow> mg_repos m | Some r \<Rightarrow> [r]))"

definition is_ready :: "'s manager \<Rightarrow> bool" where
  "is_ready m = (mg_ready m \<and> \<not> mg_draining m \<and> \<not> mg_stop m)"

definition is_healthy :: "(lane_key \<Rightarrow> bool) \<Rightarrow> bool option \<Rightarrow> 's manager \<Rightarrow> bool" where
  \<comment> \<open>\<open>alive\<close>: whether each worker's thread lives; \<open>tick_done\<close>: whether the poll task, if any, ended.\<close>
  "is_healthy alive tick_done m =
     (if mg_stop m then False
      else if \<not> list_all (\<lambda>(k, _). alive k) (mg_workers m) then False
      else tick_done \<noteq> Some True)"

definition begin_drain :: "'s manager \<Rightarrow> 's manager" where
  "begin_drain m =
     m\<lparr>mg_draining := True, mg_stop := True, mg_budget := close_budget (mg_budget m)\<rparr>"

definition end_drain :: "'s manager \<Rightarrow> 's manager" where
  \<comment> \<open>Each worker is stopped; the waits for its round and its thread are not modelled.\<close>
  "end_drain m =
     m\<lparr>mg_workers := map (\<lambda>(k, w). (k, stop_worker w)) (mg_workers m), mg_gated := False\<rparr>"

section \<open>The options of the Service mode\<close>

record service_options =
  so_reload :: bool
  so_workers :: int
  so_repos :: "string list"
  so_app_id :: "string option"
  so_installation_id :: "string option"
  so_slug :: "string option"
  so_key_present :: bool
  so_raw_secrets :: "string option"

definition validate_service_mode ::
  "(string \<Rightarrow> json option) \<Rightarrow> (json \<Rightarrow> string) \<Rightarrow> service_options
   \<Rightarrow> py_error + (string, string) dict" where
  "validate_service_mode loads repr opts =
     (if so_reload opts then Inl ValueError
      else if so_workers opts > 1 then Inl ValueError
      else if so_repos opts = [] then Inl ValueError
      else if falsy (so_app_id opts) \<or> falsy (so_installation_id opts) \<or> falsy (so_slug opts)
      then Inl ValueError
      else if \<not> so_key_present opts then Inl ValueError
      else if falsy (so_raw_secrets opts) then Inl ValueError
      else case loads (the (so_raw_secrets opts)) of
             Some (JObj kvs) \<Rightarrow> Inr (map (\<lambda>(k, v). (k, json_text repr v)) kvs)
           | _ \<Rightarrow> Inl ValueError)"

definition resolve_service_secrets ::
  "(string \<Rightarrow> json option) \<Rightarrow> (json \<Rightarrow> string) \<Rightarrow> string option
   \<Rightarrow> (string, string) dict option \<Rightarrow> (string, string) dict" where
  "resolve_service_secrets loads repr raw explicit_secrets =
     (case explicit_secrets of
        Some d \<Rightarrow> d
      | None \<Rightarrow>
          if falsy raw then []
          else case loads (the raw) of
                 Some (JObj kvs) \<Rightarrow> map (\<lambda>(k, v). (k, json_text repr v)) kvs
               | _ \<Rightarrow> [])"

end
