(* ===== verification/ServiceProps.thy ===== *)
theory ServiceProps
  imports Service
begin

text \<open>
  Properties of the Service's engine over any interleaving of its workers' steps: a refused identity
  stops every lane for good, a time named by a failure holds every lane, no trigger is lost or
  run twice, a lane runs one round at a time, and lanes do not touch one another's queues.
\<close>

section \<open>Runs\<close>

lemma service_run_append:
  assumes "service_run rd s1 es2 s2" and "service_run rd s0 es1 s1"
  shows "service_run rd s0 (es1 @ es2) s2"
  using assms
proof (induction rule: service_run.induct)
  case (sr_step s es s1' e s2')
  then show ?case using service_run.sr_step [of rd s0 "es1 @ es"] by auto
qed simp

lemma service_run_inv:
  assumes "service_run rd s es s'" and "P s"
    and "\<And>s e s'. P s \<Longrightarrow> service_step rd s e s' \<Longrightarrow> P s'"
  shows "P s'"
  using assms by (induction rule: service_run.induct) auto

section \<open>The halt\<close>

lemma halted_hold [simp]: "pa_halted (snd (hold_rounds u p)) = pa_halted p"
  by (simp add: hold_rounds_def pause_now_def Let_def)

lemma halted_rounds [simp]: "pa_halted (halt_rounds repo p)"
  by (simp add: halt_rounds_def pause_now_def Let_def)

lemma halted_after: "pa_halted p \<Longrightarrow> pa_halted (after_failure rd exc repo p)"
  by (simp add: after_failure_def split: sum.split bool.split option.split)

lemma halted_pause_holds: "pa_halted p \<Longrightarrow> pause_holds (p, b) = (True, p, b)"
  by (simp add: pause_holds_def)

lemma pause_holds_keeps:
  "pause_holds (p, b) = (h, p1, b1) \<Longrightarrow> pa_halted p1 = pa_halted p \<and> pa_until p1 = pa_until p
     \<and> pa_clock p1 = pa_clock p \<and> pa_ticks p \<le> pa_ticks p1"
  by (auto simp: pause_holds_def pause_now_def split: option.splits if_splits prod.splits)

lemma runnable_keeps:
  "has_runnable_batch w (p, b) = (h, p1, b1) \<Longrightarrow> pa_halted p1 = pa_halted p \<and> pa_until p1 = pa_until p
     \<and> pa_clock p1 = pa_clock p \<and> pa_ticks p \<le> pa_ticks p1"
  by (auto simp: has_runnable_batch_def split: if_splits prod.splits dest: pause_holds_keeps)

lemma ready_keeps:
  "next_batch_ready w (p, b) = (h, p1, b1) \<Longrightarrow> pa_halted p1 = pa_halted p \<and> pa_until p1 = pa_until p
     \<and> pa_clock p1 = pa_clock p \<and> pa_ticks p \<le> pa_ticks p1"
  by (auto simp: next_batch_ready_def split: if_splits prod.splits dest!: runnable_keeps)

lemma halted_ready: "pa_halted p \<Longrightarrow> next_batch_ready w (p, b) = (False, p, b)"
  by (simp add: next_batch_ready_def has_runnable_batch_def halted_pause_holds)

lemma runnable_until:
  "has_runnable_batch w (p, b) = (True, p1, b1) \<Longrightarrow> pa_until p = Some v \<Longrightarrow>
     v \<le> pa_clock p (pa_ticks p) \<and> pa_ticks p1 = Suc (pa_ticks p)"
  by (auto simp: has_runnable_batch_def pause_holds_def pause_now_def Let_def split: if_splits prod.splits)

lemma ready_until:
  assumes "next_batch_ready w (p, b) = (True, p1, b1)" and "pa_until p = Some v"
  shows "\<exists>n. pa_ticks p \<le> n \<and> n < pa_ticks p1 \<and> v \<le> pa_clock p n"
proof -
  obtain r p0 b0 where first: "has_runnable_batch w (p, b) = (r, p0, b0)"
    by (metis prod.exhaust)
  with assms have "has_runnable_batch w (p0, b0) = (True, p1, b1)"
    by (auto simp: next_batch_ready_def split: if_splits)
  from runnable_until [OF this] runnable_keeps [OF first] assms(2) show ?thesis
    by (intro exI [of _ "pa_ticks p0"]) auto
qed

lemma halted_step:
  assumes "worker_step rd (w, p, b) e (w1, p1, b1)" and "pa_halted p"
  shows "pa_halted p1 \<and> (\<forall>work. e \<noteq> Took work)"
  using assms
  by (auto elim!: worker_stepE dest: ready_keeps simp: settle_round_def Let_def halted_after
      halted_ready split: outcome.splits if_splits)

lemma halted_service_step:
  fixes s :: "'s service" and work :: "'s work"
  assumes halted: "pa_halted (fst (snd s))" and step: "service_step rd s e s'"
  shows "pa_record (fst (snd s')) = pa_record (fst (snd s)) \<and> pa_keeps (fst (snd s')) = pa_keeps (fst (snd s))
    \<and> pa_halted (fst (snd s')) \<and> Took work \<noteq> snd e"
proof -
  obtain ws p b k' ev where s: "s = (ws, p, b)" and e: "e = (k', ev)" by (metis prod.exhaust)
  obtain w w1 p1 b1 where w: "worker_step rd (w, p, b) ev (w1, p1, b1)" and s': "snd s' = (p1, b1)"
    using step s e by (auto elim!: service_stepE)
  have "pa_record p1 = pa_record p \<and> pa_keeps p1 = pa_keeps p"
    using w halted s
    by (auto elim!: worker_stepE simp: settle_round_def after_failure_def halt_rounds_def Let_def
        hold_rounds_def pause_now_def halted_ready
        split: outcome.splits if_splits sum.splits bool.splits option.splits prod.splits)
  then show ?thesis using halted_step [OF w] halted s s' e by auto
qed

text \<open>
  C20: Once GitHub refuses the identity, no lane of any repository takes work again. When a round
  ends with an error that is read as such a refusal, and not as the end that a stop of the Service
  brings, no step of any worker that follows, in any interleaving, takes a round or a scoped task. A
  Service that starts again starts halted too, when a halt record is configured and holds the
  halt: the refusal that halts the rounds writes it, unless that write fails, and a pause that was
  halted before keeps the record that it has.
\<close>

theorem refused_identity_stops_every_lane:
  fixes rd :: "'x readers" and s s1 s2 :: "'s service" and work :: "'s work"
  assumes "service_step rd s (k, Ended (Raised exc)) s1"
    and "rd_refusal rd exc = Inr True" and "\<not> rd_ended_by_stop rd exc"
    and "service_run rd s1 es s2"
  shows "Took work \<notin> snd ` set es
    \<and> (let p0 = fst (snd s); p = fst (snd s2) in pa_halted p
        \<and> (pa_keeps p0 \<and> (if pa_halted p0 then pa_record p0 \<noteq> None else pa_disk p0) \<longrightarrow>
             pa_halted (new_pause (pa_identity p) (pa_keeps p) (pa_record p) disk (pa_clock p) (pa_ticks p))))"
proof -
  let ?kept = "\<lambda>p. pa_keeps (fst (snd s)) \<and> (if pa_halted (fst (snd s))
    then pa_record (fst (snd s)) \<noteq> None else pa_disk (fst (snd s))) \<longrightarrow> pa_keeps p \<and> pa_record p \<noteq> None"
  have start: "pa_halted (fst (snd s1)) \<and> ?kept (fst (snd s1))"
    using assms(1-3)
    by (cases s) (auto elim!: service_stepE worker_stepE simp: settle_round_def after_failure_def
        halt_rounds_def pause_now_def Let_def split: prod.splits)
  from assms(4) start have "Took work \<notin> snd ` set es \<and> pa_halted (fst (snd s2)) \<and> ?kept (fst (snd s2))"
  proof (induction rule: service_run.induct)
    case (sr_step s0 es s1' e s2')
    then show ?case using halted_service_step [of s1' rd e s2' work] by auto
  qed simp
  then show ?thesis by (simp add: new_pause_def Let_def)
qed

definition sample_pause :: round_pause where
  "sample_pause = new_pause ''app[bot]'' True None True (\<lambda>n. 10 * of_nat (min n 40)) 0"

text \<open>Readers of an error that is a text.\<close>

definition sample_readers :: "string readers" where
  "sample_readers = \<lparr>rd_refusal = (\<lambda>x. Inr (x = ''suspended'')),
     rd_until = (\<lambda>x. Inr (if x = ''spent'' then Some 500 else None)),
     rd_ended_by_stop = (\<lambda>x. x = ''stop'')\<rparr>"

definition sample_lane :: lane_key where
  "sample_lane = (''o/r'', ''default'')"

definition sample_service :: "string service" where
  "sample_service = ((\<lambda>k. None)(sample_lane \<mapsto>
     (new_worker ''o/r'' ''default'')\<lparr>w_running := Some (Scoped ''task''), w_active := True\<rparr>),
     sample_pause, sample_budget)"

lemma sample_ended:
  "\<exists>s1. service_step sample_readers sample_service (sample_lane, Ended (Raised exc)) s1 \<and>
     fst (snd s1) = (if sample_readers = sample_readers \<and> rd_ended_by_stop sample_readers exc then sample_pause
       else after_failure sample_readers exc ''o/r'' sample_pause) \<and>
     (\<exists>w. fst s1 sample_lane = Some w)"
proof -
  let ?w = "(new_worker ''o/r'' ''default'')\<lparr>w_running := Some (Scoped ''task''), w_active := True\<rparr>"
  have "worker_step sample_readers (?w, sample_pause, sample_budget) (Ended (Raised exc))
      (end_round sample_readers (Raised exc) 0 1 ?w,
       settle_round sample_readers (Raised exc) (w_repo ?w) (sample_pause, sample_budget))"
    by (rule ws_end) simp
  from sv_step [OF _ this, where ws = "fst sample_service" and k = sample_lane] show ?thesis
    by (intro exI) (auto simp: sample_service_def settle_round_def new_worker_def)
qed

lemma refused_identity_stops_every_lane_witness:
  "\<exists>s1. service_step sample_readers sample_service (sample_lane, Ended (Raised ''suspended'')) s1
     \<and> pa_halted (fst (snd s1))"
proof -
  obtain s1 where s1: "service_step sample_readers sample_service (sample_lane, Ended (Raised ''suspended'')) s1"
    using sample_ended by blast
  have "pa_halted (fst (snd s1))"
    using refused_identity_stops_every_lane [OF s1 _ _ sr_none]
    by (simp add: sample_readers_def Let_def)
  with s1 show ?thesis by blast
qed

section \<open>The time a failure names\<close>

lemma hold_rounds_until:
  "snd (hold_rounds u p) = p1 \<Longrightarrow> pa_until p = Some v \<Longrightarrow> \<exists>v'. pa_until p1 = Some v' \<and> v \<le> v'"
  by (auto simp: hold_rounds_def pause_now_def Let_def)

lemma pause_frame:
  "pa_clock (after_failure rd exc repo p) = pa_clock p"
  "pa_ticks p \<le> pa_ticks (after_failure rd exc repo p)"
  "pa_until p = Some v \<Longrightarrow> \<exists>v'. pa_until (after_failure rd exc repo p) = Some v' \<and> v \<le> v'"
  by (auto simp: after_failure_def halt_rounds_def hold_rounds_def pause_now_def Let_def
      split: sum.split bool.split option.split)

lemma until_step:
  assumes "worker_step rd (w, p, b) e (w1, p1, b1)" and "pa_until p = Some v"
  shows "(\<exists>v'. pa_until p1 = Some v' \<and> v \<le> v') \<and> pa_clock p1 = pa_clock p \<and> pa_ticks p \<le> pa_ticks p1"
  using assms pause_frame
  by (auto elim!: worker_stepE dest: ready_keeps simp: settle_round_def Let_def
      split: outcome.splits if_splits)

lemma took_after_until:
  assumes "worker_step rd (w, p, b) (Took work) (w1, p1, b1)" and "pa_until p = Some v"
  shows "\<exists>n. pa_ticks p \<le> n \<and> n < pa_ticks p1 \<and> v \<le> pa_clock p n"
  using assms by (auto elim!: worker_stepE dest: ready_until)

text \<open>
  A time that a failed round names holds every lane: while the pause holds until an instant, no
  worker of any lane takes work before a clock reading of the pause, made as it takes the work, has
  reached it, whatever other rounds end in between.
\<close>

theorem named_time_holds_every_lane:
  assumes "service_run rd (ws, p, b) es (ws1, p1, b1)" and "pa_until p = Some v"
    and "service_step rd (ws1, p1, b1) (k, Took work) s2"
  shows "\<exists>n. pa_ticks p \<le> n \<and> pa_ticks p1 \<le> n \<and> n < pa_ticks (fst (snd s2)) \<and> v \<le> pa_clock p n"
proof -
  let ?P = "\<lambda>s. (\<exists>v'. pa_until (fst (snd s)) = Some v' \<and> v \<le> v') \<and> pa_clock (fst (snd s)) = pa_clock p
    \<and> pa_ticks p \<le> pa_ticks (fst (snd s))"
  have "?P (ws1, p1, b1)"
  proof (rule service_run_inv [OF assms(1)])
    fix s e s' assume P: "?P s" and step: "service_step rd s e s'"
    obtain ws0 p0 b0 k0 e0 where s: "s = (ws0, p0, b0)" and e: "e = (k0, e0)" by (metis prod.exhaust)
    obtain w w' p' b' where "worker_step rd (w, p0, b0) e0 (w', p', b')" "snd s' = (p', b')"
      using step s e by (auto elim!: service_stepE)
    then show "?P s'" using P s until_step by fastforce
  qed (use assms(2) in simp)
  moreover obtain w w' p' b' where "worker_step rd (w, p1, b1) (Took work) (w', p', b')"
    "snd s2 = (p', b')"
    using assms(3) by (auto elim!: service_stepE)
  moreover from calculation obtain v' where "pa_until p1 = Some v'" "v \<le> v'" "pa_clock p1 = pa_clock p"
    "pa_ticks p \<le> pa_ticks p1"
    by auto
  ultimately show ?thesis using took_after_until [of rd w p1 b1 work w' p' b' v']
    by (metis fst_conv order_trans snd_conv)
qed

section \<open>Work is neither lost nor run twice\<close>

definition enqueued_of :: "lane_key \<Rightarrow> trigger \<Rightarrow> (lane_key \<times> ('s, 'x) worker_event) list \<Rightarrow> nat" where
  "enqueued_of k t es = sum_list (map (\<lambda>e. if e = (k, Enqueued t) then 1 else 0) es)"

definition taken_of :: "lane_key \<Rightarrow> trigger \<Rightarrow> (lane_key \<times> ('s, 'x) worker_event) list \<Rightarrow> nat" where
  "taken_of k t es = sum_list (map (\<lambda>(k', e). if k' = k then
     (case e of Took (Batch counts _ _) \<Rightarrow> get_or 0 counts t | _ \<Rightarrow> 0) else 0) es)"

definition scoped_in :: "lane_key \<Rightarrow> (lane_key \<times> ('s, 'x) worker_event) list \<Rightarrow> 's list" where
  "scoped_in k es = concat (map (\<lambda>(k', e). if k' = k then
     (case e of EnqueuedScoped f \<Rightarrow> [f] | _ \<Rightarrow> []) else []) es)"

definition scoped_out :: "lane_key \<Rightarrow> (lane_key \<times> ('s, 'x) worker_event) list \<Rightarrow> 's list" where
  "scoped_out k es = concat (map (\<lambda>(k', e). if k' = k then
     (case e of Took (Scoped f) \<Rightarrow> [f] | _ \<Rightarrow> []) else []) es)"

definition rounds_of :: "lane_key \<Rightarrow> (lane_key \<times> ('s, 'x) worker_event) list \<Rightarrow> nat \<times> nat" where
  \<comment> \<open>The rounds a lane took and the rounds it ended.\<close>
  "rounds_of k es =
     (length (filter (\<lambda>(k', e). k' = k \<and> (case e of Took _ \<Rightarrow> True | _ \<Rightarrow> False)) es),
      length (filter (\<lambda>(k', e). k' = k \<and> (case e of Ended _ \<Rightarrow> True | _ \<Rightarrow> False)) es))"

lemmas work_defs = enqueued_of_def taken_of_def scoped_in_def scoped_out_def rounds_of_def

lemma other_lane_unchanged:
  "service_step rd (ws, pb) (k', e) (ws1, pb1) \<Longrightarrow> k \<noteq> k' \<Longrightarrow> ws1 k = ws k"
  by (auto elim!: service_stepE)

text \<open>
  C4: No trigger is lost, run twice, or moved to another lane. In any interleaving, each lane has taken, in
  the batches it ran, exactly as often as it was enqueued each trigger that is no longer pending; its
  scoped tasks were taken in the order they were enqueued; and a lane runs one round at a time: it
  takes work only when the round before has ended.
\<close>

theorem no_work_lost_or_repeated:
  assumes "service_run rd (ws, pb) es (ws1, pb1)" and "ws k = Some (new_worker repo lane)"
  shows "\<exists>w. ws1 k = Some w
    \<and> enqueued_of k t es = get_or 0 (w_pending w) t + taken_of k t es
    \<and> scoped_in k es = scoped_out k es @ w_scoped w
    \<and> fst (rounds_of k es) = snd (rounds_of k es) + (if w_running w = None then 0 else 1)"
proof -
  have "\<exists>w. fst s1 k = Some w
      \<and> enqueued_of k t es = get_or 0 (w_pending w) t + taken_of k t es
      \<and> scoped_in k es = scoped_out k es @ w_scoped w
      \<and> fst (rounds_of k es) = snd (rounds_of k es) + (if w_running w = None then 0 else 1)"
    if "service_run rd s es s1" "fst s k = Some (new_worker repo lane)" for s es s1
    using that
  proof (induction rule: service_run.induct)
    case (sr_none s)
    then show ?case by (simp add: work_defs new_worker_def get_or_def)
  next
    case (sr_step s es s1 ke s2)
    then obtain w where w: "fst s1 k = Some w"
      and inv: "enqueued_of k t es = get_or 0 (w_pending w) t + taken_of k t es"
        "scoped_in k es = scoped_out k es @ w_scoped w"
        "fst (rounds_of k es) = snd (rounds_of k es) + (if w_running w = None then 0 else 1)" by blast
    obtain k' e where ke: "ke = (k', e)" by (cases ke)
    obtain ws1 pb1 where s1: "s1 = (ws1, pb1)" by (cases s1)
    show ?case
    proof (cases "k' = k")
      case False
      then have "fst s2 k = Some w"
        using sr_step.hyps(2) w ke s1 other_lane_unchanged [of rd ws1 pb1 k' e "fst s2" "snd s2" k] by simp
      then show ?thesis using inv False by (simp add: work_defs ke)
    next
      case True
      obtain w2 pb2 where step: "worker_step rd (w, pb1) e (w2, pb2)" and s2: "fst s2 k = Some w2"
        using sr_step.hyps(2) w True by (auto simp: ke s1 elim!: service_stepE)
      show ?thesis using step
      proof cases
        case ws_enqueue
        then show ?thesis using inv s2 True by (auto simp: work_defs ke enqueue_def)
      next
        case ws_take
        then show ?thesis using inv s2 True
          by (auto simp: work_defs ke pop_work_def get_or_def split: list.splits)
      qed (use inv s2 True in \<open>auto simp: work_defs ke enqueue_scoped_def stop_worker_def end_round_def\<close>)
    qed
  qed
  from this [OF assms(1)] assms(2) show ?thesis by simp
qed

lemma named_time_holds_every_lane_witness:
  "\<exists>s1. service_step sample_readers sample_service (sample_lane, Ended (Raised ''spent'')) s1
     \<and> pa_until (fst (snd s1)) = Some 500
     \<and> (\<forall>work s2. service_step sample_readers s1 (sample_lane, Took work) s2 \<longleftrightarrow> False)"
proof -
  obtain s1 where s1: "service_step sample_readers sample_service (sample_lane, Ended (Raised ''spent'')) s1"
    and p: "fst (snd s1) = after_failure sample_readers ''spent'' ''o/r'' sample_pause"
    using sample_ended [of "''spent''"] by (auto simp: sample_readers_def)
  have until: "pa_until (fst (snd s1)) = Some 500" "pa_clock (fst (snd s1)) = (\<lambda>n. 10 * of_nat (min n 40))"
    "pa_ticks (fst (snd s1)) = 1"
    by (simp_all add: p after_failure_def sample_readers_def hold_rounds_def pause_now_def
        sample_pause_def new_pause_def)
  have "\<not> service_step sample_readers s1 (sample_lane, Took work) s2" for work s2
  proof
    assume step: "service_step sample_readers s1 (sample_lane, Took work) s2"
    obtain ws p1 b1 where eq: "s1 = (ws, p1, b1)" by (metis prod.exhaust)
    from named_time_holds_every_lane [OF sr_none _ step [unfolded eq], of 500] until show False
      by (auto simp: eq min_def split: if_splits)
  qed
  with s1 until show ?thesis by blast
qed

lemma no_work_lost_or_repeated_witness:
  "\<exists>ws1 pb1. service_run sample_readers ((\<lambda>k. None)(sample_lane \<mapsto> (new_worker ''o/r'' ''default'' :: string worker)), sample_pause, sample_budget)
       [(sample_lane, Enqueued (''poll'', [], []))] (ws1, pb1)
     \<and> (\<exists>w. ws1 sample_lane = Some w \<and> get_or 0 (w_pending w) (''poll'', [], []) = 1)"
proof -
  let ?ws = "(\<lambda>k. None)(sample_lane \<mapsto> new_worker ''o/r'' ''default'') :: lane_key \<Rightarrow> string worker option"
  let ?pb = "(sample_pause, sample_budget)"
  have "service_step sample_readers (?ws, ?pb) (sample_lane, Enqueued (''poll'', [], []))
      (?ws(sample_lane \<mapsto> enqueue (''poll'', [], []) 7 (new_worker ''o/r'' ''default'')), ?pb)"
    by (rule sv_step [OF _ ws_enqueue]) simp
  from sr_step [OF sr_none this] obtain ws1 where run: "service_run sample_readers (?ws, ?pb)
      [(sample_lane, Enqueued (''poll'', [], []))] (ws1, ?pb)"
    by simp
  have "?ws sample_lane = Some (new_worker ''o/r'' ''default'')" by simp
  from no_work_lost_or_repeated [OF run this, of "(''poll'', [], [])"]
  have "\<exists>w. ws1 sample_lane = Some w \<and> get_or 0 (w_pending w) (''poll'', [], []) = 1"
    by (auto simp: enqueued_of_def taken_of_def)
  with run show ?thesis by blast
qed

section \<open>Triggers reach the lanes of their repository\<close>

lemma enqueue_fields [simp]:
  "w_scoped (enqueue key now w) = w_scoped w" "w_running (enqueue key now w) = w_running w"
  "get_or 0 (w_pending (enqueue key now w)) t = get_or 0 (w_pending w) t + (if t = key then 1 else 0)"
  by (simp_all add: enqueue_def)

lemma enqueue_lanes_workers:
  "distinct lanes \<Longrightarrow>
   (case dict_get (mg_workers m) k of
      None \<Rightarrow> dict_get (mg_workers (enqueue_lanes lanes repo key m)) k = None
    | Some w \<Rightarrow>
        (if fst k = repo \<and> snd k \<in> set lanes
         then \<exists>now. dict_get (mg_workers (enqueue_lanes lanes repo key m)) k = Some (enqueue key now w)
         else dict_get (mg_workers (enqueue_lanes lanes repo key m)) k = Some w))"
proof (induction lanes arbitrary: m)
  case (Cons lane lanes)
  let ?m = "case dict_get (mg_workers m) (repo, lane) of
      None \<Rightarrow> m
    | Some w \<Rightarrow> m\<lparr>mg_workers := dict_set (repo, lane) (enqueue key (mg_clock m (mg_ticks m)) w) (mg_workers m),
        mg_ticks := Suc (mg_ticks m)\<rparr>"
  have "distinct lanes" "lane \<notin> set lanes" using Cons.prems by auto
  note IH = Cons.IH [OF this(1), of ?m]
  have eq: "enqueue_lanes (lane # lanes) repo key m = enqueue_lanes lanes repo key ?m" by simp
  show ?case
  proof (cases "k = (repo, lane)")
    case True
    then show ?thesis unfolding eq using IH \<open>lane \<notin> set lanes\<close>
      by (cases "dict_get (mg_workers m) (repo, lane)") auto
  next
    case False
    then have "dict_get (mg_workers ?m) k = dict_get (mg_workers m) k" by (auto split: option.split)
    moreover have "(fst k = repo \<and> snd k \<in> set (lane # lanes)) = (fst k = repo \<and> snd k \<in> set lanes)"
      using False by (cases k) auto
    ultimately show ?thesis using IH by (simp only: eq)
  qed
qed (simp split: option.split)

text \<open>
  A trigger for a managed repository is queued once on each of its lanes, and touches no other
  worker; one for a repository the Service does not manage changes nothing and is reported so. The
  queue counts it beside the triggers of its kind that are pending.
\<close>

theorem trigger_reaches_its_lanes:
  assumes "distinct (mg_lanes m)" and "enqueue_trigger repo key m = (managed, m1)"
  shows "managed = (repo \<in> set (mg_repos m)) \<and> (\<not> managed \<longrightarrow> m1 = m)
    \<and> (case dict_get (mg_workers m) k of
         None \<Rightarrow> dict_get (mg_workers m1) k = None
       | Some w \<Rightarrow>
           (\<exists>w1. dict_get (mg_workers m1) k = Some w1 \<and> w_scoped w1 = w_scoped w
             \<and> w_running w1 = w_running w
             \<and> get_or 0 (w_pending w1) t = get_or 0 (w_pending w) t
                 + (if managed \<and> fst k = repo \<and> snd k \<in> set (mg_lanes m) \<and> t = key then 1 else 0)))"
  using assms(2) enqueue_lanes_workers [OF assms(1), where m = m and k = k and repo = repo and key = key]
  by (cases "repo \<in> set (mg_repos m)")
    (auto simp: enqueue_trigger_def split: option.splits if_splits)

definition sample_manager :: "string manager" where
  "sample_manager = new_manager [''o/r'', ''o/s''] [''default'', ''review''] sample_pause sample_budget 300 (\<lambda>n. of_nat n)"

lemma trigger_reaches_its_lanes_witness:
  "\<exists>w1. dict_get (mg_workers (snd (enqueue_trigger ''o/r'' (''webhook'', ''push'', []) sample_manager)))
       (''o/r'', ''review'') = Some w1 \<and> get_or 0 (w_pending w1) (''webhook'', ''push'', []) = 1"
proof -
  have lanes: "distinct (mg_lanes sample_manager)" by (simp add: sample_manager_def new_manager_def)
  obtain managed m1 where m1: "enqueue_trigger ''o/r'' (''webhook'', ''push'', []) sample_manager = (managed, m1)"
    by (cases "enqueue_trigger ''o/r'' (''webhook'', ''push'', []) sample_manager")
  have "dict_get (mg_workers sample_manager) (''o/r'', ''review'') = Some (new_worker ''o/r'' ''review'')"
    "''o/r'' \<in> set (mg_repos sample_manager)" "''review'' \<in> set (mg_lanes sample_manager)"
    by (simp_all add: sample_manager_def new_manager_def)
  then show ?thesis
    using trigger_reaches_its_lanes [OF lanes m1, of "(''o/r'', ''review'')" "(''webhook'', ''push'', [])"] m1
    by (auto simp: new_worker_def get_or_def)
qed

end
