(* ===== verification/Webhook.thy ===== *)
theory Webhook
  imports ServiceProps
begin

text \<open>
  The webhook router, \<^verbatim>\<open>src/devops_cli/server/routes/webhooks.py\<close>: how a delivery is verified,
  read, parsed and handed to the consumers of its event. A request is its headers and the chunks of
  its body; bytes are characters. The digest of a body under a secret, the split of an
  \<open>Authorization\<close> header, the validation of a payload and the reading of a chat form are
  given to the model, as is the cache of delivery ids (a library's LRU cache) by its two operations.
\<close>

section \<open>Requests and replies\<close>

record request =
  rq_headers :: "(string, string) dict"
  rq_chunks :: "string list"

definition header_of :: "request \<Rightarrow> string \<Rightarrow> string option" where
  \<comment> \<open>Header names are matched without regard to case.\<close>
  "header_of rq name = map_of (map (\<lambda>(k, v). (lower k, v)) (rq_headers rq)) (lower name)"

definition header_or_empty :: "request \<Rightarrow> string \<Rightarrow> string" where
  "header_or_empty rq name = (case header_of rq name of None \<Rightarrow> [] | Some v \<Rightarrow> v)"

record payload =
  pl_action :: "string option"
  pl_repo :: string
  pl_sender :: "string option"
  pl_issue :: "int option option"

datatype chat_reply =
    ChatUsage
  | ChatStatuses "lane_status list"
  | ChatUnknownRepo string "string list"

datatype reply_body = ErrorBody string | StatusBody string | ChatBody chat_reply

record reply =
  rp_status :: nat
  rp_body :: reply_body
  rp_outcome :: string

definition rejected :: "nat \<Rightarrow> string \<Rightarrow> reply" where
  "rejected status e = \<lparr>rp_status = status, rp_body = ErrorBody e, rp_outcome = ''rejected''\<rparr>"

definition acknowledged :: "string \<Rightarrow> string \<Rightarrow> reply" where
  "acknowledged status outcome = \<lparr>rp_status = 200, rp_body = StatusBody status, rp_outcome = outcome\<rparr>"

section \<open>The environment\<close>

record environment =
  en_mac :: "string \<Rightarrow> string \<Rightarrow> string"
  en_scheme_param :: "string \<Rightarrow> string \<times> string"
  en_validate :: "string \<Rightarrow> (string list \<times> string) list + payload"
  en_chat_args :: "string \<Rightarrow> string list option"

text \<open>The cache of delivery ids: reading a key also makes it the most recent.\<close>

record 'c lru =
  lru_get :: "string \<Rightarrow> 'c \<Rightarrow> bool \<times> 'c"
  lru_put :: "string \<Rightarrow> 'c \<Rightarrow> 'c"

definition check_and_add :: "'c lru \<Rightarrow> string \<Rightarrow> 'c \<Rightarrow> bool \<times> 'c" where
  "check_and_add lru delivery_id c =
     (case lru_get lru delivery_id c of
        (True, c1) \<Rightarrow> (True, c1)
      | (False, c1) \<Rightarrow> (False, lru_put lru delivery_id c1))"

section \<open>Verifiers\<close>

datatype verifier =
    HmacSha256 string string  \<comment> \<open>header and prefix\<close>
  | AuthorizationToken string  \<comment> \<open>scheme\<close>

definition hmac_verify :: "environment \<Rightarrow> string \<Rightarrow> string \<Rightarrow> string option \<Rightarrow> string \<Rightarrow> bool" where
  "hmac_verify env pre body signature secret =
     (if falsy signature \<or> secret = [] \<or> \<not> prefix pre (the signature) then False
      else drop (length pre) (the signature) = en_mac env secret body)"

definition signers ::
  "environment \<Rightarrow> string \<Rightarrow> string \<Rightarrow> string option \<Rightarrow> (string, string) dict \<Rightarrow> string list" where
  "signers env pre body signature secrets =
     map fst (filter (\<lambda>(_, secret). hmac_verify env pre body signature secret) secrets)"

definition is_ascii :: "string \<Rightarrow> bool" where
  "is_ascii s = list_all (\<lambda>c. (of_char c :: nat) < 128) s"

definition compare_digest :: "string \<Rightarrow> string \<Rightarrow> py_error + bool" where
  \<comment> \<open>\<open>secrets.compare_digest\<close> takes two texts only when both are ASCII.\<close>
  "compare_digest a b = (if is_ascii a \<and> is_ascii b then Inr (a = b) else Inl TypeError)"

section \<open>The chat command\<close>

definition chat_roadmap :: "string list option \<Rightarrow> 's manager \<Rightarrow> chat_reply" where
  "chat_roadmap args m =
     (case args of
        None \<Rightarrow> ChatUsage
      | Some a \<Rightarrow>
          if a = [] \<or> a = [''status''] then ChatStatuses (lane_statuses None m)
          else if length a = 2 \<and> a ! 0 = ''status'' then
            (if a ! 1 \<notin> set (mg_repos m) then ChatUnknownRepo (a ! 1) (mg_repos m)
             else ChatStatuses (lane_statuses (Some (a ! 1)) m))
          else ChatUsage)"

section \<open>Providers and consumers\<close>

record 's provider =
  pv_name :: string
  pv_exposure :: string
  pv_verifier :: verifier
  pv_event_header :: string
  pv_delivery_header :: string
  pv_ping_event :: string
  pv_content_type :: string
  pv_responder :: "(string \<Rightarrow> 's manager \<Rightarrow> chat_reply) option"

definition github_provider :: "'s provider" where
  "github_provider =
     \<lparr>pv_name = ''github'', pv_exposure = ''tunnel'',
      pv_verifier = HmacSha256 ''X-Hub-Signature-256'' ''sha256='',
      pv_event_header = ''X-GitHub-Event'', pv_delivery_header = ''X-GitHub-Delivery'',
      pv_ping_event = ''ping'', pv_content_type = ''application/json'', pv_responder = None\<rparr>"

definition mattermost_provider :: "environment \<Rightarrow> 's provider" where
  "mattermost_provider env =
     \<lparr>pv_name = ''mattermost'', pv_exposure = ''cluster'', pv_verifier = AuthorizationToken ''Token'',
      pv_event_header = [], pv_delivery_header = [], pv_ping_event = [],
      pv_content_type = ''application/x-www-form-urlencoded'',
      pv_responder = Some (\<lambda>body. chat_roadmap (en_chat_args env body))\<rparr>"

text \<open>A target that takes a payload, and one that takes the repository, event and action only.\<close>

datatype 's target =
    WithPayload "string \<Rightarrow> string \<Rightarrow> string \<Rightarrow> payload \<Rightarrow> 's manager \<Rightarrow> 's manager"
  | WithoutPayload "string \<Rightarrow> string \<Rightarrow> string \<Rightarrow> 's manager \<Rightarrow> 's manager"

record 's consumer =
  cs_name :: string
  cs_provider :: string
  cs_events :: "string list"
  cs_deliver :: "'s target"
  cs_refusal :: "payload \<Rightarrow> string option"

section \<open>The roadmap's consumer\<close>

record scoped_delivery =
  sd_repo :: string
  sd_event :: string
  sd_action :: string
  sd_number :: int

definition scoped_lane :: "string \<Rightarrow> string \<Rightarrow> string option" where
  \<comment> \<open>\<open>SCOPED_UPDATES\<close>: the lane that runs the update of an event and action at once.\<close>
  "scoped_lane event action =
     (if event = ''issues'' \<and> action \<in> set [''opened'', ''edited'', ''reopened''] then Some ''triage''
      else None)"

definition roadmap_webhook_events :: "string list" where
  "roadmap_webhook_events = [''issues'']"

definition own_write_status :: string where
  "own_write_status = ''ignored_own_write''"

definition roadmap_deliver ::
  "string \<Rightarrow> string \<Rightarrow> string \<Rightarrow> payload \<Rightarrow> scoped_delivery manager \<Rightarrow> scoped_delivery manager" where
  "roadmap_deliver repo event action payload m =
     (case (scoped_lane event action, pl_issue payload) of
        (Some lane, Some (Some number)) \<Rightarrow>
          (case manager_enqueue_scoped repo lane
                 \<lparr>sd_repo = repo, sd_event = event, sd_action = action, sd_number = number\<rparr> m of
             (True, m1) \<Rightarrow> m1
           | (False, m1) \<Rightarrow> snd (enqueue_trigger repo (''webhook'', event, action) m1))
      | _ \<Rightarrow> snd (enqueue_trigger repo (''webhook'', event, action) m))"

definition refuse_own_write :: "string option \<Rightarrow> payload \<Rightarrow> string option" where
  "refuse_own_write bot_login payload =
     (if \<not> falsy bot_login \<and> (case pl_sender payload of
           None \<Rightarrow> False | Some login \<Rightarrow> lower login = lower (the bot_login))
      then Some own_write_status else None)"

definition roadmap_consumer :: "string option \<Rightarrow> scoped_delivery consumer" where
  "roadmap_consumer bot_login =
     \<lparr>cs_name = ''roadmap'', cs_provider = ''github'', cs_events = roadmap_webhook_events,
      cs_deliver = WithPayload roadmap_deliver, cs_refusal = refuse_own_write bot_login\<rparr>"

section \<open>What is refused before the body is read\<close>

definition max_body_bytes :: int where
  "max_body_bytes = 25 * 1024 * 1024"

definition declares_more_than_the_cap :: "string \<Rightarrow> bool" where
  "declares_more_than_the_cap declared =
     (if declared = [] \<or> \<not> list_all is_digit declared then False
      else let significant = dropWhile (\<lambda>c. c = CHR ''0'') declared
           in length significant > length ''26214400''
              \<or> digits_val (if significant = [] then ''0'' else significant) > max_body_bytes)"

fun read_chunks :: "string list \<Rightarrow> string list \<Rightarrow> int \<Rightarrow> string option" where
  "read_chunks [] body_chunks read_bytes = Some (concat body_chunks)"
| "read_chunks (chunk # chunks) body_chunks read_bytes =
     (let now = read_bytes + int (length chunk)
      in if now > max_body_bytes then None
         else read_chunks chunks (body_chunks @ [chunk]) now)"

definition read_capped_body :: "request \<Rightarrow> string option" where
  "read_capped_body rq = read_chunks (rq_chunks rq) [] 0"

text \<open>What the router reads and changes of the manager.\<close>

record ('s, 'c) hooks =
  hk_manager :: "'s manager"
  hk_secrets :: "(string, string) dict"
  hk_token :: "string option"
  hk_seen :: 'c
  hk_concluded :: "(string \<times> string \<times> string) list"

definition refuse_content_type :: "request \<Rightarrow> 's provider \<Rightarrow> reply option" where
  "refuse_content_type rq pv =
     (if \<not> prefix (pv_content_type pv) (header_or_empty rq ''content-type'')
      then Some (rejected 415 ''unsupported media type'') else None)"

record delivery =
  dl_event :: string
  dl_id :: string

definition refuse_verifier ::
  "environment \<Rightarrow> request \<Rightarrow> 's provider \<Rightarrow> string option \<Rightarrow> delivery \<Rightarrow> py_error + reply option" where
  "refuse_verifier env rq pv token d =
     (case pv_verifier pv of
        HmacSha256 h pre \<Rightarrow>
          if dl_event d = [] \<or> dl_id d = [] then Inr (Some (rejected 400 ''missing event or delivery header''))
          else if falsy (header_of rq h) then Inr (Some (rejected 401 ''missing signature''))
          else Inr None
      | AuthorizationToken scheme \<Rightarrow>
          (let auth_header = header_of rq ''authorization''
           in if falsy auth_header then Inr (Some (rejected 401 ''missing authorization header''))
              else let (sent_scheme, sent_token) = en_scheme_param env (the auth_header)
                   in if lower sent_scheme \<noteq> lower scheme \<or> sent_token = []
                      then Inr (Some (rejected 401 ''invalid authorization''))
                      else if falsy token then Inr (Some (rejected 401 ''unauthorized''))
                      else case compare_digest sent_token (the token) of
                             Inl e \<Rightarrow> Inl e
                           | Inr same \<Rightarrow>
                               if \<not> same then Inr (Some (rejected 401 ''invalid token'')) else Inr None))"

definition refuse_before_reading ::
  "environment \<Rightarrow> request \<Rightarrow> 's provider \<Rightarrow> ('s, 'c) hooks \<Rightarrow> delivery \<Rightarrow> py_error + reply option" where
  "refuse_before_reading env rq pv s d =
     (if mg_draining (hk_manager s) then Inr (Some (rejected 503 ''service is draining''))
      else case refuse_content_type rq pv of
             Some r \<Rightarrow> Inr (Some r)
           | None \<Rightarrow>
               (case refuse_verifier env rq pv (hk_token s) d of
                  Inl e \<Rightarrow> Inl e
                | Inr (Some r) \<Rightarrow> Inr (Some r)
                | Inr None \<Rightarrow>
                    if declares_more_than_the_cap (header_or_empty rq ''content-length'')
                    then Inr (Some (rejected 413 ''payload too large'')) else Inr None))"

section \<open>The payload\<close>

definition max_error_detail :: nat where
  "max_error_detail = 256"

definition joined :: "string \<Rightarrow> string list \<Rightarrow> string" where
  "joined sep parts = concat (case parts of [] \<Rightarrow> [] | p # ps \<Rightarrow> p # map (\<lambda>q. sep @ q) ps)"

definition invalid_payload_detail :: "(string list \<times> string) list \<Rightarrow> string" where
  "invalid_payload_detail failures =
     take max_error_detail (''invalid payload: '' @ joined ''; '' (map (\<lambda>(loc, msg).
       (let path = joined ''.'' loc in (if path = [] then ''body'' else path)) @ '': '' @ msg) failures))"

definition authenticated_payload ::
  "environment \<Rightarrow> request \<Rightarrow> 's provider \<Rightarrow> ('s, 'c) hooks \<Rightarrow> string \<Rightarrow> reply + payload" where
  "authenticated_payload env rq pv s body =
     (case pv_verifier pv of
        AuthorizationToken _ \<Rightarrow> Inl (rejected 401 ''invalid signature'')
      | HmacSha256 h pre \<Rightarrow>
          (let signed_by = signers env pre body (header_of rq h) (hk_secrets s)
           in if signed_by = [] then Inl (rejected 401 ''invalid signature'')
              else case en_validate env body of
                     Inl failures \<Rightarrow> Inl (rejected 400 (invalid_payload_detail failures))
                   | Inr payload \<Rightarrow>
                       (let repo = pl_repo payload
                        in if repo \<notin> set (mg_repos (hk_manager s)) \<or> repo \<notin> set signed_by
                           then Inl (rejected 401 ''unmanaged repository or signature mismatch'')
                           else Inr payload)))"

section \<open>Routing\<close>

definition deliver_to :: "delivery \<Rightarrow> payload \<Rightarrow> 's consumer \<Rightarrow> 's manager \<Rightarrow> 's manager" where
  "deliver_to d p c =
     (let action = (case pl_action p of None \<Rightarrow> [] | Some a \<Rightarrow> a)
      in case cs_deliver c of
           WithPayload f \<Rightarrow> f (pl_repo p) (dl_event d) action p
         | WithoutPayload f \<Rightarrow> f (pl_repo p) (dl_event d) action)"

definition hand_to_consumers ::
  "delivery \<Rightarrow> payload \<Rightarrow> 's consumer list \<Rightarrow> 's manager \<Rightarrow> reply \<times> 's manager" where
  "hand_to_consumers d p subscribed m =
     (let takers = filter (\<lambda>c. cs_refusal c p = None) subscribed;
          refusals = map (\<lambda>c. the (cs_refusal c p)) (filter (\<lambda>c. cs_refusal c p \<noteq> None) subscribed);
          m1 = run_steps (\<lambda>m c. deliver_to d p c m) m takers
      in if takers \<noteq> []
         then (\<lparr>rp_status = 202, rp_body = StatusBody ''accepted'', rp_outcome = ''accepted''\<rparr>, m1)
         else (acknowledged (hd refusals)
                 (if hd refusals = own_write_status then ''self'' else ''ignored''), m1))"

definition route ::
  "'c lru \<Rightarrow> delivery \<Rightarrow> 's provider \<Rightarrow> payload \<Rightarrow> 's consumer list \<Rightarrow> ('s, 'c) hooks
   \<Rightarrow> reply \<times> ('s, 'c) hooks" where
  "route lru d pv p consumers s =
     (if dl_event d = pv_ping_event pv then (acknowledged ''pong'' ''ignored'', s)
      else let subscribed = filter (\<lambda>c. dl_event d \<in> set (cs_events c)) consumers
           in if subscribed = [] then (acknowledged ''no_subscriber'' ''no_subscriber'', s)
              else case check_and_add lru (dl_id d) (hk_seen s) of
                     (True, c) \<Rightarrow> (acknowledged ''duplicate'' ''ignored'', s\<lparr>hk_seen := c\<rparr>)
                   | (False, c) \<Rightarrow>
                       (let (r, m) = hand_to_consumers d p subscribed (hk_manager s)
                        in (r, s\<lparr>hk_seen := c, hk_manager := m\<rparr>)))"

definition read_and_route ::
  "environment \<Rightarrow> 'c lru \<Rightarrow> request \<Rightarrow> 's provider \<Rightarrow> 's consumer list \<Rightarrow> delivery \<Rightarrow> ('s, 'c) hooks
   \<Rightarrow> reply \<times> ('s, 'c) hooks" where
  "read_and_route env lru rq pv consumers d s =
     (case read_capped_body rq of
        None \<Rightarrow> (rejected 413 ''payload too large'', s)
      | Some body \<Rightarrow>
          (case authenticated_payload env rq pv s body of
             Inl r \<Rightarrow> (r, s)
           | Inr p \<Rightarrow> route lru d pv p consumers s))"

section \<open>The handler\<close>

definition declared_events :: "'s provider \<Rightarrow> 's consumer list \<Rightarrow> string list" where
  "declared_events pv consumers =
     pv_ping_event pv # concat (map cs_events (filter (\<lambda>c. cs_provider c = pv_name pv) consumers))"

definition conclude ::
  "'s provider \<Rightarrow> string list \<Rightarrow> delivery \<Rightarrow> string \<Rightarrow> ('s, 'c) hooks \<Rightarrow> ('s, 'c) hooks" where
  "conclude pv declared d outcome s =
     s\<lparr>hk_concluded := hk_concluded s @
         [(pv_name pv, if dl_event d \<in> set declared then dl_event d else ''other'', outcome)]\<rparr>"

definition delivery_outcomes :: "string list" where
  "delivery_outcomes = [''accepted'', ''ignored'', ''rejected'', ''no_subscriber'', ''self'']"

definition delivery_label_sets :: "'s provider \<Rightarrow> 's consumer list \<Rightarrow> (string \<times> string \<times> string) list" where
  "delivery_label_sets pv consumers =
     [(pv_name pv, event, outcome). event \<leftarrow> declared_events pv consumers @ [''other''],
        outcome \<leftarrow> delivery_outcomes]"

definition delivery_of :: "'s provider \<Rightarrow> request \<Rightarrow> delivery" where
  "delivery_of pv rq =
     \<lparr>dl_event = (if pv_event_header pv \<noteq> [] then header_or_empty rq (pv_event_header pv) else []),
      dl_id = (if pv_delivery_header pv \<noteq> [] then header_or_empty rq (pv_delivery_header pv) else [])\<rparr>"

definition receive ::
  "environment \<Rightarrow> 'c lru \<Rightarrow> 's provider \<Rightarrow> 's consumer list \<Rightarrow> request \<Rightarrow> ('s, 'c) hooks
   \<Rightarrow> (py_error + reply) \<times> ('s, 'c) hooks" where
  \<comment> \<open>An error leaves the handler: the framework answers 500, and nothing is concluded.\<close>
  "receive env lru pv consumers rq s =
     (let taking = filter (\<lambda>c. cs_provider c = pv_name pv) consumers;
          declared = declared_events pv consumers;
          d = delivery_of pv rq
      in case refuse_before_reading env rq pv s d of
           Inl e \<Rightarrow> (Inl e, s)
         | Inr (Some r) \<Rightarrow> (Inr r, conclude pv declared d (rp_outcome r) s)
         | Inr None \<Rightarrow>
             (case pv_responder pv of
                Some respond \<Rightarrow>
                  (case read_capped_body rq of
                     None \<Rightarrow> (let r = rejected 413 ''payload too large''
                              in (Inr r, conclude pv declared d (rp_outcome r) s))
                   | Some body \<Rightarrow>
                       (Inr \<lparr>rp_status = 200, rp_body = ChatBody (respond body (hk_manager s)),
                             rp_outcome = ''accepted''\<rparr>,
                        conclude pv declared d ''accepted'' s))
              | None \<Rightarrow>
                  (let (r, s1) = read_and_route env lru rq pv taking d s
                   in (Inr r, conclude pv declared d (rp_outcome r) s1))))"

end
