(* ===== verification/WebhookProps.thy ===== *)
theory WebhookProps
  imports Webhook
begin

text \<open>
  Properties of the webhook router: only a delivery signed with the secret of the managed repository
  it names changes what the Service does; a delivery id acts once; the size cap is exact; the bot's own
  writes start nothing; each delivery counts once, under a declared label.
\<close>

section \<open>The size cap\<close>

lemma read_chunks_eq:
  "read_chunks cs acc n =
     (if cs \<noteq> [] \<and> max_body_bytes < n + int (length (concat cs)) then None else Some (concat acc @ concat cs))"
proof (induction cs arbitrary: acc n)
  case (Cons c cs)
  show ?case by (cases "cs = []") (auto simp: Cons.IH Let_def)
qed simp

lemma read_capped_body_eq:
  "read_capped_body rq =
     (if max_body_bytes < int (length (concat (rq_chunks rq))) then None else Some (concat (rq_chunks rq)))"
proof (cases "rq_chunks rq = []")
  case True
  then show ?thesis by (simp add: read_capped_body_def max_body_bytes_def)
next
  case False
  then show ?thesis by (simp add: read_capped_body_def read_chunks_eq)
qed

lemma digits_fold_bounds:
  assumes "list_all is_digit s" and "0 \<le> a"
  shows "a * 10 ^ length s \<le> foldl (\<lambda>acc c. 10 * acc + digit_val c) a s"
  using assms
proof (induction s arbitrary: a)
  case (Cons c s)
  have d: "0 \<le> digit_val c" using Cons.prems by (simp add: digit_val_def is_digit_def Let_def)
  have "a * 10 ^ length (c # s) \<le> (10 * a + digit_val c) * 10 ^ length s"
    using d by (simp add: algebra_simps)
  also have "\<dots> \<le> foldl (\<lambda>acc c. 10 * acc + digit_val c) (10 * a + digit_val c) s"
    using Cons d by auto
  finally show ?case by simp
qed simp

lemma digits_val_all: "list_all is_digit s \<Longrightarrow> digits_val s = foldl (\<lambda>acc c. 10 * acc + digit_val c) 0 s"
  by (simp add: digits_val_def filter_id_conv list_all_iff)

lemma drop_zeros:
  "foldl (\<lambda>acc c. 10 * acc + digit_val c) 0 (dropWhile (\<lambda>c. c = CHR ''0'') s) =
   foldl (\<lambda>acc c. 10 * acc + digit_val c) 0 s"
  by (induction s) (auto simp: digit_val_def)

lemma zero_char: "of_char c = (48 :: nat) \<Longrightarrow> c = CHR ''0''"
proof -
  assume *: "of_char c = (48 :: nat)"
  have "c = char_of (of_char c :: nat)" by (simp only: char_of_char)
  also have "\<dots> = CHR ''0''" unfolding * by code_simp
  finally show ?thesis .
qed

lemma list_all_dropWhile: "list_all P s \<Longrightarrow> list_all P (dropWhile Q s)"
  by (induction s) auto

text \<open>
  The size cap is exact. A \<open>Content-Length\<close> counts as above the cap exactly when it is a
  decimal number greater than the cap, however many digits or leading zeros it has, although the code
  converts only short numbers; and the body read in chunks is the whole body when it is within the cap,
  and none otherwise.
\<close>

theorem size_cap_is_exact:
  "declares_more_than_the_cap declared =
     (declared \<noteq> [] \<and> list_all is_digit declared \<and> max_body_bytes < digits_val declared)
   \<and> read_capped_body rq =
     (if max_body_bytes < int (length (concat (rq_chunks rq))) then None else Some (concat (rq_chunks rq)))"
proof -
  let ?sig = "dropWhile (\<lambda>c. c = CHR ''0'') declared"
  have "declares_more_than_the_cap declared = (max_body_bytes < digits_val declared)"
    if "declared \<noteq> []" and all: "list_all is_digit declared"
  proof (cases ?sig)
    case Nil
    then have "digits_val declared = 0"
      using digits_val_all [OF all] drop_zeros [of declared, unfolded Nil] by simp
    moreover have "\<not> declares_more_than_the_cap declared"
      unfolding declares_more_than_the_cap_def Nil
      by (simp add: max_body_bytes_def digits_val_def digit_val_def is_digit_def)
    ultimately show ?thesis by (simp add: max_body_bytes_def)
  next
    case (Cons c s)
    have sig: "list_all is_digit ?sig" by (rule list_all_dropWhile [OF all])
    have val: "digits_val declared = digits_val ?sig"
      using digits_val_all [OF all] digits_val_all [OF sig] drop_zeros by simp
    have "c \<noteq> CHR ''0''" using hd_dropWhile [of "\<lambda>c. c = CHR ''0''" declared] Cons by simp
    then have "of_char c \<noteq> (48 :: nat)" using zero_char by metis
    moreover have "is_digit c" using sig Cons by simp
    ultimately have first: "1 \<le> digit_val c" by (simp add: is_digit_def digit_val_def Let_def)
    have long: "max_body_bytes < digits_val ?sig" if "8 < length ?sig"
    proof -
      have "10 ^ 8 \<le> (10 :: int) ^ length s" using that Cons by (intro power_increasing) auto
      also have "\<dots> \<le> digit_val c * 10 ^ length s" using first by simp
      also have "\<dots> \<le> digits_val ?sig"
        using digits_fold_bounds [of s "digit_val c"] digits_val_all [OF sig] sig first Cons by simp
      finally show ?thesis by (simp add: max_body_bytes_def)
    qed
    show ?thesis using that val long Cons by (auto simp: declares_more_than_the_cap_def Let_def)
  qed
  then show ?thesis
    by (auto simp: read_capped_body_eq declares_more_than_the_cap_def)
qed

section \<open>Only signed deliveries act\<close>

lemma signers_iff:
  "(repo \<in> set (signers env pre body signature secrets)) =
     (\<exists>secret. (repo, secret) \<in> set secrets \<and> hmac_verify env pre body signature secret)"
  by (force simp: signers_def)

lemma hmac_verify_iff:
  "hmac_verify env pre body signature secret =
     (secret \<noteq> [] \<and> (\<exists>sig. signature = Some sig \<and> sig \<noteq> [] \<and> sig = pre @ en_mac env secret body))"
  by (cases signature) (auto simp: hmac_verify_def falsy_def prefix_def)

lemma authenticated_iff:
  "authenticated_payload env rq pv s body = Inr p \<longleftrightarrow>
     (\<exists>h pre secret sig. pv_verifier pv = HmacSha256 h pre \<and> header_of rq h = Some sig \<and> sig \<noteq> []
        \<and> sig = pre @ en_mac env secret body \<and> secret \<noteq> [] \<and> (pl_repo p, secret) \<in> set (hk_secrets s)
        \<and> pl_repo p \<in> set (mg_repos (hk_manager s)) \<and> en_validate env body = Inr p)"
proof (cases "pv_verifier pv")
  case (HmacSha256 h pre)
  have "signers env pre body (header_of rq h) (hk_secrets s) \<noteq> []"
    if "pl_repo p \<in> set (signers env pre body (header_of rq h) (hk_secrets s))"
    using that by (metis list.set_cases neq_Nil_conv)
  then show ?thesis
    using signers_iff [of "pl_repo p" env pre body "header_of rq h" "hk_secrets s"] HmacSha256
    by (auto simp: authenticated_payload_def Let_def hmac_verify_iff split: sum.split)
qed (simp add: authenticated_payload_def)

lemma conclude_fields [simp]:
  "hk_manager (conclude pv ds d out s) = hk_manager s" "hk_seen (conclude pv ds d out s) = hk_seen s"
  "hk_secrets (conclude pv ds d out s) = hk_secrets s" "hk_token (conclude pv ds d out s) = hk_token s"
  by (simp_all add: conclude_def)

text \<open>Either the handler only concludes, or an authenticated payload is routed.\<close>

lemma receive_cases:
  obtains (quiet) "hk_manager (snd (receive env lru pv consumers rq s)) = hk_manager s"
    "hk_seen (snd (receive env lru pv consumers rq s)) = hk_seen s"
    "\<And>r. fst (receive env lru pv consumers rq s) = Inr r \<Longrightarrow> rp_status r \<noteq> 202"
  | (routed) p where "pv_responder pv = None"
    "refuse_before_reading env rq pv s (delivery_of pv rq) = Inr None"
    "read_capped_body rq = Some (concat (rq_chunks rq))"
    "authenticated_payload env rq pv s (concat (rq_chunks rq)) = Inr p"
    "receive env lru pv consumers rq s =
       (let (r, s1) = route lru (delivery_of pv rq) pv p (filter (\<lambda>c. cs_provider c = pv_name pv) consumers) s
        in (Inr r, conclude pv (declared_events pv consumers) (delivery_of pv rq) (rp_outcome r) s1))"
proof (cases "refuse_before_reading env rq pv s (delivery_of pv rq)")
  case (Inl e)
  then show ?thesis by (intro quiet) (simp_all add: receive_def)
next
  case (Inr refusal)
  have bad: "rp_status r \<noteq> 202" if "refusal = Some r" for r
    using Inr that by (auto simp: refuse_before_reading_def refuse_content_type_def refuse_verifier_def
        rejected_def Let_def split: if_splits verifier.splits sum.splits option.splits prod.splits)
  show ?thesis
  proof (cases refusal)
    case (Some r)
    then show ?thesis using Inr bad by (intro quiet) (auto simp: receive_def Let_def)
  next
    case None
    show ?thesis
    proof (cases "pv_responder pv")
      case (Some respond)
      then show ?thesis using Inr None
        by (intro quiet) (auto simp: receive_def Let_def rejected_def split: option.splits)
    next
      case no_responder: None
      show ?thesis
      proof (cases "\<exists>p. read_capped_body rq \<noteq> None
          \<and> authenticated_payload env rq pv s (concat (rq_chunks rq)) = Inr p")
        case True
        then obtain p where "read_capped_body rq = Some (concat (rq_chunks rq))"
          and "authenticated_payload env rq pv s (concat (rq_chunks rq)) = Inr p"
          by (auto simp: read_capped_body_eq split: if_splits)
        then show ?thesis using Inr None no_responder
          by (intro routed) (auto simp: receive_def read_and_route_def Let_def)
      next
        case False
        have "rp_status r \<noteq> 202" if "authenticated_payload env rq pv s b = Inl r" for r b
          using that by (auto simp: authenticated_payload_def rejected_def Let_def
              split: verifier.splits if_splits sum.splits)
        then show ?thesis using False Inr None no_responder
          by (intro quiet; cases "authenticated_payload env rq pv s (concat (rq_chunks rq))")
            (auto simp: receive_def read_and_route_def Let_def read_capped_body_eq rejected_def
              split: if_splits)
      qed
    qed
  qed
qed

text \<open>
  C2: Only a signed delivery acts. When a delivery changes anything the Service does, its signature
  header is the digest of the whole body under the configured, non-empty secret of the very repository the
  body names, that repository is managed, the body validates and is within the size cap, and the Service
  is not draining.
\<close>

theorem only_signed_deliveries_act:
  assumes "hk_manager (snd (receive env lru pv consumers rq s)) \<noteq> hk_manager s"
  shows "\<exists>h pre secret payload.
      pv_verifier pv = HmacSha256 h pre
    \<and> header_of rq h = Some (pre @ en_mac env secret (concat (rq_chunks rq)))
    \<and> secret \<noteq> [] \<and> (pl_repo payload, secret) \<in> set (hk_secrets s)
    \<and> pl_repo payload \<in> set (mg_repos (hk_manager s))
    \<and> en_validate env (concat (rq_chunks rq)) = Inr payload
    \<and> int (length (concat (rq_chunks rq))) \<le> max_body_bytes
    \<and> \<not> mg_draining (hk_manager s)"
proof (cases rule: receive_cases [of env lru pv consumers rq s])
  case quiet
  then show ?thesis using assms by simp
next
  case (routed p)
  have "int (length (concat (rq_chunks rq))) \<le> max_body_bytes" "\<not> mg_draining (hk_manager s)"
    using routed(2,3) by (auto simp: read_capped_body_eq refuse_before_reading_def split: if_splits)
  with routed(4) show ?thesis unfolding authenticated_iff by blast
qed

section \<open>A delivery id acts once\<close>

text \<open>What the router relies on of the cache: \<open>keys\<close> lists its ids, the most recent first.\<close>

definition lru_laws :: "'c lru \<Rightarrow> nat \<Rightarrow> ('c \<Rightarrow> string list) \<Rightarrow> bool" where
  "lru_laws lru cap keys =
     (0 < cap
      \<and> (\<forall>k c. fst (lru_get lru k c) = (k \<in> set (keys c))
            \<and> keys (snd (lru_get lru k c)) =
                (if k \<in> set (keys c) then k # removeAll k (keys c) else keys c))
      \<and> (\<forall>k c. k \<notin> set (keys c) \<longrightarrow> keys (lru_put lru k c) = take cap (k # keys c)))"

lemma take_removeAll: "d \<in> set (take n xs) \<Longrightarrow> d \<noteq> k \<Longrightarrow> d \<in> set (take n (removeAll k xs))"
proof (induction xs arbitrary: n)
  case (Cons x xs)
  show ?case
  proof (cases n)
    case (Suc m)
    then show ?thesis using Cons set_take_subset_set_take [of m "Suc m" "removeAll k xs"] by auto
  qed (use Cons.prems in simp)
qed simp

lemma check_and_add_keys:
  assumes "lru_laws lru cap keys"
  shows "keys (snd (check_and_add lru k c)) =
      (if k \<in> set (keys c) then k # removeAll k (keys c) else take cap (k # keys c))"
    and "fst (check_and_add lru k c) = (k \<in> set (keys c))"
  using assms unfolding lru_laws_def check_and_add_def
  by (auto split: prod.splits bool.splits) (metis fst_conv snd_conv)+

lemma check_and_add_recent:
  assumes "lru_laws lru cap keys" and "d \<in> set (take n (keys c))" and "n < cap"
  shows "d \<in> set (take (Suc n) (keys (snd (check_and_add lru k c))))"
proof (cases "k \<in> set (keys c) \<and> d \<noteq> k")
  case True
  then show ?thesis using take_removeAll [OF assms(2), of k] by (simp add: check_and_add_keys [OF assms(1)])
next
  case False
  have "min n (cap - Suc 0) = n" using assms(3) by linarith
  then show ?thesis using False assms(2,3)
    by (cases cap) (auto simp: check_and_add_keys [OF assms(1)] min_def)
qed

datatype ('s) hook_event =
    Request "'s provider" request
  | Elsewhere "'s manager \<Rightarrow> 's manager"

fun hook_step ::
  "environment \<Rightarrow> 'c lru \<Rightarrow> 's consumer list \<Rightarrow> ('s, 'c) hooks \<Rightarrow> 's hook_event \<Rightarrow> ('s, 'c) hooks" where
  "hook_step env lru consumers s (Request pv rq) = snd (receive env lru pv consumers rq s)"
| "hook_step env lru consumers s (Elsewhere f) = s\<lparr>hk_manager := f (hk_manager s)\<rparr>"

fun is_request :: "'s hook_event \<Rightarrow> bool" where
  "is_request (Request _ _) = True"
| "is_request (Elsewhere _) = False"

lemma route_seen:
  "hk_seen (snd (route lru d pv p consumers s)) = hk_seen s
   \<or> hk_seen (snd (route lru d pv p consumers s)) = snd (check_and_add lru (dl_id d) (hk_seen s))"
  by (auto simp: route_def Let_def split: prod.split bool.split)

lemma receive_seen:
  "\<exists>k. hk_seen (snd (receive env lru pv consumers rq s)) \<in> {hk_seen s, snd (check_and_add lru k (hk_seen s))}"
proof (cases rule: receive_cases [of env lru pv consumers rq s])
  case (routed p)
  show ?thesis unfolding routed(5)
    using route_seen [of lru "delivery_of pv rq" pv p "filter (\<lambda>c. cs_provider c = pv_name pv) consumers" s]
    by (auto simp: Let_def split: prod.splits)
qed auto

lemma seen_stays:
  assumes "lru_laws lru cap keys"
    and "d \<in> set (take n (keys (hk_seen s)))" and "n + length (filter is_request evs) \<le> cap"
  shows "d \<in> set (keys (hk_seen (run_steps (hook_step env lru consumers) s evs)))"
  using assms(2,3)
proof (induction evs arbitrary: n s)
  case Nil
  then show ?case using set_take_subset by fastforce
next
  case (Cons ev evs)
  show ?case
  proof (cases ev)
    case (Request pv rq)
    have "d \<in> set (take (Suc n) (keys (hk_seen (hook_step env lru consumers s ev))))"
      using receive_seen [of env lru pv consumers rq s] check_and_add_recent [OF assms(1) Cons.prems(1)]
        Cons.prems Request set_take_subset_set_take [of n "Suc n" "keys (hk_seen s)"]
      by (auto; fastforce)
    then show ?thesis using Cons Request by simp
  next
    case (Elsewhere f)
    then show ?thesis using Cons by simp
  qed
qed

text \<open>
  A delivery id acts once. After a delivery was accepted, any delivery with the same id, whatever
  its body and signature, changes nothing the Service does, as long as fewer deliveries than the cache's
  capacity were received in between, with whatever else happened to the Service meanwhile.
\<close>

theorem repeated_delivery_does_nothing:
  assumes "lru_laws lru cap keys"
    and "fst (receive env lru pv consumers rq s) = Inr r" and "rp_status r = 202"
    and "s1 = run_steps (hook_step env lru consumers) (snd (receive env lru pv consumers rq s)) evs"
    and "length (filter is_request evs) < cap"
    and "dl_id (delivery_of pv' rq') = dl_id (delivery_of pv rq)"
  shows "hk_manager (snd (receive env lru pv' consumers rq' s1)) = hk_manager s1"
proof -
  let ?d = "dl_id (delivery_of pv rq)"
  have "?d \<in> set (take 1 (keys (hk_seen (snd (receive env lru pv consumers rq s)))))"
  proof (cases rule: receive_cases [of env lru pv consumers rq s])
    case quiet
    then show ?thesis using assms(2,3) by auto
  next
    case (routed p)
    let ?cs = "filter (\<lambda>c. cs_provider c = pv_name pv) consumers"
    have "rp_status (fst (route lru (delivery_of pv rq) pv p ?cs s)) = 202"
      using assms(2,3) routed(5) by (auto simp: Let_def split: prod.splits)
    then have "hk_seen (snd (route lru (delivery_of pv rq) pv p ?cs s)) =
        snd (check_and_add lru ?d (hk_seen s)) \<and> \<not> fst (check_and_add lru ?d (hk_seen s))"
      by (auto simp: route_def Let_def acknowledged_def split: prod.splits if_splits bool.splits)
    then show ?thesis unfolding routed(5)
      using check_and_add_keys [OF assms(1)] assms(1)
      by (cases cap) (auto simp: Let_def lru_laws_def split: prod.splits)
  qed
  then have seen: "?d \<in> set (keys (hk_seen s1))"
    unfolding assms(4) by (rule seen_stays [OF assms(1)]) (use assms(5) in simp)
  show ?thesis
  proof (cases rule: receive_cases [of env lru pv' consumers rq' s1])
    case (routed p)
    have "fst (check_and_add lru ?d (hk_seen s1))" using seen check_and_add_keys [OF assms(1)] by simp
    then show ?thesis unfolding routed(5)
      using assms(6) by (auto simp: route_def Let_def split: prod.splits bool.splits)
  qed
qed

section \<open>A concrete router\<close>

text \<open>A cache that is a list of ids, and a Service of one repository with two lanes.\<close>

definition list_lru :: "nat \<Rightarrow> string list lru" where
  "list_lru cap =
     \<lparr>lru_get = (\<lambda>k c. (k \<in> set c, if k \<in> set c then k # removeAll k c else c)),
      lru_put = (\<lambda>k c. take cap (k # c))\<rparr>"

lemma list_lru_laws: "0 < cap \<Longrightarrow> lru_laws (list_lru cap) cap (\<lambda>c. c)"
  by (simp add: lru_laws_def list_lru_def)

definition sample_payload :: payload where
  "sample_payload = \<lparr>pl_action = Some ''opened'', pl_repo = ''o/r'', pl_sender = Some ''ann'',
     pl_issue = Some (Some 7)\<rparr>"

definition sample_environment :: environment where
  "sample_environment = \<lparr>en_mac = (\<lambda>secret body. secret @ ''-'' @ body),
     en_scheme_param = (\<lambda>h. (takeWhile (\<lambda>c. c \<noteq> CHR '' '') h, tl (dropWhile (\<lambda>c. c \<noteq> CHR '' '') h))),
     en_validate = (\<lambda>b. if b = ''opened'' then Inr sample_payload
        else if b = ''own'' then Inr (sample_payload\<lparr>pl_sender := Some ''App[bot]''\<rparr>)
        else Inl [([''repository''], ''missing'')]),
     en_chat_args = (\<lambda>b. Some [''status''])\<rparr>"

definition sample_hooks :: "(scoped_delivery, string list) hooks" where
  "sample_hooks = \<lparr>hk_manager =
       \<lparr>mg_repos = [''o/r''], mg_lanes = [''status'', ''triage''],
        mg_workers = [((''o/r'', ''status''), new_worker ''o/r'' ''status''),
                      ((''o/r'', ''triage''), new_worker ''o/r'' ''triage'')],
        mg_pause = sample_pause, mg_budget = sample_budget, mg_poll_seconds = 300, mg_gated = True,
        mg_stop = False, mg_ready = True, mg_draining = False, mg_polls_counted = [],
        mg_clock = (\<lambda>n. of_nat n), mg_ticks = 0\<rparr>,
     hk_secrets = [(''o/r'', ''key'')], hk_token = Some ''word'', hk_seen = [], hk_concluded = []\<rparr>"

definition sample_request :: "string \<Rightarrow> request" where
  "sample_request body = \<lparr>rq_headers = [(''Content-Type'', ''application/json''),
       (''X-GitHub-Event'', ''issues''), (''X-GitHub-Delivery'', ''d-1''),
       (''X-Hub-Signature-256'', ''sha256=key-'' @ body)],
     rq_chunks = [body]\<rparr>"

abbreviation sample_receive where
  "sample_receive body \<equiv> receive sample_environment (list_lru 2) github_provider
     [roadmap_consumer (Some ''app[bot]'')] (sample_request body)"

lemma sample_accepted:
  "case sample_receive ''opened'' sample_hooks of
     (r, s) \<Rightarrow> r = Inr \<lparr>rp_status = 202, rp_body = StatusBody ''accepted'', rp_outcome = ''accepted''\<rparr>
       \<and> map (pending_triggers \<circ> snd) (mg_workers (hk_manager s)) = [0, 1]"
  by code_simp

lemma sample_pending: "map (pending_triggers \<circ> snd) (mg_workers (hk_manager sample_hooks)) = [0, 0]"
  by code_simp

lemma only_signed_deliveries_act_witness:
  "\<exists>h pre secret payload.
      pv_verifier (github_provider :: scoped_delivery provider) = HmacSha256 h pre
    \<and> header_of (sample_request ''opened'') h = Some (pre @ en_mac sample_environment secret ''opened'')
    \<and> (pl_repo (payload :: payload), secret) \<in> set (hk_secrets sample_hooks)"
proof -
  have "hk_manager (snd (sample_receive ''opened'' sample_hooks)) \<noteq> hk_manager sample_hooks"
    using sample_accepted sample_pending by (auto split: prod.splits)
  from only_signed_deliveries_act [OF this] obtain h pre secret payload where
    "pv_verifier (github_provider :: scoped_delivery provider) = HmacSha256 h pre"
    "header_of (sample_request ''opened'') h =
       Some (pre @ en_mac sample_environment secret (concat (rq_chunks (sample_request ''opened''))))"
    "(pl_repo (payload :: payload), secret) \<in> set (hk_secrets sample_hooks)" by blast
  moreover have "concat (rq_chunks (sample_request ''opened'')) = ''opened''" by code_simp
  ultimately show ?thesis by auto
qed

lemma repeated_delivery_does_nothing_witness:
  "hk_manager (snd (sample_receive ''own'' (snd (sample_receive ''opened'' sample_hooks))))
     = hk_manager (snd (sample_receive ''opened'' sample_hooks))
   \<and> map (pending_triggers \<circ> snd) (mg_workers (hk_manager (snd (sample_receive ''opened'' sample_hooks)))) = [0, 1]"
proof -
  obtain r where "fst (sample_receive ''opened'' sample_hooks) = Inr r" and "rp_status r = 202"
    using sample_accepted by (auto split: prod.splits)
  moreover have "dl_id (delivery_of github_provider (sample_request ''own'')) =
      dl_id (delivery_of github_provider (sample_request ''opened''))" by code_simp
  ultimately have "hk_manager (snd (sample_receive ''own'' (snd (sample_receive ''opened'' sample_hooks))))
     = hk_manager (snd (sample_receive ''opened'' sample_hooks))"
    by (intro repeated_delivery_does_nothing [OF list_lru_laws, where evs = "[]" and rq = "sample_request ''opened''"
        and s = sample_hooks and r = r]) simp_all
  then show ?thesis using sample_accepted by (auto split: prod.splits)
qed

section \<open>The roadmap's deliveries\<close>

lemma github_fields:
  "pv_responder github_provider = None" "pv_name github_provider = ''github''"
  by (simp_all add: github_provider_def)

lemma enqueue_scoped_result:
  "manager_enqueue_scoped repo lane f m =
     (if repo \<in> set (mg_repos m) \<and> dict_get (mg_workers m) (repo, lane) \<noteq> None
      then (True, m\<lparr>mg_workers := dict_set (repo, lane)
                      (enqueue_scoped f (the (dict_get (mg_workers m) (repo, lane)))) (mg_workers m)\<rparr>)
      else (False, m))"
  by (simp add: manager_enqueue_scoped_def split: option.split)

text \<open>
  A signed issue event reaches the work of its repository. An undrained Service that receives a
  new, signed delivery of an \<open>issues\<close> event for a managed repository, not by its own bot, answers
  202; an opened, edited or reopened issue with a number is queued once as a scoped task on the
  repository's triage lane, and any other such event, or one without that lane, is queued as a
  trigger on each lane.
\<close>

theorem signed_issue_event_is_queued:
  fixes s :: "(scoped_delivery, 'c) hooks"
  assumes "\<not> mg_draining (hk_manager s)"
    and "prefix ''application/json'' (header_or_empty rq ''content-type'')"
    and "\<not> declares_more_than_the_cap (header_or_empty rq ''content-length'')"
    and "body = concat (rq_chunks rq)" and "int (length body) \<le> max_body_bytes"
    and "header_of rq ''X-GitHub-Event'' = Some ''issues''"
    and "header_of rq ''X-GitHub-Delivery'' = Some delivery_id" and "delivery_id \<noteq> []"
    and "header_of rq ''X-Hub-Signature-256'' = Some (''sha256='' @ en_mac env secret body)"
    and "en_validate env body = Inr p" and "(pl_repo p, secret) \<in> set (hk_secrets s)" and "secret \<noteq> []"
    and "pl_repo p \<in> set (mg_repos (hk_manager s))"
    and "refuse_own_write login p = None"
    and "fst (lru_get lru delivery_id (hk_seen s)) = False"
    and "m = hk_manager s" and "repo = pl_repo p"
    and "action = (case pl_action p of None \<Rightarrow> [] | Some a \<Rightarrow> a)"
  shows "\<exists>r s1. receive env lru github_provider [roadmap_consumer login] rq s = (Inr r, s1) \<and> rp_status r = 202
    \<and> hk_manager s1 =
       (case (dict_get (mg_workers m) (repo, ''triage''), pl_issue p) of
          (Some w, Some (Some n)) \<Rightarrow>
            if action \<in> {''opened'', ''edited'', ''reopened''}
            then m\<lparr>mg_workers := dict_set (repo, ''triage'')
                     (enqueue_scoped \<lparr>sd_repo = repo, sd_event = ''issues'', sd_action = action, sd_number = n\<rparr> w)
                     (mg_workers m)\<rparr>
            else enqueue_lanes (mg_lanes m) repo (''webhook'', ''issues'', action) m
        | _ \<Rightarrow> enqueue_lanes (mg_lanes m) repo (''webhook'', ''issues'', action) m)"
proof -
  let ?pv = "github_provider :: scoped_delivery provider"
  let ?cs = "[roadmap_consumer login]"
  let ?d = "\<lparr>dl_event = ''issues'', dl_id = delivery_id\<rparr>"
  have d: "delivery_of ?pv rq = ?d"
    using assms(6,7) by (simp add: delivery_of_def github_provider_def header_or_empty_def)
  have "refuse_before_reading env rq ?pv s ?d = Inr None"
    using assms(1-3,8,9)
    by (simp add: refuse_before_reading_def refuse_content_type_def refuse_verifier_def github_provider_def falsy_def)
  moreover have "read_capped_body rq = Some body" using assms(4,5) by (simp add: read_capped_body_eq)
  moreover have "authenticated_payload env rq ?pv s body = Inr p"
    unfolding authenticated_iff using assms(9-13) by (auto simp: github_provider_def)
  ultimately have received: "receive env lru ?pv ?cs rq s =
      (let (r, s1) = route lru ?d ?pv p ?cs s
       in (Inr r, conclude ?pv (declared_events ?pv ?cs) ?d (rp_outcome r) s1))"
    by (simp add: receive_def d read_and_route_def github_fields roadmap_consumer_def Let_def)
  obtain c1 where "lru_get lru delivery_id (hk_seen s) = (False, c1)"
    using assms(15) by (metis prod.collapse)
  then have routed: "route lru ?d ?pv p ?cs s =
      (\<lparr>rp_status = 202, rp_body = StatusBody ''accepted'', rp_outcome = ''accepted''\<rparr>,
       s\<lparr>hk_seen := lru_put lru delivery_id c1, hk_manager := roadmap_deliver repo ''issues'' action p m\<rparr>)"
    using assms(14,16-18)
    by (simp add: route_def github_provider_def roadmap_consumer_def roadmap_webhook_events_def check_and_add_def
        hand_to_consumers_def deliver_to_def)
  have "repo \<in> set (mg_repos m)" using assms(13,16,17) by simp
  then have "roadmap_deliver repo ''issues'' action p m =
       (case (dict_get (mg_workers m) (repo, ''triage''), pl_issue p) of
          (Some w, Some (Some n)) \<Rightarrow>
            if action \<in> {''opened'', ''edited'', ''reopened''}
            then m\<lparr>mg_workers := dict_set (repo, ''triage'')
                     (enqueue_scoped \<lparr>sd_repo = repo, sd_event = ''issues'', sd_action = action, sd_number = n\<rparr> w)
                     (mg_workers m)\<rparr>
            else enqueue_lanes (mg_lanes m) repo (''webhook'', ''issues'', action) m
        | _ \<Rightarrow> enqueue_lanes (mg_lanes m) repo (''webhook'', ''issues'', action) m)"
    by (auto simp: roadmap_deliver_def scoped_lane_def enqueue_scoped_result enqueue_trigger_def split: option.split)
  then show ?thesis unfolding received routed by simp
qed

lemma signed_issue_event_is_queued_witness:
  "\<exists>r s1. sample_receive ''opened'' sample_hooks = (Inr r, s1) \<and> rp_status r = 202"
proof -
  let ?rq = "sample_request ''opened''"
  have refusals: "\<not> mg_draining (hk_manager sample_hooks)"
    "prefix ''application/json'' (header_or_empty ?rq ''content-type'')"
    "\<not> declares_more_than_the_cap (header_or_empty ?rq ''content-length'')" by code_simp+
  have body: "''opened'' = concat (rq_chunks ?rq)" "int (length ''opened'') \<le> max_body_bytes" by code_simp+
  have headers: "header_of ?rq ''X-GitHub-Event'' = Some ''issues''"
    "header_of ?rq ''X-GitHub-Delivery'' = Some ''d-1''" "''d-1'' \<noteq> []"
    "header_of ?rq ''X-Hub-Signature-256'' = Some (''sha256='' @ en_mac sample_environment ''key'' ''opened'')"
    by code_simp+
  have payload: "en_validate sample_environment ''opened'' = Inr sample_payload"
    by (simp add: sample_environment_def)
  have repo: "(pl_repo sample_payload, ''key'') \<in> set (hk_secrets sample_hooks)" "''key'' \<noteq> []"
    "pl_repo sample_payload \<in> set (mg_repos (hk_manager sample_hooks))"
    "refuse_own_write (Some ''app[bot]'') sample_payload = None"
    "fst (lru_get (list_lru 2) ''d-1'' (hk_seen sample_hooks)) = False" by code_simp+
  from signed_issue_event_is_queued [OF refusals body headers payload repo refl refl refl]
  show ?thesis by blast
qed

text \<open>
  The bot's own writes start nothing. A delivery whose payload names the GitHub App's bot as its
  sender, in any spelling of its case, leaves the work of the Service as it was, so a write of the
  Service cannot trigger the Service again.
\<close>

theorem own_writes_start_nothing:
  assumes "en_validate env (concat (rq_chunks rq)) = Inr p"
    and "pl_sender p = Some login" and "lower login = lower bot_login" and "bot_login \<noteq> []"
  shows "hk_manager (snd (receive env lru pv [roadmap_consumer (Some bot_login)] rq s)) = hk_manager s"
proof (cases rule: receive_cases [of env lru pv "[roadmap_consumer (Some bot_login)]" rq s])
  case (routed q)
  have "q = p" using routed(4) assms(1) unfolding authenticated_iff by (elim exE conjE) simp
  moreover have "refuse_own_write (Some bot_login) p = Some own_write_status"
    using assms(2-4) by (simp add: refuse_own_write_def falsy_def)
  ultimately show ?thesis unfolding routed(5)
    by (auto simp: route_def Let_def hand_to_consumers_def roadmap_consumer_def
        split: prod.splits if_splits bool.splits)
qed

lemma own_writes_start_nothing_witness:
  "hk_manager (snd (sample_receive ''own'' sample_hooks)) = hk_manager sample_hooks"
  by (rule own_writes_start_nothing [where p = "sample_payload\<lparr>pl_sender := Some ''App[bot]''\<rparr>"
        and login = "''App[bot]''"]) code_simp+

section \<open>Counts\<close>

lemma refusal_outcome:
  "refuse_before_reading env rq pv s d = Inr (Some r) \<Longrightarrow> rp_outcome r = ''rejected''"
  by (auto simp: refuse_before_reading_def refuse_content_type_def refuse_verifier_def
      rejected_def Let_def split: if_splits verifier.splits sum.splits option.splits prod.splits)

lemma routed_outcome: "rp_outcome (fst (read_and_route env lru rq pv cs d s)) \<in> set delivery_outcomes"
  by (auto simp: read_and_route_def authenticated_payload_def rejected_def route_def acknowledged_def
      hand_to_consumers_def delivery_outcomes_def Let_def
      split: option.split sum.split verifier.split prod.split bool.split)

lemma routed_concluded: "hk_concluded (snd (read_and_route env lru rq pv cs d s)) = hk_concluded s"
  by (auto simp: read_and_route_def route_def Let_def split: option.split sum.split prod.split bool.split)

lemma label_declared:
  "outcome \<in> set delivery_outcomes \<Longrightarrow>
   (pv_name pv, if dl_event d \<in> set (declared_events pv cs) then dl_event d else ''other'', outcome)
     \<in> set (delivery_label_sets pv cs)"
  by (auto simp: delivery_label_sets_def)

text \<open>
  Each answered delivery counts exactly once, under a label set that the Service declared when
  its routes were built: whatever event name a sender makes up, it cannot add a series to the metrics.
\<close>

theorem deliveries_count_once:
  "\<exists>labels. hk_concluded (snd (receive env lru pv consumers rq s)) = hk_concluded s @ labels
     \<and> set labels \<subseteq> set (delivery_label_sets pv consumers)
     \<and> length labels = (case fst (receive env lru pv consumers rq s) of Inl _ \<Rightarrow> 0 | Inr _ \<Rightarrow> 1)"
proof (cases "refuse_before_reading env rq pv s (delivery_of pv rq)")
  case (Inl e)
  then show ?thesis by (simp add: receive_def)
next
  case (Inr refusal)
  let ?cs = "filter (\<lambda>c. cs_provider c = pv_name pv) consumers"
  show ?thesis
  proof (cases refusal)
    case (Some r)
    then show ?thesis using Inr refusal_outcome [of env rq pv s "delivery_of pv rq" r]
        label_declared [of "''rejected''" pv "delivery_of pv rq" consumers]
      by (simp add: receive_def conclude_def delivery_outcomes_def Let_def)
  next
    case None
    show ?thesis
    proof (cases "pv_responder pv")
      case (Some respond)
      then show ?thesis using Inr None
          label_declared [of "''rejected''" pv "delivery_of pv rq" consumers]
          label_declared [of "''accepted''" pv "delivery_of pv rq" consumers]
        by (simp add: receive_def conclude_def delivery_outcomes_def rejected_def Let_def split: option.split)
    next
      case no_responder: None
      obtain r s1 where routed: "read_and_route env lru rq pv ?cs (delivery_of pv rq) s = (r, s1)"
        by (metis prod.exhaust)
      then show ?thesis using Inr None no_responder
          routed_concluded [of env lru rq pv ?cs "delivery_of pv rq" s]
          label_declared [OF routed_outcome [of env lru rq pv ?cs "delivery_of pv rq" s],
            of pv "delivery_of pv rq" consumers]
        by (simp add: receive_def conclude_def Let_def)
    qed
  qed
qed

text \<open>
  A chat token that is not ASCII fails the request instead of refusing it: although every other
  wrong token is answered 401 and counted as rejected, one with any other character raises
  in the comparison, so the sender is answered with an error of the server and nothing is counted.
\<close>

theorem token_outside_ascii_raises:
  fixes s :: "('s, 'c) hooks"
  assumes "\<not> mg_draining (hk_manager s)"
    and "prefix ''application/x-www-form-urlencoded'' (header_or_empty rq ''content-type'')"
    and "header_of rq ''authorization'' = Some auth" and "auth \<noteq> []"
    and "en_scheme_param env auth = (scheme, tok)" and "lower scheme = ''token'' " and "tok \<noteq> []"
    and "hk_token s = Some expected" and "expected \<noteq> []" and "tok \<noteq> expected"
  shows "(if is_ascii tok \<and> is_ascii expected
      then (\<exists>r s1. receive env lru (mattermost_provider env) consumers rq s = (Inr r, s1)
              \<and> rp_status r = 401 \<and> length (hk_concluded s1) = length (hk_concluded s) + 1)
      else receive env lru (mattermost_provider env) consumers rq s = (Inl TypeError, s))"
proof -
  let ?pv = "mattermost_provider env :: 's provider"
  have "lower ''Token'' = ''token''" by code_simp
  then have "refuse_verifier env rq ?pv (hk_token s) d =
      (if is_ascii tok \<and> is_ascii expected then Inr (Some (rejected 401 ''invalid token'')) else Inl TypeError)" for d
    using assms by (simp add: refuse_verifier_def mattermost_provider_def falsy_def compare_digest_def)
  moreover have "refuse_content_type rq ?pv = None"
    using assms(2) by (simp add: refuse_content_type_def mattermost_provider_def)
  ultimately show ?thesis using assms(1)
    by (simp add: receive_def refuse_before_reading_def rejected_def conclude_def Let_def)
qed

definition chat_request :: "string \<Rightarrow> request" where
  "chat_request tok = \<lparr>rq_headers = [(''Content-Type'', ''application/x-www-form-urlencoded''),
       (''Authorization'', ''Token '' @ tok)], rq_chunks = []\<rparr>"

lemma token_outside_ascii_raises_witness:
  "receive sample_environment (list_lru 2) (mattermost_provider sample_environment) []
     (chat_request [char_of (233 :: nat)]) sample_hooks = (Inl TypeError, sample_hooks)"
proof -
  let ?rq = "chat_request [char_of (233 :: nat)]"
  have "\<not> is_ascii [char_of (233 :: nat)]" by code_simp
  moreover have "prefix ''application/x-www-form-urlencoded'' (header_or_empty ?rq ''content-type'')" by code_simp
  moreover have "header_of ?rq ''authorization'' = Some (''Token '' @ [char_of (233 :: nat)])" by code_simp
  moreover have "en_scheme_param sample_environment (''Token '' @ [char_of (233 :: nat)]) =
      (''Token'', [char_of (233 :: nat)])" by code_simp
  moreover have "\<not> mg_draining (hk_manager sample_hooks) \<and> hk_token sample_hooks = Some ''word''" by code_simp
  moreover have "lower ''Token'' = ''token'' \<and> [char_of (233 :: nat)] \<noteq> ''word''" by code_simp
  ultimately show ?thesis
    using token_outside_ascii_raises [of sample_hooks ?rq "''Token '' @ [char_of (233 :: nat)]"
        sample_environment "''Token''" "[char_of (233 :: nat)]" "''word''" "list_lru 2" "[]"]
    by (simp del: char_of_def)
qed

end
