(* ===== verification/Session.thy ===== *)
theory Session
  imports BudgetProps
begin

text \<open>
  The GitHub session's REST transport, \<^verbatim>\<open>src/devops_cli/github/session_transport.py\<close>: an attempt
  paced on the identity's ledger, sent with a fresh token, sent again when its connection is lost,
  and what its failure waits. The HTTP client is the environment: a stream of what each sent request
  came to, as are the tokens. gidgethub's own loop over attempts is not modelled; the hook
  it calls after each failed attempt is.
\<close>

section \<open>The environment\<close>

record http_answer =
  ha_status :: int
  ha_headers :: "(string, string) dict"
  ha_body :: string

datatype sent_result =
    Answered http_answer
  | Lost
  | NotConnected

text \<open>What an attempt raises: a lost connection, another failure of the client, or an error raised here.\<close>

datatype attempt_error = LostConnection | ClientFailure | Raised_here gh_error

text \<open>
  What the transport is given: the gate and its refund, the reading of a command and of a URL's path, and
  the quota an answer's headers report.
\<close>

record 'g channel =
  ch_gate :: "'g gate"
  ch_refund :: "'g \<Rightarrow> 'g"
  ch_argv :: argv_reader
  ch_path :: "string \<Rightarrow> string"
  ch_quota :: "(string, string) dict \<Rightarrow> py_error + (int \<times> int \<times> instant) option"

record 'g session =
  ss_gate :: 'g
  ss_limiter :: limiter
  ss_sent :: "(string \<times> string \<times> string) list"
  ss_results :: "nat \<Rightarrow> sent_result"
  ss_tokens :: "nat \<Rightarrow> gh_error + string"
  ss_token_reads :: nat
  ss_slept :: "seconds list"

section \<open>The origin\<close>

definition api_origin :: "string \<times> string \<times> int" where
  "api_origin = (''https'', ''api.github.com'', 443)"

definition refuse_other_origins :: "string \<times> string \<times> int \<Rightarrow> gh_error + unit" where
  "refuse_other_origins origin = (if origin = api_origin then Inr () else Inl UnreadError)"

section \<open>Pacing and charging\<close>

definition gh_api_command :: "'g channel \<Rightarrow> string \<Rightarrow> string list" where
  "gh_api_command ch url = [''api'', ch_path ch url]"

definition pace_request ::
  "'g channel \<Rightarrow> string \<Rightarrow> string \<Rightarrow> 'g session \<Rightarrow> (gh_error + string \<times> bool) \<times> 'g session" where
  \<comment> \<open>The flag: whether the attempt is paced, and so counted.\<close>
  "pace_request ch method url s =
     (let command = gh_api_command ch url; resource = gh_request_resource (ch_argv ch) command
      in if \<not> gh_request_is_paced command then (Inr (resource, False), s)
         else case acquire (ch_gate ch) resource None (is_write method (ch_path ch url)) 1
                     (ss_gate s, ss_limiter s) of
                (r, g, l) \<Rightarrow>
                  (case r of Inl e \<Rightarrow> Inl e | Inr _ \<Rightarrow> Inr (resource, True),
                   s\<lparr>ss_gate := g, ss_limiter := l\<rparr>))"

definition charge_response ::
  "'g channel \<Rightarrow> (string, string) dict \<Rightarrow> string \<Rightarrow> limiter \<Rightarrow> (py_error + unit) \<times> limiter" where
  "charge_response ch headers resource l =
     (case ch_quota ch headers of
        Inl e \<Rightarrow> (Inl e, l)
      | Inr None \<Rightarrow> (Inr (), l)
      | Inr (Some (remaining, limit, reset)) \<Rightarrow>
          (let named = dict_get headers ''x-ratelimit-resource''
           in update_quota (if falsy named then resource else the named) remaining (Some reset)
                (Some limit) None l))"

section \<open>What is sent again\<close>

definition max_retries :: nat where
  "max_retries = 2"

definition server_error_retry_floor :: seconds where
  "server_error_retry_floor = 1"

definition is_retried :: "http_failure \<Rightarrow> string \<Rightarrow> string \<Rightarrow> bool" where
  "is_retried e method path =
     (if is_rate_limited e then True else is_server_error e \<and> \<not> is_write method path)"

definition retry_after_seconds :: "http_failure \<Rightarrow> limiter \<Rightarrow> seconds option \<times> limiter" where
  "retry_after_seconds e l =
     (case dict_get (hf_headers e) retry_after_header of
        None \<Rightarrow> (None, l)
      | Some value \<Rightarrow> parse_retry_after value l)"

definition retry_wait ::
  "'g channel \<Rightarrow> http_failure \<Rightarrow> string \<Rightarrow> string \<Rightarrow> nat \<Rightarrow> limiter
   \<Rightarrow> (gh_error + seconds option) \<times> limiter" where
  "retry_wait ch e method url attempt l =
     (let resource = gh_request_resource (ch_argv ch) (gh_api_command ch url);
          rate_limited = is_rate_limited e; sent_again = (attempt \<le> max_retries)
      in if \<not> is_retried e method (ch_path ch url) then (Inr None, l)
         else if \<not> (sent_again \<or> rate_limited) then (Inr None, l)
         else let (after, l1) = retry_after_seconds e l
              in case retry_delay after resource
                        (if rate_limited then None else Some server_error_retry_floor) l1 of
                   (Inl x, l2) \<Rightarrow> (Inl x, l2)
                 | (Inr wait, l2) \<Rightarrow>
                     (let l3 = (if rate_limited then hold_requests wait l2 else l2)
                      in if \<not> sent_again then (Inr None, l3)
                         else (Inr (Some wait), record_throttle wait l3)))"

definition lost_connection_wait ::
  "'g channel \<Rightarrow> string \<Rightarrow> string \<Rightarrow> nat \<Rightarrow> limiter \<Rightarrow> (gh_error + seconds option) \<times> limiter" where
  "lost_connection_wait ch method url attempt l =
     (if method \<noteq> ''GET'' \<or> max_retries < attempt then (Inr None, l)
      else case retry_delay None (gh_request_resource (ch_argv ch) (gh_api_command ch url))
                  (Some server_error_retry_floor) l of
             (Inl x, l1) \<Rightarrow> (Inl x, l1)
           | (Inr wait, l1) \<Rightarrow> (Inr (Some wait), record_throttle wait l1))"

section \<open>One attempt\<close>

definition read_token :: "'g session \<Rightarrow> (gh_error + string) \<times> 'g session" where
  "read_token s = (ss_tokens s (ss_token_reads s), s\<lparr>ss_token_reads := Suc (ss_token_reads s)\<rparr>)"

definition send_once :: "string \<Rightarrow> string \<Rightarrow> string \<Rightarrow> 'g session \<Rightarrow> sent_result \<times> 'g session" where
  "send_once method url tok s =
     (ss_results s (length (ss_sent s)), s\<lparr>ss_sent := ss_sent s @ [(method, url, ''token '' @ tok)]\<rparr>)"

definition attempt_of ::
  "'g channel \<Rightarrow> string \<Rightarrow> string \<Rightarrow> 'g session \<Rightarrow> (attempt_error + http_answer) \<times> 'g session" where
  \<comment> \<open>The token is read anew, then the request is sent.\<close>
  "attempt_of ch method url s =
     (case read_token s of
        (Inl e, s1) \<Rightarrow> (Inl (Raised_here e), s1)
      | (Inr tok, s1) \<Rightarrow>
          (case send_once method url tok s1 of
             (Answered a, s2) \<Rightarrow> (Inr a, s2)
           | (Lost, s2) \<Rightarrow> (Inl LostConnection, s2)
           | (NotConnected, s2) \<Rightarrow> (Inl ClientFailure, s2)))"

definition count_attempt :: "'g channel \<Rightarrow> bool \<Rightarrow> int option \<Rightarrow> 'g session \<Rightarrow> 'g session" where
  "count_attempt ch paced status s =
     (if paced then s\<lparr>ss_gate := count_request (ch_refund ch) status (ss_gate s)\<rparr> else s)"

definition resend_after_lost ::
  "'g channel \<Rightarrow> string \<Rightarrow> string \<Rightarrow> nat \<Rightarrow> 'g session \<Rightarrow> (gh_error + bool) \<times> 'g session" where
  "resend_after_lost ch method url attempt s =
     (case lost_connection_wait ch method url attempt (ss_limiter s) of
        (Inl e, l) \<Rightarrow> (Inl e, s\<lparr>ss_limiter := l\<rparr>)
      | (Inr None, l) \<Rightarrow> (Inr False, s\<lparr>ss_limiter := l\<rparr>)
      | (Inr (Some wait), l) \<Rightarrow> (Inr True, s\<lparr>ss_limiter := l, ss_slept := ss_slept s @ [wait]\<rparr>))"

definition settle_answer ::
  "'g channel \<Rightarrow> string \<Rightarrow> http_answer \<Rightarrow> 'g session \<Rightarrow> (attempt_error + http_answer) \<times> 'g session" where
  "settle_answer ch resource a s =
     (case charge_response ch (ha_headers a) resource (ss_limiter s) of
        (Inl e, l) \<Rightarrow> (Inl (Raised_here (PyError e)), s\<lparr>ss_limiter := l\<rparr>)
      | (Inr _, l) \<Rightarrow> (Inr a, s\<lparr>ss_limiter := l\<rparr>))"

lemma resend_bound: "resend_after_lost ch method url attempt s = (Inr True, s1) \<Longrightarrow> attempt \<le> max_retries"
  by (auto simp: resend_after_lost_def lost_connection_wait_def split: if_splits)

text \<open>
  \<open>_request\<close>: the loop over the sends of one attempt. It ends because a lost GET is sent again at
  most \<open>max_retries\<close> times.
\<close>

function session_request ::
  "'g channel \<Rightarrow> string \<Rightarrow> string \<Rightarrow> nat \<Rightarrow> 'g session \<Rightarrow> (attempt_error + http_answer) \<times> 'g session" where
  "session_request ch method url attempt s =
     (case pace_request ch method url s of
        (Inl e, s1) \<Rightarrow> (Inl (Raised_here e), s1)
      | (Inr (resource, paced), s1) \<Rightarrow>
          (case attempt_of ch method url s1 of
             (Inr a, s2) \<Rightarrow>
               settle_answer ch resource a (count_attempt ch paced (Some (ha_status a)) s2)
           | (Inl LostConnection, s2) \<Rightarrow>
               (case resend_after_lost ch method url attempt s2 of
                  (Inl e, s3) \<Rightarrow> (Inl (Raised_here e), count_attempt ch paced None s3)
                | (Inr False, s3) \<Rightarrow> (Inl LostConnection, count_attempt ch paced None s3)
                | (Inr True, s3) \<Rightarrow>
                    session_request ch method url (Suc attempt) (count_attempt ch paced None s3))
           | (Inl e, s2) \<Rightarrow> (Inl e, count_attempt ch paced None s2)))"
  by pat_completeness auto

termination
  by (relation "measure (\<lambda>(ch, method, url, attempt, s). Suc max_retries - attempt)")
    (auto dest: resend_bound [OF sym] resend_bound)

definition handle_rate_limit_error ::
  "'g channel \<Rightarrow> http_failure \<Rightarrow> string \<Rightarrow> string \<Rightarrow> nat \<Rightarrow> 'g session \<Rightarrow> (gh_error + bool) \<times> 'g session" where
  "handle_rate_limit_error ch e method url attempt s =
     (case retry_wait ch e method url attempt (ss_limiter s) of
        (Inl x, l) \<Rightarrow> (Inl x, s\<lparr>ss_limiter := l\<rparr>)
      | (Inr None, l) \<Rightarrow> (Inr False, s\<lparr>ss_limiter := l\<rparr>)
      | (Inr (Some wait), l) \<Rightarrow> (Inr True, s\<lparr>ss_limiter := l, ss_slept := ss_slept s @ [wait]\<rparr>))"

section \<open>Pages of a listing\<close>

definition listed_items :: "json \<Rightarrow> string option \<Rightarrow> gh_error + json list" where
  "listed_items answer iterable_key =
     (case (case iterable_key of None \<Rightarrow> answer | Some k \<Rightarrow> jget answer k) of
        JArr items \<Rightarrow> Inr items
      | _ \<Rightarrow> Inl UnreadError)"

text \<open>The answers kept for conditional requests: for a URL, the body and the link to the next page.\<close>

type_synonym stored = "(string, json \<times> string option) dict"

definition forget_last_page :: "string \<Rightarrow> stored \<Rightarrow> stored" where
  "forget_last_page url kept =
     (case dict_get kept url of Some (_, None) \<Rightarrow> dict_del url kept | _ \<Rightarrow> kept)"

definition read_page ::
  "(string \<Rightarrow> stored \<Rightarrow> (gh_error + json \<times> string option) \<times> stored) \<Rightarrow> string \<Rightarrow> string option
   \<Rightarrow> stored \<Rightarrow> (gh_error + json list \<times> string option) \<times> stored" where
  \<comment> \<open>\<open>exchange\<close>: one GET of the URL, which may use and fill the kept answers.\<close>
  "read_page exchange url iterable_key kept =
     (case exchange url (forget_last_page url kept) of
        (Inl e, kept1) \<Rightarrow> (Inl e, kept1)
      | (Inr (answer, link), kept1) \<Rightarrow>
          (case listed_items answer iterable_key of
             Inl e \<Rightarrow> (Inl e, forget_last_page url kept1)
           | Inr items \<Rightarrow>
               (Inr (items, if items \<noteq> [] then link else None), forget_last_page url kept1)))"

end
