(* ===== verification/SessionProps.thy ===== *)
theory SessionProps
  imports Session
begin

text \<open>
  Properties of the session's transport: how often a request is sent, that each send is paced on the
  identity's ledger, that a write whose outcome is unknown is not sent again, and that a rate limit
  holds the identity.
\<close>

section \<open>What the steps of an attempt keep\<close>

lemma pace_request_keeps [simp]:
  "ss_sent (snd (pace_request ch verb url s)) = ss_sent s"
  "ss_slept (snd (pace_request ch verb url s)) = ss_slept s"
  by (simp_all add: pace_request_def flow split: sum.split)

lemma count_attempt_keeps [simp]:
  "ss_sent (count_attempt ch paced st s) = ss_sent s" "ss_slept (count_attempt ch paced st s) = ss_slept s"
  "ss_limiter (count_attempt ch paced st s) = ss_limiter s"
  by (simp_all add: count_attempt_def)

lemma settle_answer_keeps [simp]:
  "ss_sent (snd (settle_answer ch k a s)) = ss_sent s" "ss_slept (snd (settle_answer ch k a s)) = ss_slept s"
  by (simp_all add: settle_answer_def flow split: sum.split)

lemma resend_keeps [simp]:
  "ss_sent (snd (resend_after_lost ch verb url a s)) = ss_sent s"
  by (simp add: resend_after_lost_def flow split: sum.split option.split)

lemma resend_slept:
  "resend_after_lost ch verb url a s = (Inr True, s1) \<Longrightarrow> length (ss_slept s1) = Suc (length (ss_slept s))"
  "resend_after_lost ch verb url a s = (Inr False, s1) \<Longrightarrow> ss_slept s1 = ss_slept s"
  "resend_after_lost ch verb url a s = (Inl e, s1) \<Longrightarrow> ss_slept s1 = ss_slept s"
  by (auto simp: resend_after_lost_def split: prod.splits sum.splits option.splits)

lemma resend_answer:
  "resend_after_lost ch verb url a s = (Inr True, s1) \<Longrightarrow> verb = ''GET''"
  "resend_after_lost ch verb url a s = (Inr False, s1) \<Longrightarrow> verb \<noteq> ''GET'' \<or> max_retries < a"
  by (auto simp: resend_after_lost_def lost_connection_wait_def split: prod.splits sum.splits if_splits)

lemma attempt_keeps:
  "attempt_of ch verb url s = (r, s1) \<Longrightarrow> ss_slept s1 = ss_slept s \<and> ss_limiter s1 = ss_limiter s
     \<and> length (ss_sent s1) \<le> Suc (length (ss_sent s))
     \<and> (r = Inl LostConnection \<longrightarrow> length (ss_sent s1) = Suc (length (ss_sent s)))"
  by (auto simp: attempt_of_def read_token_def send_once_def split: sum.splits sent_result.splits prod.splits)

declare session_request.simps [simp del]

lemma request_cases:
  obtains (refused) e s1 where "pace_request ch verb url s = (Inl e, s1)"
    "session_request ch verb url a s = (Inl (Raised_here e), s1)"
  | (answered) k p s1 an s2 where "pace_request ch verb url s = (Inr (k, p), s1)"
    "attempt_of ch verb url s1 = (Inr an, s2)"
    "session_request ch verb url a s =
       settle_answer ch k an (count_attempt ch p (Some (ha_status an)) s2)"
  | (failed) k p s1 e s2 where "pace_request ch verb url s = (Inr (k, p), s1)"
    "attempt_of ch verb url s1 = (Inl e, s2)" "e \<noteq> LostConnection"
    "session_request ch verb url a s = (Inl e, count_attempt ch p None s2)"
  | (lost) k p s1 s2 r s3 where "pace_request ch verb url s = (Inr (k, p), s1)"
    "attempt_of ch verb url s1 = (Inl LostConnection, s2)"
    "resend_after_lost ch verb url a s2 = (r, s3)" "r \<noteq> Inr True"
    "session_request ch verb url a s =
       (Inl (case r of Inl e \<Rightarrow> Raised_here e | Inr _ \<Rightarrow> LostConnection), count_attempt ch p None s3)"
  | (again) k p s1 s2 s3 where "pace_request ch verb url s = (Inr (k, p), s1)"
    "attempt_of ch verb url s1 = (Inl LostConnection, s2)"
    "resend_after_lost ch verb url a s2 = (Inr True, s3)"
    "session_request ch verb url a s = session_request ch verb url (Suc a) (count_attempt ch p None s3)"
proof (cases "pace_request ch verb url s")
  case (Pair r s1)
  show ?thesis
  proof (cases r)
    case (Inl e)
    then show ?thesis using Pair by (intro refused) (auto simp: session_request.simps [of ch verb url a s])
  next
    case (Inr kp)
    obtain k p where kp: "kp = (k, p)" by (cases kp)
    obtain r2 s2 where at: "attempt_of ch verb url s1 = (r2, s2)" by (metis prod.exhaust)
    note step = session_request.simps [of ch verb url a s]
    show ?thesis
    proof (cases r2)
      case (Inr an)
      then show ?thesis using Pair \<open>r = Inr kp\<close> kp at by (intro answered) (auto simp: step)
    next
      case (Inl e)
      show ?thesis
      proof (cases "e = LostConnection")
        case False
        then show ?thesis using Pair \<open>r = Inr kp\<close> kp at Inl
          by (intro failed) (auto simp: step split: attempt_error.split)
      next
        case True
        obtain r3 s3 where re: "resend_after_lost ch verb url a s2 = (r3, s3)" by (metis prod.exhaust)
        show ?thesis
        proof (cases "r3 = Inr True")
          case yes: True
          then show ?thesis using Pair \<open>r = Inr kp\<close> kp at Inl True re by (intro again) (auto simp: step)
        next
          case no: False
          then show ?thesis using Pair \<open>r = Inr kp\<close> kp at Inl True re
            by (intro lost) (auto simp: step split: sum.split bool.split)
        qed
      qed
    qed
  qed
qed

section \<open>How often a request is sent\<close>

definition sends_left :: "string \<Rightarrow> nat \<Rightarrow> nat" where
  "sends_left verb a = (if verb = ''GET'' then Suc (max_retries + 1 - a) else 1)"

lemma sends_left:
  "1 \<le> sends_left verb a"
  "verb = ''GET'' \<Longrightarrow> a \<le> max_retries \<Longrightarrow> sends_left verb a = Suc (sends_left verb (Suc a))"
  "verb \<noteq> ''GET'' \<or> max_retries < a \<Longrightarrow> sends_left verb a = 1"
  by (auto simp: sends_left_def)

lemma sends_bound:
  assumes "session_request ch verb url a s = (r, s1)"
  shows "length (ss_sent s1) \<le> length (ss_sent s) + sends_left verb a
   \<and> (r = Inl LostConnection \<longrightarrow> length (ss_sent s) + sends_left verb a \<le> length (ss_sent s1))
   \<and> length (ss_sent s1) + length (ss_slept s) \<le> length (ss_slept s1) + Suc (length (ss_sent s))"
  using assms
proof (induction "max_retries + 1 - a" arbitrary: a s rule: less_induct)
  case less
  have kept: "ss_sent s2 = ss_sent s \<and> ss_slept s2 = ss_slept s"
    if "pace_request ch verb url s = (x, s2)" for x s2
    using pace_request_keeps [of ch verb url s] that by simp
  note room = sends_left(1) [of verb a]
  show ?case
  proof (cases rule: request_cases [of ch verb url s a])
    case (refused e s2)
    then show ?thesis using less.prems kept [OF refused(1)] by simp
  next
    case (answered k p s2 an s3)
    have "fst (settle_answer ch k an s') \<noteq> Inl LostConnection" for s'
      by (simp add: settle_answer_def flow split: sum.split)
    then have "r \<noteq> Inl LostConnection" using less.prems answered(3) by (metis fst_conv)
    moreover have "ss_sent s1 = ss_sent s3" "ss_slept s1 = ss_slept s3"
      using less.prems answered(3)
        settle_answer_keeps [of ch k an "count_attempt ch p (Some (ha_status an)) s3"] by simp_all
    ultimately show ?thesis using kept [OF answered(1)] attempt_keeps [OF answered(2)] room by simp
  next
    case (failed k p s2 e s3)
    then show ?thesis using less.prems kept [OF failed(1)] attempt_keeps [OF failed(2)] room by auto
  next
    case (lost k p s2 s3 r' s4)
    have same: "ss_sent s4 = ss_sent s3" using resend_keeps [of ch verb url a s3] lost(3) by simp
    have slept: "ss_slept s4 = ss_slept s3"
      using resend_slept(2,3) [of ch verb url a s3] lost(3,4) by (cases r') auto
    have last: "sends_left verb a = 1" if "r = Inl LostConnection"
    proof -
      have "r' = Inr False" using that less.prems lost(4,5) by (cases r') auto
      then have "resend_after_lost ch verb url a s3 = (Inr False, s4)" using lost(3) by simp
      then show ?thesis by (rule sends_left(3) [OF resend_answer(2)])
    qed
    have "ss_sent s1 = ss_sent s4" "ss_slept s1 = ss_slept s4" using less.prems lost(5) by auto
    then show ?thesis using same slept last room kept [OF lost(1)] attempt_keeps [OF lost(2)] by simp
  next
    case (again k p s2 s3 s4)
    have a: "sends_left verb a = Suc (sends_left verb (Suc a))"
      by (rule sends_left(2) [OF resend_answer(1) [OF again(3)] resend_bound [OF again(3)]])
    have "length (ss_slept s4) = Suc (length (ss_slept s3))" "ss_sent s4 = ss_sent s3"
      using resend_keeps [of ch verb url a s3] resend_slept(1) [OF again(3)] again(3) by simp_all
    moreover have "max_retries + 1 - Suc a < max_retries + 1 - a" using resend_bound [OF again(3)] by simp
    note less(1) [OF this, of "count_attempt ch p None s4"]
    ultimately show ?thesis
      using a again(4) less.prems kept [OF again(1)] attempt_keeps [OF again(2)] by simp
  qed
qed

text \<open>
  An attempt of the session ends after a bounded number of sends: a GET is sent at most three
  times and anything else once, and it ends with its connection lost only when all of these
  sends were lost. A send that follows another was waited for.
\<close>

theorem sends_of_an_attempt_are_bounded:
  fixes verb :: string
  defines "most \<equiv> if verb = ''GET'' then 3 else 1"
  assumes "session_request ch verb url 1 s = (r, s1)"
  shows "length (ss_sent s1) \<le> length (ss_sent s) + most
    \<and> (r = Inl LostConnection \<longrightarrow> length (ss_sent s1) = length (ss_sent s) + most)
    \<and> length (ss_sent s1) - length (ss_sent s) \<le> length (ss_slept s1) - length (ss_slept s) + 1"
  using sends_bound [OF assms(2)] by (auto simp: most_def sends_left_def max_retries_def)

section \<open>Each send is paced\<close>

lemma turn_lost_wait: "turn_part (snd (lost_connection_wait ch verb url a l)) = turn_part l"
  using turn_rest [OF rest_retry [of None "gh_request_resource (ch_argv ch) (gh_api_command ch url)"
      "Some server_error_retry_floor" l]]
  by (simp add: lost_connection_wait_def flow split: sum.split)

lemma paced_resend: "paced_total (ss_limiter (snd (resend_after_lost ch verb url a s))) = paced_total (ss_limiter s)"
  using turn_fields(5) [OF turn_lost_wait [of ch verb url a "ss_limiter s"]]
  by (simp add: resend_after_lost_def paced_total_def flow split: sum.split option.split)

lemma paced_settle: "paced_total (ss_limiter (snd (settle_answer ch k an s))) = paced_total (ss_limiter s)"
  using turn_fields(5) [OF turn_schedule [OF schedule_update_quota]]
  by (simp add: settle_answer_def charge_response_def paced_total_def flow split: sum.split option.split)

lemma paced_acquire:
  "paced_total (snd w) \<le> paced_total (snd (snd (acquire gate k None m c w)))
   \<and> (isl (fst (acquire gate k None m c w)) \<or>
      paced_total (snd (snd (acquire gate k None m c w))) = paced_total (snd w) + 1)"
proof -
  let ?l = "(snd w)\<lparr>l_paced := dict_set k (get_or 0 (l_paced (snd w)) k + 1) (l_paced (snd w))\<rparr>"
  have "paced_total (snd (acquire_locked k m c ?l)) = paced_total (snd w) + 1"
    using kept_paced [of k m c ?l] sum_values_set [of k "l_paced (snd w)" 1] by (simp add: paced_total_def)
  then show ?thesis
    by (auto simp: acquire_def falsy_def paced_total_def Let_def split: prod.split sum.split)
qed

lemma paced_pace:
  assumes "gh_request_is_paced (gh_api_command ch url)"
  shows "pace_request ch verb url s = (Inr kp, s1) \<Longrightarrow>
      paced_total (ss_limiter s1) = paced_total (ss_limiter s) + 1"
    and "pace_request ch verb url s = (Inl e, s1) \<Longrightarrow>
      paced_total (ss_limiter s) \<le> paced_total (ss_limiter s1)"
  using assms paced_acquire [of "(ss_gate s, ss_limiter s)" "ch_gate ch"
      "gh_request_resource (ch_argv ch) (gh_api_command ch url)" "is_write verb (ch_path ch url)" 1]
  by (auto simp: pace_request_def Let_def split: prod.splits sum.splits)

text \<open>
  No request leaves the session without its turn: of a path that is not exempt from pacing, each
  send, a send after a lost connection included, is counted as paced on the identity's ledger first.
\<close>

theorem each_send_is_paced:
  assumes "gh_request_is_paced (gh_api_command ch url)"
  shows "int (length (ss_sent (snd (session_request ch verb url a s)))) - int (length (ss_sent s))
    \<le> paced_total (ss_limiter (snd (session_request ch verb url a s))) - paced_total (ss_limiter s)"
proof (induction "max_retries + 1 - a" arbitrary: a s rule: less_induct)
  case less
  show ?case
  proof (cases rule: request_cases [of ch verb url s a])
    case (refused e s1)
    then show ?thesis
      using paced_pace(2) [OF assms refused(1)] pace_request_keeps(1) [of ch verb url s] by simp
  next
    case (answered k p s1 an s2)
    then show ?thesis using paced_pace(1) [OF assms answered(1)] attempt_keeps [OF answered(2)]
        pace_request_keeps(1) [of ch verb url s] by (simp add: paced_settle)
  next
    case (failed k p s1 e s2)
    then show ?thesis using paced_pace(1) [OF assms failed(1)] attempt_keeps [OF failed(2)]
        pace_request_keeps(1) [of ch verb url s] by simp
  next
    case (lost k p s1 s2 r s3)
    then show ?thesis using paced_pace(1) [OF assms lost(1)] attempt_keeps [OF lost(2)]
        pace_request_keeps(1) [of ch verb url s] paced_resend [of ch verb url a s2]
        resend_keeps [of ch verb url a s2] by simp
  next
    case (again k p s1 s2 s3)
    have "max_retries + 1 - Suc a < max_retries + 1 - a" using resend_bound [OF again(3)] by simp
    from less [OF this, of "count_attempt ch p None s3"] show ?thesis
      using paced_pace(1) [OF assms again(1)] attempt_keeps [OF again(2)] again
        pace_request_keeps(1) [of ch verb url s] paced_resend [of ch verb url a s2]
        resend_keeps [of ch verb url a s2] by simp
  qed
qed

section \<open>What is not sent again, and what a rate limit holds\<close>

text \<open>
  C35: A write GitHub may have applied is not sent again. A request with a writing method whose answer
  is no rate limit, a failure of GitHub's servers included, is given up at once with no wait and no
  change; and within an attempt it is sent once at most, also when its connection is lost.
\<close>

theorem uncertain_writes_are_not_repeated:
  assumes "upper verb \<in> set mutation_http_methods" and "\<not> is_rate_limited e"
  shows "handle_rate_limit_error ch e verb url attempt s = (Inr False, s)
    \<and> length (ss_sent (snd (session_request ch verb url a s))) \<le> length (ss_sent s) + 1"
proof -
  have "upper ''GET'' = ''GET''" by code_simp
  then have "verb \<noteq> ''GET''" using assms(1) by (auto simp: mutation_http_methods_def)
  moreover have "is_write verb (ch_path ch url)" using assms(1) by (simp add: is_write_alt)
  moreover obtain r s1 where "session_request ch verb url a s = (r, s1)" by (metis prod.exhaust)
  note this and sends_bound [OF this]
  ultimately show ?thesis using assms(2)
    by (simp add: handle_rate_limit_error_def retry_wait_def is_retried_def sends_left_def)
qed

text \<open>
  A rate limit of the session holds the identity. Whatever the attempt, when a wait comes of the
  answer, every request of the identity is held until that wait ends; the request is sent again after
  it only for the first two attempts, and the last one's hold stands with nothing sent.
\<close>

theorem session_rate_limit_holds:
  assumes "retry_wait ch e verb url attempt l = (Inr w, l')" and "is_rate_limited e"
  shows "\<exists>d l2. fst (retry_delay (fst (retry_after_seconds e l))
        (gh_request_resource (ch_argv ch) (gh_api_command ch url)) None (snd (retry_after_seconds e l))) = Inr d
    \<and> l2 = snd (retry_delay (fst (retry_after_seconds e l))
        (gh_request_resource (ch_argv ch) (gh_api_command ch url)) None (snd (retry_after_seconds e l)))
    \<and> l_clock l2 (l_ticks l2) + d \<le> l_held_until l'
    \<and> w = (if attempt \<le> 2 then Some d else None)"
proof -
  have held: "l_held_until (record_throttle d s) = l_held_until s" for d s
    by (simp add: record_throttle_def persist_to_disk_def Let_def)
  show ?thesis using assms
    by (auto simp: retry_wait_def is_retried_def hold_requests_def tick_def held max_retries_def Let_def
        split: prod.splits sum.splits if_splits)
qed

text \<open>
  A listing's last page is never answered from what was kept: after a page is read, in whatever way
  the read ends short of a failed exchange, no kept answer for its URL lacks a next page, so the
  next read of that URL cannot miss a page added since; and the items handed out are the elements of a
  JSON array of the answer.
\<close>

theorem last_page_is_not_kept:
  assumes "read_page exchange url key kept = (r, kept1)"
    and "exchange url (forget_last_page url kept) = (Inr (answer, link), kept0)"
  shows "dict_get kept1 url \<noteq> Some (v, None)
    \<and> (case r of Inr (items, nxt) \<Rightarrow>
          (case key of None \<Rightarrow> answer | Some k \<Rightarrow> jget answer k) = JArr items
          \<and> (nxt = None \<or> items \<noteq> [] \<and> nxt = link)
       | Inl _ \<Rightarrow> \<not> (\<exists>items. (case key of None \<Rightarrow> answer | Some k \<Rightarrow> jget answer k) = JArr items))"
  using assms
  by (auto simp: read_page_def listed_items_def forget_last_page_def
      split: option.splits json.splits prod.splits if_splits sum.splits)

section \<open>A concrete session\<close>

definition sample_channel :: "budget channel" where
  "sample_channel = \<lparr>ch_gate = budget_gate [], ch_refund = refund, ch_argv = sample_reader,
     ch_path = (\<lambda>url. url), ch_quota = (\<lambda>_. Inr None)\<rparr>"

definition sample_session :: "budget session" where
  "sample_session = \<lparr>ss_gate = sample_budget\<lparr>b_limit := 5\<rparr>, ss_limiter = sample_limiter, ss_sent = [],
     ss_results = (\<lambda>_. Lost), ss_tokens = (\<lambda>_. Inr ''t''), ss_token_reads = 0, ss_slept = []\<rparr>"

definition limited_answer :: http_failure where
  "limited_answer = \<lparr>hf_class = RateLimitExceeded, hf_status = 429, hf_headers = [(''retry-after'', ''30'')]\<rparr>"

lemma sample_lost:
  "case session_request sample_channel ''GET'' ''repos/o/r'' 1 sample_session of
     (r, s1) \<Rightarrow> r = Inl LostConnection \<and> length (ss_sent s1) = 3"
  by code_simp

lemma sends_of_an_attempt_are_bounded_witness:
  "\<exists>s1. session_request sample_channel ''GET'' ''repos/o/r'' 1 sample_session = (Inl LostConnection, s1)
     \<and> length (ss_sent s1) = 3 \<and> 2 \<le> length (ss_slept s1)"
proof -
  obtain s1 where s1: "session_request sample_channel ''GET'' ''repos/o/r'' 1 sample_session = (Inl LostConnection, s1)"
    using sample_lost by (cases "session_request sample_channel ''GET'' ''repos/o/r'' 1 sample_session") auto
  from sends_of_an_attempt_are_bounded [OF s1] s1 show ?thesis by (simp add: sample_session_def)
qed

lemma each_send_is_paced_witness:
  "paced_total (ss_limiter sample_session) + 3
     \<le> paced_total (ss_limiter (snd (session_request sample_channel ''GET'' ''repos/o/r'' 1 sample_session)))"
proof -
  have "gh_request_is_paced (gh_api_command sample_channel ''repos/o/r'')" by code_simp
  from each_send_is_paced [OF this, of "''GET''" 1 sample_session] sample_lost show ?thesis
    by (auto simp: sample_session_def split: prod.splits)
qed

lemma uncertain_writes_are_not_repeated_witness:
  "handle_rate_limit_error sample_channel \<lparr>hf_class = GitHubBroken, hf_status = 502, hf_headers = []\<rparr>
     ''POST'' ''repos/o/r'' 1 sample_session = (Inr False, sample_session)"
proof -
  let ?e = "\<lparr>hf_class = GitHubBroken, hf_status = 502, hf_headers = []\<rparr>"
  have "upper ''POST'' \<in> set mutation_http_methods" "\<not> is_rate_limited ?e" by code_simp+
  from uncertain_writes_are_not_repeated [OF this] show ?thesis by blast
qed

lemma session_rate_limit_holds_witness:
  "\<exists>l'. retry_wait sample_channel limited_answer ''POST'' ''repos/o/r'' 3 sample_limiter = (Inr None, l')
     \<and> 130 \<le> l_held_until l'"
proof -
  have "fst (retry_wait sample_channel limited_answer ''POST'' ''repos/o/r'' 3 sample_limiter) = Inr None"
    by code_simp
  then obtain l' where l': "retry_wait sample_channel limited_answer ''POST'' ''repos/o/r'' 3 sample_limiter = (Inr None, l')"
    by (metis prod.collapse)
  have "is_rate_limited limited_answer" by code_simp
  moreover have after: "retry_after_seconds limited_answer sample_limiter = (Some 30, sample_limiter)"
  proof -
    have "float_of_text (strip ''30'') = Some 30" by code_simp
    then show ?thesis by (simp add: retry_after_seconds_def limited_answer_def retry_after_header_def parse_retry_after_def)
  qed
  moreover have "retry_delay (Some 30) k None sample_limiter = (Inr 30, sample_limiter)" for k
    by (simp add: retry_delay_def positive_def handle_retry_after_wait_def exceeds_def sample_limiter_def)
  ultimately show ?thesis
    using session_rate_limit_holds [OF l'] l' by (auto simp: sample_limiter_def)
qed

lemma last_page_is_not_kept_witness:
  "\<exists>r kept1. read_page (\<lambda>url kept. (Inr (JArr [JInt 1], None), dict_set url (JNull, None) kept)) ''u'' None [] = (r, kept1)
     \<and> dict_get kept1 ''u'' \<noteq> Some (JNull, None) \<and> r = Inr ([JInt 1], None)"
proof -
  let ?ex = "\<lambda>url kept. (Inr (JArr [JInt 1], None), dict_set url (JNull, None) kept)
     :: (gh_error + json \<times> string option) \<times> stored"
  have r: "read_page ?ex ''u'' None [] = (Inr ([JInt 1], None), [])" by code_simp
  have "?ex ''u'' (forget_last_page ''u'' []) = (Inr (JArr [JInt 1], None), [(''u'', (JNull, None))])"
    by code_simp
  from last_page_is_not_kept [OF r this, of JNull] r show ?thesis by auto
qed

end
