(* ===== verification/Ledger.thy ===== *)
theory Ledger
  imports ServiceProps
begin

text \<open>
  The errors of a round and the ledger of failed rounds of \<^verbatim>\<open>src/devops_cli/roadmap/run.py\<close>
  (class \<^verbatim>\<open>FailureLedger\<close>): how a chain or group of errors is read as a stop or as a refusal of
  the identity, and how often in a row a job may fail on one input. The ledger's methods hold its
  lock, so each is one function on its state, which includes the record file and which of its
  writes go through.
\<close>

section \<open>Errors of a round\<close>

text \<open>An error is its class and its cause; a group holds errors of its own. Messages are not modelled.\<close>

datatype exc_class =
    ServiceStopping
  | Unauthenticated
  | RunFailed
  | RefineFailed int  \<comment> \<open>the items the run set Ready before it failed\<close>
  | OtherClass string

datatype exc =
    Exc exc_class "exc option"
  | ExcGroup "exc list" "exc option"

fun class_name :: "exc \<Rightarrow> string" where
  "class_name (Exc ServiceStopping _) = ''ServiceStoppingError''"
| "class_name (Exc Unauthenticated _) = ''GitHubUnauthenticatedError''"
| "class_name (Exc RunFailed _) = ''RoadmapRunError''"
| "class_name (Exc (RefineFailed _) _) = ''RoadmapRefineError''"
| "class_name (Exc (OtherClass n) _) = n"
| "class_name (ExcGroup _ _) = ''ExceptionGroup''"

fun ended_by_stop :: "exc \<Rightarrow> bool" where
  "ended_by_stop (Exc c cause) =
     (if c = ServiceStopping then True
      else case cause of None \<Rightarrow> False | Some e \<Rightarrow> ended_by_stop e)"
| "ended_by_stop (ExcGroup subs cause) = list_all ended_by_stop subs"

fun is_group :: "exc \<Rightarrow> bool" where
  "is_group (ExcGroup _ _) = True"
| "is_group _ = False"

fun identity_refused :: "exc \<Rightarrow> bool" where
  \<comment> \<open>A run's error whose cause is a group is read by the group's members, as that cause is.\<close>
  "identity_refused (Exc c cause) =
     (case cause of
        None \<Rightarrow> c = Unauthenticated
      | Some e \<Rightarrow>
          if (c = RunFailed \<or> c = ServiceStopping) \<and> is_group e then identity_refused e
          else c = Unauthenticated \<or> identity_refused e)"
| "identity_refused (ExcGroup subs cause) = list_ex identity_refused subs"

section \<open>The ledger\<close>

type_synonym job_key = "string \<times> string"

type_synonym kept_round = "string \<times> string \<times> nat \<times> string \<times> string list option"

record ledger =
  fl_limit :: nat
  fl_keeps :: bool
  fl_record :: "kept_round list"
  fl_disk :: "nat \<Rightarrow> bool"
  fl_saves :: nat
  fl_failed :: "(job_key, nat \<times> string) dict"
  fl_causes :: "(job_key, string list) dict"

definition last_of :: "nat \<Rightarrow> 'a list \<Rightarrow> 'a list" where
  \<comment> \<open>What a deque of that length keeps of the items appended to it.\<close>
  "last_of n xs = drop (length xs - n) xs"

definition max_failed_rounds :: nat where
  "max_failed_rounds = 3"

fun read_failed :: "kept_round list \<Rightarrow> (job_key, nat \<times> string) dict \<Rightarrow> (job_key, nat \<times> string) dict" where
  "read_failed [] d = d"
| "read_failed ((repo, job, rounds, failed_on, causes) # kept) d =
     read_failed kept (dict_set (repo, job) (rounds, failed_on) d)"

fun read_causes :: "nat \<Rightarrow> kept_round list \<Rightarrow> (job_key, string list) dict \<Rightarrow> (job_key, string list) dict" where
  "read_causes limit [] d = d"
| "read_causes limit ((repo, job, rounds, failed_on, causes) # kept) d =
     read_causes limit kept
       (case causes of None \<Rightarrow> d | Some cs \<Rightarrow> dict_set (repo, job) (last_of limit cs) d)"

definition new_ledger ::
  "nat \<Rightarrow> kept_round list option option option \<Rightarrow> (nat \<Rightarrow> bool) \<Rightarrow> service_error + ledger" where
  \<comment> \<open>\<open>record\<close> is \<open>None\<close> for a ledger that keeps none; \<open>disk\<close> says which of its writes go through.\<close>
  "new_ledger limit record disk =
     (case (case record of None \<Rightarrow> Inr [] | Some f \<Rightarrow> read_state_record f []) of
        Inl e \<Rightarrow> Inl e
      | Inr kept \<Rightarrow>
          Inr \<lparr>fl_limit = limit, fl_keeps = (record \<noteq> None), fl_record = kept, fl_disk = disk, fl_saves = 0,
               fl_failed = read_failed kept [], fl_causes = read_causes limit kept []\<rparr>)"

definition failed_entry :: "ledger \<Rightarrow> job_key \<Rightarrow> nat \<times> string option" where
  "failed_entry f k =
     (case dict_get (fl_failed f) k of None \<Rightarrow> (0, None) | Some (rounds, on) \<Rightarrow> (rounds, Some on))"

definition suspended :: "string \<Rightarrow> string \<Rightarrow> string \<Rightarrow> ledger \<Rightarrow> bool" where
  "suspended repo job current f =
     (let (rounds, failed_on) = failed_entry f (repo, job)
      in fl_limit f \<le> rounds \<and> failed_on = Some current)"

definition holds_failure :: "string \<Rightarrow> string \<Rightarrow> ledger \<Rightarrow> bool" where
  "holds_failure repo job f = (dict_get (fl_failed f) (repo, job) \<noteq> None)"

definition keep_ledger :: "ledger \<Rightarrow> ledger" where
  \<comment> \<open>A write that fails is logged, and the file keeps what it held.\<close>
  "keep_ledger f =
     (if fl_keeps f
      then f\<lparr>fl_record :=
               (if fl_disk f (fl_saves f)
                then map (\<lambda>((repo, job), (rounds, on)).
                  (repo, job, rounds, on, Some (get_or [] (fl_causes f) (repo, job)))) (fl_failed f)
                else fl_record f),
             fl_saves := Suc (fl_saves f)\<rparr>
      else f)"

definition failed_round :: "string \<Rightarrow> string \<Rightarrow> string \<Rightarrow> string \<Rightarrow> ledger \<Rightarrow> nat \<times> ledger" where
  \<comment> \<open>The method \<open>failed\<close>.\<close>
  "failed_round repo job current cause f =
     (let k = (repo, job); (before, failed_on) = failed_entry f k;
          rounds = (if failed_on = Some current \<or> before < fl_limit f then before + 1 else 1);
          cs = (if rounds = 1 then [] else get_or [] (fl_causes f) k)
      in (rounds, keep_ledger (f\<lparr>fl_failed := dict_set k (rounds, current) (fl_failed f),
                                 fl_causes := dict_set k (last_of (fl_limit f) (cs @ [cause])) (fl_causes f)\<rparr>)))"

definition ledger_causes :: "string \<Rightarrow> string \<Rightarrow> ledger \<Rightarrow> string list" where
  "ledger_causes repo job f =
     (let (rounds, _) = failed_entry f (repo, job); known = get_or [] (fl_causes f) (repo, job)
      in replicate (min rounds (fl_limit f) - length known) ''unknown'' @ known)"

definition succeeded :: "string \<Rightarrow> string \<Rightarrow> ledger \<Rightarrow> ledger" where
  "succeeded repo job f =
     (let f1 = f\<lparr>fl_causes := dict_del (repo, job) (fl_causes f)\<rparr>
      in if dict_get (fl_failed f1) (repo, job) \<noteq> None
         then keep_ledger (f1\<lparr>fl_failed := dict_del (repo, job) (fl_failed f1)\<rparr>) else f1)"

definition count_failure :: "string \<Rightarrow> string \<Rightarrow> string \<Rightarrow> exc \<Rightarrow> ledger \<Rightarrow> ledger" where
  \<comment> \<open>\<open>_count_failure\<close>; the log line that names a suspended job is not modelled.\<close>
  "count_failure repo job current e f =
     (if ended_by_stop e then f else snd (failed_round repo job current (class_name e) f))"

definition failed_result :: "exc \<Rightarrow> string" where
  "failed_result e = (if ended_by_stop e then ''stopped'' else ''error'')"

section \<open>Lemmas\<close>

lemma keep_ledger_fields [simp]:
  "fl_failed (keep_ledger f) = fl_failed f" "fl_limit (keep_ledger f) = fl_limit f"
  "fl_causes (keep_ledger f) = fl_causes f" "fl_keeps (keep_ledger f) = fl_keeps f"
  by (simp_all add: keep_ledger_def)

lemma failed_round_entry:
  "failed_entry (snd (failed_round repo job c x f)) k =
     (if k = (repo, job) then (fst (failed_round repo job c x f), Some c) else failed_entry f k)"
  by (auto simp: failed_round_def failed_entry_def Let_def split: prod.split option.split)

lemma failed_round_limit [simp]: "fl_limit (snd (failed_round repo job c x f)) = fl_limit f"
  by (simp add: failed_round_def Let_def split: prod.split)

lemma succeeded_entry:
  "failed_entry (succeeded repo job f) k = (if k = (repo, job) then (0, None) else failed_entry f k)"
  by (auto simp: succeeded_def failed_entry_def Let_def split: option.split)

lemma succeeded_limit [simp]: "fl_limit (succeeded repo job f) = fl_limit f"
  by (simp add: succeeded_def Let_def)

lemma count_failure_other:
  "k \<noteq> (repo, job) \<Longrightarrow> failed_entry (count_failure repo job c e f) k = failed_entry f k"
  by (simp add: count_failure_def failed_round_entry)

lemma count_failure_limit [simp]: "fl_limit (count_failure repo job c e f) = fl_limit f"
  by (simp add: count_failure_def)

lemma identity_refused_group: "identity_refused (Exc RunFailed (Some (ExcGroup es None))) = list_ex identity_refused es"
  by simp

end
