(* ===== verification/Rounds.thy ===== *)
theory Rounds
  imports Ledger
begin

text \<open>
  The due table and the execution of a round, \<^verbatim>\<open>src/devops_cli/roadmap/run.py\<close>: which rows are
  due, what they read, and how the due rows run one after another. What a row does is its runner, a
  function on the schedule file and the rest of the world \<open>'w\<close> (the store, the clone, GitHub); the
  reads of the store, the checkout, the digest of an input and the format of times are given to the
  model. The schedule file is a JSON value, or none when it is missing or cannot be read.
\<close>

section \<open>What rows are judged by\<close>

datatype change_kind = Labeled | Unlabeled | Closed | Reopened

record change =
  cg_kind :: change_kind
  cg_number :: int
  cg_at :: instant

record job_outcome =
  jo_placed_critical_or_p0 :: bool
  jo_set_ready :: bool

definition no_outcome :: job_outcome where
  "no_outcome = \<lparr>jo_placed_critical_or_p0 = False, jo_set_ready = False\<rparr>"

record waiting =
  wt_updated_at :: "instant option"
  wt_decided_at :: instant

record intake_record =
  ir_pending :: bool
  ir_waiting :: "(int, waiting) dict"

record due_check =
  dc_changes :: "change list"
  dc_now :: instant
  dc_last_success :: "instant option"
  dc_intake :: "exc + intake_record"

record run_args =
  ra_clone :: "string option"
  ra_changes :: "change list"
  ra_batch :: "(trigger, nat) dict"
  ra_repo :: string
  ra_now :: instant

type_synonym 'w job_world = "json option \<times> 'w"

record 'w job_row =
  jr_name :: string
  jr_interval :: "seconds option"
  jr_batch_keys :: "trigger list"
  jr_runner :: "run_args \<Rightarrow> 'w job_world \<Rightarrow> (exc + job_outcome) \<times> 'w job_world"
  jr_needs_clone :: bool
  jr_first_run_due :: bool
  jr_due_rule :: "(due_check \<Rightarrow> bool) option"
  jr_cross_job :: "((string, job_outcome) dict \<Rightarrow> bool) option"

section \<open>The schedule file\<close>

fun read_entries :: "(string \<Rightarrow> instant option) \<Rightarrow> (string \<times> json) list \<Rightarrow> (string, instant) dict" where
  "read_entries parse [] = []"
| "read_entries parse ((k, v) # kvs) =
     (case v of
        JStr s \<Rightarrow> (case parse s of None \<Rightarrow> read_entries parse kvs | Some t \<Rightarrow> (k, t) # read_entries parse kvs)
      | _ \<Rightarrow> read_entries parse kvs)"

definition read_schedule :: "(string \<Rightarrow> instant option) \<Rightarrow> json option \<Rightarrow> (string, instant) dict" where
  "read_schedule parse f = (case f of Some (JObj kvs) \<Rightarrow> read_entries parse kvs | _ \<Rightarrow> [])"

definition write_schedule :: "(instant \<Rightarrow> string) \<Rightarrow> (string, instant) dict \<Rightarrow> json option" where
  "write_schedule fmt schedule = Some (JObj (map (\<lambda>(k, t). (k, JStr (fmt t))) schedule))"

text \<open>What the round is given.\<close>

type_synonym round_parts = "(change_kind \<times> int \<times> instant) list \<times> instant option \<times> string option \<times> instant option"

record comment =
  cm_created_at :: instant
  cm_association :: "string option"
  cm_login :: "string option"
  cm_on_pull_request :: bool

record 'w round_env =
  re_iso :: "string \<Rightarrow> instant option"
  re_format :: "instant \<Rightarrow> string"
  re_hour :: "instant \<Rightarrow> string"
  re_digest :: "round_parts \<Rightarrow> string"
  re_actor :: "string option"
  re_changes_since :: "instant \<Rightarrow> string option \<Rightarrow> 'w \<Rightarrow> exc + change list"
  re_comments_since :: "instant option \<Rightarrow> 'w \<Rightarrow> (exc + comment) list"
  re_intake :: "'w \<Rightarrow> exc + intake_record"
  re_write :: "string \<Rightarrow> 'w \<Rightarrow> exc option"  \<comment> \<open>what the write of a row's success raises\<close>
  re_checkout :: "'w \<Rightarrow> (exc + string) \<times> 'w"

definition record_success :: "'w round_env \<Rightarrow> string \<Rightarrow> instant \<Rightarrow> json option \<Rightarrow> json option" where
  "record_success env job at_time f =
     write_schedule (re_format env) (dict_set job at_time (read_schedule (re_iso env) f))"

section \<open>Due rules\<close>

definition intake_due :: "due_check \<Rightarrow> bool" where
  "intake_due c =
     (if list_ex (\<lambda>g. cg_kind g = Reopened) (dc_changes c) then True
      else case dc_intake c of Inl _ \<Rightarrow> True | Inr r \<Rightarrow> ir_pending r)"

definition refine_cross_job :: "(string, job_outcome) dict \<Rightarrow> bool" where
  "refine_cross_job outcomes =
     (case dict_get outcomes ''intake'' of None \<Rightarrow> False | Some o1 \<Rightarrow> jo_placed_critical_or_p0 o1)"

definition stage_cross_job :: "(string, job_outcome) dict \<Rightarrow> bool" where
  "stage_cross_job outcomes =
     (case dict_get outcomes ''refine'' of None \<Rightarrow> False | Some o1 \<Rightarrow> jo_set_ready o1)"

definition outcome_of_failure :: "exc \<Rightarrow> job_outcome" where
  "outcome_of_failure e =
     (case e of
        Exc (RefineFailed readied) _ \<Rightarrow> no_outcome\<lparr>jo_set_ready := readied > 0\<rparr>
      | _ \<Rightarrow> no_outcome)"

section \<open>What intake keeps\<close>

record intake_plan =
  ip_decisions :: "(int option \<times> instant option) list"
  ip_left :: "int list"
  ip_fresh_left :: bool
  ip_others_fresh :: bool

fun decided_of :: "instant \<Rightarrow> (int option \<times> instant option) list \<Rightarrow> (int, waiting) dict \<Rightarrow> (int, waiting) dict" where
  "decided_of now [] d = d"
| "decided_of now ((number, updated) # ds) d =
     decided_of now ds
       (case number of None \<Rightarrow> d
        | Some n \<Rightarrow> dict_set n \<lparr>wt_updated_at = updated, wt_decided_at = now\<rparr> d)"

definition record_after :: "intake_plan \<Rightarrow> instant \<Rightarrow> intake_record \<Rightarrow> intake_record" where
  "record_after plan now r =
     \<lparr>ir_pending = ip_fresh_left plan,
      ir_waiting = decided_of now (ip_decisions plan)
        (concat (map (\<lambda>n. case dict_get (ir_waiting r) n of None \<Rightarrow> [] | Some w \<Rightarrow> [(n, w)]) (ip_left plan)))\<rparr>"

definition record_merged :: "intake_plan \<Rightarrow> instant \<Rightarrow> intake_record \<Rightarrow> intake_record" where
  "record_merged plan now r =
     \<lparr>ir_pending = (ir_pending r \<or> ip_others_fresh plan),
      ir_waiting = decided_of now (ip_decisions plan) (ir_waiting r)\<rparr>"

section \<open>Which rows are due\<close>

definition batch_matches :: "(trigger, nat) dict \<Rightarrow> 'w job_row \<Rightarrow> bool" where
  "batch_matches batch row = list_ex (\<lambda>k. dict_get batch k \<noteq> None) (jr_batch_keys row)"

definition is_interval_due :: "'w job_row \<Rightarrow> instant option \<Rightarrow> instant \<Rightarrow> bool" where
  "is_interval_due row last_run now =
     (case last_run of
        None \<Rightarrow> jr_first_run_due row
      | Some t \<Rightarrow> (case jr_interval row of None \<Rightarrow> False | Some i \<Rightarrow> i \<le> now - t))"

definition oldest_cutoff :: "'w job_row list \<Rightarrow> (string, instant) dict \<Rightarrow> instant \<Rightarrow> instant" where
  "oldest_cutoff rows schedule now =
     (case map (\<lambda>r. get_or now schedule (jr_name r)) (filter (\<lambda>r. jr_due_rule r \<noteq> None) rows) of
        [] \<Rightarrow> now
      | t # ts \<Rightarrow> foldl min t ts)"

record poll_state =
  po_schedule :: "(string, instant) dict"
  po_batch :: "(trigger, nat) dict"
  po_changes :: "change list"
  po_now :: instant
  po_intake :: "exc + intake_record"

definition refine_stamp :: string where
  "refine_stamp = ''refine_due''"

definition is_due :: "poll_state \<Rightarrow> 'w job_row \<Rightarrow> bool" where
  "is_due p row =
     (let lst = dict_get (po_schedule p) (jr_name row)
      in if is_interval_due row lst (po_now p) \<or> batch_matches (po_batch p) row then True
         else if jr_name row = ''refine''
           \<and> (case dict_get (po_schedule p) refine_stamp of None \<Rightarrow> False
              | Some due \<Rightarrow> (case lst of None \<Rightarrow> True | Some t \<Rightarrow> t < due)) then True
         else case jr_due_rule row of
                None \<Rightarrow> False
              | Some rule \<Rightarrow>
                  (let since = (case lst of None \<Rightarrow> po_now p | Some t \<Rightarrow> t)
                   in rule \<lparr>dc_changes = filter (\<lambda>g. since \<le> cg_at g) (po_changes p),
                            dc_now = po_now p, dc_last_success = lst, dc_intake = po_intake p\<rparr>))"

definition lane_reads_changes :: "'w job_row list \<Rightarrow> bool" where
  "lane_reads_changes rows = list_ex (\<lambda>r. jr_due_rule r \<noteq> None) rows"

definition fetch_filtered_changes ::
  "'w round_env \<Rightarrow> 'w job_row list \<Rightarrow> (string, instant) dict \<Rightarrow> instant \<Rightarrow> 'w \<Rightarrow> exc + change list" where
  "fetch_filtered_changes env rows schedule now w =
     (if \<not> lane_reads_changes rows then Inr []
      else re_changes_since env (oldest_cutoff rows schedule now) (re_actor env) w)"

fun simulate_dry_run ::
  "'w job_row list \<Rightarrow> (string, bool) dict \<Rightarrow> (string, job_outcome) dict \<Rightarrow> string list" where
  "simulate_dry_run [] due outcomes = []"
| "simulate_dry_run (row # rows) due outcomes =
     (if get_or False due (jr_name row)
        \<or> (case jr_cross_job row of None \<Rightarrow> False | Some p \<Rightarrow> p outcomes)
      then jr_name row # simulate_dry_run rows due (dict_set (jr_name row) no_outcome outcomes)
      else simulate_dry_run rows due outcomes)"

section \<open>The input of a row\<close>

definition has_push :: "(trigger, nat) dict \<Rightarrow> bool" where
  "has_push batch = list_ex (\<lambda>(k, _). fst k \<noteq> poll_source) batch"

definition round_input ::
  "'w round_env \<Rightarrow> change list \<Rightarrow> (trigger, nat) dict \<Rightarrow> instant \<Rightarrow> bool \<Rightarrow> instant option \<Rightarrow> string" where
  "round_input env changes batch now reads_changes comment_at =
     re_digest env
       (map (\<lambda>g. (cg_kind g, cg_number g, cg_at g)) changes,
        if has_push batch then Some now else None,
        if reads_changes then None else Some (re_hour env now),
        comment_at)"

definition row_input ::
  "'w round_env \<Rightarrow> 'w job_row list \<Rightarrow> change list \<Rightarrow> (trigger, nat) dict \<Rightarrow> instant
   \<Rightarrow> (string, instant) dict \<Rightarrow> string \<Rightarrow> string" where
  "row_input env rows changes batch now stamps name =
     round_input env changes batch now (lane_reads_changes rows) (dict_get stamps name)"

definition trusted_authors :: "string list" where
  "trusted_authors = [''OWNER'', ''MEMBER'', ''COLLABORATOR'']"

definition is_person_comment :: "comment \<Rightarrow> string option \<Rightarrow> bool" where
  "is_person_comment c actor =
     ((case cm_association c of None \<Rightarrow> False | Some a \<Rightarrow> a \<in> set trusted_authors)
      \<and> (case cm_login c of None \<Rightarrow> False
         | Some login \<Rightarrow> actor \<noteq> Some login \<and> \<not> suffix ''[bot]'' login)
      \<and> \<not> cm_on_pull_request c)"

definition comment_window :: nat where
  "comment_window = 100"

fun newest_person_comment :: "string option \<Rightarrow> (exc + comment) list \<Rightarrow> exc + instant option" where
  \<comment> \<open>The read is lazy: it stops at the first comment of a person, or where it fails.\<close>
  "newest_person_comment actor [] = Inr None"
| "newest_person_comment actor (Inl e # cs) = Inl e"
| "newest_person_comment actor (Inr c # cs) =
     (if is_person_comment c actor then Inr (Some (cm_created_at c)) else newest_person_comment actor cs)"

definition person_comment_stamps ::
  "'w round_env \<Rightarrow> 'w job_row list \<Rightarrow> (string, bool) dict \<Rightarrow> (string, instant) dict \<Rightarrow> ledger
   \<Rightarrow> (trigger, nat) dict \<Rightarrow> string \<Rightarrow> 'w \<Rightarrow> exc + (string, instant) dict" where
  "person_comment_stamps env rows due schedule f batch repo w =
     (if has_push batch then Inr []
      else let failed = map jr_name (filter (\<lambda>r. (get_or False due (jr_name r) \<or> jr_cross_job r \<noteq> None)
                            \<and> holds_failure repo (jr_name r) f) rows);
               lasts = map (\<lambda>n. (n, dict_get schedule n)) (remdups failed);
               known = concat (map (\<lambda>(_, t). case t of None \<Rightarrow> [] | Some x \<Rightarrow> [x]) lasts);
               since = (if length known = length lasts then Some (foldl min (hd known) (tl known)) else None)
           in if failed = [] then Inr []
              else case newest_person_comment (re_actor env)
                          (take comment_window (re_comments_since env since w)) of
                     Inl e \<Rightarrow> Inl e
                   | Inr None \<Rightarrow> Inr []
                   | Inr (Some newest) \<Rightarrow>
                       Inr (map (\<lambda>(n, _). (n, newest))
                         (filter (\<lambda>(_, t). case t of None \<Rightarrow> True | Some x \<Rightarrow> x \<le> newest) lasts)))"

section \<open>Running the due rows\<close>

datatype entry = ForClone exc | ForRow string exc

record 'w round_state =
  rs_file :: "json option"
  rs_ledger :: ledger
  rs_world :: 'w
  rs_succeeded :: "string list"
  rs_failed :: "string list"
  rs_outcomes :: "(string, job_outcome) dict"
  rs_clone :: "string option"
  rs_clone_error :: "exc option"
  rs_clone_jobs :: "string list"
  rs_entries :: "entry list"
  rs_counts :: "(string \<times> string) list"
  rs_ran :: "string list"  \<comment> \<open>the rows whose runner was called, in order\<close>

record 'w round_input_args =
  rq_env :: "'w round_env"
  rq_rows :: "'w job_row list"
  rq_due :: "(string, bool) dict"
  rq_repo :: string
  rq_round_changes :: "change list"
  rq_batch :: "(trigger, nat) dict"
  rq_now :: instant
  rq_stamps :: "(string, instant) dict"

definition input_of :: "'w round_input_args \<Rightarrow> string \<Rightarrow> string" where
  "input_of q name =
     row_input (rq_env q) (rq_rows q) (rq_round_changes q) (rq_batch q) (rq_now q) (rq_stamps q) name"

definition row_is_due :: "'w round_input_args \<Rightarrow> 'w job_row \<Rightarrow> 'w round_state \<Rightarrow> bool" where
  "row_is_due q row s =
     (get_or False (rq_due q) (jr_name row)
      \<or> (case jr_cross_job row of None \<Rightarrow> False | Some p \<Rightarrow> p (rs_outcomes s)))"

definition row_runs :: "'w round_input_args \<Rightarrow> 'w job_row \<Rightarrow> 'w round_state \<Rightarrow> bool" where
  "row_runs q row s =
     (row_is_due q row s \<and> \<not> suspended (rq_repo q) (jr_name row) (input_of q (jr_name row)) (rs_ledger s))"

definition clone_for :: "'w round_input_args \<Rightarrow> 'w job_row \<Rightarrow> 'w round_state \<Rightarrow> (exc + unit) \<times> 'w round_state" where
  "clone_for q row s =
     (if jr_needs_clone row \<and> rs_clone s = None
      then case re_checkout (rq_env q) (rs_world s) of
             (Inl e, w) \<Rightarrow> (Inl e, s\<lparr>rs_world := w\<rparr>)
           | (Inr path, w) \<Rightarrow> (Inr (), s\<lparr>rs_world := w, rs_clone := Some path\<rparr>)
      else (Inr (), s))"

definition call_runner ::
  "'w round_input_args \<Rightarrow> 'w job_row \<Rightarrow> 'w round_state \<Rightarrow> (exc + job_outcome) \<times> 'w round_state" where
  "call_runner q row s =
     (case jr_runner row \<lparr>ra_clone = rs_clone s, ra_changes = rq_round_changes q, ra_batch = rq_batch q,
             ra_repo = rq_repo q, ra_now = rq_now q\<rparr> (rs_file s, rs_world s) of
        (r, f, w) \<Rightarrow> (r, s\<lparr>rs_file := f, rs_world := w, rs_ran := rs_ran s @ [jr_name row]\<rparr>))"

definition row_attempt ::
  "'w round_input_args \<Rightarrow> 'w job_row \<Rightarrow> 'w round_state \<Rightarrow> (exc + job_outcome) \<times> 'w round_state" where
  "row_attempt q row s =
     (case clone_for q row s of
        (Inl e, s1) \<Rightarrow> (Inl e, s1)
      | (Inr _, s1) \<Rightarrow> call_runner q row s1)"

definition row_succeeded ::
  "'w round_input_args \<Rightarrow> string \<Rightarrow> job_outcome \<Rightarrow> 'w round_state \<Rightarrow> (exc + unit) \<times> 'w round_state" where
  \<comment> \<open>The write of the schedule file may raise, when the row already counts as a success.\<close>
  "row_succeeded q name res s =
     (let s1 = s\<lparr>rs_outcomes := dict_set name res (rs_outcomes s),
                 rs_succeeded := rs_succeeded s @ [name]\<rparr>
      in case re_write (rq_env q) name (rs_world s1) of
           Some e \<Rightarrow> (Inl e, s1)
         | None \<Rightarrow>
             (Inr (), s1\<lparr>rs_file := record_success (rq_env q) name (rq_now q) (rs_file s1),
                         rs_ledger := succeeded (rq_repo q) name (rs_ledger s1),
                         rs_counts := rs_counts s1 @ [(name, ''success'')]\<rparr>))"

definition row_failed :: "'w round_input_args \<Rightarrow> 'w job_row \<Rightarrow> exc \<Rightarrow> 'w round_state \<Rightarrow> 'w round_state" where
  "row_failed q row e s =
     (let name = jr_name row;
          s1 = s\<lparr>rs_failed := rs_failed s @ [name],
                 rs_counts := rs_counts s @ [(name, failed_result e)],
                 rs_outcomes := dict_set name (outcome_of_failure e) (rs_outcomes s),
                 rs_ledger := count_failure (rq_repo q) name (input_of q name) e (rs_ledger s)\<rparr>
      in if jr_needs_clone row \<and> rs_clone s1 = None
         then s1\<lparr>rs_clone_error := Some e, rs_clone_jobs := rs_clone_jobs s1 @ [name],
                 rs_entries := rs_entries s1 @ [ForClone e]\<rparr>
         else s1\<lparr>rs_entries := rs_entries s1 @ [ForRow name e]\<rparr>)"

definition run_row :: "'w round_input_args \<Rightarrow> 'w job_row \<Rightarrow> 'w round_state \<Rightarrow> bool \<times> 'w round_state" where
  \<comment> \<open>Whether the round goes on, and its state.\<close>
  "run_row q row s =
     (if \<not> row_runs q row s then (True, s)
      else case (jr_needs_clone row, rs_clone_error s) of
             (True, Some ce) \<Rightarrow>
               (True, s\<lparr>rs_failed := rs_failed s @ [jr_name row],
                        rs_clone_jobs := rs_clone_jobs s @ [jr_name row],
                        rs_counts := rs_counts s @ [(jr_name row, failed_result ce)]\<rparr>)
           | _ \<Rightarrow>
               (case row_attempt q row s of
                  (Inl e, s1) \<Rightarrow> (\<not> identity_refused e, row_failed q row e s1)
                | (Inr res, s1) \<Rightarrow>
                    (case row_succeeded q (jr_name row) res s1 of
                       (Inl e, s2) \<Rightarrow> (\<not> identity_refused e, row_failed q row e s2)
                     | (Inr _, s2) \<Rightarrow> (True, s2))))"

fun run_rows :: "'w round_input_args \<Rightarrow> 'w job_row list \<Rightarrow> 'w round_state \<Rightarrow> 'w round_state" where
  "run_rows q [] s = s"
| "run_rows q (row # rows) s =
     (case run_row q row s of
        (True, s1) \<Rightarrow> run_rows q rows s1
      | (False, s1) \<Rightarrow> s1)"

definition entry_error :: "entry \<Rightarrow> exc" where
  "entry_error en = (case en of ForClone e \<Rightarrow> e | ForRow _ e \<Rightarrow> e)"

definition round_error :: "'w round_state \<Rightarrow> exc" where
  "round_error s = Exc RunFailed (Some (ExcGroup (map entry_error (rs_entries s)) None))"

definition start_round :: "json option \<Rightarrow> ledger \<Rightarrow> 'w \<Rightarrow> 'w round_state" where
  "start_round f l w =
     \<lparr>rs_file = f, rs_ledger = l, rs_world = w, rs_succeeded = [], rs_failed = [], rs_outcomes = [],
      rs_clone = None, rs_clone_error = None, rs_clone_jobs = [], rs_entries = [], rs_counts = [], rs_ran = []\<rparr>"

definition execute_due_rows ::
  "'w round_input_args \<Rightarrow> json option \<Rightarrow> ledger \<Rightarrow> 'w \<Rightarrow> (exc + string list) \<times> 'w round_state" where
  "execute_due_rows q f l w =
     (let s = run_rows q (rq_rows q) (start_round f l w)
      in (if rs_failed s \<noteq> [] then Inl (round_error s) else Inr (rs_succeeded s), s))"

section \<open>A round\<close>

definition repo_slug_ok :: "string \<Rightarrow> bool" where
  "repo_slug_ok repo =
     (case split_on CHR ''/'' repo of
        [owner, name] \<Rightarrow>
          owner \<noteq> [] \<and> name \<noteq> []
          \<and> list_all (\<lambda>p. hd p \<noteq> CHR 0x5C \<and> hd p \<noteq> CHR ''.'') [owner, name]
      | _ \<Rightarrow> False)"

fun due_map :: "poll_state \<Rightarrow> 'w job_row list \<Rightarrow> (string, bool) dict \<Rightarrow> (string, bool) dict" where
  "due_map p [] d = d"
| "due_map p (row # rows) d = due_map p rows (dict_set (jr_name row) (is_due p row) d)"

definition run_due_jobs ::
  "'w round_env \<Rightarrow> 'w job_row list \<Rightarrow> string \<Rightarrow> (trigger, nat) dict \<Rightarrow> bool \<Rightarrow> instant
   \<Rightarrow> json option \<Rightarrow> ledger \<Rightarrow> 'w \<Rightarrow> (exc + string list) \<times> 'w round_state" where
  "run_due_jobs env rows repo counts dry_run now f l w =
     (let s0 = start_round f l w
      in if \<not> repo_slug_ok repo then (Inl (Exc (OtherClass ''GitOperationError'') None), s0)
         else let schedule = read_schedule (re_iso env) f;
                  active = filter (\<lambda>(_, n). n > 0) counts;
                  quiet = \<lparr>po_schedule = schedule, po_batch = active, po_changes = [], po_now = now,
                           po_intake = re_intake env w\<rparr>
              in if active = [] \<and> \<not> list_ex (is_due quiet) rows then (Inr [], s0)
                 else case fetch_filtered_changes env rows schedule now w of
                        Inl e \<Rightarrow> (Inl e, s0)
                      | Inr changes \<Rightarrow>
                          (let due = due_map (quiet\<lparr>po_changes := changes\<rparr>) rows []
                           in if \<not> list_ex snd due then (Inr [], s0)
                              else if dry_run then (Inr (simulate_dry_run rows due []), s0)
                              else case person_comment_stamps env rows due schedule l active repo w of
                                     Inl e \<Rightarrow> (Inl e, s0)
                                   | Inr stamps \<Rightarrow>
                                       execute_due_rows
                                         \<lparr>rq_env = env, rq_rows = rows, rq_due = due, rq_repo = repo,
                                          rq_round_changes = changes, rq_batch = active, rq_now = now,
                                          rq_stamps = stamps\<rparr> f l w))"

end
