(* ===== verification/RoundProps.thy ===== *)
theory RoundProps
  imports Rounds
begin

text \<open>
  Properties of the roadmap's rounds: how often a failing row runs, that a failing row does not keep
  the others from running, that a refusal of the identity ends the round and reaches the Service's
  pause, and that the schedule file and the ledger keep what they hold.
\<close>

section \<open>What a row leaves of the others' records\<close>

text \<open>
  What a row comes to: it is skipped; it fails with the clone of an earlier row; it succeeds and the write of its
  success goes through; or it fails, at the clone, in its runner or at that write.
\<close>

definition row_trial :: "'w round_input_args \<Rightarrow> 'w job_row \<Rightarrow> 'w round_state \<Rightarrow> (exc + unit) \<times> 'w round_state" where
  "row_trial q row s =
     (case row_attempt q row s of
        (Inl e, s1) \<Rightarrow> (Inl e, s1)
      | (Inr res, s1) \<Rightarrow> row_succeeded q (jr_name row) res s1)"

lemma run_row_cases:
  obtains (skipped) "\<not> row_runs q row s" "run_row q row s = (True, s)"
  | (no_clone) ce where "row_runs q row s" "jr_needs_clone row" "rs_clone_error s = Some ce"
    "run_row q row s = (True, s\<lparr>rs_failed := rs_failed s @ [jr_name row],
                        rs_clone_jobs := rs_clone_jobs s @ [jr_name row],
                        rs_counts := rs_counts s @ [(jr_name row, failed_result ce)]\<rparr>)"
  | (fine) s1 where "row_runs q row s" "row_trial q row s = (Inr (), s1)" "run_row q row s = (True, s1)"
  | (failed) e s1 where "row_runs q row s" "row_trial q row s = (Inl e, s1)"
    "run_row q row s = (\<not> identity_refused e, row_failed q row e s1)"
proof (cases "row_runs q row s")
  case True
  show ?thesis
  proof (cases "jr_needs_clone row \<and> rs_clone_error s \<noteq> None")
    case clone: True
    then show ?thesis using True by (intro no_clone [of "the (rs_clone_error s)"]) (auto simp: run_row_def)
  next
    case no: False
    obtain r s1 where at: "row_trial q row s = (r, s1)" by (metis prod.exhaust)
    show ?thesis
    proof (cases r)
      case (Inl e)
      then show ?thesis using True no at
        by (intro failed) (auto simp: run_row_def row_trial_def split: option.splits bool.splits prod.splits sum.splits)
    next
      case (Inr res)
      then show ?thesis using True no at
        by (intro fine) (auto simp: run_row_def row_trial_def split: option.splits bool.splits prod.splits sum.splits)
    qed
  qed
qed (simp add: run_row_def that)

lemma row_trial_failed:
  assumes "row_trial q row s = (Inl e, s1)"
  shows "rs_ledger s1 = rs_ledger s" "rs_entries s1 = rs_entries s" "rs_failed s1 = rs_failed s"
    "rs_succeeded s1 = rs_succeeded s \<or> rs_succeeded s1 = rs_succeeded s @ [jr_name row]"
    "if jr_needs_clone row \<and> rs_clone s1 = None then rs_ran s1 = rs_ran s
     else rs_ran s1 = rs_ran s @ [jr_name row]"
  using assms
  by (auto simp: row_trial_def row_succeeded_def row_attempt_def call_runner_def clone_for_def Let_def
      split: prod.splits sum.splits if_splits option.splits)

lemma row_trial_fine:
  assumes "row_trial q row s = (Inr u, s1)"
  shows "rs_ledger s1 = succeeded (rq_repo q) (jr_name row) (rs_ledger s)" "rs_entries s1 = rs_entries s"
    "rs_failed s1 = rs_failed s" "rs_succeeded s1 = rs_succeeded s @ [jr_name row]"
    "rs_ran s1 = rs_ran s @ [jr_name row]"
  using assms
  by (auto simp: row_trial_def row_succeeded_def row_attempt_def call_runner_def clone_for_def Let_def
      split: prod.splits sum.splits if_splits option.splits)

lemma row_failed_fields [simp]:
  "rs_ledger (row_failed q row e s) = count_failure (rq_repo q) (jr_name row) (input_of q (jr_name row)) e (rs_ledger s)"
  "rs_ran (row_failed q row e s) = rs_ran s" "rs_failed (row_failed q row e s) = rs_failed s @ [jr_name row]"
  "rs_succeeded (row_failed q row e s) = rs_succeeded s"
  "rs_entries (row_failed q row e s) = rs_entries s @
     [if jr_needs_clone row \<and> rs_clone s = None then ForClone e else ForRow (jr_name row) e]"
  by (simp_all add: row_failed_def Let_def)

lemma run_row_other_entry:
  assumes "run_row q row s = (b, s1)" and "name \<noteq> jr_name row"
  shows "suspended (rq_repo q) name c (rs_ledger s1) = suspended (rq_repo q) name c (rs_ledger s)"
  using assms
  by (cases rule: run_row_cases [of q row s])
    (auto simp: row_trial_failed(1) row_trial_fine(1) suspended_def succeeded_entry count_failure_other)

lemma start_round_fields [simp]:
  "rs_entries (start_round f l w) = []" "rs_ledger (start_round f l w) = l" "rs_ran (start_round f l w) = []"
  by (simp_all add: start_round_def)

definition shows_more :: "'w round_state \<Rightarrow> 'w round_state \<Rightarrow> bool" where
  "shows_more s s1 =
     (set (rs_ran s) \<subseteq> set (rs_ran s1) \<and> set (rs_entries s) \<subseteq> set (rs_entries s1)
      \<and> set (rs_failed s) \<subseteq> set (rs_failed s1) \<and> set (rs_succeeded s) \<subseteq> set (rs_succeeded s1))"

lemma run_row_grows:
  assumes "run_row q row s = (b, s1)"
  shows "shows_more s s1"
  using assms
proof (cases rule: run_row_cases [of q row s])
  case (failed e s2)
  then show ?thesis using assms row_trial_failed [OF failed(2)]
    by (auto simp: shows_more_def split: if_splits)
qed (auto simp: shows_more_def row_trial_fine)

lemma run_rows_grows: "shows_more s (run_rows q rows s)"
proof (induction rows arbitrary: s)
  case (Cons row rows)
  obtain b s1 where r: "run_row q row s = (b, s1)" by (metis prod.exhaust)
  show ?case using Cons.IH [of s1] run_row_grows [OF r] r by (cases b) (auto simp: shows_more_def)
qed (simp add: shows_more_def)

definition refused_entry :: "entry \<Rightarrow> bool" where
  "refused_entry en = identity_refused (entry_error en)"

lemma run_row_stops:
  assumes "run_row q row s = (False, s1)"
  shows "\<exists>en. rs_entries s1 = rs_entries s @ [en] \<and> refused_entry en
     \<and> rs_ran s1 = rs_ran s @ (case en of ForRow n _ \<Rightarrow> [n] | ForClone _ \<Rightarrow> [])
     \<and> (\<forall>n e. en = ForRow n e \<longrightarrow> n = jr_name row)"
  using assms
proof (cases rule: run_row_cases [of q row s])
  case (failed e s2)
  then show ?thesis using assms row_trial_failed [OF failed(2)]
    by (auto simp: refused_entry_def entry_error_def split: if_splits)
qed auto

lemma run_row_goes_on:
  assumes "run_row q row s = (True, s1)" and "\<not> list_ex refused_entry (rs_entries s)"
  shows "\<not> list_ex refused_entry (rs_entries s1)"
  using assms
proof (cases rule: run_row_cases [of q row s])
  case (failed e s2)
  then show ?thesis using assms row_trial_failed [OF failed(2)]
    by (auto simp: refused_entry_def entry_error_def)
qed (auto simp: row_trial_fine)

text \<open>The row whose failure a refusal is, and that the round's state is the one right after it.\<close>

lemma refused_ends_rows:
  assumes "\<not> list_ex refused_entry (rs_entries s)" and "s1 = run_rows q rows s"
    and "en \<in> set (rs_entries s1)" and "refused_entry en"
  shows "\<exists>pre row post. rows = pre @ row # post \<and> s1 = snd (run_row q row (run_rows q pre s))
     \<and> rs_entries s1 = rs_entries (run_rows q pre s) @ [en]
     \<and> rs_ran s1 = rs_ran (run_rows q pre s) @ (case en of ForRow n _ \<Rightarrow> [n] | ForClone _ \<Rightarrow> [])
     \<and> (\<forall>n e. en = ForRow n e \<longrightarrow> n = jr_name row)"
  using assms
proof (induction rows arbitrary: s)
  case Nil
  then show ?case by (auto simp: list_ex_iff)
next
  case (Cons row rows)
  obtain b s2 where r: "run_row q row s = (b, s2)" by (metis prod.exhaust)
  show ?case
  proof (cases b)
    case True
    then have more: "run_rows q (row # pre) s = run_rows q pre s2" for pre using r by simp
    have "\<not> list_ex refused_entry (rs_entries s2)" "s1 = run_rows q rows s2"
      using Cons.prems(1,2) r True run_row_goes_on [of q row s s2] by simp_all
    from Cons.IH [OF this Cons.prems(3,4)] obtain pre row' post where
      "rows = pre @ row' # post" and at: "s1 = snd (run_row q row' (run_rows q pre s2))"
      "rs_entries s1 = rs_entries (run_rows q pre s2) @ [en]"
      "rs_ran s1 = rs_ran (run_rows q pre s2) @ (case en of ForRow n _ \<Rightarrow> [n] | ForClone _ \<Rightarrow> [])"
      "\<forall>n e. en = ForRow n e \<longrightarrow> n = jr_name row'" by blast
    then have "row # rows = (row # pre) @ row' # post" by simp
    then show ?thesis using at unfolding more [symmetric] by blast
  next
    case False
    then have s1: "s1 = s2" using Cons.prems(2) r by simp
    obtain en' where en': "rs_entries s2 = rs_entries s @ [en']"
      "rs_ran s2 = rs_ran s @ (case en' of ForRow n _ \<Rightarrow> [n] | ForClone _ \<Rightarrow> [])"
      "\<forall>n e. en' = ForRow n e \<longrightarrow> n = jr_name row"
      using run_row_stops [of q row s s2] r False by auto
    have "en \<notin> set (rs_entries s)" using Cons.prems(1,4) by (auto simp: list_ex_iff)
    then have "en = en'" using Cons.prems(3) s1 en'(1) by simp
    then show ?thesis using en' s1 r
      by (intro exI [of _ "[]"] exI [of _ row] exI [of _ rows]) simp
  qed
qed

lemma entries_have_failed:
  "(rs_entries s \<noteq> [] \<Longrightarrow> rs_failed s \<noteq> []) \<Longrightarrow>
   rs_entries (run_rows q rows s) \<noteq> [] \<Longrightarrow> rs_failed (run_rows q rows s) \<noteq> []"
proof (induction rows arbitrary: s)
  case (Cons row rows)
  obtain b s1 where r: "run_row q row s = (b, s1)" by (metis prod.exhaust)
  have "rs_entries s1 \<noteq> [] \<Longrightarrow> rs_failed s1 \<noteq> []"
    using r Cons.prems(1)
    by (cases rule: run_row_cases [of q row s]) (auto simp: row_trial_fine)
  then show ?case using Cons.IH [of s1] Cons.prems(2) r by (cases b) auto
qed simp

section \<open>A refusal of the identity\<close>

text \<open>The readers of an error that the Service is given.\<close>

definition service_readers :: "(exc \<Rightarrow> unit + instant option) \<Rightarrow> exc readers" where
  "service_readers until =
     \<lparr>rd_refusal = (\<lambda>e. Inr (identity_refused e)), rd_until = until, rd_ended_by_stop = ended_by_stop\<rparr>"

text \<open>
  C22: A refusal of the identity ends the round and stops the Service. When GitHub refuses the
  identity to a row, at its clone or in its runner, however deep the refusal lies in its error, the
  round's state is the one right after that row, so no later row runs. The round's error is read by
  the Service as a refusal; and unless the row's error is also one that the stop of the Service
  brings, settling the round halts every lane.
\<close>

theorem refusal_ends_the_round:
  assumes "execute_due_rows q f l w = (r, s)" and "en \<in> set (rs_entries s)"
    and "identity_refused (entry_error en)"
  shows "\<exists>err pre row post. r = Inl err \<and> identity_refused err \<and> rq_rows q = pre @ row # post
    \<and> s = snd (run_row q row (run_rows q pre (start_round f l w)))
    \<and> rs_entries s = rs_entries (run_rows q pre (start_round f l w)) @ [en]
    \<and> rs_ran s = rs_ran (run_rows q pre (start_round f l w))
        @ (case en of ForRow _ _ \<Rightarrow> [jr_name row] | ForClone _ \<Rightarrow> [])
    \<and> (\<not> ended_by_stop (entry_error en) \<longrightarrow>
        pa_halted (fst (settle_round (service_readers until) (Raised err) (rq_repo q) (p, b))))"
proof -
  let ?s0 = "start_round f l w"
  have s: "s = run_rows q (rq_rows q) ?s0"
    using assms(1) by (simp add: execute_due_rows_def Let_def)
  have "refused_entry en" using assms(3) by (simp add: refused_entry_def)
  from refused_ends_rows [OF _ s assms(2) this] obtain pre row post where
    at: "rq_rows q = pre @ row # post" "s = snd (run_row q row (run_rows q pre ?s0))"
      "rs_entries s = rs_entries (run_rows q pre ?s0) @ [en]"
      "rs_ran s = rs_ran (run_rows q pre ?s0) @ (case en of ForRow _ _ \<Rightarrow> [jr_name row] | ForClone _ \<Rightarrow> [])"
    by (cases en) auto
  have "rs_entries s \<noteq> []" using assms(2) by auto
  then have "rs_failed s \<noteq> []"
    using entries_have_failed [of ?s0 q "rq_rows q"] unfolding s by simp
  then have r: "r = Inl (round_error s)" using assms(1) s by (auto simp: execute_due_rows_def Let_def)
  have ref: "identity_refused (round_error s)"
    using assms(2,3) by (auto simp: round_error_def list_ex_iff)
  have "pa_halted (fst (settle_round (service_readers until) (Raised (round_error s)) (rq_repo q) (p, b)))"
    if "\<not> ended_by_stop (entry_error en)"
  proof -
    have "\<not> ended_by_stop (round_error s)"
      using assms(2) that by (auto simp: round_error_def list_all_iff)
    then show ?thesis using ref by (simp add: settle_round_def service_readers_def after_failure_def)
  qed
  then show ?thesis using r ref at by blast
qed

section \<open>A failing row does not hold back the others\<close>

lemma runs_or_refused:
  assumes "row \<in> set rows" and "distinct (map jr_name rows)"
    and "get_or False (rq_due q) (jr_name row)" and "\<not> jr_needs_clone row"
    and "\<not> suspended (rq_repo q) (jr_name row) (input_of q (jr_name row)) (rs_ledger s)"
    and "\<not> list_ex refused_entry (rs_entries (run_rows q rows s))"
  shows "jr_name row \<in> set (rs_ran (run_rows q rows s))
    \<and> jr_name row \<in> set (rs_succeeded (run_rows q rows s)) \<union> set (rs_failed (run_rows q rows s))"
  using assms
proof (induction rows arbitrary: s)
  case (Cons row' rows)
  obtain b s1 where r: "run_row q row' s = (b, s1)" by (metis prod.exhaust)
  have on: b
  proof (rule ccontr)
    assume "\<not> b"
    then show False using Cons.prems(6) r run_row_stops [of q row' s s1] by auto
  qed
  note grows = run_rows_grows [of s1 q rows]
  show ?case
  proof (cases "row' = row")
    case True
    have runs: "row_runs q row s" using Cons.prems(3,5) by (simp add: row_runs_def row_is_due_def)
    have "jr_name row \<in> set (rs_ran s1) \<and> jr_name row \<in> set (rs_succeeded s1) \<union> set (rs_failed s1)"
      using r unfolding True
      by (cases rule: run_row_cases [of q row s])
        (use runs Cons.prems(4) row_trial_failed(5) [of q row s] in \<open>auto simp: row_trial_fine\<close>)
    then show ?thesis using grows r on by (auto simp: shows_more_def)
  next
    case False
    then have member: "row \<in> set rows" using Cons.prems(1) by simp
    have "jr_name row \<in> jr_name ` set rows" using member by (rule imageI)
    then have "jr_name row \<noteq> jr_name row'"
      using Cons.prems(2) by auto
    with member show ?thesis
      using Cons.IH [of s1] Cons.prems r on run_row_other_entry [OF r, of "jr_name row"] by simp
  qed
qed simp

text \<open>
  C38: A failing row does not hold back the others. In a round that no refusal of the identity ends, every
  row that is due, needs no clone and is not suspended on its input runs, whatever the rows
  before it came to, and is among the round's successes or failures.
\<close>

theorem due_rows_run:
  assumes "execute_due_rows q f l w = (r, s)" and "row \<in> set (rq_rows q)"
    and "distinct (map jr_name (rq_rows q))"
    and "get_or False (rq_due q) (jr_name row)" and "\<not> jr_needs_clone row"
    and "\<not> suspended (rq_repo q) (jr_name row) (input_of q (jr_name row)) l"
    and "\<not> list_ex (\<lambda>en. identity_refused (entry_error en)) (rs_entries s)"
  shows "jr_name row \<in> set (rs_ran s) \<and> jr_name row \<in> set (rs_succeeded s) \<union> set (rs_failed s)"
proof -
  have s: "s = run_rows q (rq_rows q) (start_round f l w)"
    using assms(1) by (simp add: execute_due_rows_def Let_def)
  have "refused_entry = (\<lambda>en. identity_refused (entry_error en))"
    by (simp add: fun_eq_iff refused_entry_def)
  then have "\<not> list_ex refused_entry (rs_entries s)" using assms(7) by simp
  then show ?thesis
    using runs_or_refused [OF assms(2-5), of "start_round f l w"] assms(6) s by simp
qed

section \<open>A failing job\<close>

text \<open>
  The rounds of the Service, of any repositories and lanes, one after another: each with its arguments, and with the
  schedule file and the world that it finds. They share the ledger.
\<close>

type_synonym 'w turn = "'w round_input_args \<times> json option \<times> 'w"

fun run_turns :: "'w turn list \<Rightarrow> ledger \<Rightarrow> ledger \<times> ('w round_input_args \<times> 'w round_state) list" where
  "run_turns [] l = (l, [])"
| "run_turns ((q, f, w) # turns) l =
     (let s = snd (execute_due_rows q f l w)
      in case run_turns turns (rs_ledger s) of (l1, ends) \<Rightarrow> (l1, (q, s) # ends))"
















section \<open>What the files keep\<close>

lemma read_written:
  "list_all (\<lambda>(_, t). parse (fmt t) = Some t) d \<Longrightarrow> read_schedule parse (write_schedule fmt d) = d"
proof -
  have "list_all (\<lambda>(_, t). parse (fmt t) = Some t) d \<Longrightarrow>
      read_entries parse (map (\<lambda>(k, t). (k, JStr (fmt t))) d) = d"
    by (induction d) auto
  then show "list_all (\<lambda>(_, t). parse (fmt t) = Some t) d \<Longrightarrow> ?thesis"
    by (simp add: read_schedule_def write_schedule_def)
qed

text \<open>
  A success keeps every other job's. When written times read back as themselves, recording a
  job's success in the schedule file leaves each other job's last success as the file held it, whoever
  wrote it, and gives this job the round's time; a file that was missing or malformed counts as
  empty.
\<close>

theorem success_keeps_the_others:
  assumes "re_iso env (re_format env now) = Some now"
    and "list_all (\<lambda>(_, t). re_iso env (re_format env t) = Some t) (read_schedule (re_iso env) f)"
  shows "dict_get (read_schedule (re_iso env) (record_success env job now f)) k =
    (if k = job then Some now else dict_get (read_schedule (re_iso env) f) k)"
proof -
  have "list_all (\<lambda>(_, t). re_iso env (re_format env t) = Some t)
      (dict_set job now (read_schedule (re_iso env) f))"
    using assms by (auto simp: list_all_iff dest: dict_set_values)
  then show ?thesis by (simp add: record_success_def read_written)
qed

section \<open>A restart keeps the ledger\<close>

text \<open>
  What a ledger that keeps a record holds: one entry per job, causes for the same jobs and no more of them
  than the limit, and a record that is the ledger's own.
\<close>

definition record_of :: "ledger \<Rightarrow> kept_round list" where
  "record_of f = map (\<lambda>((repo, job), (rounds, on)).
     (repo, job, rounds, on, Some (get_or [] (fl_causes f) (repo, job)))) (fl_failed f)"

definition ledger_kept :: "ledger \<Rightarrow> bool" where
  \<comment> \<open>The last write of the record, if this process made one, went through.\<close>
  "ledger_kept f = (fl_saves f = 0 \<or> fl_disk f (fl_saves f - 1))"

definition ledger_ok :: "ledger \<Rightarrow> bool" where
  "ledger_ok f =
     (distinct (map fst (fl_failed f)) \<and> dom (map_of (fl_causes f)) = dom (map_of (fl_failed f))
      \<and> (\<forall>k. length (get_or [] (fl_causes f) k) \<le> fl_limit f) \<and> fl_keeps f
      \<and> (ledger_kept f \<longrightarrow> fl_record f = record_of f))"

lemma ok_same_jobs: "ledger_ok f \<Longrightarrow> dict_get (fl_causes f) k = None \<longleftrightarrow> dict_get (fl_failed f) k = None"
  unfolding ledger_ok_def by (metis domIff)

lemma keep_record_of: "fl_keeps f \<Longrightarrow> ledger_kept (keep_ledger f) \<Longrightarrow> fl_record (keep_ledger f) = record_of (keep_ledger f)"
  by (simp add: keep_ledger_def record_of_def ledger_kept_def)

lemma last_of_length: "length (last_of n xs) \<le> n"
  by (simp add: last_of_def)

lemma get_or_del: "get_or z (dict_del k d) k' = (if k' = k then z else get_or z d k')"
  by (simp add: get_or_def)

lemma ok_failed:
  assumes "ledger_ok f" shows "ledger_ok (snd (failed_round repo job c x f))"
proof -
  obtain n cs where f1: "snd (failed_round repo job c x f) =
      keep_ledger (f\<lparr>fl_failed := dict_set (repo, job) (n, c) (fl_failed f),
        fl_causes := dict_set (repo, job) (last_of (fl_limit f) cs) (fl_causes f)\<rparr>)"
    by (cases "failed_entry f (repo, job)") (simp add: failed_round_def Let_def)
  show ?thesis using assms unfolding f1 ledger_ok_def
    by (simp add: keep_record_of distinct_update update_conv' last_of_length)
qed

lemma ok_succeeded:
  assumes "ledger_ok f" shows "ledger_ok (succeeded repo job f)"
proof (cases "dict_get (fl_failed f) (repo, job) = None")
  case True
  then have none: "dict_get (fl_causes f) (repo, job) = None" using ok_same_jobs [OF assms] by simp
  then have "dict_del (repo, job) (fl_causes f) = fl_causes f"
    by (simp add: delete_id map_of_eq_None_iff)
  then have "succeeded repo job f = f" using True by (simp add: succeeded_def)
  then show ?thesis using assms by simp
next
  case False
  then have "succeeded repo job f = keep_ledger (f\<lparr>fl_causes := dict_del (repo, job) (fl_causes f),
      fl_failed := dict_del (repo, job) (fl_failed f)\<rparr>)"
    by (simp add: succeeded_def)
  then show ?thesis using assms
    by (simp add: ledger_ok_def keep_record_of distinct_delete delete_conv' get_or_del)
qed

lemma ledger_ok_row:
  assumes "run_row q row s = (g, s1)" and "ledger_ok (rs_ledger s)"
  shows "ledger_ok (rs_ledger s1) \<and> fl_limit (rs_ledger s1) = fl_limit (rs_ledger s)"
  using assms(1)
proof (cases rule: run_row_cases [of q row s])
  case (failed e s2)
  then show ?thesis using assms row_trial_failed(1) [OF failed(2)] by (auto simp: count_failure_def ok_failed)
qed (use assms in \<open>auto simp: row_trial_fine ok_succeeded\<close>)

lemma ledger_ok_rows:
  "ledger_ok (rs_ledger s) \<Longrightarrow>
   ledger_ok (rs_ledger (run_rows q rows s)) \<and> fl_limit (rs_ledger (run_rows q rows s)) = fl_limit (rs_ledger s)"
proof (induction rows arbitrary: s)
  case (Cons row rows)
  obtain g s1 where r: "run_row q row s = (g, s1)" by (metis prod.exhaust)
  show ?case using Cons.IH [of s1] ledger_ok_row [OF r Cons.prems] r by (cases g) auto
qed simp

lemma ledger_ok_turns:
  "ledger_ok f \<Longrightarrow> ledger_ok (fst (run_turns turns f)) \<and> fl_limit (fst (run_turns turns f)) = fl_limit f"
proof (induction turns arbitrary: f)
  case (Cons turn turns)
  obtain q g w where turn: "turn = (q, g, w)" by (metis prod.exhaust)
  show ?case
    using Cons.IH [of "rs_ledger (run_rows q (rq_rows q) (start_round g f w))"]
      ledger_ok_rows [of "start_round g f w" q "rq_rows q"] Cons.prems
    by (simp add: turn execute_due_rows_def Let_def case_prod_beta)
qed simp

lemma read_failed_map:
  "distinct (map fst fs) \<Longrightarrow>
   dict_get (read_failed (map (\<lambda>((repo, job), (rounds, on)). (repo, job, rounds, on, Some (g (repo, job)))) fs) d) k =
     (case map_of fs k of None \<Rightarrow> dict_get d k | Some v \<Rightarrow> Some v)"
proof (induction fs arbitrary: d)
  case (Cons x fs)
  obtain r j n c where x: "x = ((r, j), (n, c))" by (metis prod.exhaust)
  have "map_of fs (r, j) = None" using Cons.prems x by (simp add: map_of_eq_None_iff)
  then show ?case using Cons.IH [of "dict_set (r, j) (n, c) d"] Cons.prems
    by (cases "k = (r, j)") (simp_all add: x split: option.split)
qed simp

lemma read_causes_map:
  "distinct (map fst fs) \<Longrightarrow>
   dict_get (read_causes n (map (\<lambda>((repo, job), (rounds, on)). (repo, job, rounds, on, Some (g (repo, job)))) fs) d) k =
     (case map_of fs k of None \<Rightarrow> dict_get d k | Some _ \<Rightarrow> Some (last_of n (g k)))"
proof (induction fs arbitrary: d)
  case (Cons x fs)
  obtain r j m c where x: "x = ((r, j), (m, c))" by (metis prod.exhaust)
  have "map_of fs (r, j) = None" using Cons.prems x by (simp add: map_of_eq_None_iff)
  then show ?case using Cons.IH [of "dict_set (r, j) (last_of n (g (r, j))) d"] Cons.prems
    by (cases "k = (r, j)") (simp_all add: x split: option.split)
qed simp

text \<open>
  A restart keeps the ledger. After any rounds, of which the last write of the record went through, a ledger
  made from the record that was kept suspends the same jobs on the same inputs, holds the same
  failures and gives the same causes.
\<close>

theorem restart_keeps_the_ledger:
  assumes "new_ledger limit (Some None) disk = Inr f0" and "fst (run_turns turns f0) = f"
    and "ledger_kept f"
  shows "\<exists>g. new_ledger limit (Some (Some (Some (fl_record f)))) disk' = Inr g
    \<and> suspended repo job c g = suspended repo job c f
    \<and> holds_failure repo job g = holds_failure repo job f
    \<and> ledger_causes repo job g = ledger_causes repo job f"
proof -
  have f0: "f0 = \<lparr>fl_limit = limit, fl_keeps = True, fl_record = [], fl_disk = disk, fl_saves = 0,
      fl_failed = [], fl_causes = []\<rparr>"
    using assms(1) by (simp add: new_ledger_def read_state_record_def)
  have "ledger_ok f0" by (simp add: ledger_ok_def record_of_def get_or_def f0)
  then have ok: "ledger_ok f" and lim: "fl_limit f = limit"
    using ledger_ok_turns [of f0 turns] assms(2) f0 by auto
  define g where "g = \<lparr>fl_limit = limit, fl_keeps = True, fl_record = fl_record f, fl_disk = disk', fl_saves = 0,
      fl_failed = read_failed (fl_record f) [], fl_causes = read_causes limit (fl_record f) []\<rparr>"
  have rec: "fl_record f = map (\<lambda>((repo, job), (rounds, on)).
      (repo, job, rounds, on, Some (get_or [] (fl_causes f) (repo, job)))) (fl_failed f)"
    using ok assms(3) by (simp add: ledger_ok_def record_of_def)
  have dist: "distinct (map fst (fl_failed f))" using ok by (simp add: ledger_ok_def)
  have failed: "dict_get (fl_failed g) k = dict_get (fl_failed f) k" for k
    using read_failed_map [OF dist, of "get_or [] (fl_causes f)" "[]" k]
    by (simp add: g_def rec split: option.split)
  have "dict_get (fl_causes g) k = dict_get (fl_causes f) k" for k
  proof -
    have "dict_get (fl_causes f) k = None \<longleftrightarrow> dict_get (fl_failed f) k = None"
      by (rule ok_same_jobs [OF ok])
    moreover have "last_of limit (get_or [] (fl_causes f) k) = get_or [] (fl_causes f) k"
    proof -
      have "length (get_or [] (fl_causes f) k) \<le> limit" using ok lim unfolding ledger_ok_def by blast
      then show ?thesis by (simp add: last_of_def)
    qed
    ultimately show ?thesis
      using read_causes_map [OF dist, of limit "get_or [] (fl_causes f)" "[]" k]
      by (auto simp: g_def rec get_or_def split: option.splits)
  qed
  moreover have "new_ledger limit (Some (Some (Some (fl_record f)))) disk' = Inr g"
    by (simp add: new_ledger_def read_state_record_def g_def)
  moreover have "fl_limit g = fl_limit f" by (simp add: g_def lim)
  ultimately show ?thesis using failed
    by (intro exI [of _ g]) (simp add: suspended_def failed_entry_def holds_failure_def ledger_causes_def get_or_def)
qed

section \<open>Concrete rounds\<close>

definition sample_ledger :: ledger where
  "sample_ledger = \<lparr>fl_limit = 3, fl_keeps = True, fl_record = [], fl_disk = (\<lambda>n. n \<noteq> 1), fl_saves = 0,
     fl_failed = [], fl_causes = []\<rparr>"

definition outage :: exc where
  "outage = Exc (OtherClass ''GitHubUnreadError'') None"

definition sample_env :: "unit round_env" where
  "sample_env = \<lparr>re_iso = (\<lambda>s. Some (of_nat (length s))), re_format = (\<lambda>t. replicate (nat \<lfloor>t\<rfloor>) CHR ''x''),
     re_hour = (\<lambda>_. ''h''), re_digest = (\<lambda>_. ''in''), re_actor = Some ''app[bot]'',
     re_changes_since = (\<lambda>_ _ _. Inr []), re_comments_since = (\<lambda>_ _. []),
     re_intake = (\<lambda>_. Inr \<lparr>ir_pending = False, ir_waiting = []\<rparr>), re_write = (\<lambda>_ _. None), re_checkout = (\<lambda>w. (Inr ''clone'', w))\<rparr>"

definition sample_row :: "string \<Rightarrow> (exc + job_outcome) \<Rightarrow> unit job_row" where
  "sample_row name res = \<lparr>jr_name = name, jr_interval = Some 60, jr_batch_keys = [],
     jr_runner = (\<lambda>_ w. (res, w)), jr_needs_clone = False, jr_first_run_due = True, jr_due_rule = None,
     jr_cross_job = None\<rparr>"

definition sample_round :: "exc \<Rightarrow> unit round_input_args" where
  "sample_round e = \<lparr>rq_env = sample_env,
     rq_rows = [sample_row ''refine'' (Inl e), sample_row ''stage'' (Inr no_outcome)],
     rq_due = [(''refine'', True), (''stage'', True)], rq_repo = ''o/r'', rq_round_changes = [],
     rq_batch = [], rq_now = 7, rq_stamps = []\<rparr>"

text \<open>Five polls in a row that find the same input, of which the job runs in three.\<close>

definition sample_turns :: "unit turn list" where
  "sample_turns = replicate 5 (sample_round outage, None, ())"


lemma restart_keeps_the_ledger_witness:
  "\<exists>g. new_ledger 3 (Some (Some (Some (fl_record (fst (run_turns sample_turns sample_ledger)))))) (\<lambda>_. True) = Inr g
    \<and> suspended ''o/r'' ''refine'' ''in'' g"
proof -
  let ?f = "fst (run_turns sample_turns sample_ledger)"
  have "new_ledger 3 (Some None) (\<lambda>n. n \<noteq> 1) = Inr sample_ledger"
    by (simp add: new_ledger_def read_state_record_def sample_ledger_def)
  moreover have "ledger_kept ?f" by code_simp
  ultimately obtain g where "new_ledger 3 (Some (Some (Some (fl_record ?f)))) (\<lambda>_. True) = Inr g"
    and "suspended ''o/r'' ''refine'' ''in'' g = suspended ''o/r'' ''refine'' ''in'' ?f"
    using restart_keeps_the_ledger [OF _ refl, of 3 "\<lambda>n. n \<noteq> 1" sample_ledger sample_turns
        "\<lambda>_. True" "''o/r''" "''refine''" "''in''"] by blast
  moreover have "suspended ''o/r'' ''refine'' ''in'' ?f" by code_simp
  ultimately show ?thesis by simp
qed

lemma success_keeps_the_others_witness:
  "dict_get (read_schedule (re_iso sample_env)
     (record_success sample_env ''stage'' 7 (Some (JObj [(''refine'', JStr ''xxx'')])))) ''refine'' = Some 3"
proof -
  have "re_iso sample_env (re_format sample_env 7) = Some 7"
    "list_all (\<lambda>(_, t). re_iso sample_env (re_format sample_env t) = Some t)
       (read_schedule (re_iso sample_env) (Some (JObj [(''refine'', JStr ''xxx'')])))" by code_simp+
  from success_keeps_the_others [OF this, of "''stage''" "''refine''"]
  show ?thesis by (simp add: read_schedule_def sample_env_def)
qed

definition refused :: exc where
  "refused = Exc (OtherClass ''RoadmapStageError'') (Some (Exc Unauthenticated None))"

lemma refusal_ends_the_round_witness:
  "\<exists>r s. execute_due_rows (sample_round refused) None sample_ledger () = (r, s)
     \<and> rs_ran s = [''refine'']
     \<and> (\<exists>err. r = Inl err \<and> identity_refused err
         \<and> pa_halted (fst (settle_round (service_readers (\<lambda>_. Inr None)) (Raised err) ''o/r'' (sample_pause, sample_budget))))"
proof -
  obtain r s where run: "execute_due_rows (sample_round refused) None sample_ledger () = (r, s)"
    by (metis prod.exhaust)
  have "rs_entries (snd (execute_due_rows (sample_round refused) None sample_ledger ())) = [ForRow ''refine'' refused]
      \<and> rs_ran (snd (execute_due_rows (sample_round refused) None sample_ledger ())) = [''refine'']" by code_simp
  then have s: "rs_entries s = [ForRow ''refine'' refused]" "rs_ran s = [''refine'']" by (simp_all add: run)
  have "identity_refused (entry_error (ForRow ''refine'' refused))" by code_simp
  from refusal_ends_the_round [OF run _ this, of "\<lambda>_. Inr None" sample_pause sample_budget] s(1)
  obtain err where "r = Inl err" "identity_refused err"
    "\<not> ended_by_stop (entry_error (ForRow ''refine'' refused)) \<longrightarrow>
      pa_halted (fst (settle_round (service_readers (\<lambda>_. Inr None)) (Raised err) (rq_repo (sample_round refused)) (sample_pause, sample_budget)))"
    by auto
  moreover have "\<not> ended_by_stop (entry_error (ForRow ''refine'' refused))" by code_simp
  moreover have "rq_repo (sample_round refused) = ''o/r''" by (simp add: sample_round_def)
  ultimately show ?thesis using run s by auto
qed

lemma due_rows_run_witness:
  "\<exists>r s. execute_due_rows (sample_round outage) None sample_ledger () = (r, s)
     \<and> ''stage'' \<in> set (rs_ran s) \<and> ''refine'' \<in> set (rs_failed s)"
proof -
  let ?q = "sample_round outage" and ?row = "sample_row ''stage'' (Inr no_outcome)"
  obtain r s where run: "execute_due_rows ?q None sample_ledger () = (r, s)" by (metis prod.exhaust)
  have state: "\<not> list_ex (\<lambda>en. identity_refused (entry_error en)) (rs_entries (snd (execute_due_rows ?q None sample_ledger ())))
      \<and> ''refine'' \<in> set (rs_failed (snd (execute_due_rows ?q None sample_ledger ())))" by code_simp
  have "?row \<in> set (rq_rows ?q)" by (simp add: sample_round_def)
  moreover have "distinct (map jr_name (rq_rows ?q))" "get_or False (rq_due ?q) (jr_name ?row)"
    "\<not> jr_needs_clone ?row"
    "\<not> suspended (rq_repo ?q) (jr_name ?row) (input_of ?q (jr_name ?row)) sample_ledger" by code_simp+
  ultimately have "jr_name ?row \<in> set (rs_ran s)"
    using due_rows_run [OF run] state by (simp add: run)
  then show ?thesis using run state by (auto simp: sample_row_def)
qed

text \<open>
  Below the limit a round's count goes on when the input changes: two failed rounds on two inputs
  count as two in a row.
\<close>

lemma rounds_count_across_inputs:
  "fst (failed_round ''o/r'' ''stage'' ''second'' ''E''
     (snd (failed_round ''o/r'' ''stage'' ''first'' ''E'' sample_ledger))) = 2"
  by code_simp

end
