(* ===== verification/Payload.thy ===== *)
theory Payload
  imports Prelude
begin

text \<open>
  Reading values out of a JSON payload the way the code does: a path of keys, a subscript, an
  iteration, a field of a pydantic model. Each read is a value or the error of Python it raises.
\<close>

fun jpath :: "json \<Rightarrow> string list \<Rightarrow> json option" where
  "jpath v [] = Some v"
| "jpath (JObj kvs) (k # ks) = (case map_of kvs k of None \<Rightarrow> None | Some v \<Rightarrow> jpath v ks)"
| "jpath _ _ = None"

fun subscript :: "json \<Rightarrow> string \<Rightarrow> py_error + json" where
  \<comment> \<open>\<open>v[k]\<close>\<close>
  "subscript (JObj kvs) k = (case map_of kvs k of None \<Rightarrow> Inl KeyError | Some v \<Rightarrow> Inr v)"
| "subscript _ _ = Inl TypeError"

fun iterated :: "json \<Rightarrow> py_error + json list" where
  \<comment> \<open>\<open>for x in v\<close>; a text and an object give their characters and keys.\<close>
  "iterated (JArr vs) = Inr vs"
| "iterated (JStr s) = Inr (map (\<lambda>c. JStr [c]) s)"
| "iterated (JObj kvs) = Inr (map (\<lambda>(k, _). JStr k) kvs)"
| "iterated _ = Inl TypeError"

text \<open>
  A field of a pydantic model, which refuses a value of another type with a \<open>ValueError\<close>. The values that
  pydantic converts, such as a number given as text, are not in GitHub's payloads and are not modelled.
\<close>

fun as_text :: "json \<Rightarrow> py_error + string" where
  "as_text (JStr s) = Inr s" | "as_text _ = Inl ValueError"

fun as_number :: "json \<Rightarrow> py_error + int" where
  "as_number (JInt n) = Inr n" | "as_number _ = Inl ValueError"

fun as_flag :: "json \<Rightarrow> py_error + bool" where
  "as_flag (JBool b) = Inr b" | "as_flag _ = Inl ValueError"

definition field_of :: "(json \<Rightarrow> py_error + 'a) \<Rightarrow> 'a option \<Rightarrow> json \<Rightarrow> string list \<Rightarrow> py_error + 'a" where
  "field_of read deflt v path =
     (case jpath v path of
        Some x \<Rightarrow> read x
      | None \<Rightarrow> (case deflt of None \<Rightarrow> Inl ValueError | Some d \<Rightarrow> Inr d))"

definition then_read :: "'e + 'a \<Rightarrow> ('a \<Rightarrow> 'e + 'b) \<Rightarrow> 'e + 'b" where
  "then_read r f = (case r of Inl e \<Rightarrow> Inl e | Inr x \<Rightarrow> f x)"

lemma then_read_Inr [simp]: "(then_read r f = Inr y) = (\<exists>x. r = Inr x \<and> f x = Inr y)"
  by (auto simp: then_read_def split: sum.split)

definition or_empty :: "json \<Rightarrow> json" where
  \<comment> \<open>\<open>v or {}\<close>\<close>
  "or_empty v = (if json_truthy v then v else JObj [])"

fun attr_path :: "json \<Rightarrow> string list \<Rightarrow> py_error + json" where
  \<comment> \<open>\<open>v.get(k1, {}).get(k2, {})\<close> and so on: a \<open>null\<close> on the way has no \<open>get\<close>.\<close>
  "attr_path v [] = Inr v"
| "attr_path v (k # ks) = then_read (attr_get v k (JObj [])) (\<lambda>x. attr_path x ks)"

end
