(* ===== verification/Checks.thy ===== *)
theory Checks
  imports GhRun Payload "HOL-Library.List_Lexorder" "HOL-Library.Char_ord"
begin

text \<open>
  The verdict on a commit's checks, \<^verbatim>\<open>src/devops_cli/github/check_verdict.py\<close>: the class of a check
  run and of a commit status, the runs that a later run replaced, the aggregated status, and the two
  readers of a commit's checks. GitHub is the environment \<open>hub\<close>: what a \<open>gh\<close> command and a listing
  answer, each a step of a world \<open>'w\<close>. The text of an error is not modelled further than the code
  repeats it; \<open>hb_repr\<close> is what \<open>str\<close> gives for a JSON value that is no text.
\<close>

section \<open>The environment\<close>

text \<open>What a read raises: a \<open>GitHubOperationError\<close> with its message, or an error of Python.\<close>

datatype failure = Refused string | Failed py_error

text \<open>The GraphQL queries the code sends; the text of a query is not modelled.\<close>

datatype graph_query =
    ReviewThreads string string int "string option"
  | OneThread string
  | ThreadComments string string
  | AddReply string string
  | ResolveThread string
  | UnresolveThread string
  | ClosingIssues string string int

record 'w hub =
  hb_run :: "string list \<Rightarrow> 'w \<Rightarrow> (failure + proc) \<times> 'w"
  hb_list :: "string \<Rightarrow> string option \<Rightarrow> 'w \<Rightarrow> (failure + json list) \<times> 'w"
  hb_rest :: "string \<Rightarrow> 'w \<Rightarrow> (failure + json) \<times> 'w"
  hb_graph :: "graph_query \<Rightarrow> 'w \<Rightarrow> (failure + proc) \<times> 'w"
  hb_loads :: "string \<Rightarrow> json option"
  hb_repr :: "json \<Rightarrow> string"

definition clip :: "string \<Rightarrow> string" where
  \<comment> \<open>\<open>text[:CONST_MAX_ERROR_DETAIL_LENGTH]\<close>\<close>
  "clip s = take 256 s"

section \<open>Buckets\<close>

datatype bucket = PASS | FAIL | PENDING | SKIPPING | CANCEL | UNREAD

definition bucket_classifier_map :: "(string, bucket) dict" where
  "bucket_classifier_map =
     [(''pass'', PASS), (''success'', PASS),
      (''fail'', FAIL), (''failure'', FAIL), (''error'', FAIL), (''timed_out'', FAIL),
      (''action_required'', FAIL), (''startup_failure'', FAIL), (''stale'', FAIL),
      (''pending'', PENDING), (''in_progress'', PENDING), (''queued'', PENDING),
      (''waiting'', PENDING), (''requested'', PENDING),
      (''skipping'', SKIPPING), (''skipped'', SKIPPING), (''neutral'', SKIPPING),
      (''cancel'', CANCEL), (''cancelled'', CANCEL)]"

record check_item =
  ci_name :: string
  ci_state :: string
  ci_bucket :: bucket
  ci_workflow :: string
  ci_link :: string

record check_summary =
  sm_items :: "check_item list"
  sm_unread :: string

definition count_of :: "bucket \<Rightarrow> check_summary \<Rightarrow> nat" where
  "count_of b s = length (filter (\<lambda>c. ci_bucket c = b) (sm_items s))"

definition exit_code :: "check_summary \<Rightarrow> int" where
  "exit_code s =
     (if count_of UNREAD s > 0 \<or> sm_unread s \<noteq> [] then 1
      else if count_of FAIL s > 0 \<or> count_of CANCEL s > 0 then 1
      else if count_of PENDING s > 0 then 8 else 0)"

definition is_passing :: "check_summary \<Rightarrow> bool" where
  "is_passing s = (exit_code s = 0)"

section \<open>Classifying one check\<close>

definition normalize_token :: "(json \<Rightarrow> string) \<Rightarrow> json \<Rightarrow> string" where
  "normalize_token repr v = (case v of JNull \<Rightarrow> [] | _ \<Rightarrow> lower (strip (json_text repr v)))"

definition resolve_bucket :: "string \<Rightarrow> string \<Rightarrow> string \<Rightarrow> bucket \<times> string" where
  "resolve_bucket bucket_str conclusion_str status_str =
     (case dict_get bucket_classifier_map bucket_str of
        Some b \<Rightarrow> (b, bucket_str)
      | None \<Rightarrow>
          if status_str \<in> set [''in_progress'', ''queued'', ''waiting'', ''requested'', ''pending'']
          then (PENDING, status_str)
          else case dict_get bucket_classifier_map conclusion_str of
                 Some b \<Rightarrow> (b, conclusion_str)
               | None \<Rightarrow>
                   (case dict_get bucket_classifier_map status_str of
                      Some b \<Rightarrow> (b, status_str)
                    | None \<Rightarrow> (UNREAD, ''unknown'')))"

definition classify_check_item ::
  "(json \<Rightarrow> string) \<Rightarrow> string \<Rightarrow> json \<Rightarrow> json \<Rightarrow> json \<Rightarrow> json \<Rightarrow> string \<Rightarrow> string \<Rightarrow> py_error + check_item" where
  \<comment> \<open>The state of an item is a text: pydantic refuses another value with a \<open>ValueError\<close>.\<close>
  "classify_check_item repr name buck state conclusion status workflow link =
     (let raw_status = (if status \<noteq> JNull then status else state);
          (matched, default_state) =
            resolve_bucket (normalize_token repr buck) (normalize_token repr conclusion)
              (normalize_token repr raw_status);
          item = (\<lambda>st. \<lparr>ci_name = (if name \<noteq> [] then name else ''unknown''), ci_state = st,
                        ci_bucket = matched, ci_workflow = workflow, ci_link = link\<rparr>)
      in if \<not> json_truthy state then Inr (item default_state)
         else case state of JStr st \<Rightarrow> Inr (item st) | _ \<Rightarrow> Inl ValueError)"

definition entry_to_check_item :: "(json \<Rightarrow> string) \<Rightarrow> json \<Rightarrow> py_error + check_item" where
  "entry_to_check_item repr entry =
     classify_check_item repr (text_or repr (jget entry ''name'') ''unknown'') (jget entry ''bucket'')
       (jget entry ''state'') JNull JNull (text_or repr (jget entry ''workflow'') [])
       (text_or repr (jget entry ''link'') [])"

definition check_run_dict_to_item :: "(json \<Rightarrow> string) \<Rightarrow> json \<Rightarrow> py_error + check_item" where
  \<comment> \<open>An \<open>app\<close> of \<open>null\<close> has no \<open>get\<close>.\<close>
  "check_run_dict_to_item repr cr =
     (case attr_get cr ''app'' (JObj []) of
        Inl e \<Rightarrow> Inl e
      | Inr app \<Rightarrow>
          (case attr_get app ''name'' JNull of
             Inl e \<Rightarrow> Inl e
           | Inr app_name \<Rightarrow>
               classify_check_item repr (text_or repr (jget cr ''name'') ''unknown'') JNull JNull
                 (jget cr ''conclusion'') (jget cr ''status'') (text_or repr app_name [])
                 (text_or repr (jget cr ''html_url'') [])))"

definition parse_gh_checks_list :: "(json \<Rightarrow> string) \<Rightarrow> json list \<Rightarrow> py_error + check_item list" where
  "parse_gh_checks_list repr data = map_each (entry_to_check_item repr) (filter is_obj data)"

definition parse_gh_checks_dict :: "(json \<Rightarrow> string) \<Rightarrow> json \<Rightarrow> py_error + check_item list" where
  "parse_gh_checks_dict repr data =
     (case jget data ''check_runs'' of
        JArr runs \<Rightarrow> map_each (check_run_dict_to_item repr) (filter is_obj runs)
      | _ \<Rightarrow> Inr [])"

definition parse_gh_checks_json :: "'w hub \<Rightarrow> string \<Rightarrow> py_error + check_item list option" where
  "parse_gh_checks_json hub raw_json =
     (case hb_loads hub raw_json of
        Some (JArr vs) \<Rightarrow> map_sum id Some (parse_gh_checks_list (hb_repr hub) vs)
      | Some (JObj kvs) \<Rightarrow> map_sum id Some (parse_gh_checks_dict (hb_repr hub) (JObj kvs))
      | _ \<Rightarrow> Inr None)"

section \<open>Runs that a later run replaced\<close>

definition run_name :: "(json \<Rightarrow> string) \<Rightarrow> json \<Rightarrow> string" where
  "run_name repr r = text_or repr (jget r ''name'') []"

definition run_started :: "(json \<Rightarrow> string) \<Rightarrow> json \<Rightarrow> string" where
  "run_started repr r = text_or repr (jget r ''started_at'') []"

fun newest_runs :: "(json \<Rightarrow> string) \<Rightarrow> json list \<Rightarrow> (string, string) dict \<Rightarrow> (string, string) dict" where
  "newest_runs repr [] newest = newest"
| "newest_runs repr (r # runs) newest =
     newest_runs repr runs
       (dict_set (run_name repr r)
          (max (get_or [] newest (run_name repr r)) (run_started repr r)) newest)"

definition is_cancelled :: "(json \<Rightarrow> string) \<Rightarrow> json \<Rightarrow> bool" where
  "is_cancelled repr r =
     (dict_get bucket_classifier_map (normalize_token repr (jget r ''conclusion'')) = Some CANCEL)"

definition without_replaced_cancellations :: "(json \<Rightarrow> string) \<Rightarrow> json list \<Rightarrow> json list" where
  "without_replaced_cancellations repr runs =
     (let newest = newest_runs repr runs []
      in filter (\<lambda>r. \<not> is_cancelled repr r
                   \<or> run_started repr r \<ge> get_or [] newest (run_name repr r)) runs)"

section \<open>Commit statuses\<close>

definition parse_single_status_item :: "(json \<Rightarrow> string) \<Rightarrow> json \<Rightarrow> (py_error + check_item) option" where
  "parse_single_status_item repr s =
     (if \<not> is_obj s then None
      else Some (classify_check_item repr (text_or repr (jget s ''context'') ''status'') JNull
             (JStr (text_or repr (jget s ''state'') [])) JNull JNull ''Commit Status''
             (text_or repr (jget s ''target_url'') [])))"

definition combined_name :: string where
  "combined_name = ''commit status (combined)''"

definition resolve_combined_status_item ::
  "(json \<Rightarrow> string) \<Rightarrow> int \<Rightarrow> nat \<Rightarrow> string \<Rightarrow> check_item list \<Rightarrow> (py_error + check_item) option" where
  "resolve_combined_status_item repr all current_count combined_state items =
     (if all \<le> int current_count then None
      else if combined_state \<in> set [''failure'', ''error''] then
        (if list_ex (\<lambda>i. ci_bucket i = FAIL) items then None
         else Some (classify_check_item repr combined_name JNull (JStr combined_state) JNull JNull
                ''Commit Status'' []))
      else if combined_state = ''pending'' then
        (if list_ex (\<lambda>i. ci_bucket i = PENDING) items then None
         else Some (classify_check_item repr combined_name JNull (JStr ''pending'') JNull JNull
                ''Commit Status'' []))
      else None)"

definition total_of :: "json \<Rightarrow> nat \<Rightarrow> int" where
  \<comment> \<open>\<open>int(total_count)\<close> of a JSON number; a boolean is an \<open>int\<close> of Python.\<close>
  "total_of v n =
     (case v of JInt k \<Rightarrow> k | JFloat x \<Rightarrow> trunc x | JBool b \<Rightarrow> (if b then 1 else 0) | _ \<Rightarrow> int n)"

definition parse_rest_commit_statuses_payload ::
  "'w hub \<Rightarrow> string \<Rightarrow> py_error + check_item list \<times> check_item option" where
  "parse_rest_commit_statuses_payload hub raw_json =
     (case hb_loads hub raw_json of
        Some (JObj kvs) \<Rightarrow>
          (let data = JObj kvs; repr = hb_repr hub;
               status_list = (case jget data ''statuses'' of JArr vs \<Rightarrow> vs | _ \<Rightarrow> [])
           in case map_each id (List.map_filter (parse_single_status_item repr) status_list) of
                Inl e \<Rightarrow> Inl e
              | Inr items \<Rightarrow>
                  (case resolve_combined_status_item repr (total_of (jget data ''total_count'') (length items))
                          (length items) (lower (text_or repr (jget data ''state'') [])) items of
                     None \<Rightarrow> Inr (items, None)
                   | Some (Inl e) \<Rightarrow> Inl e
                   | Some (Inr c) \<Rightarrow> Inr (items, Some c)))
      | _ \<Rightarrow> Inl ValueError)"

section \<open>The readers\<close>

definition check_runs_path :: "string \<Rightarrow> string \<Rightarrow> string \<Rightarrow> string" where
  "check_runs_path own repo sha =
     ''/repos/'' @ own @ ''/'' @ repo @ ''/commits/'' @ sha @ ''/check-runs?per_page=100''"

definition fetch_check_runs_from_rest ::
  "'w hub \<Rightarrow> string \<Rightarrow> string \<Rightarrow> string \<Rightarrow> 'w \<Rightarrow> (failure + check_item list \<times> string) \<times> 'w" where
  "fetch_check_runs_from_rest hub own repo sha w =
     (case hb_list hub (check_runs_path own repo sha) (Some ''check_runs'') w of
        (Inl (Refused msg), w1) \<Rightarrow> (Inr ([], ''GitHub check-runs API error: '' @ clip msg), w1)
      | (Inl e, w1) \<Rightarrow> (Inl e, w1)
      | (Inr runs, w1) \<Rightarrow>
          (case map_each (check_run_dict_to_item (hb_repr hub))
                  (without_replaced_cancellations (hb_repr hub) (filter is_obj runs)) of
             Inl e \<Rightarrow> (Inl (Failed e), w1)
           | Inr items \<Rightarrow> (Inr (items, []), w1)))"

definition proc_reason :: "proc \<Rightarrow> string" where
  \<comment> \<open>\<open>res.stderr.strip() or f"exit code {res.returncode}"\<close>\<close>
  "proc_reason res =
     (if strip (p_stderr res) \<noteq> [] then strip (p_stderr res) else ''exit code '' @ int_text (returncode res))"

text \<open>The text of the \<open>ValueError\<close> that a status payload raises is not modelled: one text stands for it.\<close>

definition unread_status :: string where
  "unread_status = ''Invalid commit status payload''"

definition fetch_commit_statuses_from_rest ::
  "'w hub \<Rightarrow> string \<Rightarrow> string \<Rightarrow> string \<Rightarrow> 'w
   \<Rightarrow> (failure + check_item list \<times> check_item option \<times> string) \<times> 'w" where
  "fetch_commit_statuses_from_rest hub own repo sha w =
     (case hb_run hub [''gh'', ''api'', ''repos/'' @ own @ ''/'' @ repo @ ''/commits/'' @ sha @ ''/status''] w of
        (Inl e, w1) \<Rightarrow> (Inl e, w1)
      | (Inr res, w1) \<Rightarrow>
          if returncode res \<noteq> 0
          then (Inr ([], None, ''GitHub commit status API error: '' @ proc_reason res), w1)
          else if strip (p_stdout res) = []
          then (Inr ([], None, ''GitHub commit status API returned empty response''), w1)
          else case parse_rest_commit_statuses_payload hub (p_stdout res) of
                 Inl ValueError \<Rightarrow> (Inr ([], None, unread_status), w1)
               | Inl e \<Rightarrow> (Inl (Failed e), w1)
               | Inr (items, combined) \<Rightarrow> (Inr (items, combined, []), w1))"

definition no_checks_reported :: check_item where
  "no_checks_reported = \<lparr>ci_name = ''no checks reported'', ci_state = ''pending'', ci_bucket = PENDING,
     ci_workflow = [], ci_link = []\<rparr>"

definition synthesize_check_items ::
  "check_item list \<Rightarrow> check_item list \<Rightarrow> check_item option \<Rightarrow> check_item list" where
  "synthesize_check_items check_items status_items combined_item =
     (let all = check_items @ status_items @ (case combined_item of None \<Rightarrow> [] | Some c \<Rightarrow> [c])
      in if all = [] then [no_checks_reported] else all)"

definition unread :: "string \<Rightarrow> check_summary" where
  "unread reason = \<lparr>sm_items = [], sm_unread = reason\<rparr>"

definition missing_sha :: string where
  "missing_sha = ''PR head commit SHA is missing for checks query''"

definition read_check_runs ::
  "'w hub \<Rightarrow> string \<Rightarrow> string \<Rightarrow> string \<Rightarrow> 'w \<Rightarrow> (failure + check_summary) \<times> 'w" where
  "read_check_runs hub own repo sha w =
     (if sha = [] then (Inr (unread missing_sha), w)
      else case fetch_check_runs_from_rest hub own repo sha w of
             (Inl e, w1) \<Rightarrow> (Inl e, w1)
           | (Inr (items, err), w1) \<Rightarrow>
               if err \<noteq> [] then (Inr (unread err), w1)
               else (Inr \<lparr>sm_items = synthesize_check_items items [] None, sm_unread = []\<rparr>, w1))"

definition read_commit_checks ::
  "'w hub \<Rightarrow> string \<Rightarrow> string \<Rightarrow> string \<Rightarrow> 'w \<Rightarrow> (failure + check_summary) \<times> 'w" where
  "read_commit_checks hub own repo sha w =
     (if sha = [] then (Inr (unread missing_sha), w)
      else case fetch_check_runs_from_rest hub own repo sha w of
             (Inl e, w1) \<Rightarrow> (Inl e, w1)
           | (Inr (items, err), w1) \<Rightarrow>
               if err \<noteq> [] then (Inr (unread err), w1)
               else case fetch_commit_statuses_from_rest hub own repo sha w1 of
                      (Inl e, w2) \<Rightarrow> (Inl e, w2)
                    | (Inr (statuses, combined, status_err), w2) \<Rightarrow>
                        if status_err \<noteq> [] then (Inr (unread status_err), w2)
                        else (Inr \<lparr>sm_items = synthesize_check_items items statuses combined,
                                   sm_unread = []\<rparr>, w2))"

section \<open>The verdict on a pull request\<close>

definition resolve_target_owner_repo :: "string option \<Rightarrow> string option \<Rightarrow> (string \<times> string) option" where
  \<comment> \<open>\<open>origin\<close>: the repository that the checkout's origin names, if a checkout is given.\<close>
  "resolve_target_owner_repo repo origin =
     (let tgt = (if falsy repo then origin else repo)
      in if falsy tgt \<or> CHR ''/'' \<notin> set (the tgt) then None
         else Some (takeWhile (\<lambda>c. c \<noteq> CHR ''/'') (the tgt),
                    tl (dropWhile (\<lambda>c. c \<noteq> CHR ''/'') (the tgt))))"

definition repo_flag :: "string option \<Rightarrow> string list" where
  "repo_flag repo = (if falsy repo then [] else [''--repo'', the repo])"

definition resolve_head_sha :: "'w hub \<Rightarrow> int \<Rightarrow> string option \<Rightarrow> 'w \<Rightarrow> (failure + string) \<times> 'w" where
  "resolve_head_sha hub number repo w =
     (case hb_run hub ([''gh'', ''pr'', ''view'', int_text number, ''--json'', ''headRefOid''] @ repo_flag repo) w of
        (Inl e, w1) \<Rightarrow> (Inl e, w1)
      | (Inr res, w1) \<Rightarrow>
          if returncode res \<noteq> 0 \<or> strip (p_stdout res) = [] then (Inr [], w1)
          else case hb_loads hub (p_stdout res) of
                 None \<Rightarrow> (Inr [], w1)
               | Some data \<Rightarrow>
                   (case attr_get data ''headRefOid'' JNull of
                      Inl e \<Rightarrow> (Inl (Failed e), w1)
                    | Inr oid \<Rightarrow>
                        if json_truthy oid then (Inr (json_text (hb_repr hub) oid), w1)
                        else case attr_get data ''head'' (JObj []) of
                               Inr (JObj kvs) \<Rightarrow>
                                 (case attr_get (JObj kvs) ''sha'' (JStr []) of
                                    Inl e \<Rightarrow> (Inl (Failed e), w1)
                                  | Inr sha \<Rightarrow> (Inr (json_text (hb_repr hub) sha), w1))
                             | _ \<Rightarrow> (Inr [], w1)))"

definition pr_checks_args :: "int \<Rightarrow> string option \<Rightarrow> string list" where
  "pr_checks_args number repo =
     [''gh'', ''pr'', ''checks'', int_text number, ''--json'', ''name,state,bucket,workflow,link''] @ repo_flag repo"

definition read_through_rest ::
  "'w hub \<Rightarrow> int \<Rightarrow> string option \<Rightarrow> string option \<Rightarrow> string option \<Rightarrow> proc \<Rightarrow> 'w
   \<Rightarrow> (failure + check_summary) \<times> 'w" where
  \<comment> \<open>The fallback of \<open>fetch_pr_check_verdicts\<close>.\<close>
  "read_through_rest hub number repo origin head_sha res w =
     (case resolve_target_owner_repo repo origin of
        None \<Rightarrow> (Inr (unread (''Failed to read checks and cannot resolve target repo: '' @ proc_reason res)), w)
      | Some (own, repo_name) \<Rightarrow>
          (case (if falsy head_sha then resolve_head_sha hub number repo w else (Inr (the head_sha), w)) of
             (Inl e, w1) \<Rightarrow> (Inl e, w1)
           | (Inr sha, w1) \<Rightarrow>
               if sha = []
               then (Inr (unread (''Failed to read checks and cannot resolve head commit SHA: '' @ proc_reason res)), w1)
               else read_commit_checks hub own repo_name sha w1))"

definition fetch_pr_check_verdicts ::
  "'w hub \<Rightarrow> int \<Rightarrow> string option \<Rightarrow> string option \<Rightarrow> string option \<Rightarrow> 'w
   \<Rightarrow> (failure + check_summary) \<times> 'w" where
  "fetch_pr_check_verdicts hub number repo origin head_sha w =
     (case hb_run hub (pr_checks_args number repo) w of
        (Inl e, w1) \<Rightarrow> (Inl e, w1)
      | (Inr res, w1) \<Rightarrow>
          (case (if returncode res = 0 \<and> strip (p_stdout res) \<noteq> []
                 then parse_gh_checks_json hub (p_stdout res) else Inr None) of
             Inl e \<Rightarrow> (Inl (Failed e), w1)
           | Inr (Some items) \<Rightarrow>
               (Inr \<lparr>sm_items = (if items = [] then [no_checks_reported] else items), sm_unread = []\<rparr>, w1)
           | Inr None \<Rightarrow> read_through_rest hub number repo origin head_sha res w1))"

end
