(* ===== verification/Threads.thy ===== *)
theory Threads
  imports Checks
begin

text \<open>
  The review threads of a pull request, \<^verbatim>\<open>src/devops_cli/github/pr_threads.py\<close>: reading them page by
  page with every comment, telling a thread somebody answered, and replying, resolving and reopening.
  A query is a constructor of \<open>graph_query\<close>. The loop over the pages of threads ends only when GitHub
  stops naming a next page, so it is a partial function; the loop over the later comments of one thread
  reads at most 100 pages.
\<close>

section \<open>One GraphQL call\<close>

definition first_error :: "(json \<Rightarrow> string) \<Rightarrow> json \<Rightarrow> failure" where
  \<comment> \<open>What \<open>data["errors"][0].get("message", ...)\<close> comes to, the errors being true.\<close>
  "first_error repr errs =
     (case errs of
        JArr (e # _) \<Rightarrow>
          (case attr_get e ''message'' (JStr ''Unknown GraphQL error'') of
             Inl x \<Rightarrow> Failed x
           | Inr m \<Rightarrow> Refused (''GraphQL error: '' @ json_text repr m))
      | JStr _ \<Rightarrow> Failed AttributeError
      | JObj _ \<Rightarrow> Failed KeyError
      | _ \<Rightarrow> Failed TypeError)"

definition parse_graphql_output :: "'w hub \<Rightarrow> string \<Rightarrow> failure + json" where
  "parse_graphql_output hub out =
     (case hb_loads hub out of
        None \<Rightarrow> Inl (Refused ''Failed to parse GraphQL response'')
      | Some data \<Rightarrow>
          if \<not> is_obj data then Inl (Refused ''Unexpected GraphQL response: expected JSON object'')
          else if json_truthy (jget data ''errors'')
          then Inl (first_error (hb_repr hub) (jget data ''errors''))
          else Inr data)"

definition run_graphql :: "'w hub \<Rightarrow> graph_query \<Rightarrow> 'w \<Rightarrow> (failure + json) \<times> 'w" where
  "run_graphql hub q w =
     (case hb_graph hub q w of
        (Inl e, w1) \<Rightarrow> (Inl e, w1)
      | (Inr p, w1) \<Rightarrow>
          if returncode p \<noteq> 0 \<or> p_stdout p = []
          then (Inl (Refused (''GitHub GraphQL query failed: '' @
                  (if p_stderr p \<noteq> [] then strip (p_stderr p) else ''Exit code '' @ int_text (returncode p)))), w1)
          else (parse_graphql_output hub (p_stdout p), w1))"

definition lifted :: "py_error + 'a \<Rightarrow> failure + 'a" where
  "lifted r = (case r of Inl e \<Rightarrow> Inl (Failed e) | Inr x \<Rightarrow> Inr x)"

section \<open>Threads and comments\<close>

record review_comment =
  rw_id :: string
  rw_body :: string
  rw_author :: string
  rw_created_at :: string
  rw_url :: string

record review_thread =
  rt_id :: string
  rt_is_resolved :: bool
  rt_is_outdated :: bool
  rt_path :: string
  rt_line :: "int option"
  rt_original_line :: "int option"
  rt_comments :: "review_comment list"

record thread_resolution =
  tr_thread_id :: string
  tr_is_resolved :: bool
  tr_success :: bool

definition ghost_login :: string where
  "ghost_login = ''ghost''"

definition author_login :: "(json \<Rightarrow> string) \<Rightarrow> json \<Rightarrow> string" where
  "author_login repr raw =
     (case jpath raw [''author''] of
        None \<Rightarrow> []
      | Some JNull \<Rightarrow> ghost_login
      | Some author \<Rightarrow>
          if is_obj author
          then json_text repr (case jpath author [''login''] of None \<Rightarrow> JStr [] | Some l \<Rightarrow> l)
          else json_text repr author)"

definition parse_review_comment :: "(json \<Rightarrow> string) \<Rightarrow> json \<Rightarrow> py_error + review_comment" where
  "parse_review_comment repr raw =
     then_read (attr_get raw ''id'' (JStr [])) (\<lambda>i. then_read (as_text i) (\<lambda>cid.
     then_read (attr_get raw ''body'' (JStr [])) (\<lambda>b. then_read (as_text b) (\<lambda>body.
     then_read (attr_get raw ''createdAt'' (JStr [])) (\<lambda>c. then_read (as_text c) (\<lambda>created.
     then_read (attr_get raw ''url'' (JStr [])) (\<lambda>u.
     then_read (if json_truthy u then as_text u else Inr []) (\<lambda>url.
       Inr \<lparr>rw_id = cid, rw_body = body, rw_author = author_login repr raw, rw_created_at = created,
            rw_url = url\<rparr>))))))))"

definition comments_of :: "(json \<Rightarrow> string) \<Rightarrow> json \<Rightarrow> py_error + review_comment list" where
  "comments_of repr nodes =
     then_read (iterated nodes) (\<lambda>vs. map_each (parse_review_comment repr) (filter is_obj vs))"

definition parse_review_thread :: "(json \<Rightarrow> string) \<Rightarrow> json \<Rightarrow> py_error + review_thread" where
  "parse_review_thread repr node =
     then_read (attr_path node [''comments'']) (\<lambda>page.
     then_read (attr_get page ''nodes'' (JArr [])) (\<lambda>nodes.
     then_read (comments_of repr nodes) (\<lambda>comments.
     then_read (attr_get node ''id'' (JStr [])) (\<lambda>i. then_read (as_text i) (\<lambda>tid.
     then_read (if json_truthy (jget node ''path'') then as_text (jget node ''path'') else Inr []) (\<lambda>path.
     then_read (optional as_number (jget node ''line'')) (\<lambda>line.
     then_read (optional as_number (jget node ''originalLine'')) (\<lambda>original.
       Inr \<lparr>rt_id = tid, rt_is_resolved = json_truthy (jget node ''isResolved''),
            rt_is_outdated = json_truthy (jget node ''isOutdated''), rt_path = path, rt_line = line,
            rt_original_line = original, rt_comments = comments\<rparr>))))))))"

definition next_cursor :: "json \<Rightarrow> py_error + json" where
  \<comment> \<open>\<open>info.get("endCursor") if info.get("hasNextPage") else None\<close>\<close>
  "next_cursor info =
     then_read (attr_get info ''hasNextPage'' JNull) (\<lambda>m.
       if json_truthy m then attr_get info ''endCursor'' JNull else Inr JNull)"

definition max_paginated_pages :: nat where
  "max_paginated_pages = 100"

definition comment_page :: "(json \<Rightarrow> string) \<Rightarrow> json \<Rightarrow> py_error + review_comment list \<times> json" where
  "comment_page repr data =
     then_read (attr_get data ''data'' JNull) (\<lambda>d.
     then_read (attr_get (or_empty d) ''node'' JNull) (\<lambda>n.
     then_read (attr_get (or_empty n) ''comments'' JNull) (\<lambda>c.
     then_read (attr_get (or_empty c) ''nodes'' JNull) (\<lambda>nodes.
     then_read (comments_of repr (if json_truthy nodes then nodes else JArr [])) (\<lambda>comments.
     then_read (attr_get (or_empty c) ''pageInfo'' JNull) (\<lambda>info.
     then_read (next_cursor (or_empty info)) (\<lambda>cursor.
       Inr (comments, cursor))))))))"

fun later_comments ::
  "nat \<Rightarrow> 'w hub \<Rightarrow> string \<Rightarrow> json \<Rightarrow> 'w \<Rightarrow> (failure + review_comment list) \<times> 'w" where
  \<comment> \<open>The number is the pages it may still read.\<close>
  "later_comments 0 hub tid cursor w = (Inr [], w)"
| "later_comments (Suc n) hub tid cursor w =
     (if \<not> json_truthy cursor then (Inr [], w)
      else case run_graphql hub (ThreadComments tid (json_text (hb_repr hub) cursor)) w of
             (Inl e, w1) \<Rightarrow> (Inl e, w1)
           | (Inr data, w1) \<Rightarrow>
               (case comment_page (hb_repr hub) data of
                  Inl e \<Rightarrow> (Inl (Failed e), w1)
                | Inr (comments, cursor1) \<Rightarrow>
                    (case later_comments n hub tid cursor1 w1 of
                       (Inl e, w2) \<Rightarrow> (Inl e, w2)
                     | (Inr later, w2) \<Rightarrow> (Inr (comments @ later), w2))))"

definition read_thread :: "'w hub \<Rightarrow> json \<Rightarrow> 'w \<Rightarrow> (failure + review_thread) \<times> 'w" where
  "read_thread hub node w =
     (case parse_review_thread (hb_repr hub) node of
        Inl e \<Rightarrow> (Inl (Failed e), w)
      | Inr t \<Rightarrow>
          (case then_read (attr_get (or_empty (jget node ''comments'')) ''pageInfo'' JNull)
                  (\<lambda>info. next_cursor (or_empty info)) of
             Inl e \<Rightarrow> (Inl (Failed e), w)
           | Inr cursor \<Rightarrow>
               if \<not> json_truthy cursor then (Inr t, w)
               else case later_comments max_paginated_pages hub (rt_id t)
                           (JStr (json_text (hb_repr hub) cursor)) w of
                      (Inl e, w1) \<Rightarrow> (Inl e, w1)
                    | (Inr later, w1) \<Rightarrow> (Inr (t\<lparr>rt_comments := rt_comments t @ later\<rparr>), w1)))"

fun read_threads :: "'w hub \<Rightarrow> json list \<Rightarrow> 'w \<Rightarrow> (failure + review_thread list) \<times> 'w" where
  "read_threads hub [] w = (Inr [], w)"
| "read_threads hub (node # nodes) w =
     (case read_thread hub node w of
        (Inl e, w1) \<Rightarrow> (Inl e, w1)
      | (Inr t, w1) \<Rightarrow>
          (case read_threads hub nodes w1 of
             (Inl e, w2) \<Rightarrow> (Inl e, w2)
           | (Inr ts, w2) \<Rightarrow> (Inr (t # ts), w2)))"

section \<open>The listing\<close>

definition thread_page :: "json \<Rightarrow> py_error + json list \<times> json" where
  \<comment> \<open>The thread nodes of one page, and its page information.\<close>
  "thread_page data =
     then_read (attr_path data [''data'', ''repository'', ''pullRequest'', ''reviewThreads'']) (\<lambda>page.
     then_read (attr_get page ''nodes'' (JArr [])) (\<lambda>nodes.
     then_read (iterated nodes) (\<lambda>vs.
     then_read (attr_path page [''pageInfo'']) (\<lambda>info.
       Inr (filter is_obj vs, info)))))"

definition read_thread_page ::
  "'w hub \<Rightarrow> string \<Rightarrow> string \<Rightarrow> int \<Rightarrow> json \<Rightarrow> 'w \<Rightarrow> (failure + review_thread list \<times> json) \<times> 'w" where
  \<comment> \<open>One round of the loop: the threads of a page, and the cursor of the next one, which is false at the end.\<close>
  "read_thread_page hub own repo number cursor w =
     (case run_graphql hub (ReviewThreads own repo number
             (if json_truthy cursor then Some (json_text (hb_repr hub) cursor) else None)) w of
        (Inl e, w1) \<Rightarrow> (Inl e, w1)
      | (Inr data, w1) \<Rightarrow>
          (case thread_page data of
             Inl e \<Rightarrow> (Inl (Failed e), w1)
           | Inr (nodes, info) \<Rightarrow>
               (case read_threads hub nodes w1 of
                  (Inl e, w2) \<Rightarrow> (Inl e, w2)
                | (Inr ts, w2) \<Rightarrow>
                    (case next_cursor info of
                       Inl e \<Rightarrow> (Inl (Failed e), w2)
                     | Inr cursor1 \<Rightarrow> (Inr (ts, cursor1), w2)))))"

partial_function (option) threads_from ::
  "'w hub \<Rightarrow> string \<Rightarrow> string \<Rightarrow> int \<Rightarrow> json \<Rightarrow> review_thread list \<Rightarrow> 'w
   \<Rightarrow> ((failure + review_thread list) \<times> 'w) option" where
  "threads_from hub own repo number cursor threads w =
     (case read_thread_page hub own repo number cursor w of
        (Inl e, w1) \<Rightarrow> Some (Inl e, w1)
      | (Inr (ts, cursor1), w1) \<Rightarrow>
          if json_truthy cursor1 then threads_from hub own repo number cursor1 (threads @ ts) w1
          else Some (Inr (threads @ ts), w1))"

declare threads_from.simps [code]

definition list_pr_review_threads ::
  "'w hub \<Rightarrow> string \<Rightarrow> string \<Rightarrow> int \<Rightarrow> bool \<Rightarrow> 'w
   \<Rightarrow> ((failure + review_thread list) \<times> 'w) option" where
  "list_pr_review_threads hub own repo number unresolved_only w =
     (case threads_from hub own (last (split_on CHR ''/'' repo)) number JNull [] w of
        None \<Rightarrow> None
      | Some (Inl e, w1) \<Rightarrow> Some (Inl e, w1)
      | Some (Inr ts, w1) \<Rightarrow>
          Some (Inr (if unresolved_only then filter (\<lambda>t. \<not> rt_is_resolved t) ts else ts), w1))"

section \<open>Answers\<close>

definition has_non_opener_reply :: "review_thread \<Rightarrow> bool" where
  "has_non_opener_reply t =
     (case rt_comments t of
        first # later \<Rightarrow>
          list_ex (\<lambda>c. lower (strip (rw_author c)) \<noteq> lower (strip (rw_author first))) later
      | [] \<Rightarrow> False)"

definition reply_pr_review_thread ::
  "'w hub \<Rightarrow> string \<Rightarrow> string \<Rightarrow> 'w \<Rightarrow> (failure + review_comment) \<times> 'w" where
  "reply_pr_review_thread hub tid body w =
     (if strip body = [] then (Inl (Refused ''Reply comment body cannot be empty.''), w)
      else case run_graphql hub (AddReply tid (strip body)) w of
             (Inl e, w1) \<Rightarrow> (Inl e, w1)
           | (Inr data, w1) \<Rightarrow>
               (lifted (then_read (attr_path data [''data'', ''addPullRequestReviewThreadReply'', ''comment''])
                  (parse_review_comment (hb_repr hub))), w1))"

definition resolution ::
  "string \<Rightarrow> bool \<Rightarrow> string \<Rightarrow> json \<Rightarrow> py_error + thread_resolution" where
  "resolution query deflt tid data =
     then_read (attr_path data [''data'', query, ''thread'']) (\<lambda>t.
     then_read (attr_get t ''isResolved'' (JBool deflt)) (\<lambda>r.
       Inr \<lparr>tr_thread_id = tid, tr_is_resolved = json_truthy r, tr_success = True\<rparr>))"

definition resolve_pr_review_thread ::
  "'w hub \<Rightarrow> string \<Rightarrow> 'w \<Rightarrow> (failure + thread_resolution) \<times> 'w" where
  "resolve_pr_review_thread hub tid w =
     (case run_graphql hub (ResolveThread tid) w of
        (Inl e, w1) \<Rightarrow> (Inl e, w1)
      | (Inr data, w1) \<Rightarrow> (lifted (resolution ''resolveReviewThread'' True tid data), w1))"

definition unresolve_pr_review_thread ::
  "'w hub \<Rightarrow> string \<Rightarrow> 'w \<Rightarrow> (failure + thread_resolution) \<times> 'w" where
  "unresolve_pr_review_thread hub tid w =
     (case run_graphql hub (UnresolveThread tid) w of
        (Inl e, w1) \<Rightarrow> (Inl e, w1)
      | (Inr data, w1) \<Rightarrow> (lifted (resolution ''unresolveReviewThread'' False tid data), w1))"

definition attempt_resolve_thread ::
  "'w hub \<Rightarrow> string \<Rightarrow> 'w \<Rightarrow> (failure + thread_resolution) \<times> 'w" where
  "attempt_resolve_thread hub tid w =
     (case resolve_pr_review_thread hub tid w of
        (Inl (Refused _), w1) \<Rightarrow> (Inr \<lparr>tr_thread_id = tid, tr_is_resolved = False, tr_success = False\<rparr>, w1)
      | r \<Rightarrow> r)"

definition get_pr_review_thread :: "'w hub \<Rightarrow> string \<Rightarrow> 'w \<Rightarrow> (failure + review_thread) \<times> 'w" where
  "get_pr_review_thread hub tid w =
     (case run_graphql hub (OneThread tid) w of
        (Inl e, w1) \<Rightarrow> (Inl e, w1)
      | (Inr data, w1) \<Rightarrow>
          (case then_read (attr_path data [''data'']) (\<lambda>d. attr_get d ''node'' JNull) of
             Inl e \<Rightarrow> (Inl (Failed e), w1)
           | Inr node \<Rightarrow>
               if \<not> is_obj node \<or> \<not> json_truthy (jget node ''id'')
               then (Inl (Refused (''Review thread '' @ tid @ '' not found.'')), w1)
               else (lifted (parse_review_thread (hb_repr hub) node), w1)))"

fun attempt_each ::
  "'w hub \<Rightarrow> review_thread list \<Rightarrow> 'w \<Rightarrow> (failure + thread_resolution list) \<times> 'w" where
  "attempt_each hub [] w = (Inr [], w)"
| "attempt_each hub (t # ts) w =
     (case attempt_resolve_thread hub (rt_id t) w of
        (Inl e, w1) \<Rightarrow> (Inl e, w1)
      | (Inr r, w1) \<Rightarrow>
          (case attempt_each hub ts w1 of
             (Inl e, w2) \<Rightarrow> (Inl e, w2)
           | (Inr rs, w2) \<Rightarrow> (Inr (r # rs), w2)))"

definition resolve_all_pr_review_threads ::
  "'w hub \<Rightarrow> string \<Rightarrow> string \<Rightarrow> int \<Rightarrow> bool \<Rightarrow> 'w
   \<Rightarrow> ((failure + thread_resolution list) \<times> 'w) option" where
  "resolve_all_pr_review_threads hub own repo number only_replied w =
     (case list_pr_review_threads hub own repo number True w of
        None \<Rightarrow> None
      | Some (Inl e, w1) \<Rightarrow> Some (Inl e, w1)
      | Some (Inr unresolved, w1) \<Rightarrow>
          Some (attempt_each hub (filter (\<lambda>t. \<not> only_replied \<or> has_non_opener_reply t) unresolved) w1))"

end
