(* ===== verification/Candidate.thy ===== *)
theory Candidate
  imports Checks
begin

text \<open>
  The release pull request that the scheduled merge may merge,
  \<^verbatim>\<open>src/devops_cli/release/merge_candidate.py\<close>: the facts read about one, the refusals of its
  guards, and the pick over the open ones. A refusal is a value that names its guard; its wording
  is not modelled. \<open>is_version\<close> stands for the parser of the \<open>packaging\<close> library. A listing is
  read whole before its items are judged.
\<close>

section \<open>The facts\<close>

record release_pull =
  rl_number :: int
  rl_title :: string
  rl_state :: string
  rl_draft :: bool
  rl_author :: string
  rl_head_ref :: string
  rl_head_sha :: string
  rl_head_repository :: "string option"
  rl_base_ref :: string
  rl_labels :: "string list"
  rl_mergeable :: "bool option"
  rl_mergeable_state :: string

definition label_name :: "(json \<Rightarrow> string) \<Rightarrow> json \<Rightarrow> py_error + string" where
  "label_name repr item =
     (if is_obj item then then_read (subscript item ''name'') as_text else Inr (json_text repr item))"

definition label_names :: "(json \<Rightarrow> string) \<Rightarrow> json \<Rightarrow> py_error + string list" where
  "label_names repr v =
     (if \<not> json_truthy v then Inr [] else then_read (iterated v) (map_each (label_name repr)))"

definition release_pull_of :: "(json \<Rightarrow> string) \<Rightarrow> json \<Rightarrow> py_error + release_pull" where
  "release_pull_of repr v =
     then_read (field_of as_number None v [''number'']) (\<lambda>number.
     then_read (field_of as_text None v [''title'']) (\<lambda>title.
     then_read (field_of as_text None v [''state'']) (\<lambda>state.
     then_read (field_of as_flag (Some False) v [''draft'']) (\<lambda>draft.
     then_read (field_of as_text None v [''user'', ''login'']) (\<lambda>author.
     then_read (field_of as_text None v [''head'', ''ref'']) (\<lambda>head_ref.
     then_read (field_of as_text None v [''head'', ''sha'']) (\<lambda>head_sha.
     then_read (field_of (optional as_text) (Some None) v [''head'', ''repo'', ''full_name'']) (\<lambda>head_repo.
     then_read (field_of as_text None v [''base'', ''ref'']) (\<lambda>base_ref.
     then_read (field_of (label_names repr) (Some []) v [''labels'']) (\<lambda>labels.
     then_read (field_of (optional as_flag) (Some None) v [''mergeable'']) (\<lambda>mergeable.
     then_read (field_of as_text (Some []) v [''mergeable_state'']) (\<lambda>mergeable_state.
       Inr \<lparr>rl_number = number, rl_title = title, rl_state = state, rl_draft = draft, rl_author = author,
            rl_head_ref = head_ref, rl_head_sha = head_sha, rl_head_repository = head_repo,
            rl_base_ref = base_ref, rl_labels = labels, rl_mergeable = mergeable,
            rl_mergeable_state = mergeable_state\<rparr>))))))))))))"

record pull_file =
  pf_filename :: string
  pf_status :: string
  pf_previous :: "string option"

definition pull_file_of :: "json \<Rightarrow> py_error + pull_file" where
  \<comment> \<open>The counts of lines of \<open>PullRequestFile\<close> are not read here.\<close>
  "pull_file_of v =
     then_read (field_of as_text None v [''filename'']) (\<lambda>name.
     then_read (field_of as_text None v [''status'']) (\<lambda>status.
     then_read (field_of (optional as_text) (Some None) v [''previous_filename'']) (\<lambda>previous.
       Inr \<lparr>pf_filename = name, pf_status = status, pf_previous = previous\<rparr>)))"

record release_facts =
  rf_pull :: release_pull
  rf_repository :: string
  rf_app_login :: string
  rf_files :: "pull_file list"
  rf_required :: "string list"
  rf_pull_checks :: check_summary
  rf_base_checks :: check_summary

section \<open>The guards\<close>

datatype subject = ThePull | TheBase

datatype refusal =
    NotOpen
  | IsDraft
  | WrongAuthor string
  | WrongBranch string
  | NoReleaseLabel
  | OnHold
  | NoVersionTitle
  | NotMergeable string
  | WrongFile string
  | ChecksUnread subject string
  | NoRequiredCheck
  | RequiredMissing string
  | RequiredState string string
  | OtherFailed string
  | BaseRed string

definition base_branch :: string where
  "base_branch = ''main''"

definition release_label :: string where
  "release_label = ''autorelease: pending''"

definition hold_label :: string where
  "hold_label = ''hold-release''"

definition release_branch_prefix :: string where
  "release_branch_prefix = ''release-please--branches--'' @ base_branch"

definition title_prefix :: string where
  "title_prefix = ''chore('' @ base_branch @ ''): release ''"

definition release_files :: "string list" where
  "release_files = [''.release-please-manifest.json'', ''CHANGELOG.md'', ''pyproject.toml'', ''uv.lock'']"

definition mergeable_states :: "string list" where
  "mergeable_states = [''clean'', ''unstable'', ''has_hooks'']"

definition not_green :: "check_item \<Rightarrow> bool" where
  "not_green i = (ci_bucket i = FAIL \<or> ci_bucket i = CANCEL)"

definition title_names_a_version :: "(string \<Rightarrow> bool) \<Rightarrow> string \<Rightarrow> bool" where
  "title_names_a_version is_version title =
     (prefix title_prefix title \<and> is_version (drop (length title_prefix) title))"

definition pull_refusals :: "(string \<Rightarrow> bool) \<Rightarrow> release_facts \<Rightarrow> refusal list" where
  "pull_refusals is_version f =
     (let pull = rf_pull f
      in (if rl_state pull \<noteq> ''open'' then [NotOpen] else [])
       @ (if rl_draft pull then [IsDraft] else [])
       @ (if lower (rl_author pull) \<noteq> lower (rf_app_login f) then [WrongAuthor (rl_author pull)] else [])
       @ (if \<not> prefix release_branch_prefix (rl_head_ref pull) \<or> rl_base_ref pull \<noteq> base_branch
             \<or> rl_head_repository pull \<noteq> Some (rf_repository f)
          then [WrongBranch (rl_head_ref pull)] else [])
       @ (if release_label \<notin> set (rl_labels pull) then [NoReleaseLabel] else [])
       @ (if hold_label \<in> set (rl_labels pull) then [OnHold] else [])
       @ (if \<not> title_names_a_version is_version (rl_title pull) then [NoVersionTitle] else [])
       @ (if rl_mergeable pull \<noteq> Some True \<or> rl_mergeable_state pull \<notin> set mergeable_states
          then [NotMergeable (if rl_mergeable_state pull \<noteq> [] then rl_mergeable_state pull else ''unknown'')]
          else []))"

definition file_paths :: "pull_file \<Rightarrow> string list" where
  "file_paths c = pf_filename c # (if falsy (pf_previous c) then [] else [the (pf_previous c)])"

definition file_refusals :: "release_facts \<Rightarrow> refusal list" where
  "file_refusals f =
     concat (map (\<lambda>c. map WrongFile
       (filter (\<lambda>path. path \<notin> set release_files \<or> pf_status c \<noteq> ''modified'') (file_paths c))) (rf_files f))"

definition bucket_name :: "bucket \<Rightarrow> string" where
  "bucket_name b =
     (case b of PASS \<Rightarrow> ''pass'' | FAIL \<Rightarrow> ''fail'' | PENDING \<Rightarrow> ''pending'' | SKIPPING \<Rightarrow> ''skipping''
      | CANCEL \<Rightarrow> ''cancel'' | UNREAD \<Rightarrow> ''unread'')"

definition unread_refusals :: "release_facts \<Rightarrow> refusal list" where
  "unread_refusals f =
     (if sm_unread (rf_pull_checks f) \<noteq> [] then [ChecksUnread ThePull (sm_unread (rf_pull_checks f))] else [])
     @ (if sm_unread (rf_base_checks f) \<noteq> [] then [ChecksUnread TheBase (sm_unread (rf_base_checks f))] else [])
     @ (if rf_required f = [] then [NoRequiredCheck] else [])"

definition required_refusals :: "release_facts \<Rightarrow> string \<Rightarrow> refusal list" where
  "required_refusals f name =
     (let items = filter (\<lambda>i. ci_name i = name) (sm_items (rf_pull_checks f))
      in (if items = [] then [RequiredMissing name] else [])
       @ map (\<lambda>i. RequiredState name (if ci_state i \<noteq> [] then ci_state i else bucket_name (ci_bucket i)))
           (filter (\<lambda>i. ci_bucket i \<noteq> PASS) items))"

definition check_refusals :: "release_facts \<Rightarrow> refusal list" where
  "check_refusals f =
     (if unread_refusals f \<noteq> [] then unread_refusals f
      else concat (map (required_refusals f) (sort (remdups (rf_required f))))
         @ map (\<lambda>i. OtherFailed (ci_name i))
             (filter (\<lambda>i. ci_name i \<notin> set (rf_required f) \<and> not_green i) (sm_items (rf_pull_checks f)))
         @ map (\<lambda>i. BaseRed (ci_name i))
             (filter (\<lambda>i. ci_name i \<in> set (rf_required f) \<and> not_green i) (sm_items (rf_base_checks f))))"

definition refusals :: "(string \<Rightarrow> bool) \<Rightarrow> release_facts \<Rightarrow> refusal list" where
  "refusals is_version f = pull_refusals is_version f @ file_refusals f @ check_refusals f"

section \<open>The pick\<close>

definition rule_contexts :: "(json \<Rightarrow> string) \<Rightarrow> json \<Rightarrow> py_error + string list" where
  "rule_contexts repr rule =
     (if \<not> is_obj rule \<or> jget rule ''type'' \<noteq> JStr ''required_status_checks'' then Inr []
      else then_read (attr_get rule ''parameters'' (JObj [])) (\<lambda>params.
           then_read (attr_get params ''required_status_checks'' (JArr [])) (\<lambda>cs.
           then_read (iterated cs)
             (map_each (\<lambda>c. then_read (subscript c ''context'') (\<lambda>v. Inr (json_text repr v)))))))"

definition required_checks :: "'w hub \<Rightarrow> string \<Rightarrow> 'w \<Rightarrow> (failure + string list) \<times> 'w" where
  "required_checks hub repo w =
     (case hb_list hub (''/repos/'' @ repo @ ''/rules/branches/'' @ base_branch @ ''?per_page=100'') None w of
        (Inl e, w1) \<Rightarrow> (Inl e, w1)
      | (Inr rules, w1) \<Rightarrow>
          (case map_each (rule_contexts (hb_repr hub)) rules of
             Inl e \<Rightarrow> (Inl (Failed e), w1)
           | Inr names \<Rightarrow> (Inr (sort (remdups (concat names))), w1)))"

definition release_number :: "json \<Rightarrow> py_error + int list" where
  \<comment> \<open>The number of a listed pull request that carries the release label.\<close>
  "release_number item =
     (if \<not> is_obj item then Inr []
      else then_read (attr_get item ''labels'' (JArr [])) (\<lambda>ls.
           then_read (iterated ls) (\<lambda>vs.
           then_read (map_each (\<lambda>l. subscript l ''name'') vs) (\<lambda>names.
             if JStr release_label \<notin> set names then Inr []
             else then_read (subscript item ''number'') (\<lambda>n. then_read (py_int n) (\<lambda>k. Inr [k]))))))"

definition release_numbers :: "'w hub \<Rightarrow> string \<Rightarrow> 'w \<Rightarrow> (failure + int list) \<times> 'w" where
  "release_numbers hub repo w =
     (case hb_list hub (''/repos/'' @ repo @ ''/pulls?state=open&base='' @ base_branch @ ''&per_page=100'') None w of
        (Inl e, w1) \<Rightarrow> (Inl e, w1)
      | (Inr items, w1) \<Rightarrow>
          (case map_each release_number items of
             Inl e \<Rightarrow> (Inl (Failed e), w1)
           | Inr ns \<Rightarrow> (Inr (sort (concat ns)), w1)))"

definition pull_path :: "string \<Rightarrow> int \<Rightarrow> string" where
  "pull_path repo number = ''/repos/'' @ repo @ ''/pulls/'' @ int_text number"

definition changed_files :: "'w hub \<Rightarrow> string \<Rightarrow> int \<Rightarrow> 'w \<Rightarrow> (failure + pull_file list) \<times> 'w" where
  "changed_files hub repo number w =
     (case hb_list hub (pull_path repo number @ ''/files?per_page=100'') None w of
        (Inl e, w1) \<Rightarrow> (Inl e, w1)
      | (Inr items, w1) \<Rightarrow>
          (case map_each pull_file_of items of Inl e \<Rightarrow> (Inl (Failed e), w1) | Inr fs \<Rightarrow> (Inr fs, w1)))"

definition release_facts_of ::
  "'w hub \<Rightarrow> string \<Rightarrow> string \<Rightarrow> string list \<Rightarrow> check_summary \<Rightarrow> int \<Rightarrow> 'w
   \<Rightarrow> (failure + release_facts) \<times> 'w" where
  \<comment> \<open>The facts of one round of the loop of \<open>pick\<close>.\<close>
  "release_facts_of hub repo app required base_checks number w =
     (case hb_rest hub (pull_path repo number) w of
        (Inl e, w1) \<Rightarrow> (Inl e, w1)
      | (Inr payload, w1) \<Rightarrow>
          (case release_pull_of (hb_repr hub) payload of
             Inl e \<Rightarrow> (Inl (Failed e), w1)
           | Inr pull \<Rightarrow>
               (case changed_files hub repo number w1 of
                  (Inl e, w2) \<Rightarrow> (Inl e, w2)
                | (Inr fs, w2) \<Rightarrow>
                    (case read_check_runs hub (takeWhile (\<lambda>c. c \<noteq> CHR ''/'') repo)
                            (tl (dropWhile (\<lambda>c. c \<noteq> CHR ''/'') repo)) (rl_head_sha pull) w2 of
                       (Inl e, w3) \<Rightarrow> (Inl e, w3)
                     | (Inr checks, w3) \<Rightarrow>
                         (Inr \<lparr>rf_pull = pull, rf_repository = repo, rf_app_login = app, rf_files = fs,
                               rf_required = required, rf_pull_checks = checks, rf_base_checks = base_checks\<rparr>,
                          w3)))))"

record release_candidate =
  rc_number :: int
  rc_head_sha :: string

datatype note_line = NoReleasePull | RefusedPull int refusal

fun pick_first ::
  "'w hub \<Rightarrow> (string \<Rightarrow> bool) \<Rightarrow> string \<Rightarrow> string \<Rightarrow> string list \<Rightarrow> check_summary \<Rightarrow> int list
   \<Rightarrow> note_line list \<Rightarrow> 'w \<Rightarrow> (failure + release_candidate option) \<times> note_line list \<times> 'w" where
  "pick_first hub is_version repo app required base_checks [] said w = (Inr None, said, w)"
| "pick_first hub is_version repo app required base_checks (number # numbers) said w =
     (case release_facts_of hub repo app required base_checks number w of
        (Inl e, w1) \<Rightarrow> (Inl e, said, w1)
      | (Inr f, w1) \<Rightarrow>
          (let found = refusals is_version f
           in if found = [] then (Inr (Some \<lparr>rc_number = number, rc_head_sha = rl_head_sha (rf_pull f)\<rparr>), said, w1)
              else pick_first hub is_version repo app required base_checks numbers
                     (said @ map (RefusedPull number) found) w1))"

definition base_sha_of :: "(json \<Rightarrow> string) \<Rightarrow> json \<Rightarrow> py_error + string" where
  "base_sha_of repr v =
     then_read (subscript v ''commit'') (\<lambda>c. then_read (subscript c ''sha'') (\<lambda>s. Inr (json_text repr s)))"

definition pick ::
  "'w hub \<Rightarrow> (string \<Rightarrow> bool) \<Rightarrow> string \<Rightarrow> string \<Rightarrow> 'w
   \<Rightarrow> (failure + release_candidate option) \<times> note_line list \<times> 'w" where
  "pick hub is_version repo app w =
     (if CHR ''/'' \<notin> set repo then (Inl (Failed ValueError), [], w)
      else case release_numbers hub repo w of
             (Inl e, w1) \<Rightarrow> (Inl e, [], w1)
           | (Inr [], w1) \<Rightarrow> (Inr None, [NoReleasePull], w1)
           | (Inr numbers, w1) \<Rightarrow>
               (case required_checks hub repo w1 of
                  (Inl e, w2) \<Rightarrow> (Inl e, [], w2)
                | (Inr required, w2) \<Rightarrow>
                    (case hb_rest hub (''/repos/'' @ repo @ ''/branches/'' @ base_branch) w2 of
                       (Inl e, w3) \<Rightarrow> (Inl e, [], w3)
                     | (Inr branch, w3) \<Rightarrow>
                         (case base_sha_of (hb_repr hub) branch of
                            Inl e \<Rightarrow> (Inl (Failed e), [], w3)
                          | Inr sha \<Rightarrow>
                              (case read_check_runs hub (takeWhile (\<lambda>c. c \<noteq> CHR ''/'') repo)
                                      (tl (dropWhile (\<lambda>c. c \<noteq> CHR ''/'') repo)) sha w3 of
                                 (Inl e, w4) \<Rightarrow> (Inl e, [], w4)
                               | (Inr base_checks, w4) \<Rightarrow>
                                   pick_first hub is_version repo app required base_checks numbers [] w4)))))"

definition merge_candidate_main ::
  "'w hub \<Rightarrow> (string \<Rightarrow> bool) \<Rightarrow> string \<Rightarrow> string \<Rightarrow> 'w \<Rightarrow> (py_error + int \<times> string) \<times> 'w" where
  \<comment> \<open>The exit status and standard output of \<open>main\<close>, its arguments read.\<close>
  "merge_candidate_main hub is_version repo app w =
     (case pick hub is_version repo app w of
        (Inl (Refused msg), said, w1) \<Rightarrow> (Inr (1, []), w1)
      | (Inl (Failed e), said, w1) \<Rightarrow> (Inl e, w1)
      | (Inr None, said, w1) \<Rightarrow> (Inr (0, []), w1)
      | (Inr (Some c), said, w1) \<Rightarrow>
          (Inr (0, ''number='' @ int_text (rc_number c) @ [CHR 0x0A] @ ''sha='' @ rc_head_sha c @ [CHR 0x0A]), w1))"

end
