(* ===== verification/LabelFamilies.thy ===== *)
theory LabelFamilies
  imports Prelude
begin

text \<open>
  The fields of a roadmap Item and their label families, from
  \<^verbatim>\<open>src/devops_cli/roadmap/stores/store.py\<close> and \<^verbatim>\<open>src/devops_cli/config/constants.py\<close>: a label is the
  field's name and the value, in lower case, with a hyphen for each space. A lower-case text is one
  whose ASCII letters are lower case.
\<close>

datatype item_field = Status | Priority | Value | Effort | Owner

definition all_fields :: "item_field list" where
  "all_fields = [Status, Priority, Value, Effort, Owner]"

fun field_text :: "item_field \<Rightarrow> string" where
  "field_text Status = ''Status''"
| "field_text Priority = ''Priority''"
| "field_text Value = ''Value''"
| "field_text Effort = ''Effort''"
| "field_text Owner = ''Owner''"

definition status_values :: "string list" where
  "status_values = [''New'', ''Ready'', ''Planned'', ''In Progress'', ''In Review'', ''Blocked'']"

definition priority_values :: "string list" where
  "priority_values = [''P0-Critical'', ''P1-High'', ''P2-Medium'', ''P3-Low'']"

definition size_options :: "string list" where
  "size_options = [''High'', ''Medium'', ''Low'']"

definition owner_values :: "string list" where
  "owner_values = [''Service'', ''Agent'', ''Human'']"

fun values_of_field :: "item_field \<Rightarrow> string list" where
  "values_of_field Status = status_values"
| "values_of_field Priority = priority_values"
| "values_of_field Value = size_options"
| "values_of_field Effort = size_options"
| "values_of_field Owner = owner_values"

definition family_prefix :: "item_field \<Rightarrow> string" where
  "family_prefix f = lower (field_text f) @ ''/''"

definition label_slug :: "string \<Rightarrow> string" where
  "label_slug v = map (\<lambda>c. if c = CHR '' '' then CHR ''-'' else c) (lower v)"

definition field_label :: "item_field \<Rightarrow> string \<Rightarrow> string" where
  "field_label f v = family_prefix f @ label_slug v"

text \<open>The fields are an enumeration, so a statement about each of them is computed.\<close>

instantiation item_field :: enum
begin

definition "enum_item_field = [Status, Priority, Value, Effort, Owner]"
definition "enum_all_item_field P = (P Status \<and> P Priority \<and> P Value \<and> P Effort \<and> P Owner)"
definition "enum_ex_item_field P = (P Status \<or> P Priority \<or> P Value \<or> P Effort \<or> P Owner)"

instance proof
  have all: "(UNIV :: item_field set) = {Status, Priority, Value, Effort, Owner}"
    using item_field.exhaust by auto
  show "(UNIV :: item_field set) = set enum_class.enum" by (simp add: enum_item_field_def all)
  show "distinct (enum_class.enum :: item_field list)" by (simp add: enum_item_field_def)
  show "enum_class.enum_all P = Ball (UNIV :: item_field set) P" for P
    by (simp add: enum_all_item_field_def all)
  show "enum_class.enum_ex P = Bex (UNIV :: item_field set) P" for P
    by (simp add: enum_ex_item_field_def all)
qed

end

end
