(* ===== verification/Grounding.thy ===== *)
theory Grounding
  imports LabelFamilies
begin

text \<open>
  The item rules of a pull request, \<^verbatim>\<open>src/devops_cli/roadmap/grounding.py\<close>: the grammar of a change
  folder and of an archived one, the facts the rules judge, the nine rules in their order, and the
  rules of a pull request that only plans an item. A broken rule is a value that names it; its
  wording is not modelled, but for the paths and names the code computes for it.
\<close>

section \<open>Change folders\<close>

definition openspec_changes_dir :: string where
  "openspec_changes_dir = ''openspec/changes''"

definition openspec_archive_dir :: string where
  "openspec_archive_dir = openspec_changes_dir @ ''/archive''"

definition openspec_specs_dir :: string where
  "openspec_specs_dir = ''openspec/specs''"

definition change_then_path :: "string \<Rightarrow> (int \<times> string) option" where
  \<comment> \<open>A full match of \<open>(?P<change>(?P<issue>\d+)-[^/]+)/.+\<close>: the issue and the change's name. Each part ends
    where the next one's first character stands, so the match is unique.\<close>
  "change_then_path s =
     (let ds = takeWhile is_digit s; after = drop (length ds) s;
          slug = takeWhile (\<lambda>c. c \<noteq> CHR ''/'') (tl after); rest = tl (dropWhile (\<lambda>c. c \<noteq> CHR ''/'') (tl after))
      in if ds = [] \<or> after = [] \<or> hd after \<noteq> CHR ''-'' \<or> slug = [] \<or> rest = [] \<or> CHR 0x0A \<in> set rest then None
         else Some (digits_val ds, ds @ ''-'' @ slug))"

definition change_name :: "string \<Rightarrow> int option" where
  \<comment> \<open>A full match of \<open>(?P<issue>\d+)-[^/]+\<close>.\<close>
  "change_name s =
     (let ds = takeWhile is_digit s; after = drop (length ds) s
      in if ds = [] \<or> after = [] \<or> hd after \<noteq> CHR ''-'' \<or> tl after = [] \<or> CHR ''/'' \<in> set (tl after)
         then None else Some (digits_val ds))"

definition without_prefix :: "string \<Rightarrow> string \<Rightarrow> string option" where
  "without_prefix p s = (if prefix p s then Some (drop (length p) s) else None)"

definition dated :: "string \<Rightarrow> string option" where
  \<comment> \<open>What follows \<open>\d{4}-\d{2}-\d{2}-\<close>.\<close>
  "dated s =
     (if length s \<ge> 11 \<and> list_all (\<lambda>i. is_digit (s ! i)) [0, 1, 2, 3, 5, 6, 8, 9]
         \<and> list_all (\<lambda>i. s ! i = CHR ''-'') [4, 7, 10]
      then Some (drop 11 s) else None)"

definition change_folder :: "string \<Rightarrow> (int \<times> string) option" where
  "change_folder path = Option.bind (without_prefix (openspec_changes_dir @ ''/'') path) change_then_path"

definition archived_folder_of :: "string \<Rightarrow> (int \<times> string) option" where
  "archived_folder_of path =
     Option.bind (Option.bind (without_prefix (openspec_archive_dir @ ''/'') path) dated) change_then_path"

section \<open>The facts\<close>

record pr_file =
  fi_filename :: string
  fi_status :: string

record closing_issue =
  is_number :: int
  is_state :: string
  is_repository :: string
  is_labels :: "string list"

record closing_read =
  cl_issues :: "closing_issue list"
  cl_total :: int
  cl_error :: string

record grounding =
  gr_repo :: string
  gr_base :: string
  gr_default :: string
  gr_files :: "pr_file list"
  gr_files_error :: string
  gr_closing :: "closing_read option"

definition is_of :: "string \<Rightarrow> closing_issue \<Rightarrow> bool" where
  "is_of repo i = (lower (is_repository i) = lower repo)"

definition is_item :: "closing_issue \<Rightarrow> bool" where
  "is_item i =
     list_ex (\<lambda>l. lower l \<in> set (map (field_label Priority) priority_values)) (is_labels i)"

definition into_default :: "grounding \<Rightarrow> bool" where
  "into_default g = (gr_default g \<noteq> [] \<and> gr_base g = gr_default g)"

definition the_issue :: "grounding \<Rightarrow> closing_issue option" where
  "the_issue g =
     (case gr_closing g of
        None \<Rightarrow> None
      | Some c \<Rightarrow>
          if cl_error c \<noteq> [] \<or> cl_total c \<noteq> 1 \<or> length (cl_issues c) \<noteq> 1 then None
          else Some (hd (cl_issues c)))"

definition own_issue :: "grounding \<Rightarrow> closing_issue option" where
  "own_issue g =
     (case the_issue g of None \<Rightarrow> None | Some i \<Rightarrow> if is_of (gr_repo g) i then Some i else None)"

section \<open>The rules\<close>

datatype ground_blocker =
    NoDefaultBranch
  | NotIntoDefault
  | ClosingUnread string
  | ClosesNoIssue
  | ClosesSeveral int "closing_issue list"
  | ClosesForeign closing_issue
  | ClosesClosed int
  | NotAnItem int
  | FilesUnread string
  | ChangeNotArchived int string
  | RecordWritten "string list" int string
  | NoPlansLine int
  | PlanCloses string
  | NoPlanFolder int
  | PlanWritesSpec "string list"

definition targets_the_default_branch :: "grounding \<Rightarrow> ground_blocker option" where
  "targets_the_default_branch g =
     (if into_default g then None
      else if gr_default g = [] then Some NoDefaultBranch else Some NotIntoDefault)"

definition closing_issues_were_read :: "grounding \<Rightarrow> ground_blocker option" where
  "closing_issues_were_read g =
     (case gr_closing g of
        None \<Rightarrow> None
      | Some c \<Rightarrow> if cl_error c = [] then None else Some (ClosingUnread (cl_error c)))"

definition closes_one_issue :: "grounding \<Rightarrow> ground_blocker option" where
  "closes_one_issue g =
     (case gr_closing g of
        None \<Rightarrow> None
      | Some c \<Rightarrow>
          if cl_error c \<noteq> [] \<or> cl_total c = 1 then None
          else if cl_total c = 0 then Some ClosesNoIssue
          else Some (ClosesSeveral (cl_total c) (cl_issues c)))"

definition closes_an_issue_of_its_repository :: "grounding \<Rightarrow> ground_blocker option" where
  "closes_an_issue_of_its_repository g =
     (case the_issue g of
        None \<Rightarrow> None
      | Some i \<Rightarrow> if own_issue g \<noteq> None then None else Some (ClosesForeign i))"

definition closes_an_open_issue :: "grounding \<Rightarrow> ground_blocker option" where
  "closes_an_open_issue g =
     (case own_issue g of
        None \<Rightarrow> None
      | Some i \<Rightarrow> if lower (is_state i) = ''open'' then None else Some (ClosesClosed (is_number i)))"

definition closes_an_item :: "grounding \<Rightarrow> ground_blocker option" where
  "closes_an_item g =
     (case own_issue g of
        None \<Rightarrow> None
      | Some i \<Rightarrow> if is_item i then None else Some (NotAnItem (is_number i)))"

definition changed_files_were_read :: "grounding \<Rightarrow> ground_blocker option" where
  "changed_files_were_read g =
     (if gr_files_error g = [] then None else Some (FilesUnread (gr_files_error g)))"

definition pr_file_added_statuses :: "string list" where
  "pr_file_added_statuses = [''added'', ''renamed'', ''copied'']"

definition archives :: "pr_file \<Rightarrow> int \<Rightarrow> bool" where
  "archives f issue =
     (case archived_folder_of (fi_filename f) of
        None \<Rightarrow> False
      | Some (n, _) \<Rightarrow> n = issue \<and> fi_status f \<in> set pr_file_added_statuses)"

definition change_named_by :: "pr_file \<Rightarrow> (int \<times> string) option" where
  "change_named_by f =
     (if fi_status f \<in> set pr_file_added_statuses then
        (case archived_folder_of (fi_filename f) of
           Some m \<Rightarrow> Some m | None \<Rightarrow> change_folder (fi_filename f))
      else if fi_status f = ''removed'' then None
      else change_folder (fi_filename f))"

definition its_change :: "pr_file list \<Rightarrow> int \<Rightarrow> string" where
  "its_change fs issue =
     (case filter (\<lambda>(n, _). n = issue) (List.map_filter change_named_by fs) of
        [] \<Rightarrow> int_text issue @ ''-<slug>''
      | (_, name) # _ \<Rightarrow> name)"

definition archives_its_change :: "grounding \<Rightarrow> ground_blocker option" where
  "archives_its_change g =
     (case own_issue g of
        None \<Rightarrow> None
      | Some i \<Rightarrow>
          if gr_files_error g \<noteq> [] then None
          else if list_ex (\<lambda>f. archives f (is_number i)) (gr_files g) then None
          else Some (ChangeNotArchived (is_number i) (its_change (gr_files g) (is_number i))))"

definition is_a_record_of_another_change :: "string \<Rightarrow> int \<Rightarrow> bool \<Rightarrow> bool" where
  "is_a_record_of_another_change path issue archives_its_own =
     (if prefix (openspec_specs_dir @ ''/'') path then \<not> archives_its_own
      else if \<not> prefix (openspec_archive_dir @ ''/'') path then False
      else case archived_folder_of path of None \<Rightarrow> True | Some (n, _) \<Rightarrow> n \<noteq> issue)"

definition writes_only_its_own_record :: "grounding \<Rightarrow> ground_blocker option" where
  "writes_only_its_own_record g =
     (case own_issue g of
        None \<Rightarrow> None
      | Some i \<Rightarrow>
          if gr_files_error g \<noteq> [] then None
          else let own = list_ex (\<lambda>f. archives f (is_number i)) (gr_files g);
                   written = filter (\<lambda>p. is_a_record_of_another_change p (is_number i) own)
                               (map fi_filename (gr_files g))
               in if written = [] then None
                  else Some (RecordWritten written (is_number i) (its_change (gr_files g) (is_number i))))"

definition grounding_rules :: "(grounding \<Rightarrow> ground_blocker option) list" where
  "grounding_rules =
     [targets_the_default_branch, closing_issues_were_read, closes_one_issue,
      closes_an_issue_of_its_repository, closes_an_open_issue, closes_an_item,
      changed_files_were_read, archives_its_change, writes_only_its_own_record]"

definition grounding_blockers :: "grounding \<Rightarrow> ground_blocker list" where
  "grounding_blockers g = List.map_filter (\<lambda>rule. rule g) grounding_rules"

section \<open>A pull request that plans an item\<close>

definition plan_issue :: "string \<Rightarrow> int option" where
  \<comment> \<open>A match of \<open>docs\(openspec\): plan #(?P<issue>\d+) \<close> at the start of the title.\<close>
  "plan_issue title =
     (case without_prefix ''docs(openspec): plan #'' title of
        None \<Rightarrow> None
      | Some s \<Rightarrow>
          (let ds = takeWhile is_digit s; after = drop (length ds) s
           in if ds = [] \<or> after = [] \<or> hd after \<noteq> CHR '' '' then None else Some (digits_val ds)))"

definition plans_line :: "string \<Rightarrow> int option" where
  \<comment> \<open>A line that \<open>^Plans #(?P<issue>\d+)\s*$\<close> matches.\<close>
  "plans_line line =
     (case without_prefix ''Plans #'' line of
        None \<Rightarrow> None
      | Some s \<Rightarrow>
          (let ds = takeWhile is_digit s
           in if ds = [] \<or> \<not> list_all is_space (drop (length ds) s) then None else Some (digits_val ds)))"

fun split_space :: "string \<Rightarrow> string list" where
  \<comment> \<open>\<open>text.split()\<close>\<close>
  "split_space [] = []"
| "split_space (c # s) =
     (if is_space c then split_space s
      else if s = [] \<or> is_space (hd s) then [c] # split_space s
      else case split_space s of [] \<Rightarrow> [[c]] | w # ws \<Rightarrow> (c # w) # ws)"

definition word_punctuation :: string where
  "word_punctuation = ''.,;:()''"

definition strip_chars :: "string \<Rightarrow> string \<Rightarrow> string" where
  \<comment> \<open>\<open>text.strip(chars)\<close>\<close>
  "strip_chars cs s =
     rev (dropWhile (\<lambda>c. c \<in> set cs) (rev (dropWhile (\<lambda>c. c \<in> set cs) s)))"

definition closing_keywords :: "string list" where
  "closing_keywords =
     [''close'', ''closes'', ''closed'', ''fix'', ''fixes'', ''fixed'', ''resolve'', ''resolves'', ''resolved'']"

fun closing_pair :: "string list \<Rightarrow> string option" where
  "closing_pair (word # following # ws) =
     (let keyword = lower (strip_chars word_punctuation word)
      in if keyword \<in> set closing_keywords \<and> (CHR ''#'' \<in> set following \<or> contains ''/issues/'' following)
         then Some keyword else closing_pair (following # ws))"
| "closing_pair _ = None"

definition closing_keyword_in :: "string \<Rightarrow> string option" where
  "closing_keyword_in t = closing_pair (split_space t)"

definition adds_to_active_folder :: "int \<Rightarrow> pr_file \<Rightarrow> bool" where
  "adds_to_active_folder issue f =
     (case change_folder (fi_filename f) of
        None \<Rightarrow> False
      | Some (n, _) \<Rightarrow> n = issue \<and> fi_status f \<in> set pr_file_added_statuses)"

definition plan_blockers :: "int \<Rightarrow> string \<Rightarrow> pr_file list \<Rightarrow> ground_blocker list" where
  "plan_blockers issue body fs =
     (let plans = List.map_filter plans_line (split_on CHR 0x0A body);
          written = filter (prefix (openspec_specs_dir @ ''/'')) (map fi_filename fs)
      in (if plans \<noteq> [issue] then [NoPlansLine issue] else [])
       @ (case closing_keyword_in body of None \<Rightarrow> [] | Some k \<Rightarrow> [PlanCloses k])
       @ (if list_ex (adds_to_active_folder issue) fs then [] else [NoPlanFolder issue])
       @ (if written \<noteq> [] then [PlanWritesSpec written] else []))"

end
