(* ===== verification/PullForm.thy ===== *)
theory PullForm
  imports Pacing Grounding
begin

text \<open>
  The form of the body of a pull request, \<^verbatim>\<open>src/devops_cli/roadmap/pull_form.py\<close>: what a closing
  reference and a line of the form are, the problems of the body of a delivery and of a plan, and the
  two builders. A problem is a value with what its text repeats. The rules of a title are in \<open>TitleForm\<close>.
\<close>

section \<open>Closing references\<close>

definition is_name_char :: "char \<Rightarrow> bool" where
  \<comment> \<open>\<open>[\w.-]\<close>\<close>
  "is_name_char c = (is_word_char c \<or> c = CHR ''.'' \<or> c = CHR ''-'')"

definition number_reference :: "string \<Rightarrow> string option" where
  \<comment> \<open>What follows \<open>#\d+\<close>.\<close>
  "number_reference s =
     (if s = [] \<or> hd s \<noteq> CHR ''#'' \<or> takeWhile is_digit (tl s) = [] then None
      else Some (dropWhile is_digit (tl s)))"

definition issue_reference :: "string \<Rightarrow> string option" where
  \<comment> \<open>What follows \<open>(?:[\w.-]+/[\w.-]+)?#\d+\<close>; neither \<open>/\<close> nor \<open>#\<close> is in the class.\<close>
  "issue_reference s =
     (if s \<noteq> [] \<and> hd s = CHR ''#'' then number_reference s
      else let own = takeWhile is_name_char s; s1 = drop (length own) s;
               repo = takeWhile is_name_char (tl s1)
           in if own = [] \<or> s1 = [] \<or> hd s1 \<noteq> CHR ''/'' \<or> repo = [] then None
              else number_reference (drop (length repo) (tl s1)))"

definition after_keyword :: "string \<Rightarrow> string option" where
  \<comment> \<open>What follows \<open>:?\s+\<close> and the reference.\<close>
  "after_keyword s =
     (let s1 = (if s \<noteq> [] \<and> hd s = CHR '':'' then tl s else s)
      in if s1 = [] \<or> \<not> is_space (hd s1) then None else issue_reference (dropWhile is_space s1))"

definition reference_at :: "string \<Rightarrow> string option" where
  \<comment> \<open>What follows a closing reference at the start of \<open>s\<close>, whatever the case of the keyword. No keyword is
    longer than eight characters.\<close>
  "reference_at s =
     (let start = lower (take 8 s)
      in case List.map_filter (\<lambda>k. if prefix k start then after_keyword (drop (length k) s) else None)
                closing_keywords of
           [] \<Rightarrow> None
         | r # _ \<Rightarrow> Some r)"

lemma number_reference_shorter: "number_reference s = Some r \<Longrightarrow> length r < length s"
  using length_dropWhile_le [of is_digit "tl s"]
  by (cases s) (auto simp: number_reference_def split: if_splits)

lemma issue_reference_shorter: "issue_reference s = Some r \<Longrightarrow> length r < length s"
  by (force simp: issue_reference_def Let_def split: if_splits
      dest!: number_reference_shorter)

lemma map_filter_hd: "List.map_filter f xs = y # ys \<Longrightarrow> \<exists>x \<in> set xs. f x = Some y"
  by (induction xs) (auto simp: List.map_filter_simps split: option.splits)

lemma reference_shorter:
  assumes "reference_at s = Some r"
  shows "length r < length s"
proof -
  obtain k :: string where k: "after_keyword (drop (length k) s) = Some r"
    using assms by (auto simp: reference_at_def Let_def dest!: map_filter_hd split: list.splits if_splits)
  from k have "length r < length (dropWhile is_space (drop (length k) s))
      \<or> length r < length (dropWhile is_space (tl (drop (length k) s)))"
    by (auto simp: after_keyword_def Let_def split: if_splits dest: issue_reference_shorter)
  then show ?thesis
    using length_dropWhile_le [of is_space "drop (length k) s"]
      length_dropWhile_le [of is_space "tl (drop (length k) s)"] by auto
qed

text \<open>\<open>len(_CLOSING_REFERENCE.findall(s))\<close>; the flag says that a word character stands before \<open>s\<close>.\<close>

function count_references :: "bool \<Rightarrow> string \<Rightarrow> nat" where
  "count_references word [] = 0"
| "count_references word (c # s) =
     (case (if word then None else reference_at (c # s)) of
        Some rest \<Rightarrow> Suc (count_references True rest)
      | None \<Rightarrow> count_references (is_word_char c) s)"
  by pat_completeness auto

termination
  by (relation "measure (length \<circ> snd)") (auto dest: reference_shorter split: if_splits)

section \<open>The lines of the form\<close>

definition numbered_line :: "string \<Rightarrow> string \<Rightarrow> int option" where
  \<comment> \<open>A full match of a text and then \<open>\d+\<close>.\<close>
  "numbered_line lead line =
     (case without_prefix lead line of
        None \<Rightarrow> None
      | Some ds \<Rightarrow> if ds \<noteq> [] \<and> list_all is_digit ds then Some (digits_val ds) else None)"

definition without_suffix :: "string \<Rightarrow> string \<Rightarrow> string option" where
  "without_suffix p s = (if suffix p s then Some (take (length s - length p) s) else None)"

definition change_line :: "string \<Rightarrow> int option" where
  \<comment> \<open>A full match of one of \<open>_CHANGE_LINES\<close>: the active folder, or the archived one. No line matches both.\<close>
  "change_line line =
     (case Option.bind (without_prefix (''Change: `'' @ openspec_changes_dir @ ''/'') line) (without_suffix ''/`'') of
        None \<Rightarrow> None
      | Some name \<Rightarrow>
          (case change_name name of
             Some n \<Rightarrow> Some n
           | None \<Rightarrow> Option.bind (Option.bind (without_prefix ''archive/'' name) dated) change_name))"

fun indexed :: "nat \<Rightarrow> (string \<Rightarrow> int option) \<Rightarrow> string list \<Rightarrow> (nat \<times> int) list" where
  \<comment> \<open>The lines that match, each with its index.\<close>
  "indexed i m [] = []"
| "indexed i m (line # ls) =
     (case m line of None \<Rightarrow> indexed (Suc i) m ls | Some n \<Rightarrow> (i, n) # indexed (Suc i) m ls)"

section \<open>Placeholders and attribution\<close>

definition placeholders :: "string list" where
  "placeholders =
     [''x'', ''y'', ''xx'', ''xxx'', ''foo'', ''bar'', ''test'', ''tbd'', ''todo'', ''wip'', ''fixme'',
      ''placeholder'', ''lorem ipsum'', ''n/a'', ''na'', ''none'', ''nothing'', ''summary'', ''description'',
      ''title'', ''body'', ''why'', ''text'', ''probe'']"

definition placeholder_edges :: string where
  "placeholder_edges = '' '' @ [CHR 0x09, CHR 0x0D, CHR 0x0A] @ ''.,:;!?-_*<>[]()`'' @ [CHR 0x27, CHR 0x22]"

definition placeholder_lead :: string where
  "placeholder_lead = ''not yet:''"

definition is_placeholder :: "string \<Rightarrow> bool" where
  "is_placeholder t =
     (lower (strip_chars placeholder_edges t) \<in> set placeholders \<or> prefix placeholder_lead (lower (strip t)))"

datatype reply_error = PlaceholderReply

definition reply_text :: "string \<Rightarrow> reply_error + string" where
  \<comment> \<open>\<open>_reply_text\<close>, the rule of a free text in a model's reply.\<close>
  "reply_text t = (if is_placeholder t then Inl PlaceholderReply else Inr t)"

fun line_starts :: "string \<Rightarrow> string list" where
  \<comment> \<open>What follows each line feed.\<close>
  "line_starts [] = []"
| "line_starts (c # s) = (if c = CHR 0x0A then s # line_starts s else line_starts s)"

definition word_then :: "string \<Rightarrow> string \<Rightarrow> bool" where
  \<comment> \<open>The text, whatever its case, up to a word boundary.\<close>
  "word_then w s =
     (prefix w (lower s) \<and> (drop (length w) s = [] \<or> \<not> is_word_char (hd (drop (length w) s))))"

definition attribution_line :: "string \<Rightarrow> bool" where
  "attribution_line s =
     (prefix ''co-authored-by:'' (lower s) \<or> prefix ''claude-session:'' (lower s)
      \<or> list_ex (\<lambda>w. word_then w (dropWhile (\<lambda>c. \<not> is_word_char c) s)) [''generated with'', ''generated by''])"

definition has_attribution :: "string \<Rightarrow> bool" where
  "has_attribution t =
     (contains ''claude.ai/code/session'' (lower t) \<or> list_ex attribution_line (t # line_starts t))"

section \<open>The problems of a body\<close>

datatype form_problem =
    ClosesMissing
  | ClosesMany nat
  | ChangeMissing
  | IssueDiffers int int
  | WrongOrder
  | AttributionFirst
  | PlaceholderText
  | BodyShort nat
  | BodyLong nat
  | TrailerLong nat
  | TemplateText
  | BodyBreaking
  | PlansMissing int
  | PlanClosesIssue

definition closing_problems ::
  "string \<Rightarrow> string list \<Rightarrow> form_problem list \<times> int option \<times> nat option" where
  "closing_problems body ls =
     (let closing = indexed 0 (numbered_line ''Closes #'') ls; references = count_references False body
      in case closing of
           [] \<Rightarrow> ([ClosesMissing], None, None)
         | (i, n) # later \<Rightarrow>
             if references \<noteq> 1 \<or> later \<noteq> [] then ([ClosesMany (max references (length closing))], None, None)
             else ([], Some n, Some i))"

definition change_problems :: "string list \<Rightarrow> form_problem list \<times> int option \<times> nat option" where
  "change_problems ls =
     (case indexed 0 change_line ls of
        [(i, n)] \<Rightarrow> ([], Some n, Some i)
      | _ \<Rightarrow> ([ChangeMissing], None, None))"

definition body_text_min_chars :: nat where "body_text_min_chars = 20"
definition body_max_chars :: nat where "body_max_chars = 1000"
definition trailer_max_chars :: nat where "trailer_max_chars = 400"

definition text_problems :: "string \<Rightarrow> string \<Rightarrow> form_problem list" where
  "text_problems t measured =
     (if has_attribution t then [AttributionFirst]
      else if is_placeholder t then [PlaceholderText]
      else if length (strip t) < body_text_min_chars then [BodyShort (length (strip t))] else [])
     @ (if length measured > body_max_chars then [BodyLong (length measured)] else [])"

definition trailer_problems :: "string \<Rightarrow> form_problem list" where
  "trailer_problems trailer =
     (if length (strip trailer) > trailer_max_chars then [TrailerLong (length (strip trailer))] else [])"

definition joined_by :: "string \<Rightarrow> string list \<Rightarrow> string" where
  "joined_by sep ls = concat (case ls of [] \<Rightarrow> [] | l # rest \<Rightarrow> l # map (\<lambda>x. sep @ x) rest)"

definition joined_lines :: "string list \<Rightarrow> string" where
  "joined_lines = joined_by [CHR 0x0A]"

definition template_problems :: "string \<Rightarrow> form_problem list" where
  "template_problems body =
     (if contains ''<!--'' body then [TemplateText] else [])
     @ (if contains ''BREAKING CHANGE'' body then [BodyBreaking] else [])"

definition body_problems :: "string \<Rightarrow> form_problem list" where
  "body_problems body =
     (let ls = splitlines (strip body);
          (closes_problems, closes_issue, closes_at) = closing_problems body ls;
          (chg_problems, change_issue, change_at) = change_problems ls
      in closes_problems @ chg_problems
       @ (case (closes_issue, change_issue) of
            (Some a, Some b) \<Rightarrow> if a \<noteq> b then [IssueDiffers a b] else [] | _ \<Rightarrow> [])
       @ (case (closes_at, change_at) of
            (Some i, Some j) \<Rightarrow>
              if i > j then [WrongOrder]
              else text_problems (joined_lines (take i ls)) (joined_lines (take (Suc j) ls))
                 @ trailer_problems (joined_lines (drop (Suc j) ls))
          | _ \<Rightarrow> [])
       @ template_problems body)"

definition plan_body_problems :: "string \<Rightarrow> int \<Rightarrow> form_problem list" where
  "plan_body_problems body issue =
     (let ls = splitlines (strip body); plans = indexed 0 (numbered_line ''Plans #'') ls;
          (chg_problems, change_issue, change_at) = change_problems ls
      in (if length plans \<noteq> 1 \<or> snd (hd plans) \<noteq> issue then [PlansMissing issue] else [])
       @ (if count_references False body > 0 then [PlanClosesIssue] else [])
       @ chg_problems
       @ (case change_issue of Some n \<Rightarrow> if n \<noteq> issue then [IssueDiffers issue n] else [] | None \<Rightarrow> [])
       @ (case (plans, change_at) of
            ([(i, _)], Some j) \<Rightarrow>
              if i > j then [WrongOrder]
              else text_problems (joined_lines (drop (Suc i) (take j ls))) (joined_lines (take (Suc j) ls))
                 @ trailer_problems (joined_lines (drop (Suc j) ls))
          | _ \<Rightarrow> [])
       @ template_problems body)"

section \<open>The builders\<close>

definition blank_line :: string where
  "blank_line = [CHR 0x0A, CHR 0x0A]"

definition build_body :: "string \<Rightarrow> int \<Rightarrow> string \<Rightarrow> string list \<Rightarrow> form_problem list + string" where
  "build_body why issue change attribution =
     (let body = joined_by blank_line [strip why, ''Closes #'' @ int_text issue, ''Change: `'' @ change @ ''/`''];
          trailer = joined_by blank_line (filter (\<lambda>l. l \<noteq> []) (map strip attribution));
          full = (if trailer \<noteq> [] then body @ blank_line @ trailer else body);
          problems = body_problems full
      in if problems \<noteq> [] then Inl problems else Inr full)"

definition build_plan_body :: "string \<Rightarrow> int \<Rightarrow> string \<Rightarrow> form_problem list + string" where
  "build_plan_body why issue change =
     (let body = ''Plans #'' @ int_text issue @ blank_line @ strip why @ blank_line @ ''Change: `'' @ change @ ''/`'';
          problems = plan_body_problems body issue
      in if problems \<noteq> [] then Inl problems else Inr body)"

end
