(* ===== verification/Readiness.thy ===== *)
theory Readiness
  imports Threads Candidate PullForm
begin

text \<open>
  The merge readiness of a pull request, \<^verbatim>\<open>src/devops_cli/github/merge_readiness.py\<close>: the verdict
  assembled from GitHub's mergeable state, the draft state, the checks, the review threads and the item
  rules. A blocker is its kind with what its text repeats. The pull request is the JSON payload that
  GitHub gave. \<open>perimeter\<close> stands for the advisory that \<open>perimeter_advisory\<close> reads out of the
  checkout's review settings. As the listing of the threads may not end, the verdict is optional.
\<close>

section \<open>The verdict\<close>

record readiness_options =
  op_allow_draft :: bool
  op_allow_blocked_state :: bool
  op_allow_replied_threads :: bool
  op_allow_pending_checks :: bool

datatype blocker_kind =
    CLOSED | CONFLICT | MERGEABILITY | BRANCH_PROTECTION | DRAFT | CHECKS_FAILING | CHECKS_UNREAD
  | CHECKS_PENDING | THREADS | THREADS_UNREAD | GROUNDING | BODY_FORM

text \<open>What a text repeats: names, a count, a broken rule or a problem of the body.\<close>

datatype detail =
    NoDetail
  | Names "string list"
  | Count nat
  | Rule ground_blocker
  | FolderUnread string
  | FormProblem form_problem

datatype advisory =
    BlockedState
  | DraftState
  | PendingChecks "string list"
  | RepliedThreads nat
  | ChangedFilesUnread string
  | Perimeter string

record verdict =
  vd_blocking :: "(blocker_kind \<times> detail) list"
  vd_advisories :: "advisory list"
  vd_pending :: "string list"
  vd_checks :: "check_summary option"
  vd_threads :: "review_thread list"
  vd_grounding :: "grounding option"

definition no_verdict :: verdict where
  "no_verdict = \<lparr>vd_blocking = [], vd_advisories = [], vd_pending = [], vd_checks = None, vd_threads = [],
     vd_grounding = None\<rparr>"

definition block :: "blocker_kind \<Rightarrow> detail \<Rightarrow> verdict \<Rightarrow> verdict" where
  "block k d v = v\<lparr>vd_blocking := vd_blocking v @ [(k, d)]\<rparr>"

definition advise :: "advisory \<Rightarrow> verdict \<Rightarrow> verdict" where
  \<comment> \<open>\<open>warn\<close> and \<open>inform\<close>; the level of an advisory is fixed by its constructor.\<close>
  "advise a v = v\<lparr>vd_advisories := vd_advisories v @ [a]\<rparr>"

definition verdict_ready :: "verdict \<Rightarrow> bool" where
  "verdict_ready v = (vd_blocking v = [])"

section \<open>Mergeable and draft\<close>

fun lower_text :: "json \<Rightarrow> py_error + string" where
  \<comment> \<open>\<open>v.lower()\<close>\<close>
  "lower_text (JStr s) = Inr (lower s)"
| "lower_text _ = Inl AttributeError"

definition settle_mergeable :: "json \<Rightarrow> json \<Rightarrow> bool \<Rightarrow> verdict \<Rightarrow> verdict" where
  \<comment> \<open>What GitHub's \<open>mergeable\<close> and \<open>mergeable_state\<close> leave in the verdict.\<close>
  "settle_mergeable mergeable mst allow_blocked v =
     (if mergeable = JBool False \<or> mst \<in> {JStr ''dirty'', JStr ''conflicting''} then block CONFLICT NoDetail v
      else if mergeable = JNull \<or> mst \<in> {JStr ''unknown'', JStr []} then block MERGEABILITY NoDetail v
      else if mst = JStr ''blocked'' \<and> allow_blocked then advise BlockedState v
      else if mst = JStr ''blocked'' then block BRANCH_PROTECTION NoDetail v
      else v)"

definition judge_mergeable :: "json \<Rightarrow> bool \<Rightarrow> verdict \<Rightarrow> py_error + verdict" where
  "judge_mergeable pr allow_blocked v =
     then_read (attr_get pr ''state'' (JStr [])) (\<lambda>st. then_read (lower_text st) (\<lambda>state.
       if state = ''closed'' then Inr (block CLOSED NoDetail v)
       else then_read (attr_get pr ''mergeable_state'' (JStr [])) (\<lambda>mst.
            then_read (attr_path pr [''base'']) (\<lambda>base. then_read (attr_get base ''ref'' (JStr [])) (\<lambda>_.
              Inr (settle_mergeable (jget pr ''mergeable'') mst allow_blocked v))))))"

definition judge_draft :: "json \<Rightarrow> bool \<Rightarrow> verdict \<Rightarrow> verdict" where
  "judge_draft pr allow v =
     (if \<not> json_truthy (jget pr ''draft'') then v
      else if allow then advise DraftState v else block DRAFT NoDetail v)"

section \<open>Checks\<close>

definition names_in :: "bucket set \<Rightarrow> check_summary \<Rightarrow> string list" where
  "names_in bs checks = sort (map ci_name (filter (\<lambda>i. ci_bucket i \<in> bs) (sm_items checks)))"

definition settle_checks :: "readiness_options \<Rightarrow> check_summary \<Rightarrow> verdict \<Rightarrow> verdict" where
  \<comment> \<open>What the checks that were read leave in the verdict.\<close>
  "settle_checks opts checks v0 =
     (let v = v0\<lparr>vd_checks := Some checks\<rparr>
      in if sm_unread checks \<noteq> [] then block CHECKS_UNREAD (Names [sm_unread checks]) v
         else let failing = names_in {FAIL, CANCEL, UNREAD} checks; pending = names_in {PENDING} checks;
                  v1 = (if failing \<noteq> [] then block CHECKS_FAILING (Names failing) v else v);
                  v2 = v1\<lparr>vd_pending := vd_pending v1 @ pending\<rparr>
              in if pending = [] then v2
                 else if op_allow_pending_checks opts then advise (PendingChecks pending) v2
                 else block CHECKS_PENDING (Names pending) v2)"

definition judge_checks ::
  "'w hub \<Rightarrow> readiness_options \<Rightarrow> bool \<Rightarrow> string \<Rightarrow> string \<Rightarrow> string \<Rightarrow> verdict \<Rightarrow> 'w
   \<Rightarrow> (failure + verdict) \<times> 'w" where
  "judge_checks hub opts commit_statuses sha own repo v w =
     (if sha = [] then (Inr v, w)
      else case (if commit_statuses then read_commit_checks hub own repo sha w
                 else read_check_runs hub own repo sha w) of
             (Inl e, w1) \<Rightarrow> (Inl e, w1)
           | (Inr checks, w1) \<Rightarrow> (Inr (settle_checks opts checks v), w1))"

section \<open>Threads\<close>

definition settle_threads :: "readiness_options \<Rightarrow> review_thread list \<Rightarrow> verdict \<Rightarrow> verdict" where
  "settle_threads opts unresolved v =
     (if unresolved = [] then v
      else if \<not> op_allow_replied_threads opts then
        block THREADS (Count (length unresolved)) (v\<lparr>vd_threads := vd_threads v @ unresolved\<rparr>)
      else let replied = filter has_non_opener_reply unresolved;
               unreplied = filter (\<lambda>t. \<not> has_non_opener_reply t) unresolved;
               v1 = (if replied \<noteq> [] then advise (RepliedThreads (length replied)) v else v)
           in if unreplied \<noteq> []
              then block THREADS (Count (length unreplied)) (v1\<lparr>vd_threads := vd_threads v1 @ unreplied\<rparr>)
              else v1)"

definition judge_threads ::
  "'w hub \<Rightarrow> readiness_options \<Rightarrow> string \<Rightarrow> string \<Rightarrow> int \<Rightarrow> verdict \<Rightarrow> 'w
   \<Rightarrow> ((failure + verdict) \<times> 'w) option" where
  "judge_threads hub opts own repo number v w =
     (case list_pr_review_threads hub own repo number True w of
        None \<Rightarrow> None
      | Some (Inl (Refused msg), w1) \<Rightarrow> Some (Inr (block THREADS_UNREAD (Names [msg]) v), w1)
      | Some (Inl e, w1) \<Rightarrow> Some (Inl e, w1)
      | Some (Inr unresolved, w1) \<Rightarrow> Some (Inr (settle_threads opts unresolved v), w1))"

section \<open>The reads of the item rules\<close>

definition gh_failure :: "proc \<Rightarrow> string" where
  "gh_failure res = clip (proc_reason res)"

definition hex_digit :: "nat \<Rightarrow> char" where
  "hex_digit n = char_of (if n < 10 then 48 + n else 55 + n)"

definition quote_plus :: "string \<Rightarrow> string" where
  \<comment> \<open>A value of \<open>urlencode\<close>, each character one byte.\<close>
  "quote_plus s = concat (map (\<lambda>c.
     if (is_word_char c \<or> c \<in> set ''-.~'') then [c] else if c = CHR '' '' then ''+''
     else let n = of_char c :: nat in [CHR ''%'', hex_digit (n div 16), hex_digit (n mod 16)]) s)"

record changed_read =
  cr_files :: "pull_file list"
  cr_error :: string

definition read_changed_files ::
  "'w hub \<Rightarrow> string \<Rightarrow> string \<Rightarrow> int \<Rightarrow> 'w \<Rightarrow> (failure + changed_read) \<times> 'w" where
  \<comment> \<open>A file that pydantic refuses is a \<open>GitHubUnreadError\<close>, whose text is not modelled.\<close>
  "read_changed_files hub own repo number w =
     (case hb_list hub (pull_path (own @ ''/'' @ repo) number @ ''/files?per_page=100'') None w of
        (Inl (Refused msg), w1) \<Rightarrow> (Inr \<lparr>cr_files = [], cr_error = msg\<rparr>, w1)
      | (Inl e, w1) \<Rightarrow> (Inl e, w1)
      | (Inr items, w1) \<Rightarrow>
          (case map_each pull_file_of items of
             Inl e \<Rightarrow> (Inr \<lparr>cr_files = [], cr_error = ''GitHub's answer is no PullRequestFile''\<rparr>, w1)
           | Inr fs \<Rightarrow> (Inr \<lparr>cr_files = fs, cr_error = []\<rparr>, w1)))"

definition base_has_change_folders ::
  "'w hub \<Rightarrow> json \<Rightarrow> string \<Rightarrow> string \<Rightarrow> 'w \<Rightarrow> (failure + bool) \<times> 'w" where
  "base_has_change_folders hub pr own repo w =
     (case then_read (attr_get (or_empty (jget pr ''base'')) ''sha'' JNull) (\<lambda>sha.
             then_read (attr_get (or_empty (jget pr ''base'')) ''ref'' JNull) (\<lambda>ref.
               Inr (if json_truthy sha then sha else ref))) of
        Inl e \<Rightarrow> (Inl (Failed e), w)
      | Inr r \<Rightarrow>
          (case hb_run hub [''gh'', ''api'', ''--silent'', ''repos/'' @ own @ ''/'' @ repo @ ''/contents/'' @
                  openspec_changes_dir @ ''?ref='' @ quote_plus (text_or (hb_repr hub) r [])] w of
             (Inl e, w1) \<Rightarrow> (Inl e, w1)
           | (Inr res, w1) \<Rightarrow>
               if returncode res = 0 then (Inr True, w1)
               else if gh_http_status (p_stderr res) = Some 404 then (Inr False, w1)
               else (Inl (Refused (gh_failure res)), w1)))"

definition closing_issue_of :: "json \<Rightarrow> py_error + closing_issue" where
  "closing_issue_of v =
     then_read (field_of as_number None v [''number'']) (\<lambda>number.
     then_read (field_of as_text None v [''state'']) (\<lambda>state.
     then_read (field_of as_text None v [''repository'', ''nameWithOwner'']) (\<lambda>repo.
     then_read (case jpath v [''labels''] of
         None \<Rightarrow> Inr []
       | Some ls \<Rightarrow>
           if \<not> is_obj ls then Inl ValueError
           else case jpath ls [''nodes''] of
                  None \<Rightarrow> Inr []
                | Some (JArr vs) \<Rightarrow> map_each (\<lambda>l. field_of as_text None l [''name'']) vs
                | Some _ \<Rightarrow> Inl ValueError) (\<lambda>labels.
       Inr \<lparr>is_number = number, is_state = state, is_repository = repo, is_labels = labels\<rparr>))))"

definition closing_payload :: "json \<Rightarrow> py_error + closing_read" where
  "closing_payload reply =
     (case jpath reply [''data'', ''repository'', ''pullRequest'', ''closingIssuesReferences''] of
        None \<Rightarrow> Inl ValueError
      | Some refs \<Rightarrow>
          then_read (field_of as_number None refs [''totalCount'']) (\<lambda>n.
          then_read (case jpath refs [''nodes''] of
              None \<Rightarrow> Inr [] | Some (JArr vs) \<Rightarrow> map_each closing_issue_of vs | Some _ \<Rightarrow> Inl ValueError) (\<lambda>issues.
            Inr \<lparr>cl_issues = issues, cl_total = n, cl_error = []\<rparr>)))"

definition graphql_error :: "(json \<Rightarrow> string) \<Rightarrow> json \<Rightarrow> string" where
  "graphql_error repr reply =
     (case jget reply ''errors'' of
        JArr (first # _) \<Rightarrow>
          (let message = (if is_obj first then jget first ''message'' else first)
           in clip (text_or repr message ''GraphQL error''))
      | _ \<Rightarrow> [])"

definition unread_closing :: "string \<Rightarrow> closing_read" where
  "unread_closing err = \<lparr>cl_issues = [], cl_total = 0, cl_error = err\<rparr>"

definition read_closing_issues ::
  "'w hub \<Rightarrow> string \<Rightarrow> string \<Rightarrow> int \<Rightarrow> 'w \<Rightarrow> (failure + closing_read) \<times> 'w" where
  \<comment> \<open>The text of a malformed reply is not modelled further than its start.\<close>
  "read_closing_issues hub own repo number w =
     (case hb_graph hub (ClosingIssues own repo number) w of
        (Inl e, w1) \<Rightarrow> (Inl e, w1)
      | (Inr res, w1) \<Rightarrow>
          (Inr (if returncode res \<noteq> 0 then unread_closing (gh_failure res)
                else case (if p_stdout res = [] then Some JNull else hb_loads hub (p_stdout res)) of
                       None \<Rightarrow> unread_closing ''malformed reply: ''
                     | Some reply \<Rightarrow>
                         (let error = graphql_error (hb_repr hub) reply
                          in if error \<noteq> [] then unread_closing error
                             else case closing_payload reply of
                                    Inl _ \<Rightarrow> unread_closing ''malformed reply: '' | Inr c \<Rightarrow> c)), w1))"

section \<open>The item rules\<close>

definition branch_ref :: "(json \<Rightarrow> string) \<Rightarrow> json \<Rightarrow> string \<Rightarrow> py_error + string" where
  "branch_ref repr pr side =
     then_read (attr_get (or_empty (jget pr side)) ''ref'' JNull) (\<lambda>v. Inr (text_or repr v []))"

definition default_branch :: "(json \<Rightarrow> string) \<Rightarrow> json \<Rightarrow> py_error + string" where
  "default_branch repr pr =
     then_read (attr_get (or_empty (jget pr ''base'')) ''repo'' JNull) (\<lambda>r.
     then_read (attr_get (or_empty r) ''default_branch'' JNull) (\<lambda>v. Inr (text_or repr v [])))"

definition facts_of :: "(json \<Rightarrow> string) \<Rightarrow> json \<Rightarrow> string \<Rightarrow> string \<Rightarrow> changed_read \<Rightarrow> py_error + grounding" where
  "facts_of repr pr own repo changed =
     then_read (branch_ref repr pr ''base'') (\<lambda>base.
     then_read (default_branch repr pr) (\<lambda>deflt.
       Inr \<lparr>gr_repo = own @ ''/'' @ repo, gr_base = base, gr_default = deflt,
            gr_files = map (\<lambda>f. \<lparr>fi_filename = pf_filename f, fi_status = pf_status f\<rparr>) (cr_files changed),
            gr_files_error = cr_error changed, gr_closing = None\<rparr>))"

definition block_rules :: "ground_blocker list \<Rightarrow> verdict \<Rightarrow> verdict" where
  "block_rules found v = v\<lparr>vd_blocking := vd_blocking v @ map (\<lambda>b. (GROUNDING, Rule b)) found\<rparr>"

definition judge_plan :: "int \<Rightarrow> string \<Rightarrow> grounding \<Rightarrow> verdict \<Rightarrow> verdict" where
  "judge_plan planned body g v =
     block_rules (if gr_files_error g \<noteq> [] then [FilesUnread (gr_files_error g)]
                  else plan_blockers planned body (gr_files g)) (v\<lparr>vd_grounding := Some g\<rparr>)"

definition judge_delivery ::
  "'w hub \<Rightarrow> string \<Rightarrow> string \<Rightarrow> int \<Rightarrow> string \<Rightarrow> grounding \<Rightarrow> verdict \<Rightarrow> 'w
   \<Rightarrow> (failure + verdict) \<times> 'w" where
  "judge_delivery hub own repo number body g v0 w =
     (let v = v0\<lparr>vd_blocking := vd_blocking v0 @ map (\<lambda>p. (BODY_FORM, FormProblem p)) (body_problems body)\<rparr>
      in if \<not> into_default g then (Inr (block_rules (grounding_blockers g) (v\<lparr>vd_grounding := Some g\<rparr>)), w)
         else case read_closing_issues hub own repo number w of
                (Inl e, w1) \<Rightarrow> (Inl e, w1)
              | (Inr closing, w1) \<Rightarrow>
                  (let g1 = g\<lparr>gr_closing := Some closing\<rparr>
                   in (Inr (block_rules (grounding_blockers g1) (v\<lparr>vd_grounding := Some g1\<rparr>)), w1)))"

definition judge_grounding ::
  "'w hub \<Rightarrow> json \<Rightarrow> string \<Rightarrow> string \<Rightarrow> int \<Rightarrow> changed_read \<Rightarrow> verdict \<Rightarrow> 'w
   \<Rightarrow> (failure + verdict) \<times> 'w" where
  "judge_grounding hub pr own repo number changed v0 w =
     (case (case base_has_change_folders hub pr own repo w of
              (Inl (Refused msg), w1) \<Rightarrow> (Inr (True, block GROUNDING (FolderUnread msg) v0), w1)
            | (Inl e, w1) \<Rightarrow> (Inl e, w1)
            | (Inr applies, w1) \<Rightarrow> (Inr (applies, v0), w1)) of
        (Inl e, w1) \<Rightarrow> (Inl e, w1)
      | (Inr (applies, v), w1) \<Rightarrow>
          if \<not> applies
          then (Inr (if cr_error changed \<noteq> [] then advise (ChangedFilesUnread (cr_error changed)) v else v), w1)
          else case facts_of (hb_repr hub) pr own repo changed of
                 Inl e \<Rightarrow> (Inl (Failed e), w1)
               | Inr g \<Rightarrow>
                   (let body = text_or (hb_repr hub) (jget pr ''body'') []
                    in case plan_issue (text_or (hb_repr hub) (jget pr ''title'') []) of
                         Some planned \<Rightarrow> (Inr (judge_plan planned body g v), w1)
                       | None \<Rightarrow> judge_delivery hub own repo number body g v w1))"

section \<open>The assessment\<close>

definition advise_perimeter :: "(string list \<Rightarrow> string option) \<Rightarrow> changed_read \<Rightarrow> verdict \<Rightarrow> verdict" where
  "advise_perimeter perimeter changed v =
     (if cr_files changed = [] then v
      else case perimeter (map pf_filename (cr_files changed)) of None \<Rightarrow> v | Some t \<Rightarrow> advise (Perimeter t) v)"

definition judge_item ::
  "'w hub \<Rightarrow> (string list \<Rightarrow> string option) \<Rightarrow> json \<Rightarrow> string \<Rightarrow> string \<Rightarrow> int \<Rightarrow> verdict \<Rightarrow> 'w
   \<Rightarrow> (failure + verdict) \<times> 'w" where
  \<comment> \<open>The end of the assessment: the files, the item rules, the advisory.\<close>
  "judge_item hub perimeter pr own repo number v w =
     (case read_changed_files hub own repo number w of
        (Inl e, w1) \<Rightarrow> (Inl e, w1)
      | (Inr changed, w1) \<Rightarrow>
          (case judge_grounding hub pr own repo number changed v w1 of
             (Inl e, w2) \<Rightarrow> (Inl e, w2)
           | (Inr v1, w2) \<Rightarrow> (Inr (advise_perimeter perimeter changed v1), w2)))"

definition head_sha_of :: "(json \<Rightarrow> string) \<Rightarrow> json \<Rightarrow> py_error + string" where
  "head_sha_of repr pr =
     then_read (attr_path pr [''head'']) (\<lambda>h. then_read (attr_get h ''sha'' JNull) (\<lambda>v. Inr (text_or repr v [])))"

definition assess_merge_readiness ::
  "'w hub \<Rightarrow> (string list \<Rightarrow> string option) \<Rightarrow> readiness_options \<Rightarrow> bool \<Rightarrow> json \<Rightarrow> string \<Rightarrow> string \<Rightarrow> int
   \<Rightarrow> 'w \<Rightarrow> ((failure + verdict) \<times> 'w) option" where
  "assess_merge_readiness hub perimeter opts commit_statuses pr own repo number w =
     (if jget pr ''merged'' = JBool True then Some (Inr no_verdict, w)
      else case then_read (judge_mergeable pr (op_allow_blocked_state opts) no_verdict) (\<lambda>v.
                  then_read (head_sha_of (hb_repr hub) pr) (\<lambda>sha.
                    Inr (judge_draft pr (op_allow_draft opts) v, sha))) of
             Inl e \<Rightarrow> Some (Inl (Failed e), w)
           | Inr (v, sha) \<Rightarrow>
               (case judge_checks hub opts commit_statuses sha own repo v w of
                  (Inl e, w1) \<Rightarrow> Some (Inl e, w1)
                | (Inr v1, w1) \<Rightarrow>
                    (case judge_threads hub opts own repo number v1 w1 of
                       None \<Rightarrow> None
                     | Some (Inl e, w2) \<Rightarrow> Some (Inl e, w2)
                     | Some (Inr v2, w2) \<Rightarrow> Some (judge_item hub perimeter pr own repo number v2 w2))))"

end
