(* ===== verification/ChecksProps.thy ===== *)
theory ChecksProps
  imports Checks
begin

text \<open>
  What a verdict on a commit's checks means: a passing one read every run and every status of the
  commit and found each of them passed, skipped, or cancelled in favour of a later run of the same
  check; only such cancellations are left out; and a run whose App is \<open>null\<close> ends the read with an
  error instead of a verdict.
\<close>

section \<open>Runs that a later run replaced\<close>

lemma newest_runs_get:
  "get_or [] (newest_runs repr runs d) n =
     foldl max (get_or [] d n) (map (run_started repr) (filter (\<lambda>r. run_name repr r = n) runs))"
  by (induction runs arbitrary: d) auto

lemma foldl_max_less: "(x < foldl max z xs) = (x < z \<or> (\<exists>y \<in> set xs. x < (y :: 'a::linorder)))"
  by (induction xs arbitrary: z) (auto simp: less_max_iff_disj)

definition replaced :: "(json \<Rightarrow> string) \<Rightarrow> json list \<Rightarrow> json \<Rightarrow> bool" where
  \<comment> \<open>A cancelled run, and a later-started run of the same check.\<close>
  "replaced repr runs r =
     (is_cancelled repr r
      \<and> (\<exists>r' \<in> set runs. run_name repr r' = run_name repr r \<and> run_started repr r < run_started repr r'))"

lemma empty_least [simp]: "\<not> x < ([] :: string)"
  by simp

lemma kept_iff:
  "(run_started repr r \<ge> get_or [] (newest_runs repr runs []) (run_name repr r)) =
     (\<not> (\<exists>r' \<in> set runs. run_name repr r' = run_name repr r \<and> run_started repr r < run_started repr r'))"
  unfolding not_less [symmetric] newest_runs_get foldl_max_less by (auto simp: get_or_def)

lemma kept_runs: "without_replaced_cancellations repr runs = filter (\<lambda>r. \<not> replaced repr runs r) runs"
  by (simp add: without_replaced_cancellations_def replaced_def Let_def kept_iff)

lemma latest_run:
  assumes "r \<in> set runs"
  shows "\<exists>r' \<in> set runs. run_name repr r' = run_name repr r \<and> \<not> replaced repr runs r'"
proof -
  let ?S = "{x \<in> set runs. run_name repr x = run_name repr r}"
  have "finite ?S" "?S \<noteq> {}" using assms by auto
  then obtain x where x: "x \<in> ?S" and "run_started repr x = Max (run_started repr ` ?S)"
    using Max_in [of "run_started repr ` ?S"] by fastforce
  then have top: "run_started repr y \<le> run_started repr x" if "y \<in> ?S" for y
    using that \<open>finite ?S\<close> by simp
  have "\<not> replaced repr runs x" by (use x top in \<open>fastforce simp: replaced_def not_less\<close>)
  with x show ?thesis by blast
qed

text \<open>
  C39: \<open>_without_replaced_cancellations\<close> computes what its text says: of a commit's runs it leaves out
  exactly those that were cancelled and of whose check a later-started run is listed, whatever the order of
  the list. It keeps the order of the others, and no check loses all its runs.
\<close>

theorem only_replaced_cancellations_are_left_out:
  "without_replaced_cancellations repr runs =
     filter (\<lambda>r. \<not> (is_cancelled repr r
       \<and> (\<exists>r' \<in> set runs. run_name repr r' = run_name repr r \<and> run_started repr r < run_started repr r'))) runs
   \<and> run_name repr ` set (without_replaced_cancellations repr runs) = run_name repr ` set runs"
  using latest_run [of _ runs repr] by (auto simp: kept_runs replaced_def image_iff) metis

section \<open>What passes\<close>

definition running_states :: "string list" where
  "running_states = [''in_progress'', ''queued'', ''waiting'', ''requested'', ''pending'']"

definition passed_names :: "string list" where
  "passed_names = [''pass'', ''success'', ''skipping'', ''skipped'', ''neutral'']"

definition passed :: "string \<Rightarrow> string \<Rightarrow> bool" where
  \<comment> \<open>A conclusion and a status that pass: nothing still runs, and the one that names a bucket passed.\<close>
  "passed conclusion status =
     (status \<notin> set running_states
      \<and> (conclusion \<in> set passed_names
         \<or> dict_get bucket_classifier_map conclusion = None \<and> status \<in> set passed_names))"

lemma good_bucket:
  "(dict_get bucket_classifier_map t = Some PASS \<or> dict_get bucket_classifier_map t = Some SKIPPING)
   = (t \<in> set passed_names)"
  by (auto simp: bucket_classifier_map_def passed_names_def)

lemma no_bucket: "dict_get bucket_classifier_map [] = None"
  by (simp add: bucket_classifier_map_def)

lemma resolve_passes:
  "fst (resolve_bucket [] c s) \<in> {PASS, SKIPPING} \<Longrightarrow> passed c s"
  using good_bucket [of c] good_bucket [of s]
  by (auto simp: resolve_bucket_def passed_def no_bucket running_states_def split: if_splits option.splits)

lemma normalize_none [simp]: "normalize_token repr JNull = []"
  by (simp add: normalize_token_def)

definition ok_bucket :: "check_item \<Rightarrow> bool" where
  "ok_bucket i = (ci_bucket i \<in> {PASS, SKIPPING})"

lemma passing_items:
  "is_passing s = (sm_unread s = [] \<and> list_all ok_bucket (sm_items s))"
proof -
  have "ok_bucket i = (ci_bucket i \<noteq> UNREAD \<and> ci_bucket i \<noteq> FAIL \<and> ci_bucket i \<noteq> CANCEL \<and> ci_bucket i \<noteq> PENDING)"
    for i by (cases "ci_bucket i") (auto simp: ok_bucket_def)
  then show ?thesis
    by (auto simp: is_passing_def exit_code_def count_of_def list_all_iff filter_empty_conv)
qed

lemma run_item_passes:
  "check_run_dict_to_item repr r = Inr i \<Longrightarrow> ok_bucket i
   \<Longrightarrow> passed (normalize_token repr (jget r ''conclusion'')) (normalize_token repr (jget r ''status''))"
  by (auto simp: check_run_dict_to_item_def classify_check_item_def ok_bucket_def Let_def
      intro!: resolve_passes split: sum.splits prod.splits if_splits)

definition status_state :: "(json \<Rightarrow> string) \<Rightarrow> json \<Rightarrow> string" where
  "status_state repr s = lower (strip (text_or repr (jget s ''state'') []))"

lemma status_item_passes:
  "parse_single_status_item repr s = Some (Inr i) \<Longrightarrow> ok_bucket i \<Longrightarrow> passed [] (status_state repr s)"
  by (auto simp: parse_single_status_item_def classify_check_item_def ok_bucket_def Let_def
      normalize_token_def json_text_def status_state_def
      intro!: resolve_passes split: sum.splits prod.splits if_splits)

lemma map_each_ok:
  "map_each f xs = Inr ys \<Longrightarrow> list_all P ys \<Longrightarrow> x \<in> set xs \<Longrightarrow> \<exists>y. f x = Inr y \<and> P y"
  by (auto simp: list_all_iff dest!: map_each_in)

lemma combined_never_passes:
  assumes "resolve_combined_status_item repr n k st items = Some (Inr c)"
  shows "\<not> ok_bucket c"
proof -
  have token: "normalize_token repr (JStr ''failure'') = ''failure''"
    "normalize_token repr (JStr ''error'') = ''error''"
    "normalize_token repr (JStr ''pending'') = ''pending''"
    by (simp_all add: normalize_token_def json_text_def) (code_simp+)
  have resolved: "fst (resolve_bucket [] [] ''failure'') = FAIL" "fst (resolve_bucket [] [] ''error'') = FAIL"
    "fst (resolve_bucket [] [] ''pending'') = PENDING"
    by code_simp+
  have bad: "\<not> ok_bucket i"
    if "classify_check_item repr combined_name JNull (JStr t) JNull JNull wf [] = Inr i"
      and "fst (resolve_bucket [] [] (normalize_token repr (JStr t))) \<in> {FAIL, PENDING}" for t wf i
    using that by (auto simp: classify_check_item_def ok_bucket_def Let_def split: prod.splits if_splits)
  have "st \<in> {''failure'', ''error'', ''pending''}" and "classify_check_item repr combined_name JNull (JStr st) JNull JNull ''Commit Status'' [] = Inr c"
    using assms unfolding resolve_combined_status_item_def by (auto split: if_splits)
  then show ?thesis using bad [of st "''Commit Status''" c] token resolved by auto
qed

lemma combined_none:
  assumes "resolve_combined_status_item repr n k st items = None" and "list_all ok_bucket items"
  shows "n \<le> int k \<or> st \<notin> {''failure'', ''error'', ''pending''}"
  using assms by (auto simp: resolve_combined_status_item_def list_ex_iff list_all_iff ok_bucket_def
      split: if_splits)

section \<open>A passing verdict\<close>

definition runs_passed :: "(json \<Rightarrow> string) \<Rightarrow> json list \<Rightarrow> bool" where
  \<comment> \<open>Each run passed, or was cancelled in favour of a later one of its check.\<close>
  "runs_passed repr runs =
     list_all (\<lambda>r. is_obj r \<longrightarrow>
         passed (normalize_token repr (jget r ''conclusion'')) (normalize_token repr (jget r ''status''))
         \<or> replaced repr (filter is_obj runs) r) runs"

definition statuses_of :: "json \<Rightarrow> json list" where
  "statuses_of data = filter is_obj (case jget data ''statuses'' of JArr vs \<Rightarrow> vs | _ \<Rightarrow> [])"

definition statuses_passed :: "(json \<Rightarrow> string) \<Rightarrow> json \<Rightarrow> bool" where
  \<comment> \<open>Each status listed passed; when more exist than the page lists, the combined state is no failure.\<close>
  "statuses_passed repr data =
     (list_all (\<lambda>st. passed [] (status_state repr st)) (statuses_of data)
      \<and> (total_of (jget data ''total_count'') (length (statuses_of data)) \<le> int (length (statuses_of data))
         \<or> lower (text_or repr (jget data ''state'') []) \<notin> {''failure'', ''error'', ''pending''}))"

lemma fetch_runs_cases:
  assumes "fetch_check_runs_from_rest hub own repo sha w = (Inr (items, []), w1)"
  obtains runs where "hb_list hub (check_runs_path own repo sha) (Some ''check_runs'') w = (Inr runs, w1)"
    and "map_each (check_run_dict_to_item (hb_repr hub))
           (without_replaced_cancellations (hb_repr hub) (filter is_obj runs)) = Inr items"
  using assms by (auto simp: fetch_check_runs_from_rest_def split: prod.splits sum.splits failure.splits)

lemma runs_pass:
  assumes "map_each (check_run_dict_to_item repr)
      (without_replaced_cancellations repr (filter is_obj runs)) = Inr items"
    and "list_all ok_bucket items"
  shows "runs_passed repr runs"
  unfolding runs_passed_def list_all_iff
proof (intro ballI impI)
  fix r assume r: "r \<in> set runs" "is_obj r"
  show "passed (normalize_token repr (jget r ''conclusion'')) (normalize_token repr (jget r ''status''))
      \<or> replaced repr (filter is_obj runs) r"
  proof (cases "replaced repr (filter is_obj runs) r")
    case False
    then have "r \<in> set (without_replaced_cancellations repr (filter is_obj runs))"
      using r by (simp add: kept_runs)
    with assms show ?thesis by (auto dest!: map_each_ok [OF assms] intro: run_item_passes)
  qed simp
qed

lemma status_list:
  "List.map_filter (parse_single_status_item repr) vs =
     map (\<lambda>s. the (parse_single_status_item repr s)) (filter is_obj vs)"
  by (induction vs) (auto simp: List.map_filter_def parse_single_status_item_def)

lemma statuses_pass:
  assumes "parse_rest_commit_statuses_payload hub raw = Inr (items, combined)"
    and "list_all ok_bucket (items @ (case combined of None \<Rightarrow> [] | Some c \<Rightarrow> [c]))"
  shows "\<exists>kvs. hb_loads hub raw = Some (JObj kvs) \<and> statuses_passed (hb_repr hub) (JObj kvs)
    \<and> (items \<noteq> [] \<longrightarrow> statuses_of (JObj kvs) \<noteq> []) \<and> combined = None"
proof -
  obtain kvs where raw: "hb_loads hub raw = Some (JObj kvs)"
    using assms(1) by (auto simp: parse_rest_commit_statuses_payload_def split: option.splits json.splits)
  let ?repr = "hb_repr hub" and ?data = "JObj kvs"
  have items: "map_each id (map (\<lambda>s. the (parse_single_status_item ?repr s)) (statuses_of ?data)) = Inr items"
    and comb: "(case resolve_combined_status_item ?repr (total_of (jget ?data ''total_count'') (length items))
        (length items) (lower (text_or ?repr (jget ?data ''state'') [])) items of
          None \<Rightarrow> Inr (items, None) | Some (Inl e) \<Rightarrow> Inl e | Some (Inr c) \<Rightarrow> Inr (items, Some c))
      = Inr (items, combined)"
    using assms(1) raw
    by (auto simp: parse_rest_commit_statuses_payload_def status_list statuses_of_def Let_def
        simp del: jget.simps split: sum.splits option.splits)
  have none: "resolve_combined_status_item ?repr (total_of (jget ?data ''total_count'') (length items))
        (length items) (lower (text_or ?repr (jget ?data ''state'') [])) items = None \<and> combined = None"
    using comb assms(2) by (auto dest: combined_never_passes split: option.splits sum.splits)
  have len: "length items = length (statuses_of ?data)"
    using list_all2_lengthD [OF map_each_list [OF items]] by simp
  have each: "passed [] (status_state ?repr st)" if "st \<in> set (statuses_of ?data)" for st
  proof -
    have "is_obj st" using that by (simp add: statuses_of_def)
    then obtain x where x: "parse_single_status_item ?repr st = Some x"
      by (auto simp: parse_single_status_item_def)
    have "\<exists>y. id x = Inr y \<and> ok_bucket y"
      by (rule map_each_ok [OF items]) (use assms(2) that x in \<open>force simp: image_iff\<close>)+
    then show ?thesis using x status_item_passes by auto
  qed
  show ?thesis using raw none each combined_none [of ?repr _ _ _ items] assms(2) len
    by (auto simp: statuses_passed_def list_all_iff simp del: jget.simps)
qed

lemma fetch_statuses_cases:
  assumes "fetch_commit_statuses_from_rest hub own repo sha w = (Inr (items, combined, []), w1)"
  obtains res where "returncode res = 0"
    and "hb_run hub [''gh'', ''api'', ''repos/'' @ own @ ''/'' @ repo @ ''/commits/'' @ sha @ ''/status''] w = (Inr res, w1)"
    and "parse_rest_commit_statuses_payload hub (p_stdout res) = Inr (items, combined)"
  using assms by (auto simp: fetch_commit_statuses_from_rest_def unread_status_def
      split: prod.splits sum.splits if_splits py_error.splits)

lemma synthesized_pass:
  assumes "list_all ok_bucket (synthesize_check_items xs ys c)"
  shows "list_all ok_bucket xs \<and> list_all ok_bucket (ys @ (case c of None \<Rightarrow> [] | Some i \<Rightarrow> [i]))
    \<and> (xs \<noteq> [] \<or> ys @ (case c of None \<Rightarrow> [] | Some i \<Rightarrow> [i]) \<noteq> [])"
  using assms
  by (auto simp: synthesize_check_items_def no_checks_reported_def ok_bucket_def Let_def split: if_splits)

lemma items_from_runs:
  "map_each f (without_replaced_cancellations repr (filter is_obj runs)) = Inr items \<Longrightarrow> items \<noteq> []
   \<Longrightarrow> list_ex is_obj runs"
  by (auto simp: kept_runs list_ex_iff neq_Nil_conv dest!: map_each_from [where y = "hd items"])

text \<open>
  C14: A passing verdict on a commit is complete: every run of the listing and every status of the
  combined status was read, each run passed or was skipped (or was cancelled in favour of a later run of the
  same check), each status passed, no failure hides in statuses the answer leaves out, and there was at
  least one. So a commit without checks, a read that failed and an unknown state never pass.
\<close>

theorem passing_checks_all_passed:
  assumes "read_commit_checks hub own repo sha w = (Inr s, w2)" and "is_passing s"
  shows "\<exists>runs w1 res kvs.
      hb_list hub (check_runs_path own repo sha) (Some ''check_runs'') w = (Inr runs, w1)
    \<and> hb_run hub [''gh'', ''api'', ''repos/'' @ own @ ''/'' @ repo @ ''/commits/'' @ sha @ ''/status''] w1 = (Inr res, w2)
    \<and> returncode res = 0 \<and> hb_loads hub (p_stdout res) = Some (JObj kvs)
    \<and> runs_passed (hb_repr hub) runs \<and> statuses_passed (hb_repr hub) (JObj kvs)
    \<and> (list_ex is_obj runs \<or> statuses_of (JObj kvs) \<noteq> [])"
proof -
  obtain items w1 statuses combined where
      fetch: "fetch_check_runs_from_rest hub own repo sha w = (Inr (items, []), w1)"
        "fetch_commit_statuses_from_rest hub own repo sha w1 = (Inr (statuses, combined, []), w2)"
      and s: "s = \<lparr>sm_items = synthesize_check_items items statuses combined, sm_unread = []\<rparr>"
    using assms by (auto simp: read_commit_checks_def unread_def passing_items missing_sha_def
        split: if_splits prod.splits sum.splits)
  note pass = synthesized_pass [OF assms(2) [unfolded s passing_items, simplified]]
  obtain runs where runs: "hb_list hub (check_runs_path own repo sha) (Some ''check_runs'') w = (Inr runs, w1)"
    "map_each (check_run_dict_to_item (hb_repr hub))
       (without_replaced_cancellations (hb_repr hub) (filter is_obj runs)) = Inr items"
    by (rule fetch_runs_cases [OF fetch(1)])
  obtain res where res: "returncode res = 0"
    "hb_run hub [''gh'', ''api'', ''repos/'' @ own @ ''/'' @ repo @ ''/commits/'' @ sha @ ''/status''] w1 = (Inr res, w2)"
    "parse_rest_commit_statuses_payload hub (p_stdout res) = Inr (statuses, combined)"
    by (rule fetch_statuses_cases [OF fetch(2)])
  obtain kvs where "hb_loads hub (p_stdout res) = Some (JObj kvs)" "statuses_passed (hb_repr hub) (JObj kvs)"
    "statuses \<noteq> [] \<longrightarrow> statuses_of (JObj kvs) \<noteq> []" "combined = None"
    using statuses_pass [OF res(3)] pass by blast
  then show ?thesis using runs res runs_pass [OF runs(2)] items_from_runs [OF runs(2)] pass by auto
qed

definition sample_hub :: "json list \<Rightarrow> nat hub" where
  \<comment> \<open>A GitHub whose commit has the given check runs and no status; the world counts the reads.\<close>
  "sample_hub runs =
     \<lparr>hb_run = (\<lambda>args w. (Inr \<lparr>returncode = 0, p_stdout = ''{}'', p_stderr = []\<rparr>, Suc w)),
      hb_list = (\<lambda>path key w. (Inr runs, Suc w)),
      hb_rest = (\<lambda>path w. (Inr JNull, Suc w)),
      hb_graph = (\<lambda>q w. (Inr \<lparr>returncode = 0, p_stdout = ''{}'', p_stderr = []\<rparr>, Suc w)),
      hb_loads = (\<lambda>s. if s = ''{}'' then Some (JObj [(''statuses'', JArr []), (''total_count'', JInt 0)]) else None),
      hb_repr = (\<lambda>v. ''None'')\<rparr>"

definition sample_run :: "string \<Rightarrow> string \<Rightarrow> string \<Rightarrow> json" where
  "sample_run name conclusion started =
     JObj [(''name'', JStr name), (''status'', JStr ''completed''), (''conclusion'', JStr conclusion),
           (''started_at'', JStr started), (''app'', JObj [(''name'', JStr ''Actions'')])]"

definition sample_runs :: "json list" where
  "sample_runs = [sample_run ''ci'' ''cancelled'' ''2026-01-01'', sample_run ''ci'' ''success'' ''2026-01-02'',
                  sample_run ''lint'' ''skipped'' ''2026-01-01'']"

lemma sample_checks:
  "read_commit_checks (sample_hub sample_runs) ''o'' ''r'' ''abc'' 0 =
     (Inr \<lparr>sm_items = [\<lparr>ci_name = ''ci'', ci_state = ''success'', ci_bucket = PASS, ci_workflow = ''Actions'', ci_link = []\<rparr>,
                     \<lparr>ci_name = ''lint'', ci_state = ''skipped'', ci_bucket = SKIPPING, ci_workflow = ''Actions'', ci_link = []\<rparr>],
           sm_unread = []\<rparr>, 2)"
  by code_simp

theorem passing_checks_all_passed_witness:
  "runs_passed (\<lambda>v. ''None'') sample_runs
   \<and> (\<exists>kvs. statuses_passed (\<lambda>v. ''None'') (JObj kvs))"
proof -
  have "is_passing \<lparr>sm_items = [\<lparr>ci_name = ''ci'', ci_state = ''success'', ci_bucket = PASS, ci_workflow = ''Actions'', ci_link = []\<rparr>,
      \<lparr>ci_name = ''lint'', ci_state = ''skipped'', ci_bucket = SKIPPING, ci_workflow = ''Actions'', ci_link = []\<rparr>], sm_unread = []\<rparr>"
    by code_simp
  from passing_checks_all_passed [OF sample_checks this] show ?thesis by (auto simp: sample_hub_def)
qed

section \<open>A run without an App\<close>

definition app_readable :: "json \<Rightarrow> bool" where
  "app_readable r = (case attr_get r ''app'' (JObj []) of Inl e \<Rightarrow> False | Inr app \<Rightarrow> is_obj app)"

lemma attr_get_Inl: "attr_get v k d = Inl e \<Longrightarrow> e = AttributeError \<and> \<not> is_obj v"
  by (cases v) auto

lemma attr_get_Inr: "attr_get v k d = Inr x \<Longrightarrow> is_obj v"
  by (cases v) auto

lemma run_item_raises:
  "is_obj r \<Longrightarrow> (case check_run_dict_to_item repr r of Inl e \<Rightarrow> e = AttributeError \<and> \<not> app_readable r
     | Inr i \<Rightarrow> app_readable r)"
  by (auto simp: check_run_dict_to_item_def app_readable_def classify_check_item_def Let_def
      dest: attr_get_Inl attr_get_Inr split: sum.split prod.split)

lemma map_each_raises:
  assumes "\<And>x. x \<in> set xs \<Longrightarrow> (case f x of Inl e \<Rightarrow> e = err \<and> \<not> P x | Inr y \<Rightarrow> P x)"
  shows "(\<exists>x \<in> set xs. \<not> P x) = (map_each f xs = Inl err)"
    and "map_each f xs \<noteq> Inl err \<Longrightarrow> \<exists>ys. map_each f xs = Inr ys"
  using assms by (induction xs) (force split: sum.splits)+

text \<open>
  The read of a commit's checks is not a verdict when a run it judges has no App: GitHub's
  schema lets a run's \<open>app\<close> be \<open>null\<close>, and then \<open>read_check_runs\<close> raises an
  \<open>AttributeError\<close>, which no caller that expects a \<open>GitHubOperationError\<close> or an unread verdict
  catches. With an App on each run it judges it returns a verdict.
\<close>

theorem run_without_app_ends_the_read:
  assumes "hb_list hub (check_runs_path own repo sha) (Some ''check_runs'') w = (Inr runs, w1)" and "sha \<noteq> []"
  shows "(if \<exists>r \<in> set runs. is_obj r \<and> \<not> replaced (hb_repr hub) (filter is_obj runs) r \<and> \<not> app_readable r
          then read_check_runs hub own repo sha w = (Inl (Failed AttributeError), w1)
          else \<exists>s. read_check_runs hub own repo sha w = (Inr s, w1))"
proof -
  let ?kept = "without_replaced_cancellations (hb_repr hub) (filter is_obj runs)"
  have "(\<exists>r \<in> set ?kept. \<not> app_readable r)
      = (map_each (check_run_dict_to_item (hb_repr hub)) ?kept = Inl AttributeError)"
    "map_each (check_run_dict_to_item (hb_repr hub)) ?kept \<noteq> Inl AttributeError
     \<Longrightarrow> \<exists>ys. map_each (check_run_dict_to_item (hb_repr hub)) ?kept = Inr ys"
    by (rule map_each_raises [where P = app_readable]; use run_item_raises in \<open>simp add: kept_runs\<close>)+
  then show ?thesis using assms
    by (auto simp: read_check_runs_def fetch_check_runs_from_rest_def kept_runs)
qed

theorem run_without_app_ends_the_read_witness:
  "read_check_runs (sample_hub [JObj [(''name'', JStr ''ci''), (''app'', JNull)]]) ''o'' ''r'' ''abc'' 0
   = (Inl (Failed AttributeError), 1)"
proof -
  let ?h = "sample_hub [JObj [(''name'', JStr ''ci''), (''app'', JNull)]]"
  have l: "hb_list ?h (check_runs_path ''o'' ''r'' ''abc'') (Some ''check_runs'') 0
      = (Inr [JObj [(''name'', JStr ''ci''), (''app'', JNull)]], 1)" by (simp add: sample_hub_def)
  show ?thesis using run_without_app_ends_the_read [OF l]
    by (simp add: app_readable_def replaced_def)
qed

end
