(* ===== verification/CandidateProps.thy ===== *)
theory CandidateProps
  imports Candidate ChecksProps
begin

text \<open>
  The scheduled release merge picks a pull request only when every guard of its documentation holds of
  the facts it read for the commit it prints, and passes over an earlier one only with a reason.
\<close>

section \<open>The guards\<close>

definition required_passed :: "release_facts \<Rightarrow> bool" where
  \<comment> \<open>Each required check has a run on the head, and each of its runs passed.\<close>
  "required_passed f =
     (rf_required f \<noteq> []
      \<and> (\<forall>n \<in> set (rf_required f). (\<exists>i \<in> set (sm_items (rf_pull_checks f)). ci_name i = n)
           \<and> (\<forall>i \<in> set (sm_items (rf_pull_checks f)). ci_name i = n \<longrightarrow> ci_bucket i = PASS)))"

definition nothing_red :: "release_facts \<Rightarrow> bool" where
  "nothing_red f =
     ((\<forall>i \<in> set (sm_items (rf_pull_checks f)). \<not> not_green i)
      \<and> (\<forall>i \<in> set (sm_items (rf_base_checks f)). ci_name i \<in> set (rf_required f) \<longrightarrow> \<not> not_green i))"

definition release_pull_ok :: "(string \<Rightarrow> bool) \<Rightarrow> release_facts \<Rightarrow> bool" where
  "release_pull_ok is_version f =
     (let p = rf_pull f
      in rl_state p = ''open'' \<and> \<not> rl_draft p \<and> lower (rl_author p) = lower (rf_app_login f)
         \<and> prefix release_branch_prefix (rl_head_ref p) \<and> rl_base_ref p = base_branch
         \<and> rl_head_repository p = Some (rf_repository f)
         \<and> release_label \<in> set (rl_labels p) \<and> hold_label \<notin> set (rl_labels p)
         \<and> title_names_a_version is_version (rl_title p)
         \<and> rl_mergeable p = Some True \<and> rl_mergeable_state p \<in> set mergeable_states)"

definition may_merge :: "(string \<Rightarrow> bool) \<Rightarrow> release_facts \<Rightarrow> bool" where
  "may_merge is_version f =
     (release_pull_ok is_version f
      \<and> (\<forall>c \<in> set (rf_files f). pf_status c = ''modified'' \<and> set (file_paths c) \<subseteq> set release_files)
      \<and> sm_unread (rf_pull_checks f) = [] \<and> sm_unread (rf_base_checks f) = []
      \<and> required_passed f \<and> nothing_red f)"

lemma required_refusals_none:
  "(required_refusals f n = []) = ((\<exists>i \<in> set (sm_items (rf_pull_checks f)). ci_name i = n)
     \<and> (\<forall>i \<in> set (sm_items (rf_pull_checks f)). ci_name i = n \<longrightarrow> ci_bucket i = PASS))"
  by (auto simp: required_refusals_def Let_def filter_empty_conv)

lemma file_refusals_none:
  "(file_refusals f = [])
   = (\<forall>c \<in> set (rf_files f). pf_status c = ''modified'' \<and> set (file_paths c) \<subseteq> set release_files)"
  by (auto simp: file_refusals_def filter_empty_conv file_paths_def)

lemma check_refusals_none:
  "(check_refusals f = []) = (sm_unread (rf_pull_checks f) = [] \<and> sm_unread (rf_base_checks f) = []
     \<and> required_passed f \<and> nothing_red f)"
proof -
  have "ci_bucket i = PASS \<Longrightarrow> \<not> not_green i" for i by (simp add: not_green_def)
  then show ?thesis
    by (auto simp: check_refusals_def unread_refusals_def required_refusals_none required_passed_def
        nothing_red_def filter_empty_conv)
qed

text \<open>
  A release pull request has no refusal exactly when every guard holds: it is open, no draft, by the
  release App, from release-please's branch of this repository into \<open>main\<close>, labelled for release and not
  held, titled with a version and mergeable; it only modifies release-please's files, none renamed; both
  commits' checks were read; each required check ran and passed, no other check failed, and no required
  check failed on the head of \<open>main\<close>.
\<close>

lemma refusals_none: "(refusals is_version f = []) = may_merge is_version f"
  by (auto simp: refusals_def may_merge_def file_refusals_none check_refusals_none pull_refusals_def
      release_pull_ok_def Let_def)

section \<open>The pick\<close>

abbreviation checks_on :: "'w hub \<Rightarrow> string \<Rightarrow> string \<Rightarrow> 'w \<Rightarrow> (failure + check_summary) \<times> 'w" where
  "checks_on hub repo \<equiv>
     read_check_runs hub (takeWhile (\<lambda>c. c \<noteq> CHR ''/'') repo) (tl (dropWhile (\<lambda>c. c \<noteq> CHR ''/'') repo))"

text \<open>The facts of a pull request are the answers to three reads, made one after another.\<close>

definition facts_answered :: "'w hub \<Rightarrow> string \<Rightarrow> int \<Rightarrow> release_facts \<Rightarrow> 'w \<Rightarrow> 'w \<Rightarrow> bool" where
  "facts_answered hub repo number f w w' =
     (\<exists>payload w1 items w2.
        hb_rest hub (pull_path repo number) w = (Inr payload, w1)
      \<and> release_pull_of (hb_repr hub) payload = Inr (rf_pull f)
      \<and> hb_list hub (pull_path repo number @ ''/files?per_page=100'') None w1 = (Inr items, w2)
      \<and> map_each pull_file_of items = Inr (rf_files f)
      \<and> checks_on hub repo (rl_head_sha (rf_pull f)) w2 = (Inr (rf_pull_checks f), w'))"

lemma facts_read:
  assumes "release_facts_of hub repo app required base_checks number w = (Inr f, w')"
  shows "rf_repository f = repo" "rf_app_login f = app" "rf_required f = required"
    "rf_base_checks f = base_checks" "facts_answered hub repo number f w w'"
  using assms
  by (auto simp: release_facts_of_def changed_files_def facts_answered_def split: prod.splits sum.splits)

text \<open>
  What is judged the same for each pull request is read once, before the first: the listing, the
  required checks, and the checks on the head of the base branch.
\<close>

lemma pick_reads:
  assumes "pick hub is_version repo app w = (Inr (Some c), said, w')"
  obtains numbers w1 required w2 branch w3 sha base_checks w4 where
    "release_numbers hub repo w = (Inr numbers, w1)" "required_checks hub repo w1 = (Inr required, w2)"
    "hb_rest hub (''/repos/'' @ repo @ ''/branches/'' @ base_branch) w2 = (Inr branch, w3)"
    "base_sha_of (hb_repr hub) branch = Inr sha" "checks_on hub repo sha w3 = (Inr base_checks, w4)"
    "pick_first hub is_version repo app required base_checks numbers [] w4 = (Inr (Some c), said, w')"
  using assms that by (auto simp: pick_def split: if_splits prod.splits sum.splits list.splits)

lemma pick_first_picked:
  assumes "pick_first hub is_version repo app required base_checks numbers said w = (Inr (Some c), said', w')"
  shows "\<exists>before after f w1. numbers = before @ rc_number c # after
    \<and> release_facts_of hub repo app required base_checks (rc_number c) w1 = (Inr f, w')
    \<and> refusals is_version f = [] \<and> rc_head_sha c = rl_head_sha (rf_pull f)
    \<and> set said \<subseteq> set said' \<and> (\<forall>n \<in> set before. \<exists>r. RefusedPull n r \<in> set said')"
  using assms
proof (induction numbers arbitrary: said w)
  case (Cons n numbers)
  obtain r w1 where read: "release_facts_of hub repo app required base_checks n w = (r, w1)" by fastforce
  with Cons.prems obtain f where f: "r = Inr f" by (cases r) auto
  show ?case
  proof (cases "refusals is_version f")
    case Nil
    then have "rc_number c = n" "w' = w1" "rc_head_sha c = rl_head_sha (rf_pull f)" "said' = said"
      using Cons.prems read f by auto
    then show ?thesis using read f Nil by (intro exI [of _ "[]"] exI [of _ numbers]) auto
  next
    case (Cons x xs)
    then have "pick_first hub is_version repo app required base_checks numbers
        (said @ map (RefusedPull n) (x # xs)) w1 = (Inr (Some c), said', w')"
      using Cons.prems read f by simp
    from Cons.IH [OF this] show ?thesis
      by (elim exE conjE) (rule exI [of _ "n # _"], fastforce)
  qed
qed simp

text \<open>
  C5: When \<open>pick\<close> names a pull request, GitHub listed it as an open one with the release label, and every
  guard holds of the facts that were read for it: its payload, the listing of its changed files and the
  check runs on the head commit that \<open>pick\<close> names, with the required checks and the check runs on the head of
  \<open>main\<close> that were read before. Each listed one with a lower number was passed over with a refusal that
  names it.
\<close>

theorem picked_release_passes_every_guard:
  assumes "pick hub is_version repo app w = (Inr (Some c), said, w')"
  shows "\<exists>numbers w1 w2 branch w3 sha w4 w5 f.
      release_numbers hub repo w = (Inr numbers, w1) \<and> rc_number c \<in> set numbers
    \<and> (\<forall>n \<in> set numbers. n < rc_number c \<longrightarrow> (\<exists>r. RefusedPull n r \<in> set said))
    \<and> required_checks hub repo w1 = (Inr (rf_required f), w2)
    \<and> hb_rest hub (''/repos/'' @ repo @ ''/branches/'' @ base_branch) w2 = (Inr branch, w3)
    \<and> base_sha_of (hb_repr hub) branch = Inr sha
    \<and> checks_on hub repo sha w3 = (Inr (rf_base_checks f), w4)
    \<and> facts_answered hub repo (rc_number c) f w5 w'
    \<and> may_merge is_version f \<and> rf_repository f = repo \<and> rf_app_login f = app
    \<and> rc_head_sha c = rl_head_sha (rf_pull f)"
proof -
  obtain numbers w1 required w2 branch w3 sha base_checks w4 where
      reads: "release_numbers hub repo w = (Inr numbers, w1)" "required_checks hub repo w1 = (Inr required, w2)"
        "hb_rest hub (''/repos/'' @ repo @ ''/branches/'' @ base_branch) w2 = (Inr branch, w3)"
        "base_sha_of (hb_repr hub) branch = Inr sha" "checks_on hub repo sha w3 = (Inr base_checks, w4)"
      and run: "pick_first hub is_version repo app required base_checks numbers [] w4 = (Inr (Some c), said, w')"
    by (rule pick_reads [OF assms])
  have "sorted numbers"
    using reads(1) by (auto simp: release_numbers_def split: prod.splits sum.splits)
  obtain before after f w5 where split: "numbers = before @ rc_number c # after"
    and f: "release_facts_of hub repo app required base_checks (rc_number c) w5 = (Inr f, w')"
    and ok: "refusals is_version f = []" "rc_head_sha c = rl_head_sha (rf_pull f)"
    and refused: "\<forall>n \<in> set before. \<exists>r. RefusedPull n r \<in> set said"
    using pick_first_picked [OF run] by blast
  have lower: "\<forall>n \<in> set numbers. n < rc_number c \<longrightarrow> (\<exists>r. RefusedPull n r \<in> set said)"
    using \<open>sorted numbers\<close> refused unfolding split by (auto simp: sorted_append)
  have "rc_number c \<in> set numbers" by (simp add: split)
  moreover have "may_merge is_version f" using ok(1) refusals_none [of is_version f] by simp
  ultimately show ?thesis
    using reads lower ok(2) facts_read [OF f]
    by (intro exI [of _ numbers] exI [of _ w1] exI [of _ w2] exI [of _ branch] exI [of _ w3] exI [of _ sha]
        exI [of _ w4] exI [of _ w5] exI [of _ f] conjI) simp_all
qed

definition release_payload :: json where
  "release_payload =
     JObj [(''number'', JInt 7), (''title'', JStr ''chore(main): release 1.2.3''), (''state'', JStr ''open''),
           (''user'', JObj [(''login'', JStr ''release-app[bot]'')]),
           (''head'', JObj [(''ref'', JStr ''release-please--branches--main''), (''sha'', JStr ''abc''),
                          (''repo'', JObj [(''full_name'', JStr ''o/r'')])]),
           (''base'', JObj [(''ref'', JStr ''main'')]),
           (''labels'', JArr [JObj [(''name'', JStr ''autorelease: pending'')]]),
           (''mergeable'', JBool True), (''mergeable_state'', JStr ''clean'')]"

definition release_hub :: "nat hub" where
  "release_hub = (sample_hub [])
     \<lparr>hb_list := (\<lambda>path key w. (Inr
          (if key \<noteq> None then sample_runs
           else if prefix ''/repos/o/r/rules'' path then
             [JObj [(''type'', JStr ''required_status_checks''),
                    (''parameters'', JObj [(''required_status_checks'', JArr [JObj [(''context'', JStr ''ci'')]])])]]
           else if prefix ''/repos/o/r/pulls/7/files'' path then
             [JObj [(''filename'', JStr ''CHANGELOG.md''), (''status'', JStr ''modified'')]]
           else [release_payload]), Suc w)),
      hb_rest := (\<lambda>path w. (Inr
          (if prefix ''/repos/o/r/branches'' path then JObj [(''commit'', JObj [(''sha'', JStr ''def'')])]
           else release_payload), Suc w))\<rparr>"

lemma sample_pick:
  "pick release_hub (\<lambda>v. v \<noteq> []) ''o/r'' ''Release-App[bot]'' 0
   = (Inr (Some \<lparr>rc_number = 7, rc_head_sha = ''abc''\<rparr>), [], 7)"
  by code_simp

theorem picked_release_passes_every_guard_witness:
  "\<exists>numbers w1. release_numbers release_hub ''o/r'' 0 = (Inr numbers, w1) \<and> 7 \<in> set numbers
     \<and> (\<exists>f. may_merge (\<lambda>v. v \<noteq> []) f)"
  using picked_release_passes_every_guard [OF sample_pick] by auto

end
