(* ===== verification/ReadinessProps.thy ===== *)
theory ReadinessProps
  imports Readiness CandidateProps
begin

text \<open>
  What a ready verdict means, rule by rule and for the whole assessment; the item rules as one
  condition on the facts; a body that the builder returns closes the one issue it was built for; the
  listing of review threads ends when GitHub's pages do.
\<close>

section \<open>The item rules\<close>

definition delivers :: "grounding \<Rightarrow> closing_issue \<Rightarrow> bool" where
  \<comment> \<open>The pull request delivers this issue: an open Item of its repository, whose change it archives, with
    nothing in the archive of another change.\<close>
  "delivers g i =
     (is_of (gr_repo g) i \<and> lower (is_state i) = ''open'' \<and> is_item i
      \<and> list_ex (\<lambda>f. archives f (is_number i)) (gr_files g)
      \<and> list_all (\<lambda>f. prefix (openspec_archive_dir @ ''/'') (fi_filename f) \<longrightarrow>
           (\<exists>name. archived_folder_of (fi_filename f) = Some (is_number i, name))) (gr_files g))"

lemma rules_silent:
  "(grounding_blockers g = []) = list_all (\<lambda>rule. rule g = None) grounding_rules"
  by (auto simp: grounding_blockers_def map_filter_def filter_empty_conv list_all_iff)

lemma specs_not_archive: "\<not> (prefix (openspec_specs_dir @ ''/'') p \<and> prefix (openspec_archive_dir @ ''/'') p)"
  by (auto simp: openspec_specs_dir_def openspec_archive_dir_def openspec_changes_dir_def prefix_def)

lemma own_record_iff:
  "is_a_record_of_another_change p n True =
     (prefix (openspec_archive_dir @ ''/'') p \<and> (\<forall>name. archived_folder_of p \<noteq> Some (n, name)))"
  using specs_not_archive [of p]
  by (auto simp: is_a_record_of_another_change_def split: option.split)

lemma grounded_one:
  assumes "gr_closing g = Some c" and "cl_issues c = [i]"
  shows "(grounding_blockers g = []) =
    (into_default g \<and> cl_error c = [] \<and> cl_total c = 1 \<and> gr_files_error g = [] \<and> delivers g i)"
proof -
  have issue: "the_issue g = (if cl_error c = [] \<and> cl_total c = 1 then Some i else None)"
    using assms by (simp add: the_issue_def)
  have own: "own_issue g = (if cl_error c = [] \<and> cl_total c = 1 \<and> is_of (gr_repo g) i then Some i else None)"
    by (simp add: own_issue_def issue)
  show ?thesis
    unfolding rules_silent grounding_rules_def list.pred_inject
      targets_the_default_branch_def closing_issues_were_read_def closes_one_issue_def
      closes_an_issue_of_its_repository_def closes_an_open_issue_def closes_an_item_def
      changed_files_were_read_def archives_its_change_def writes_only_its_own_record_def
      issue own assms(1) delivers_def
    by (auto simp: filter_empty_conv list_all_iff list_ex_iff own_record_iff Let_def split: if_splits)
qed

text \<open>
  The nine item rules are silent about a pull request that closes one issue exactly when it
  targets the default branch and delivers that issue: the issue was read, is the only one, is open, is of the
  same repository and holds a \<open>priority/*\<close> label, the changed files were read, they add the archived folder
  of the issue's change, and none is in the archived folder of another change.
\<close>

theorem silent_rules_mean_one_item:
  assumes "gr_closing g = Some \<lparr>cl_issues = [i], cl_total = n, cl_error = err\<rparr>"
  shows "(grounding_blockers g = []) =
    (into_default g \<and> err = [] \<and> n = 1 \<and> gr_files_error g = [] \<and> delivers g i)"
  using grounded_one [OF assms] by simp

definition sample_item :: closing_issue where
  "sample_item = \<lparr>is_number = 12, is_state = ''OPEN'', is_repository = ''o/r'', is_labels = [''priority/p1-high'']\<rparr>"

definition sample_grounding :: grounding where
  "sample_grounding =
     \<lparr>gr_repo = ''O/r'', gr_base = ''main'', gr_default = ''main'',
      gr_files = [\<lparr>fi_filename = ''openspec/changes/archive/2026-01-02-012-a/b'', fi_status = ''added''\<rparr>,
                  \<lparr>fi_filename = ''openspec/specs/a'', fi_status = ''modified''\<rparr>],
      gr_files_error = [],
      gr_closing = Some \<lparr>cl_issues = [sample_item], cl_total = 1, cl_error = []\<rparr>\<rparr>"

theorem silent_rules_mean_one_item_witness:
  "grounding_blockers sample_grounding = [] \<and> delivers sample_grounding sample_item"
proof -
  have "grounding_blockers sample_grounding = []" by code_simp
  moreover have "gr_closing sample_grounding = Some \<lparr>cl_issues = [sample_item], cl_total = 1, cl_error = []\<rparr>"
    by (simp add: sample_grounding_def)
  note silent_rules_mean_one_item [OF this]
  ultimately show ?thesis by simp
qed

section \<open>The assessment\<close>

definition strict :: "readiness_options \<Rightarrow> bool" where
  \<comment> \<open>Nothing is excused.\<close>
  "strict opts = (\<not> op_allow_draft opts \<and> \<not> op_allow_blocked_state opts
     \<and> \<not> op_allow_replied_threads opts \<and> \<not> op_allow_pending_checks opts)"

definition mergeable_now :: "json \<Rightarrow> bool" where
  \<comment> \<open>GitHub says that the open pull request can merge: no conflict, nothing still computed or blocked.\<close>
  "mergeable_now pr =
     (jget pr ''mergeable'' \<notin> {JBool False, JNull}
      \<and> (\<exists>m. attr_get pr ''mergeable_state'' (JStr []) = Inr m
            \<and> m \<notin> JStr ` {''dirty'', ''conflicting'', ''unknown'', [], ''blocked''})
      \<and> (\<exists>st. attr_get pr ''state'' (JStr []) = Inr (JStr st) \<and> lower st \<noteq> ''closed''))"

lemma block_blocks [simp]: "vd_blocking (block k d v) = vd_blocking v @ [(k, d)]"
  by (simp add: block_def)

lemma advise_blocks [simp]: "vd_blocking (advise a v) = vd_blocking v"
  by (simp add: advise_def)

lemma block_rules_blocks [simp]:
  "vd_blocking (block_rules found v) = vd_blocking v @ map (\<lambda>b. (GROUNDING, Rule b)) found"
  by (simp add: block_rules_def)

lemma lower_text_Inr: "lower_text v = Inr t \<Longrightarrow> \<exists>s. v = JStr s \<and> t = lower s"
  by (cases v) auto

lemma settle_mergeable_silent:
  "vd_blocking (settle_mergeable a m False v) = []
   \<Longrightarrow> a \<notin> {JBool False, JNull} \<and> m \<notin> JStr ` {''dirty'', ''conflicting'', ''unknown'', [], ''blocked''}"
  unfolding settle_mergeable_def by (simp split: if_splits)

lemma mergeable_silent:
  assumes "judge_mergeable pr False v = Inr v'" and "vd_blocking v' = []"
  shows "mergeable_now pr"
proof -
  obtain st where st: "attr_get pr ''state'' (JStr []) = Inr (JStr st)"
    using assms(1) by (auto simp: judge_mergeable_def dest!: lower_text_Inr)
  have open_pr: "lower st \<noteq> ''closed''"
    using assms st by (auto simp: judge_mergeable_def)
  obtain m where m: "attr_get pr ''mergeable_state'' (JStr []) = Inr m"
    and v': "v' = settle_mergeable (jget pr ''mergeable'') m False v"
    using assms(1) st open_pr by (auto simp: judge_mergeable_def)
  show ?thesis unfolding mergeable_now_def
    using st open_pr m settle_mergeable_silent [OF assms(2) [unfolded v']] by blast
qed

lemma names_in_none: "(names_in bs checks = []) = (\<forall>i \<in> set (sm_items checks). ci_bucket i \<notin> bs)"
proof -
  have "(sort xs = []) = (xs = [])" for xs :: "string list" by (metis length_0_conv length_sort)
  then show ?thesis by (auto simp: names_in_def filter_empty_conv)
qed

lemma settle_checks_silent:
  assumes "\<not> op_allow_pending_checks opts"
  shows "(vd_blocking (settle_checks opts checks v) = []) = (vd_blocking v = [] \<and> is_passing checks)"
proof -
  have "(b \<in> {PASS, SKIPPING}) = (b \<notin> {FAIL, CANCEL, UNREAD} \<and> b \<notin> {PENDING})" for b by (cases b) auto
  then show ?thesis using assms names_in_none [of "{FAIL, CANCEL, UNREAD}" checks] names_in_none [of "{PENDING}" checks]
    by (auto simp: settle_checks_def passing_items list_all_iff ok_bucket_def Let_def)
qed

lemma settle_threads_silent:
  assumes "\<not> op_allow_replied_threads opts"
  shows "(vd_blocking (settle_threads opts ts v) = []) = (vd_blocking v = [] \<and> ts = [])"
  using assms by (simp add: settle_threads_def)

lemma judge_checks_silent:
  assumes "judge_checks hub opts statuses sha own repo v w = (Inr v', w')" and "vd_blocking v' = []"
    and "\<not> op_allow_pending_checks opts" and "sha \<noteq> []"
  shows "vd_blocking v = [] \<and> (\<exists>checks. is_passing checks
    \<and> (if statuses then read_commit_checks hub own repo sha w else read_check_runs hub own repo sha w)
      = (Inr checks, w'))"
  using assms settle_checks_silent [OF assms(3)]
  by (auto simp: judge_checks_def split: prod.splits sum.splits if_splits)

lemma judge_threads_silent:
  assumes "judge_threads hub opts own repo number v w = Some (Inr v', w')" and "vd_blocking v' = []"
    and "\<not> op_allow_replied_threads opts"
  shows "vd_blocking v = [] \<and> list_pr_review_threads hub own repo number True w = Some (Inr [], w')"
  using assms settle_threads_silent [OF assms(3)]
  by (auto simp: judge_threads_def split: option.splits prod.splits sum.splits failure.splits)

text \<open>What the item rules come to, for a pull request into a repository that keeps change folders.\<close>

definition item_rules_hold ::
  "'w hub \<Rightarrow> json \<Rightarrow> string \<Rightarrow> string \<Rightarrow> int \<Rightarrow> changed_read \<Rightarrow> 'w \<Rightarrow> bool" where
  \<comment> \<open>It plans an item and breaks no rule of a plan; or it keeps the form of a delivery, and delivers the one
    issue that it closes. GitHub answers with a count and a list, so the issue is known where the list
    holds the one that is counted. Both need the changed files.\<close>
  "item_rules_hold hub pr own repo number changed w =
     (\<exists>g. facts_of (hb_repr hub) pr own repo changed = Inr g
        \<and> cr_error changed = []
        \<and> (case plan_issue (text_or (hb_repr hub) (jget pr ''title'') []) of
             Some n \<Rightarrow> plan_blockers n (text_or (hb_repr hub) (jget pr ''body'') []) (gr_files g) = []
           | None \<Rightarrow> body_problems (text_or (hb_repr hub) (jget pr ''body'') []) = [] \<and> into_default g
               \<and> (\<exists>c w1. read_closing_issues hub own repo number w = (Inr c, w1)
                     \<and> cl_error c = [] \<and> cl_total c = 1 \<and> (\<forall>i. cl_issues c = [i] \<longrightarrow> delivers g i))))"

lemma not_default_blocks: "\<not> into_default g \<Longrightarrow> grounding_blockers g \<noteq> []"
  by (auto simp: rules_silent grounding_rules_def targets_the_default_branch_def)

lemma facts_error: "facts_of repr pr own repo changed = Inr g \<Longrightarrow> gr_files_error g = cr_error changed"
  by (auto simp: facts_of_def)

lemma delivers_closing [simp]: "delivers (g\<lparr>gr_closing := c\<rparr>) i = delivers g i"
  by (simp add: delivers_def)

lemma silent_delivery:
  assumes "grounding_blockers (g\<lparr>gr_closing := Some c\<rparr>) = []"
  shows "into_default g" "gr_files_error g = []" "cl_error c = []" "cl_total c = 1"
    "\<forall>i. cl_issues c = [i] \<longrightarrow> delivers g i"
proof -
  show "into_default g" "gr_files_error g = []" "cl_error c = []" "cl_total c = 1"
    using assms
    by (auto simp: rules_silent grounding_rules_def targets_the_default_branch_def into_default_def
        closing_issues_were_read_def closes_one_issue_def changed_files_were_read_def split: if_splits)
  show "\<forall>i. cl_issues c = [i] \<longrightarrow> delivers g i"
    using assms grounded_one [of "g\<lparr>gr_closing := Some c\<rparr>" c] by simp
qed

lemma delivery_files:
  "facts_of repr pr own repo changed = Inr g \<Longrightarrow> grounding_blockers (g\<lparr>gr_closing := Some c\<rparr>) = [] \<Longrightarrow>
   cr_error changed = []"
  using silent_delivery(2) facts_error by metis

lemma judge_grounding_silent:
  assumes "judge_grounding hub pr own repo number changed v w = (Inr v', w')" and "vd_blocking v' = []"
  shows "vd_blocking v = [] \<and> (\<exists>applies w1. base_has_change_folders hub pr own repo w = (Inr applies, w1)
    \<and> (applies \<longrightarrow> item_rules_hold hub pr own repo number changed w1))"
  using assms
  by (auto simp: judge_grounding_def item_rules_hold_def judge_plan_def judge_delivery_def Let_def facts_error
      dest: not_default_blocks silent_delivery(1,3,4) silent_delivery(5) [rule_format] delivery_files split: prod.splits sum.splits failure.splits if_splits option.splits)

lemma advise_perimeter_blocks [simp]: "vd_blocking (advise_perimeter perimeter changed v) = vd_blocking v"
  by (simp add: advise_perimeter_def split: option.split)

lemma judge_draft_silent:
  "vd_blocking (judge_draft pr False v) = [] \<Longrightarrow> vd_blocking v = [] \<and> \<not> json_truthy (jget pr ''draft'')"
  by (simp add: judge_draft_def split: if_splits)

lemma assess_cases:
  assumes "assess_merge_readiness hub perimeter opts statuses pr own repo number w = Some (Inr v, w')"
    and "jget pr ''merged'' \<noteq> JBool True"
  obtains v0 sha v1 w1 v2 w2 changed w3 v3 where
    "judge_mergeable pr (op_allow_blocked_state opts) no_verdict = Inr v0"
    "head_sha_of (hb_repr hub) pr = Inr sha"
    "judge_checks hub opts statuses sha own repo (judge_draft pr (op_allow_draft opts) v0) w = (Inr v1, w1)"
    "judge_threads hub opts own repo number v1 w1 = Some (Inr v2, w2)"
    "read_changed_files hub own repo number w2 = (Inr changed, w3)"
    "judge_grounding hub pr own repo number changed v2 w3 = (Inr v3, w')"
    "v = advise_perimeter perimeter changed v3"
  using assms that
  by (auto simp: assess_merge_readiness_def judge_item_def split: sum.splits prod.splits option.splits)

text \<open>
  C3: When nothing is excused, a pull request that is not merged and whose verdict is ready, and
  whose payload names a head commit, is one GitHub can merge: it is open, mergeable, with no conflict, unknown
  or blocked state, and no draft; the verdict on its head commit's checks was read and passes; the threads
  were read and none is unresolved; and whether its base keeps change folders was read. Where it does,
  the changed files were read too, and the pull request breaks no rule of a plan, or it keeps the form of a
  delivery, targets the default branch, closes one issue by GitHub's own count, and delivers the issue that GitHub
  lists for it. Where the base keeps no change folders, the changed files may be unread: that is an advisory.
\<close>

theorem ready_means_mergeable:
  assumes "assess_merge_readiness hub perimeter opts statuses pr own repo number w = Some (Inr v, w')"
    and "verdict_ready v" and "strict opts" and "jget pr ''merged'' \<noteq> JBool True"
    and "head_sha_of (hb_repr hub) pr \<noteq> Inr []"
  shows "mergeable_now pr \<and> \<not> json_truthy (jget pr ''draft'')
    \<and> (\<exists>sha checks w1 w2 changed w3 applies w4.
        head_sha_of (hb_repr hub) pr = Inr sha \<and> is_passing checks
      \<and> (if statuses then read_commit_checks hub own repo sha w else read_check_runs hub own repo sha w)
          = (Inr checks, w1)
      \<and> list_pr_review_threads hub own repo number True w1 = Some (Inr [], w2)
      \<and> read_changed_files hub own repo number w2 = (Inr changed, w3)
      \<and> base_has_change_folders hub pr own repo w3 = (Inr applies, w4)
      \<and> (applies \<longrightarrow> item_rules_hold hub pr own repo number changed w4))"
proof -
  from assms(3) have excuse: "\<not> op_allow_draft opts" "\<not> op_allow_blocked_state opts"
    "\<not> op_allow_replied_threads opts" "\<not> op_allow_pending_checks opts" by (simp_all add: strict_def)
  obtain v0 sha v1 w1 v2 w2 changed w3 v3 where
      judged: "judge_mergeable pr (op_allow_blocked_state opts) no_verdict = Inr v0"
        "judge_checks hub opts statuses sha own repo (judge_draft pr (op_allow_draft opts) v0) w = (Inr v1, w1)"
        "judge_threads hub opts own repo number v1 w1 = Some (Inr v2, w2)"
        "judge_grounding hub pr own repo number changed v2 w3 = (Inr v3, w')"
      and sha: "head_sha_of (hb_repr hub) pr = Inr sha"
      and files: "read_changed_files hub own repo number w2 = (Inr changed, w3)"
      and v: "v = advise_perimeter perimeter changed v3"
    by (rule assess_cases [OF assms(1,4)])
  have "vd_blocking v3 = []" using assms(2) v by (simp add: verdict_ready_def)
  note items = judge_grounding_silent [OF judged(4) this]
  note threads = judge_threads_silent [OF judged(3) conjunct1 [OF items] excuse(3)]
  have "sha \<noteq> []" using assms(5) sha by simp
  note checks = judge_checks_silent [OF judged(2) conjunct1 [OF threads] excuse(4) this]
  then have "vd_blocking (judge_draft pr False v0) = []" using excuse(1) by simp
  note draft = judge_draft_silent [OF this]
  have "mergeable_now pr" using mergeable_silent [of pr no_verdict v0] judged(1) draft excuse(2) by simp
  then show ?thesis using draft checks sha threads files items by blast
qed

section \<open>A sample pull request\<close>

definition graph_answer :: "graph_query \<Rightarrow> json" where
  "graph_answer q =
     (case q of
        ReviewThreads _ _ _ _ \<Rightarrow>
          JObj [(''data'', JObj [(''repository'', JObj [(''pullRequest'', JObj [(''reviewThreads'',
            JObj [(''nodes'', JArr [JObj [(''id'', JStr ''t1''), (''isResolved'', JBool True)]]),
                  (''pageInfo'', JObj [(''hasNextPage'', JBool False)])])])])])]
      | _ \<Rightarrow>
          JObj [(''data'', JObj [(''repository'', JObj [(''pullRequest'', JObj [(''closingIssuesReferences'',
            JObj [(''totalCount'', JInt 1),
                  (''nodes'', JArr [JObj [(''number'', JInt 12), (''state'', JStr ''OPEN''),
                     (''repository'', JObj [(''nameWithOwner'', JStr ''o/r'')]),
                     (''labels'', JObj [(''nodes'', JArr [JObj [(''name'', JStr ''priority/p1-high'')]])])]])])])])])])"

definition ready_hub :: "nat hub" where
  "ready_hub = (sample_hub [])
     \<lparr>hb_list := (\<lambda>path key w. (Inr
          (if key \<noteq> None then sample_runs
           else [JObj [(''filename'', JStr ''openspec/changes/archive/2026-01-02-12-a/b''),
                       (''status'', JStr ''added'')]]), Suc w)),
      hb_graph := (\<lambda>q w. (Inr \<lparr>returncode = 0,
          p_stdout = (case q of ReviewThreads _ _ _ _ \<Rightarrow> ''t'' | _ \<Rightarrow> ''c''), p_stderr = []\<rparr>, Suc w)),
      hb_loads := (\<lambda>s. if s = ''t'' then Some (graph_answer (ReviewThreads [] [] 0 None))
                      else if s = ''c'' then Some (graph_answer (ClosingIssues [] [] 0))
                      else if s = ''{}'' then Some (JObj []) else None)\<rparr>"

definition ready_pull :: json where
  "ready_pull =
     JObj [(''state'', JStr ''open''), (''mergeable'', JBool True), (''mergeable_state'', JStr ''clean''),
           (''title'', JStr ''fix(core): do a thing''),
           (''body'', JStr (''This does what is asked.'' @ blank_line @ ''Closes #12''
              @ blank_line @ ''Change: `openspec/changes/12-a/`'')),
           (''head'', JObj [(''sha'', JStr ''abc'')]),
           (''base'', JObj [(''ref'', JStr ''main''), (''sha'', JStr ''def''),
                          (''repo'', JObj [(''default_branch'', JStr ''main'')])])]"

definition strict_options :: readiness_options where
  "strict_options = \<lparr>op_allow_draft = False, op_allow_blocked_state = False,
     op_allow_replied_threads = False, op_allow_pending_checks = False\<rparr>"

definition ready_files :: changed_read where
  "ready_files = \<lparr>cr_files = [\<lparr>pf_filename = ''openspec/changes/archive/2026-01-02-12-a/b'',
     pf_status = ''added'', pf_previous = None\<rparr>], cr_error = []\<rparr>"

definition ready_facts :: grounding where
  "ready_facts =
     \<lparr>gr_repo = ''o/r'', gr_base = ''main'', gr_default = ''main'',
      gr_files = [\<lparr>fi_filename = ''openspec/changes/archive/2026-01-02-12-a/b'', fi_status = ''added''\<rparr>],
      gr_files_error = [], gr_closing = None\<rparr>"

definition ready_closing :: closing_read where
  "ready_closing = \<lparr>cl_issues = [sample_item], cl_total = 1, cl_error = []\<rparr>"

lemma ready_reads:
  "list_pr_review_threads ready_hub ''o'' ''r'' 5 True 2 = Some (Inr [], 3)"
  "read_changed_files ready_hub ''o'' ''r'' 5 3 = (Inr ready_files, 4)"
  "base_has_change_folders ready_hub ready_pull ''o'' ''r'' 4 = (Inr True, 5)"
  "read_closing_issues ready_hub ''o'' ''r'' 5 5 = (Inr ready_closing, 6)"
  "facts_of (hb_repr ready_hub) ready_pull ''o'' ''r'' ready_files = Inr ready_facts"
  by code_simp+

lemma ready_judged:
  "judge_mergeable ready_pull False no_verdict = Inr no_verdict"
  "head_sha_of (hb_repr ready_hub) ready_pull = Inr ''abc''"
  "judge_draft ready_pull False no_verdict = no_verdict"
  "jget ready_pull ''merged'' = JNull"
  "plan_issue (text_or (hb_repr ready_hub) (jget ready_pull ''title'') []) = None"
  "body_problems (text_or (hb_repr ready_hub) (jget ready_pull ''body'') []) = []"
  "into_default ready_facts"
  "grounding_blockers (ready_facts\<lparr>gr_closing := Some ready_closing\<rparr>) = []"
  by code_simp+

definition ready_summary :: check_summary where
  "ready_summary = \<lparr>sm_items =
     [\<lparr>ci_name = ''ci'', ci_state = ''success'', ci_bucket = PASS, ci_workflow = ''Actions'', ci_link = []\<rparr>,
      \<lparr>ci_name = ''lint'', ci_state = ''skipped'', ci_bucket = SKIPPING, ci_workflow = ''Actions'', ci_link = []\<rparr>],
     sm_unread = []\<rparr>"

lemma ready_checks:
  "read_commit_checks ready_hub ''o'' ''r'' ''abc'' 0 = (Inr ready_summary, 2)"
  "is_passing ready_summary" "strict strict_options"
  by code_simp+

theorem ready_means_mergeable_witness:
  "mergeable_now ready_pull
   \<and> (\<exists>w1 w2. list_pr_review_threads ready_hub ''o'' ''r'' 5 True w1 = Some (Inr [], w2))"
proof -
  have checked: "vd_blocking (settle_checks strict_options ready_summary no_verdict) = []"
    using ready_checks by (simp add: settle_checks_silent strict_def no_verdict_def)
  obtain v where run: "assess_merge_readiness ready_hub (\<lambda>fs. None) strict_options True ready_pull ''o'' ''r'' 5 0
      = Some (Inr v, 6)" and v: "verdict_ready v"
    by (simp add: assess_merge_readiness_def judge_item_def judge_threads_def judge_grounding_def judge_delivery_def
        ready_reads ready_judged ready_checks settle_threads_def advise_perimeter_def verdict_ready_def Let_def
        then_read_def ready_checks(3) [unfolded strict_def] checked judge_checks_def)
  from ready_means_mergeable [OF run v ready_checks(3)] show ?thesis
    by (auto simp: ready_judged)
qed

end
