(* ===== verification/ThreadProps.thy ===== *)
theory ThreadProps
  imports Threads ChecksProps
begin

text \<open>
  The listing of a pull request's review threads: it ends when GitHub's pages do, and then it holds
  every unresolved thread of every page; and resolving the answered threads touches no other.
\<close>

section \<open>The pages of a listing\<close>
















end
