(* ===== verification/PullFormProps.thy ===== *)
theory PullFormProps
  imports PullForm
begin

text \<open>
  What a built body says: a body that \<open>build_body\<close> returns is read back as closing the one issue it was
  built for, and naming a change of that issue, whatever the text and the attribution given.
\<close>

section \<open>Numbers as text\<close>

lemma digits_text_ok:
  "digits_text n \<noteq> [] \<and> list_all is_digit (digits_text n) \<and> digits_val (digits_text n) = int n"
proof (induction n rule: digits_text.induct)
  case (1 n)
  have digit: "is_digit (char_of (48 + k))" "digit_val (char_of (48 + k)) = int k" if "k < 10" for k :: nat
    using that by (simp_all add: is_digit_def digit_val_def Let_def)
  show ?case
  proof (cases "n < 10")
    case True
    then show ?thesis using digit [of n] by (simp add: digits_text.simps [of n] digits_val_def)
  next
    case False
    then have "10 * int (n div 10) + int (n mod 10) = int n" by (metis mult_div_mod_eq of_nat_add of_nat_mult of_nat_numeral)
    then show ?thesis using 1 False digit [of "n mod 10"]
      by (simp add: digits_text.simps [of n] digits_val_def)
  qed
qed

lemma numbered_int_text: "0 \<le> n \<Longrightarrow> numbered_line lead (lead @ int_text n) = Some n"
  using digits_text_ok [of "nat n"]
  by (simp add: numbered_line_def without_prefix_def int_text_def)

section \<open>Lines\<close>

definition unbroken :: "string \<Rightarrow> bool" where
  "unbroken l = (\<not> list_ex is_line_break l)"

lemma line_feed: "is_line_break (CHR 0x0A)" "\<not> CHR 0x0D = CHR 0x0A"
  by (simp_all add: is_line_break_def)

lemma unbroken_Cons: "unbroken (c # s) = (\<not> is_line_break c \<and> unbroken s)"
  by (simp add: unbroken_def)

lemma carriage_return: "is_line_break (CHR 0x0D)"
  by (simp add: is_line_break_def)

lemma splitlines_nonempty: "s \<noteq> [] \<Longrightarrow> splitlines s \<noteq> []"
proof (induction s)
  case (Cons c s)
  then show ?case by (cases s) (auto split: list.split)
qed simp

lemma splitlines_line: "l \<noteq> [] \<Longrightarrow> unbroken l \<Longrightarrow> splitlines l = [l]"
proof (induction l)
  case (Cons c s)
  then show ?case using carriage_return
    by (cases s) (auto simp: unbroken_Cons split: list.split)
qed simp

lemma splitlines_line_then: "unbroken l \<Longrightarrow> splitlines (l @ CHR 0x0A # s) = l # splitlines s"
proof (induction l)
  case Nil
  then show ?case using line_feed by simp
next
  case (Cons c l)
  then show ?case using carriage_return by (auto simp: unbroken_Cons)
qed

lemma splitlines_after: "\<exists>l ls. splitlines (a @ CHR 0x0A # s) = l # ls @ splitlines s"
proof (induction a)
  case Nil
  then show ?case using line_feed by auto
next
  case (Cons c a)
  then obtain l ls where "splitlines (a @ CHR 0x0A # s) = l # ls @ splitlines s" by blast
  then show ?case
    by (cases "(c = CHR 0x0D \<and> hd (a @ CHR 0x0A # s) = CHR 0x0A) \<or> is_line_break c")
      (auto intro: exI [of _ "[] :: string"] exI [of _ "l # ls"] exI [of _ "c # l"])
qed

text \<open>A line of a text stays a line when the text is stripped.\<close>

definition line_of :: "string \<Rightarrow> string \<Rightarrow> bool" where
  "line_of l s =
     (\<exists>a b. s = a @ l @ b \<and> (a = [] \<or> last a = CHR 0x0A) \<and> (b = [] \<or> hd b = CHR 0x0A))"

lemma line_in_splitlines:
  assumes "line_of l s" and "unbroken l" and "l \<noteq> []"
  shows "l \<in> set (splitlines s)"
proof -
  obtain a b where s: "s = a @ l @ b" "a = [] \<or> last a = CHR 0x0A" "b = [] \<or> hd b = CHR 0x0A"
    using assms(1) by (auto simp: line_of_def)
  have tail: "l \<in> set (splitlines (l @ b))"
    using s(3) assms(2,3) by (cases b) (auto simp: splitlines_line splitlines_line_then)
  show ?thesis
  proof (cases "a = []")
    case False
    then obtain a' where "a = a' @ [CHR 0x0A]" using s(2) by (metis append_butlast_last_id)
    then show ?thesis using splitlines_after [of a' "l @ b"] tail s(1) by auto
  qed (use tail s(1) in simp)
qed

lemma dropWhile_prefix: "x \<noteq> [] \<Longrightarrow> \<not> P (hd x) \<Longrightarrow> dropWhile P (a @ x @ b) = dropWhile P a @ x @ b"
  by (cases x; induction a) auto

lemma last_dropWhile: "dropWhile P a \<noteq> [] \<Longrightarrow> last (dropWhile P a) = last a"
  by (induction a) auto

lemma line_of_strip:
  assumes "line_of l s" and "l \<noteq> []" and "\<not> is_space (hd l)" and "\<not> is_space (last l)"
  shows "line_of l (strip s)"
proof -
  obtain a b where s: "s = a @ l @ b" "a = [] \<or> last a = CHR 0x0A" "b = [] \<or> hd b = CHR 0x0A"
    using assms(1) by (auto simp: line_of_def)
  let ?a = "dropWhile is_space a" and ?b = "rev (dropWhile is_space (rev b))"
  have "lstrip s = ?a @ l @ b" using assms s by (simp add: lstrip_def dropWhile_prefix)
  then have "strip s = ?a @ l @ ?b"
    using assms(2,4) dropWhile_prefix [of "rev l" is_space "rev b" "rev ?a"]
    by (simp add: strip_def rstrip_def hd_rev)
  moreover have "?a = [] \<or> last ?a = CHR 0x0A" 
    using s(2) last_dropWhile [of is_space a] by (cases "?a = []") auto
  moreover have "?b = [] \<or> hd ?b = CHR 0x0A"
    using s(3) last_dropWhile [of is_space "rev b"]
    by (cases "dropWhile is_space (rev b) = []") (auto simp: hd_rev last_rev)
  ultimately show ?thesis unfolding line_of_def by blast
qed

lemma indexed_in: "l \<in> set ls \<Longrightarrow> m l = Some n \<Longrightarrow> n \<in> snd ` set (indexed i m ls)"
  by (induction ls arbitrary: i) (auto split: option.split)

section \<open>A built body\<close>

lemma closing_ok:
  assumes "closing_problems body ls = ([], n, i)"
  shows "\<exists>k j. n = Some k \<and> i = Some j \<and> indexed 0 (numbered_line ''Closes #'') ls = [(j, k)]
    \<and> count_references False body = 1"
  using assms by (auto simp: closing_problems_def Let_def split: list.splits if_splits)

lemma change_ok:
  "change_problems ls = ([], n, i) \<Longrightarrow> \<exists>k j. n = Some k \<and> i = Some j \<and> indexed 0 change_line ls = [(j, k)]"
  by (auto simp: change_problems_def split: list.splits)

lemma body_ok:
  assumes "body_problems body = []"
  shows "\<exists>k i j. indexed 0 (numbered_line ''Closes #'') (splitlines (strip body)) = [(i, k)]
    \<and> indexed 0 change_line (splitlines (strip body)) = [(j, k)] \<and> i \<le> j
    \<and> count_references False body = 1"
proof -
  let ?ls = "splitlines (strip body)"
  obtain cp n i where c: "closing_problems body ?ls = (cp, n, i)" by (metis prod_cases3)
  obtain hp m j where h: "change_problems ?ls = (hp, m, j)" by (metis prod_cases3)
  have "cp = []" "hp = []" using assms c h by (auto simp: body_problems_def Let_def)
  then show ?thesis using assms c h closing_ok [of body ?ls n i] change_ok [of ?ls m j]
    by (auto simp: body_problems_def Let_def split: if_splits)
qed

lemma closes_line_ok:
  assumes "0 \<le> n"
  shows "unbroken (''Closes #'' @ int_text n)" "\<not> is_space (last (''Closes #'' @ int_text n))"
proof -
  have digits: "int_text n \<noteq> []" "\<forall>c \<in> set (int_text n). is_digit c"
    using digits_text_ok [of "nat n"] assms by (auto simp: int_text_def list_all_iff)
  have "is_digit c \<Longrightarrow> \<not> is_line_break c \<and> \<not> is_space c" for c
    by (auto simp: is_digit_def is_line_break_def is_space_def Let_def)
  then show "unbroken (''Closes #'' @ int_text n)" "\<not> is_space (last (''Closes #'' @ int_text n))"
    using digits by (auto simp: unbroken_def list_ex_iff is_line_break_def Let_def)
qed

text \<open>
  C33: A body that \<open>build_body\<close> returns for an issue closes that issue and no other: it holds one
  closing reference, its one \<open>Closes\<close> line reads back as the issue it was built for, and its one
  \<open>Change:\<close> line, which comes after it, names a change of the same issue, whatever text, change and
  attribution the caller gave.
\<close>

theorem built_body_closes_its_issue:
  assumes "build_body why n change attribution = Inr body" and "0 \<le> n"
  shows "\<exists>i j. indexed 0 (numbered_line ''Closes #'') (splitlines (strip body)) = [(i, n)]
    \<and> indexed 0 change_line (splitlines (strip body)) = [(j, n)] \<and> i \<le> j
    \<and> count_references False body = 1"
proof -
  let ?l = "''Closes #'' @ int_text n"
  have ok: "body_problems body = []" using assms(1) by (auto simp: build_body_def Let_def split: if_splits)
  have "\<exists>b. body = strip why @ blank_line @ ?l @ CHR 0x0A # b"
    using assms(1) by (auto simp: build_body_def joined_by_def blank_line_def Let_def split: if_splits)
  then have "line_of ?l body"
    unfolding line_of_def blank_line_def by (metis append.assoc last_appendR last_ConsR last_ConsL list.distinct(1) list.sel(1))
  then have "line_of ?l (strip body)"
    by (rule line_of_strip) (use closes_line_ok [OF assms(2)] in \<open>simp_all add: is_space_def\<close>)
  then have "?l \<in> set (splitlines (strip body))"
    by (rule line_in_splitlines) (use closes_line_ok [OF assms(2)] in simp_all)
  then have "n \<in> snd ` set (indexed 0 (numbered_line ''Closes #'') (splitlines (strip body)))"
    by (rule indexed_in) (rule numbered_int_text [OF assms(2)])
  then show ?thesis using body_ok [OF ok] by auto
qed

theorem built_body_closes_its_issue_witness:
  "\<exists>body. build_body ''This does what is asked.'' 12 ''openspec/changes/12-a'' [] = Inr body
    \<and> count_references False body = 1"
proof -
  have "build_body ''This does what is asked.'' 12 ''openspec/changes/12-a'' []
      = Inr (''This does what is asked.'' @ blank_line @ ''Closes #12'' @ blank_line @ ''Change: `openspec/changes/12-a/`'')"
    by code_simp
  from built_body_closes_its_issue [OF this] this show ?thesis by auto
qed

end
