(* ===== verification/Addresses.thy ===== *)
theory Addresses
  imports Prelude "HOL-Library.Word"
begin

unbundle bit_operations_syntax

text \<open>
  IP addresses and networks as Python's \<open>ipaddress\<close> has them (Python 3.14): an IPv4 address is a
  word of 32 bits and an IPv6 address one of 128 bits with an optional scope, a network is its
  address and its prefix length, and the special-purpose blocks are those of the standard
  library. The address classes that \<^verbatim>\<open>src/devops_cli/core/validation.py\<close> builds on them are in
  the theory \<open>AddressClass\<close>.
\<close>

type_synonym ipv4 = "32 word"
type_synonym ipv6 = "128 word"
type_synonym 'a net = "'a word \<times> nat"

datatype ip = V4 ipv4 | V6 ipv6 "string option"

datatype ip_net = Net4 "32 net" | Net6 "128 net"

definition quad :: "ipv4 \<Rightarrow> ipv4 \<Rightarrow> ipv4 \<Rightarrow> ipv4 \<Rightarrow> ipv4" where
  "quad a b c d = a * 16777216 + b * 65536 + c * 256 + d"

definition groups :: "ipv6 list \<Rightarrow> ipv6" where
  \<comment> \<open>The address of eight groups of 16 bits.\<close>
  "groups gs = foldl (\<lambda>acc g. acc * 65536 + g) 0 gs"

section \<open>Networks\<close>

definition hostmask :: "'a::len net \<Rightarrow> 'a word" where
  "hostmask N = mask (LENGTH('a) - snd N)"

definition in_net :: "'a::len word \<Rightarrow> 'a net \<Rightarrow> bool" where
  \<comment> \<open>\<open>a in N\<close>\<close>
  "in_net a N = (a AND NOT (hostmask N) = fst N)"

definition broadcast :: "'a::len net \<Rightarrow> 'a word" where
  "broadcast N = fst N OR hostmask N"

definition overlaps :: "'a::len net \<Rightarrow> 'a net \<Rightarrow> bool" where
  "overlaps N M = (in_net (fst N) M \<or> in_net (broadcast N) M \<or> in_net (fst M) N \<or> in_net (broadcast M) N)"

definition subnet_of :: "'a::len net \<Rightarrow> 'a net \<Rightarrow> bool" where
  "subnet_of N M = (fst M \<le> fst N \<and> broadcast M \<ge> broadcast N)"

definition net_of :: "'a::len word \<Rightarrow> nat \<Rightarrow> 'a net" where
  \<comment> \<open>\<open>ip_network((a, p), strict=False)\<close>: the host bits are cleared.\<close>
  "net_of a p = (a AND NOT (mask (LENGTH('a) - p)), p)"

definition net_ok :: "'a::len net \<Rightarrow> bool" where
  "net_ok N = (snd N \<le> LENGTH('a) \<and> fst N AND hostmask N = 0)"

section \<open>IPv4 blocks\<close>

definition private_blocks4 :: "32 net list" where
  "private_blocks4 =
     [(quad 0 0 0 0, 8), (quad 10 0 0 0, 8), (quad 127 0 0 0, 8), (quad 169 254 0 0, 16),
      (quad 172 16 0 0, 12), (quad 192 0 0 0, 24), (quad 192 0 0 170, 31), (quad 192 0 2 0, 24),
      (quad 192 168 0 0, 16), (quad 198 18 0 0, 15), (quad 198 51 100 0, 24),
      (quad 203 0 113 0, 24), (quad 240 0 0 0, 4), (quad 255 255 255 255, 32)]"

definition private_exceptions4 :: "32 net list" where
  "private_exceptions4 = [(quad 192 0 0 9, 32), (quad 192 0 0 10, 32)]"

definition shared_block4 :: "32 net" where
  "shared_block4 = (quad 100 64 0 0, 10)"

definition is_private4 :: "ipv4 \<Rightarrow> bool" where
  "is_private4 a =
     (list_ex (in_net a) private_blocks4 \<and> list_all (\<lambda>N. \<not> in_net a N) private_exceptions4)"

definition is_global4 :: "ipv4 \<Rightarrow> bool" where
  "is_global4 a = (\<not> in_net a shared_block4 \<and> \<not> is_private4 a)"

definition is_multicast4 :: "ipv4 \<Rightarrow> bool" where
  "is_multicast4 a = in_net a (quad 224 0 0 0, 4)"

definition is_loopback4 :: "ipv4 \<Rightarrow> bool" where
  "is_loopback4 a = in_net a (quad 127 0 0 0, 8)"

definition is_link_local4 :: "ipv4 \<Rightarrow> bool" where
  "is_link_local4 a = in_net a (quad 169 254 0 0, 16)"

section \<open>IPv6 blocks\<close>

definition private_blocks6 :: "128 net list" where
  "private_blocks6 =
     [(1, 128), (0, 128), (groups [0, 0, 0, 0, 0, 0xffff, 0, 0], 96),
      (groups [0x64, 0xff9b, 1, 0, 0, 0, 0, 0], 48), (groups [0x100, 0, 0, 0, 0, 0, 0, 0], 64),
      (groups [0x2001, 0, 0, 0, 0, 0, 0, 0], 23), (groups [0x2001, 0xdb8, 0, 0, 0, 0, 0, 0], 32),
      (groups [0x2002, 0, 0, 0, 0, 0, 0, 0], 16), (groups [0x3fff, 0, 0, 0, 0, 0, 0, 0], 20),
      (groups [0xfc00, 0, 0, 0, 0, 0, 0, 0], 7), (groups [0xfe80, 0, 0, 0, 0, 0, 0, 0], 10)]"

definition private_exceptions6 :: "128 net list" where
  "private_exceptions6 =
     [(groups [0x2001, 1, 0, 0, 0, 0, 0, 1], 128), (groups [0x2001, 1, 0, 0, 0, 0, 0, 2], 128),
      (groups [0x2001, 3, 0, 0, 0, 0, 0, 0], 32), (groups [0x2001, 4, 0x112, 0, 0, 0, 0, 0], 48),
      (groups [0x2001, 0x20, 0, 0, 0, 0, 0, 0], 28), (groups [0x2001, 0x30, 0, 0, 0, 0, 0, 0], 28)]"

definition low32 :: "ipv6 \<Rightarrow> ipv4" where
  \<comment> \<open>\<open>IPv4Address(ip & 0xFFFFFFFF)\<close>\<close>
  "low32 a = ucast a"

definition ipv4_mapped :: "ipv6 \<Rightarrow> ipv4 option" where
  "ipv4_mapped a = (if drop_bit 32 a = 0xffff then Some (low32 a) else None)"

definition sixtofour :: "ipv6 \<Rightarrow> ipv4 option" where
  "sixtofour a = (if drop_bit 112 a = 0x2002 then Some (low32 (drop_bit 80 a)) else None)"

definition teredo :: "ipv6 \<Rightarrow> (ipv4 \<times> ipv4) option" where
  "teredo a =
     (if drop_bit 96 a = 0x20010000 then Some (low32 (drop_bit 64 a), low32 (NOT a)) else None)"

definition by_mapped :: "(ipv4 \<Rightarrow> bool) \<Rightarrow> (ipv6 \<Rightarrow> bool) \<Rightarrow> ipv6 \<Rightarrow> bool" where
  \<comment> \<open>An IPv4-mapped address has the properties of its IPv4 address.\<close>
  "by_mapped p4 p6 a = (case ipv4_mapped a of Some m \<Rightarrow> p4 m | None \<Rightarrow> p6 a)"

definition is_private6 :: "ipv6 \<Rightarrow> bool" where
  "is_private6 = by_mapped is_private4
     (\<lambda>a. list_ex (in_net a) private_blocks6 \<and> list_all (\<lambda>N. \<not> in_net a N) private_exceptions6)"

definition is_global6 :: "ipv6 \<Rightarrow> bool" where
  "is_global6 = by_mapped is_global4 (\<lambda>a. \<not> is_private6 a)"

definition is_multicast6 :: "ipv6 \<Rightarrow> bool" where
  "is_multicast6 = by_mapped is_multicast4 (\<lambda>a. in_net a (groups [0xff00, 0, 0, 0, 0, 0, 0, 0], 8))"

definition is_loopback6 :: "ipv6 \<Rightarrow> bool" where
  "is_loopback6 = by_mapped is_loopback4 (\<lambda>a. a = 1)"

definition is_link_local6 :: "ipv6 \<Rightarrow> bool" where
  "is_link_local6 = by_mapped is_link_local4 (\<lambda>a. in_net a (groups [0xfe80, 0, 0, 0, 0, 0, 0, 0], 10))"

section \<open>Addresses of either family, and networks\<close>

fun is_global :: "ip \<Rightarrow> bool" where
  "is_global (V4 a) = is_global4 a"
| "is_global (V6 a _) = is_global6 a"

fun is_multicast :: "ip \<Rightarrow> bool" where
  "is_multicast (V4 a) = is_multicast4 a"
| "is_multicast (V6 a _) = is_multicast6 a"

fun is_loopback :: "ip \<Rightarrow> bool" where
  "is_loopback (V4 a) = is_loopback4 a"
| "is_loopback (V6 a _) = is_loopback6 a"

fun is_link_local :: "ip \<Rightarrow> bool" where
  "is_link_local (V4 a) = is_link_local4 a"
| "is_link_local (V6 a _) = is_link_local6 a"

fun is_private :: "ip \<Rightarrow> bool" where
  "is_private (V4 a) = is_private4 a"
| "is_private (V6 a _) = is_private6 a"

definition both_ends :: "('a::len word \<Rightarrow> bool) \<Rightarrow> 'a net \<Rightarrow> bool" where
  "both_ends p N = (p (fst N) \<and> p (broadcast N))"

definition net_private :: "'a::len net list \<Rightarrow> 'a net list \<Rightarrow> 'a net \<Rightarrow> bool" where
  "net_private blocks exceptions N =
     (list_ex (\<lambda>B. in_net (fst N) B \<and> in_net (broadcast N) B) blocks \<and>
      list_all (\<lambda>E. \<not> in_net (fst N) E \<and> \<not> in_net (broadcast N) E) exceptions)"

fun net_is_private :: "ip_net \<Rightarrow> bool" where
  "net_is_private (Net4 N) = net_private private_blocks4 private_exceptions4 N"
| "net_is_private (Net6 N) = net_private private_blocks6 private_exceptions6 N"

fun net_is_global :: "ip_net \<Rightarrow> bool" where
  "net_is_global (Net4 N) =
     (\<not> (in_net (fst N) shared_block4 \<and> in_net (broadcast N) shared_block4) \<and> \<not> net_is_private (Net4 N))"
| "net_is_global (Net6 N) = (\<not> net_is_private (Net6 N))"

fun net_is_loopback :: "ip_net \<Rightarrow> bool" where
  "net_is_loopback (Net4 N) = both_ends is_loopback4 N"
| "net_is_loopback (Net6 N) = both_ends is_loopback6 N"

fun net_is_link_local :: "ip_net \<Rightarrow> bool" where
  "net_is_link_local (Net4 N) = both_ends is_link_local4 N"
| "net_is_link_local (Net6 N) = both_ends is_link_local6 N"

section \<open>Facts about networks\<close>

lemma and_not_mask_eq_iff:
  "(a AND NOT (mask k) = b AND NOT (mask k)) = (drop_bit k a = drop_bit k (b :: 'a::len word))"
proof
  assume e: "a AND NOT (mask k) = b AND NOT (mask k)"
  show "drop_bit k a = drop_bit k b"
  proof (rule bit_word_eqI)
    fix n assume "n < LENGTH('a)"
    have "bit (a AND NOT (mask k)) (k + n) = bit (b AND NOT (mask k)) (k + n)" using e by simp
    then show "bit (drop_bit k a) n = bit (drop_bit k b) n"
      by (auto simp: bit_drop_bit_eq bit_and_iff bit_not_iff bit_mask_iff dest: bit_imp_le_length)
  qed
next
  assume e: "drop_bit k a = drop_bit k b"
  show "a AND NOT (mask k) = b AND NOT (mask k)"
  proof (rule bit_word_eqI)
    fix n assume n: "n < LENGTH('a)"
    have "bit (drop_bit k a) (n - k) = bit (drop_bit k b) (n - k)" using e by simp
    then show "bit (a AND NOT (mask k)) n = bit (b AND NOT (mask k)) n"
      using n by (auto simp: bit_drop_bit_eq bit_and_iff bit_not_iff bit_mask_iff)
  qed
qed

lemma masked_off:
  assumes "(b :: 'a::len word) AND m = 0"
  shows "b AND NOT m = b"
proof (rule bit_word_eqI)
  fix n assume "n < LENGTH('a)"
  moreover have "\<not> bit (b AND m) n" using assms by simp
  ultimately show "bit (b AND NOT m) n = bit b n" by (auto simp: bit_and_iff bit_not_iff)
qed

lemma ok_masked: "net_ok N \<Longrightarrow> fst N AND NOT (hostmask N) = fst N"
  by (simp add: net_ok_def masked_off)

lemma in_net_iff:
  fixes N :: "'a::len net"
  shows "net_ok N \<Longrightarrow> in_net a N = (drop_bit (LENGTH('a) - snd N) a = drop_bit (LENGTH('a) - snd N) (fst N))"
  using ok_masked[of N] and_not_mask_eq_iff[of a "LENGTH('a) - snd N" "fst N"]
  by (simp add: in_net_def hostmask_def)

lemma net_of_ok: "p \<le> LENGTH('a) \<Longrightarrow> net_ok (net_of (a :: 'a::len word) p)"
  by (auto simp: net_ok_def net_of_def hostmask_def bit_and_iff bit_not_iff intro: bit_word_eqI)

lemma address_in_net: "net_ok N \<Longrightarrow> in_net (fst N) N"
  by (simp add: in_net_iff)

lemma broadcast_in_net: "net_ok N \<Longrightarrow> in_net (broadcast N) N"
  by (simp add: in_net_iff broadcast_def hostmask_def drop_bit_or)
   (rule bit_word_eqI, auto simp: bit_or_iff bit_drop_bit_eq bit_mask_iff)

text \<open>Two networks with a common address overlap: the shorter prefix holds the other's address.\<close>

lemma common_address_overlaps:
  fixes N M :: "'a::len net"
  assumes "net_ok N" "net_ok M" "in_net a N" "in_net a M"
  shows "overlaps N M"
proof -
  have wide: "in_net (fst X) Y"
    if "net_ok X" "net_ok Y" "in_net a X" "in_net a Y" "snd Y \<le> snd X" for X Y :: "'a net"
  proof -
    have "drop_bit (snd X - snd Y) (drop_bit (LENGTH('a) - snd X) a)
        = drop_bit (snd X - snd Y) (drop_bit (LENGTH('a) - snd X) (fst X))"
      using that by (simp add: in_net_iff)
    moreover have "(snd X - snd Y) + (LENGTH('a) - snd X) = LENGTH('a) - snd Y"
      using that by (simp add: net_ok_def)
    ultimately show ?thesis using that by (simp add: in_net_iff drop_bit_drop_bit)
  qed
  show ?thesis
    using wide[of N M] wide[of M N] assms by (cases "snd M \<le> snd N") (auto simp: overlaps_def)
qed

lemma overlap_has_common_address:
  "net_ok N \<Longrightarrow> net_ok M \<Longrightarrow> overlaps N M \<Longrightarrow> \<exists>a. in_net a N \<and> in_net a M"
  unfolding overlaps_def using address_in_net broadcast_in_net by blast

text \<open>A network whose two ends lie in a block lies in the block.\<close>

lemma in_net_range:
  assumes "in_net a N"
  shows "fst N \<le> a" and "a \<le> broadcast N"
proof -
  have N: "fst N = a AND NOT (hostmask N)" using assms by (simp add: in_net_def)
  show "fst N \<le> a" unfolding N by (rule word_and_le2)
  have "a OR hostmask N = broadcast N"
    unfolding broadcast_def N by (rule bit_word_eqI) (auto simp: bit_or_iff bit_and_iff bit_not_iff)
  then show "a \<le> broadcast N" using le_word_or2 [of a "hostmask N"] by simp
qed

lemma drop_bit_mono: "a \<le> (b :: 'a::len word) \<Longrightarrow> drop_bit k a \<le> drop_bit k b"
  by (simp only: word_le_nat_alt unat_drop_bit_eq) (simp add: drop_bit_eq_div div_le_mono)

lemma ends_in_block:
  assumes "net_ok B" "in_net (fst N) B" "in_net (broadcast N) B" "in_net a N"
  shows "in_net a B"
proof -
  define k where "k = LENGTH('a) - snd B"
  have "drop_bit k (fst N) \<le> drop_bit k a" "drop_bit k a \<le> drop_bit k (broadcast N)"
    using in_net_range[OF assms(4)] by (auto intro: drop_bit_mono)
  then show ?thesis using assms(1-3) by (simp add: in_net_iff k_def)
qed

end
