(* ===== verification/AddressClass.thy ===== *)
theory AddressClass
  imports Addresses
begin

unbundle bit_operations_syntax

text \<open>
  Which addresses, networks and host names are public, private or a cloud metadata endpoint:
  \<^verbatim>\<open>src/devops_cli/core/validation.py\<close> and \<^verbatim>\<open>src/devops_cli/core/dns_names.py\<close>, with the tables of
  \<^verbatim>\<open>src/devops_cli/config/constants.py\<close>. What reads a text is not code of the repository (the
  standard library's address and URL parsers, the C library's reading of a numeric host, httpx2,
  dnspython and the Public Suffix List): a record of functions, \<open>host_readers\<close>, stands for it.
  A DNS name is its list of labels in lower case, the root's empty label last. An address that
  the code hands on as its text and reads again is handed on as an address.
\<close>

section \<open>The tables\<close>

definition private_networks4 :: "32 net list" where
  "private_networks4 =
     [(quad 0 0 0 0, 8), (quad 10 0 0 0, 8), (quad 100 64 0 0, 10), (quad 127 0 0 0, 8),
      (quad 169 254 0 0, 16), (quad 172 16 0 0, 12), (quad 192 168 0 0, 16),
      (quad 192 0 0 0, 24), (quad 192 0 2 0, 24), (quad 198 18 0 0, 15), (quad 198 51 100 0, 24),
      (quad 203 0 113 0, 24), (quad 224 0 0 0, 4), (quad 240 0 0 0, 4)]"

definition private_networks6 :: "128 net list" where
  "private_networks6 =
     [(0, 128), (1, 128), (groups [0xfe80, 0, 0, 0, 0, 0, 0, 0], 10),
      (groups [0xfc00, 0, 0, 0, 0, 0, 0, 0], 7), (groups [0x100, 0, 0, 0, 0, 0, 0, 0], 64),
      (groups [0x2001, 0, 0, 0, 0, 0, 0, 0], 32), (groups [0x2001, 0xdb8, 0, 0, 0, 0, 0, 0], 32),
      (groups [0xff00, 0, 0, 0, 0, 0, 0, 0], 8)]"

definition ietf_assignments :: "32 net" where
  "ietf_assignments = (quad 192 0 0 0, 24)"

definition metadata4 :: "ipv4 list" where
  "metadata4 =
     [quad 169 254 169 254, quad 169 254 170 2, quad 169 254 170 23, quad 168 63 129 16,
      quad 100 100 100 200, quad 192 0 0 192, quad 169 254 42 42]"

definition metadata6 :: "ipv6 list" where
  "metadata6 =
     [groups [0xfd00, 0xec2, 0, 0, 0, 0, 0, 0x254], groups [0xfd00, 0xec2, 0, 0, 0, 0, 0, 0x23],
      groups [0xfd20, 0xce, 0, 0, 0, 0, 0, 0x254], groups [0xfd00, 0x42, 0, 0, 0, 0, 0, 0x42]]"

type_synonym offsets = "nat \<times> nat \<times> nat \<times> nat"

fun nat64_offsets :: "nat \<Rightarrow> offsets" where
  "nat64_offsets p =
     (if p = 32 then (4, 5, 6, 7) else if p = 40 then (5, 6, 7, 9) else if p = 48 then (6, 7, 9, 10)
      else if p = 56 then (7, 9, 10, 11) else if p = 64 then (9, 10, 11, 12) else (12, 13, 14, 15))"

definition low32_offsets :: offsets where
  "low32_offsets = (12, 13, 14, 15)"

definition all_embedded_offsets :: "offsets list" where
  "all_embedded_offsets = map nat64_offsets [32, 40, 48, 56, 64, 96] @ [(2, 3, 4, 5)]"

definition nat64_prefixes :: "(128 net \<times> offsets list) list" where
  "nat64_prefixes =
     [((groups [0x64, 0xff9b, 0, 0, 0, 0, 0, 0], 96), [nat64_offsets 96]),
      ((groups [0x64, 0xff9b, 1, 0, 0, 0, 0, 0], 48), map nat64_offsets [48, 56, 64, 96])]"

definition isatap_ids :: "ipv6 list" where
  "isatap_ids = [0x00005efe, 0x02005efe]"

definition embedding_prefixes :: "128 net list" where
  "embedding_prefixes = [(groups [0x64, 0xff9b, 0, 0, 0, 0, 0, 0], 96), (0, 96)]"

section \<open>Addresses inside addresses\<close>

definition byte_at :: "ipv6 \<Rightarrow> nat \<Rightarrow> ipv4" where
  \<comment> \<open>\<open>ip.packed[i]\<close>\<close>
  "byte_at a i = ucast (drop_bit (8 * (15 - i)) a AND 255)"

fun at_offsets :: "ipv6 \<Rightarrow> offsets \<Rightarrow> ipv4" where
  "at_offsets a (i, j, k, l) = quad (byte_at a i) (byte_at a j) (byte_at a k) (byte_at a l)"

definition exhaustive_embedded :: "ipv6 \<Rightarrow> ipv4 list" where
  "exhaustive_embedded a =
     map (at_offsets a) all_embedded_offsets @
     (case teredo a of None \<Rightarrow> [] | Some (_, client) \<Rightarrow> [client])"

definition given :: "'a option \<Rightarrow> 'a list" where
  "given x = (case x of None \<Rightarrow> [] | Some y \<Rightarrow> [y])"

definition standard_embedded :: "ipv6 \<Rightarrow> ipv4 list" where
  "standard_embedded a =
     given (ipv4_mapped a) @ given (sixtofour a) @
     concat (map (\<lambda>(N, offs). if in_net a N then map (at_offsets a) offs else []) nat64_prefixes) @
     (if drop_bit 32 a = 0 \<and> \<not> is_loopback6 a \<and> a \<noteq> 0 then [at_offsets a low32_offsets] else []) @
     (if drop_bit 32 a AND 0xffffffff \<in> set isatap_ids then [at_offsets a low32_offsets] else [])"

section \<open>Single addresses\<close>

fun is_metadata_ip :: "ip \<Rightarrow> bool" where
  "is_metadata_ip (V4 a) = (a \<in> set metadata4)"
| "is_metadata_ip (V6 a _) =
     (a \<in> set metadata6 \<or> list_ex (\<lambda>c. c \<in> set metadata4) (exhaustive_embedded a))"

fun not_public :: "ip \<Rightarrow> bool" where
  \<comment> \<open>\<open>_is_not_public\<close>\<close>
  "not_public (V4 a) = (\<not> is_global4 a \<or> is_multicast4 a \<or> in_net a ietf_assignments)"
| "not_public (V6 a s) = (\<not> is_global6 a \<or> is_multicast6 a)"

fun is_private_ip :: "ip \<Rightarrow> bool" where
  "is_private_ip (V4 a) = not_public (V4 a)"
| "is_private_ip (V6 a s) =
     (not_public (V6 a s) \<or> list_ex (\<lambda>c. not_public (V4 c)) (standard_embedded a))"

definition is_non_public_ip :: "ip \<Rightarrow> bool" where
  "is_non_public_ip a = (\<not> is_global a \<or> is_private_ip a)"

section \<open>Networks\<close>

definition non_public_networks6 :: "128 net list" where
  "non_public_networks6 =
     private_networks6 @
     concat (map (\<lambda>P. map (\<lambda>B. (fst P + ucast (fst B), 96 + snd B)) private_networks4) embedding_prefixes)"

fun is_non_public_net :: "ip_net \<Rightarrow> bool" where
  "is_non_public_net (Net4 N) =
     (\<not> net_is_global (Net4 N) \<or> is_non_public_ip (V4 (fst N)) \<or> is_non_public_ip (V4 (broadcast N)) \<or>
      list_ex (overlaps N) private_networks4)"
| "is_non_public_net (Net6 N) =
     (\<not> net_is_global (Net6 N) \<or> is_non_public_ip (V6 (fst N) None) \<or>
      is_non_public_ip (V6 (broadcast N) None) \<or> list_ex (overlaps N) non_public_networks6)"

definition is_metadata_addr :: "ip \<Rightarrow> bool" where
  "is_metadata_addr a = (is_link_local a \<or> is_metadata_ip a)"

definition link_local_networks4 :: "32 net list" where
  "link_local_networks4 = filter (\<lambda>N. net_is_link_local (Net4 N)) private_networks4"

definition link_local_networks6 :: "128 net list" where
  "link_local_networks6 = filter (\<lambda>N. net_is_link_local (Net6 N)) private_networks6"

definition nat64_link_local :: "128 net" where
  "nat64_link_local = (groups [0x64, 0xff9b, 0, 0, 0, 0, 0xa9fe, 0], 112)"

fun is_metadata_net :: "ip_net \<Rightarrow> bool" where
  "is_metadata_net (Net4 N) =
     (if net_is_link_local (Net4 N) then True
      else if snd N = 32 then is_metadata_addr (V4 (fst N))
      else list_ex (subnet_of N) link_local_networks4)"
| "is_metadata_net (Net6 N) =
     (if net_is_link_local (Net6 N) then True
      else if snd N = 128 then is_metadata_addr (V6 (fst N) None)
      else if subnet_of N nat64_link_local then True
      else list_ex (subnet_of N) link_local_networks6)"

section \<open>Host names\<close>

type_synonym dns_name = "string list"

record host_readers =
  hr_ip :: "string \<Rightarrow> ip option"
  hr_net :: "string \<Rightarrow> ip_net option"
  hr_ip_text :: "ip \<Rightarrow> string"
  hr_net_text :: "ip_net \<Rightarrow> string"
  hr_legacy_ip :: "string \<Rightarrow> ip option"
  hr_split_host :: "string \<Rightarrow> py_error + string option"
  hr_url_host :: "string \<Rightarrow> string option"
  hr_dns_name :: "string \<Rightarrow> dns_name option"
  hr_unicode_name :: "string \<Rightarrow> dns_name option"
  hr_registrable :: "string \<Rightarrow> bool"

definition loopback_hostname :: string where
  "loopback_hostname = ''localhost''"

definition metadata_hostnames :: "string list" where
  "metadata_hostnames = [''metadata'', ''metadata.google.internal'', ''metadata.goog'']"

definition strip_dots :: "string \<Rightarrow> string" where
  "strip_dots s = rev (dropWhile (\<lambda>c. c = CHR ''.'') (rev s))"

definition strip_brackets :: "string \<Rightarrow> string" where
  \<comment> \<open>\<open>.removeprefix("[").removesuffix("]")\<close>\<close>
  "strip_brackets s =
     (let t = (if s \<noteq> [] \<and> hd s = CHR ''['' then tl s else s)
      in if t \<noteq> [] \<and> last t = CHR '']'' then butlast t else t)"

definition parse_numeric_ip :: "host_readers \<Rightarrow> string \<Rightarrow> ip option" where
  "parse_numeric_ip h s = (case hr_ip h s of Some a \<Rightarrow> Some a | None \<Rightarrow> hr_legacy_ip h s)"

definition normalize_host :: "host_readers \<Rightarrow> string \<Rightarrow> py_error + string" where
  "normalize_host h raw =
     (let s = strip raw in
      if s = [] then Inr []
      else case hr_ip h s of
          Some a \<Rightarrow> Inr (hr_ip_text h a)
        | None \<Rightarrow>
            (case hr_split_host h s of
               Inl e \<Rightarrow> Inl e
             | Inr x \<Rightarrow> Inr (lower (strip_dots (if falsy x then s else the x)))))"

definition is_loopback_host :: "host_readers \<Rightarrow> string \<Rightarrow> py_error + bool" where
  "is_loopback_host h s =
     (case normalize_host h s of
        Inl e \<Rightarrow> Inl e
      | Inr clean \<Rightarrow>
          Inr (clean = loopback_hostname \<or>
               (case parse_numeric_ip h clean of None \<Rightarrow> False | Some a \<Rightarrow> is_loopback a)))"

definition numeric_metadata :: "host_readers \<Rightarrow> string \<Rightarrow> bool option" where
  "numeric_metadata h s =
     (case parse_numeric_ip h s of
        Some a \<Rightarrow> Some (is_metadata_addr a)
      | None \<Rightarrow>
          (case hr_url_host h s of
             None \<Rightarrow> None
           | Some u \<Rightarrow> map_option is_metadata_addr (parse_numeric_ip h u)))"

definition is_metadata_name :: "host_readers \<Rightarrow> string \<Rightarrow> bool" where
  "is_metadata_name h s =
     (case hr_dns_name h s of
        None \<Rightarrow> False
      | Some n \<Rightarrow> Some n \<in> set (map (hr_dns_name h) metadata_hostnames))"

definition is_metadata_host :: "host_readers \<Rightarrow> string \<Rightarrow> bool" where
  "is_metadata_host h raw =
     (let clean = strip_brackets (strip raw); nodot = strip_dots clean in
      if nodot = [] then False
      else case (if CHR ''/'' \<in> set nodot then hr_net h nodot else None) of
          Some N \<Rightarrow> is_metadata_net N
        | None \<Rightarrow>
            (case numeric_metadata h nodot of
               Some b \<Rightarrow> b
             | None \<Rightarrow> if hr_dns_name h clean = None then True else is_metadata_name h clean))"

section \<open>Public DNS names\<close>

definition ip_literal :: "host_readers \<Rightarrow> string \<Rightarrow> ip option" where
  "ip_literal h s = hr_ip h (strip_brackets (strip s))"

definition non_root_name :: "host_readers \<Rightarrow> string \<Rightarrow> dns_name option" where
  \<comment> \<open>\<open>None\<close> where \<open>_parse_non_root_dns_name\<close> raises; the root name has one empty label.\<close>
  "non_root_name h s =
     (let clean = strip s in
      if clean = [] \<or> hd clean = CHR ''.'' then None
      else case hr_unicode_name h clean of
          None \<Rightarrow> None
        | Some n \<Rightarrow> if n = [[]] then None else Some n)"

definition is_subdomain :: "dns_name \<Rightarrow> dns_name \<Rightarrow> bool" where
  "is_subdomain n parent = suffix parent n"

definition special_roots :: "dns_name list" where
  "special_roots = [[''arpa'', []], [''onion'', []]]"

definition is_public_dns_name :: "host_readers \<Rightarrow> string \<Rightarrow> bool" where
  "is_public_dns_name h s =
     (let clean = strip s in
      if clean = [] \<or> ip_literal h clean \<noteq> None then False
      else case non_root_name h clean of
          None \<Rightarrow> False
        | Some n \<Rightarrow>
            hr_registrable h (lower clean) \<and> \<not> list_ex (is_subdomain n) special_roots)"

definition is_loopback_or_private_host :: "host_readers \<Rightarrow> string \<Rightarrow> py_error + bool" where
  "is_loopback_or_private_host h raw =
     (case normalize_host h raw of
        Inl e \<Rightarrow> Inl e
      | Inr clean \<Rightarrow>
          if clean = [] then Inr True
          else case is_loopback_host h clean of
              Inl e \<Rightarrow> Inl e
            | Inr loop \<Rightarrow>
                Inr (loop \<or> is_metadata_host h clean \<or>
                     (case hr_ip h clean of
                        Some a \<Rightarrow> is_non_public_ip a
                      | None \<Rightarrow> \<not> is_public_dns_name h clean)))"

end
