(* ===== verification/Requests.thy ===== *)
theory Requests
  imports Prelude
begin

text \<open>
  Code that sends requests and goes on with what they answer, as a tree: \<open>Done\<close> is a result, \<open>Ask q k\<close>
  sends the request \<open>q\<close> and goes on with \<open>k\<close> of its answer. Nothing is assumed of the answers: what
  the code does is the relation \<open>runs\<close> between a tree, the requests it sent with the answers it
  got, in order, and its result. Other actors may change what answers the requests at any time
  between two of them.
\<close>

datatype ('q, 'a, 'x) prog = Done 'x | Ask 'q "'a \<Rightarrow> ('q, 'a, 'x) prog"

type_synonym ('q, 'a) trace = "('q \<times> 'a) list"

inductive runs :: "('q, 'a, 'x) prog \<Rightarrow> ('q, 'a) trace \<Rightarrow> 'x \<Rightarrow> bool" where
  runs_Done: "runs (Done x) [] x"
| runs_Ask: "runs (k a) t x \<Longrightarrow> runs (Ask q k) ((q, a) # t) x"

inductive_simps runs_Done_iff [simp]: "runs (Done x) t y"
inductive_simps runs_Ask_iff: "runs (Ask q k) t y"

primrec bind_prog :: "('q, 'a, 'x) prog \<Rightarrow> ('x \<Rightarrow> ('q, 'a, 'y) prog) \<Rightarrow> ('q, 'a, 'y) prog" where
  "bind_prog (Done x) f = f x"
| "bind_prog (Ask q k) f = Ask q (\<lambda>a. bind_prog (k a) f)"

text \<open>Runs a tree on a list of answers; \<open>None\<close> when they do not suffice.\<close>

primrec answered :: "('q, 'a, 'x) prog \<Rightarrow> 'a list \<Rightarrow> ('x \<times> ('q, 'a) trace) option" where
  "answered (Done x) as = Some (x, [])"
| "answered (Ask q k) as =
     (case as of
        [] \<Rightarrow> None
      | a # as' \<Rightarrow> map_option (\<lambda>(x, t). (x, (q, a) # t)) (answered (k a) as'))"

lemma answered_runs: "answered p as = Some (x, t) \<Longrightarrow> runs p t x"
  by (induction p arbitrary: as t) (auto split: list.splits intro: runs.intros)

lemma answered_gives:
  assumes "case answered p as of None \<Rightarrow> False | Some (x, t) \<Rightarrow> P x t"
  obtains x t where "runs p t x" "P x t"
  using assms answered_runs by (fastforce split: option.splits)

lemma runs_bind:
  "runs (bind_prog p f) t y \<longleftrightarrow> (\<exists>t1 t2 x. t = t1 @ t2 \<and> runs p t1 x \<and> runs (f x) t2 y)"
proof
  show "runs (bind_prog p f) t y \<Longrightarrow> \<exists>t1 t2 x. t = t1 @ t2 \<and> runs p t1 x \<and> runs (f x) t2 y"
  proof (induction p arbitrary: t)
    case (Done x)
    then show ?case by (intro exI[of _ "[]"] exI[of _ t] exI[of _ x]) simp
  next
    case (Ask q k)
    then obtain a t' where t: "t = (q, a) # t'" "runs (bind_prog (k a) f) t' y"
      by (auto simp: runs_Ask_iff)
    with Ask.IH[of "k a" t'] obtain t1 t2 x
      where "t' = t1 @ t2" "runs (k a) t1 x" "runs (f x) t2 y" by auto
    then show ?case
      using t(1) by (intro exI[of _ "(q, a) # t1"] exI[of _ t2] exI[of _ x]) (auto intro: runs_Ask)
  qed
next
  assume "\<exists>t1 t2 x. t = t1 @ t2 \<and> runs p t1 x \<and> runs (f x) t2 y"
  then obtain t1 t2 x where "t = t1 @ t2" "runs p t1 x" "runs (f x) t2 y" by blast
  from this(2,3) have "runs (bind_prog p f) (t1 @ t2) y"
    by (induction rule: runs.induct) (auto intro: runs_Ask)
  then show "runs (bind_prog p f) t y" by (simp add: \<open>t = t1 @ t2\<close>)
qed

section \<open>Errors\<close>

text \<open>
  A step that may raise gives a sum; \<open>and_then\<close> goes on with the result of a step that did not.
\<close>

definition and_then ::
  "('q, 'a, 's \<times> ('e + 'x)) prog \<Rightarrow> ('s \<Rightarrow> 'x \<Rightarrow> ('q, 'a, 's \<times> ('e + 'y)) prog) \<Rightarrow>
   ('q, 'a, 's \<times> ('e + 'y)) prog" where
  "and_then p f = bind_prog p (\<lambda>(s, r). case r of Inl e \<Rightarrow> Done (s, Inl e) | Inr x \<Rightarrow> f s x)"

lemma runs_and_then:
  "runs (and_then p f) t (s', r) \<longleftrightarrow>
     (\<exists>e. runs p t (s', Inl e) \<and> r = Inl e) \<or>
     (\<exists>t1 t2 s x. t = t1 @ t2 \<and> runs p t1 (s, Inr x) \<and> runs (f s x) t2 (s', r))"
  (is "?l \<longleftrightarrow> ?e \<or> ?o")
proof
  assume ?l
  then obtain t1 t2 s z where "t = t1 @ t2" "runs p t1 (s, z)"
      "runs (case z of Inl e \<Rightarrow> Done (s, Inl e) | Inr x \<Rightarrow> f s x) t2 (s', r)"
    by (auto simp: and_then_def runs_bind)
  then show "?e \<or> ?o" by (cases z) auto
next
  assume "?e \<or> ?o"
  then show ?l
  proof
    assume ?e
    then obtain e where "runs p t (s', Inl e)" "r = Inl e" by blast
    then show ?l
      unfolding and_then_def runs_bind
      by (intro exI[of _ t] exI[of _ "[]"] exI[of _ "(s', Inl e)"]) simp
  next
    assume ?o
    then obtain t1 t2 s x where "t = t1 @ t2" "runs p t1 (s, Inr x)" "runs (f s x) t2 (s', r)" by blast
    then show ?l
      unfolding and_then_def runs_bind
      by (intro exI[of _ t1] exI[of _ t2] exI[of _ "(s, Inr x)"]) simp
  qed
qed

end
