(* ===== verification/Egress.thy ===== *)
theory Egress
  imports AddressClass Requests
begin

text \<open>
  The connect-time egress policy: \<^verbatim>\<open>src/devops_cli/http/egress.py\<close>. A name is looked up once, every
  answer is classified, and only the vetted addresses are dialled, as IP literals. The lookup of the
  installed resolver and the connect of the inner backend are requests, answered by an environment that may
  give a different answer each time. The sync and the async side differ in the lookup's time limit
  only: a lookup that runs out of it is an outcome of its own, which the sync side never meets.
\<close>

section \<open>Levels\<close>

datatype egress_level = PublicLevel | LoopbackLevel | PrivateLevel

fun level_admits :: "egress_level \<Rightarrow> ip \<Rightarrow> bool" where
  "level_admits PublicLevel a = (\<not> is_non_public_ip a)"
| "level_admits LoopbackLevel a = (is_loopback a \<or> \<not> is_non_public_ip a)"
| "level_admits PrivateLevel a = True"

definition configured_level :: "bool \<Rightarrow> egress_level" where
  \<comment> \<open>The argument is \<open>ai.allow_private_network\<close>.\<close>
  "configured_level allow_private = (if allow_private then PrivateLevel else LoopbackLevel)"

section \<open>Vetting an answer\<close>

text \<open>The socket address of one answer: its address as text, and the scope of an IPv6 answer.\<close>

record socket_address =
  sa_text :: string
  sa_scope :: nat

datatype lookup = Answers "socket_address list" | LookupFailed | LookupTimedOut

datatype egress_refusal = ScopedAddress | MetadataAddress | LevelRefuses egress_level

datatype egress_error =
    SSRFBlocked egress_refusal
  | MetadataName
  | ConnectError
  | ConnectTimeout
  | UnreadableAddress
  | NoFailureToRaise
  | DialError string

fun scope_id :: "ip \<Rightarrow> string option" where
  "scope_id (V4 _) = None"
| "scope_id (V6 _ s) = s"

definition refusal_of :: "socket_address \<Rightarrow> egress_level \<Rightarrow> ip \<Rightarrow> egress_refusal option" where
  "refusal_of sa level a =
     (if \<not> falsy (scope_id a) \<or> sa_scope sa \<noteq> 0 then Some ScopedAddress
      else if is_metadata_ip a then Some MetadataAddress
      else if \<not> level_admits level a then Some (LevelRefuses level)
      else None)"

fun first_refusal ::
  "host_readers \<Rightarrow> egress_level \<Rightarrow> socket_address list \<Rightarrow> egress_error option" where
  \<comment> \<open>The loop of \<open>_vetted\<close>: the first answer that is refused, or whose text is no address.\<close>
  "first_refusal h level [] = None"
| "first_refusal h level (sa # sas) =
     (case hr_ip h (sa_text sa) of
        None \<Rightarrow> Some UnreadableAddress
      | Some a \<Rightarrow>
          (case refusal_of sa level a of
             Some r \<Rightarrow> Some (SSRFBlocked r)
           | None \<Rightarrow> first_refusal h level sas))"

definition canonical_text :: "host_readers \<Rightarrow> socket_address \<Rightarrow> string" where
  "canonical_text h sa = (case hr_ip h (sa_text sa) of None \<Rightarrow> [] | Some a \<Rightarrow> hr_ip_text h a)"

fun keep_first :: "'a list \<Rightarrow> 'a list" where
  \<comment> \<open>\<open>list(dict.fromkeys(xs))\<close>\<close>
  "keep_first [] = []"
| "keep_first (x # xs) = x # filter (\<lambda>y. y \<noteq> x) (keep_first xs)"

definition vetted ::
  "host_readers \<Rightarrow> egress_level \<Rightarrow> socket_address list \<Rightarrow> egress_error + string list" where
  "vetted h level sas =
     (case first_refusal h level sas of
        Some e \<Rightarrow> Inl e
      | None \<Rightarrow>
          if sas = [] then Inl ConnectError
          else Inr (keep_first (map (canonical_text h) sas)))"

text \<open>
  The requests of a connect. An answer says what the lookup or the dial would come to at the time it is
  asked; a request reads its own part.
\<close>

datatype 's dial = Stream 's | DialRefused | DialTimedOut | DialRaised string

datatype net_request = Resolve string nat | Dial string nat

record 's net_answer =
  an_lookup :: lookup
  an_dial :: "'s dial"

type_synonym ('s, 'x) net_prog = "(net_request, 's net_answer, egress_error + 'x) prog"

definition vet_addresses :: "host_readers \<Rightarrow> string \<Rightarrow> nat \<Rightarrow> egress_level \<Rightarrow> ('s, string list) net_prog" where
  "vet_addresses h host port level =
     (if is_metadata_name h host then Done (Inl MetadataName)
      else Ask (Resolve host port) (\<lambda>a. Done
        (case an_lookup a of
           LookupTimedOut \<Rightarrow> Inl ConnectTimeout
         | LookupFailed \<Rightarrow> Inl ConnectError
         | Answers sas \<Rightarrow> vetted h level sas)))"

section \<open>Dialling\<close>

fun dial_each :: "nat \<Rightarrow> egress_error option \<Rightarrow> string list \<Rightarrow> ('s, 's) net_prog" where
  \<comment> \<open>Each address in turn, with the last failure so far.\<close>
  "dial_each port failure [] = Done (Inl (case failure of Some e \<Rightarrow> e | None \<Rightarrow> NoFailureToRaise))"
| "dial_each port failure (t # ts) =
     Ask (Dial t port) (\<lambda>a. case an_dial a of
        Stream s \<Rightarrow> Done (Inr s)
      | DialRaised x \<Rightarrow> Done (Inl (DialError x))
      | DialRefused \<Rightarrow> dial_each port (Some ConnectError) ts
      | DialTimedOut \<Rightarrow> dial_each port (Some ConnectTimeout) ts)"

definition then_try ::
  "('q, 'a, 'e + 'x) prog \<Rightarrow> ('x \<Rightarrow> ('q, 'a, 'e + 'y) prog) \<Rightarrow> ('q, 'a, 'e + 'y) prog" where
  "then_try p f = bind_prog p (\<lambda>r. case r of Inl e \<Rightarrow> Done (Inl e) | Inr x \<Rightarrow> f x)"

definition connect_tcp :: "host_readers \<Rightarrow> egress_level \<Rightarrow> string \<Rightarrow> nat \<Rightarrow> ('s, 's) net_prog" where
  "connect_tcp h level host port = then_try (vet_addresses h host port level) (dial_each port None)"

lemma runs_then_try:
  "runs (then_try p f) t r \<longleftrightarrow>
     (\<exists>e. runs p t (Inl e) \<and> r = Inl e) \<or> (\<exists>t1 t2 x. t = t1 @ t2 \<and> runs p t1 (Inr x) \<and> runs (f x) t2 r)"
proof -
  have "(\<exists>t1 t2 y. t = t1 @ t2 \<and> runs p t1 y \<and> runs (case y of Inl e \<Rightarrow> Done (Inl e) | Inr x \<Rightarrow> f x) t2 r) \<longleftrightarrow>
     (\<exists>e. runs p t (Inl e) \<and> r = Inl e) \<or> (\<exists>t1 t2 x. t = t1 @ t2 \<and> runs p t1 (Inr x) \<and> runs (f x) t2 r)"
    (is "(\<exists>t1 t2 y. ?P t1 t2 y) \<longleftrightarrow> _")
  proof
    assume "\<exists>t1 t2 y. ?P t1 t2 y"
    then obtain t1 t2 y where "?P t1 t2 y" by blast
    then show "(\<exists>e. runs p t (Inl e) \<and> r = Inl e) \<or> (\<exists>t1 t2 x. t = t1 @ t2 \<and> runs p t1 (Inr x) \<and> runs (f x) t2 r)"
      by (cases y) auto
  next
    assume "(\<exists>e. runs p t (Inl e) \<and> r = Inl e) \<or> (\<exists>t1 t2 x. t = t1 @ t2 \<and> runs p t1 (Inr x) \<and> runs (f x) t2 r)"
    then show "\<exists>t1 t2 y. ?P t1 t2 y"
    proof
      assume "\<exists>e. runs p t (Inl e) \<and> r = Inl e"
      then obtain e where "runs p t (Inl e)" "r = Inl e" by blast
      then show ?thesis by (intro exI [of _ t] exI [of _ "[]"] exI [of _ "Inl e"]) simp
    next
      assume "\<exists>t1 t2 x. t = t1 @ t2 \<and> runs p t1 (Inr x) \<and> runs (f x) t2 r"
      then obtain t1 t2 x where "t = t1 @ t2" "runs p t1 (Inr x)" "runs (f x) t2 r" by blast
      then show ?thesis by (intro exI [of _ t1] exI [of _ t2] exI [of _ "Inr x"]) simp
    qed
  qed
  then show ?thesis by (simp add: then_try_def runs_bind)
qed

end
