(* ===== verification/NetworkPolicy.thy ===== *)
theory NetworkPolicy
  imports Egress "HOL-Library.List_Lexorder" "HOL-Library.Char_ord"
begin

text \<open>
  The network policy of a sandbox: the network part of \<^verbatim>\<open>src/devops_cli/sandbox/models.py\<close>, with the
  reading of a URL or an authority of \<^verbatim>\<open>src/devops_cli/http/urls.py\<close>. \<open>urlsplit\<close> of the standard
  library is a parameter that gives the parts of a URL. The lookup of a name is a request of
  \<open>vet_addresses\<close>. The wording of the errors is not modelled.
\<close>

section \<open>A URL or an authority\<close>

text \<open>\<open>us_port\<close> is \<open>None\<close> where reading the port raises \<open>ValueError\<close>.\<close>

record url_split =
  us_scheme :: string
  us_netloc :: string
  us_path :: string
  us_query :: string
  us_fragment :: string
  us_hostname :: "string option"
  us_port :: "nat option option"

type_synonym url_splitter = "string \<Rightarrow> url_split option"

definition bracket_bare_ipv6 :: "host_readers \<Rightarrow> string \<Rightarrow> string" where
  "bracket_bare_ipv6 h s =
     (case hr_ip h s of Some (V6 a z) \<Rightarrow> ''['' @ hr_ip_text h (V6 a z) @ '']'' | _ \<Rightarrow> s)"

definition has_empty_port :: "string \<Rightarrow> bool" where
  "has_empty_port netloc = suffix '':'' netloc"

definition netloc_fallback :: "url_splitter \<Rightarrow> string \<Rightarrow> url_split \<Rightarrow> url_split option" where
  \<comment> \<open>\<open>None\<close> where splitting \<open>//s\<close> raises \<open>ValueError\<close>.\<close>
  "netloc_fallback split s parsed =
     (case split (''//'' @ s) of
        None \<Rightarrow> None
      | Some fallback \<Rightarrow>
          if us_scheme parsed \<noteq> [] then
            Some (if us_port fallback \<noteq> Some None then fallback else parsed)
          else Some fallback)"

definition read_url_or_authority :: "host_readers \<Rightarrow> url_splitter \<Rightarrow> string \<Rightarrow> url_split option" where
  "read_url_or_authority h split s =
     (let clean = bracket_bare_ipv6 h s in
      case split clean of
        None \<Rightarrow> None
      | Some parsed0 \<Rightarrow>
          (case (if us_netloc parsed0 = [] then netloc_fallback split clean parsed0 else Some parsed0) of
             None \<Rightarrow> None
           | Some parsed \<Rightarrow>
               if us_netloc parsed \<noteq> [] \<and> has_empty_port (us_netloc parsed) then None
               else if falsy (us_hostname parsed) then None
               else Some parsed))"

section \<open>Whitelist entries\<close>

datatype sandbox_error =
    EntryError
  | SandboxRefused
  | LookupRefused egress_error
  | UnpolicedMode

definition whitelist_default_ports :: "(string \<times> nat) list" where
  "whitelist_default_ports = [([], 443), (''https'', 443), (''http'', 80)]"

definition ip_entry_host :: "host_readers \<Rightarrow> string \<Rightarrow> string option" where
  "ip_entry_host h entry =
     (case hr_ip h entry of
        Some a \<Rightarrow> Some (hr_ip_text h a)
      | None \<Rightarrow> map_option (hr_net_text h) (hr_net h entry))"

definition parse_whitelist_entry ::
  "host_readers \<Rightarrow> url_splitter \<Rightarrow> string \<Rightarrow> sandbox_error + string \<times> nat" where
  "parse_whitelist_entry h split entry =
     (let clean = strip entry in
      case ip_entry_host h clean of
        Some host \<Rightarrow> Inr (host, 443)
      | None \<Rightarrow>
          (case read_url_or_authority h split clean of
             None \<Rightarrow> Inl EntryError
           | Some parts \<Rightarrow>
               (case (us_hostname parts, us_port parts) of
                  (None, _) \<Rightarrow> Inl EntryError
                | (_, None) \<Rightarrow> Inl EntryError
                | (Some host, Some port) \<Rightarrow>
                    if host = [] then Inl EntryError
                    else if us_scheme parts = [] \<and>
                        (us_path parts \<noteq> [] \<or> us_query parts \<noteq> [] \<or> us_fragment parts \<noteq> [])
                    then Inl EntryError
                    else if port = Some 0 then Inl EntryError
                    else (case port of
                        Some p \<Rightarrow> Inr (host, p)
                      | None \<Rightarrow>
                          (case map_of whitelist_default_ports (us_scheme parts) of
                             None \<Rightarrow> Inl EntryError
                           | Some p \<Rightarrow> Inr (host, p))))))"

definition docker_gateway_hostname :: string where
  "docker_gateway_hostname = ''host.docker.internal''"

definition is_docker_gateway_name :: "host_readers \<Rightarrow> string \<Rightarrow> bool" where
  "is_docker_gateway_name h s =
     (hr_dns_name h s \<noteq> None \<and> hr_dns_name h s = hr_dns_name h docker_gateway_hostname)"

definition validate_public_item ::
  "host_readers \<Rightarrow> url_splitter \<Rightarrow> string \<Rightarrow> sandbox_error + unit" where
  "validate_public_item h split item =
     (case parse_whitelist_entry h split item of
        Inl e \<Rightarrow> Inl e
      | Inr (host, _) \<Rightarrow>
          (case is_loopback_or_private_host h host of
             Inl _ \<Rightarrow> Inl EntryError
           | Inr private \<Rightarrow> if private then Inl EntryError else Inr ()))"

definition validate_local_item ::
  "host_readers \<Rightarrow> url_splitter \<Rightarrow> string \<Rightarrow> sandbox_error + unit" where
  "validate_local_item h split item =
     (case parse_whitelist_entry h split item of
        Inl e \<Rightarrow> Inl e
      | Inr (host, _) \<Rightarrow>
          if is_docker_gateway_name h host then Inl SandboxRefused
          else if is_metadata_host h host then Inl EntryError
          else (case is_loopback_or_private_host h host of
              Inl _ \<Rightarrow> Inl EntryError
            | Inr private \<Rightarrow> if private then Inr () else Inl EntryError))"

section \<open>Rules\<close>

datatype peer = IpBlock string | KubeDnsPods | CollectorPods | SamePods

datatype protocol = UDP | TCP

record policy_rule =
  rule_peers :: "peer list"
  rule_ports :: "(protocol \<times> nat) list"

definition dns_rule :: policy_rule where
  "dns_rule = \<lparr>rule_peers = [KubeDnsPods], rule_ports = [(UDP, 53), (TCP, 53)]\<rparr>"

definition collector_rule :: policy_rule where
  "collector_rule = \<lparr>rule_peers = [CollectorPods], rule_ports = [(TCP, 4317), (TCP, 4318)]\<rparr>"

type_synonym ('s, 'x) policy_prog = "(net_request, 's net_answer, sandbox_error + 'x) prog"

definition whitelist_lookup ::
  "host_readers \<Rightarrow> string \<Rightarrow> nat \<Rightarrow> egress_level \<Rightarrow> ('s, string list) policy_prog" where
  \<comment> \<open>\<open>vet_addresses\<close> under \<open>_whitelist_lookup_refusals\<close>: any other error is raised as it is.\<close>
  "whitelist_lookup h host port level =
     bind_prog (vet_addresses h host port level) (\<lambda>r. Done
       (case r of
          Inr as \<Rightarrow> Inr as
        | Inl (SSRFBlocked _) \<Rightarrow> Inl SandboxRefused
        | Inl MetadataName \<Rightarrow> Inl SandboxRefused
        | Inl ConnectError \<Rightarrow> Inl SandboxRefused
        | Inl e \<Rightarrow> Inl (LookupRefused e)))"

definition block_text :: "host_readers \<Rightarrow> string \<Rightarrow> sandbox_error + string" where
  \<comment> \<open>\<open>ip_network(address).with_prefixlen\<close>\<close>
  "block_text h address =
     (case hr_net h address of None \<Rightarrow> Inl EntryError | Some N \<Rightarrow> Inr (hr_net_text h N))"

definition resolve_public_dns ::
  "host_readers \<Rightarrow> string \<Rightarrow> nat \<Rightarrow> ('s, string list) policy_prog" where
  "resolve_public_dns h host port =
     then_try (whitelist_lookup h host port PublicLevel) (\<lambda>as. Done (map_each (block_text h) (sort as)))"

definition resolve_public_host ::
  "host_readers \<Rightarrow> string \<Rightarrow> nat \<Rightarrow> ('s, string list) policy_prog" where
  "resolve_public_host h host port =
     (case hr_net h host of
        None \<Rightarrow> resolve_public_dns h host port
      | Some N \<Rightarrow> Done
          (if is_metadata_net N then Inl SandboxRefused
           else if is_non_public_net N then Inl SandboxRefused
           else Inr [hr_net_text h N]))"

definition local_block ::
  "host_readers \<Rightarrow> string \<Rightarrow> sandbox_error + string" where
  \<comment> \<open>The body of the loop of \<open>_resolve_local_dns\<close>.\<close>
  "local_block h address =
     (case hr_ip h address of
        None \<Rightarrow> Inl EntryError
      | Some a \<Rightarrow>
          if is_metadata_addr a then Inl SandboxRefused
          else if \<not> (is_private a \<or> is_loopback a) then Inl SandboxRefused
          else block_text h (hr_ip_text h a))"

definition resolve_local_dns ::
  "host_readers \<Rightarrow> string \<Rightarrow> nat \<Rightarrow> ('s, string list) policy_prog" where
  "resolve_local_dns h host port =
     then_try (whitelist_lookup h host port PrivateLevel) (\<lambda>as. Done (map_each (local_block h) (sort as)))"

definition is_loopback_entry :: "host_readers \<Rightarrow> string \<Rightarrow> py_error + bool" where
  "is_loopback_entry h host =
     (case is_loopback_host h host of
        Inl e \<Rightarrow> Inl e
      | Inr True \<Rightarrow> Inr True
      | Inr False \<Rightarrow> Inr (case hr_net h host of None \<Rightarrow> False | Some N \<Rightarrow> net_is_loopback N))"

definition resolve_local_host ::
  "host_readers \<Rightarrow> string \<Rightarrow> nat \<Rightarrow> ('s, string list) policy_prog" where
  "resolve_local_host h host port =
     (case is_loopback_entry h host of
        Inl _ \<Rightarrow> Done (Inl EntryError)
      | Inr True \<Rightarrow> Done (Inr [])
      | Inr False \<Rightarrow>
          if is_metadata_host h host then Done (Inl SandboxRefused)
          else (case hr_net h host of
              None \<Rightarrow> resolve_local_dns h host port
            | Some N \<Rightarrow> Done
                (if is_metadata_net N then Inl SandboxRefused
                 else if \<not> (net_is_private N \<or> net_is_loopback N) then Inl SandboxRefused
                 else Inr [hr_net_text h N])))"

definition entry_rule ::
  "host_readers \<Rightarrow> url_splitter \<Rightarrow> (string \<Rightarrow> nat \<Rightarrow> ('s, string list) policy_prog) \<Rightarrow> string \<Rightarrow>
   ('s, policy_rule list) policy_prog" where
  \<comment> \<open>The body of the loop of \<open>_build_whitelist_egress\<close>.\<close>
  "entry_rule h split resolve_host entry =
     (case parse_whitelist_entry h split entry of
        Inl e \<Rightarrow> Done (Inl e)
      | Inr (host, port) \<Rightarrow>
          then_try (resolve_host host port) (\<lambda>cidrs. Done
            (Inr (if cidrs = [] then []
                  else [\<lparr>rule_peers = map IpBlock cidrs, rule_ports = [(TCP, port)]\<rparr>]))))"

fun resolve_each :: "('x \<Rightarrow> ('s, 'y) policy_prog) \<Rightarrow> 'x list \<Rightarrow> ('s, 'y list) policy_prog" where
  "resolve_each f [] = Done (Inr [])"
| "resolve_each f (x # xs) =
     then_try (f x) (\<lambda>y. then_try (resolve_each f xs) (\<lambda>ys. Done (Inr (y # ys))))"

definition build_whitelist_egress ::
  "host_readers \<Rightarrow> url_splitter \<Rightarrow> (string \<Rightarrow> nat \<Rightarrow> ('s, string list) policy_prog) \<Rightarrow> string list \<Rightarrow>
   ('s, policy_rule list) policy_prog" where
  "build_whitelist_egress h split resolve_host entries =
     then_try (resolve_each (entry_rule h split resolve_host) entries) (\<lambda>rules.
       Done (Inr (dns_rule # concat rules)))"

section \<open>The network configuration\<close>

datatype network_mode = Isolated | SandboxNamespace | PublicWhitelist | LocalWhitelist | Bridge

fun mode_text :: "network_mode \<Rightarrow> string" where
  "mode_text Isolated = ''isolated''"
| "mode_text SandboxNamespace = ''sandbox_namespace''"
| "mode_text PublicWhitelist = ''public_whitelist''"
| "mode_text LocalWhitelist = ''local_whitelist''"
| "mode_text Bridge = ''bridge''"

definition mode_aliases :: "(string \<times> network_mode) list" where
  "mode_aliases =
     [(''isolated'', Isolated), (''none'', Isolated), (''isolated_pod'', Isolated),
      (''isolated-pod'', Isolated), (''sandbox_namespace'', SandboxNamespace),
      (''sandbox-namespace'', SandboxNamespace), (''namespace'', SandboxNamespace),
      (''internal'', SandboxNamespace), (''public_whitelist'', PublicWhitelist),
      (''public-whitelist'', PublicWhitelist), (''public'', PublicWhitelist),
      (''local_whitelist'', LocalWhitelist), (''local-whitelist'', LocalWhitelist),
      (''local'', LocalWhitelist), (''bridge'', Bridge)]"

definition normalize_mode :: "json \<Rightarrow> sandbox_error + network_mode" where
  "normalize_mode v =
     (case v of
        JStr s \<Rightarrow>
          (let clean = lower (strip s) in
           if clean = ''host'' then Inl EntryError
           else case map_of mode_aliases clean of
               Some m \<Rightarrow> Inr m
             | None \<Rightarrow>
                 (case find (\<lambda>m. mode_text m = clean)
                         [Isolated, SandboxNamespace, PublicWhitelist, LocalWhitelist, Bridge] of
                    Some m \<Rightarrow> Inr m
                  | None \<Rightarrow> Inl EntryError))
      | _ \<Rightarrow> Inr Isolated)"

record network_config =
  nc_mode :: network_mode
  nc_public :: "string list"
  nc_local :: "string list"
  nc_namespace :: string

definition validate_items :: "(string \<Rightarrow> sandbox_error + unit) \<Rightarrow> string list \<Rightarrow> sandbox_error option" where
  "validate_items f items =
     (if items = [] then Some EntryError
      else case map_each f items of Inl e \<Rightarrow> Some e | Inr _ \<Rightarrow> None)"

definition validate_whitelists ::
  "host_readers \<Rightarrow> url_splitter \<Rightarrow> network_config \<Rightarrow> sandbox_error option" where
  "validate_whitelists h split c =
     (case nc_mode c of
        PublicWhitelist \<Rightarrow> validate_items (validate_public_item h split) (nc_public c)
      | LocalWhitelist \<Rightarrow> validate_items (validate_local_item h split) (nc_local c)
      | _ \<Rightarrow> None)"

fun docker_network_mode :: "network_mode \<Rightarrow> string" where
  "docker_network_mode Isolated = ''none''"
| "docker_network_mode Bridge = ''bridge''"
| "docker_network_mode _ = ''devops-sandbox-net''"

definition any_block :: policy_rule where
  "any_block = \<lparr>rule_peers = [IpBlock ''0.0.0.0/0''], rule_ports = []\<rparr>"

definition same_pods :: policy_rule where
  "same_pods = \<lparr>rule_peers = [SamePods], rule_ports = []\<rparr>"

definition ingress_and_egress ::
  "host_readers \<Rightarrow> url_splitter \<Rightarrow> network_config \<Rightarrow>
   ('s, policy_rule list \<times> policy_rule list) policy_prog" where
  "ingress_and_egress h split c =
     (case nc_mode c of
        Isolated \<Rightarrow> Done (Inr ([], []))
      | SandboxNamespace \<Rightarrow> Done (Inr ([same_pods], [same_pods, dns_rule]))
      | PublicWhitelist \<Rightarrow>
          then_try (build_whitelist_egress h split (resolve_public_host h) (nc_public c)) (\<lambda>rules.
            Done (Inr ([], rules)))
      | LocalWhitelist \<Rightarrow>
          then_try (build_whitelist_egress h split (resolve_local_host h) (nc_local c)) (\<lambda>rules.
            Done (Inr ([], rules)))
      | Bridge \<Rightarrow> Done (Inr ([any_block], [any_block])))"

record network_policy =
  np_name :: string
  np_namespace :: string
  np_ingress :: "policy_rule list"
  np_egress :: "policy_rule list"

definition collector_lane_modes :: "network_mode list" where
  "collector_lane_modes = [SandboxNamespace, PublicWhitelist, LocalWhitelist]"

definition to_network_policy ::
  "host_readers \<Rightarrow> url_splitter \<Rightarrow> network_config \<Rightarrow> string \<Rightarrow> string option \<Rightarrow> bool \<Rightarrow>
   ('s, network_policy) policy_prog" where
  "to_network_policy h split c name namespace collector =
     (if collector \<and> nc_mode c \<notin> set collector_lane_modes then Done (Inl UnpolicedMode)
      else then_try (ingress_and_egress h split c) (\<lambda>(ingress, egress). Done (Inr
        \<lparr>np_name = name @ ''-network-policy'',
         np_namespace = (if falsy namespace then nc_namespace c else the namespace),
         np_ingress = ingress,
         np_egress = (if collector then egress @ [collector_rule] else egress)\<rparr>)))"

end
