(* ===== verification/AddressProps.thy ===== *)
theory AddressProps
  imports AddressClass
begin

unbundle bit_operations_syntax

text \<open>
  What the address classes promise: the repository's table of IPv4 blocks and Python's
  \<open>is_global\<close> agree on every address, and a range of IPv4 addresses is refused exactly when it
  holds an address that is not public.
\<close>

section \<open>The table of blocks against the standard library\<close>

lemmas block_defs = in_net_def hostmask_def broadcast_def quad_def

lemma private_networks4_ok: "N \<in> set private_networks4 \<Longrightarrow> net_ok N"
  by (auto simp: private_networks4_def net_ok_def hostmask_def quad_def mask_numeral)

lemma blocks_covered:
  "list_all (\<lambda>N. list_ex (\<lambda>P. in_net (fst N) P \<and> in_net (broadcast N) P) private_networks4) private_blocks4"
  by code_simp

lemma block_in_table:
  assumes "N \<in> set private_blocks4" "in_net a N"
  shows "list_ex (in_net a) private_networks4"
proof -
  obtain P where "P \<in> set private_networks4" "in_net (fst N) P" "in_net (broadcast N) P"
    using blocks_covered assms(1) by (auto simp: list_all_iff list_ex_iff)
  then have "in_net a P" using private_networks4_ok ends_in_block assms(2) by blast
  then show ?thesis using \<open>P \<in> set private_networks4\<close> by (auto simp: list_ex_iff)
qed

lemma table_in_blocks:
  assumes "N \<in> set private_networks4" "in_net a N"
  shows "list_ex (in_net a) private_blocks4 \<or> in_net a shared_block4 \<or> is_multicast4 a"
  using assms
  by (auto simp: private_blocks4_def private_networks4_def shared_block4_def is_multicast4_def)

lemma non_public4_iff_table:
  "is_non_public_ip (V4 a) = list_ex (in_net a) private_networks4"
proof
  assume "is_non_public_ip (V4 a)"
  then have "list_ex (in_net a) private_blocks4 \<or> in_net a shared_block4 \<or> is_multicast4 a \<or>
      in_net a ietf_assignments"
    by (auto simp: is_non_public_ip_def is_global4_def is_private4_def)
  then show "list_ex (in_net a) private_networks4"
    using block_in_table
    by (auto simp: list_ex_iff) 
     (auto simp: private_networks4_def shared_block4_def is_multicast4_def ietf_assignments_def)
next
  assume "list_ex (in_net a) private_networks4"
  then have t: "list_ex (in_net a) private_blocks4 \<or> in_net a shared_block4 \<or> is_multicast4 a"
    using table_in_blocks by (auto simp: list_ex_iff)
  have e: "in_net a ietf_assignments" if "E \<in> set private_exceptions4" "in_net a E" for E
    using that by (auto simp: private_exceptions4_def ietf_assignments_def block_defs mask_numeral)
  show "is_non_public_ip (V4 a)"
    using t e by (auto simp: is_non_public_ip_def is_global4_def is_private4_def list_all_iff)
qed

section \<open>Ranges\<close>

lemma net_not_global4:
  assumes "net_ok N" "\<not> net_is_global (Net4 N)"
  shows "is_non_public_ip (V4 (fst N))"
  using assms
  by (auto simp: is_non_public_ip_def is_global4_def is_private4_def net_private_def list_ex_iff
      list_all_iff)

lemma range_refused_iff:
  assumes "net_ok N"
  shows "is_non_public_net (Net4 N) = (\<exists>a. in_net a N \<and> is_non_public_ip (V4 a))"
proof
  assume "is_non_public_net (Net4 N)"
  then consider "\<not> net_is_global (Net4 N)" | "is_non_public_ip (V4 (fst N))"
    | "is_non_public_ip (V4 (broadcast N))" | P where "P \<in> set private_networks4" "overlaps N P"
    by (auto simp: list_ex_iff)
  then show "\<exists>a. in_net a N \<and> is_non_public_ip (V4 a)"
  proof cases
    case 4
    then show ?thesis
      using overlap_has_common_address[OF assms private_networks4_ok]
      unfolding non_public4_iff_table list_ex_iff by blast
  qed (use net_not_global4 address_in_net broadcast_in_net assms in blast)+
next
  assume "\<exists>a. in_net a N \<and> is_non_public_ip (V4 a)"
  then obtain a P where "in_net a N" "P \<in> set private_networks4" "in_net a P"
    by (auto simp: non_public4_iff_table list_ex_iff)
  then have "overlaps N P" using assms common_address_overlaps private_networks4_ok by blast
  then show "is_non_public_net (Net4 N)" using \<open>P \<in> set private_networks4\<close> by (auto simp: list_ex_iff)
qed

text \<open>
  C31: A range of IPv4 addresses is refused as not public exactly when some address in it is not
  public. \<open>is_non_public_ip\<close> of a network looks at its two ends, at what \<open>ipaddress\<close> says of the
  whole range, and for an overlap with the blocks of \<open>CONST_PRIVATE_NETWORKS\<close>; together these find
  every private, loopback, link-local, shared, reserved or multicast address that the range holds,
  however small its block, and refuse no range that holds none.
\<close>

theorem range_is_refused_for_what_it_holds:
  assumes "net_ok N"
  shows "is_non_public_net (Net4 N) = (\<exists>a. in_net a N \<and> is_non_public_ip (V4 a))"
  by (rule range_refused_iff) (rule assms)

theorem range_is_refused_for_what_it_holds_witness:
  "is_non_public_net (Net4 (quad 8 0 0 0, 5)) =
     (\<exists>a. in_net a (quad 8 0 0 0, 5) \<and> is_non_public_ip (V4 a))"
  by (rule range_is_refused_for_what_it_holds) code_simp

text \<open>
  A range can open a metadata endpoint. Neither the metadata test nor the public test refuses
  the range \<open>168.63.129.0/24\<close>, which holds the Azure WireServer address \<open>168.63.129.16\<close>, an address
  that both tests of a single address refuse or list; nor does the metadata test refuse
  \<open>192.0.0.0/24\<close> and \<open>fd00:ec2::/64\<close>, which hold metadata endpoints of Oracle and AWS.
\<close>

theorem range_can_hold_a_metadata_address:
  "\<not> is_metadata_net (Net4 (quad 168 63 129 0, 24)) \<and>
   \<not> is_non_public_net (Net4 (quad 168 63 129 0, 24)) \<and>
   in_net (quad 168 63 129 16) (quad 168 63 129 0, 24) \<and>
   is_metadata_addr (V4 (quad 168 63 129 16)) \<and>
   \<not> is_metadata_net (Net4 (quad 192 0 0 0, 24)) \<and>
   in_net (quad 192 0 0 192) (quad 192 0 0 0, 24) \<and> is_metadata_addr (V4 (quad 192 0 0 192)) \<and>
   \<not> is_metadata_net (Net6 (groups [0xfd00, 0xec2, 0, 0, 0, 0, 0, 0], 64)) \<and>
   in_net (groups [0xfd00, 0xec2, 0, 0, 0, 0, 0, 0x254]) (groups [0xfd00, 0xec2, 0, 0, 0, 0, 0, 0], 64) \<and>
   is_metadata_addr (V6 (groups [0xfd00, 0xec2, 0, 0, 0, 0, 0, 0x254]) None)"
  by code_simp

end
