(* ===== verification/EgressProps.thy ===== *)
theory EgressProps
  imports Egress AddressProps
begin

text \<open>
  What the egress policy promises: a connect dials only addresses of its one lookup, all of whose
  answers passed the policy, it tries every one of them before it fails, and the levels are
  nested.
\<close>

section \<open>The vetting\<close>

definition answer_ok :: "host_readers \<Rightarrow> egress_level \<Rightarrow> socket_address \<Rightarrow> bool" where
  "answer_ok h level sa =
     (case hr_ip h (sa_text sa) of
        None \<Rightarrow> False
      | Some a \<Rightarrow>
          falsy (scope_id a) \<and> sa_scope sa = 0 \<and> \<not> is_metadata_ip a \<and> level_admits level a)"

lemma first_refusal_none:
  "first_refusal h level sas = None \<longleftrightarrow> list_all (answer_ok h level) sas"
  by (induction sas) (auto simp: answer_ok_def refusal_of_def split: option.splits if_splits)

lemma set_keep_first [simp]: "set (keep_first xs) = set xs"
  by (induction xs) auto

lemma keep_first_Nil [simp]: "keep_first xs = [] \<longleftrightarrow> xs = []"
  by (cases xs) auto

lemma vetted_Inr:
  "vetted h level sas = Inr ts \<longleftrightarrow>
     list_all (answer_ok h level) sas \<and> sas \<noteq> [] \<and> ts = keep_first (map (canonical_text h) sas)"
  by (auto simp: vetted_def first_refusal_none[symmetric] split: option.splits)

lemma runs_vet_addresses:
  "runs (vet_addresses h host port level) t (Inr ts) \<longleftrightarrow>
     \<not> is_metadata_name h host \<and>
     (\<exists>a sas. t = [(Resolve host port, a)] \<and> an_lookup a = Answers sas \<and> vetted h level sas = Inr ts)"
proof -
  have "(Inr ts = (case l of LookupTimedOut \<Rightarrow> Inl ConnectTimeout | LookupFailed \<Rightarrow> Inl ConnectError
      | Answers sas \<Rightarrow> vetted h level sas)) = (\<exists>sas. l = Answers sas \<and> vetted h level sas = Inr ts)" for l
    by (cases l) auto
  then show ?thesis by (auto simp: vet_addresses_def runs_Ask_iff)
qed

lemma failed_vetting:
  "runs (vet_addresses h host port level) t (Inl e) \<Longrightarrow> t = [] \<or> (\<exists>a. t = [(Resolve host port, a)])"
  by (auto simp: vet_addresses_def runs_Ask_iff split: if_splits)

lemma answer_ok_wider:
  "answer_ok h PublicLevel sa \<Longrightarrow> answer_ok h LoopbackLevel sa"
  "answer_ok h LoopbackLevel sa \<Longrightarrow> answer_ok h PrivateLevel sa"
  by (auto simp: answer_ok_def split: option.splits)

lemma wider_level_vets:
  "runs (vet_addresses h host port PublicLevel) t (Inr ts) \<Longrightarrow>
     runs (vet_addresses h host port LoopbackLevel) t (Inr ts)"
  "runs (vet_addresses h host port LoopbackLevel) t (Inr ts) \<Longrightarrow>
     runs (vet_addresses h host port PrivateLevel) t (Inr ts)"
  by (auto simp: runs_vet_addresses vetted_Inr list_all_iff intro: answer_ok_wider)

section \<open>The dials\<close>

lemma dials_in_order:
  "runs (dial_each port f ts) t r \<Longrightarrow> prefix (map fst t) (map (\<lambda>x. Dial x port) ts)"
proof (induction ts arbitrary: f t)
  case (Cons x ts)
  then obtain a t' where "t = (Dial x port, a) # t'" "runs (case an_dial a of
        Stream s \<Rightarrow> Done (Inr s)
      | DialRaised x \<Rightarrow> Done (Inl (DialError x))
      | DialRefused \<Rightarrow> dial_each port (Some ConnectError) ts
      | DialTimedOut \<Rightarrow> dial_each port (Some ConnectTimeout) ts) t' r"
    by (auto simp: runs_Ask_iff)
  with Cons.IH show ?case by (auto split: dial.splits)
qed simp

lemma all_dials_failed:
  assumes "runs (dial_each port f ts) t (Inl e)" and "f \<noteq> None \<or> ts \<noteq> []"
  shows "(\<exists>x. e = DialError x) \<or>
    (map fst t = map (\<lambda>x. Dial x port) ts \<and> (\<forall>(q, a) \<in> set t. an_dial a \<in> {DialRefused, DialTimedOut}) \<and>
     (e = ConnectError \<or> e = ConnectTimeout \<or> f = Some e))"
  using assms
proof (induction ts arbitrary: f t)
  case (Cons x ts)
  then obtain a t' where "t = (Dial x port, a) # t'" "runs (case an_dial a of
        Stream s \<Rightarrow> Done (Inr s)
      | DialRaised x \<Rightarrow> Done (Inl (DialError x))
      | DialRefused \<Rightarrow> dial_each port (Some ConnectError) ts
      | DialTimedOut \<Rightarrow> dial_each port (Some ConnectTimeout) ts) t' (Inl e)"
    by (auto simp: runs_Ask_iff)
  then show ?case
    using Cons.IH [of "Some ConnectError" t'] Cons.IH [of "Some ConnectTimeout" t'] by (cases "an_dial a") auto
qed (auto split: option.splits)

text \<open>A connect is the vetting and, when that gives addresses, the dials.\<close>

lemma runs_connect:
  assumes "runs (connect_tcp h level host port) t r"
  obtains "t = []"
  | a where "t = [(Resolve host port, a)]"
  | a sas ts t' where "t = (Resolve host port, a) # t'" "an_lookup a = Answers sas"
    "\<not> is_metadata_name h host" "vetted h level sas = Inr ts" "runs (dial_each port None ts) t' r"
proof -
  consider e where "runs (vet_addresses h host port level) t (Inl e)"
    | t1 t2 ts where "t = t1 @ t2" "runs (vet_addresses h host port level) t1 (Inr ts)"
      "runs (dial_each port None ts) t2 r"
    using assms unfolding connect_tcp_def runs_then_try by blast
  then show thesis
  proof cases
    case 1
    then show thesis using failed_vetting that(1,2) by blast
  next
    case 2
    then show thesis using that(3) by (auto simp: runs_vet_addresses)
  qed
qed

section \<open>What a level promises\<close>

text \<open>
  The promise of a level, in terms of the repository's table of blocks: no level reaches a metadata
  endpoint, in whatever form an IPv6 address carries it; the public level reaches IPv4 addresses
  outside every special-purpose block, and IPv6 addresses that are global and carry no other IPv4
  address; the loopback level reaches these and the machine itself.
\<close>

definition outside_table :: "ipv4 \<Rightarrow> bool" where
  "outside_table w = (\<forall>N \<in> set private_networks4. \<not> in_net w N)"

fun on_the_web :: "ip \<Rightarrow> bool" where
  "on_the_web (V4 w) = outside_table w"
| "on_the_web (V6 w _) =
     (is_global6 w \<and> \<not> is_multicast6 w \<and> (\<forall>c \<in> set (standard_embedded w). outside_table c))"

fun carries_metadata :: "ip \<Rightarrow> bool" where
  "carries_metadata (V4 w) = (w \<in> set metadata4)"
| "carries_metadata (V6 w _) =
     (w \<in> set metadata6 \<or> (\<exists>c \<in> set (exhaustive_embedded w). c \<in> set metadata4))"

fun may_reach :: "egress_level \<Rightarrow> ip \<Rightarrow> bool" where
  "may_reach PublicLevel a = (\<not> carries_metadata a \<and> on_the_web a)"
| "may_reach LoopbackLevel a = (\<not> carries_metadata a \<and> (is_loopback a \<or> on_the_web a))"
| "may_reach PrivateLevel a = (\<not> carries_metadata a)"

lemma outside_table_iff:
  "outside_table c = (is_global4 c \<and> \<not> is_multicast4 c \<and> \<not> in_net c ietf_assignments)"
  using non_public4_iff_table[of c]
  by (auto simp: is_non_public_ip_def outside_table_def list_ex_iff)

lemma on_the_web_iff: "on_the_web a = (\<not> is_non_public_ip a)"
  by (cases a) (auto simp: is_non_public_ip_def outside_table_iff list_ex_iff)

lemma level_keeps_promise:
  "\<not> is_metadata_ip a \<Longrightarrow> level_admits level a \<Longrightarrow> may_reach level a"
  by (cases level; cases a) (simp_all add: on_the_web_iff list_ex_iff del: on_the_web.simps)

text \<open>
  C11: A connection dials only addresses of one lookup that passed the policy. A connect that dials at
  all first looks the name up, and sends no other lookup, so no second answer of a rebinding server is ever
  dialled: each of its other requests dials the literal of an address of that one answer. The name
  is no metadata service; and every address of the answer, not only the one dialled, is an unscoped address
  that the level may reach.
\<close>

theorem connect_dials_only_vetted_addresses:
  assumes "runs (connect_tcp h level host port) t r" and "(Dial x p, b) \<in> set t"
  shows "\<not> is_metadata_name h host \<and>
    (\<exists>a sas t'. t = (Resolve host port, a) # t' \<and> an_lookup a = Answers sas \<and>
      (\<forall>(q, _) \<in> set t'. \<exists>sa \<in> set sas. q = Dial (canonical_text h sa) port) \<and>
      (\<forall>sa \<in> set sas. sa_scope sa = 0 \<and>
         (\<exists>a. hr_ip h (sa_text sa) = Some a \<and> falsy (scope_id a) \<and> may_reach level a)))"
proof -
  from assms obtain a sas ts t' where run: "t = (Resolve host port, a) # t'" "an_lookup a = Answers sas"
    "\<not> is_metadata_name h host" "vetted h level sas = Inr ts" "runs (dial_each port None ts) t' r"
    by (cases rule: runs_connect [OF assms(1)]) auto
  have "\<exists>sa \<in> set sas. q = Dial (canonical_text h sa) port" if "(q, b) \<in> set t'" for q b
  proof -
    have "q \<in> set (map fst t')" using that by force
    then have "q \<in> set (map (\<lambda>x. Dial x port) ts)" using dials_in_order [OF run(5)] by (metis set_mono_prefix subsetD)
    then show ?thesis using run(4) by (auto simp: vetted_Inr)
  qed
  then have dials: "\<forall>(q, _) \<in> set t'. \<exists>sa \<in> set sas. q = Dial (canonical_text h sa) port" by auto
  have "sa_scope sa = 0 \<and> (\<exists>a. hr_ip h (sa_text sa) = Some a \<and> falsy (scope_id a) \<and> may_reach level a)"
    if "sa \<in> set sas" for sa
    using run(4) that level_keeps_promise
    by (auto simp: vetted_Inr list_all_iff answer_ok_def split: option.splits)
  then show ?thesis using run(1-3) dials by blast
qed

definition sample_host_readers :: host_readers where
  "sample_host_readers =
     \<lparr>hr_ip = (\<lambda>s. if s = ''8.8.8.8'' then Some (V4 (quad 8 8 8 8))
                   else if s = ''10.0.0.1'' then Some (V4 (quad 10 0 0 1)) else None),
      hr_net = (\<lambda>_. None),
      hr_ip_text = (\<lambda>a. if a = V4 (quad 8 8 8 8) then ''8.8.8.8'' else ''10.0.0.1''),
      hr_net_text = (\<lambda>_. []), hr_legacy_ip = (\<lambda>_. None), hr_split_host = (\<lambda>s. Inr (Some s)),
      hr_url_host = (\<lambda>_. None), hr_dns_name = (\<lambda>s. Some [s, []]),
      hr_unicode_name = (\<lambda>s. Some [s, []]), hr_registrable = (\<lambda>_. True)\<rparr>"

definition sample_reply :: "nat net_answer" where
  "sample_reply = \<lparr>an_lookup = Answers [\<lparr>sa_text = ''8.8.8.8'', sa_scope = 0\<rparr>], an_dial = DialRefused\<rparr>"

lemma sample_connect:
  "runs (connect_tcp sample_host_readers PublicLevel ''a.b'' 443)
     [(Resolve ''a.b'' 443, sample_reply), (Dial ''8.8.8.8'' 443, sample_reply)] (Inl ConnectError)"
proof -
  have "runs (vet_addresses sample_host_readers ''a.b'' 443 PublicLevel) [(Resolve ''a.b'' 443, sample_reply)]
      (Inr [''8.8.8.8''])"
    unfolding runs_vet_addresses
  proof (intro conjI exI)
    show "\<not> is_metadata_name sample_host_readers ''a.b''" by code_simp
    show "an_lookup sample_reply = Answers [\<lparr>sa_text = ''8.8.8.8'', sa_scope = 0\<rparr>]"
      by (simp add: sample_reply_def)
    show "vetted sample_host_readers PublicLevel [\<lparr>sa_text = ''8.8.8.8'', sa_scope = 0\<rparr>] = Inr [''8.8.8.8'']"
      by code_simp
  qed simp
  moreover have "runs (dial_each 443 None [''8.8.8.8'']) [(Dial ''8.8.8.8'' 443, sample_reply)] (Inl ConnectError)"
    by (simp add: runs_Ask_iff sample_reply_def)
  ultimately show ?thesis
    unfolding connect_tcp_def runs_then_try
    by (intro disjI2 exI [of _ "[(Resolve ''a.b'' 443, sample_reply)]"]
        exI [of _ "[(Dial ''8.8.8.8'' 443, sample_reply)]"] exI [of _ "[''8.8.8.8'']"]) simp
qed

theorem connect_dials_only_vetted_addresses_witness:
  "\<exists>sas. an_lookup sample_reply = Answers sas \<and>
     (\<exists>sa \<in> set sas. Dial ''8.8.8.8'' 443 = Dial (canonical_text sample_host_readers sa) 443)"
  using connect_dials_only_vetted_addresses [OF sample_connect, of "''8.8.8.8''" 443 sample_reply] by auto

text \<open>
  A connect fails only after every vetted address failed. When the connect raises after the
  vetting, either the backend raised an error that is no connect failure, or each of the addresses
  was dialled in order and refused or timed out, and the error is a connect error or a timeout;
  there is always a failure to raise.
\<close>

theorem failed_connect_tried_every_address:
  assumes "runs (connect_tcp h level host port) ((Resolve host port, a) # t) (Inl e)"
    and "an_lookup a = Answers sas" and "vetted h level sas = Inr ts"
  shows "(\<exists>x. e = DialError x) \<or>
    (map fst t = map (\<lambda>x. Dial x port) ts \<and> (\<forall>(q, b) \<in> set t. an_dial b \<in> {DialRefused, DialTimedOut}) \<and>
     (e = ConnectError \<or> e = ConnectTimeout))"
proof -
  have run: "runs (dial_each port None ts) t (Inl e)"
    using assms by (auto simp: connect_tcp_def then_try_def vet_addresses_def runs_Ask_iff split: if_splits)
  have "ts \<noteq> []" using assms(3) by (auto simp: vetted_Inr)
  then show ?thesis using all_dials_failed [OF run] by auto
qed

theorem failed_connect_tried_every_address_witness:
  "(\<exists>x. ConnectError = DialError x) \<or> an_dial sample_reply \<in> {DialRefused, DialTimedOut}"
proof -
  have "vetted sample_host_readers PublicLevel [\<lparr>sa_text = ''8.8.8.8'', sa_scope = 0\<rparr>] = Inr [''8.8.8.8'']"
    by code_simp
  moreover have "an_lookup sample_reply = Answers [\<lparr>sa_text = ''8.8.8.8'', sa_scope = 0\<rparr>]"
    by (simp add: sample_reply_def)
  ultimately show ?thesis using failed_connect_tried_every_address [OF sample_connect] by auto
qed

end
