(* ===== verification/NetworkPolicyProps.thy ===== *)
theory NetworkPolicyProps
  imports NetworkPolicy EgressProps
begin

unbundle bit_operations_syntax

text \<open>
  What the network policy of a sandbox promises: a public whitelist opens blocks of public
  addresses only, whether its entry is an address, a range or a name, and no rule of a policy is
  open to every peer by having none.
\<close>

section \<open>Rules name their peers\<close>

lemma then_done_runs:
  assumes "runs (then_try p (\<lambda>x. Done (g x))) t (Inr y)"
  obtains x where "runs p t (Inr x)" "g x = Inr y"
  using assms unfolding runs_then_try by auto

lemma resolve_each_from:
  "runs (resolve_each f xs) t (Inr ys) \<Longrightarrow> y \<in> set ys \<Longrightarrow> \<exists>x \<in> set xs. \<exists>u. runs (f x) u (Inr y)"
proof (induction xs arbitrary: t ys)
  case (Cons x xs)
  then obtain t1 t2 z zs where "runs (f x) t1 (Inr z)" "runs (resolve_each f xs) t2 (Inr zs)" "ys = z # zs"
    unfolding resolve_each.simps runs_then_try by auto
  then show ?case using Cons by auto
qed simp

lemma whitelist_rules:
  assumes "runs (build_whitelist_egress h split resolve_host entries) t (Inr rules)" and "r \<in> set rules"
  shows "r = dns_rule \<or>
    (\<exists>host port cidrs u. runs (resolve_host host port) u (Inr cidrs) \<and> cidrs \<noteq> [] \<and>
       r = \<lparr>rule_peers = map IpBlock cidrs, rule_ports = [(TCP, port)]\<rparr>)"
proof -
  obtain rs where rs: "runs (resolve_each (entry_rule h split resolve_host) entries) t (Inr rs)"
      "rules = dns_rule # concat rs"
    using assms(1) unfolding build_whitelist_egress_def by (rule then_done_runs) simp
  show ?thesis
  proof (cases "r = dns_rule")
    case False
    then obtain ys where ys: "ys \<in> set rs" "r \<in> set ys" using rs(2) assms(2) by auto
    then obtain entry u where entry: "runs (entry_rule h split resolve_host entry) u (Inr ys)"
      using resolve_each_from[OF rs(1)] by blast
    then obtain host port where "runs (then_try (resolve_host host port) (\<lambda>cidrs. Done
        (Inr (if cidrs = [] then [] else [\<lparr>rule_peers = map IpBlock cidrs, rule_ports = [(TCP, port)]\<rparr>])))) u (Inr ys)"
      by (auto simp: entry_rule_def split: sum.splits prod.splits)
    then obtain cidrs where "runs (resolve_host host port) u (Inr cidrs)"
        "ys = (if cidrs = [] then [] else [\<lparr>rule_peers = map IpBlock cidrs, rule_ports = [(TCP, port)]\<rparr>])"
      by (rule then_done_runs) simp
    with ys(2) show ?thesis by (cases "cidrs = []") auto
  qed simp
qed

lemma whitelist_rule_peers:
  "runs (build_whitelist_egress h split resolve_host entries) t (Inr rules) \<Longrightarrow> r \<in> set rules \<Longrightarrow> rule_peers r \<noteq> []"
  using whitelist_rules[of h split resolve_host entries t rules r] by (auto simp: dns_rule_def)

lemma runs_if: "runs (if c then Done y else p) t x \<Longrightarrow> x \<noteq> y \<Longrightarrow> runs p t x"
  by (simp split: if_splits)

text \<open>A policy is the rules of its mode, with the rule of the collector where that is asked for.\<close>

lemma policy_rules:
  assumes "runs (to_network_policy h split c name namespace collector) t (Inr p)"
  obtains eg where "runs (ingress_and_egress h split c) t (Inr (np_ingress p, eg))"
    "set (np_egress p) \<subseteq> insert collector_rule (set eg)"
proof -
  have "runs (then_try (ingress_and_egress h split c) (\<lambda>(ingress, egress). Done (Inr
        \<lparr>np_name = name @ ''-network-policy'',
         np_namespace = (if falsy namespace then nc_namespace c else the namespace),
         np_ingress = ingress,
         np_egress = (if collector then egress @ [collector_rule] else egress)\<rparr>))) t (Inr p)"
    using assms unfolding to_network_policy_def by (rule runs_if) simp
  then obtain t1 x where "runs (ingress_and_egress h split c) t1 (Inr x)" "t = t1 @ []"
      "p = \<lparr>np_name = name @ ''-network-policy'',
         np_namespace = (if falsy namespace then nc_namespace c else the namespace),
         np_ingress = fst x,
         np_egress = (if collector then snd x @ [collector_rule] else snd x)\<rparr>"
    unfolding runs_then_try by (auto simp: case_prod_beta)
  then show thesis by (intro that[of "snd x"]) auto
qed

text \<open>
  No rule of a sandbox's policy is open to every peer: whatever the mode and the whitelist, each
  ingress and egress rule of a policy names at least one peer, since a rule with an empty list
  would allow every destination on its ports.
\<close>

theorem every_rule_names_a_peer:
  assumes "runs (to_network_policy h split c name namespace collector) t (Inr p)"
    and "r \<in> set (np_ingress p) \<union> set (np_egress p)"
  shows "rule_peers r \<noteq> []"
proof -
  from assms(1) obtain eg where ie: "runs (ingress_and_egress h split c) t (Inr (np_ingress p, eg))"
      "set (np_egress p) \<subseteq> insert collector_rule (set eg)" by (rule policy_rules)
  have "rule_peers r \<noteq> []" if "r \<in> set (np_ingress p) \<union> set eg"
    using ie(1) that unfolding ingress_and_egress_def
    by (auto simp: dns_rule_def any_block_def same_pods_def dest: whitelist_rule_peers
        split: network_mode.splits elim!: then_done_runs)
  then show ?thesis using ie(2) assms(2) by (auto simp: collector_rule_def)
qed

section \<open>A public whitelist\<close>

text \<open>
  What the reading of address texts is relied on for: the text of an address reads back as the
  network of that address alone, and a network that is read has no host bits.
\<close>

definition readers_agree :: "host_readers \<Rightarrow> bool" where
  "readers_agree h =
     ((\<forall>a. hr_net h (hr_ip_text h (V4 a)) = Some (Net4 (a, 32))) \<and>
      (\<forall>a z. falsy z \<longrightarrow> hr_net h (hr_ip_text h (V6 a z)) = Some (Net6 (a, 128))) \<and>
      (\<forall>s N. hr_net h s = Some (Net4 N) \<longrightarrow> net_ok N))"

fun web_block :: "ip_net \<Rightarrow> bool" where
  \<comment> \<open>Every IPv4 address of the block is outside the table; both ends of an IPv6 block are public.\<close>
  "web_block (Net4 N) = (\<forall>w. in_net w N \<longrightarrow> outside_table w)"
| "web_block (Net6 N) = (on_the_web (V6 (fst N) None) \<and> on_the_web (V6 (broadcast N) None))"

lemma broadcast_single [simp]: "broadcast ((a, LENGTH('a)) :: 'a::len net) = a"
  by (simp add: broadcast_def hostmask_def)

lemma single_web_block4: "on_the_web (V4 a) \<Longrightarrow> web_block (Net4 (a, 32))"
  by (simp add: in_net_def hostmask_def)

lemma single_web_block6: "on_the_web (V6 a z) \<Longrightarrow> web_block (Net6 (a, 128))"
  using broadcast_single[of a] by simp

lemma range_web_block:
  assumes "\<not> is_non_public_net N" and "\<And>M. N = Net4 M \<Longrightarrow> net_ok M"
  shows "web_block N"
proof (cases N)
  case (Net4 M)
  then have "\<forall>w. in_net w M \<longrightarrow> \<not> is_non_public_ip (V4 w)"
    using assms range_refused_iff[of M] by auto
  then show ?thesis using Net4 on_the_web_iff[of "V4 _"] by simp
next
  case (Net6 M)
  then show ?thesis using assms(1) on_the_web_iff by (simp del: on_the_web.simps)
qed

lemma vetted_public_block:
  assumes "readers_agree h" and "runs (vet_addresses h host port PublicLevel) u (Inr as)"
    and "a \<in> set as" and "block_text h a = Inr t"
  shows "\<exists>N. t = hr_net_text h N \<and> web_block N"
proof -
  obtain sa where sa: "answer_ok h PublicLevel sa" "a = canonical_text h sa"
    using assms(2,3) unfolding runs_vet_addresses vetted_Inr list_all_iff by auto blast
  then obtain ip where ip: "hr_ip h (sa_text sa) = Some ip" "a = hr_ip_text h ip"
      "falsy (scope_id ip)" "on_the_web ip"
    by (auto simp: answer_ok_def canonical_text_def on_the_web_iff split: option.splits)
  show ?thesis
  proof (cases ip)
    case (V4 w)
    then show ?thesis
      using assms(1,4) ip single_web_block4[of w]
      by (auto simp: readers_agree_def block_text_def simp del: web_block.simps)
  next
    case (V6 w z)
    then show ?thesis
      using assms(1,4) ip single_web_block6[of w z]
      by (auto simp: readers_agree_def block_text_def simp del: web_block.simps)
  qed
qed

lemma looked_up:
  assumes "runs (whitelist_lookup h host port level) u (Inr as)"
  shows "runs (vet_addresses h host port level) u (Inr as)"
proof -
  obtain r where r: "runs (vet_addresses h host port level) u r" "Inr as = (case r of
          Inr as \<Rightarrow> Inr as
        | Inl (SSRFBlocked _) \<Rightarrow> Inl SandboxRefused
        | Inl MetadataName \<Rightarrow> Inl SandboxRefused
        | Inl ConnectError \<Rightarrow> Inl SandboxRefused
        | Inl e \<Rightarrow> Inl (LookupRefused e))"
    using assms unfolding whitelist_lookup_def runs_bind by auto
  then have "r = Inr as" by (auto split: sum.splits egress_error.splits)
  then show ?thesis using r(1) by simp
qed

lemma public_host_blocks:
  assumes "readers_agree h" and "runs (resolve_public_host h host port) u (Inr cidrs)" and "t \<in> set cidrs"
  shows "\<exists>N. t = hr_net_text h N \<and> web_block N"
proof (cases "hr_net h host")
  case None
  then have "runs (then_try (whitelist_lookup h host port PublicLevel)
      (\<lambda>as. Done (map_each (block_text h) (sort as)))) u (Inr cidrs)"
    using assms(2) by (simp add: resolve_public_host_def resolve_public_dns_def)
  then obtain as where looked: "runs (whitelist_lookup h host port PublicLevel) u (Inr as)"
      and as: "map_each (block_text h) (sort as) = Inr cidrs" by (rule then_done_runs)
  note vet = looked_up [OF looked]
  then obtain a where "a \<in> set as" "block_text h a = Inr t"
    using map_each_from[OF as assms(3)] by auto
  then show ?thesis using vetted_public_block assms(1) vet by blast
next
  case (Some N)
  moreover have "net_ok M" if "N = Net4 M" for M
    using assms(1) Some that unfolding readers_agree_def by blast
  ultimately show ?thesis
    using assms(2,3) range_web_block[of N]
    by (auto simp: resolve_public_host_def split: if_splits)
qed

text \<open>
  C12: A public whitelist opens public addresses only. In the policy of a sandbox in the public
  whitelist mode every block of an egress rule is the text of a network whose IPv4 addresses, each
  one of them, lie outside all special-purpose blocks, or whose two ends are public IPv6 addresses;
  the entry may be an address, a range, or a name, whose lookup decides, whatever it answers.
\<close>

theorem public_whitelist_opens_public_addresses:
  assumes "readers_agree h" and "nc_mode c = PublicWhitelist"
    and "runs (to_network_policy h split c name namespace collector) u (Inr p)"
    and "r \<in> set (np_egress p)" and "IpBlock t \<in> set (rule_peers r)"
  shows "\<exists>N. t = hr_net_text h N \<and> web_block N"
proof -
  from assms(3) obtain eg where eg: "runs (ingress_and_egress h split c) u (Inr (np_ingress p, eg))"
      "set (np_egress p) \<subseteq> insert collector_rule (set eg)" by (rule policy_rules)
  have "runs (then_try (build_whitelist_egress h split (resolve_public_host h) (nc_public c))
      (\<lambda>rules. Done (Inr ([], rules)))) u (Inr (np_ingress p, eg))"
    using eg(1) assms(2) by (simp add: ingress_and_egress_def)
  then obtain rules where "runs (build_whitelist_egress h split (resolve_public_host h) (nc_public c)) u (Inr rules)"
      "Inr ([], rules) = (Inr (np_ingress p, eg) :: sandbox_error + _)" by (rule then_done_runs)
  then have rules: "runs (build_whitelist_egress h split (resolve_public_host h) (nc_public c)) u (Inr rules)"
      "r \<in> set rules \<union> {collector_rule}" using eg(2) assms(4) by auto
  then show ?thesis
    using whitelist_rules[OF rules(1), of r] assms(1,5) public_host_blocks
    by (auto simp: dns_rule_def collector_rule_def)
qed

subsection \<open>Readers for the witnesses\<close>

text \<open>Texts of 32 and 128 binary digits stand for addresses.\<close>

definition bits_text :: "'a::len word \<Rightarrow> string" where
  "bits_text a = map (\<lambda>i. if bit a i then CHR ''1'' else CHR ''0'') [0..<LENGTH('a)]"

definition text_bits :: "string \<Rightarrow> 'a::len word" where
  "text_bits s = horner_sum of_bool 2 (map (\<lambda>c. c = CHR ''1'') s)"

lemma text_bits_text [simp]: "text_bits (bits_text a) = a"
proof -
  have "map (\<lambda>c. c = CHR ''1'') (bits_text a) = map (bit a) [0..<LENGTH('a)]" for a :: "'a::len word"
    by (simp add: bits_text_def)
  then show ?thesis by (simp add: text_bits_def horner_sum_bit_eq_take_bit)
qed

definition bit_readers :: host_readers where
  "bit_readers =
     \<lparr>hr_ip = (\<lambda>s. if length s = 32 then Some (V4 (text_bits s)) else None),
      hr_net = (\<lambda>s. if length s = 32 then Some (Net4 (text_bits s, 32))
                    else if length s = 128 then Some (Net6 (text_bits s, 128))
                    else if s = ''8/8'' then Some (Net4 (quad 8 0 0 0, 8)) else None),
      hr_ip_text = (\<lambda>a. case a of V4 w \<Rightarrow> bits_text w | V6 w _ \<Rightarrow> bits_text w),
      hr_net_text = (\<lambda>N. case N of Net4 M \<Rightarrow> bits_text (fst M) | Net6 M \<Rightarrow> bits_text (fst M)),
      hr_legacy_ip = (\<lambda>_. None), hr_split_host = (\<lambda>s. Inr (Some s)),
      hr_url_host = (\<lambda>_. None), hr_dns_name = (\<lambda>s. Some [s, []]),
      hr_unicode_name = (\<lambda>s. Some [s, []]), hr_registrable = (\<lambda>_. True)\<rparr>"

lemma length_bits_text [simp]: "length (bits_text (a :: 'a::len word)) = LENGTH('a)"
  by (simp add: bits_text_def)

lemma bit_readers_agree: "readers_agree bit_readers"
  by (auto simp: readers_agree_def bit_readers_def net_ok_def hostmask_def quad_def mask_numeral)

definition sample_config :: network_config where
  "sample_config = \<lparr>nc_mode = PublicWhitelist, nc_public = [''a.b:80''], nc_local = [], nc_namespace = ''s''\<rparr>"

definition sample_splitter :: url_splitter where
  "sample_splitter s =
     Some \<lparr>us_scheme = [], us_netloc = ''a.b:80'', us_path = [], us_query = [], us_fragment = [],
           us_hostname = Some ''a.b'', us_port = Some (Some 80)\<rparr>"

definition sample_lookup :: "nat net_answer" where
  "sample_lookup = \<lparr>an_lookup = Answers [\<lparr>sa_text = bits_text (quad 8 8 8 8), sa_scope = 0\<rparr>], an_dial = DialRefused\<rparr>"

definition sample_policy :: network_policy where
  "sample_policy =
     \<lparr>np_name = ''w-network-policy'', np_namespace = ''s'', np_ingress = [],
      np_egress = [dns_rule, \<lparr>rule_peers = [IpBlock (bits_text (quad 8 8 8 8))], rule_ports = [(TCP, 80)]\<rparr>]\<rparr>"

lemma sample_policy_run:
  obtains u where
    "runs (to_network_policy bit_readers sample_splitter sample_config ''w'' None False :: (nat, _) policy_prog) u
       (Inr sample_policy)"
proof (rule answered_gives [where
      p = "to_network_policy bit_readers sample_splitter sample_config ''w'' None False :: (nat, _) policy_prog" and
      as = "[sample_lookup]" and P = "\<lambda>x _. x = Inr sample_policy"])
  show "case answered (to_network_policy bit_readers sample_splitter sample_config ''w'' None False :: (nat, _) policy_prog)
      [sample_lookup] of None \<Rightarrow> False | Some (x, t) \<Rightarrow> x = Inr sample_policy"
    by code_simp
qed (use that in blast)

theorem public_whitelist_opens_public_addresses_witness:
  "\<exists>N. bits_text (quad 8 8 8 8) = hr_net_text bit_readers N \<and> web_block N"
proof -
  obtain u where run: "runs (to_network_policy bit_readers sample_splitter sample_config ''w'' None False
      :: (nat, _) policy_prog) u (Inr sample_policy)" by (rule sample_policy_run)
  show ?thesis
    by (rule public_whitelist_opens_public_addresses[OF bit_readers_agree _ run,
          where r = "\<lparr>rule_peers = [IpBlock (bits_text (quad 8 8 8 8))], rule_ports = [(TCP, 80)]\<rparr>"])
      (simp_all add: sample_config_def sample_policy_def)
qed

theorem every_rule_names_a_peer_witness: "rule_peers dns_rule \<noteq> []"
proof -
  obtain u where run: "runs (to_network_policy bit_readers sample_splitter sample_config ''w'' None False
      :: (nat, _) policy_prog) u (Inr sample_policy)" by (rule sample_policy_run)
  show ?thesis by (rule every_rule_names_a_peer[OF run]) (simp add: sample_policy_def)
qed

end
