(* ===== verification/Items.thy ===== *)
theory Items
  imports GhErrors LabelFamilies "HOL-Library.List_Lexorder" "HOL-Library.Char_ord"
begin

text \<open>
  What a roadmap store reads and writes: \<^verbatim>\<open>src/devops_cli/roadmap/stores/store.py\<close>. An Item is an
  issue with a Priority; each of its fields is a family of labels, and its job record is a JSON
  object in a hidden block at the end of the body. The Markdown parser that finds the block and the
  JSON reader and writer are parameters, in a record of functions. Times are instants; the texts of
  errors and warnings are not modelled.
\<close>

section \<open>Vocabulary\<close>

datatype github_state = StateOpen | StateClosed

datatype close_reason = Completed | NotPlanned | Duplicate

fun reason_text :: "close_reason \<Rightarrow> string" where
  "reason_text Completed = ''completed''"
| "reason_text NotPlanned = ''not_planned''"
| "reason_text Duplicate = ''duplicate''"

section \<open>The keys of a job record\<close>

definition refine_keys :: "string list" where
  "refine_keys =
     map ((@) ''refine.'')
       [''body_hash'', ''section_hash'', ''needs_split'', ''failed_body_hash'', ''next_step'',
        ''blocked_by'', ''block_paths'', ''capped_after'', ''alternatives_asked'', ''deferred'',
        ''returned_body_hash'', ''judge'', ''tries'', ''failed_check'', ''failure'',
        ''comments_seen'', ''commented_at'', ''wait_refs'']"

definition alternatives_keys :: "string list" where
  "alternatives_keys =
     map ((@) ''alternatives.'')
       [''checked_at'', ''body_hash'', ''verdict'', ''tool'', ''failed_at'', ''failed_error'']"

definition stage_keys :: "string list" where
  "stage_keys =
     map ((@) ''stage.'')
       [''branch'', ''pr'', ''sha'', ''groups'', ''needs_split'', ''file_cap'', ''ready'',
        ''needs_fix'', ''failed_at'', ''failed_error'', ''text_hash'', ''rejected'']"

definition implement_keys :: "string list" where
  "implement_keys =
     map ((@) ''implement.'')
       [''group'', ''sha'', ''branch'', ''pr'', ''stopped'', ''failure'', ''check'', ''check_log'',
        ''conflict'', ''wip'', ''spend'', ''trace'', ''job'', ''job_state'', ''job_digest'',
        ''digest_clears'', ''digest_clear_commented_at'', ''continuations'']"

definition job_record_keys :: "string list" where
  "job_record_keys =
     map field_text all_fields @ refine_keys @ alternatives_keys @ stage_keys @ implement_keys"

text \<open>A job record holds texts or nothing under its keys; \<open>record_get\<close> is \<open>record.get(key)\<close>.\<close>

type_synonym job_record = "(string, string option) dict"

definition record_get :: "job_record \<Rightarrow> string \<Rightarrow> string option" where
  "record_get r k = (case dict_get r k of Some (Some v) \<Rightarrow> Some v | _ \<Rightarrow> None)"

section \<open>Models\<close>

record issue_record =
  ir_id :: int
  ir_number :: int
  ir_title :: string
  ir_url :: string
  ir_body :: string
  ir_state :: github_state
  ir_state_reason :: "string option"
  ir_labels :: "string list"
  ir_milestone :: "string option"
  ir_pull_request :: bool
  ir_author_association :: "string option"
  ir_author_login :: "string option"
  ir_created_at :: "instant option"
  ir_updated_at :: "instant option"
  ir_closed_at :: "instant option"
  ir_comments :: int
  ir_sub_issues :: int
  ir_parent :: "int option"
  ir_blocked_by :: int
  ir_job_record :: job_record

record item =
  it_number :: int
  it_title :: string
  it_url :: string
  it_body :: string
  it_state :: github_state
  it_state_reason :: "string option"
  it_labels :: "string list"
  it_milestone :: "string option"
  it_author_association :: "string option"
  it_author_login :: "string option"
  it_sub_issues :: int
  it_updated_at :: "instant option"
  it_comments :: int
  it_status :: "string option"
  it_priority :: "string option"
  it_value :: "string option"
  it_effort :: "string option"
  it_owner :: "string option"
  it_job_record :: job_record

fun field_value :: "item \<Rightarrow> item_field \<Rightarrow> string option" where
  "field_value i Status = it_status i"
| "field_value i Priority = it_priority i"
| "field_value i Value = it_value i"
| "field_value i Effort = it_effort i"
| "field_value i Owner = it_owner i"

definition stopped_key :: string where
  "stopped_key = ''implement.stopped''"

definition holds_service_stop :: "item \<Rightarrow> bool" where
  "holds_service_stop i =
     (it_status i = Some ''Blocked'' \<and>
      record_get (it_job_record i) (field_text Status) = Some ''Blocked'' \<and>
      \<not> falsy (record_get (it_job_record i) stopped_key))"

record candidate =
  cd_number :: int
  cd_title :: string
  cd_url :: string
  cd_labels :: "string list"
  cd_milestone :: "string option"

record issue_comment =
  ic_body :: string
  ic_created_at :: instant
  ic_author_association :: "string option"
  ic_author_login :: "string option"
  ic_on_pull_request :: bool

section \<open>Label families\<close>

definition held_values :: "string list \<Rightarrow> item_field \<Rightarrow> string list" where
  "held_values labels f = filter (\<lambda>v. field_label f v \<in> set (map lower labels)) (values_of_field f)"

definition value_of_family :: "string list \<Rightarrow> job_record \<Rightarrow> item_field \<Rightarrow> string option" where
  \<comment> \<open>The entry of \<open>field_values\<close> for one field.\<close>
  "value_of_family labels r f =
     (let held = held_values labels f;
          others = filter (\<lambda>v. Some v \<noteq> record_get r (field_text f)) held;
          newer = (if others = [] then held else others)
      in if newer = [] then None else Some (hd newer))"

definition relabeled :: "string list \<Rightarrow> item_field \<Rightarrow> string option \<Rightarrow> string list" where
  "relabeled labels f v =
     (let kept = filter (\<lambda>l. \<not> prefix (family_prefix f) (lower l)) labels
      in case v of None \<Rightarrow> kept | Some x \<Rightarrow> kept @ [field_label f x])"

section \<open>Errors\<close>

datatype roadmap_error =
    GhRefused gh_error
  | CommandFailed
  | MalformedAnswer
  | NotAnIssue
  | ValueUnknown
  | ItemChanged
  | AlreadyClosed
  | StillOpen
  | ClaimRefused "string option"
  | ClusterFailed
  | GitFailed
  | RecordUnread py_error

definition require_value :: "item_field \<Rightarrow> string option \<Rightarrow> roadmap_error option" where
  "require_value f v =
     (case v of None \<Rightarrow> None | Some x \<Rightarrow> if x \<in> set (values_of_field f) then None else Some ValueUnknown)"

definition require_unchanged ::
  "string option \<Rightarrow> string option \<Rightarrow> string option \<Rightarrow> roadmap_error option" where
  "require_unchanged read now v = (if read = now \<or> v = now then None else Some ItemChanged)"

section \<open>The record block\<close>

record md_token =
  tk_level :: nat
  tk_type :: string
  tk_lines :: "(nat \<times> nat) option"

record body_readers =
  br_tokens :: "string \<Rightarrow> md_token list"
  br_loads :: "string \<Rightarrow> json option"
  br_dumps :: "json \<Rightarrow> string"

definition record_open :: string where
  "record_open = ''<!-- devops-roadmap-record ''"

definition record_close :: string where
  "record_close = '' -->''"

definition record_separators :: "string list" where
  "record_separators = [[CHR 13, CHR 10, CHR 13, CHR 10], [CHR 10, CHR 10]]"

fun break_ends :: "nat \<Rightarrow> string \<Rightarrow> nat list" where
  \<comment> \<open>The ends of the line breaks of a text, counted from the position given.\<close>
  "break_ends p [] = []"
| "break_ends p (c # s) =
     (if c = CHR 13 then
        (case s of
           d # s' \<Rightarrow> if d = CHR 10 then (p + 2) # break_ends (p + 2) s' else (p + 1) # break_ends (p + 1) s
         | [] \<Rightarrow> [p + 1])
      else if c = CHR 10 then (p + 1) # break_ends (p + 1) s
      else break_ends (p + 1) s)"

definition record_block_span :: "body_readers \<Rightarrow> string \<Rightarrow> py_error + (nat \<times> nat) option" where
  "record_block_span br body =
     (case find (\<lambda>t. tk_level t = 0) (rev (br_tokens br body)) of
        None \<Rightarrow> Inr None
      | Some t \<Rightarrow>
          if tk_type t \<noteq> ''html_block'' then Inr None
          else case tk_lines t of
              None \<Rightarrow> Inr None
            | Some (first, after) \<Rightarrow>
                (let starts = 0 # break_ends 0 body in
                 if length starts \<le> first then Inl IndexError
                 else Inr (Some (starts ! first,
                     if after < length starts then starts ! after else length body))))"

definition record_text :: "string \<Rightarrow> string option" where
  \<comment> \<open>The full match of the block's pattern, with what its group holds.\<close>
  "record_text s =
     (if prefix record_open s \<and> suffix record_close s \<and>
         length record_open + length record_close \<le> length s
      then Some (take (length s - length record_open - length record_close) (drop (length record_open) s))
      else None)"

definition without_separator :: "string \<Rightarrow> string" where
  "without_separator s =
     (case find (\<lambda>sep. suffix sep s) record_separators of
        Some sep \<Rightarrow> take (length s - length sep) s
      | None \<Rightarrow> s)"

type_synonym held_record = "(string, json) dict"

definition split_record :: "body_readers \<Rightarrow> string \<Rightarrow> py_error + string \<times> held_record" where
  "split_record br body =
     (case record_block_span br body of
        Inl e \<Rightarrow> Inl e
      | Inr None \<Rightarrow> Inr (body, [])
      | Inr (Some (a, b)) \<Rightarrow>
          (case record_text (strip (take (b - a) (drop a body))) of
             None \<Rightarrow> Inr (body, [])
           | Some text \<Rightarrow>
               Inr (without_separator (take a body),
                 (case br_loads br text of Some (JObj held) \<Rightarrow> held | _ \<Rightarrow> []))))"

fun text_or_null :: "json \<Rightarrow> bool" where
  "text_or_null JNull = True"
| "text_or_null (JStr _) = True"
| "text_or_null _ = False"

definition decode_job_record :: "held_record \<Rightarrow> job_record" where
  "decode_job_record held =
     map (\<lambda>(k, v). (k, case v of JStr s \<Rightarrow> Some s | _ \<Rightarrow> None))
       (filter (\<lambda>(k, v). k \<in> set job_record_keys \<and> text_or_null v) held)"

definition with_changes :: "held_record \<Rightarrow> job_record \<Rightarrow> held_record" where
  \<comment> \<open>\<open>dict(held) | changes\<close>\<close>
  "with_changes held changes = foldl (\<lambda>d (k, v). dict_set k (opt_json JStr v) d) held changes"

definition escape_gt :: "string \<Rightarrow> string" where
  "escape_gt s = concat (map (\<lambda>c. if c = CHR ''>'' then [CHR 92] @ ''u003e'' else [c]) s)"

primrec sorted_keys :: "json \<Rightarrow> json" where
  \<comment> \<open>The order that \<open>json.dumps(..., sort_keys=True)\<close> writes an object in, by code points, in every depth.\<close>
  "sorted_keys JNull = JNull"
| "sorted_keys (JBool b) = JBool b"
| "sorted_keys (JInt n) = JInt n"
| "sorted_keys (JFloat x) = JFloat x"
| "sorted_keys (JStr s) = JStr s"
| "sorted_keys (JArr vs) = JArr (map sorted_keys vs)"
| "sorted_keys (JObj kvs) = JObj (sort_key fst (map (map_prod id sorted_keys) kvs))"

definition encode_job_record :: "body_readers \<Rightarrow> held_record \<Rightarrow> job_record \<Rightarrow> string" where
  "encode_job_record br held changes =
     record_open @ escape_gt (br_dumps br (sorted_keys (JObj (with_changes held changes)))) @ record_close"

definition with_record :: "string \<Rightarrow> string option \<Rightarrow> string" where
  "with_record body block =
     (case block of
        None \<Rightarrow> body
      | Some b \<Rightarrow> if body = [] then b else body @ [CHR 10, CHR 10] @ b)"

section \<open>Selections\<close>

definition item_of :: "issue_record \<Rightarrow> item" where
  "item_of i =
     (let value = value_of_family (ir_labels i) (ir_job_record i) in
      \<lparr>it_number = ir_number i, it_title = ir_title i, it_url = ir_url i, it_body = ir_body i,
       it_state = ir_state i, it_state_reason = ir_state_reason i, it_labels = ir_labels i,
       it_milestone = ir_milestone i, it_author_association = ir_author_association i,
       it_author_login = ir_author_login i, it_sub_issues = ir_sub_issues i,
       it_updated_at = ir_updated_at i, it_comments = ir_comments i,
       it_status = value Status, it_priority = value Priority, it_value = value Value,
       it_effort = value Effort, it_owner = value Owner, it_job_record = ir_job_record i\<rparr>)"

definition select_items :: "issue_record list \<Rightarrow> item list" where
  "select_items issues =
     sort_key it_number
       (filter (\<lambda>i. it_priority i \<noteq> None) (map item_of (filter (\<lambda>i. \<not> ir_pull_request i) issues)))"

definition candidate_of :: "issue_record \<Rightarrow> candidate" where
  "candidate_of i =
     \<lparr>cd_number = ir_number i, cd_title = ir_title i, cd_url = ir_url i, cd_labels = ir_labels i,
      cd_milestone = ir_milestone i\<rparr>"

definition select_candidates :: "issue_record list \<Rightarrow> candidate list" where
  "select_candidates issues =
     sort_key cd_number
       (map candidate_of
         (filter (\<lambda>i. ir_state i = StateOpen \<and> \<not> ir_pull_request i \<and> it_priority (item_of i) = None)
           issues))"

end
