(* ===== verification/Store.thy ===== *)
theory Store
  imports Items Requests
begin

text \<open>
  The GitHub roadmap store: \<^verbatim>\<open>src/devops_cli/roadmap/stores/github_store.py\<close>. A method of the store is
  a tree of requests over the store's own state: the gh commands it runs, with what it puts on
  their standard input, and the REST listings it reads, each with its answer. What pydantic reads
  in an answer, the Markdown parser and the JSON codec are the environment's functions. The lock
  that the methods hold from the read of an issue to its write keeps other lanes of the process
  out; here the answers of two requests are any, so what is shown of a method holds whoever writes
  between them. Not modelled: the milestones, the labels and pull requests of the repository, its
  files and facts, the closes and renames of an issue, and evidence.
\<close>

section \<open>What GitHub answers\<close>

record issue_payload =
  ip_id :: int
  ip_number :: int
  ip_title :: string
  ip_html_url :: string
  ip_body :: "string option"
  ip_state :: github_state
  ip_state_reason :: "string option"
  ip_labels :: "string list"
  ip_milestone :: "string option"
  ip_pull_request :: bool
  ip_author_association :: "string option"
  ip_author_login :: "string option"
  ip_created_at :: "instant option"
  ip_updated_at :: "instant option"
  ip_closed_at :: "instant option"
  ip_comments :: int
  ip_sub_issues :: int
  ip_blocked_by :: int
  ip_repository_url :: "string option"
  ip_parent_issue_url :: "string option"

record blocker_payload =
  bp_number :: int
  bp_repository_url :: "string option"

record event_payload =
  ep_event :: string
  ep_created_at :: instant
  ep_number :: "int option"
  ep_pull_request :: bool
  ep_actor :: "string option"
  ep_label :: "string option"

record comment_payload =
  cp_body :: string
  cp_created_at :: instant
  cp_author_association :: "string option"
  cp_author_login :: "string option"
  cp_html_path :: "string list"

record store_env =
  se_repo :: string
  se_body :: body_readers
  se_issue :: "string \<Rightarrow> issue_payload option"
  se_issue_entry :: "json \<Rightarrow> issue_payload option"
  se_blocker_entry :: "json \<Rightarrow> blocker_payload option"
  se_event_entry :: "json \<Rightarrow> event_payload option"
  se_comment_entry :: "json \<Rightarrow> comment_payload option"

definition is_decimal :: "string \<Rightarrow> bool" where
  "is_decimal s = (s \<noteq> [] \<and> list_all is_digit s)"

definition remove_prefix :: "string \<Rightarrow> string \<Rightarrow> string" where
  "remove_prefix p s = (if prefix p s then drop (length p) s else s)"

definition payload_parent :: "issue_payload \<Rightarrow> int option" where
  "payload_parent p =
     (case (ip_parent_issue_url p, ip_repository_url p) of
        (Some url, Some repo) \<Rightarrow>
          (let n = remove_prefix (repo @ ''/issues/'') url
           in if is_decimal n then Some (digits_val n) else None)
      | _ \<Rightarrow> None)"

definition given_text :: "string option \<Rightarrow> string" where
  "given_text x = (case x of None \<Rightarrow> [] | Some s \<Rightarrow> s)"

definition payload_split :: "body_readers \<Rightarrow> issue_payload \<Rightarrow> py_error + string \<times> held_record" where
  "payload_split br p = split_record br (given_text (ip_body p))"

definition payload_record :: "body_readers \<Rightarrow> issue_payload \<Rightarrow> py_error + issue_record" where
  "payload_record br p =
     (case payload_split br p of
        Inl e \<Rightarrow> Inl e
      | Inr (body, held) \<Rightarrow>
          Inr \<lparr>ir_id = ip_id p, ir_number = ip_number p, ir_title = ip_title p,
               ir_url = ip_html_url p, ir_body = body, ir_state = ip_state p,
               ir_state_reason = ip_state_reason p, ir_labels = ip_labels p,
               ir_milestone = ip_milestone p, ir_pull_request = ip_pull_request p,
               ir_author_association = ip_author_association p,
               ir_author_login = ip_author_login p, ir_created_at = ip_created_at p,
               ir_updated_at = ip_updated_at p, ir_closed_at = ip_closed_at p,
               ir_comments = ip_comments p, ir_sub_issues = ip_sub_issues p,
               ir_parent = payload_parent p, ir_blocked_by = ip_blocked_by p,
               ir_job_record = decode_job_record held\<rparr>)"

datatype issue_change_kind = Labeled | Unlabeled | Closed | Reopened

record issue_change =
  ch_kind :: issue_change_kind
  ch_number :: int
  ch_actor :: "string option"
  ch_at :: instant
  ch_label :: "string option"

definition change_kinds :: "(string \<times> issue_change_kind) list" where
  "change_kinds =
     [(''labeled'', Labeled), (''unlabeled'', Unlabeled), (''closed'', Closed), (''reopened'', Reopened)]"

definition event_change :: "event_payload \<Rightarrow> issue_change option" where
  "event_change ev =
     (case (map_of change_kinds (ep_event ev), ep_number ev) of
        (Some kind, Some n) \<Rightarrow>
          if ep_pull_request ev then None
          else Some \<lparr>ch_kind = kind, ch_number = n, ch_actor = ep_actor ev, ch_at = ep_created_at ev,
                     ch_label = ep_label ev\<rparr>
      | _ \<Rightarrow> None)"

definition issue_event_change :: "int \<Rightarrow> event_payload \<Rightarrow> issue_change option" where
  "issue_event_change n ev =
     (case map_of change_kinds (ep_event ev) of
        Some kind \<Rightarrow>
          if kind \<in> {Labeled, Unlabeled}
          then Some \<lparr>ch_kind = kind, ch_number = n, ch_actor = ep_actor ev, ch_at = ep_created_at ev,
                     ch_label = ep_label ev\<rparr>
          else None
      | None \<Rightarrow> None)"

definition payload_comment :: "comment_payload \<Rightarrow> issue_comment" where
  \<comment> \<open>\<open>cp_html_path\<close> is the parts of the path of the comment's page.\<close>
  "payload_comment c =
     \<lparr>ic_body = cp_body c, ic_created_at = cp_created_at c,
      ic_author_association = cp_author_association c, ic_author_login = cp_author_login c,
      ic_on_pull_request = (take 1 (drop 3 (cp_html_path c)) = [''pull''])\<rparr>"

section \<open>Requests\<close>

datatype store_call = Gh "string list" "json option" | Listing string

text \<open>
  The answer of a command is what the runner raised, or its exit code and its two outputs; that of a
  listing is its entries in
  order and, where the read of the pages failed, the error it ended with.
\<close>

record store_answer =
  sa_raises :: "gh_error option"
  sa_code :: int
  sa_stdout :: string
  sa_stderr :: string
  sa_entries :: "json list"
  sa_failure :: "gh_error option"

record store =
  st_all :: "(int, issue_record) dict option"
  st_written :: "(int \<times> item_field, string option) dict"

definition new_store :: store where
  "new_store = \<lparr>st_all = None, st_written = []\<rparr>"

type_synonym 'x store_prog = "(store_call, store_answer, store \<times> (roadmap_error + 'x)) prog"

definition upper_hex :: "nat \<Rightarrow> char" where
  "upper_hex n = char_of (if n < 10 then 48 + n else 55 + n)"

definition percent :: "nat \<Rightarrow> string" where
  "percent n = [CHR ''%'', upper_hex (n div 16), upper_hex (n mod 16)]"

definition quote_char :: "char \<Rightarrow> string" where
  \<comment> \<open>\<open>urllib.parse.quote\<close> of a character, no other character safe; one above 127 is two UTF-8 bytes.\<close>
  "quote_char c =
     (let n = of_char c :: nat in
      if is_word_char c \<or> c \<in> set ''.-~'' then [c]
      else if n < 128 then percent n
      else percent (192 + n div 64) @ percent (128 + n mod 64))"

definition segment :: "string \<Rightarrow> string" where
  "segment v = (if prefix ''<'' v \<and> suffix ''>'' v then v else concat (map quote_char v))"

definition issue_path :: "string \<Rightarrow> int \<Rightarrow> string" where
  "issue_path repo n = ''repos/'' @ repo @ ''/issues/'' @ int_text n"

definition issue_args :: "string \<Rightarrow> int \<Rightarrow> string list" where
  "issue_args repo n = [''api'', issue_path repo n]"

definition issue_edit_args :: "string \<Rightarrow> int \<Rightarrow> string list" where
  "issue_edit_args repo n = [''api'', ''-X'', ''PATCH'', issue_path repo n, ''--input'', ''-'']"

definition issue_edit :: "string list option \<Rightarrow> string option \<Rightarrow> string option \<Rightarrow> json" where
  "issue_edit labels body title =
     JObj ((case title of None \<Rightarrow> [] | Some t \<Rightarrow> [(''title'', JStr t)]) @
           (case labels of None \<Rightarrow> [] | Some ls \<Rightarrow> [(''labels'', JArr (map JStr ls))]) @
           (case body of None \<Rightarrow> [] | Some b \<Rightarrow> [(''body'', JStr b)]))"

definition issue_close :: "close_reason \<Rightarrow> json" where
  "issue_close reason = JObj [(''state'', JStr ''closed''), (''state_reason'', JStr (reason_text reason))]"

definition field_flags :: "(string \<times> string) list \<Rightarrow> string list" where
  "field_flags pairs = concat (map (\<lambda>(k, v). [''-f'', k @ ''='' @ v]) pairs)"

definition create_issue_args :: "string \<Rightarrow> string \<Rightarrow> string \<Rightarrow> string list \<Rightarrow> string list" where
  "create_issue_args repo title body labels =
     [''api'', ''-X'', ''POST'', ''repos/'' @ repo @ ''/issues''] @
     field_flags ([(''title'', title), (''body'', body)] @ map (\<lambda>l. (''labels[]'', l)) labels)"

definition comments_endpoint :: "string \<Rightarrow> int \<Rightarrow> string" where
  "comments_endpoint repo n = issue_path repo n @ ''/comments''"

definition comment_args :: "string \<Rightarrow> int \<Rightarrow> string \<Rightarrow> string list" where
  "comment_args repo n body = [''api'', ''-X'', ''POST'', comments_endpoint repo n, ''-f'', ''body='' @ body]"

definition label_args :: "string \<Rightarrow> int \<Rightarrow> string \<Rightarrow> string list" where
  "label_args repo n label =
     [''api'', ''-X'', ''POST'', issue_path repo n @ ''/labels'', ''-f'', ''labels[]='' @ label]"

definition unlabel_args :: "string \<Rightarrow> int \<Rightarrow> string \<Rightarrow> string list" where
  "unlabel_args repo n label =
     [''api'', ''-X'', ''DELETE'', issue_path repo n @ ''/labels/'' @ segment label]"

definition add_sub_issue_args :: "string \<Rightarrow> int \<Rightarrow> int \<Rightarrow> string list" where
  "add_sub_issue_args repo parent child_id =
     [''api'', ''-X'', ''POST'', issue_path repo parent @ ''/sub_issues'', ''-F'',
      ''sub_issue_id='' @ int_text child_id]"

definition issues_endpoint :: "string \<Rightarrow> string \<Rightarrow> string" where
  "issues_endpoint repo query = ''repos/'' @ repo @ ''/issues?'' @ query"

definition repository_issue_events_endpoint :: "string \<Rightarrow> string" where
  "repository_issue_events_endpoint repo = ''repos/'' @ repo @ ''/issues/events''"

definition blocked_by_endpoint :: "string \<Rightarrow> int \<Rightarrow> string" where
  "blocked_by_endpoint repo n = issue_path repo n @ ''/dependencies/blocked_by''"

definition issue_events_endpoint :: "string \<Rightarrow> int \<Rightarrow> string" where
  "issue_events_endpoint repo n = issue_path repo n @ ''/events''"

definition listing_path :: "string \<Rightarrow> string" where
  "listing_path endpoint =
     ''/'' @ endpoint @ (if CHR ''?'' \<in> set endpoint then ''&'' else ''?'') @ ''per_page=100''"

section \<open>Reads\<close>

definition store_failure :: "store_answer \<Rightarrow> roadmap_error" where
  "store_failure a =
     (case classify_gh_failure (sa_stderr a) (Some (sa_code a)) of
        Some g \<Rightarrow> GhRefused g
      | None \<Rightarrow> CommandFailed)"

definition store_run ::
  "string list \<Rightarrow> json option \<Rightarrow> (store_answer \<Rightarrow> roadmap_error + 'x) \<Rightarrow> store \<Rightarrow> 'x store_prog" where
  \<comment> \<open>\<open>_run(args, input)\<close> and what is read in the finished process.\<close>
  "store_run args stdin f s =
     Ask (Gh args stdin)
       (\<lambda>a. Done (s, case sa_raises a of Some g \<Rightarrow> Inl (GhRefused g) | None \<Rightarrow> f a))"

definition read_or_none ::
  "(string \<Rightarrow> 'p option) \<Rightarrow> string list \<Rightarrow> store \<Rightarrow> 'p option store_prog" where
  "read_or_none reader args s =
     store_run args None (\<lambda>a.
       if sa_code a = 0 then
         (case reader (sa_stdout a) of None \<Rightarrow> Inl MalformedAnswer | Some p \<Rightarrow> Inr (Some p))
       else if gh_http_status (sa_stderr a) = Some 404 then Inr None
       else Inl (store_failure a)) s"

definition read_issue :: "store_env \<Rightarrow> int \<Rightarrow> store \<Rightarrow> issue_payload option store_prog" where
  "read_issue e n s = read_or_none (se_issue e) (issue_args (se_repo e) n) s"

fun record_unread :: "py_error + 'x \<Rightarrow> roadmap_error + 'x" where
  "record_unread (Inl x) = Inl (RecordUnread x)"
| "record_unread (Inr y) = Inr y"

definition done_with :: "store \<Rightarrow> roadmap_error + 'x \<Rightarrow> 'x store_prog" where
  "done_with s r = Done (s, r)"

fun first_item :: "issue_record \<Rightarrow> item option" where
  "first_item r = (case select_items [r] of [] \<Rightarrow> None | i # _ \<Rightarrow> Some i)"

definition store_item :: "store_env \<Rightarrow> store \<Rightarrow> int \<Rightarrow> item option store_prog" where
  \<comment> \<open>\<open>item(number)\<close>\<close>
  "store_item e s n =
     and_then (read_issue e n s) (\<lambda>s found.
       case found of
         None \<Rightarrow> Done (s, Inr None)
       | Some p \<Rightarrow>
           (case payload_record (se_body e) p of
              Inl x \<Rightarrow> Done (s, Inl (RecordUnread x))
            | Inr r \<Rightarrow> Done (s, Inr (first_item r))))"

fun listed_entries ::
  "(json \<Rightarrow> 'p option) \<Rightarrow> ('p \<Rightarrow> bool) \<Rightarrow> gh_error option \<Rightarrow> json list \<Rightarrow> roadmap_error + 'p list" where
  "listed_entries reader ends failure [] =
     (case failure of Some g \<Rightarrow> Inl (GhRefused g) | None \<Rightarrow> Inr [])"
| "listed_entries reader ends failure (v # vs) =
     (case reader v of
        None \<Rightarrow> Inl MalformedAnswer
      | Some p \<Rightarrow>
          if ends p then Inr [p]
          else (case listed_entries reader ends failure vs of Inl x \<Rightarrow> Inl x | Inr ps \<Rightarrow> Inr (p # ps)))"

definition read_listing ::
  "(json \<Rightarrow> 'p option) \<Rightarrow> ('p \<Rightarrow> bool) \<Rightarrow> string \<Rightarrow> store \<Rightarrow> 'p list store_prog" where
  \<comment> \<open>\<open>_listing(endpoint, adapter, what, ends=...)\<close>\<close>
  "read_listing reader ends endpoint s =
     Ask (Listing (listing_path endpoint))
       (\<lambda>a. Done (s, listed_entries reader ends (sa_failure a) (sa_entries a)))"

definition never_ends :: "'p \<Rightarrow> bool" where
  "never_ends p = False"

definition read_issues :: "store_env \<Rightarrow> string \<Rightarrow> store \<Rightarrow> issue_record list store_prog" where
  "read_issues e query s =
     and_then (read_listing (se_issue_entry e) never_ends (issues_endpoint (se_repo e) query) s)
       (\<lambda>s ps. Done (s, record_unread (map_each (payload_record (se_body e)) ps)))"

definition by_number :: "issue_record list \<Rightarrow> (int, issue_record) dict" where
  \<comment> \<open>\<open>{issue.number: issue for issue in issues}\<close>\<close>
  "by_number issues = foldl (\<lambda>d i. dict_set (ir_number i) i d) [] issues"

definition every_issue :: "store_env \<Rightarrow> store \<Rightarrow> issue_record list store_prog" where
  "every_issue e s =
     (case st_all s of
        Some d \<Rightarrow> Done (s, Inr (map snd d))
      | None \<Rightarrow>
          and_then (read_issues e ''state=all'' s)
            (\<lambda>s issues. Done (s\<lparr>st_all := Some (by_number issues)\<rparr>, Inr (map snd (by_number issues)))))"

definition store_items :: "store_env \<Rightarrow> store \<Rightarrow> int option \<Rightarrow> item list store_prog" where
  "store_items e s milestone =
     (case milestone of
        None \<Rightarrow> and_then (every_issue e s) (\<lambda>s is. Done (s, Inr (select_items is)))
      | Some m \<Rightarrow>
          and_then (read_issues e (''milestone='' @ int_text m @ ''&state=all'') s)
            (\<lambda>s is. Done (s, Inr (select_items is))))"

definition store_backlog :: "store_env \<Rightarrow> store \<Rightarrow> item list store_prog" where
  "store_backlog e s =
     and_then (read_issues e ''milestone=none&state=open'' s) (\<lambda>s is. Done (s, Inr (select_items is)))"

definition store_open_items :: "store_env \<Rightarrow> store \<Rightarrow> item list store_prog" where
  "store_open_items e s =
     and_then (read_issues e ''state=open'' s) (\<lambda>s is. Done (s, Inr (select_items is)))"

definition store_candidates :: "store_env \<Rightarrow> store \<Rightarrow> candidate list store_prog" where
  "store_candidates e s = and_then (every_issue e s) (\<lambda>s is. Done (s, Inr (select_candidates is)))"

definition store_issues :: "store_env \<Rightarrow> store \<Rightarrow> issue_record list store_prog" where
  "store_issues e s =
     and_then (every_issue e s) (\<lambda>s is. Done (s, Inr (filter (\<lambda>i. \<not> ir_pull_request i) is)))"

definition comments_on :: "store_env \<Rightarrow> store \<Rightarrow> int \<Rightarrow> issue_comment list store_prog" where
  "comments_on e s n =
     and_then (read_listing (se_comment_entry e) never_ends (comments_endpoint (se_repo e) n) s)
       (\<lambda>s cs. Done (s, Inr (map payload_comment cs)))"

definition changes_since ::
  "store_env \<Rightarrow> store \<Rightarrow> instant \<Rightarrow> string option \<Rightarrow> issue_change list store_prog" where
  "changes_since e s cutoff except_actor =
     and_then
       (read_listing (se_event_entry e) (\<lambda>ev. ep_created_at ev < cutoff)
          (repository_issue_events_endpoint (se_repo e)) s)
       (\<lambda>s evs. Done (s, Inr
          (filter (\<lambda>c. cutoff \<le> ch_at c \<and> (falsy except_actor \<or> ch_actor c \<noteq> except_actor))
             (List.map_filter event_change (rev evs)))))"

definition label_changes :: "store_env \<Rightarrow> store \<Rightarrow> int \<Rightarrow> issue_change list store_prog" where
  "label_changes e s n =
     and_then (read_listing (se_event_entry e) never_ends (issue_events_endpoint (se_repo e) n) s)
       (\<lambda>s evs. Done (s, Inr (List.map_filter (issue_event_change n) evs)))"

definition blocked_by :: "store_env \<Rightarrow> store \<Rightarrow> int \<Rightarrow> int list store_prog" where
  "blocked_by e s n =
     and_then (read_listing (se_blocker_entry e) never_ends (blocked_by_endpoint (se_repo e) n) s)
       (\<lambda>s bs. Done (s, Inr (map bp_number
          (filter (\<lambda>b. case bp_repository_url b of
             None \<Rightarrow> True | Some u \<Rightarrow> suffix (''/repos/'' @ se_repo e) u) bs))))"

section \<open>Writes\<close>

definition require_issue :: "store_env \<Rightarrow> int \<Rightarrow> store \<Rightarrow> issue_payload store_prog" where
  "require_issue e n s =
     and_then (read_issue e n s) (\<lambda>s found.
       case found of
         None \<Rightarrow> Done (s, Inl NotAnIssue)
       | Some p \<Rightarrow> if ip_pull_request p then Done (s, Inl NotAnIssue) else Done (s, Inr p))"

definition kept_record :: "issue_record \<Rightarrow> store \<Rightarrow> store" where
  "kept_record r s = s\<lparr>st_all := map_option (dict_set (ir_number r) r) (st_all s)\<rparr>"

definition kept :: "store_env \<Rightarrow> store \<Rightarrow> issue_payload \<Rightarrow> issue_record store_prog" where
  "kept e s p =
     (case payload_record (se_body e) p of
        Inl x \<Rightarrow> Done (s, Inl (RecordUnread x))
      | Inr r \<Rightarrow> Done (kept_record r s, Inr r))"

definition store_write :: "string list \<Rightarrow> json option \<Rightarrow> store \<Rightarrow> string store_prog" where
  "store_write args stdin s =
     store_run args stdin (\<lambda>a. if sa_code a \<noteq> 0 then Inl (store_failure a) else Inr (sa_stdout a)) s"

definition validate_issue :: "store_env \<Rightarrow> store \<Rightarrow> string \<Rightarrow> issue_payload store_prog" where
  "validate_issue e s text =
     (case se_issue e text of None \<Rightarrow> Done (s, Inl MalformedAnswer) | Some p \<Rightarrow> Done (s, Inr p))"

definition send_edit :: "store_env \<Rightarrow> int \<Rightarrow> json \<Rightarrow> store \<Rightarrow> unit store_prog" where
  "send_edit e n stdin s =
     and_then (store_write (issue_edit_args (se_repo e) n) (Some stdin) s) (\<lambda>s text.
     and_then (validate_issue e s text) (\<lambda>s p.
     and_then (kept e s p) (\<lambda>s _. Done (s, Inr ()))))"

definition edit_issue ::
  "store_env \<Rightarrow> issue_payload \<Rightarrow> job_record \<Rightarrow> string list option \<Rightarrow> store \<Rightarrow> unit store_prog" where
  "edit_issue e p changes labels s =
     (case payload_split (se_body e) p of
        Inl x \<Rightarrow> Done (s, Inl (RecordUnread x))
      | Inr (body, held) \<Rightarrow>
          send_edit e (ip_number p)
            (issue_edit labels
               (Some (with_record body (Some (encode_job_record (se_body e) held changes)))) None) s)"

definition last_known :: "store \<Rightarrow> item \<Rightarrow> item_field \<Rightarrow> string option" where
  \<comment> \<open>\<open>self._written.get((item.number, field), item.field_value(field))\<close>\<close>
  "last_known s i f =
     (case dict_get (st_written s) (it_number i, f) of Some v \<Rightarrow> v | None \<Rightarrow> field_value i f)"

definition record_changes :: "item_field \<Rightarrow> string option \<Rightarrow> job_record \<Rightarrow> job_record" where
  \<comment> \<open>\<open>{field: value, **marks}\<close>\<close>
  "record_changes f v marks = foldl (\<lambda>d (k, x). dict_set k x d) [(field_text f, v)] marks"

definition set_field ::
  "store_env \<Rightarrow> store \<Rightarrow> item \<Rightarrow> item_field \<Rightarrow> string option \<Rightarrow> job_record \<Rightarrow> unit store_prog" where
  "set_field e s i f v marks =
     (case require_value f v of
        Some x \<Rightarrow> Done (s, Inl x)
      | None \<Rightarrow>
          and_then (require_issue e (it_number i) s) (\<lambda>s p.
            case payload_record (se_body e) p of
              Inl x \<Rightarrow> Done (s, Inl (RecordUnread x))
            | Inr r \<Rightarrow>
                (case require_unchanged (last_known s i f) (field_value (item_of r) f) v of
                   Some x \<Rightarrow> Done (s, Inl x)
                 | None \<Rightarrow>
                     and_then
                       (edit_issue e p (record_changes f v marks) (Some (relabeled (ip_labels p) f v)) s)
                       (\<lambda>s _. Done (s\<lparr>st_written := dict_set (it_number i, f) v (st_written s)\<rparr>,
                                   Inr ())))))"

definition set_marks :: "store_env \<Rightarrow> store \<Rightarrow> item \<Rightarrow> job_record \<Rightarrow> unit store_prog" where
  "set_marks e s i marks =
     and_then (require_issue e (it_number i) s) (\<lambda>s p. edit_issue e p marks None s)"

definition create_issue ::
  "store_env \<Rightarrow> store \<Rightarrow> string \<Rightarrow> string \<Rightarrow> string list \<Rightarrow> issue_record store_prog" where
  "create_issue e s title body labels =
     and_then (store_write (create_issue_args (se_repo e) title body labels) None s) (\<lambda>s text.
     and_then (validate_issue e s text) (\<lambda>s p. kept e s p))"

definition held_issue :: "store \<Rightarrow> int \<Rightarrow> issue_record option" where
  "held_issue s n = (case st_all s of None \<Rightarrow> None | Some d \<Rightarrow> dict_get d n)"

definition update_held :: "int \<Rightarrow> (issue_record \<Rightarrow> issue_record) \<Rightarrow> store \<Rightarrow> store" where
  "update_held n f s =
     (case held_issue s n of
        None \<Rightarrow> s
      | Some r \<Rightarrow> s\<lparr>st_all := map_option (dict_set n (f r)) (st_all s)\<rparr>)"

definition add_sub_issue :: "store_env \<Rightarrow> store \<Rightarrow> int \<Rightarrow> int \<Rightarrow> unit store_prog" where
  "add_sub_issue e s parent child =
     and_then
       (if held_issue s parent = None
        then and_then (require_issue e parent s) (\<lambda>s _. Done (s, Inr ()))
        else Done (s, Inr ())) (\<lambda>s _.
     and_then
       (case held_issue s child of
          Some r \<Rightarrow> if ir_id r \<noteq> 0 then Done (s, Inr (ir_id r))
                    else and_then (require_issue e child s) (\<lambda>s p. Done (s, Inr (ip_id p)))
        | None \<Rightarrow> and_then (require_issue e child s) (\<lambda>s p. Done (s, Inr (ip_id p)))) (\<lambda>s child_id.
     and_then (store_write (add_sub_issue_args (se_repo e) parent child_id) None s) (\<lambda>s _.
       Done (update_held child (ir_parent_update (\<lambda>_. Some parent))
               (update_held parent (ir_sub_issues_update (\<lambda>n. n + 1)) s), Inr ()))))"

definition read_issue_body :: "store_env \<Rightarrow> store \<Rightarrow> int \<Rightarrow> string store_prog" where
  "read_issue_body e s n =
     and_then (require_issue e n s) (\<lambda>s p.
       Done (s, record_unread (case payload_split (se_body e) p of Inl x \<Rightarrow> Inl x | Inr (b, _) \<Rightarrow> Inr b)))"

definition write_issue_body :: "store_env \<Rightarrow> store \<Rightarrow> int \<Rightarrow> string \<Rightarrow> unit store_prog" where
  "write_issue_body e s n body =
     and_then (require_issue e n s) (\<lambda>s p.
       case payload_split (se_body e) p of
         Inl x \<Rightarrow> Done (s, Inl (RecordUnread x))
       | Inr (_, held) \<Rightarrow>
           (let block = (if held = [] then None else Some (encode_job_record (se_body e) held []))
            in send_edit e n (issue_edit None (Some (with_record body block)) None) s))"

definition store_comment :: "store_env \<Rightarrow> store \<Rightarrow> int \<Rightarrow> string \<Rightarrow> unit store_prog" where
  "store_comment e s n body =
     and_then (store_write (comment_args (se_repo e) n body) None s) (\<lambda>s _. Done (s, Inr ()))"

fun is_github_error :: "gh_error \<Rightarrow> bool" where
  \<comment> \<open>An instance of \<open>GitHubOperationError\<close>; \<open>GateError\<close> is the stop of the Service.\<close>
  "is_github_error (PyError _) = False"
| "is_github_error GateError = False"
| "is_github_error (CalledProcessError _) = False"
| "is_github_error TimeoutExpired = False"
| "is_github_error _ = True"

fun is_operation_error :: "roadmap_error \<Rightarrow> bool" where
  "is_operation_error (GhRefused g) = is_github_error g"
| "is_operation_error (ClaimRefused _) = False"
| "is_operation_error ClusterFailed = False"
| "is_operation_error GitFailed = False"
| "is_operation_error (RecordUnread _) = False"
| "is_operation_error _ = True"

definition store_close ::
  "store_env \<Rightarrow> store \<Rightarrow> int \<Rightarrow> close_reason \<Rightarrow> string option \<Rightarrow> unit store_prog" where
  "store_close e s n reason note =
     and_then (require_issue e n s) (\<lambda>s p.
       if ip_state p = StateClosed then Done (s, Inl AlreadyClosed)
       else case note of
           None \<Rightarrow> send_edit e n (issue_close reason) s
         | Some c \<Rightarrow>
             and_then (store_comment e s n c) (\<lambda>s _.
               bind_prog (send_edit e n (issue_close reason) s) (\<lambda>(s, r). Done (s,
                 case r of
                   Inr u \<Rightarrow> Inr u
                 | Inl x \<Rightarrow> Inl (if is_operation_error x then StillOpen else x)))))"

definition set_title :: "store_env \<Rightarrow> store \<Rightarrow> int \<Rightarrow> string \<Rightarrow> unit store_prog" where
  "set_title e s n title =
     and_then (require_issue e n s) (\<lambda>s _. send_edit e n (issue_edit None None (Some title)) s)"

definition label_issue :: "store_env \<Rightarrow> store \<Rightarrow> int \<Rightarrow> string \<Rightarrow> unit store_prog" where
  "label_issue e s n label =
     and_then (store_write (label_args (se_repo e) n label) None s) (\<lambda>s _.
       Done (case held_issue s n of
               Some r \<Rightarrow> if label \<notin> set (ir_labels r)
                         then update_held n (ir_labels_update (\<lambda>ls. ls @ [label])) s else s
             | None \<Rightarrow> s, Inr ()))"

definition unlabel_issue :: "store_env \<Rightarrow> store \<Rightarrow> int \<Rightarrow> string \<Rightarrow> unit store_prog" where
  "unlabel_issue e s n label =
     and_then (store_write (unlabel_args (se_repo e) n label) None s) (\<lambda>s _.
       Done (update_held n (ir_labels_update (filter (\<lambda>l. l \<noteq> label))) s, Inr ()))"

end
