(* ===== verification/StoreLaws.thy ===== *)
theory StoreLaws
  imports Items Requests
begin

text \<open>
  The interface that the roadmap jobs read and write Items through, \<open>RoadmapStore\<close> of
  \<^verbatim>\<open>src/devops_cli/roadmap/stores/store.py\<close>: the operations as a record, and what they promise as a
  locale. The promises are of requests: which of them replace a label family, on which read, and
  what the store remembers of its own writes. The clients are proved from them alone.
\<close>

record ('s, 'q, 'a) store_ops =
  so_item :: "'s \<Rightarrow> int \<Rightarrow> ('q, 'a, 's \<times> (roadmap_error + item option)) prog"
  so_items :: "'s \<Rightarrow> ('q, 'a, 's \<times> (roadmap_error + item list)) prog"
  so_set_field ::
    "'s \<Rightarrow> item \<Rightarrow> item_field \<Rightarrow> string option \<Rightarrow> job_record \<Rightarrow> ('q, 'a, 's \<times> (roadmap_error + unit)) prog"
  so_set_marks :: "'s \<Rightarrow> item \<Rightarrow> job_record \<Rightarrow> ('q, 'a, 's \<times> (roadmap_error + unit)) prog"
  so_comments_on :: "'s \<Rightarrow> int \<Rightarrow> ('q, 'a, 's \<times> (roadmap_error + issue_comment list)) prog"
  so_comment :: "'s \<Rightarrow> int \<Rightarrow> string \<Rightarrow> ('q, 'a, 's \<times> (roadmap_error + unit)) prog"

text \<open>
  A run that ends with a write of labels \<open>q\<close> that was decided on the read just before it: the answer
  to that read shows the item \<open>j\<close>, \<open>q\<close> puts the value \<open>v\<close> in place of its family of \<open>f\<close>, and no
  request before \<open>q\<close> replaced labels.
\<close>

definition decided_write ::
  "('q \<Rightarrow> bool) \<Rightarrow> ('a \<Rightarrow> item option) \<Rightarrow> ('a \<Rightarrow> 'q \<Rightarrow> item_field \<Rightarrow> string option \<Rightarrow> bool) \<Rightarrow>
   ('q, 'a) trace \<Rightarrow> 'q \<Rightarrow> 'a \<Rightarrow> item \<Rightarrow> item_field \<Rightarrow> string option \<Rightarrow> bool" where
  "decided_write relabels shown puts t q a j f v =
     (\<exists>t0 q0 a0. t = t0 @ [(q0, a0), (q, a)] \<and> (\<forall>(q', a') \<in> set (t0 @ [(q0, a0)]). \<not> relabels q') \<and>
        shown a0 = Some j \<and> puts a0 q f v)"

text \<open>
  \<open>shown a\<close> is the item that the answer \<open>a\<close> to a read shows, \<open>relabels q\<close> says that the request \<open>q\<close>
  replaces the labels of an issue, \<open>puts a q f v\<close> that \<open>q\<close>, sent on the answer \<open>a\<close>, replaces the
  family of \<open>f\<close> by the label of \<open>v\<close> and keeps the other labels of \<open>a\<close>, and \<open>known s i f\<close> is the value
  of \<open>f\<close> that the store takes as read: what it last wrote, else what \<open>i\<close> was read with.
\<close>

locale roadmap_store =
  fixes ops :: "('s, 'q, 'a) store_ops"
    and relabels :: "'q \<Rightarrow> bool"
    and shown :: "'a \<Rightarrow> item option"
    and puts :: "'a \<Rightarrow> 'q \<Rightarrow> item_field \<Rightarrow> string option \<Rightarrow> bool"
    and known :: "'s \<Rightarrow> item \<Rightarrow> item_field \<Rightarrow> string option"
  assumes item_reads:
      "runs (so_item ops s n) t (s', r) \<Longrightarrow> known s' = known s \<and> (\<forall>(q, a) \<in> set t. \<not> relabels q)"
    and item_shown:
      "runs (so_item ops s n) t (s', Inr (Some i)) \<Longrightarrow> \<exists>q a. t = [(q, a)] \<and> shown a = Some i"
    and items_read:
      "runs (so_items ops s) t (s', r') \<Longrightarrow> known s' = known s \<and> (\<forall>(q, a) \<in> set t. \<not> relabels q)"
    and comments_read:
      "runs (so_comments_on ops s n) t (s', r'') \<Longrightarrow>
         known s' = known s \<and> (\<forall>(q, a) \<in> set t. \<not> relabels q)"
    and comment_keeps:
      "runs (so_comment ops s n x) t (s', u) \<Longrightarrow> known s' = known s \<and> (\<forall>(q, a) \<in> set t. \<not> relabels q)"
    and marks_keep:
      "runs (so_set_marks ops s i m) t (s', u) \<Longrightarrow> known s' = known s \<and> (\<forall>(q, a) \<in> set t. \<not> relabels q)"
    and field_write:
      "runs (so_set_field ops s i f v m) t (s', u) \<Longrightarrow> (q, a) \<in> set t \<Longrightarrow> relabels q \<Longrightarrow>
         \<exists>q0 a0 j. t = [(q0, a0), (q, a)] \<and> \<not> relabels q0 \<and> shown a0 = Some j \<and> puts a0 q f v \<and>
           (field_value j f = known s i f \<or> field_value j f = v)"
    and field_written:
      "runs (so_set_field ops s i f v m) t (s', Inr ()) \<Longrightarrow> \<exists>q a. (q, a) \<in> set t \<and> relabels q"
    and field_unwritten:
      "runs (so_set_field ops s i f v m) t (s', Inl ItemChanged) \<Longrightarrow> \<forall>(q, a) \<in> set t. \<not> relabels q"
    and field_known:
      "runs (so_set_field ops s i f v m) t (s', u) \<Longrightarrow>
         known s' = known s \<or>
         known s' = (\<lambda>k g. if it_number k = it_number i \<and> g = f then v else known s k g)"
begin

abbreviation decided :: "('q, 'a) trace \<Rightarrow> 'q \<Rightarrow> 'a \<Rightarrow> item \<Rightarrow> item_field \<Rightarrow> string option \<Rightarrow> bool" where
  "decided \<equiv> decided_write relabels shown puts"

lemma no_relabel: "\<forall>(q, a) \<in> set t. \<not> relabels q \<Longrightarrow> (q, a) \<in> set t \<Longrightarrow> \<not> relabels q"
  by blast

lemma field_write_decided:
  assumes "runs (so_set_field ops s i f v m) t (s', u)" and "(q, a) \<in> set (t0 @ t)" and "relabels q"
    and "\<forall>(q, a) \<in> set t0. \<not> relabels q"
  shows "\<exists>j. decided (t0 @ t) q a j f v \<and> (field_value j f = known s i f \<or> field_value j f = v)"
proof -
  have "(q, a) \<in> set t" using assms(2-4) by auto
  then obtain q0 a0 j where "t = [(q0, a0), (q, a)]" "\<not> relabels q0" "shown a0 = Some j" "puts a0 q f v"
      "field_value j f = known s i f \<or> field_value j f = v"
    using field_write[OF assms(1) _ assms(3)] by blast
  then show ?thesis
    using assms(4) unfolding decided_write_def by (intro exI[of _ j] conjI exI[of _ t0]) auto
qed

end

end
