(* ===== verification/StoreProps.thy ===== *)
theory StoreProps
  imports Store StoreLaws
begin

text \<open>
  What the store promises: replacing a label family sets its field and no other, a record block
  written into a body reads back with the body, and a write of a field is sent only on a read that
  shows what the store last knew, or the value it writes.
\<close>

section \<open>Label families\<close>

lemma other_family:
  "\<forall>f g. f \<noteq> g \<longrightarrow> (\<forall>v \<in> set (values_of_field g). \<not> prefix (family_prefix f) (field_label g v))"
  by code_simp

lemma label_is_lower: "\<forall>f. \<forall>v \<in> set (values_of_field f). lower (field_label f v) = field_label f v"
  by code_simp

lemma labels_distinct: "\<forall>f. distinct (map (field_label f) (values_of_field f))"
  by code_simp

lemma values_distinct: "\<forall>f. distinct (values_of_field f)"
  by code_simp

lemma filter_one: "distinct xs \<Longrightarrow> x \<in> set xs \<Longrightarrow> filter (\<lambda>w. w = x) xs = [x]"
  by (induction xs) (auto simp: filter_empty_conv)

lemma own_family: "prefix (family_prefix f) (field_label f v)"
  by (simp add: field_label_def)

lemma require_value_None:
  "require_value f v = None \<longleftrightarrow> (case v of None \<Rightarrow> True | Some x \<Rightarrow> x \<in> set (values_of_field f))"
  by (auto simp: require_value_def split: option.splits)

lemma held_other:
  assumes "require_value f v = None" and "g \<noteq> f"
  shows "held_values (relabeled labels f v) g = held_values labels g"
proof -
  have "field_label g w \<in> lower ` set (relabeled labels f v) \<longleftrightarrow> field_label g w \<in> lower ` set labels"
    if "w \<in> set (values_of_field g)" for w
  proof -
    have no: "\<not> prefix (family_prefix f) (field_label g w)" using other_family assms(2) that by metis
    have "field_label g w \<noteq> lower (field_label f x)" if "v = Some x" for x
      using assms(1) that label_is_lower own_family[of f x] no by (auto simp: require_value_None)
    then show ?thesis using no by (auto simp: relabeled_def Let_def split: option.splits)
  qed
  then show ?thesis unfolding held_values_def by (intro filter_cong) auto
qed

lemma held_own:
  assumes "require_value f v = None"
  shows "held_values (relabeled labels f v) f = (case v of None \<Rightarrow> [] | Some x \<Rightarrow> [x])"
proof -
  have no: "field_label f w \<notin> lower ` {l \<in> set labels. \<not> prefix (family_prefix f) (lower l)}" for w
    using own_family[of f w] by auto
  show ?thesis
  proof (cases v)
    case None
    then show ?thesis using no by (simp add: held_values_def relabeled_def Let_def filter_empty_conv)
  next
    case (Some x)
    then have x: "x \<in> set (values_of_field f)" using assms by (simp add: require_value_None)
    have "held_values (relabeled labels f v) f = filter (\<lambda>w. w = x) (values_of_field f)"
      unfolding held_values_def
    proof (rule filter_cong)
      fix w assume "w \<in> set (values_of_field f)"
      then have "field_label f w = lower (field_label f x) \<longleftrightarrow> w = x"
        using x label_is_lower labels_distinct by (metis distinct_map inj_on_eq_iff)
      then show "(field_label f w \<in> set (map lower (relabeled labels f v))) = (w = x)"
        using no[of w] Some by (auto simp: relabeled_def Let_def)
    qed simp
    moreover have "filter (\<lambda>w. w = x) (values_of_field f) = [x]"
      using x values_distinct by (simp add: filter_one)
    ultimately show ?thesis using Some by simp
  qed
qed

text \<open>
  C26: Replacing a label family sets one field. After \<open>relabeled\<close> the labels give the field the value
  that was set, or none, whatever the job record names and however many labels of the family the
  issue held, in whatever letter case; and every other field keeps the value it had.
\<close>

theorem relabeling_sets_one_field:
  assumes "require_value f v = None"
  shows "value_of_family (relabeled labels f v) r g = (if g = f then v else value_of_family labels r g)"
  using assms held_other[OF assms] held_own[OF assms]
  by (auto simp: value_of_family_def Let_def split: option.splits)

theorem relabeling_sets_one_field_witness:
  "value_of_family (relabeled [''owner/human'', ''Status/New''] Owner (Some ''Service'')) [] Owner = Some ''Service''"
proof -
  have "require_value Owner (Some ''Service'') = None" by code_simp
  from relabeling_sets_one_field[OF this] show ?thesis by simp
qed

section \<open>The record block\<close>

lemma break_ends_append:
  "break_ends p (u @ CHR 10 # w) = break_ends p (u @ [CHR 10]) @ break_ends (p + length u + 1) w"
proof (induction p u rule: break_ends.induct)
  case (2 p c s)
  then show ?case by (cases s) (auto split: if_splits)
qed simp

lemma last_break_end: "break_ends p (u @ [CHR 10]) \<noteq> [] \<and> last (break_ends p (u @ [CHR 10])) = p + length u + 1"
proof (induction p u rule: break_ends.induct)
  case (2 p c s)
  then show ?case by (cases s) auto
qed simp

lemma line_start:
  assumes "first = length (break_ends 0 (u @ [CHR 10]))"
  shows "(0 # break_ends 0 (u @ CHR 10 # w)) ! first = length u + 1"
    and "first < length (0 # break_ends 0 (u @ CHR 10 # w))"
proof -
  define b where "b = break_ends 0 (u @ [CHR 10])"
  have b: "b \<noteq> []" "last b = length u + 1" "first = length b"
    using last_break_end[of 0 u] assms by (auto simp: b_def)
  obtain r where r: "break_ends 0 (u @ CHR 10 # w) = b @ r"
    using break_ends_append[of 0 u w] b_def by blast
  show "(0 # break_ends 0 (u @ CHR 10 # w)) ! first = length u + 1"
    unfolding r using b by (cases b rule: rev_cases) (simp_all add: nth_append)
  show "first < length (0 # break_ends 0 (u @ CHR 10 # w))" unfolding r using b(3) by simp
qed

lemma strip_block:
  assumes "x \<noteq> []" "\<not> is_space (hd x)" "\<not> is_space (last x)"
  shows "strip x = x"
proof -
  have "dropWhile is_space x = x" "dropWhile is_space (rev x) = rev x"
    using assms by (simp_all add: dropWhile_eq_self_iff hd_rev)
  then show ?thesis by (simp add: strip_def lstrip_def rstrip_def)
qed

lemma record_text_encode:
  "record_text (record_open @ t @ record_close) = Some t"
  by (auto simp: record_text_def record_open_def record_close_def suffix_def)

lemma without_separator_added: "without_separator (body @ [CHR 10, CHR 10]) = body"
proof -
  have "\<not> suffix [CHR 13, CHR 10, CHR 13, CHR 10] (body @ [CHR 10, CHR 10])"
    by (auto simp: suffix_def append_eq_append_conv2 Cons_eq_append_conv append_eq_Cons_conv)
  moreover have "suffix [CHR 10, CHR 10] (body @ [CHR 10, CHR 10])" by (auto simp: suffix_def)
  ultimately show ?thesis by (simp add: without_separator_def record_separators_def)
qed

lemma encoded_block_strips:
  "strip (encode_job_record br held changes) = encode_job_record br held changes"
  by (rule strip_block) (simp_all add: encode_job_record_def record_open_def record_close_def is_space_def)

lemma dict_get_sorted: "dict_get (sort_key fst d) k = dict_get d k"
proof -
  have first: "dict_get e k = (case filter (\<lambda>p. fst p = k) e of [] \<Rightarrow> None | p # _ \<Rightarrow> Some (snd p))" for e
    by (induction e) auto
  show ?thesis unfolding first [of d] first [of "sort_key fst d"] by (simp add: sort_key_stable)
qed

lemma dict_get_map_prod: "dict_get (map (map_prod id g) d) k = map_option g (dict_get d k)"
  by (induction d) auto

lemma dict_get_changed:
  "distinct (map fst changes) \<Longrightarrow> dict_get (with_changes held changes) k =
     (case dict_get changes k of Some v \<Rightarrow> Some (opt_json JStr v) | None \<Rightarrow> dict_get held k)"
proof (induction changes arbitrary: held)
  case (Cons c changes)
  obtain k' v where c: "c = (k', v)" by fastforce
  have "with_changes held (c # changes) = with_changes (dict_set k' (opt_json JStr v) held) changes"
    by (simp add: with_changes_def c)
  moreover have "dict_get changes k' = None" using Cons.prems by (simp add: c map_of_eq_None_iff)
  ultimately show ?case using Cons c by (auto split: option.splits)
qed (simp add: with_changes_def)

lemma sorted_text [simp]: "sorted_keys (opt_json JStr v) = opt_json JStr v"
  by (cases v) simp_all

definition record_object :: "held_record \<Rightarrow> job_record \<Rightarrow> held_record" where
  \<comment> \<open>The object that a record block's text lists, by its keys.\<close>
  "record_object held changes = sort_key fst (map (map_prod id sorted_keys) (with_changes held changes))"

lemma dict_get_record_object:
  "distinct (map fst changes) \<Longrightarrow> dict_get (record_object held changes) k =
     (case dict_get changes k of Some v \<Rightarrow> Some (opt_json JStr v) | None \<Rightarrow> map_option sorted_keys (dict_get held k))"
  by (simp add: record_object_def dict_get_sorted dict_get_map_prod dict_get_changed split: option.splits)

text \<open>
  C27: A body and its job record read back as they were written. When the Markdown parser sees the
  block that \<open>with_record\<close> appends as the last block of the body, a comment from the line it is
  written on to the end, and the JSON reader gives back the object that the writer wrote, whose keys
  are sorted, with each \<open>>\<close> escaped, then splitting the body gives the body that was written, with no
  separator left, and an object that holds each changed key with its new value and every other key
  as it was held, but for the order of the keys; this for any body, empty ones and those with any
  line ends included.
\<close>

theorem record_block_roundtrip:
  assumes "block = encode_job_record br held changes" and "distinct (map fst changes)"
    and "br_loads br (escape_gt (br_dumps br (JObj (record_object held changes))))
           = Some (JObj (record_object held changes))"
    and "find (\<lambda>t. tk_level t = 0) (rev (br_tokens br (with_record body (Some block)))) = Some tok"
    and "tk_type tok = ''html_block''" and "tk_lines tok = Some (first, after)"
    and "first = (if body = [] then 0 else length (break_ends 0 (body @ [CHR 10, CHR 10])))"
    and "length (break_ends 0 (with_record body (Some block))) < after"
  shows "\<exists>kept. split_record br (with_record body (Some block)) = Inr (body, kept) \<and>
    (\<forall>k. dict_get kept k =
       (case dict_get changes k of
          Some v \<Rightarrow> Some (opt_json JStr v)
        | None \<Rightarrow> map_option sorted_keys (dict_get held k)))"
proof -
  define full where "full = with_record body (Some block)"
  define start where "start = (if body = [] then 0 else length body + 2)"
  have full: "full = take start full @ block" "drop start full = block"
      "take start full = (if body = [] then [] else body @ [CHR 10, CHR 10])"
    by (simp_all add: full_def start_def with_record_def)
  have "(0 # break_ends 0 full) ! first = start \<and> first < length (0 # break_ends 0 full)"
    using line_start[of first "body @ [CHR 10]" block] assms(7)
    by (auto simp: full_def start_def with_record_def)
  then have span: "record_block_span br full = Inr (Some (start, length full))"
    using assms(4-6,8) by (auto simp: record_block_span_def Let_def full_def)
  have "take (length full - start) (drop start full) = block"
    using full(2) by (metis length_drop order_refl take_all)
  moreover have "strip block = block" unfolding assms(1) by (rule encoded_block_strips)
  moreover have "sorted_keys (JObj (with_changes held changes)) = JObj (record_object held changes)"
    by (simp add: record_object_def)
  ultimately have "record_text (strip (take (length full - start) (drop start full)))
      = Some (escape_gt (br_dumps br (JObj (record_object held changes))))"
    by (simp only: assms(1) encode_job_record_def record_text_encode)
  moreover have "without_separator (take start full) = body"
    by (cases "body = []") (simp_all only: full(3) if_True if_False without_separator_added,
      simp add: without_separator_def record_separators_def)
  ultimately have "split_record br full = Inr (body, record_object held changes)"
    using span assms(3) by (simp add: split_record_def)
  then show ?thesis using dict_get_record_object[OF assms(2)] by (auto simp: full_def)
qed

text \<open>A codec for flat objects of texts and nulls, as \<open>json\<close> writes and reads them.\<close>

definition sample_text :: "string \<Rightarrow> string" where
  "sample_text s = [CHR 34] @ concat (map (\<lambda>c. if c \<in> {CHR 34, CHR 92} then [CHR 92, c] else [c]) s) @ [CHR 34]"

fun sample_members :: "held_record \<Rightarrow> string" where
  "sample_members [] = []"
| "sample_members ((k, v) # kvs) =
     sample_text k @ '': '' @ (case v of JStr s \<Rightarrow> sample_text s | _ \<Rightarrow> ''null'') @
     (if kvs = [] then [] else '', '' @ sample_members kvs)"

definition sample_dumps :: "json \<Rightarrow> string" where
  "sample_dumps v = (case v of JObj kvs \<Rightarrow> ''{'' @ sample_members kvs @ ''}'' | _ \<Rightarrow> ''null'')"

fun read_quoted :: "string \<Rightarrow> string \<times> string" where
  "read_quoted [] = ([], [])"
| "read_quoted (c # s) =
     (if c = CHR 34 then ([], s)
      else if c = CHR 92 then
        (if take 5 s = ''u003e'' then apfst ((#) (CHR ''>'')) (read_quoted (drop 5 s))
         else apfst (append (take 1 s)) (read_quoted (drop 1 s)))
      else apfst ((#) c) (read_quoted s))"

fun read_members :: "nat \<Rightarrow> string \<Rightarrow> held_record" where
  "read_members 0 s = []"
| "read_members (Suc n) s =
     (let (k, s1) = read_quoted (drop 1 s);
          s2 = drop 2 s1;
          (v, s3) = (if take 1 s2 = [CHR 34] then apfst JStr (read_quoted (drop 1 s2)) else (JNull, drop 4 s2))
      in (k, v) # (if take 2 s3 = '', '' then read_members n (drop 2 s3) else []))"

definition sample_loads :: "string \<Rightarrow> json option" where
  "sample_loads s =
     (if take 2 s = ''{}'' then Some (JObj [])
      else if take 1 s = ''{'' then Some (JObj (read_members (length s) (drop 1 s)))
      else None)"

definition sample_body_readers :: body_readers where
  "sample_body_readers =
     \<lparr>br_tokens = (\<lambda>_. [\<lparr>tk_level = 0, tk_type = ''paragraph_open'', tk_lines = Some (0, 2)\<rparr>,
        \<lparr>tk_level = 0, tk_type = ''html_block'', tk_lines = Some (3, 4)\<rparr>]),
      br_loads = sample_loads, br_dumps = sample_dumps\<rparr>"

definition sample_record :: held_record where
  "sample_record = [(''other'', JStr (''a-->'' @ [CHR 34])), (''Owner'', JStr ''Human''), (''Effort'', JNull)]"

definition sample_changes :: job_record where
  "sample_changes = [(''Status'', Some ''Ready''), (''Owner'', None)]"

definition sample_body :: string where
  "sample_body = ''One'' @ [CHR 13, CHR 10] @ ''two''"

lemma sample_block:
  "distinct (map fst sample_changes)"
  "br_loads sample_body_readers (escape_gt (br_dumps sample_body_readers (JObj (record_object sample_record sample_changes))))
   = Some (JObj (record_object sample_record sample_changes))"
  "length (break_ends 0 (with_record sample_body (Some (encode_job_record sample_body_readers sample_record
     sample_changes)))) < 4"
  "3 = (if sample_body = [] then 0 else length (break_ends 0 (sample_body @ [CHR 10, CHR 10])))"
  by code_simp+

theorem record_block_roundtrip_witness:
  "\<exists>kept. split_record sample_body_readers
     (with_record sample_body (Some (encode_job_record sample_body_readers sample_record sample_changes)))
     = Inr (sample_body, kept) \<and>
   dict_get kept ''Status'' = Some (JStr ''Ready'') \<and> dict_get kept ''Owner'' = Some JNull \<and>
   dict_get kept ''other'' = Some (JStr (''a-->'' @ [CHR 34]))"
proof -
  have "find (\<lambda>t. tk_level t = 0) (rev (br_tokens sample_body_readers
      (with_record sample_body (Some (encode_job_record sample_body_readers sample_record sample_changes)))))
    = Some \<lparr>tk_level = 0, tk_type = ''html_block'', tk_lines = Some (3, 4)\<rparr>"
    by (simp add: sample_body_readers_def)
  from record_block_roundtrip[OF refl sample_block(1,2) this _ _ sample_block(4,3)] show ?thesis
    by (auto simp: sample_changes_def sample_record_def)
qed

section \<open>What the methods send\<close>

lemma runs_read_or_none:
  "runs (read_or_none reader args s) t (s', r) \<longleftrightarrow>
     s' = s \<and> (\<exists>a. t = [(Gh args None, a)] \<and>
       r = (case sa_raises a of Some g \<Rightarrow> Inl (GhRefused g) | None \<Rightarrow>
            if sa_code a = 0 then
              (case reader (sa_stdout a) of None \<Rightarrow> Inl MalformedAnswer | Some p \<Rightarrow> Inr (Some p))
            else if gh_http_status (sa_stderr a) = Some 404 then Inr None
            else Inl (store_failure a)))"
  by (auto simp: read_or_none_def store_run_def runs_Ask_iff)

lemma runs_require_issue:
  "runs (require_issue e n s) t (s', r) \<Longrightarrow>
     s' = s \<and> (\<exists>a. t = [(Gh (issue_args (se_repo e) n) None, a)] \<and>
       (\<forall>p. r = Inr p \<longrightarrow> sa_code a = 0 \<and> se_issue e (sa_stdout a) = Some p \<and> \<not> ip_pull_request p))"
  by (auto simp: require_issue_def read_issue_def runs_and_then runs_read_or_none
      split: option.splits if_splits)

lemma runs_store_write:
  "runs (store_write args stdin s) t (s', r) \<Longrightarrow> s' = s \<and> (\<exists>a. t = [(Gh args stdin, a)])"
  by (auto simp: store_write_def store_run_def runs_Ask_iff)

lemma runs_validate_issue: "runs (validate_issue e s text) t (s', r) \<Longrightarrow> s' = s \<and> t = []"
  by (auto simp: validate_issue_def split: option.splits)

lemma runs_kept: "runs (kept e s p) t (s', r) \<Longrightarrow> st_written s' = st_written s \<and> t = []"
  by (auto simp: kept_def kept_record_def split: sum.splits)

lemma runs_send_edit:
  assumes "runs (send_edit e n stdin s) t (s', r)"
  shows "st_written s' = st_written s \<and> (\<exists>a. t = [(Gh (issue_edit_args (se_repo e) n) (Some stdin), a)])"
  using assms unfolding send_edit_def runs_and_then runs_Done_iff
  by (elim disjE exE conjE) (auto dest!: runs_store_write runs_validate_issue runs_kept)

text \<open>The item that the answer to a read of an issue shows.\<close>

definition shown_item :: "store_env \<Rightarrow> store_answer \<Rightarrow> item option" where
  "shown_item e a =
     (case se_issue e (sa_stdout a) of
        None \<Rightarrow> None
      | Some p \<Rightarrow> (case payload_record (se_body e) p of Inl _ \<Rightarrow> None | Inr r \<Rightarrow> Some (item_of r)))"

text \<open>\<open>q\<close> is the write that an answer \<open>a\<close> to the read of an issue leads to: it sets the field to \<open>v\<close>.\<close>

definition field_write :: "store_env \<Rightarrow> store_answer \<Rightarrow> store_call \<Rightarrow> item_field \<Rightarrow> string option \<Rightarrow> bool" where
  "field_write e a q f v =
     (\<exists>p body. se_issue e (sa_stdout a) = Some p \<and>
        q = Gh (issue_edit_args (se_repo e) (ip_number p))
              (Some (issue_edit (Some (relabeled (ip_labels p) f v)) (Some body) None)))"

fun replaces_labels :: "store_call \<Rightarrow> bool" where
  "replaces_labels (Gh args (Some (JObj kvs))) = (dict_get kvs ''labels'' \<noteq> None)"
| "replaces_labels _ = False"

lemma runs_edit_issue:
  assumes "runs (edit_issue e p changes labels s) t (s', r)"
  shows "st_written s' = st_written s \<and>
    (t = [] \<and> r \<noteq> Inr () \<or> (\<exists>a body. t = [(Gh (issue_edit_args (se_repo e) (ip_number p))
             (Some (issue_edit labels (Some body) None)), a)]))"
  using assms by (auto simp: edit_issue_def dest!: runs_send_edit split: sum.splits)

text \<open>No write of an issue fails as one that found the Item changed.\<close>

lemma edit_never_changed: "\<not> runs (edit_issue e p changes labels s) t (s', Inl ItemChanged)"
  by (auto simp: edit_issue_def send_edit_def store_write_def store_run_def store_failure_def
      validate_issue_def kept_def runs_and_then runs_Ask_iff
      split: sum.splits option.splits if_splits)

lemma changed_write_sends_no_edit:
  assumes "runs (set_field e s i f v marks) t (s', Inl ItemChanged)"
  shows "\<exists>a. t \<in> {[], [(Gh (issue_args (se_repo e) (it_number i)) None, a)]}"
proof (cases "require_value f v")
  case None
  then have "runs (and_then (require_issue e (it_number i) s) (\<lambda>s p.
            case payload_record (se_body e) p of
              Inl x \<Rightarrow> Done (s, Inl (RecordUnread x))
            | Inr r \<Rightarrow>
                (case require_unchanged (last_known s i f) (field_value (item_of r) f) v of
                   Some x \<Rightarrow> Done (s, Inl x)
                 | None \<Rightarrow>
                     and_then
                       (edit_issue e p (record_changes f v marks) (Some (relabeled (ip_labels p) f v)) s)
                       (\<lambda>s _. Done (s\<lparr>st_written := dict_set (it_number i, f) v (st_written s)\<rparr>,
                                   Inr ()))))) t (s', Inl ItemChanged)"
    using assms by (simp add: set_field_def)
  then show ?thesis
    unfolding runs_and_then
    by (elim disjE exE conjE)
      (auto dest!: runs_require_issue simp: edit_never_changed runs_and_then split: sum.splits option.splits)
qed (use assms in \<open>auto simp: set_field_def\<close>)

lemma runs_set_field:
  assumes "runs (set_field e s i f v marks) t (s', r)"
  shows "(st_written s' = st_written s \<or>
     r = Inr () \<and> st_written s' = dict_set (it_number i, f) v (st_written s)) \<and>
    ((t = [] \<or> (\<exists>a. t = [(Gh (issue_args (se_repo e) (it_number i)) None, a)])) \<and> r \<noteq> Inr () \<or>
     (\<exists>a0 q a j. t = [(Gh (issue_args (se_repo e) (it_number i)) None, a0), (q, a)] \<and>
       shown_item e a0 = Some j \<and> field_write e a0 q f v \<and>
       (field_value j f = last_known s i f \<or> field_value j f = v)))"
proof (cases "require_value f v")
  case None
  then consider x where "runs (require_issue e (it_number i) s) t (s', Inl x)" "r = Inl x"
    | t1 t2 s1 p where "t = t1 @ t2" "runs (require_issue e (it_number i) s) t1 (s1, Inr p)"
      "runs (case payload_record (se_body e) p of
              Inl x \<Rightarrow> Done (s1, Inl (RecordUnread x))
            | Inr r \<Rightarrow>
                (case require_unchanged (last_known s1 i f) (field_value (item_of r) f) v of
                   Some x \<Rightarrow> Done (s1, Inl x)
                 | None \<Rightarrow>
                     and_then
                       (edit_issue e p (record_changes f v marks) (Some (relabeled (ip_labels p) f v)) s1)
                       (\<lambda>s _. Done (s\<lparr>st_written := dict_set (it_number i, f) v (st_written s)\<rparr>,
                                   Inr ())))) t2 (s', r)"
    using assms by (auto simp: set_field_def runs_and_then)
  then show ?thesis
  proof cases
    case 1
    then show ?thesis using runs_require_issue by fastforce
  next
    case 2
    obtain a0 where a0: "s1 = s" "t1 = [(Gh (issue_args (se_repo e) (it_number i)) None, a0)]"
        "se_issue e (sa_stdout a0) = Some p"
      using runs_require_issue[OF 2(2)] by auto
    show ?thesis
    proof (cases "payload_record (se_body e) p")
      case (Inl x)
      then show ?thesis using 2 a0 by auto
    next
      case (Inr rec)
      then have shown: "shown_item e a0 = Some (item_of rec)" using a0 by (simp add: shown_item_def)
      show ?thesis
      proof (cases "require_unchanged (last_known s i f) (field_value (item_of rec) f) v")
        case None
        then have ok: "field_value (item_of rec) f = last_known s i f \<or> field_value (item_of rec) f = v"
          by (auto simp: require_unchanged_def split: if_splits)
        have "runs (and_then
                 (edit_issue e p (record_changes f v marks) (Some (relabeled (ip_labels p) f v)) s)
                 (\<lambda>s _. Done (s\<lparr>st_written := dict_set (it_number i, f) v (st_written s)\<rparr>, Inr ())))
               t2 (s', r)"
          using 2(3) Inr None a0(1) by simp
        then obtain s2 r2 where e: "runs (edit_issue e p (record_changes f v marks)
                   (Some (relabeled (ip_labels p) f v)) s) t2 (s2, r2)"
            "(case r2 of Inl x \<Rightarrow> s' = s2 \<and> r = Inl x
               | Inr _ \<Rightarrow> r = Inr () \<and> s' = s2\<lparr>st_written := dict_set (it_number i, f) v (st_written s2)\<rparr>)"
          unfolding runs_and_then runs_Done_iff by fastforce
        then show ?thesis
          using runs_edit_issue[OF e(1)] shown ok 2(1) a0(2,3)
          by (auto simp: field_write_def split: sum.splits)
      next
        case (Some x)
        then show ?thesis using 2 a0 Inr by auto
      qed
    qed
  qed
qed (use assms in \<open>auto simp: set_field_def\<close>)

section \<open>The GitHub store keeps the promises of the interface\<close>

definition github_store :: "store_env \<Rightarrow> (store, store_call, store_answer) store_ops" where
  "github_store e =
     \<lparr>so_item = store_item e, so_items = (\<lambda>s. store_items e s None), so_set_field = set_field e,
      so_set_marks = set_marks e, so_comments_on = comments_on e, so_comment = store_comment e\<rparr>"

lemma issue_args_keep [simp]: "\<not> replaces_labels (Gh args None)"
  by simp

lemma field_write_relabels: "field_write e a q f v \<Longrightarrow> replaces_labels q"
  by (auto simp: field_write_def issue_edit_def)

lemma runs_store_item:
  assumes "runs (store_item e s n) t (s', r)"
  shows "s' = s \<and> (\<exists>a. t = [(Gh (issue_args (se_repo e) n) None, a)] \<and>
           (\<forall>i. r = Inr (Some i) \<longrightarrow> shown_item e a = Some i))"
  using assms
  by (auto simp: store_item_def read_issue_def runs_and_then runs_read_or_none shown_item_def
      select_items_def split: option.splits sum.splits if_splits list.splits)

lemma runs_read_listing:
  "runs (read_listing reader ends endpoint s) t (s', r) \<Longrightarrow>
     s' = s \<and> (\<exists>a. t = [(Listing (listing_path endpoint), a)])"
  by (auto simp: read_listing_def runs_Ask_iff)

lemma runs_read_issues:
  "runs (read_issues e query s) t (s', r) \<Longrightarrow> s' = s \<and> (\<exists>p a. t = [(Listing p, a)])"
  unfolding read_issues_def runs_and_then runs_Done_iff
  by (elim disjE exE conjE) (auto dest!: runs_read_listing)

lemma runs_every_issue:
  "runs (every_issue e s) t (s', r) \<Longrightarrow>
     st_written s' = st_written s \<and> (t = [] \<or> (\<exists>p a. t = [(Listing p, a)]))"
  by (auto simp: every_issue_def runs_and_then dest!: runs_read_issues split: option.splits)

lemma runs_store_items:
  "runs (store_items e s None) t (s', r) \<Longrightarrow>
     st_written s' = st_written s \<and> (t = [] \<or> (\<exists>p a. t = [(Listing p, a)]))"
  unfolding store_items_def option.case runs_and_then runs_Done_iff
  by (elim disjE exE conjE) (auto dest!: runs_every_issue)

lemma runs_comments_on:
  "runs (comments_on e s n) t (s', r) \<Longrightarrow> s' = s \<and> (\<exists>p a. t = [(Listing p, a)])"
  unfolding comments_on_def runs_and_then runs_Done_iff
  by (elim disjE exE conjE) (auto dest!: runs_read_listing)

lemma runs_store_comment:
  "runs (store_comment e s n x) t (s', r) \<Longrightarrow> s' = s \<and> (\<exists>args a. t = [(Gh args None, a)])"
  unfolding store_comment_def runs_and_then runs_Done_iff
  by (elim disjE exE conjE) (auto dest!: runs_store_write)

lemma runs_set_marks:
  assumes "runs (set_marks e s i m) t (s', r)"
  shows "st_written s' = st_written s \<and> (\<forall>(q, a) \<in> set t. \<not> replaces_labels q)"
  using assms unfolding set_marks_def runs_and_then runs_Done_iff
  by (elim disjE exE conjE) (auto dest!: runs_require_issue runs_edit_issue simp: issue_edit_def)

lemma last_known_cong: "st_written s' = st_written s \<Longrightarrow> last_known s' = last_known s"
  by (simp add: last_known_def fun_eq_iff)

lemma last_known_set:
  "st_written s' = dict_set (n, f) v (st_written s) \<Longrightarrow>
     last_known s' = (\<lambda>k g. if it_number k = n \<and> g = f then v else last_known s k g)"
  by (auto simp: last_known_def fun_eq_iff)

interpretation gh_store: roadmap_store "github_store e" replaces_labels "shown_item e" "field_write e"
  last_known for e
proof
  fix s :: store and s' n i t r
  show "last_known s' = last_known s \<and> (\<forall>(q, a) \<in> set t. \<not> replaces_labels q)"
    if "runs (so_item (github_store e) s n) t (s', r)"
    using that by (auto simp: github_store_def dest!: runs_store_item)
  show "\<exists>q a. t = [(q, a)] \<and> shown_item e a = Some i"
    if "runs (so_item (github_store e) s n) t (s', Inr (Some i))"
    using that by (auto simp: github_store_def dest!: runs_store_item)
next
  fix s :: store and s' t r
  show "last_known s' = last_known s \<and> (\<forall>(q, a) \<in> set t. \<not> replaces_labels q)"
    if "runs (so_items (github_store e) s) t (s', r)"
    using that last_known_cong[of s' s] by (auto simp: github_store_def dest!: runs_store_items)
next
  fix s :: store and s' n t r
  show "last_known s' = last_known s \<and> (\<forall>(q, a) \<in> set t. \<not> replaces_labels q)"
    if "runs (so_comments_on (github_store e) s n) t (s', r)"
    using that by (auto simp: github_store_def dest!: runs_comments_on)
next
  fix s :: store and s' n x t u
  show "last_known s' = last_known s \<and> (\<forall>(q, a) \<in> set t. \<not> replaces_labels q)"
    if "runs (so_comment (github_store e) s n x) t (s', u)"
    using that by (auto simp: github_store_def dest!: runs_store_comment)
next
  fix s :: store and s' i m t u
  show "last_known s' = last_known s \<and> (\<forall>(q, a) \<in> set t. \<not> replaces_labels q)"
    if "runs (so_set_marks (github_store e) s i m) t (s', u)"
    using that last_known_cong[of s' s] by (auto simp: github_store_def dest!: runs_set_marks)
next
  fix s :: store and s' i f v m t u q a
  assume "runs (so_set_field (github_store e) s i f v m) t (s', u)"
    and "(q, a) \<in> set t" "replaces_labels q"
  then show "\<exists>q0 a0 j. t = [(q0, a0), (q, a)] \<and> \<not> replaces_labels q0 \<and> shown_item e a0 = Some j \<and>
      field_write e a0 q f v \<and> (field_value j f = last_known s i f \<or> field_value j f = v)"
    using runs_set_field[of e s i f v m t s' u] by (fastforce simp: github_store_def)
next
  fix s :: store and s' i f v m t
  assume "runs (so_set_field (github_store e) s i f v m) t (s', Inr ())"
  then show "\<exists>q a. (q, a) \<in> set t \<and> replaces_labels q"
    using runs_set_field[of e s i f v m t s' "Inr ()"] field_write_relabels
    by (fastforce simp: github_store_def)
next
  fix s :: store and s' i f v m t
  assume "runs (so_set_field (github_store e) s i f v m) t (s', Inl ItemChanged)"
  then show "\<forall>(q, a) \<in> set t. \<not> replaces_labels q"
    using changed_write_sends_no_edit[of e s i f v m t s'] by (auto simp: github_store_def)
next
  fix s :: store and s' i f v m t u
  assume "runs (so_set_field (github_store e) s i f v m) t (s', u)"
  then show "last_known s' = last_known s \<or>
      last_known s' = (\<lambda>k g. if it_number k = it_number i \<and> g = f then v else last_known s k g)"
    using runs_set_field[of e s i f v m t s' u] last_known_cong[of s' s] last_known_set
    by (fastforce simp: github_store_def)
qed

end
