(* ===== verification/Claims.thy ===== *)
theory Claims
  imports StoreProps
begin

text \<open>
  Who works on an Item: \<^verbatim>\<open>src/devops_cli/roadmap/claim.py\<close>, over any store. The reports of the command,
  its dry run and the texts of the errors are not modelled. What the claims promise is proved from
  the promises of the store alone.
\<close>

section \<open>Claims\<close>

datatype claimant = AgentClaim | HumanClaim

fun owner_of :: "claimant \<Rightarrow> string" where
  "owner_of AgentClaim = ''Agent''"
| "owner_of HumanClaim = ''Human''"

record claim_plan =
  cl_number :: int
  cl_title :: string
  cl_repo :: string
  cl_current :: "string option"
  cl_target :: "string option"

definition claimed_by :: "item \<Rightarrow> string option" where
  "claimed_by i =
     (case it_owner i of
        None \<Rightarrow> None
      | Some x \<Rightarrow> if x = ''Service'' then None else Some (lower x))"

definition claim_item ::
  "('s, 'q, 'a) store_ops \<Rightarrow> 's \<Rightarrow> int \<Rightarrow> ('q, 'a, 's \<times> (roadmap_error + item)) prog" where
  \<comment> \<open>\<open>_item(store, number)\<close>\<close>
  "claim_item ops s n =
     and_then (so_item ops s n) (\<lambda>s found.
       Done (s, case found of None \<Rightarrow> Inl (ClaimRefused None) | Some i \<Rightarrow> Inr i))"

definition allowed :: "string option \<Rightarrow> string option \<Rightarrow> bool" where
  "allowed current target =
     (if target = None \<or> current = None \<or> current = target then True
      else current = Some ''Service'' \<and> target = Some ''Human'')"

definition require_allowed :: "item \<Rightarrow> string option \<Rightarrow> roadmap_error option" where
  "require_allowed i target =
     (if allowed (it_owner i) target then None
      else Some (ClaimRefused (Some (lower (given_text (it_owner i))))))"

definition plan_claim ::
  "('s, 'q, 'a) store_ops \<Rightarrow> 's \<Rightarrow> int \<Rightarrow> claimant option \<Rightarrow> string \<Rightarrow>
   ('q, 'a, 's \<times> (roadmap_error + claim_plan)) prog" where
  "plan_claim ops s n who repo =
     and_then (claim_item ops s n) (\<lambda>s i.
       let target = map_option owner_of who in
       Done (s,
         if target \<noteq> None \<and> it_state i = StateClosed then Inl (ClaimRefused None)
         else case require_allowed i target of
             Some x \<Rightarrow> Inl x
           | None \<Rightarrow> Inr \<lparr>cl_number = n, cl_title = it_title i, cl_repo = repo,
                          cl_current = it_owner i, cl_target = target\<rparr>))"

definition apply_claim ::
  "('s, 'q, 'a) store_ops \<Rightarrow> 's \<Rightarrow> claim_plan \<Rightarrow> ('q, 'a, 's \<times> (roadmap_error + bool)) prog" where
  "apply_claim ops s p =
     and_then (claim_item ops s (cl_number p)) (\<lambda>s i.
       case require_allowed i (cl_target p) of
         Some x \<Rightarrow> Done (s, Inl x)
       | None \<Rightarrow>
           if it_owner i = cl_target p then Done (s, Inr False)
           else and_then (so_set_field ops s i Owner (cl_target p) []) (\<lambda>s _. Done (s, Inr True)))"

fun is_cli_error :: "roadmap_error \<Rightarrow> bool" where
  \<comment> \<open>An instance of \<open>DevOpsCLIError\<close>.\<close>
  "is_cli_error (GhRefused GateError) = True"
| "is_cli_error (GhRefused g) = is_github_error g"
| "is_cli_error (RecordUnread _) = False"
| "is_cli_error _ = True"

definition claim_as_agent ::
  "('s, 'q, 'a) store_ops \<Rightarrow> 's \<Rightarrow> string \<Rightarrow> int \<Rightarrow>
   ('q, 'a, 's \<times> (roadmap_error + roadmap_error option)) prog" where
  \<comment> \<open>\<open>s\<close> is the new store; the inner error is the reason that is returned.\<close>
  "claim_as_agent ops s repo n =
     bind_prog
       (and_then (plan_claim ops s n (Some AgentClaim) repo) (\<lambda>s p. apply_claim ops s p))
       (\<lambda>(s, r). Done (s, case r of
          Inr _ \<Rightarrow> Inr None
        | Inl x \<Rightarrow> if is_cli_error x then Inr (Some x) else Inl x))"

definition service_claim ::
  "('s, 'q, 'a) store_ops \<Rightarrow> 's \<Rightarrow> int \<Rightarrow> job_record \<Rightarrow> ('q, 'a, 's \<times> (roadmap_error + bool)) prog" where
  "service_claim ops s n marks =
     and_then (claim_item ops s n) (\<lambda>s i.
       if claimed_by i \<noteq> None then Done (s, Inr False)
       else bind_prog (so_set_field ops s i Owner (Some ''Service'') marks) (\<lambda>(s, r). Done (s,
         case r of
           Inr _ \<Rightarrow> Inr True
         | Inl ItemChanged \<Rightarrow> Inr False
         | Inl x \<Rightarrow> Inl x)))"

definition service_release ::
  "('s, 'q, 'a) store_ops \<Rightarrow> 's \<Rightarrow> int \<Rightarrow> job_record \<Rightarrow> ('q, 'a, 's \<times> (roadmap_error + unit)) prog" where
  "service_release ops s n marks =
     and_then (claim_item ops s n) (\<lambda>s i.
       if it_owner i = None then so_set_marks ops s i marks
       else
         (let held = (if it_owner i = Some ''Service'' then None else it_owner i) in
          bind_prog (so_set_field ops s i Owner held marks) (\<lambda>(s, r).
            case r of
              Inr _ \<Rightarrow> Done (s, Inr ())
            | Inl ItemChanged \<Rightarrow>
                and_then (claim_item ops s n) (\<lambda>s j. so_set_marks ops s j marks)
            | Inl x \<Rightarrow> Done (s, Inl x))))"

section \<open>What the claims promise, over any store\<close>

text \<open>
  \<open>known s\<close> is what the store \<open>s\<close> takes as read. A store that wrote no owner takes the Item as it
  was read; \<open>owner_trusted\<close> also allows an owner that the Service set or cleared itself.
\<close>

definition owner_trusted :: "('s \<Rightarrow> item \<Rightarrow> item_field \<Rightarrow> string option) \<Rightarrow> 's \<Rightarrow> bool" where
  "owner_trusted known s =
     (\<forall>k. known s k Owner = it_owner k \<or> known s k Owner = None \<or> known s k Owner = Some ''Service'')"

context roadmap_store
begin

lemma runs_claim_item:
  assumes "runs (claim_item ops s n) t (s', r)"
  shows "known s' = known s \<and> (\<forall>(q, a) \<in> set t. \<not> relabels q)"
  using assms unfolding claim_item_def runs_and_then runs_Done_iff
  by (elim disjE exE conjE) (auto dest!: item_reads)

lemma claim_read_trusted:
  "runs (claim_item ops s n) t (s', r) \<Longrightarrow> owner_trusted known s \<Longrightarrow> owner_trusted known s'"
  using runs_claim_item by (simp add: owner_trusted_def)

text \<open>A write of an owner that follows the read of the Item.\<close>

lemma owner_write_decided:
  assumes "runs (claim_item ops s n) t1 (s1, r)"
    and "runs (so_set_field ops s1 i Owner v m) t2 (s', u)"
    and "(q, a) \<in> set (t1 @ t2)" and "relabels q"
  obtains j where "decided (t1 @ t2) q a j Owner v"
    "it_owner j = known s i Owner \<or> it_owner j = v"
  using field_write_decided[OF assms(2-4)] runs_claim_item[OF assms(1)] by auto

lemma service_claim_writes:
  assumes "runs (service_claim ops s n marks) t (s', r)" and "owner_trusted known s"
    and "(q, a) \<in> set t" and "relabels q"
  shows "\<exists>j. decided t q a j Owner (Some ''Service'') \<and> claimed_by j = None"
proof -
  obtain t1 t2 s1 i where c: "t = t1 @ t2" "runs (claim_item ops s n) t1 (s1, Inr i)" "claimed_by i = None"
      "\<exists>u. runs (so_set_field ops s1 i Owner (Some ''Service'') marks) t2 (s', u)"
    using assms(1,3,4) runs_claim_item
    unfolding service_claim_def runs_and_then
    by (fastforce simp: runs_bind split: if_splits)
  then obtain u where "runs (so_set_field ops s1 i Owner (Some ''Service'') marks) t2 (s', u)" by blast
  from owner_write_decided[OF c(2) this assms(3)[unfolded c(1)] assms(4)]
  obtain j where j: "decided t q a j Owner (Some ''Service'')"
      "it_owner j = known s i Owner \<or> it_owner j = Some ''Service''"
    using c(1) by blast
  have "known s i Owner \<in> {it_owner i, None, Some ''Service''}"
    using assms(2) by (auto simp: owner_trusted_def)
  then have "claimed_by j = None" using j(2) c(3)
    by (auto simp: claimed_by_def split: option.splits if_splits)
  with j(1) show ?thesis by blast
qed

lemma service_claim_tells:
  assumes "runs (service_claim ops s n marks) t (s', Inr b)"
  shows "b \<longleftrightarrow> (\<exists>(q, a) \<in> set t. relabels q)"
proof -
  obtain t1 t2 s1 i where c: "t = t1 @ t2" "runs (claim_item ops s n) t1 (s1, Inr i)"
      "runs (if claimed_by i \<noteq> None then Done (s1, Inr False)
        else bind_prog (so_set_field ops s1 i Owner (Some ''Service'') marks) (\<lambda>(s, r). Done (s,
         case r of Inr _ \<Rightarrow> Inr True | Inl ItemChanged \<Rightarrow> Inr False | Inl x \<Rightarrow> Inl x))) t2 (s', Inr b)"
    using assms unfolding service_claim_def runs_and_then by auto
  have "b \<longleftrightarrow> (\<exists>(q, a) \<in> set t2. relabels q)"
  proof (cases "claimed_by i = None")
    case True
    then obtain u where u: "runs (so_set_field ops s1 i Owner (Some ''Service'') marks) t2 (s', u)"
        "Inr b = (case u of Inr _ \<Rightarrow> Inr True | Inl ItemChanged \<Rightarrow> Inr False | Inl x \<Rightarrow> Inl x)"
      using c(3) by (auto simp: runs_bind)
    then consider "u = Inr ()" "b" | "u = Inl ItemChanged" "\<not> b"
      by (auto split: sum.splits roadmap_error.splits)
    then show ?thesis
    proof cases
      case 1
      then obtain q a where "(q, a) \<in> set t2" "relabels q" using field_written u(1) by blast
      with 1 show ?thesis by auto
    next
      case 2
      then show ?thesis using field_unwritten u(1) by blast
    qed
  qed (use c(3) in auto)
  then show ?thesis using c(1) runs_claim_item[OF c(2)] by auto
qed

lemma apply_claim_writes:
  assumes "runs (apply_claim ops s p) t (s', r)" and "\<forall>k. known s k Owner = it_owner k"
    and "(q, a) \<in> set t" and "relabels q"
  shows "\<exists>j. decided t q a j Owner (cl_target p) \<and> allowed (it_owner j) (cl_target p)"
proof -
  obtain t1 t2 s1 i where c: "t = t1 @ t2" "runs (claim_item ops s (cl_number p)) t1 (s1, Inr i)"
      "allowed (it_owner i) (cl_target p)"
      "\<exists>u. runs (so_set_field ops s1 i Owner (cl_target p) []) t2 (s', u)"
    using assms(1,3,4) runs_claim_item
    unfolding apply_claim_def runs_and_then
    by (fastforce simp: runs_and_then require_allowed_def split: option.splits if_splits)
  then obtain u where "runs (so_set_field ops s1 i Owner (cl_target p) []) t2 (s', u)" by blast
  from owner_write_decided[OF c(2) this assms(3)[unfolded c(1)] assms(4)]
  obtain j where j: "decided t q a j Owner (cl_target p)"
      "it_owner j = known s i Owner \<or> it_owner j = cl_target p"
    using c(1) by blast
  then have "allowed (it_owner j) (cl_target p)"
    using assms(2) c(3) by (auto simp: allowed_def)
  with j(1) show ?thesis by blast
qed

text \<open>The run of a release ends in a write of the owner, or goes on from one to a write of the marks.\<close>

lemma release_steps:
  assumes "runs (service_release ops s n marks) t (s', r)" and "(q, a) \<in> set t" and "relabels q"
  obtains t1 t2 t3 s1 i s2 u where "t = (t1 @ t2) @ t3" "(q, a) \<in> set (t1 @ t2)"
    "runs (claim_item ops s n) t1 (s1, Inr i)"
    "runs (so_set_field ops s1 i Owner (if it_owner i = Some ''Service'' then None else it_owner i) marks) t2 (s2, u)"
proof -
  obtain t1 t2 s1 i where c: "t = t1 @ t2" "runs (claim_item ops s n) t1 (s1, Inr i)"
      "runs (if it_owner i = None then so_set_marks ops s1 i marks
        else let held = (if it_owner i = Some ''Service'' then None else it_owner i) in
          bind_prog (so_set_field ops s1 i Owner held marks) (\<lambda>(s, r).
            case r of
              Inr _ \<Rightarrow> Done (s, Inr ())
            | Inl ItemChanged \<Rightarrow>
                and_then (claim_item ops s n) (\<lambda>s j. so_set_marks ops s j marks)
            | Inl x \<Rightarrow> Done (s, Inl x))) t2 (s', r)"
    using assms runs_claim_item unfolding service_release_def runs_and_then by fastforce
  have "it_owner i \<noteq> None"
    using c assms(2,3) runs_claim_item[OF c(2)] marks_keep by fastforce
  with c(3) obtain u1 u2 s2 u where d: "t2 = u1 @ u2"
      "runs (so_set_field ops s1 i Owner (if it_owner i = Some ''Service'' then None else it_owner i) marks) u1 (s2, u)"
      "runs (case u of
              Inr _ \<Rightarrow> Done (s2, Inr ())
            | Inl ItemChanged \<Rightarrow>
                and_then (claim_item ops s2 n) (\<lambda>s j. so_set_marks ops s j marks)
            | Inl x \<Rightarrow> Done (s2, Inl x)) u2 (s', r)"
    by (auto simp: runs_bind Let_def)
  have "\<forall>(q, a) \<in> set u2. \<not> relabels q"
    using d(3) by (auto simp: runs_and_then split: sum.splits roadmap_error.splits
        dest!: runs_claim_item marks_keep)
  then have "(q, a) \<in> set (t1 @ u1)" using assms(2,3) c(1) d(1) by auto
  with that[of t1 u1 u2 s1 i s2 u] c d show ?thesis by simp
qed

lemma service_release_writes:
  assumes "runs (service_release ops s n marks) t (s', r)" and "owner_trusted known s"
    and "(q, a) \<in> set t" and "relabels q"
  shows "\<exists>j v t1 t2. t = t1 @ t2 \<and> decided t1 q a j Owner v \<and> (claimed_by j = None \<or> v = it_owner j)"
proof -
  obtain t1 t2 t3 s1 i s2 u where c: "t = (t1 @ t2) @ t3" "(q, a) \<in> set (t1 @ t2)"
    "runs (claim_item ops s n) t1 (s1, Inr i)"
    "runs (so_set_field ops s1 i Owner (if it_owner i = Some ''Service'' then None else it_owner i) marks) t2 (s2, u)"
    by (rule release_steps[OF assms(1,3,4)])
  let ?v = "if it_owner i = Some ''Service'' then None else it_owner i"
  from owner_write_decided[OF c(3,4,2) assms(4)]
  obtain j where j: "decided (t1 @ t2) q a j Owner ?v" "it_owner j = known s i Owner \<or> it_owner j = ?v"
    by blast
  have "known s i Owner \<in> {it_owner i, None, Some ''Service''}"
    using assms(2) by (auto simp: owner_trusted_def)
  then have "claimed_by j = None \<or> ?v = it_owner j" using j(2)
    by (auto simp: claimed_by_def split: option.splits if_splits)
  with c(1) j(1) show ?thesis by blast
qed

end

end
