(* ===== verification/StatusSync.thy ===== *)
theory StatusSync
  imports Claims "HOL-Library.Multiset"
begin

text \<open>
  The Status that the Service sets from the facts of an Item: \<^verbatim>\<open>src/devops_cli/roadmap/status_sync.py\<close>,
  with the loop over writes of \<^verbatim>\<open>src/devops_cli/roadmap/stage/stage.py\<close>, over any store. The plans
  on the default branch, \<open>planned_changes\<close>, are what the caller read. The log line and the texts of a
  failure are not modelled.
\<close>

section \<open>The derived Status\<close>

record status_facts =
  sf_plan_merged :: bool
  sf_job_active :: bool
  sf_stopped :: bool

definition derive_status :: "status_facts \<Rightarrow> string" where
  "derive_status f =
     (if sf_job_active f then ''In Progress''
      else if sf_stopped f then ''Blocked''
      else if sf_plan_merged f then ''Planned'' else ''Ready'')"

definition job_holds :: "item \<Rightarrow> bool" where
  "job_holds i =
     (\<not> falsy (record_get (it_job_record i) ''implement.job'') \<and>
      falsy (record_get (it_job_record i) ''implement.job_state''))"

record planned_changes =
  pc_active :: "(int, string) dict"
  pc_archived :: "(int, string) dict"

definition plan_merged :: "item \<Rightarrow> planned_changes \<Rightarrow> bool" where
  "plan_merged i p =
     (dict_get (pc_active p) (it_number i) \<noteq> None \<or> dict_get (pc_archived p) (it_number i) \<noteq> None)"

definition written_from :: "string list" where
  "written_from = [''Ready'', ''Planned'']"

definition owns_status :: "item \<Rightarrow> bool" where
  "owns_status i =
     (it_state i = StateOpen \<and> (\<exists>x \<in> set written_from. it_status i = Some x) \<and>
      record_get (it_job_record i) (field_text Status) = it_status i)"

definition status_facts_of :: "item \<Rightarrow> bool \<Rightarrow> status_facts" where
  "status_facts_of i merged =
     \<lparr>sf_plan_merged = merged, sf_job_active = job_holds i,
      sf_stopped = (\<not> falsy (record_get (it_job_record i) stopped_key))\<rparr>"

section \<open>One write after the other\<close>

record stage_failure =
  fl_number :: int
  fl_title :: string
  fl_error :: roadmap_error

fun stops_the_run :: "roadmap_error \<Rightarrow> bool" where
  \<comment> \<open>Rejected credentials and the stop of the Service.\<close>
  "stops_the_run (GhRefused UnauthenticatedError) = True"
| "stops_the_run (GhRefused GateError) = True"
| "stops_the_run _ = False"

fun stops_the_sweep :: "roadmap_error \<Rightarrow> bool" where
  \<comment> \<open>With \<open>also_stop=(GitHubRateLimitError,)\<close>.\<close>
  "stops_the_sweep (GhRefused (RateLimitError _)) = True"
| "stops_the_sweep e = stops_the_run e"

fun write_each ::
  "(roadmap_error \<Rightarrow> bool) \<Rightarrow> (item \<times> ('s \<Rightarrow> ('q, 'a, 's \<times> (roadmap_error + 'x)) prog)) list \<Rightarrow>
   (int \<times> 'x) list \<Rightarrow> stage_failure list \<Rightarrow> 's \<Rightarrow>
   ('q, 'a, 's \<times> (roadmap_error + (int \<times> 'x) list \<times> stage_failure list)) prog" where
  \<comment> \<open>\<open>stop\<close> is the tuple of classes; with the number of a finished write goes what it gave.\<close>
  "write_each stop [] finished failed s = Done (s, Inr (finished, failed))"
| "write_each stop ((i, write) # ws) finished failed s =
     bind_prog (write s) (\<lambda>(s, r).
       case r of
         Inr x \<Rightarrow> write_each stop ws (finished @ [(it_number i, x)]) failed s
       | Inl e \<Rightarrow>
           if stop e \<or> \<not> is_cli_error e then Done (s, Inl e)
           else write_each stop ws finished
                  (failed @ [\<lparr>fl_number = it_number i, fl_title = it_title i, fl_error = e\<rparr>]) s)"

section \<open>The sweep\<close>

definition sync_status ::
  "('s, 'q, 'a) store_ops \<Rightarrow> item \<Rightarrow> status_facts \<Rightarrow> 's \<Rightarrow>
   ('q, 'a, 's \<times> (roadmap_error + string option)) prog" where
  "sync_status ops i facts s =
     (if \<not> owns_status i then Done (s, Inr None)
      else let status = derive_status facts in
        if Some status = it_status i then Done (s, Inr None)
        else and_then (so_item ops s (it_number i)) (\<lambda>s current.
          case current of
            None \<Rightarrow> Done (s, Inr None)
          | Some c \<Rightarrow>
              if it_status c \<noteq> it_status i \<or> \<not> owns_status c then Done (s, Inr None)
              else and_then (so_set_field ops s c Status (Some status) []) (\<lambda>s _. Done (s, Inr (Some status)))))"

record status_synced =
  ss_changed :: "int list"
  ss_failed :: "stage_failure list"

definition written_numbers :: "(int \<times> string option) list \<Rightarrow> int list" where
  \<comment> \<open>The keys of the dict that \<open>_sync_one\<close> fills.\<close>
  "written_numbers finished =
     map fst (foldl (\<lambda>d (n, x). case x of None \<Rightarrow> d | Some v \<Rightarrow> dict_set n v d) [] finished)"

definition sync_statuses ::
  "('s, 'q, 'a) store_ops \<Rightarrow> planned_changes \<Rightarrow> 's \<Rightarrow>
   ('q, 'a, 's \<times> (roadmap_error + status_synced)) prog" where
  "sync_statuses ops planned s =
     and_then (so_items ops s) (\<lambda>s items.
     and_then
       (write_each stops_the_sweep
          (map (\<lambda>i. (i, sync_status ops i (status_facts_of i (plan_merged i planned))))
             (filter owns_status items)) [] [] s) (\<lambda>s (finished, failed).
       Done (s, Inr \<lparr>ss_changed = written_numbers finished, ss_failed = failed\<rparr>)))"

section \<open>What a run of writes does with errors\<close>

lemma write_each_step:
  assumes "runs (write_each stop ((i, w) # ws) finished failed s) t (s', r)"
  obtains t1 t2 s1 x where "t = t1 @ t2" "runs (w s) t1 (s1, Inr x)"
      "runs (write_each stop ws (finished @ [(it_number i, x)]) failed s1) t2 (s', r)"
  | t1 t2 s1 e where "t = t1 @ t2" "runs (w s) t1 (s1, Inl e)" "\<not> stop e" "is_cli_error e"
      "runs (write_each stop ws finished
         (failed @ [\<lparr>fl_number = it_number i, fl_title = it_title i, fl_error = e\<rparr>]) s1) t2 (s', r)"
  | e where "runs (w s) t (s', Inl e)" "stop e \<or> \<not> is_cli_error e" "r = Inl e"
proof -
  obtain t1 t2 s1 u where u: "t = t1 @ t2" "runs (w s) t1 (s1, u)"
      "runs (case u of
         Inr x \<Rightarrow> write_each stop ws (finished @ [(it_number i, x)]) failed s1
       | Inl e \<Rightarrow>
           if stop e \<or> \<not> is_cli_error e then Done (s1, Inl e)
           else write_each stop ws finished
                  (failed @ [\<lparr>fl_number = it_number i, fl_title = it_title i, fl_error = e\<rparr>]) s1) t2 (s', r)"
    using assms by (auto simp: runs_bind)
  show thesis
  proof (cases u)
    case (Inl e)
    then show thesis using u that(2,3) by (cases "stop e \<or> \<not> is_cli_error e") auto
  next
    case (Inr x)
    then show thesis using u that(1) by auto
  qed
qed

lemma write_each_tries_all:
  assumes "runs (write_each stop ws finished failed s) t (s', Inr (finished', failed'))"
  shows "\<exists>d f. finished' = finished @ d \<and> failed' = failed @ f \<and>
    mset (map fst d) + mset (map fl_number f) = mset (map (it_number \<circ> fst) ws) \<and>
    (\<forall>x \<in> set f. is_cli_error (fl_error x) \<and> \<not> stop (fl_error x))"
  using assms
proof (induction ws arbitrary: finished failed s t)
  case (Cons v ws)
  obtain i w where v: "v = (i, w)" by (cases v)
  from Cons.prems[unfolded v] show ?case
  proof (cases rule: write_each_step)
    case (1 t1 t2 s1 x)
    from Cons.IH[OF 1(3)] obtain d f where
      "finished' = (finished @ [(it_number i, x)]) @ d" "failed' = failed @ f"
      "mset (map fst d) + mset (map fl_number f) = mset (map (it_number \<circ> fst) ws)"
      "\<forall>x \<in> set f. is_cli_error (fl_error x) \<and> \<not> stop (fl_error x)" by blast
    then show ?thesis by (intro exI[of _ "(it_number i, x) # d"] exI[of _ f]) (auto simp: v comp_def)
  next
    case (2 t1 t2 s1 e)
    from Cons.IH[OF 2(5)] obtain d f where
      "finished' = finished @ d"
      "failed' = (failed @ [\<lparr>fl_number = it_number i, fl_title = it_title i, fl_error = e\<rparr>]) @ f"
      "mset (map fst d) + mset (map fl_number f) = mset (map (it_number \<circ> fst) ws)"
      "\<forall>x \<in> set f. is_cli_error (fl_error x) \<and> \<not> stop (fl_error x)" by blast
    then show ?thesis
      using 2(3,4)
      by (intro exI[of _ d] exI[of _ "\<lparr>fl_number = it_number i, fl_title = it_title i, fl_error = e\<rparr> # f"])
        (auto simp: v comp_def)
  qed simp
qed simp

lemma write_each_stops:
  assumes "runs (write_each stop ws finished failed s) t (s', Inl e)"
  shows "stop e \<or> \<not> is_cli_error e"
  using assms
proof (induction ws arbitrary: finished failed s t)
  case (Cons v ws)
  obtain i w where "v = (i, w)" by (cases v)
  from Cons.prems[unfolded this] show ?case
    by (cases rule: write_each_step) (use Cons.IH in auto)
qed simp

section \<open>What a write after a second read does\<close>

context roadmap_store
begin

lemma write_after_reread:
  assumes "runs (so_item ops s n) t1 (s1, Inr (Some i))"
    and "runs (so_set_field ops s1 i f v m) t2 (s2, u)"
    and "(q, a) \<in> set (t1 @ t2)" and "relabels q"
  obtains q1 a1 q0 a0 j where "t1 = [(q1, a1)]" "shown a1 = Some i" "t2 = [(q0, a0), (q, a)]"
    "shown a0 = Some j" "puts a0 q f v" "field_value j f = known s i f \<or> field_value j f = v"
proof -
  obtain q1 a1 where t1: "t1 = [(q1, a1)]" "shown a1 = Some i" using item_shown[OF assms(1)] by blast
  have k: "known s1 = known s" and "(q, a) \<in> set t2"
    using item_reads[OF assms(1)] assms(3,4) by auto
  with field_write[OF assms(2) _ assms(4)] that[OF t1] show ?thesis by fastforce
qed

lemma sync_status_steps:
  assumes "runs (sync_status ops i facts s) t (s', r)"
  obtains "\<forall>(q, a) \<in> set t. \<not> relabels q" "r = Inr None \<or> (\<exists>e. r = Inl e)"
  | t1 t2 s1 c u where "owns_status i" "Some (derive_status facts) \<noteq> it_status i" "t = t1 @ t2"
      "runs (so_item ops s (it_number i)) t1 (s1, Inr (Some c))" "it_status c = it_status i" "owns_status c"
      "runs (so_set_field ops s1 c Status (Some (derive_status facts)) []) t2 (s', u)"
      "r = (case u of Inl e \<Rightarrow> Inl e | Inr _ \<Rightarrow> Inr (Some (derive_status facts)))"
proof (cases "owns_status i \<and> Some (derive_status facts) \<noteq> it_status i")
  case True
  then have "runs (and_then (so_item ops s (it_number i)) (\<lambda>s current.
          case current of
            None \<Rightarrow> Done (s, Inr None)
          | Some c \<Rightarrow>
              if it_status c \<noteq> it_status i \<or> \<not> owns_status c then Done (s, Inr None)
              else and_then (so_set_field ops s c Status (Some (derive_status facts)) [])
                     (\<lambda>s _. Done (s, Inr (Some (derive_status facts)))))) t (s', r)"
    using assms unfolding sync_status_def Let_def by (auto simp only: if_True if_False not_not split: if_splits)
  then consider e where "runs (so_item ops s (it_number i)) t (s', Inl e)" "r = Inl e"
    | t1 t2 s1 where "t = t1 @ t2" "runs (so_item ops s (it_number i)) t1 (s1, Inr None)"
        "t2 = []" "r = Inr None"
    | t1 t2 s1 c where "t = t1 @ t2" "runs (so_item ops s (it_number i)) t1 (s1, Inr (Some c))"
        "runs (if it_status c \<noteq> it_status i \<or> \<not> owns_status c then Done (s1, Inr None)
              else and_then (so_set_field ops s1 c Status (Some (derive_status facts)) [])
                     (\<lambda>s _. Done (s, Inr (Some (derive_status facts))))) t2 (s', r)"
    unfolding runs_and_then by (fastforce split: option.splits)
  then show thesis
  proof cases
    case 3
    show thesis
    proof (cases "it_status c \<noteq> it_status i \<or> \<not> owns_status c")
      case True
      with 3 item_reads[OF 3(2)] that(1) show thesis by auto
    next
      case False
      with 3(3) obtain u where
        "runs (so_set_field ops s1 c Status (Some (derive_status facts)) []) t2 (s', u)"
        "r = (case u of Inl e \<Rightarrow> Inl e | Inr _ \<Rightarrow> Inr (Some (derive_status facts)))"
        by (auto simp: runs_and_then)
      with 3(1,2) False True that(2) show thesis by blast
    qed
  qed (use item_reads that(1) in \<open>auto\<close>)
qed (use assms that(1) in \<open>auto simp: sync_status_def Let_def split: if_splits\<close>)

lemma sync_status_writes:
  assumes "runs (sync_status ops i facts s) t (s', r)" and "\<forall>k. known s k Status = it_status k"
    and "(q, a) \<in> set t" and "relabels q"
  shows "\<exists>q1 a1 q0 a0 c j. t = [(q1, a1), (q0, a0), (q, a)] \<and> shown a1 = Some c \<and> owns_status c \<and>
    it_status c = it_status i \<and> it_status c \<noteq> Some (derive_status facts) \<and>
    shown a0 = Some j \<and> it_status j \<in> {it_status c, Some (derive_status facts)} \<and>
    puts a0 q Status (Some (derive_status facts))"
  using assms(1)
proof (cases rule: sync_status_steps)
  case (2 t1 t2 s1 c u)
  from write_after_reread[OF 2(4,7) assms(3)[unfolded 2(3)] assms(4)]
  obtain q1 a1 q0 a0 j where w: "t1 = [(q1, a1)]" "shown a1 = Some c" "t2 = [(q0, a0), (q, a)]"
    "shown a0 = Some j" "puts a0 q Status (Some (derive_status facts))"
    "field_value j Status = known s c Status \<or> field_value j Status = Some (derive_status facts)"
    by metis
  have "it_status j \<in> {it_status c, Some (derive_status facts)}" using w(6) assms(2) by auto
  moreover have "t = [(q1, a1), (q0, a0), (q, a)]" using 2(3) w(1,3) by simp
  moreover have "it_status c \<noteq> Some (derive_status facts)" using 2(2,5) by simp
  ultimately show ?thesis using w(2,4,5) 2(5,6) by blast
qed (use assms in auto)

lemma sync_status_tells:
  assumes "runs (sync_status ops i facts s) t (s', Inr r)"
  shows "if \<exists>(q, a) \<in> set t. relabels q then r = Some (derive_status facts) else r = None"
  using assms
proof (cases rule: sync_status_steps)
  case (2 t1 t2 s1 c u)
  then have u: "u = Inr ()" "r = Some (derive_status facts)" by (auto split: sum.splits)
  then obtain q a where "(q, a) \<in> set t2" "relabels q" using field_written 2(7) by blast
  then have "\<exists>(q, a) \<in> set t. relabels q" using 2(3) by auto
  then show ?thesis using u(2) by simp
qed auto

end

end
