(* ===== verification/StopClear.thy ===== *)
theory StopClear
  imports StatusSync
begin

text \<open>
  How an Item leaves Blocked: \<^verbatim>\<open>src/devops_cli/roadmap/stop_clear.py\<close> with the record of the clears by
  digest (\<^verbatim>\<open>digest_clears.py\<close>) and the classes of a failure with their actions (\<^verbatim>\<open>failure.py\<close>), over
  any store. pydantic's reading and writing of the texts of a record is a parameter
  (\<open>clear_codecs\<close>), and so is the wording of a comment. A read of the template's digest gives a
  digest, none, or \<open>ClusterJobError\<close>; \<open>reader n\<close> is the answer of the \<open>n\<close>-th read. The log lines are
  not modelled.
\<close>

section \<open>Classes and actions\<close>

datatype failure_class =
    Provider | Parser | TestFailed | Lint | Types | PlanDefect | PremiseFalse | Oom | TimedOutRun
  | RefusedTool | Conflict | CiInfra | NoChangeInFix | TestsLost | HeadMoved | OutputCap
  | ReadOnlyPath | LimitReached | OutsidePlan

datatype failure_action = Retry | ChangeTier | Repair | Amend | Return | RaiseLimit | WaitForPerson

definition failure_classes :: "(string \<times> failure_class) list" where
  "failure_classes =
     [(''provider'', Provider), (''parser'', Parser), (''test'', TestFailed), (''lint'', Lint),
      (''types'', Types), (''plan_defect'', PlanDefect), (''premise_false'', PremiseFalse),
      (''oom'', Oom), (''timeout'', TimedOutRun), (''refused_tool'', RefusedTool),
      (''conflict'', Conflict), (''ci_infra'', CiInfra), (''no_change_in_fix'', NoChangeInFix),
      (''tests_lost'', TestsLost), (''head_moved'', HeadMoved), (''output_cap'', OutputCap),
      (''read_only_path'', ReadOnlyPath), (''limit_reached'', LimitReached),
      (''outside_plan'', OutsidePlan)]"

fun action_by_class :: "failure_class \<Rightarrow> failure_action" where
  "action_by_class Provider = Retry"
| "action_by_class Parser = ChangeTier"
| "action_by_class TestFailed = Repair"
| "action_by_class Lint = Repair"
| "action_by_class Types = Repair"
| "action_by_class PlanDefect = Amend"
| "action_by_class PremiseFalse = Return"
| "action_by_class Oom = RaiseLimit"
| "action_by_class TimedOutRun = Retry"
| "action_by_class RefusedTool = WaitForPerson"
| "action_by_class Conflict = WaitForPerson"
| "action_by_class CiInfra = Retry"
| "action_by_class NoChangeInFix = WaitForPerson"
| "action_by_class TestsLost = WaitForPerson"
| "action_by_class HeadMoved = Retry"
| "action_by_class OutputCap = RaiseLimit"
| "action_by_class ReadOnlyPath = WaitForPerson"
| "action_by_class LimitReached = RaiseLimit"
| "action_by_class OutsidePlan = WaitForPerson"

definition left_action :: "failure_class \<Rightarrow> failure_action option \<Rightarrow> failure_action" where
  "left_action c taken = (if taken = Some (action_by_class c) then WaitForPerson else action_by_class c)"

section \<open>The record of the clears\<close>

record digest_clear =
  dc_class :: failure_class
  dc_digest :: string
  dc_time :: instant

record clear_codecs =
  cc_clears :: "string \<Rightarrow> digest_clear list option"
  cc_encode :: "digest_clear list \<Rightarrow> string"
  cc_time :: "string \<Rightarrow> instant option"
  cc_isoformat :: "instant \<Rightarrow> string"
  cc_count :: "string \<Rightarrow> nat option"

definition recorded_clears :: "clear_codecs \<Rightarrow> job_record \<Rightarrow> digest_clear list option" where
  \<comment> \<open>\<open>None\<close> where reading raises \<open>ValidationError\<close>.\<close>
  "recorded_clears cc r =
     (case record_get r ''implement.digest_clears'' of
        Some (c # cs) \<Rightarrow> cc_clears cc (c # cs)
      | _ \<Rightarrow> Some [])"

definition last_clear_comment :: "clear_codecs \<Rightarrow> job_record \<Rightarrow> instant option option" where
  "last_clear_comment cc r =
     (case record_get r ''implement.digest_clear_commented_at'' of
        Some (c # cs) \<Rightarrow> map_option Some (cc_time cc (c # cs))
      | _ \<Rightarrow> Some None)"

definition used_continuations :: "clear_codecs \<Rightarrow> job_record \<Rightarrow> nat option" where
  \<comment> \<open>\<open>_COUNT.validate_python(record.get(CONTINUATIONS) or 0)\<close>\<close>
  "used_continuations cc r =
     (case record_get r ''implement.continuations'' of
        Some (c # cs) \<Rightarrow> cc_count cc (c # cs)
      | _ \<Rightarrow> Some 0)"

section \<open>The rules\<close>

datatype clear_rule = RetryRule | ContinueRule | DigestRule

record clear_limits =
  cl_per_class :: nat
  cl_per_item :: nat
  cl_continuations :: nat

record decision =
  de_rule :: clear_rule
  de_new :: "string option"
  de_clears :: "digest_clear list"
  de_class :: "failure_class option"
  de_comment :: bool
  de_continuations :: nat

definition is_service_stop :: "item \<Rightarrow> bool" where
  "is_service_stop i =
     (it_state i = StateOpen \<and> holds_service_stop i \<and> \<not> job_holds i \<and> claimed_by i = None)"

datatype template_read = TemplateDigest "string option" | TemplateRefused

record template =
  td_reads :: nat
  td_held :: "template_read option"

definition new_template :: template where
  "new_template = \<lparr>td_reads = 0, td_held = None\<rparr>"

definition template_digest ::
  "(nat \<Rightarrow> template_read) \<Rightarrow> template \<Rightarrow> (roadmap_error + string option) \<times> template" where
  "template_digest reader tp =
     (let tp1 = (case td_held tp of
                   Some _ \<Rightarrow> tp
                 | None \<Rightarrow> \<lparr>td_reads = td_reads tp + 1, td_held = Some (reader (td_reads tp))\<rparr>)
      in (case td_held tp1 of
            Some (TemplateDigest d) \<Rightarrow> Inr d
          | _ \<Rightarrow> Inl ClusterFailed, tp1))"

definition new_digest ::
  "(nat \<Rightarrow> template_read) \<Rightarrow> item \<Rightarrow> template \<Rightarrow> (roadmap_error + string option) \<times> template" where
  "new_digest reader i tp =
     (let recorded = record_get (it_job_record i) ''implement.job_digest'' in
      if falsy recorded then (Inr None, tp)
      else case template_digest reader tp of
          (Inl e, tp1) \<Rightarrow> (Inl e, tp1)
        | (Inr current, tp1) \<Rightarrow>
            (Inr (if \<not> falsy current \<and> current \<noteq> recorded then current else None), tp1))"

definition retry_class :: "item \<Rightarrow> failure_class option" where
  "retry_class i =
     (case map_of failure_classes
             (case record_get (it_job_record i) ''implement.failure'' of Some s \<Rightarrow> s | None \<Rightarrow> []) of
        Some c \<Rightarrow> if action_by_class c = Retry then Some c else None
      | None \<Rightarrow> None)"

definition continue_decision :: "clear_codecs \<Rightarrow> clear_limits \<Rightarrow> item \<Rightarrow> decision option" where
  "continue_decision cc limits i =
     (if record_get (it_job_record i) stopped_key \<noteq> Some ''job'' then None
      else case retry_class i of
          None \<Rightarrow> None
        | Some c \<Rightarrow>
            (case used_continuations cc (it_job_record i) of
               None \<Rightarrow> None
             | Some used \<Rightarrow>
                 if used \<ge> cl_continuations limits then None
                 else Some \<lparr>de_rule = ContinueRule, de_new = None, de_clears = [], de_class = Some c,
                            de_comment = True, de_continuations = used + 1\<rparr>))"

definition clear_comment_window :: seconds where
  "clear_comment_window = 24 * 3600"

definition digest_decision ::
  "clear_codecs \<Rightarrow> (nat \<Rightarrow> template_read) \<Rightarrow> clear_limits \<Rightarrow> instant \<Rightarrow> item \<Rightarrow> template \<Rightarrow>
   (roadmap_error + decision option) \<times> template" where
  "digest_decision cc reader limits now i tp =
     (case retry_class i of
        None \<Rightarrow> (Inr None, tp)
      | Some c \<Rightarrow>
          (case (recorded_clears cc (it_job_record i), last_clear_comment cc (it_job_record i)) of
             (Some clears, Some commented) \<Rightarrow>
               if length clears \<ge> cl_per_item limits then (Inr None, tp)
               else if length (filter (\<lambda>x. dc_class x = c) clears) \<ge> cl_per_class limits then (Inr None, tp)
               else
                 (case new_digest reader i tp of
                    (Inl e, tp1) \<Rightarrow> (Inl e, tp1)
                  | (Inr None, tp1) \<Rightarrow> (Inr None, tp1)
                  | (Inr (Some new), tp1) \<Rightarrow>
                      (Inr (Some \<lparr>de_rule = DigestRule, de_new = Some new,
                         de_clears = clears @ [\<lparr>dc_class = c, dc_digest = new, dc_time = now\<rparr>],
                         de_class = Some c,
                         de_comment = (case commented of None \<Rightarrow> True
                                       | Some t \<Rightarrow> now - t \<ge> clear_comment_window),
                         de_continuations = 0\<rparr>), tp1))
           | _ \<Rightarrow> (Inr None, tp)))"

definition comment_marker :: string where
  "comment_marker = ''<!-- devops roadmap implement -->''"

definition retry_asked :: "issue_comment list \<Rightarrow> bool" where
  \<comment> \<open>The comments after the last one of the job. No letter outside ASCII folds to one of the word.\<close>
  "retry_asked comments =
     list_ex
       (\<lambda>c. (case ic_author_association c of None \<Rightarrow> False | Some a \<Rightarrow> a \<in> {''OWNER'', ''MEMBER'', ''COLLABORATOR''}) \<and>
            lower (strip (ic_body c)) = ''implement: retry'')
       (rev (takeWhile (\<lambda>c. \<not> prefix comment_marker (ic_body c)) (rev comments)))"

definition clearing_rule ::
  "clear_codecs \<Rightarrow> (nat \<Rightarrow> template_read) \<Rightarrow> clear_limits \<Rightarrow> instant \<Rightarrow> item \<Rightarrow> issue_comment list \<Rightarrow>
   template \<Rightarrow> (roadmap_error + decision option) \<times> template" where
  \<comment> \<open>\<open>_rule\<close>\<close>
  "clearing_rule cc reader limits now i comments tp =
     (if retry_asked comments then
        (Inr (Some \<lparr>de_rule = RetryRule, de_new = None, de_clears = [], de_class = None,
                    de_comment = True, de_continuations = 0\<rparr>), tp)
      else case continue_decision cc limits i of
          Some d \<Rightarrow> (Inr (Some d), tp)
        | None \<Rightarrow> digest_decision cc reader limits now i tp)"

definition clear_marks :: "clear_codecs \<Rightarrow> decision \<Rightarrow> instant \<Rightarrow> job_record" where
  \<comment> \<open>\<open>_marks\<close>\<close>
  "clear_marks cc d now =
     map (\<lambda>k. (k, None))
       [stopped_key, ''implement.failure'', ''implement.check'', ''implement.check_log'',
        ''implement.conflict''] @
     (if de_rule d = ContinueRule
      then [(''implement.continuations'', Some (int_text (int (de_continuations d))))] else []) @
     (if de_rule d = DigestRule
      then (''implement.digest_clears'', Some (cc_encode cc (de_clears d))) #
           (if de_comment d then [(''implement.digest_clear_commented_at'', Some (cc_isoformat cc now))]
            else [])
      else [])"

section \<open>The pass\<close>

text \<open>A step of the store beside the template, and a step of the template beside the store.\<close>

definition beside :: "'w \<Rightarrow> ('q, 'a, 's \<times> 'r) prog \<Rightarrow> ('q, 'a, ('s \<times> 'w) \<times> 'r) prog" where
  "beside w p = bind_prog p (\<lambda>(s, r). Done ((s, w), r))"

definition judged :: "'s \<Rightarrow> 'r \<times> 'w \<Rightarrow> ('q, 'a, ('s \<times> 'w) \<times> 'r) prog" where
  "judged s p = Done ((s, snd p), fst p)"

record clear_env =
  ce_codecs :: clear_codecs
  ce_reader :: "nat \<Rightarrow> template_read"
  ce_wording :: "decision \<Rightarrow> item \<Rightarrow> string \<Rightarrow> clear_limits \<Rightarrow> string"

definition write_clear ::
  "('s, 'q, 'a) store_ops \<Rightarrow> clear_env \<Rightarrow> planned_changes \<Rightarrow> clear_limits \<Rightarrow> instant \<Rightarrow> item \<Rightarrow> decision \<Rightarrow>
   's \<times> template \<Rightarrow> ('q, 'a, ('s \<times> template) \<times> (roadmap_error + int option)) prog" where
  \<comment> \<open>The end of \<open>_clear_one\<close>: the write, then the comment.\<close>
  "write_clear ops ce planned limits now c d = (\<lambda>(s, tp).
     let status = derive_status \<lparr>sf_plan_merged = plan_merged c planned, sf_job_active = False,
                                 sf_stopped = False\<rparr> in
     and_then (beside tp (so_set_field ops s c Status (Some status) (clear_marks (ce_codecs ce) d now)))
       (\<lambda>(s, tp) _.
     and_then
       (if de_comment d
        then beside tp (so_comment ops s (it_number c) (ce_wording ce d c status limits))
        else Done ((s, tp), Inr ())) (\<lambda>w _.
       Done (w, Inr (Some (it_number c))))))"

definition clear_reread ::
  "('s, 'q, 'a) store_ops \<Rightarrow> clear_env \<Rightarrow> planned_changes \<Rightarrow> clear_limits \<Rightarrow> instant \<Rightarrow> item \<Rightarrow>
   issue_comment list \<Rightarrow> 's \<times> template \<Rightarrow>
   ('q, 'a, ('s \<times> template) \<times> (roadmap_error + int option)) prog" where
  \<comment> \<open>The middle of \<open>_clear_one\<close>: the issue is read and judged again.\<close>
  "clear_reread ops ce planned limits now i comments = (\<lambda>(s, tp).
     and_then (beside tp (so_item ops s (it_number i))) (\<lambda>(s, tp) current.
       case current of
         None \<Rightarrow> Done ((s, tp), Inr None)
       | Some c \<Rightarrow>
           if \<not> is_service_stop c then Done ((s, tp), Inr None)
           else
             and_then (judged s (clearing_rule (ce_codecs ce) (ce_reader ce) limits now c comments tp)) (\<lambda>w d.
               case d of
                 None \<Rightarrow> Done (w, Inr None)
               | Some x \<Rightarrow> write_clear ops ce planned limits now c x w)))"

definition clear_one ::
  "('s, 'q, 'a) store_ops \<Rightarrow> clear_env \<Rightarrow> planned_changes \<Rightarrow> clear_limits \<Rightarrow> instant \<Rightarrow> item \<Rightarrow>
   's \<times> template \<Rightarrow> ('q, 'a, ('s \<times> template) \<times> (roadmap_error + int option)) prog" where
  "clear_one ops ce planned limits now i = (\<lambda>(s, tp).
     and_then (beside tp (so_comments_on ops s (it_number i))) (\<lambda>(s, tp) comments.
     and_then (judged s (clearing_rule (ce_codecs ce) (ce_reader ce) limits now i comments tp)) (\<lambda>w d.
       if d = None then Done (w, Inr None)
       else clear_reread ops ce planned limits now i comments w)))"

record stops_cleared =
  sc_cleared :: "int list"
  sc_failed :: "stage_failure list"

definition clear_stops ::
  "('s, 'q, 'a) store_ops \<Rightarrow> clear_env \<Rightarrow> planned_changes \<Rightarrow> clear_limits \<Rightarrow> instant \<Rightarrow> 's \<Rightarrow>
   ('q, 'a, ('s \<times> template) \<times> (roadmap_error + stops_cleared)) prog" where
  "clear_stops ops ce planned limits now s =
     and_then (beside new_template (so_items ops s)) (\<lambda>w items.
     and_then
       (write_each stops_the_sweep
          (map (\<lambda>i. (i, clear_one ops ce planned limits now i)) (filter is_service_stop items)) [] [] w)
       (\<lambda>w (finished, failed).
       Done (w, Inr \<lparr>sc_cleared = List.map_filter snd finished, sc_failed = failed\<rparr>)))"

end
