(* ===== verification/ClaimProps.thy ===== *)
theory ClaimProps
  imports Claims
begin

text \<open>
  What the claims promise over the GitHub store, whatever GitHub answers and whoever writes between
  two requests. A run is the list of the requests it sent with their answers; \<open>shown_item e a\<close> is
  the Item that the answer \<open>a\<close> to a read shows.
\<close>

section \<open>A sample store\<close>

definition sample_issue :: "string \<Rightarrow> issue_payload option" where
  "sample_issue text =
     (case text of
        [] \<Rightarrow> None
      | _ \<Rightarrow> Some \<lparr>ip_id = 1, ip_number = 7, ip_title = ''t'', ip_html_url = ''u'', ip_body = None,
          ip_state = StateOpen, ip_state_reason = None,
          ip_labels = [''priority/p1-high''] @ (if text = ''free'' then [] else [''owner/'' @ text]),
          ip_milestone = None, ip_pull_request = False, ip_author_association = None,
          ip_author_login = None, ip_created_at = None, ip_updated_at = None, ip_closed_at = None,
          ip_comments = 0, ip_sub_issues = 0, ip_blocked_by = 0, ip_repository_url = None,
          ip_parent_issue_url = None\<rparr>)"

definition no_body_readers :: body_readers where
  "no_body_readers = \<lparr>br_tokens = (\<lambda>_. []), br_loads = sample_loads, br_dumps = sample_dumps\<rparr>"

definition sample_store_env :: store_env where
  "sample_store_env =
     \<lparr>se_repo = ''o/r'', se_body = no_body_readers, se_issue = sample_issue,
      se_issue_entry = (\<lambda>_. None), se_blocker_entry = (\<lambda>_. None), se_event_entry = (\<lambda>_. None),
      se_comment_entry = (\<lambda>_. None)\<rparr>"

definition sample_answer :: "string \<Rightarrow> store_answer" where
  "sample_answer text =
     \<lparr>sa_raises = None, sa_code = 0, sa_stdout = text, sa_stderr = [], sa_entries = [], sa_failure = None\<rparr>"

lemma sample_trusted: "owner_trusted last_known new_store"
  by (simp add: owner_trusted_def last_known_def new_store_def)

definition ends_in_relabel :: "(store_call, store_answer) trace \<Rightarrow> bool" where
  "ends_in_relabel t = (t \<noteq> [] \<and> replaces_labels (fst (last t)))"

lemma ends_in_relabelD: "ends_in_relabel t \<Longrightarrow> \<exists>q a. (q, a) \<in> set t \<and> replaces_labels q"
  by (metis ends_in_relabel_def last_in_set prod.collapse)

lemma sample_service_claim:
  obtains s' t where
    "runs (service_claim (github_store sample_store_env) new_store 7 []) t (s', Inr True)" "ends_in_relabel t"
proof (rule answered_gives[where p = "service_claim (github_store sample_store_env) new_store 7 []" and
      as = "map sample_answer [''free'', ''free'', ''service'']" and P = "\<lambda>x t. snd x = Inr True \<and> ends_in_relabel t"])
  show "case answered (service_claim (github_store sample_store_env) new_store 7 [])
      (map sample_answer [''free'', ''free'', ''service'']) of
    None \<Rightarrow> False | Some (x, t) \<Rightarrow> snd x = Inr True \<and> ends_in_relabel t"
    by code_simp
qed (metis that prod.collapse)

lemma sample_release:
  obtains s' t where
    "runs (service_release (github_store sample_store_env) new_store 7 []) t (s', Inr ())" "ends_in_relabel t"
proof (rule answered_gives[where p = "service_release (github_store sample_store_env) new_store 7 []" and
      as = "map sample_answer [''service'', ''service'', ''free'']" and P = "\<lambda>x t. snd x = Inr () \<and> ends_in_relabel t"])
  show "case answered (service_release (github_store sample_store_env) new_store 7 [])
      (map sample_answer [''service'', ''service'', ''free'']) of
    None \<Rightarrow> False | Some (x, t) \<Rightarrow> snd x = Inr () \<and> ends_in_relabel t"
    by code_simp
qed (metis that prod.collapse)

definition sample_plan :: claim_plan where
  "sample_plan = \<lparr>cl_number = 7, cl_title = ''t'', cl_repo = ''o/r'', cl_current = None, cl_target = Some ''Human''\<rparr>"

lemma sample_hand_claim:
  obtains s' t where
    "runs (apply_claim (github_store sample_store_env) new_store sample_plan) t (s', Inr True)" "ends_in_relabel t"
proof (rule answered_gives[where p = "apply_claim (github_store sample_store_env) new_store sample_plan" and
      as = "map sample_answer [''service'', ''service'', ''human'']" and P = "\<lambda>x t. snd x = Inr True \<and> ends_in_relabel t"])
  show "case answered (apply_claim (github_store sample_store_env) new_store sample_plan)
      (map sample_answer [''service'', ''service'', ''human'']) of
    None \<Rightarrow> False | Some (x, t) \<Rightarrow> snd x = Inr True \<and> ends_in_relabel t"
    by code_simp
qed (metis that prod.collapse)

section \<open>Properties\<close>

text \<open>
  C13: The Service takes no held Item. A claim of the Service that replaces labels does so right
  after a read that shows an Item that neither an agent nor a person holds, puts \<open>owner/service\<close> in
  place of its owner labels and keeps every other label it read; no earlier request of the claim
  replaced labels. It holds over a store whose own writes of owners are the Service's.
\<close>

theorem service_takes_no_held_item:
  assumes "runs (service_claim (github_store e) s n marks) t (s', r)"
    and "owner_trusted last_known s" and "(q, a) \<in> set t" and "replaces_labels q"
  shows "\<exists>t0 q0 a0 j. t = t0 @ [(q0, a0), (q, a)] \<and> (\<forall>(q', a') \<in> set t0. \<not> replaces_labels q') \<and>
     shown_item e a0 = Some j \<and> claimed_by j = None \<and> field_write e a0 q Owner (Some ''Service'')"
  using gh_store.service_claim_writes[OF assms] by (fastforce simp: decided_write_def)

theorem service_takes_no_held_item_witness:
  "\<exists>s' t t0 q0 a0 q a j. runs (service_claim (github_store sample_store_env) new_store 7 []) t (s', Inr True) \<and>
     t = t0 @ [(q0, a0), (q, a)] \<and> shown_item sample_store_env a0 = Some j \<and> claimed_by j = None"
proof -
  obtain s' t where t: "runs (service_claim (github_store sample_store_env) new_store 7 []) t (s', Inr True)"
      "ends_in_relabel t"
    by (rule sample_service_claim)
  obtain q a where "(q, a) \<in> set t" "replaces_labels q" using ends_in_relabelD[OF t(2)] by blast
  from service_takes_no_held_item[OF t(1) sample_trusted this] t(1) show ?thesis by blast
qed

text \<open>
  The Service's claim tells what it did: it gives True exactly when it replaced labels, and False
  exactly when it wrote nothing.
\<close>

theorem service_claim_answer_is_true:
  assumes "runs (service_claim (github_store e) s n marks) t (s', Inr b)"
  shows "b \<longleftrightarrow> (\<exists>(q, a) \<in> set t. replaces_labels q)"
  using gh_store.service_claim_tells[OF assms] .

theorem service_claim_answer_is_true_witness:
  "\<exists>s' t. runs (service_claim (github_store sample_store_env) new_store 7 []) t (s', Inr True) \<and>
     (\<exists>(q, a) \<in> set t. replaces_labels q)"
proof -
  obtain s' t where t: "runs (service_claim (github_store sample_store_env) new_store 7 []) t (s', Inr True)"
      "ends_in_relabel t"
    by (rule sample_service_claim)
  from service_claim_answer_is_true[OF t(1)] t(1) show ?thesis by blast
qed

text \<open>
  A claim by hand displaces nobody it may not. An agent's claim, made with a new store, replaces
  labels only right after a read that shows an Item that is free or the agent's already, and a
  person's only after one that shows it free, the person's or the Service's.
\<close>

theorem hand_claim_displaces_nobody:
  assumes "runs (apply_claim (github_store e) new_store p) t (s', r)"
    and "cl_target p = Some (owner_of who)" and "(q, a) \<in> set t" and "replaces_labels q"
  shows "\<exists>t0 q0 a0 j. t = t0 @ [(q0, a0), (q, a)] \<and> shown_item e a0 = Some j \<and>
     field_write e a0 q Owner (cl_target p) \<and>
     it_owner j \<in> {None, Some (owner_of who)} \<union> (if who = HumanClaim then {Some ''Service''} else {})"
proof -
  have "\<forall>k. last_known new_store k Owner = it_owner k"
    by (simp add: last_known_def new_store_def)
  from gh_store.apply_claim_writes[OF assms(1) this assms(3,4)]
  obtain j where "decided_write replaces_labels (shown_item e) (field_write e) t q a j Owner (cl_target p)"
      "allowed (it_owner j) (cl_target p)" by blast
  then show ?thesis using assms(2)
    by (cases who) (auto simp: decided_write_def allowed_def split: if_splits)
qed

theorem hand_claim_displaces_nobody_witness:
  "\<exists>s' t t0 q0 a0 q a j. runs (apply_claim (github_store sample_store_env) new_store sample_plan) t (s', Inr True) \<and>
     t = t0 @ [(q0, a0), (q, a)] \<and> shown_item sample_store_env a0 = Some j \<and>
     it_owner j \<in> {None, Some ''Human'', Some ''Service''}"
proof -
  obtain s' t where t: "runs (apply_claim (github_store sample_store_env) new_store sample_plan) t (s', Inr True)"
      "ends_in_relabel t"
    by (rule sample_hand_claim)
  obtain q a where qa: "(q, a) \<in> set t" "replaces_labels q" using ends_in_relabelD[OF t(2)] by blast
  have "cl_target sample_plan = Some (owner_of HumanClaim)" by (simp add: sample_plan_def)
  from hand_claim_displaces_nobody[OF t(1) this qa] t(1) show ?thesis by fastforce
qed

text \<open>
  No release of the Service takes an Item from an agent or a person: whenever it replaces labels,
  it does so right after a read that shows an Item that nobody holds against the Service, or it
  puts the owner back that the read shows.
\<close>

theorem service_release_keeps_claims:
  assumes "runs (service_release (github_store e) s n marks) t (s', r)"
    and "owner_trusted last_known s" and "(q, a) \<in> set t" and "replaces_labels q"
  shows "\<exists>t0 t1 q0 a0 j v. t = t0 @ [(q0, a0), (q, a)] @ t1 \<and> shown_item e a0 = Some j \<and>
     field_write e a0 q Owner v \<and> (claimed_by j = None \<or> v = it_owner j)"
  using gh_store.service_release_writes[OF assms] by (fastforce simp: decided_write_def)

theorem service_release_keeps_claims_witness:
  "\<exists>s' t t0 t1 q0 a0 q a j v. runs (service_release (github_store sample_store_env) new_store 7 []) t (s', Inr ()) \<and>
     t = t0 @ [(q0, a0), (q, a)] @ t1 \<and> shown_item sample_store_env a0 = Some j \<and>
     (claimed_by j = None \<or> v = it_owner j)"
proof -
  obtain s' t where t: "runs (service_release (github_store sample_store_env) new_store 7 []) t (s', Inr ())"
      "ends_in_relabel t"
    by (rule sample_release)
  obtain q a where qa: "(q, a) \<in> set t" "replaces_labels q" using ends_in_relabelD[OF t(2)] by blast
  from service_release_keeps_claims[OF t(1) sample_trusted qa] t(1) show ?thesis by blast
qed

fun sends_labels :: "store_call \<Rightarrow> string list \<Rightarrow> bool" where
  "sends_labels (Gh args (Some (JObj kvs))) ls = (dict_get kvs ''labels'' = Some (JArr (map JStr ls)))"
| "sends_labels _ ls = False"

definition store_after_release :: store where
  "store_after_release = \<lparr>st_all = None, st_written = [((7, Owner), Some ''Human'')]\<rparr>"

fun takes_human :: "(store_call, store_answer) trace \<Rightarrow> bool" where
  "takes_human [x, (q0, a0), (q, a)] =
     (sends_labels q [''priority/p1-high'', ''owner/service''] \<and>
      (case shown_item sample_store_env a0 of None \<Rightarrow> False | Some j \<Rightarrow> claimed_by j = Some ''human''))"
| "takes_human _ = False"

lemma sample_kept_release:
  "\<exists>t. runs (service_release (github_store sample_store_env) new_store 7 []) t (store_after_release, Inr ())"
proof -
  have "case answered (service_release (github_store sample_store_env) new_store 7 [])
      (map sample_answer [''human'', ''human'', ''human'']) of
    None \<Rightarrow> False | Some (x, t) \<Rightarrow> x = (store_after_release, Inr ())"
    by code_simp
  from answered_gives[where P = "\<lambda>x t. x = (store_after_release, Inr ())", OF this] show ?thesis by blast
qed

lemma sample_lost_claim:
  obtains s' t where "runs (service_claim (github_store sample_store_env) store_after_release 7 []) t (s', Inr True)"
    "takes_human t"
proof (rule answered_gives[where p = "service_claim (github_store sample_store_env) store_after_release 7 []" and
      as = "map sample_answer [''free'', ''human'', ''service'']" and P = "\<lambda>x t. snd x = Inr True \<and> takes_human t"])
  show "case answered (service_claim (github_store sample_store_env) store_after_release 7 [])
      (map sample_answer [''free'', ''human'', ''service'']) of
    None \<Rightarrow> False | Some (x, t) \<Rightarrow> snd x = Inr True \<and> takes_human t"
    by code_simp
qed (metis that prod.collapse)

text \<open>
  A claim that a person makes again between the two reads of the Service's claim can be lost.
  When the same store released the Item before, with a person's owner kept, it takes that owner as
  its own last write: the Service's claim, which read a free Item, then reads the person's claim,
  takes it as unchanged, replaces it and gives True.
\<close>

theorem claim_after_a_kept_release_can_displace:
  "\<exists>t s t' s' q0 a0 q a j.
     runs (service_release (github_store sample_store_env) new_store 7 []) t (s, Inr ()) \<and>
     runs (service_claim (github_store sample_store_env) s 7 []) (t' @ [(q0, a0), (q, a)]) (s', Inr True) \<and>
     shown_item sample_store_env a0 = Some j \<and> claimed_by j = Some ''human'' \<and>
     sends_labels q [''priority/p1-high'', ''owner/service'']"
proof -
  obtain t where t: "runs (service_release (github_store sample_store_env) new_store 7 []) t (store_after_release, Inr ())"
    using sample_kept_release by blast
  obtain s' t' where c: "runs (service_claim (github_store sample_store_env) store_after_release 7 []) t' (s', Inr True)"
      "takes_human t'"
    by (rule sample_lost_claim)
  then obtain x q0 a0 q a j where "t' = [x] @ [(q0, a0), (q, a)]" "shown_item sample_store_env a0 = Some j"
      "claimed_by j = Some ''human''" "sends_labels q [''priority/p1-high'', ''owner/service'']"
    by (cases t' rule: takes_human.cases) (auto split: option.splits)
  with t c(1) show ?thesis by blast
qed

end
