(* ===== verification/StopClearProps.thy ===== *)
theory StopClearProps
  imports StopClear ClaimProps PullFormProps
begin

text \<open>
  What the sweep of the Status and the pass over the stops promise, whatever GitHub answers and
  whoever writes between two requests, and the bound on the clears that no person asked for.
\<close>

section \<open>Writes of a clear\<close>

lemma runs_beside: "runs (beside w p) t (x, r) \<longleftrightarrow> (\<exists>s. x = (s, w) \<and> runs p t (s, r))"
  by (auto simp: beside_def runs_bind)

lemma runs_judged [simp]: "runs (judged s p) t (x, r) \<longleftrightarrow> t = [] \<and> x = (s, snd p) \<and> r = fst p"
  by (auto simp: judged_def)

lemma stop_is_blocked: "is_service_stop c \<Longrightarrow> it_status c = Some ''Blocked''"
  by (simp add: is_service_stop_def holds_service_stop_def)

text \<open>A request of a kind that the first of two steps never sends was sent by the second.\<close>

lemma and_then_after:
  assumes "runs (and_then p f) t (w, r)" and "(q, a) \<in> set t" and "P q"
    and "\<And>t x. runs p t x \<Longrightarrow> \<forall>(q, a) \<in> set t. \<not> P q"
  obtains t1 t2 w1 x where "t = t1 @ t2" "runs p t1 (w1, Inr x)" "runs (f w1 x) t2 (w, r)"
    "(q, a) \<in> set t2" "\<forall>(q, a) \<in> set t1. \<not> P q"
proof -
  have "\<not> runs p t (w, Inl e)" for e using assms(2-4) by blast
  with assms(1) obtain t1 t2 w1 x where c: "t = t1 @ t2" "runs p t1 (w1, Inr x)" "runs (f w1 x) t2 (w, r)"
    unfolding runs_and_then by blast
  moreover have no: "\<forall>(q, a) \<in> set t1. \<not> P q" using assms(4) c(2) by blast
  moreover have "(q, a) \<in> set t2" using no assms(2,3) c(1) by auto
  ultimately show thesis using that by blast
qed

lemma beside_then_after:
  assumes "runs (and_then (beside tp p) (\<lambda>(s, tp). f s tp)) t (w, r)" and "(q, a) \<in> set t" and "P q"
    and "\<And>t s x. runs p t (s, x) \<Longrightarrow> \<forall>(q, a) \<in> set t. \<not> P q"
  obtains t1 t2 s1 x where "t = t1 @ t2" "runs p t1 (s1, Inr x)" "runs (f s1 tp x) t2 (w, r)"
    "(q, a) \<in> set t2" "\<forall>(q, a) \<in> set t1. \<not> P q"
proof (rule and_then_after[where P = P, OF assms(1-3)])
  show "\<forall>(q, a) \<in> set t. \<not> P q" if "runs (beside tp p) t x" for t x
    using that assms(4) by (cases x) (fastforce simp: runs_beside)
next
  fix t1 t2 w1 x
  assume "t = t1 @ t2" "runs (beside tp p) t1 (w1, Inr x)" "runs ((\<lambda>(s, tp). f s tp) w1 x) t2 (w, r)"
    "(q, a) \<in> set t2" "\<forall>(q, a) \<in> set t1. \<not> P q"
  then show thesis using that by (auto simp: runs_beside)
qed

context roadmap_store
begin

lemma comment_part_keeps:
  assumes "runs (and_then (if x then beside (snd w0) (so_comment ops (fst w0) n y) else Done ((fst w0, snd w0), Inr ()))
     (\<lambda>w _. Done (w, Inr z))) t (w, r)"
  shows "\<forall>(q, a) \<in> set t. \<not> relabels q"
  using assms comment_keeps
  by (cases x) (fastforce simp: runs_and_then runs_beside)+

lemma write_clear_steps:
  assumes "runs (write_clear ops ce planned limits now c d (s, tp)) t (w, r)" and "(q, a) \<in> set t" and "relabels q"
  obtains t1 t2 s1 u v where "t = t1 @ t2" "(q, a) \<in> set t1" "v \<in> {''Ready'', ''Planned''}"
    "runs (so_set_field ops s c Status (Some v) (clear_marks (ce_codecs ce) d now)) t1 (s1, u)"
proof -
  let ?v = "derive_status \<lparr>sf_plan_merged = plan_merged c planned, sf_job_active = False, sf_stopped = False\<rparr>"
  let ?set = "so_set_field ops s c Status (Some ?v) (clear_marks (ce_codecs ce) d now)"
  have v: "?v \<in> {''Ready'', ''Planned''}" by (simp add: derive_status_def)
  consider e where "runs (beside tp ?set) t (w, Inl e)"
    | t1 t2 w1 where "t = t1 @ t2" "runs (beside tp ?set) t1 (w1, Inr ())" "\<forall>(q, a) \<in> set t2. \<not> relabels q"
    using assms(1) unfolding write_clear_def Let_def prod.case runs_and_then
    by (auto simp: split_beta dest!: comment_part_keeps)
  then show thesis
  proof cases
    case 1
    then show thesis using that[of t "[]"] v assms(2) by (auto simp: runs_beside)
  next
    case 2
    then show thesis using that[of t1 t2] v assms(2,3) by (auto simp: runs_beside)
  qed
qed

lemma clear_reread_writes:
  assumes "runs (clear_reread ops ce planned limits now i comments (s, tp)) t (w, r)"
    and "\<forall>k. known s k Status = it_status k" and "(q, a) \<in> set t" and "relabels q"
  shows "\<exists>t3 q1 a1 q0 a0 c j v. t = [(q1, a1), (q0, a0), (q, a)] @ t3 \<and>
    shown a1 = Some c \<and> is_service_stop c \<and>
    shown a0 = Some j \<and> it_status j \<in> {Some ''Blocked'', Some v} \<and> v \<in> {''Ready'', ''Planned''} \<and>
    puts a0 q Status (Some v)"
proof -
  let ?read = "so_item ops s (it_number i)"
  have no: "\<And>t s x. runs ?read t (s, x) \<Longrightarrow> \<forall>(q, a) \<in> set t. \<not> relabels q"
    using item_reads by blast
  obtain t1 t2 s1 current where r: "t = t1 @ t2" "runs ?read t1 (s1, Inr current)"
      "runs (case current of
         None \<Rightarrow> Done ((s1, tp), Inr None)
       | Some c \<Rightarrow>
           if \<not> is_service_stop c then Done ((s1, tp), Inr None)
           else
             and_then (judged s1 (clearing_rule (ce_codecs ce) (ce_reader ce) limits now c comments tp))
               (\<lambda>w d. case d of
                 None \<Rightarrow> Done (w, Inr None)
               | Some x \<Rightarrow> write_clear ops ce planned limits now c x w)) t2 (w, r)" "(q, a) \<in> set t2"
      "\<forall>(q', a') \<in> set t1. \<not> relabels q'"
    by (rule beside_then_after[where P = relabels,
          OF assms(1)[unfolded clear_reread_def prod.case] assms(3,4) no])
  from r(3,4) obtain c x tp2 where c: "current = Some c" "is_service_stop c"
      "runs (write_clear ops ce planned limits now c x (s1, tp2)) t2 (w, r)"
    by (auto simp: runs_and_then split: option.splits if_splits)
  obtain t3 t4 s2 u v where v: "t2 = t3 @ t4" "(q, a) \<in> set t3" "v \<in> {''Ready'', ''Planned''}"
      "runs (so_set_field ops s1 c Status (Some v) (clear_marks (ce_codecs ce) x now)) t3 (s2, u)"
    by (rule write_clear_steps[OF c(3) r(4) assms(4)])
  obtain q1 a1 q0 a0 j where w: "t1 = [(q1, a1)]" "shown a1 = Some c" "t3 = [(q0, a0), (q, a)]"
      "shown a0 = Some j" "puts a0 q Status (Some v)"
      "field_value j Status = known s c Status \<or> field_value j Status = Some v"
    by (rule write_after_reread[OF r(2)[unfolded c(1)] v(4) _ assms(4)]) (use v(2) in auto)
  have "it_status j \<in> {Some ''Blocked'', Some v}"
    using w(6) assms(2) stop_is_blocked[OF c(2)] by auto
  then show ?thesis using r(1) v(1,3) w c(2)
    by (intro exI[of _ t4] exI[of _ q1] exI[of _ a1] exI[of _ q0] exI[of _ a0] exI[of _ c] exI[of _ j] exI[of _ v]) simp
qed

lemma clear_one_writes:
  assumes "runs (clear_one ops ce planned limits now i (s, tp)) t (w, r)"
    and "\<forall>k. known s k Status = it_status k" and "(q, a) \<in> set t" and "relabels q"
  shows "\<exists>t0 t3 q1 a1 q0 a0 c j v. t = t0 @ [(q1, a1), (q0, a0), (q, a)] @ t3 \<and>
    (\<forall>(q', a') \<in> set t0. \<not> relabels q') \<and> shown a1 = Some c \<and> is_service_stop c \<and>
    shown a0 = Some j \<and> it_status j \<in> {Some ''Blocked'', Some v} \<and> v \<in> {''Ready'', ''Planned''} \<and>
    puts a0 q Status (Some v)"
proof -
  let ?read = "so_comments_on ops s (it_number i)"
  have no: "\<And>t s x. runs ?read t (s, x) \<Longrightarrow> \<forall>(q, a) \<in> set t. \<not> relabels q"
    using comments_read by blast
  obtain t1 t2 s1 comments where r: "t = t1 @ t2" "runs ?read t1 (s1, Inr comments)"
      "runs (and_then (judged s1 (clearing_rule (ce_codecs ce) (ce_reader ce) limits now i comments tp))
         (\<lambda>w d. if d = None then Done (w, Inr None)
               else clear_reread ops ce planned limits now i comments w)) t2 (w, r)" "(q, a) \<in> set t2"
      "\<forall>(q', a') \<in> set t1. \<not> relabels q'"
    by (rule beside_then_after[where P = relabels,
          OF assms(1)[unfolded clear_one_def prod.case] assms(3,4) no])
  have k: "\<forall>k. known s1 k Status = it_status k" using comments_read[OF r(2)] assms(2) by auto
  from r(3,4) obtain tp2 where
      "runs (clear_reread ops ce planned limits now i comments (s1, tp2)) t2 (w, r)"
    by (auto simp: runs_and_then split: if_splits)
  from clear_reread_writes[OF this k r(4) assms(4)] show ?thesis
    using r(1,5) by blast
qed

end

section \<open>The bound on automatic clears\<close>

text \<open>
  The job record of an Item over its life: any other code may rewrite it, but for the two keys that
  count the automatic clears, and each clear writes its marks. \<open>ds\<close> is the decisions that cleared a
  stop, in order, whatever the comments, the template and the clock were.
\<close>

definition marked :: "job_record \<Rightarrow> job_record \<Rightarrow> job_record" where
  "marked r m = foldl (\<lambda>d (k, x). dict_set k x d) r m"

inductive item_life :: "clear_codecs \<Rightarrow> clear_limits \<Rightarrow> job_record \<Rightarrow> decision list \<Rightarrow> job_record \<Rightarrow> bool"
  for cc limits r0 where
  life_begins: "item_life cc limits r0 [] r0"
| life_goes_on: "item_life cc limits r0 ds r \<Longrightarrow>
     \<forall>k \<in> {''implement.continuations'', ''implement.digest_clears''}. record_get r' k = record_get r k \<Longrightarrow>
     item_life cc limits r0 ds r'"
| stop_cleared: "item_life cc limits r0 ds (it_job_record i) \<Longrightarrow>
     clearing_rule cc reader limits now i comments tp = (Inr (Some d), tp') \<Longrightarrow>
     item_life cc limits r0 (ds @ [d]) (marked (it_job_record i) (clear_marks cc d now))"

text \<open>What was written of a count or of a list of clears is read as the count, and with the classes.\<close>

definition codecs_agree :: "clear_codecs \<Rightarrow> bool" where
  "codecs_agree cc =
     ((\<forall>n. cc_count cc (int_text (int n)) = Some n) \<and>
      (\<forall>cs. cc_encode cc cs \<noteq> [] \<and>
         (\<exists>cs'. cc_clears cc (cc_encode cc cs) = Some cs' \<and> map dc_class cs' = map dc_class cs)))"

definition continuations_in :: "decision list \<Rightarrow> nat" where
  "continuations_in ds = length (filter (\<lambda>d. de_rule d = ContinueRule) ds)"

definition digest_clears_in :: "decision list \<Rightarrow> nat" where
  "digest_clears_in ds = length (filter (\<lambda>d. de_rule d = DigestRule) ds)"

definition digest_clears_of :: "failure_class \<Rightarrow> decision list \<Rightarrow> nat" where
  "digest_clears_of c ds = length (filter (\<lambda>d. de_rule d = DigestRule \<and> de_class d = Some c) ds)"

lemmas clear_counts = continuations_in_def digest_clears_in_def digest_clears_of_def

lemma dict_get_marked:
  "dict_get (marked r m) k = (case map_of (rev m) k of None \<Rightarrow> dict_get r k | Some x \<Rightarrow> Some x)"
  unfolding marked_def
  by (induction m rule: rev_induct) (auto simp: dict_get_set)

lemma int_text_nonempty: "int_text (int n) \<noteq> []"
  by (simp add: int_text_def digits_text.simps[of n])

lemma text_cases: "s \<noteq> [] \<Longrightarrow> \<exists>c cs. s = c # cs"
  by (cases s) auto

lemma clear_decides:
  assumes "clearing_rule cc reader limits now i comments tp = (Inr (Some d), tp')"
  shows "de_rule d = RetryRule
     \<or> (de_rule d = ContinueRule \<and> (\<exists>u. used_continuations cc (it_job_record i) = Some u \<and>
          u < cl_continuations limits \<and> de_continuations d = u + 1))
     \<or> (de_rule d = DigestRule \<and> (\<exists>cs c x. recorded_clears cc (it_job_record i) = Some cs \<and>
          length cs < cl_per_item limits \<and> length (filter (\<lambda>x. dc_class x = c) cs) < cl_per_class limits \<and>
          de_clears d = cs @ [x] \<and> dc_class x = c \<and> de_class d = Some c))"
  using assms
  by (auto simp: clearing_rule_def continue_decision_def digest_decision_def not_le
      split: if_splits option.splits prod.splits sum.splits)

lemma continuation_mark:
  "dict_get (marked r (clear_marks cc d now)) ''implement.continuations'' =
     (if de_rule d = ContinueRule then Some (Some (int_text (int (de_continuations d))))
      else dict_get r ''implement.continuations'')"
  unfolding dict_get_marked by (cases "de_rule d") (simp_all add: clear_marks_def stopped_key_def)

lemma digest_mark:
  "dict_get (marked r (clear_marks cc d now)) ''implement.digest_clears'' =
     (if de_rule d = DigestRule then Some (Some (cc_encode cc (de_clears d)))
      else dict_get r ''implement.digest_clears'')"
  unfolding dict_get_marked by (cases "de_rule d") (simp_all add: clear_marks_def stopped_key_def)

lemma continuations_marked:
  assumes "codecs_agree cc"
  shows "used_continuations cc (marked r (clear_marks cc d now)) =
      (if de_rule d = ContinueRule then Some (de_continuations d) else used_continuations cc r)"
proof -
  have "cc_count cc (int_text (int (de_continuations d))) = Some (de_continuations d)"
    using assms by (simp add: codecs_agree_def)
  then show ?thesis
    using text_cases[OF int_text_nonempty[of "de_continuations d"]]
    by (auto simp: used_continuations_def record_get_def continuation_mark)
qed

lemma clears_marked:
  assumes "codecs_agree cc"
  obtains cs where "map dc_class cs = map dc_class (de_clears d)"
    "recorded_clears cc (marked r (clear_marks cc d now)) =
       (if de_rule d = DigestRule then Some cs else recorded_clears cc r)"
proof -
  obtain cs where c: "cc_clears cc (cc_encode cc (de_clears d)) = Some cs" "cc_encode cc (de_clears d) \<noteq> []"
      "map dc_class cs = map dc_class (de_clears d)"
    using assms unfolding codecs_agree_def by blast
  then show thesis
    using that[of cs] text_cases[OF c(2)] by (auto simp: recorded_clears_def record_get_def digest_mark)
qed

definition class_count :: "failure_class \<Rightarrow> digest_clear list \<Rightarrow> nat" where
  "class_count c cs = length (filter (\<lambda>x. dc_class x = c) cs)"

lemma class_count_append [simp]: "class_count c (cs @ ds) = class_count c cs + class_count c ds"
  by (simp add: class_count_def)

lemma class_count_cong:
  assumes "map dc_class cs = map dc_class ds"
  shows "length cs = length ds" and "class_count c cs = class_count c ds"
proof -
  show "length cs = length ds" using assms map_eq_imp_length_eq by blast
  have "class_count c xs = length (filter (\<lambda>x. x = c) (map dc_class xs))" for xs
    by (induction xs) (auto simp: class_count_def)
  from this[of cs] this[of ds] show "class_count c cs = class_count c ds" using assms by metis
qed

definition within_limits :: "clear_codecs \<Rightarrow> clear_limits \<Rightarrow> decision list \<Rightarrow> job_record \<Rightarrow> bool" where
  "within_limits cc limits ds r =
     ((continuations_in ds = 0 \<or> (\<exists>u. used_continuations cc r = Some u \<and> continuations_in ds \<le> u \<and>
            continuations_in ds \<le> cl_continuations limits)) \<and>
      (digest_clears_in ds = 0 \<or> (\<exists>cs. recorded_clears cc r = Some cs \<and> digest_clears_in ds \<le> length cs \<and>
            digest_clears_in ds \<le> cl_per_item limits \<and>
            (\<forall>c. digest_clears_of c ds \<le> class_count c cs \<and> digest_clears_of c ds \<le> cl_per_class limits))))"

lemma no_digest_clear: "digest_clears_in ds = 0 \<Longrightarrow> digest_clears_of c ds = 0"
  by (auto simp: clear_counts filter_empty_conv)

lemma decision_counts_append:
  "continuations_in (ds @ [d]) = continuations_in ds + (if de_rule d = ContinueRule then 1 else 0)"
  "digest_clears_in (ds @ [d]) = digest_clears_in ds + (if de_rule d = DigestRule then 1 else 0)"
  "digest_clears_of c (ds @ [d]) =
     digest_clears_of c ds + (if de_rule d = DigestRule \<and> de_class d = Some c then 1 else 0)"
  by (simp_all add: clear_counts)

lemma digest_clear_within:
  assumes "within_limits cc limits ds r" and "recorded_clears cc r = Some cs"
    and "length cs < cl_per_item limits" and "class_count c cs < cl_per_class limits"
    and "map dc_class cs' = map dc_class (cs @ [x])" and "dc_class x = c"
    and "de_rule d = DigestRule" and "de_class d = Some c"
  shows "digest_clears_in (ds @ [d]) \<le> length cs' \<and> digest_clears_in (ds @ [d]) \<le> cl_per_item limits \<and>
     (\<forall>b. digest_clears_of b (ds @ [d]) \<le> class_count b cs' \<and>
          digest_clears_of b (ds @ [d]) \<le> cl_per_class limits)"
proof -
  have old: "digest_clears_in ds \<le> length cs" "digest_clears_of b ds \<le> class_count b cs"
      "digest_clears_of b ds \<le> cl_per_class limits" for b
    using assms(1,2) no_digest_clear[of ds b] by (auto simp: within_limits_def)
  have new: "length cs' = length cs + 1" "class_count b cs' = class_count b cs + (if b = c then 1 else 0)" for b
    using class_count_cong[OF assms(5)] assms(6) by (auto simp: class_count_def)
  show ?thesis
    using old new assms(3,4,7,8) by (auto simp: decision_counts_append less_imp_le_nat Suc_le_eq intro: le_less_trans)
qed

lemma life_within_limits:
  assumes "item_life cc limits r0 ds r" and "codecs_agree cc"
  shows "within_limits cc limits ds r"
  using assms(1)
proof induction
  case life_begins
  then show ?case by (simp add: within_limits_def clear_counts)
next
  case (life_goes_on ds r r')
  then show ?case by (simp add: within_limits_def used_continuations_def recorded_clears_def)
next
  case (stop_cleared ds i reader now comments tp d tp')
  obtain cs' where cs': "map dc_class cs' = map dc_class (de_clears d)"
    "recorded_clears cc (marked (it_job_record i) (clear_marks cc d now)) =
       (if de_rule d = DigestRule then Some cs' else recorded_clears cc (it_job_record i))"
    by (rule clears_marked[OF assms(2)])
  note used = continuations_marked[OF assms(2), of "it_job_record i" d now]
  from clear_decides[OF stop_cleared.hyps(2)] show ?case
  proof (elim disjE conjE exE)
    assume "de_rule d = RetryRule"
    then show ?thesis
      using stop_cleared.IH cs' used by (simp add: within_limits_def decision_counts_append)
  next
    fix u
    assume "de_rule d = ContinueRule" "used_continuations cc (it_job_record i) = Some u"
      "u < cl_continuations limits" "de_continuations d = u + 1"
    then show ?thesis
      using stop_cleared.IH cs' used by (auto simp: within_limits_def decision_counts_append)
  next
    fix cs c x
    assume d: "de_rule d = DigestRule" "recorded_clears cc (it_job_record i) = Some cs"
      "length cs < cl_per_item limits" "length (filter (\<lambda>x. dc_class x = c) cs) < cl_per_class limits"
      "de_clears d = cs @ [x]" "dc_class x = c" "de_class d = Some c"
    have "digest_clears_in (ds @ [d]) \<le> length cs' \<and> digest_clears_in (ds @ [d]) \<le> cl_per_item limits \<and>
       (\<forall>b. digest_clears_of b (ds @ [d]) \<le> class_count b cs' \<and>
            digest_clears_of b (ds @ [d]) \<le> cl_per_class limits)"
      by (rule digest_clear_within[OF stop_cleared.IH d(2,3) d(4)[folded class_count_def] _ d(6,1,7)])
        (use cs'(1) d(5) in simp)
    then show ?thesis
      using stop_cleared.IH cs' used d(1) by (auto simp: within_limits_def decision_counts_append)
  qed
qed

section \<open>A sample store with records\<close>

definition record_readers :: "held_record \<Rightarrow> body_readers" where
  "record_readers held =
     \<lparr>br_tokens = (\<lambda>_. [\<lparr>tk_level = 0, tk_type = ''html_block'', tk_lines = Some (0, 1)\<rparr>]),
      br_loads = (\<lambda>_. Some (JObj held)), br_dumps = (\<lambda>_. ''d'')\<rparr>"

definition recorded_issue :: "string \<Rightarrow> issue_payload option" where
  "recorded_issue text =
     (case sample_issue ''free'' of
        None \<Rightarrow> None
      | Some p \<Rightarrow> Some (p\<lparr>ip_labels := [''priority/p1-high'', ''status/'' @ text],
                          ip_body := Some (record_open @ ''d'' @ record_close)\<rparr>))"

definition recorded_env :: "held_record \<Rightarrow> store_env" where
  "recorded_env held = sample_store_env\<lparr>se_body := record_readers held, se_issue := recorded_issue\<rparr>"

definition ready_env :: store_env where
  "ready_env = recorded_env [(''Status'', JStr ''Ready'')]"

definition stopped_env :: store_env where
  "stopped_env =
     recorded_env [(''Status'', JStr ''Blocked''), (''implement.stopped'', JStr ''job''),
                   (''implement.failure'', JStr ''provider'')]"

definition sample_shown :: "store_env \<Rightarrow> string \<Rightarrow> item" where
  "sample_shown e text = the (shown_item e (sample_answer text))"

definition merged_facts :: status_facts where
  "merged_facts = \<lparr>sf_plan_merged = True, sf_job_active = False, sf_stopped = False\<rparr>"

lemma sample_sync:
  obtains s' t where
    "runs (sync_status (github_store ready_env) (sample_shown ready_env ''ready'') merged_facts new_store) t
       (s', Inr (Some ''Planned''))" "ends_in_relabel t"
proof (rule answered_gives[where
      p = "sync_status (github_store ready_env) (sample_shown ready_env ''ready'') merged_facts new_store" and
      as = "map sample_answer [''ready'', ''ready'', ''planned'']" and
      P = "\<lambda>x t. snd x = Inr (Some ''Planned'') \<and> ends_in_relabel t"])
  show "case answered (sync_status (github_store ready_env) (sample_shown ready_env ''ready'') merged_facts new_store)
      (map sample_answer [''ready'', ''ready'', ''planned'']) of
    None \<Rightarrow> False | Some (x, t) \<Rightarrow> snd x = Inr (Some ''Planned'') \<and> ends_in_relabel t"
    by code_simp
qed (metis that prod.collapse)

definition class_letters :: "(char \<times> failure_class) list" where
  "class_letters = zip ''abcdefghijklmnopqrs'' (map snd failure_classes)"

definition letter_of :: "failure_class \<Rightarrow> char" where
  "letter_of c = (case find (\<lambda>(l, x). x = c) class_letters of Some (l, _) \<Rightarrow> l | None \<Rightarrow> CHR ''z'')"

definition sample_codecs :: clear_codecs where
  "sample_codecs =
     \<lparr>cc_clears = (\<lambda>s. Some (map (\<lambda>l. \<lparr>dc_class = (case map_of class_letters l of Some c \<Rightarrow> c | None \<Rightarrow> Provider),
          dc_digest = [], dc_time = 0\<rparr>) (drop 1 s))),
      cc_encode = (\<lambda>cs. CHR ''['' # map (letter_of \<circ> dc_class) cs),
      cc_time = (\<lambda>_. None), cc_isoformat = (\<lambda>_. ''t''), cc_count = (\<lambda>s. Some (nat (digits_val s)))\<rparr>"

lemma letter_of_class: "map_of class_letters (letter_of c) = Some c"
  by (cases c) (simp_all add: letter_of_def class_letters_def failure_classes_def)

lemma sample_codecs_agree: "codecs_agree sample_codecs"
proof -
  have "map dc_class (map (\<lambda>l. \<lparr>dc_class = (case map_of class_letters l of Some c \<Rightarrow> c | None \<Rightarrow> Provider),
      dc_digest = [], dc_time = 0\<rparr>) (map (letter_of \<circ> dc_class) cs)) = map dc_class cs" for cs :: "digest_clear list"
    by (simp add: letter_of_class)
  then show ?thesis
    using digits_text_ok by (auto simp: codecs_agree_def sample_codecs_def int_text_def)
qed

definition sample_clear_env :: clear_env where
  "sample_clear_env =
     \<lparr>ce_codecs = sample_codecs, ce_reader = (\<lambda>_. TemplateRefused), ce_wording = (\<lambda>_ _ _ _. ''w'')\<rparr>"

definition sample_limits :: clear_limits where
  "sample_limits = \<lparr>cl_per_class = 1, cl_per_item = 3, cl_continuations = 2\<rparr>"

definition no_plans :: planned_changes where
  "no_plans = \<lparr>pc_active = [], pc_archived = []\<rparr>"

lemma sample_clear:
  obtains w t q a where
    "runs (clear_one (github_store stopped_env) sample_clear_env no_plans sample_limits 0
       (sample_shown stopped_env ''blocked'') (new_store, new_template)) t (w, Inr (Some 7))"
    "(q, a) \<in> set t" "replaces_labels q"
proof (rule answered_gives[where
      p = "clear_one (github_store stopped_env) sample_clear_env no_plans sample_limits 0
        (sample_shown stopped_env ''blocked'') (new_store, new_template)" and
      as = "map sample_answer [''x'', ''blocked'', ''blocked'', ''ready'', ''x'']" and
      P = "\<lambda>x t. snd x = Inr (Some 7) \<and> list_ex (\<lambda>(q, a). replaces_labels q) t"])
  show "case answered (clear_one (github_store stopped_env) sample_clear_env no_plans sample_limits 0
        (sample_shown stopped_env ''blocked'') (new_store, new_template))
      (map sample_answer [''x'', ''blocked'', ''blocked'', ''ready'', ''x'']) of
    None \<Rightarrow> False | Some (x, t) \<Rightarrow> snd x = Inr (Some 7) \<and> list_ex (\<lambda>(q, a). replaces_labels q) t"
    by code_simp
next
  fix x t
  assume "runs (clear_one (github_store stopped_env) sample_clear_env no_plans sample_limits 0
        (sample_shown stopped_env ''blocked'') (new_store, new_template)) t x"
    "snd x = Inr (Some 7) \<and> list_ex (\<lambda>(q, a). replaces_labels q) t"
  then show thesis using that[of t "fst x"] by (cases x) (auto simp: list_ex_iff)
qed

definition stopped_job :: item where
  "stopped_job = sample_shown stopped_env ''blocked''"

section \<open>Properties\<close>

text \<open>
  The Service overwrites only its own Status. A sync that replaces labels, over a store that wrote
  no Status, sends three requests: a read that shows an open Item whose Status, Ready or Planned, is
  the one a job last recorded and the one it was listed with; a read that shows the same Status, or
  the derived one already; and the write of the derived Status, which differs from the first.
\<close>

theorem sync_overwrites_only_its_own_status:
  assumes "runs (sync_status (github_store e) i facts s) t (s', r)"
    and "\<forall>n. dict_get (st_written s) (n, Status) = None"
    and "(q, a) \<in> set t" and "replaces_labels q"
  shows "\<exists>q1 a1 q0 a0 c j. t = [(q1, a1), (q0, a0), (q, a)] \<and> shown_item e a1 = Some c \<and>
     owns_status c \<and> it_status c = it_status i \<and> it_status c \<noteq> Some (derive_status facts) \<and>
     shown_item e a0 = Some j \<and> it_status j \<in> {it_status c, Some (derive_status facts)} \<and>
     field_write e a0 q Status (Some (derive_status facts))"
proof -
  have "\<forall>k. last_known s k Status = it_status k" using assms(2) by (simp add: last_known_def)
  from gh_store.sync_status_writes[OF assms(1) this assms(3,4)] show ?thesis .
qed

theorem sync_overwrites_only_its_own_status_witness:
  "\<exists>t s' q1 a1 q0 a0 q a c. runs (sync_status (github_store ready_env) (sample_shown ready_env ''ready'') merged_facts
       new_store) t (s', Inr (Some ''Planned'')) \<and>
     t = [(q1, a1), (q0, a0), (q, a)] \<and> shown_item ready_env a1 = Some c \<and> owns_status c"
proof -
  obtain s' t where t: "runs (sync_status (github_store ready_env) (sample_shown ready_env ''ready'') merged_facts
      new_store) t (s', Inr (Some ''Planned''))" "ends_in_relabel t"
    by (rule sample_sync)
  obtain q a where qa: "(q, a) \<in> set t" "replaces_labels q" using ends_in_relabelD[OF t(2)] by blast
  have "\<forall>n. dict_get (st_written new_store) (n, Status) = None" by (simp add: new_store_def)
  from sync_overwrites_only_its_own_status[OF t(1) this qa] t(1) show ?thesis by blast
qed

text \<open>
  A run of writes tries every item. When it ends without an error, each item is among the finished
  or the failed ones, as often as it was given, and each failure is an error of the program that
  stops no run; it ends with an error only for one that stops the run or is none of the program's.
\<close>

theorem run_of_writes_tries_every_item:
  assumes "runs (write_each stop ws [] [] s) t (s', r)"
  shows "case r of
      Inr (finished, failed) \<Rightarrow>
        mset (map fst finished) + mset (map fl_number failed) = mset (map (it_number \<circ> fst) ws) \<and>
        (\<forall>x \<in> set failed. is_cli_error (fl_error x) \<and> \<not> stop (fl_error x))
    | Inl e \<Rightarrow> stop e \<or> \<not> is_cli_error e"
proof (cases r)
  case (Inl e)
  then show ?thesis using write_each_stops assms by simp
next
  case (Inr x)
  obtain finished failed where x: "x = (finished, failed)" by (cases x)
  from write_each_tries_all[OF assms[unfolded Inr x]] show ?thesis by (simp add: Inr x)
qed

theorem run_of_writes_tries_every_item_witness:
  "mset (map fst [(7 :: int, ())]) + mset (map fl_number [\<lparr>fl_number = 7, fl_title = ''t'', fl_error = CommandFailed\<rparr>]) =
     mset [7, 7] \<and> is_cli_error CommandFailed \<and> \<not> stops_the_sweep CommandFailed"
proof -
  let ?ws = "[(stopped_job, \<lambda>s. Done (s, Inl CommandFailed)), (stopped_job, \<lambda>s. Done (s, Inr ()))]
      :: (item \<times> (nat \<Rightarrow> (nat, nat, nat \<times> (roadmap_error + unit)) prog)) list"
  have job: "it_number stopped_job = 7" "it_title stopped_job = ''t''" by code_simp+
  have "runs (write_each stops_the_sweep ?ws [] [] 0) []
      (0, Inr ([(7, ())], [\<lparr>fl_number = 7, fl_title = ''t'', fl_error = CommandFailed\<rparr>]))"
    by (simp add: job)
  from run_of_writes_tries_every_item[OF this] show ?thesis by (simp add: job)
qed

text \<open>
  C28: A clear frees only a stop of the Service. A clear that replaces labels, over a store that wrote
  no Status, does so right after two reads: the first shows an open Item with a stop that a job set
  and recorded, which no runner Job holds and no agent or person claimed; the second shows it
  Blocked, or with the new Status already; and the new Status is Ready or Planned.
\<close>

theorem clear_frees_only_service_stops:
  assumes "runs (clear_one (github_store e) ce planned limits now i (s, tp)) t (w, r)"
    and "\<forall>n. dict_get (st_written s) (n, Status) = None"
    and "(q, a) \<in> set t" and "replaces_labels q"
  shows "\<exists>t0 t3 q1 a1 q0 a0 c j v. t = t0 @ [(q1, a1), (q0, a0), (q, a)] @ t3 \<and>
     (\<forall>(q', a') \<in> set t0. \<not> replaces_labels q') \<and> shown_item e a1 = Some c \<and> is_service_stop c \<and>
     shown_item e a0 = Some j \<and> it_status j \<in> {Some ''Blocked'', Some v} \<and>
     v \<in> {''Ready'', ''Planned''} \<and> field_write e a0 q Status (Some v)"
proof -
  have "\<forall>k. last_known s k Status = it_status k" using assms(2) by (simp add: last_known_def)
  from gh_store.clear_one_writes[OF assms(1) this assms(3,4)] show ?thesis .
qed

theorem clear_frees_only_service_stops_witness:
  "\<exists>t w t0 t3 q1 a1 q0 a0 q a c. runs (clear_one (github_store stopped_env) sample_clear_env no_plans sample_limits 0
       (sample_shown stopped_env ''blocked'') (new_store, new_template)) t (w, Inr (Some 7)) \<and>
     t = t0 @ [(q1, a1), (q0, a0), (q, a)] @ t3 \<and> shown_item stopped_env a1 = Some c \<and> is_service_stop c"
proof -
  obtain w t q a where t: "runs (clear_one (github_store stopped_env) sample_clear_env no_plans sample_limits 0
      (sample_shown stopped_env ''blocked'') (new_store, new_template)) t (w, Inr (Some 7))"
      "(q, a) \<in> set t" "replaces_labels q"
    by (rule sample_clear)
  have "\<forall>n. dict_get (st_written new_store) (n, Status) = None" by (simp add: new_store_def)
  from clear_frees_only_service_stops[OF t(1) this t(2,3)] t(1) show ?thesis by blast
qed

text \<open>
  C17: The Service frees an Item by itself a bounded number of times. Over the whole life of an Item,
  whatever else rewrites its record beside the two counts, whatever its stops, the template and the
  clock are, it starts at most \<open>cl_continuations\<close> Jobs to continue a run, and it clears at most
  \<open>cl_per_item\<close> stops for a new runner image, at most \<open>cl_per_class\<close> of each class of failure.
\<close>

theorem automatic_clears_are_bounded:
  assumes "item_life cc limits r0 ds r" and "codecs_agree cc"
  shows "continuations_in ds \<le> cl_continuations limits \<and> digest_clears_in ds \<le> cl_per_item limits \<and>
    (\<forall>c. digest_clears_of c ds \<le> cl_per_class limits)"
  using life_within_limits[OF assms] no_digest_clear[of ds] by (auto simp: within_limits_def)

lemma sample_continuation:
  "clearing_rule sample_codecs (\<lambda>_. TemplateRefused) sample_limits 0 stopped_job [] new_template =
     (Inr (Some \<lparr>de_rule = ContinueRule, de_new = None, de_clears = [], de_class = Some Provider,
                de_comment = True, de_continuations = 1\<rparr>), new_template)"
  by code_simp

theorem automatic_clears_are_bounded_witness:
  "continuations_in [\<lparr>de_rule = ContinueRule, de_new = None, de_clears = [], de_class = Some Provider,
       de_comment = True, de_continuations = 1\<rparr>] \<le> cl_continuations sample_limits"
  using automatic_clears_are_bounded[OF stop_cleared[OF life_begins sample_continuation] sample_codecs_agree]
  by simp

end
