(* ===== verification/ShellPolicy.thy ===== *)
theory ShellPolicy
  imports Prelude
begin

text \<open>
  The shell policy of an implement step: \<^verbatim>\<open>src/devops_cli/roadmap/implement/implement_shell_policy.py\<close>
  and the wrapped tool of \<^verbatim>\<open>implement_shell_refusal.py\<close>. The standard library's \<open>shlex\<close> reader, in its
  POSIX mode with no comments, is modelled here as it reads a text character by character. The texts
  of the refusals, the prompt and the Markdown tables are not modelled: a refusal is a constructor
  with the words it names. The wrapped tool is a parameter.
\<close>

section \<open>Words\<close>

text \<open>
  The states of \<open>shlex\<close>: \<open>' '\<close>, \<open>'a'\<close>, \<open>'c'\<close>, a quote, or a backslash with the quote it stands in.
\<close>

datatype lex_state = InSpace | InWord | InPunct | InQuote char | AfterEscape "char option"

definition lex_blank :: "char \<Rightarrow> bool" where
  "lex_blank c = (c \<in> {CHR '' '', CHR 9, CHR 10, CHR 13})"

definition lex_quote :: "char \<Rightarrow> bool" where
  "lex_quote c = (c \<in> {CHR 34, CHR 39})"

definition emitted :: "string \<Rightarrow> bool \<Rightarrow> string list \<Rightarrow> string list" where
  "emitted tok quoted ws = (if tok \<noteq> [] \<or> quoted then tok # ws else ws)"

fun shlex :: "string \<Rightarrow> lex_state \<Rightarrow> string \<Rightarrow> bool \<Rightarrow> string \<Rightarrow> string list option" where
  \<comment> \<open>\<open>punct\<close> is \<open>punctuation_chars\<close>, \<open>tok\<close> the token so far; \<open>None\<close> where reading raises \<open>ValueError\<close>.\<close>
  "shlex punct InSpace tok quoted [] = Some []"
| "shlex punct InSpace tok quoted (c # s) =
     (if lex_blank c then shlex punct InSpace [] False s
      else if c = CHR 92 then shlex punct (AfterEscape None) [] False s
      else if c \<in> set punct then shlex punct InPunct [c] False s
      else if lex_quote c then shlex punct (InQuote c) [] False s
      else shlex punct InWord [c] False s)"
| "shlex punct InWord tok quoted [] = Some (emitted tok quoted [])"
| "shlex punct InWord tok quoted (c # s) =
     (if lex_blank c then map_option (emitted tok quoted) (shlex punct InSpace [] False s)
      else if lex_quote c then shlex punct (InQuote c) tok quoted s
      else if c = CHR 92 then shlex punct (AfterEscape None) tok quoted s
      else if c \<notin> set punct then shlex punct InWord (tok @ [c]) quoted s
      else map_option (emitted tok quoted) (shlex punct InPunct [c] False s))"
| "shlex punct InPunct tok quoted [] = Some [tok]"
| "shlex punct InPunct tok quoted (c # s) =
     (if lex_blank c then map_option ((#) tok) (shlex punct InSpace [] False s)
      else if c \<in> set punct then shlex punct InPunct (tok @ [c]) quoted s
      else if c = CHR 92 then map_option ((#) tok) (shlex punct (AfterEscape None) [] False s)
      else if lex_quote c then map_option ((#) tok) (shlex punct (InQuote c) [] False s)
      else map_option ((#) tok) (shlex punct InWord [c] False s))"
| "shlex punct (InQuote q) tok quoted [] = None"
| "shlex punct (InQuote q) tok quoted (c # s) =
     (if c = q then shlex punct InWord tok True s
      else if c = CHR 92 \<and> q = CHR 34 then shlex punct (AfterEscape (Some q)) tok True s
      else shlex punct (InQuote q) (tok @ [c]) True s)"
| "shlex punct (AfterEscape b) tok quoted [] = None"
| "shlex punct (AfterEscape b) tok quoted (c # s) =
     (case b of
        None \<Rightarrow> shlex punct InWord (tok @ [c]) quoted s
      | Some q \<Rightarrow>
          shlex punct (InQuote q) (if c \<noteq> CHR 92 \<and> c \<noteq> q then tok @ [CHR 92, c] else tok @ [c]) quoted s)"

definition punctuation :: string where
  "punctuation = ''();<>|&''"

definition shell_words :: "string \<Rightarrow> string list option" where
  \<comment> \<open>\<open>_words\<close>\<close>
  "shell_words command = shlex punctuation InSpace [] False command"

definition shlex_split :: "string \<Rightarrow> string list option" where
  "shlex_split command = shlex [] InSpace [] False command"

section \<open>Programs\<close>

datatype shell_access = ReadAccess | WriteAccess | NetworkAccess

record shell_program =
  sp_name :: string
  sp_access :: shell_access
  sp_refused :: "string list"

definition shell_programs :: "shell_program list" where
  "shell_programs =
     [\<lparr>sp_name = ''git'', sp_access = WriteAccess, sp_refused = []\<rparr>,
      \<lparr>sp_name = ''uv'', sp_access = NetworkAccess, sp_refused = []\<rparr>,
      \<lparr>sp_name = ''ruff'', sp_access = WriteAccess, sp_refused = []\<rparr>,
      \<lparr>sp_name = ''mypy'', sp_access = WriteAccess, sp_refused = []\<rparr>,
      \<lparr>sp_name = ''grep'', sp_access = ReadAccess, sp_refused = []\<rparr>,
      \<lparr>sp_name = ''cat'', sp_access = ReadAccess, sp_refused = []\<rparr>,
      \<lparr>sp_name = ''ls'', sp_access = ReadAccess, sp_refused = []\<rparr>,
      \<lparr>sp_name = ''head'', sp_access = ReadAccess, sp_refused = []\<rparr>,
      \<lparr>sp_name = ''tail'', sp_access = ReadAccess, sp_refused = []\<rparr>,
      \<lparr>sp_name = ''wc'', sp_access = ReadAccess, sp_refused = []\<rparr>,
      \<lparr>sp_name = ''find'', sp_access = ReadAccess,
       sp_refused = [''-exec'', ''-execdir'', ''-ok'', ''-okdir'', ''-delete'', ''-fprint'', ''-fprint0'',
                     ''-fprintf'', ''-fls'']\<rparr>]"

definition verification_programs :: "string list" where
  "verification_programs = [''openspec'', ''devops'']"

definition shell_refusals :: "string list" where
  "shell_refusals = [''python'', ''python3'', ''pytest'', ''pip'', ''pip3'', ''rg'', ''cd'', ''!'']"

definition allowed_programs :: "string list" where
  "allowed_programs = map sp_name shell_programs @ verification_programs"

definition read_pipe_programs :: "string list" where
  "read_pipe_programs = [''head'', ''tail'', ''grep'', ''wc'']"

definition program_named :: "string \<Rightarrow> shell_program option" where
  "program_named w = find (\<lambda>p. sp_name p = w) shell_programs"

section \<open>Refused words\<close>

definition file_redirects :: "string list" where
  "file_redirects = [''>'', ''>>'', ''>|'', ''&>'', ''&>>'']"

definition null_device :: string where
  "null_device = ''/dev/null''"

definition isdigit :: "string \<Rightarrow> bool" where
  \<comment> \<open>\<open>str.isdigit\<close>, which holds of the superscripts one, two and three too.\<close>
  "isdigit s = (s \<noteq> [] \<and> list_all (\<lambda>c. is_digit c \<or> of_char c \<in> {178, 179, 185 :: nat}) s)"

definition writes_file :: "string \<times> string \<Rightarrow> bool" where
  "writes_file p =
     (case p of (w, target) \<Rightarrow>
        (w \<in> set file_redirects \<and> target \<noteq> null_device) \<or>
        (w = ''>&'' \<and> target \<noteq> null_device \<and> \<not> (isdigit target \<or> target = ''-'')))"

definition file_redirect :: "string list \<Rightarrow> string option" where
  "file_redirect ws = map_option fst (find writes_file (zip ws (tl ws @ [[]])))"

definition refused_word :: "shell_program \<Rightarrow> string list \<Rightarrow> string option" where
  "refused_word p ws =
     (case (if sp_access p = ReadAccess then file_redirect ws else None) of
        Some r \<Rightarrow> Some r
      | None \<Rightarrow>
          if sp_refused p = [] then None
          else find (\<lambda>w. w \<in> set (sp_refused p) \<or> CHR ''$'' \<in> set w) (tl ws))"

definition refused_argument :: "string \<Rightarrow> (shell_program \<times> string) option" where
  "refused_argument command =
     (case shell_words command of
        Some (w # ws) \<Rightarrow>
          (case program_named w of
             None \<Rightarrow> None
           | Some p \<Rightarrow> map_option (Pair p) (refused_word p (w # ws)))
      | _ \<Rightarrow> None)"

section \<open>Pipes\<close>

datatype pipe_reason = PipeRefused "string option" | ArgumentRefused string string

fun pipe_stages :: "string list list \<Rightarrow> string list \<Rightarrow> string list \<Rightarrow> string list list option" where
  \<comment> \<open>The stages before, the stage so far and the words left; \<open>None\<close> at an operator that holds a pipe.\<close>
  "pipe_stages earlier stage [] = Some (earlier @ [stage])"
| "pipe_stages earlier stage (w # ws) =
     (if w = ''|'' then pipe_stages (earlier @ [stage]) [] ws
      else if CHR ''|'' \<in> set w \<and> set w \<subseteq> set punctuation then None
      else pipe_stages earlier (stage @ [w]) ws)"

fun stage_refusal :: "string list \<Rightarrow> pipe_reason option" where
  "stage_refusal [] = Some (PipeRefused None)"
| "stage_refusal (w # ws) =
     (case program_named w of
        None \<Rightarrow> Some (PipeRefused (Some w))
      | Some p \<Rightarrow>
          if sp_name p \<notin> set read_pipe_programs then Some (PipeRefused (Some w))
          else map_option (ArgumentRefused (sp_name p)) (refused_word p (w # ws)))"

definition first_of :: "('a \<Rightarrow> 'b option) \<Rightarrow> 'a list \<Rightarrow> 'b option" where
  "first_of f xs = (case List.map_filter f xs of [] \<Rightarrow> None | y # _ \<Rightarrow> Some y)"

definition pipe_refusal :: "string \<Rightarrow> pipe_reason option" where
  "pipe_refusal command =
     (case shell_words command of
        None \<Rightarrow> if CHR ''|'' \<in> set command then Some (PipeRefused None) else None
      | Some ws \<Rightarrow>
          (case pipe_stages [] [] ws of
             None \<Rightarrow> Some (PipeRefused None)
           | Some stages \<Rightarrow> first_of stage_refusal (tl stages)))"

section \<open>The prefix of the checkout\<close>

definition after :: "string \<Rightarrow> string \<Rightarrow> string option" where
  "after p s = (if prefix p s then Some (drop (length p) s) else None)"

definition after_spaces :: "string \<Rightarrow> string option" where
  \<comment> \<open>After one space or more.\<close>
  "after_spaces s = (if prefix '' '' s then Some (dropWhile (\<lambda>c. c = CHR '' '') s) else None)"

definition after_checkout :: "string \<Rightarrow> string \<Rightarrow> string option" where
  "after_checkout form s =
     (case after form s of
        None \<Rightarrow> None
      | Some s1 \<Rightarrow>
          (case after_spaces s1 of
             None \<Rightarrow> None
           | Some s2 \<Rightarrow> (case after ''&&'' s2 of None \<Rightarrow> None | Some s3 \<Rightarrow> after_spaces s3)))"

definition without_checkout_prefix :: "string \<Rightarrow> string \<Rightarrow> string" where
  \<comment> \<open>The checkout's path starts with no space.\<close>
  "without_checkout_prefix command checkout =
     (case after ''cd'' (dropWhile is_space command) of
        None \<Rightarrow> command
      | Some s1 \<Rightarrow>
          (case after_spaces s1 of
             None \<Rightarrow> command
           | Some s2 \<Rightarrow>
               (case first_of (\<lambda>form. after_checkout form s2)
                       [checkout, [CHR 39] @ checkout @ [CHR 39], [CHR 34] @ checkout @ [CHR 34]] of
                  None \<Rightarrow> command
                | Some rest \<Rightarrow> rest)))"

section \<open>Shown texts\<close>

definition hex_char :: "nat \<Rightarrow> char" where
  "hex_char n = char_of (if n < 10 then 48 + n else 87 + n)"

definition escaped_char :: "char \<Rightarrow> string" where
  \<comment> \<open>\<open>unicode_escape\<close> of a character below 256.\<close>
  "escaped_char c =
     (let n = of_char c :: nat in
      if n = 92 then [CHR 92, CHR 92]
      else if n = 9 then [CHR 92, CHR ''t'']
      else if n = 10 then [CHR 92, CHR ''n'']
      else if n = 13 then [CHR 92, CHR ''r'']
      else if 32 \<le> n \<and> n < 127 then [c]
      else [CHR 92, CHR ''x'', hex_char (n div 16), hex_char (n mod 16)])"

definition shown :: "string \<Rightarrow> string" where
  "shown text =
     (let e = concat (map escaped_char text) in if length e \<le> 60 then e else take 60 e @ ''...'')"

section \<open>Negative searches\<close>

definition negative_search_start :: "string list" where
  "negative_search_start = [''!'', ''git'', ''grep'']"

definition is_option :: "string \<Rightarrow> bool" where
  "is_option w = (prefix ''-'' w \<and> tl w \<noteq> [] \<and> set (tl w) \<subseteq> set ''nIFiwlcq'')"

definition is_literal :: "string \<Rightarrow> bool" where
  "is_literal w = (w \<noteq> [] \<and> list_all (\<lambda>c. is_word_char c \<or> c \<in> set '' .:/=@+,#%~-'') w)"

definition is_path :: "string \<Rightarrow> bool" where
  "is_path w =
     (w \<noteq> [] \<and> list_all (\<lambda>c. is_word_char c \<or> c \<in> set ''.+@~*/-'') w \<and>
      \<not> (prefix ''-'' w \<or> prefix ''/'' w) \<and> ''..'' \<notin> set (split_on (CHR ''/'') w))"

record negative_search =
  ns_options :: "string list"
  ns_literals :: "string list"
  ns_paths :: "string list"
  ns_by_e :: bool

definition search_argv :: "negative_search \<Rightarrow> string list" where
  "search_argv n =
     [''git'', ''grep''] @ ns_options n @
     (if ns_by_e n then concat (map (\<lambda>l. [''-e'', l]) (ns_literals n)) else ns_literals n) @
     [''--''] @ ns_paths n"

datatype search_reason =
    SearchStart | SearchOption string | NoText | BadLiteral string | NoPath | BadPath string
  | EValue | EDash string | EForms string

fun read_e_literals :: "string list \<Rightarrow> string list \<Rightarrow> string list \<Rightarrow> search_reason + negative_search" where
  "read_e_literals opts lits rest =
     (case rest of
        [] \<Rightarrow> Inl NoPath
      | w # ws \<Rightarrow>
          if w = ''-e'' then
            (case ws of
               [] \<Rightarrow> Inl EValue
             | v # vs \<Rightarrow>
                 if v = ''--'' then Inl EValue
                 else if prefix ''-'' v then Inl (EDash v)
                 else if \<not> is_literal v then Inl (BadLiteral v)
                 else read_e_literals opts (lits @ [v]) vs)
          else if w \<noteq> ''--'' then Inl (EForms w)
          else if ws = [] then Inl NoPath
          else (case find (\<lambda>p. \<not> is_path p) ws of
                  Some p \<Rightarrow> Inl (BadPath p)
                | None \<Rightarrow> Inr \<lparr>ns_options = opts, ns_literals = lits, ns_paths = ws, ns_by_e = True\<rparr>))"

declare read_e_literals.simps [simp del]

fun read_options :: "string list \<Rightarrow> search_reason + string list \<times> string list" where
  \<comment> \<open>The options, and the words after them.\<close>
  "read_options [] = Inr ([], [])"
| "read_options (w # ws) =
     (if prefix ''-'' w \<and> w \<noteq> ''-e'' then
        (if \<not> is_option w then Inl (SearchOption w)
         else case read_options ws of Inl e \<Rightarrow> Inl e | Inr (os, rest) \<Rightarrow> Inr (w # os, rest))
      else Inr ([], w # ws))"

definition read_one_literal :: "string list \<Rightarrow> string list \<Rightarrow> search_reason + negative_search" where
  "read_one_literal opts rest =
     (case rest of
        [] \<Rightarrow> Inl NoText
      | literal # ws \<Rightarrow>
          if \<not> is_literal literal then Inl (BadLiteral literal)
          else
            (let paths = (if take 1 ws = [''--''] then tl ws else ws) in
             if paths = [] then Inl NoPath
             else case find (\<lambda>p. \<not> is_path p) paths of
                 Some p \<Rightarrow> Inl (BadPath p)
               | None \<Rightarrow> Inr \<lparr>ns_options = opts, ns_literals = [literal], ns_paths = paths,
                              ns_by_e = False\<rparr>))"

definition read_negative_search :: "string list \<Rightarrow> search_reason + negative_search" where
  "read_negative_search words =
     (if take 3 words \<noteq> negative_search_start then Inl SearchStart
      else case read_options (drop 3 words) of
          Inl e \<Rightarrow> Inl e
        | Inr (opts, rest) \<Rightarrow>
            if take 1 rest = [''-e''] then read_e_literals opts [] rest else read_one_literal opts rest)"

section \<open>Verification commands\<close>

record verification =
  vf_argv :: "string list"
  vf_negative :: bool

datatype verify_reason = Unparsed | BadBytes | TooLong | SearchRefused search_reason | ProgramRefused string

definition verify_chars :: nat where
  "verify_chars = 2000"

definition is_argument :: "string \<Rightarrow> bool" where
  \<comment> \<open>A text of characters below 256 encodes to UTF-8.\<close>
  "is_argument w = (CHR 0x00 \<notin> set w)"

definition read_verification :: "string \<Rightarrow> verify_reason + verification" where
  "read_verification command =
     (case shlex_split command of
        None \<Rightarrow> Inl Unparsed
      | Some [] \<Rightarrow> Inl Unparsed
      | Some (w # ws) \<Rightarrow>
          if \<not> list_all is_argument (w # ws) then Inl BadBytes
          else if sum_list (map length (w # ws)) > verify_chars then Inl TooLong
          else if w = ''!'' then
            (case read_negative_search (w # ws) of
               Inl e \<Rightarrow> Inl (SearchRefused e)
             | Inr n \<Rightarrow> Inr \<lparr>vf_argv = search_argv n, vf_negative = True\<rparr>)
          else if w \<notin> set allowed_programs then Inl (ProgramRefused w)
          else Inr \<lparr>vf_argv = w # ws, vf_negative = False\<rparr>)"

definition verification_problem :: "string \<Rightarrow> verify_reason option" where
  "verification_problem command =
     (case read_verification command of Inl e \<Rightarrow> Some e | Inr _ \<Rightarrow> None)"

section \<open>The wrapped tool\<close>

datatype refusal_hint = Replacement string | OneCommand | AllowedPrograms

definition refusal_hint_of :: "string \<Rightarrow> refusal_hint" where
  "refusal_hint_of w =
     (if w \<in> set shell_refusals then Replacement w
      else if w \<in> set (map sp_name shell_programs) then OneCommand
      else AllowedPrograms)"

definition command_word :: "string option \<Rightarrow> string option" where
  "command_word command =
     (case command of
        None \<Rightarrow> None
      | Some c \<Rightarrow>
          (case shlex_split c of None \<Rightarrow> Some [] | Some [] \<Rightarrow> None | Some (w # _) \<Rightarrow> Some w))"

text \<open>What the wrapped tool does: it answers, or it raises \<open>ModelRetry\<close>, of a permission or not.\<close>

datatype tool_outcome = ToolAnswer string | ToolRetry string bool | ToolRaises string

datatype call_result =
    Returned string
  | RefusedPipe pipe_reason
  | RefusedArgument string string
  | RefusedProgram string refusal_hint
  | Reraised tool_outcome

definition run_error_chars :: nat where
  "run_error_chars = 500"

definition call_tool ::
  "string option \<Rightarrow> (string option \<Rightarrow> tool_outcome) \<Rightarrow> string \<Rightarrow> string option \<Rightarrow> string set \<Rightarrow>
   call_result \<times> string option option \<times> string set" where
  \<comment> \<open>The result, the command that the wrapped tool ran (\<open>None\<close> when it ran none), and the refused calls.\<close>
  "call_tool checkout wrapped call_id command refusals =
     (let command1 = (case (command, checkout) of
                        (Some c, Some path) \<Rightarrow> Some (without_checkout_prefix c path)
                      | _ \<Rightarrow> command)
      in case (case command1 of None \<Rightarrow> None | Some c \<Rightarrow> pipe_refusal c) of
           Some r \<Rightarrow> (RefusedPipe r, None, insert call_id refusals)
         | None \<Rightarrow>
             (case (case command1 of None \<Rightarrow> None | Some c \<Rightarrow> refused_argument c) of
                Some (p, w) \<Rightarrow> (RefusedArgument (sp_name p) w, None, insert call_id refusals)
              | None \<Rightarrow>
                  (case wrapped command1 of
                     ToolAnswer x \<Rightarrow> (Returned x, Some command1, refusals)
                   | ToolRetry m permission \<Rightarrow>
                       (case command_word command1 of
                          Some w \<Rightarrow>
                            if permission
                            then (RefusedProgram (take run_error_chars m) (refusal_hint_of w), Some command1,
                                  insert call_id refusals)
                            else (Reraised (ToolRetry m permission), Some command1, refusals)
                        | None \<Rightarrow> (Reraised (ToolRetry m permission), Some command1, refusals))
                   | ToolRaises x \<Rightarrow> (Reraised (ToolRaises x), Some command1, refusals))))"

end
