(* ===== verification/ShellPolicyProps.thy ===== *)
theory ShellPolicyProps
  imports ShellPolicy
begin

text \<open>
  What the shell policy of an implement step admits: the stages of a pipe, the commands that reach
  the wrapped tool, and the processes of the verification commands.
\<close>

section \<open>Pipes\<close>

definition pipe_operator :: "string \<Rightarrow> bool" where
  "pipe_operator w = (CHR ''|'' \<in> set w \<and> set w \<subseteq> set punctuation)"

lemma pipe_stages_join:
  "pipe_stages earlier stage ws = Some stages \<Longrightarrow>
     \<exists>first rest. stages = earlier @ (stage @ first) # rest \<and> ws = first @ concat (map ((#) ''|'') rest) \<and>
       (\<forall>w \<in> set first \<union> \<Union> (set ` set rest). \<not> pipe_operator w)"
proof (induction earlier stage ws rule: pipe_stages.induct)
  case (2 earlier stage w ws)
  show ?case
  proof (cases "w = ''|''")
    case True
    with 2 obtain first rest where "stages = (earlier @ [stage]) @ ([] @ first) # rest"
        "ws = first @ concat (map ((#) ''|'') rest)"
        "\<forall>w \<in> set first \<union> \<Union> (set ` set rest). \<not> pipe_operator w" by auto
    then show ?thesis
      using True by (intro exI[of _ "[]"] exI[of _ "first # rest"]) auto
  next
    case False
    then have no: "\<not> (CHR ''|'' \<in> set w \<and> set w \<subseteq> set punctuation)"
      using "2.prems" by (metis option.distinct(1) pipe_stages.simps(2))
    with False "2.prems" have "pipe_stages earlier (stage @ [w]) ws = Some stages"
      by (simp only: pipe_stages.simps if_False)
    from "2.IH"(2)[OF False no this] obtain first rest
      where "stages = earlier @ ((stage @ [w]) @ first) # rest" "ws = first @ concat (map ((#) ''|'') rest)"
        "\<forall>w \<in> set first \<union> \<Union> (set ` set rest). \<not> pipe_operator w" by blast
    moreover have "\<not> pipe_operator w" using no by (simp add: pipe_operator_def)
    ultimately show ?thesis
      by (intro exI[of _ "w # first"] exI[of _ rest]) auto
  qed
qed (auto intro: exI[of _ "[]"])

lemma first_of_None: "first_of f xs = None \<longleftrightarrow> (\<forall>x \<in> set xs. f x = None)"
  by (induction xs) (auto simp: first_of_def List.map_filter_simps split: option.splits)

lemma read_pipe_programs_read:
  "program_named w = Some p \<Longrightarrow> sp_name p = w \<and> (w \<in> set read_pipe_programs \<longrightarrow> sp_access p = ReadAccess)"
proof
  assume p: "program_named w = Some p"
  then show "sp_name p = w" by (auto simp: program_named_def find_Some_iff)
  have "list_all (\<lambda>p. sp_name p \<in> set read_pipe_programs \<longrightarrow> sp_access p = ReadAccess) shell_programs"
    by code_simp
  then show "w \<in> set read_pipe_programs \<longrightarrow> sp_access p = ReadAccess"
    using p by (auto simp: program_named_def find_Some_iff list_all_length)
qed

definition reads_only :: "string list \<Rightarrow> bool" where
  "reads_only st = (\<exists>w ws. st = w # ws \<and> w \<in> set read_pipe_programs \<and> file_redirect st = None)"

text \<open>The words are stages between plain pipes, and each stage after the first only reads.\<close>

definition plain_pipes :: "string list \<Rightarrow> bool" where
  "plain_pipes ws =
     (\<exists>first rest. ws = first @ concat (map ((#) ''|'') rest) \<and>
        (\<forall>w \<in> set first \<union> \<Union> (set ` set rest). \<not> pipe_operator w) \<and> (\<forall>st \<in> set rest. reads_only st))"

lemma admitted_stage: "stage_refusal st = None \<Longrightarrow> reads_only st"
  using read_pipe_programs_read
  by (cases st) (auto simp: reads_only_def refused_word_def split: option.splits if_splits)

lemma admitted_pipe:
  assumes "pipe_refusal command = None" and "shell_words command = Some ws"
  shows "plain_pipes ws"
proof -
  obtain stages where s: "pipe_stages [] [] ws = Some stages" "\<forall>st \<in> set (tl stages). stage_refusal st = None"
    using assms by (auto simp: pipe_refusal_def first_of_None split: option.splits)
  from pipe_stages_join[OF s(1)] obtain first rest where "stages = first # rest"
      "ws = first @ concat (map ((#) ''|'') rest)" "\<forall>w \<in> set first \<union> \<Union> (set ` set rest). \<not> pipe_operator w"
    by auto
  moreover have "\<forall>st \<in> set rest. reads_only st" using s(2) admitted_stage calculation(1) by simp
  ultimately show ?thesis unfolding plain_pipes_def by blast
qed

lemma tool_runs_admitted:
  assumes "call_tool checkout wrapped call_id command refusals = (r, Some (Some c), refusals')"
  shows "pipe_refusal c = None \<and> refused_argument c = None"
  using assms by (auto simp: call_tool_def Let_def split: option.splits tool_outcome.splits if_splits prod.splits)

fun is_refusal :: "call_result \<Rightarrow> bool" where
  "is_refusal (RefusedPipe _) = True"
| "is_refusal (RefusedArgument _ _) = True"
| "is_refusal (RefusedProgram _ _) = True"
| "is_refusal _ = False"

text \<open>A refusal of the shell itself is of a permission, and of a command that names a program.\<close>

definition shell_refuses :: "(string option \<Rightarrow> tool_outcome) \<Rightarrow> string option \<Rightarrow> bool" where
  "shell_refuses wrapped command =
     ((\<exists>m. wrapped command = ToolRetry m True) \<and> command_word command \<noteq> None)"

lemma call_tool_refusals:
  assumes "call_tool checkout wrapped call_id command refusals = (r, sent, refusals')"
  shows "refusals' = (if is_refusal r then insert call_id refusals else refusals)"
    and "is_refusal r = (case sent of None \<Rightarrow> True | Some c \<Rightarrow> shell_refuses wrapped c)"
  using assms
  by (auto simp: call_tool_def shell_refuses_def Let_def
      split: option.splits tool_outcome.splits if_splits prod.splits)

text \<open>
  C16: The wrapped shell runs only admitted pipes. When a call reaches the wrapped tool with a command
  that \<open>shlex\<close> can read, the words of the command are stages between plain pipes: no word is another
  operator with a pipe in it, and each stage after the first starts with \<open>head\<close>, \<open>tail\<close>, \<open>grep\<close> or
  \<open>wc\<close> and holds none of the redirects that the policy knows to write a file. A call comes back as a
  refusal exactly when it does not reach the tool, or when the tool itself refuses the command's
  program by policy; each refusal is noted under its call, and no other call is.
\<close>

theorem wrapped_shell_runs_admitted_pipes:
  assumes "call_tool checkout wrapped call_id command refusals = (r, sent, refusals')"
  shows "(case sent of
      None \<Rightarrow> True
    | Some None \<Rightarrow> command = None
    | Some (Some c) \<Rightarrow> refused_argument c = None \<and> (\<forall>ws. shell_words c = Some ws \<longrightarrow> plain_pipes ws))
    \<and> is_refusal r = (case sent of None \<Rightarrow> True | Some c \<Rightarrow> shell_refuses wrapped c)
    \<and> refusals' = (if is_refusal r then insert call_id refusals else refusals)"
proof -
  have "case sent of
      None \<Rightarrow> True
    | Some None \<Rightarrow> command = None
    | Some (Some c) \<Rightarrow> refused_argument c = None \<and> (\<forall>ws. shell_words c = Some ws \<longrightarrow> plain_pipes ws)"
  proof (cases sent)
    case (Some x)
    show ?thesis
    proof (cases x)
      case None
      then show ?thesis using assms Some
        by (auto simp: call_tool_def Let_def split: option.splits tool_outcome.splits if_splits prod.splits)
    next
      case (Some c)
      have "pipe_refusal c = None \<and> refused_argument c = None"
        by (rule tool_runs_admitted[OF assms[unfolded \<open>sent = Some x\<close> Some]])
      then show ?thesis using admitted_pipe[of c] \<open>sent = Some x\<close> Some by simp
    qed
  qed simp
  then show ?thesis using call_tool_refusals[OF assms] by blast
qed

theorem wrapped_shell_runs_admitted_pipes_witness: "plain_pipes [''ls'', ''|'', ''head'']"
proof -
  have "call_tool None (\<lambda>_. ToolAnswer ''x'') ''i'' (Some ''ls|head'') {} =
      (Returned ''x'', Some (Some ''ls|head''), {})" "shell_words ''ls|head'' = Some [''ls'', ''|'', ''head'']"
    by code_simp+
  from wrapped_shell_runs_admitted_pipes[OF this(1)] this(2) show ?thesis by simp
qed

section \<open>Negative searches\<close>

definition search_ok :: "negative_search \<Rightarrow> bool" where
  "search_ok n =
     (list_all is_option (ns_options n) \<and> ns_literals n \<noteq> [] \<and> ns_paths n \<noteq> [] \<and>
      list_all (\<lambda>l. is_literal l \<and> \<not> prefix ''-'' l) (ns_literals n) \<and> list_all is_path (ns_paths n) \<and>
      (ns_by_e n \<or> (\<exists>l. ns_literals n = [l])))"

lemma find_None_all: "find (\<lambda>p. \<not> P p) xs = None \<Longrightarrow> list_all P xs"
  by (auto simp: find_None_iff list_all_iff)

lemma read_options_ok:
  "read_options ws = Inr (os, rest) \<Longrightarrow>
     list_all is_option os \<and> (rest = [] \<or> \<not> prefix ''-'' (hd rest) \<or> hd rest = ''-e'')"
  by (induction ws arbitrary: os rest) (auto split: if_splits sum.splits)

lemma read_one_literal_ok:
  assumes "read_one_literal os rest = Inr n" and "list_all is_option os" and "\<not> prefix ''-'' (hd rest)"
  shows "search_ok n"
  using assms
  by (auto simp: read_one_literal_def search_ok_def Let_def split: list.splits if_splits option.splits
      dest!: find_None_all)

lemma read_e_literals_ok:
  "read_e_literals os lits rest = Inr n \<Longrightarrow> list_all is_option os \<Longrightarrow>
     list_all (\<lambda>l. is_literal l \<and> \<not> prefix ''-'' l) lits \<Longrightarrow> lits \<noteq> [] \<or> take 1 rest = [''-e''] \<Longrightarrow> search_ok n"
proof (induction os lits rest rule: read_e_literals.induct)
  case (1 opts lits rest)
  from "1.prems"(1) show ?case
    unfolding read_e_literals.simps[of opts lits rest]
    using "1.IH" "1.prems"(2-4)
    by (auto simp: search_ok_def split: list.splits if_splits option.splits dest!: find_None_all)
qed

lemma read_negative_search_ok:
  assumes "read_negative_search words = Inr n"
  shows "search_ok n"
proof -
  obtain os rest where r: "read_options (drop 3 words) = Inr (os, rest)"
      "(if take 1 rest = [''-e''] then read_e_literals os [] rest else read_one_literal os rest) = Inr n"
    using assms by (auto simp: read_negative_search_def split: if_splits sum.splits)
  show ?thesis
  proof (cases "take 1 rest = [''-e'']")
    case True
    then show ?thesis using r read_options_ok[OF r(1)] read_e_literals_ok[of os "[]" rest n] by auto
  next
    case False
    then have "rest = [] \<or> \<not> prefix ''-'' (hd rest)"
      using read_options_ok[OF r(1)] by (cases rest) auto
    then show ?thesis
      using r False read_options_ok[OF r(1)] read_one_literal_ok[of os rest n]
      by (auto simp: read_one_literal_def split: if_splits)
  qed
qed

text \<open>
  A negative search stays in its shape. Whatever the words of a verification command are, the
  process of a search that is read is \<open>git grep\<close>, options of the letters \<open>nIFiwlcq\<close>, plain literals
  that start with no \<open>-\<close>, each behind its own \<open>-e\<close> in that form, then \<open>--\<close> and at least one path,
  and no path is absolute, starts with \<open>-\<close> or has a part \<open>..\<close>.
\<close>

theorem negative_search_keeps_its_shape:
  assumes "read_negative_search words = Inr n"
  shows "\<exists>opts patterns paths. search_argv n = [''git'', ''grep''] @ opts @ patterns @ [''--''] @ paths \<and>
     (\<forall>w \<in> set opts. prefix ''-'' w \<and> set (tl w) \<subseteq> set ''nIFiwlcq'') \<and>
     (patterns = concat (map (\<lambda>l. [''-e'', l]) (ns_literals n)) \<or> patterns = ns_literals n \<and> length patterns = 1) \<and>
     (\<forall>l \<in> set (ns_literals n). is_literal l \<and> \<not> prefix ''-'' l) \<and> paths \<noteq> [] \<and>
     (\<forall>p \<in> set paths. \<not> prefix ''/'' p \<and> \<not> prefix ''-'' p \<and> ''..'' \<notin> set (split_on (CHR ''/'') p))"
proof -
  have ok: "search_ok n" using read_negative_search_ok[OF assms] .
  show ?thesis
    by (rule exI[of _ "ns_options n"],
        rule exI[of _ "if ns_by_e n then concat (map (\<lambda>l. [''-e'', l]) (ns_literals n)) else ns_literals n"],
        rule exI[of _ "ns_paths n"])
      (use ok in \<open>auto simp: search_ok_def search_argv_def list_all_iff is_option_def is_path_def\<close>)
qed

lemma sample_search:
  "read_negative_search [''!'', ''git'', ''grep'', ''-n'', ''foo'', ''src''] =
     Inr \<lparr>ns_options = [''-n''], ns_literals = [''foo''], ns_paths = [''src''], ns_by_e = False\<rparr>"
  by code_simp

theorem negative_search_keeps_its_shape_witness:
  "\<exists>opts patterns paths. search_argv \<lparr>ns_options = [''-n''], ns_literals = [''foo''], ns_paths = [''src''],
       ns_by_e = False\<rparr> = [''git'', ''grep''] @ opts @ patterns @ [''--''] @ paths \<and> paths \<noteq> []"
  using negative_search_keeps_its_shape[OF sample_search] by blast

lemma read_options_append:
  "list_all is_option os \<Longrightarrow> rest \<noteq> [] \<Longrightarrow> \<not> prefix ''-'' (hd rest) \<or> hd rest = ''-e'' \<Longrightarrow>
     read_options (os @ rest) = Inr (os, rest)"
proof (induction os)
  case Nil
  then show ?case by (cases rest) auto
next
  case (Cons w os)
  then show ?case by (auto simp: is_option_def)
qed

lemma no_bad_path: "list_all is_path ps \<Longrightarrow> find (\<lambda>p. \<not> is_path p) ps = None"
  by (auto simp: find_None_iff list_all_iff)

lemma literal_is_no_mark: "is_literal l \<Longrightarrow> \<not> prefix ''-'' l \<Longrightarrow> l \<noteq> ''--''"
  by auto

lemma read_e_literals_back:
  assumes "list_all is_path ps" and "ps \<noteq> []"
    and "list_all (\<lambda>l. is_literal l \<and> \<not> prefix ''-'' l) ls"
  shows "read_e_literals os lits (concat (map (\<lambda>l. [''-e'', l]) ls) @ ''--'' # ps) =
     Inr \<lparr>ns_options = os, ns_literals = lits @ ls, ns_paths = ps, ns_by_e = True\<rparr>"
  using assms(3)
proof (induction ls arbitrary: lits)
  case Nil
  then show ?case using assms(1,2) no_bad_path by (simp add: read_e_literals.simps)
next
  case (Cons l ls)
  then show ?case using literal_is_no_mark[of l] by (simp add: read_e_literals.simps)
qed

text \<open>
  What the step runs reads back as what it read: the words of the process of a negative search,
  behind \<open>!\<close>, are read as the same search.
\<close>

theorem negative_search_reads_back:
  assumes "read_negative_search words = Inr n"
  shows "read_negative_search (''!'' # search_argv n) = Inr n"
proof -
  have ok: "search_ok n" using read_negative_search_ok[OF assms] .
  then have parts: "list_all is_option (ns_options n)" "list_all is_path (ns_paths n)" "ns_paths n \<noteq> []"
      "list_all (\<lambda>l. is_literal l \<and> \<not> prefix ''-'' l) (ns_literals n)" "ns_literals n \<noteq> []"
    by (simp_all add: search_ok_def)
  show ?thesis
  proof (cases "ns_by_e n")
    case True
    obtain l ls where "ns_literals n = l # ls" using parts(5) by (cases "ns_literals n") auto
    then show ?thesis
      using True parts read_e_literals_back[OF parts(2,3,4), of "ns_options n" "[]"]
      by (simp add: read_negative_search_def search_argv_def negative_search_start_def read_options_append)
  next
    case False
    then obtain l where l: "ns_literals n = [l]" using ok by (auto simp: search_ok_def)
    with parts(4) have "is_literal l" "\<not> prefix ''-'' l" by simp_all
    then show ?thesis
      using False l parts no_bad_path
      by (auto simp: read_negative_search_def search_argv_def negative_search_start_def read_options_append
          read_one_literal_def)
  qed
qed

theorem negative_search_reads_back_witness:
  "read_negative_search [''!'', ''git'', ''grep'', ''-n'', ''foo'', ''--'', ''src''] =
     Inr \<lparr>ns_options = [''-n''], ns_literals = [''foo''], ns_paths = [''src''], ns_by_e = False\<rparr>"
  using negative_search_reads_back[OF sample_search] by (simp add: search_argv_def)

section \<open>Verification commands\<close>

text \<open>
  A verification starts only a known program. The process of an accepted verification command is
  one of the programs of the table, \<open>openspec\<close> or \<open>devops\<close>, or the \<open>git grep\<close> of a negative search;
  when it is no search its words are those that \<open>shlex\<close> reads in the command, with no NUL byte and
  at most 2000 characters in all.
\<close>

theorem verification_starts_known_programs:
  assumes "read_verification command = Inr v"
  shows "hd (vf_argv v) \<in> set allowed_programs \<and>
    (if vf_negative v then take 2 (vf_argv v) = [''git'', ''grep'']
     else shlex_split command = Some (vf_argv v) \<and> list_all is_argument (vf_argv v) \<and>
          sum_list (map length (vf_argv v)) \<le> verify_chars)"
proof -
  have git: "''git'' \<in> set allowed_programs" by code_simp
  show ?thesis
    using assms git
    by (auto simp: read_verification_def search_argv_def split: option.splits list.splits if_splits sum.splits)
qed

theorem verification_starts_known_programs_witness:
  "hd [''git'', ''grep'', ''a'', ''--'', ''b''] \<in> set allowed_programs"
proof -
  have "read_verification ''! git grep a b'' =
      Inr \<lparr>vf_argv = [''git'', ''grep'', ''a'', ''--'', ''b''], vf_negative = True\<rparr>"
    by code_simp
  from verification_starts_known_programs[OF this] show ?thesis by simp
qed

section \<open>A redirect that the policy does not know\<close>

text \<open>
  A program that only reads can write a file. The redirect \<open>1<>f\<close> opens \<open>f\<close> for reading and
  writing, makes it where it is missing and lets \<open>ls\<close> write into it; \<open>shlex\<close> reads it as the word
  \<open><>\<close>, which is none of the redirects that the policy refuses for a program with access \<open>read\<close>, and
  the command goes to the shell, while \<open>ls > f\<close> is refused.
\<close>

theorem read_program_can_redirect:
  "shell_words ''ls 1<>f'' = Some [''ls'', ''1'', ''<>'', ''f''] \<and>
   map_option sp_access (program_named ''ls'') = Some ReadAccess \<and>
   refused_argument ''ls 1<>f'' = None \<and> pipe_refusal ''ls 1<>f'' = None \<and>
   refused_argument ''ls > f'' \<noteq> None"
  by code_simp

end
