(* ===== verification/BranchForm.thy ===== *)
theory BranchForm
  imports PullFormProps
begin

text \<open>
  The branch form \<open><type>/<issue>-<slug>\<close>, \<^verbatim>\<open>src/devops_cli/git/branch_form.py\<close>, the parts of an
  issue's title, \<^verbatim>\<open>src/devops_cli/roadmap/commit_title.py\<close>, and the slug that a title gives,
  \<^verbatim>\<open>src/devops_cli/roadmap/stage/stage.py\<close>. What follows each is how a branch reads back.
\<close>

section \<open>Parts of a text\<close>

definition upto_char :: "char \<Rightarrow> string \<Rightarrow> string" where
  \<comment> \<open>\<open>text.partition(c)[0]\<close>\<close>
  "upto_char c s = takeWhile (\<lambda>x. x \<noteq> c) s"

definition past_char :: "char \<Rightarrow> string \<Rightarrow> string" where
  \<comment> \<open>\<open>text.partition(c)[2]\<close>\<close>
  "past_char c s = tl (dropWhile (\<lambda>x. x \<noteq> c) s)"

definition less_prefix :: "string \<Rightarrow> string \<Rightarrow> string" where
  \<comment> \<open>\<open>text.removeprefix(p)\<close>\<close>
  "less_prefix p s = (if prefix p s then drop (length p) s else s)"

definition less_suffix :: "string \<Rightarrow> string \<Rightarrow> string" where
  \<comment> \<open>\<open>text.removesuffix(p)\<close>\<close>
  "less_suffix p s = (if suffix p s then take (length s - length p) s else s)"

section \<open>Branches\<close>

definition branch_types :: "string list" where
  "branch_types =
     [''feat'', ''fix'', ''perf'', ''refactor'', ''revert'', ''docs'', ''test'', ''build'', ''ci'',
      ''style'', ''chore'']"

definition is_slug_char :: "char \<Rightarrow> bool" where
  \<comment> \<open>\<open>[a-z0-9]\<close>\<close>
  "is_slug_char c = (is_digit c \<or> (let n = of_char c :: nat in 97 \<le> n \<and> n \<le> 122))"

definition is_valid_slug :: "string \<Rightarrow> bool" where
  "is_valid_slug s = list_all (\<lambda>w. w \<noteq> [] \<and> list_all is_slug_char w) (split_on (CHR ''-'') s)"

record branch_parts =
  bp_type :: string
  bp_issue :: int
  bp_slug :: string

definition branch_name :: "int \<Rightarrow> string \<Rightarrow> string \<Rightarrow> string" where
  "branch_name issue kind slug = kind @ ''/'' @ int_text issue @ ''-'' @ slug"

definition parse_branch :: "string option \<Rightarrow> branch_parts option" where
  \<comment> \<open>Each part of the pattern ends where the first character of the next one stands.\<close>
  "parse_branch b =
     (case b of
        None \<Rightarrow> None
      | Some s \<Rightarrow>
          (let kind = upto_char (CHR ''/'') s; after = drop (length kind) s;
               ds = takeWhile is_digit (tl after); last = drop (length ds) (tl after)
           in if kind \<in> set branch_types \<and> after \<noteq> [] \<and> ds \<noteq> [] \<and> last \<noteq> [] \<and> hd last = CHR ''-'' \<and>
                 is_valid_slug (tl last)
              then Some \<lparr>bp_type = kind, bp_issue = digits_val ds, bp_slug = tl last\<rparr>
              else None))"

definition issue_of_branch :: "string option \<Rightarrow> int option" where
  "issue_of_branch b = map_option bp_issue (parse_branch b)"

section \<open>Titles\<close>

definition commit_type :: "string \<Rightarrow> string option" where
  "commit_type title =
     (let kind = less_suffix ''!'' (upto_char (CHR ''('') (upto_char (CHR '':'') title))
      in if CHR '':'' \<in> set title \<and> kind \<in> set branch_types then Some kind else None)"

definition commit_scope :: "string \<Rightarrow> string option" where
  "commit_scope title =
     (if commit_type title = None then None
      else let head = upto_char (CHR '':'') title;
               scope = (if CHR ''('' \<in> set head
                        then less_suffix '')'' (less_suffix ''!'' (past_char (CHR ''('') head)) else [])
           in if strip scope = [] then None else Some (strip scope))"

definition commit_summary :: "string \<Rightarrow> string" where
  "commit_summary title = strip (past_char (CHR '':'') title)"

definition summary_max_chars :: nat where
  "summary_max_chars = 60"

definition summary_length :: "string \<Rightarrow> nat" where
  \<comment> \<open>No character of a text here is outside the Basic Multilingual Plane.\<close>
  "summary_length s = length s + length (filter (\<lambda>c. (of_char c :: nat) > 0xFFFF) s)"

lemma summary_length_chars [code]: "summary_length s = length s"
proof -
  have "\<not> (of_char c :: nat) > 0xFFFF" for c using nat_of_char_less_256[of c] by linarith
  then show ?thesis by (simp add: summary_length_def)
qed

definition slug_words :: nat where
  "slug_words = 6"

definition slug_of :: "string \<Rightarrow> string" where
  "slug_of title =
     joined_by ''-'' (take slug_words (split_space
       (map (\<lambda>c. if is_slug_char c then c else CHR '' '') (lower (past_char (CHR '':'') title)))))"

section \<open>How a branch reads back\<close>

lemma branch_types_plain: "kind \<in> set branch_types \<Longrightarrow> CHR ''/'' \<notin> set kind"
  unfolding branch_types_def by (simp only: set_simps insert_iff empty_iff) (elim disjE; simp)

lemma upto_char_in: "c \<notin> set a \<Longrightarrow> upto_char c (a @ c # s) = a"
  unfolding upto_char_def by (induction a) auto

lemma digits_then: "list_all is_digit ds \<Longrightarrow> takeWhile is_digit (ds @ CHR ''-'' # s) = ds"
  by (subst takeWhile_append2) (auto simp: list_all_iff is_digit_def)

lemma parse_branch_name:
  assumes "0 \<le> n" and "kind \<in> set branch_types" and "is_valid_slug slug"
  shows "parse_branch (Some (branch_name n kind slug)) = Some \<lparr>bp_type = kind, bp_issue = n, bp_slug = slug\<rparr>"
proof -
  let ?ds = "digits_text (nat n)"
  have ds: "?ds \<noteq> []" "list_all is_digit ?ds" "digits_val ?ds = n"
    using digits_text_ok[of "nat n"] assms(1) by auto
  have name: "branch_name n kind slug = kind @ CHR ''/'' # ?ds @ CHR ''-'' # slug"
    using assms(1) by (simp add: branch_name_def int_text_def)
  have kind: "upto_char (CHR ''/'') (kind @ CHR ''/'' # ?ds @ CHR ''-'' # slug) = kind"
    by (rule upto_char_in[OF branch_types_plain[OF assms(2)]])
  show ?thesis
    unfolding name parse_branch_def Let_def option.case kind
    using assms(2,3) ds digits_then[OF ds(2), of slug] by simp
qed

lemma parse_branch_type: "parse_branch b = Some p \<Longrightarrow> bp_type p \<in> set branch_types \<and> is_valid_slug (bp_slug p)"
  by (auto simp: parse_branch_def Let_def split: option.splits if_splits)

text \<open>The slug of a title is valid or empty.\<close>

lemma slug_char_plain: "is_slug_char c \<Longrightarrow> \<not> is_space c \<and> c \<noteq> CHR ''-''"
  by (auto simp: is_slug_char_def is_digit_def is_space_def Let_def)

lemma split_space_Cons:
  "split_space (c # s) =
     (if is_space c then split_space s
      else if s = [] \<or> is_space (hd s) then [c] # split_space s
      else (c # hd (split_space s)) # tl (split_space s))"
  if "s = [] \<or> is_space (hd s) \<or> split_space s \<noteq> []"
  using that by (auto split: list.splits)

lemma split_space_start: "s \<noteq> [] \<Longrightarrow> \<not> is_space (hd s) \<Longrightarrow> split_space s \<noteq> []"
  by (cases s) (auto split: list.splits)

lemma split_space_words: "list_all (\<lambda>w. w \<noteq> [] \<and> list_all (\<lambda>c. c \<in> A \<and> \<not> is_space c) w) (split_space s)"
  if "set s \<subseteq> A"
  using that
proof (induction s)
  case (Cons c s)
  have step: "s = [] \<or> is_space (hd s) \<or> split_space s \<noteq> []" using split_space_start by blast
  have IH: "list_all (\<lambda>w. w \<noteq> [] \<and> list_all (\<lambda>c. c \<in> A \<and> \<not> is_space c) w) (split_space s)"
    using Cons by simp
  show ?case
    unfolding split_space_Cons[OF step]
    using IH Cons.prems step by (cases "split_space s") auto
qed simp

lemma split_on_plain: "CHR ''-'' \<notin> set w \<Longrightarrow> split_on (CHR ''-'') w = [w]"
  by (induction w) auto

lemma split_on_joined:
  "CHR ''-'' \<notin> set w \<Longrightarrow> split_on (CHR ''-'') (w @ CHR ''-'' # s) = w # split_on (CHR ''-'') s"
  by (induction w) (auto split: list.splits)

lemma valid_slug_joined:
  assumes "ws \<noteq> []" and "\<forall>w \<in> set ws. w \<noteq> [] \<and> list_all is_slug_char w"
  shows "is_valid_slug (joined_by ''-'' ws)"
  using assms
proof (induction ws)
  case (Cons w ws)
  have plain: "CHR ''-'' \<notin> set w" using Cons.prems slug_char_plain by (auto simp: list_all_iff)
  show ?case
  proof (cases ws)
    case Nil
    then show ?thesis using Cons.prems plain by (simp add: is_valid_slug_def joined_by_def split_on_plain)
  next
    case (Cons v vs)
    then have "is_valid_slug (joined_by ''-'' ws)" using Cons.IH Cons.prems by simp
    then show ?thesis
      using Cons Cons.prems plain
      by (simp add: is_valid_slug_def joined_by_def split_on_joined)
  qed
qed simp

lemma slug_of_valid: "slug_of title \<noteq> [] \<Longrightarrow> is_valid_slug (slug_of title)"
proof -
  let ?s = "map (\<lambda>c. if is_slug_char c then c else CHR '' '') (lower (past_char (CHR '':'') title))"
  let ?ws = "take slug_words (split_space ?s)"
  have "set ?s \<subseteq> {c. is_slug_char c \<or> c = CHR '' ''}" by auto
  from split_space_words[OF this]
  have "\<forall>w \<in> set ?ws. w \<noteq> [] \<and> list_all is_slug_char w"
    by (fastforce dest: in_set_takeD simp: list_all_iff is_space_def)
  moreover assume "slug_of title \<noteq> []"
  then have "?ws \<noteq> []" by (auto simp: slug_of_def joined_by_def slug_words_def)
  ultimately show ?thesis unfolding slug_of_def by (rule valid_slug_joined[rotated])
qed

end
