(* ===== verification/WorktreeInventory.thy ===== *)
theory WorktreeInventory
  imports BranchForm Requests GhErrors
begin

text \<open>
  The inventory of a repository's worktrees and their removal,
  \<^verbatim>\<open>src/devops_cli/git/worktree_inventory.py\<close>: the records of \<open>git worktree list\<close>, the uncommitted
  paths, the decision on each worktree and the run that removes them. A run is a tree of requests: git
  commands, reads of the file system, and reads of a commit's pull requests. A path is its text;
  whether a path holds the current directory is a parameter, \<open>here\<close>.
\<close>

section \<open>Requests and answers\<close>

record commit_pull =
  cp_number :: int
  cp_merged_at :: "string option"
  cp_head_sha :: string

datatype wt_request =
    Git string "string list"
  | IsDirectory string
  | PathExists string
  | DirectorySize string
  | CommitPulls string string

text \<open>Each request reads its own fields of an answer: the status and the texts of a command, a flag,
  a number of bytes, a listing.\<close>

record wt_answer =
  an_code :: int
  an_out :: string
  an_err :: string
  an_held :: bool
  an_size :: int
  an_pulls :: "gh_error + commit_pull list"

datatype wt_holder = OnBranch string string | StandardDirectory string | PushedBranches "string list"

datatype wt_error =
    NoGitHubOrigin
  | PullsUnread gh_error
  | NoRemote
  | HeldBy wt_holder
  | SeveralBranches "string list"
  | NoCommits string
  | NoApp string
  | ForeignAuthor string string
  | NamesDiffer string
  | NeedsBranchOptions
  | StrayUnpushed string int
  | GitRefused "string list" string
  | FieldsUnread

fun is_cli_failure :: "wt_error \<Rightarrow> bool" where
  \<comment> \<open>An instance of \<open>DevOpsCLIError\<close>; \<open>FieldsUnread\<close> is Python's \<open>ValueError\<close>.\<close>
  "is_cli_failure (PullsUnread (PyError _)) = False"
| "is_cli_failure (PullsUnread (CalledProcessError _)) = False"
| "is_cli_failure (PullsUnread TimeoutExpired) = False"
| "is_cli_failure FieldsUnread = False"
| "is_cli_failure _ = True"

type_synonym 'x wt_run = "(wt_request, wt_answer, 'x) prog"

definition try_then :: "('e + 'x) wt_run \<Rightarrow> ('x \<Rightarrow> ('e + 'y) wt_run) \<Rightarrow> ('e + 'y) wt_run" where
  "try_then p f = bind_prog p (\<lambda>r. case r of Inl e \<Rightarrow> Done (Inl e) | Inr x \<Rightarrow> f x)"

fun ask_each :: "('x \<Rightarrow> 'y wt_run) \<Rightarrow> 'x list \<Rightarrow> 'y list wt_run" where
  "ask_each f [] = Done []"
| "ask_each f (x # xs) = bind_prog (f x) (\<lambda>y. bind_prog (ask_each f xs) (\<lambda>ys. Done (y # ys)))"

fun try_each :: "('x \<Rightarrow> ('e + 'y) wt_run) \<Rightarrow> 'x list \<Rightarrow> ('e + 'y list) wt_run" where
  "try_each f [] = Done (Inr [])"
| "try_each f (x # xs) = try_then (f x) (\<lambda>y. try_then (try_each f xs) (\<lambda>ys. Done (Inr (y # ys))))"

definition max_detail :: nat where
  "max_detail = 256"

definition git_message :: "wt_answer \<Rightarrow> string" where
  "git_message a =
     (let said = take max_detail (joined_by '' '' (split_space (an_err a)))
      in if said = [] then ''git exited with status '' @ int_text (an_code a) else said)"

section \<open>Records\<close>

definition heads_prefix :: string where
  "heads_prefix = ''refs/heads/''"

record worktree_info =
  wi_path :: string
  wi_head :: string
  wi_branch :: "string option"
  wi_detached :: bool
  wi_bare :: bool
  wi_locked :: bool
  wi_lock_reason :: "string option"
  wi_prunable :: bool
  wi_prunable_reason :: "string option"
  wi_main :: bool

definition or_none :: "string \<Rightarrow> string option" where
  "or_none s = (if s = [] then None else Some s)"

definition read_attribute :: "string option \<times> worktree_info \<Rightarrow> string \<Rightarrow> string option \<times> worktree_info" where
  \<comment> \<open>One token of a record; the path found so far goes beside the rest.\<close>
  "read_attribute s t =
     (let path = fst s; i = snd s in
      if prefix ''worktree '' t then (Some (less_prefix ''worktree '' t), i)
      else if prefix ''HEAD '' t then (path, i\<lparr>wi_head := less_prefix ''HEAD '' t\<rparr>)
      else if prefix ''branch '' t then (path, i\<lparr>wi_branch := Some (less_prefix ''branch '' t)\<rparr>)
      else if t = ''detached'' then (path, i\<lparr>wi_detached := True\<rparr>)
      else if t = ''bare'' then (path, i\<lparr>wi_bare := True\<rparr>)
      else if prefix ''locked'' t then
        (path, i\<lparr>wi_locked := True, wi_lock_reason := or_none (strip (less_prefix ''locked'' t))\<rparr>)
      else if prefix ''prunable'' t then
        (path, i\<lparr>wi_prunable := True, wi_prunable_reason := or_none (strip (less_prefix ''prunable'' t))\<rparr>)
      else (path, i))"

definition blank_info :: "bool \<Rightarrow> worktree_info" where
  "blank_info main =
     \<lparr>wi_path = [], wi_head = [], wi_branch = None, wi_detached = False, wi_bare = False,
      wi_locked = False, wi_lock_reason = None, wi_prunable = False, wi_prunable_reason = None,
      wi_main = main\<rparr>"

definition parse_single_record :: "string list \<Rightarrow> bool \<Rightarrow> worktree_info option" where
  "parse_single_record tokens main =
     (case foldl read_attribute (None, blank_info main) tokens of
        (None, _) \<Rightarrow> None
      | (Some path, i) \<Rightarrow> Some (i\<lparr>wi_path := path\<rparr>))"

fun record_groups :: "string list \<Rightarrow> string list \<Rightarrow> string list list" where
  \<comment> \<open>The runs of non-empty tokens; the first argument is the run that is open.\<close>
  "record_groups current [] = (if current = [] then [] else [current])"
| "record_groups current (t # ts) =
     (if t = [] then (if current = [] then record_groups [] ts else current # record_groups [] ts)
      else record_groups (current @ [t]) ts)"

definition parse_records :: "bool \<Rightarrow> string list list \<Rightarrow> worktree_info list" where
  "parse_records main rs =
     (case rs of
        [] \<Rightarrow> []
      | r # rest \<Rightarrow>
          concat (map (\<lambda>x. case x of None \<Rightarrow> [] | Some i \<Rightarrow> [i])
            (parse_single_record r main # map (\<lambda>q. parse_single_record q False) rest)))"

definition parse_worktree_porcelain_z :: "string \<Rightarrow> worktree_info list" where
  "parse_worktree_porcelain_z out = parse_records True (record_groups [] (split_on (CHR 0x00) out))"

section \<open>What git tells of a worktree\<close>

definition is_two_path :: "string \<Rightarrow> bool" where
  \<comment> \<open>A status that two paths follow: a rename or a copy.\<close>
  "is_two_path t = (2 \<le> length t \<and> (t ! 0 \<in> {CHR ''C'', CHR ''R''} \<or> t ! 1 \<in> {CHR ''C'', CHR ''R''}))"

fun dirty_tokens :: "string list \<Rightarrow> nat" where
  "dirty_tokens [] = 0"
| "dirty_tokens (t # ts) =
     (if t = [] then dirty_tokens ts
      else if is_two_path t then Suc (case ts of [] \<Rightarrow> 0 | _ # rest \<Rightarrow> dirty_tokens rest)
      else Suc (dirty_tokens ts))"

definition count_dirty_paths :: "string \<Rightarrow> nat option wt_run" where
  "count_dirty_paths path =
     Ask (IsDirectory path) (\<lambda>d.
       if \<not> an_held d then Done (Some 0)
       else Ask (Git path [''status'', ''--porcelain'', ''-z'']) (\<lambda>a.
         if an_code a \<noteq> 0 then Done None
         else if an_out a = [] then Done (Some 0)
         else Done (Some (dirty_tokens (split_on (CHR 0x00) (an_out a))))))"

fun first_ref :: "string \<Rightarrow> string list \<Rightarrow> string option wt_run" where
  \<comment> \<open>The loop of \<open>_resolve_base_ref\<close>.\<close>
  "first_ref clone [] = Done None"
| "first_ref clone (r # rs) =
     Ask (Git clone [''rev-parse'', ''--verify'', ''--quiet'', r]) (\<lambda>a.
       if an_code a = 0 then Done (Some r) else first_ref clone rs)"

definition resolve_base_ref :: "string \<Rightarrow> string \<Rightarrow> string option wt_run" where
  "resolve_base_ref clone preferred =
     first_ref clone [preferred, ''origin/'' @ preferred, ''master'', ''origin/master'']"

definition count_commits_ahead_of_main :: "string \<Rightarrow> string \<Rightarrow> string \<Rightarrow> int wt_run" where
  "count_commits_ahead_of_main clone head main_ref =
     (if head = [] then Done 0
      else bind_prog (resolve_base_ref clone main_ref) (\<lambda>base.
        case base of
          None \<Rightarrow> Done 0
        | Some b \<Rightarrow>
            Ask (Git clone [''rev-list'', ''--count'', b @ ''..'' @ head]) (\<lambda>a.
              if an_code a \<noteq> 0 then Done 0
              else Done (case int_of_text (strip (an_out a)) of None \<Rightarrow> 0 | Some n \<Rightarrow> n))))"

definition list_worktree_infos :: "string \<Rightarrow> worktree_info list wt_run" where
  "list_worktree_infos clone =
     Ask (Git clone [''worktree'', ''list'', ''--porcelain'', ''-z'']) (\<lambda>a.
       Done (if an_code a \<noteq> 0 \<or> an_out a = [] then [] else parse_worktree_porcelain_z (an_out a)))"

record worktree_entry =
  we_path :: string
  we_head :: string
  we_branch :: "string option"
  we_issue :: "int option"
  we_ahead :: int
  we_dirty :: "nat option"
  we_locked :: bool
  we_lock_reason :: "string option"
  we_prunable :: bool
  we_prunable_reason :: "string option"
  we_main :: bool

definition branch_display :: "worktree_info \<Rightarrow> string option" where
  "branch_display i =
     (if falsy (wi_branch i) then (if wi_detached i then Some ''HEAD detached'' else None)
      else map_option (less_prefix heads_prefix) (wi_branch i))"

definition enrich_worktree_entry :: "string \<Rightarrow> string \<Rightarrow> worktree_info \<Rightarrow> worktree_entry wt_run" where
  "enrich_worktree_entry clone base i =
     bind_prog (count_dirty_paths (wi_path i)) (\<lambda>dirty.
     bind_prog (count_commits_ahead_of_main clone (wi_head i) base) (\<lambda>ahead.
     Done \<lparr>we_path = wi_path i, we_head = wi_head i, we_branch = branch_display i,
           we_issue = issue_of_branch (branch_display i), we_ahead = ahead, we_dirty = dirty,
           we_locked = wi_locked i, we_lock_reason = wi_lock_reason i, we_prunable = wi_prunable i,
           we_prunable_reason = wi_prunable_reason i, we_main = wi_main i\<rparr>))"

definition main_branch :: string where
  "main_branch = ''main''"

definition inventory_worktrees :: "string \<Rightarrow> worktree_entry list wt_run" where
  "inventory_worktrees clone =
     bind_prog (list_worktree_infos clone) (ask_each (enrich_worktree_entry clone main_branch))"

section \<open>Decisions\<close>

datatype prune_reason =
    MainWorktree
  | CurrentDirectory
  | Forced
  | Locked "string option"
  | MissingDirectory
  | DirtyUnknown
  | DirtyPaths nat
  | NoMergedPull
  | MergedPull int
  | PullIsRead
  | GitSaid string

record wt_decision =
  wd_entry :: worktree_entry
  wd_removable :: bool
  wd_reason :: prune_reason

definition decided_by_local_state ::
  "(string \<Rightarrow> bool) \<Rightarrow> bool \<Rightarrow> worktree_entry \<Rightarrow> wt_decision option" where
  \<comment> \<open>\<open>here p\<close>: the current directory is \<open>p\<close> or under it.\<close>
  "decided_by_local_state here force e =
     (let verdict = (\<lambda>ok why. Some \<lparr>wd_entry = e, wd_removable = ok, wd_reason = why\<rparr>) in
      if we_main e then verdict False MainWorktree
      else if here (we_path e) then verdict False CurrentDirectory
      else if force then verdict True Forced
      else if we_locked e then verdict False (Locked (we_lock_reason e))
      else if we_prunable e then verdict True MissingDirectory
      else case we_dirty e of
          None \<Rightarrow> verdict False DirtyUnknown
        | Some n \<Rightarrow> if 0 < n then verdict False (DirtyPaths n) else None)"

definition merged_pull :: "string option \<Rightarrow> string \<Rightarrow> (wt_error + int option) wt_run" where
  "merged_pull repo tip =
     (case repo of
        None \<Rightarrow> Done (Inl NoGitHubOrigin)
      | Some r \<Rightarrow>
          Ask (CommitPulls r tip) (\<lambda>a. Done (case an_pulls a of
            Inl g \<Rightarrow> Inl (PullsUnread g)
          | Inr pulls \<Rightarrow>
              Inr (map_option cp_number
                (find (\<lambda>p. cp_merged_at p \<noteq> None \<and> cp_head_sha p = tip) pulls)))))"

definition decide ::
  "(string \<Rightarrow> bool) \<Rightarrow> bool \<Rightarrow> string option \<Rightarrow> worktree_entry \<Rightarrow> (wt_error + wt_decision) wt_run" where
  "decide here force repo e =
     (case decided_by_local_state here force e of
        Some d \<Rightarrow> Done (Inr d)
      | None \<Rightarrow>
          try_then (merged_pull repo (we_head e)) (\<lambda>n. Done (Inr (case n of
            None \<Rightarrow> \<lparr>wd_entry = e, wd_removable = False, wd_reason = NoMergedPull\<rparr>
          | Some k \<Rightarrow> \<lparr>wd_entry = e, wd_removable = True, wd_reason = MergedPull k\<rparr>))))"

section \<open>Removal\<close>

datatype prune_status = TreeRemoved | TreeRefused | TreeFailed | WouldRemove | WouldCheck

record prune_item =
  pi_path :: string
  pi_status :: prune_status
  pi_reason :: "prune_reason option"
  pi_size :: "int option"

record prune_report =
  pr_removed :: nat
  pr_refused :: nat
  pr_failed :: nat
  pr_total :: int
  pr_items :: "prune_item list"
  pr_requests :: "(string option \<times> string) list"

definition size_of :: "string \<Rightarrow> int option wt_run" where
  "size_of path =
     Ask (IsDirectory path) (\<lambda>d.
       if an_held d then Ask (DirectorySize path) (\<lambda>a. Done (Some (an_size a))) else Done None)"

definition count_status :: "prune_status \<Rightarrow> prune_item list \<Rightarrow> nat" where
  "count_status st items = length (filter (\<lambda>i. pi_status i = st) items)"

definition total_bytes :: "prune_status list \<Rightarrow> prune_item list \<Rightarrow> int" where
  "total_bytes sts items =
     sum_list (map (\<lambda>i. case pi_size i of None \<Rightarrow> 0 | Some n \<Rightarrow> n)
       (filter (\<lambda>i. pi_status i \<in> set sts) items))"

definition plan_item :: "(string \<Rightarrow> bool) \<Rightarrow> bool \<Rightarrow> worktree_entry \<Rightarrow> prune_item wt_run" where
  "plan_item here force e =
     (case decided_by_local_state here force e of
        None \<Rightarrow> Done \<lparr>pi_path = we_path e, pi_status = WouldCheck, pi_reason = Some PullIsRead, pi_size = None\<rparr>
      | Some d \<Rightarrow>
          if wd_removable d
          then bind_prog (size_of (we_path e)) (\<lambda>n. Done
            \<lparr>pi_path = we_path e, pi_status = WouldRemove, pi_reason = Some (wd_reason d), pi_size = n\<rparr>)
          else Done
            \<lparr>pi_path = we_path e, pi_status = TreeRefused, pi_reason = Some (wd_reason d), pi_size = None\<rparr>)"

definition plan_prune ::
  "(string \<Rightarrow> bool) \<Rightarrow> worktree_entry list \<Rightarrow> string option \<Rightarrow> bool \<Rightarrow> prune_report wt_run" where
  "plan_prune here entries repo force =
     bind_prog (ask_each (plan_item here force) entries) (\<lambda>items. Done
       \<lparr>pr_removed = 0, pr_refused = count_status TreeRefused items, pr_failed = 0,
        pr_total = total_bytes [WouldRemove] items, pr_items = items,
        pr_requests =
          map (\<lambda>e. (repo, we_head e)) (filter (\<lambda>e. decided_by_local_state here force e = None) entries)\<rparr>)"

definition not_a_worktree :: string where
  "not_a_worktree = ''is not a working tree''"

definition remove_args :: "bool \<Rightarrow> string \<Rightarrow> string list" where
  "remove_args force path = [''worktree'', ''remove''] @ (if force then [''--force''] else []) @ [path]"

definition apply_decision :: "string \<Rightarrow> bool \<Rightarrow> bool \<Rightarrow> wt_decision \<Rightarrow> prune_item wt_run" where
  \<comment> \<open>The second loop of \<open>prune_worktrees\<close>.\<close>
  "apply_decision clone force confirm d =
     (let path = we_path (wd_entry d) in
      if \<not> wd_removable d then
        Done \<lparr>pi_path = path, pi_status = TreeRefused, pi_reason = Some (wd_reason d), pi_size = None\<rparr>
      else bind_prog (size_of path) (\<lambda>n.
        if \<not> confirm then
          Done \<lparr>pi_path = path, pi_status = WouldRemove, pi_reason = Some (wd_reason d), pi_size = n\<rparr>
        else Ask (Git clone (remove_args force path)) (\<lambda>a.
          if an_code a = 0 \<or> contains not_a_worktree (git_message a)
          then Done \<lparr>pi_path = path, pi_status = TreeRemoved, pi_reason = None, pi_size = n\<rparr>
          else Done \<lparr>pi_path = path, pi_status = TreeFailed, pi_reason = Some (GitSaid (git_message a)),
                     pi_size = None\<rparr>)))"

definition prune_worktrees ::
  "(string \<Rightarrow> bool) \<Rightarrow> string \<Rightarrow> worktree_entry list \<Rightarrow> string option \<Rightarrow> bool \<Rightarrow> bool \<Rightarrow>
   (wt_error + prune_report) wt_run" where
  "prune_worktrees here clone entries repo force confirm =
     try_then (try_each (decide here force repo) entries) (\<lambda>decisions.
     bind_prog (ask_each (apply_decision clone force confirm) decisions) (\<lambda>items. Done (Inr
       \<lparr>pr_removed = count_status TreeRemoved items, pr_refused = count_status TreeRefused items,
        pr_failed = count_status TreeFailed items,
        pr_total = total_bytes [TreeRemoved, WouldRemove] items, pr_items = items, pr_requests = []\<rparr>)))"

end
