(* ===== verification/WorktreeAdd.thy ===== *)
theory WorktreeAdd
  imports WorktreeInventory
begin

text \<open>
  The worktree of an issue: \<^verbatim>\<open>src/devops_cli/git/worktree_add.py\<close> with the authors of a pushed
  branch, \<^verbatim>\<open>src/devops_cli/git/branch_authors.py\<close>. The standard directory of an issue, the App's login
  and the repository of the clone are the settings, a record; the arguments of a command are those after
  \<open>git -C <clone>\<close>. The wording of an error is not modelled.
\<close>

section \<open>Settings and reports\<close>

record wt_settings =
  ws_clone :: string
  ws_directory :: "int \<Rightarrow> string"
  ws_bot :: "string option"
  ws_repo :: "string option"
  ws_here :: "string \<Rightarrow> bool"

record reclaim_result =
  rr_removed :: "prune_item list"
  rr_requests :: "(string option \<times> string) list"
  rr_failed :: "(string \<times> prune_reason option) list"
  rr_error :: "wt_error option"

definition no_reclaim :: reclaim_result where
  "no_reclaim = \<lparr>rr_removed = [], rr_requests = [], rr_failed = [], rr_error = None\<rparr>"

datatype add_status = Created | TookOver | WouldCreate

record add_report =
  ar_issue :: int
  ar_branch :: string
  ar_path :: string
  ar_status :: add_status
  ar_commits :: nat
  ar_reads :: "(string option \<times> string) list"
  ar_commands :: "string list list"
  ar_reclaim :: reclaim_result

section \<open>Commands\<close>

definition run_git :: "string \<Rightarrow> string list \<Rightarrow> (wt_error + string) wt_run" where
  \<comment> \<open>\<open>_run\<close>\<close>
  "run_git clone args =
     Ask (Git clone args) (\<lambda>a. Done
       (if an_code a \<noteq> 0 then Inl (GitRefused args (git_message a)) else Inr (an_out a)))"

definition require_origin :: "string \<Rightarrow> (wt_error + unit) wt_run" where
  "require_origin clone =
     Ask (Git clone [''remote'', ''get-url'', ''origin'']) (\<lambda>a. Done
       (if an_code a \<noteq> 0 then Inl NoRemote else Inr ()))"

definition main_ref :: string where
  "main_ref = ''origin/main''"

definition log_format :: string where
  "log_format = ''--format=%an%x1f%P%x1f%T''"

definition ls_remote_args :: "string list" where
  "ls_remote_args = [''ls-remote'', ''--heads'', ''origin'']"

definition create_args :: "string \<Rightarrow> string \<Rightarrow> string option \<Rightarrow> string list" where
  "create_args branch directory base =
     [''worktree'', ''add'', ''--no-track'', ''-b'', branch, directory,
      case base of None \<Rightarrow> main_ref | Some b \<Rightarrow> b]"

definition add_commands :: "string \<Rightarrow> string \<Rightarrow> string option \<Rightarrow> string list list" where
  \<comment> \<open>\<open>_commands\<close>\<close>
  "add_commands branch directory base =
     [ls_remote_args, [''fetch'', ''origin'', main_branch],
      [''log'', log_format, main_ref @ ''..origin/'' @ branch], create_args branch directory base]"

section \<open>Holders\<close>

fun worktree_on :: "int \<Rightarrow> worktree_info list \<Rightarrow> wt_holder option" where
  \<comment> \<open>The loop of \<open>local_holder\<close>.\<close>
  "worktree_on issue [] = None"
| "worktree_on issue (i # is) =
     (let branch = (if falsy (wi_branch i) then None else map_option (less_prefix heads_prefix) (wi_branch i)) in
      if issue_of_branch branch = Some issue
      then Some (OnBranch (wi_path i) (case branch of None \<Rightarrow> [] | Some b \<Rightarrow> b))
      else worktree_on issue is)"

definition local_holder :: "string \<Rightarrow> int \<Rightarrow> string \<Rightarrow> wt_holder option wt_run" where
  "local_holder clone issue directory =
     bind_prog (list_worktree_infos clone) (\<lambda>infos.
       case worktree_on issue infos of
         Some h \<Rightarrow> Done (Some h)
       | None \<Rightarrow> Ask (PathExists directory) (\<lambda>a. Done
           (if an_held a then Some (StandardDirectory directory) else None)))"

definition ref_of_line :: "string \<Rightarrow> string" where
  "ref_of_line line = past_char (CHR 0x09) line"

definition remote_branches :: "string \<Rightarrow> string list" where
  "remote_branches heads =
     map (less_prefix heads_prefix) (filter (\<lambda>r. r \<noteq> []) (map ref_of_line (splitlines heads)))"

definition pushed_branches :: "string \<Rightarrow> int \<Rightarrow> (string \<times> branch_parts) list" where
  "pushed_branches heads issue =
     concat (map (\<lambda>line. let name = less_prefix heads_prefix (ref_of_line line) in
         case parse_branch (Some name) of
           None \<Rightarrow> []
         | Some p \<Rightarrow> if bp_issue p = issue then [(name, p)] else [])
       (splitlines heads))"

definition staged_branch :: "string \<Rightarrow> int \<Rightarrow> wt_error + (string \<times> branch_parts) option" where
  "staged_branch heads issue =
     (let found = pushed_branches heads issue in
      if 1 < length found then Inl (SeveralBranches (map fst found))
      else Inr (if found = [] then None else Some (hd found)))"

section \<open>Authors\<close>

definition is_clean_merge :: "string \<Rightarrow> string list \<Rightarrow> string \<Rightarrow> bool wt_run" where
  "is_clean_merge clone parents tree =
     (if length parents \<noteq> 2 then Done False
      else Ask (Git clone ([''merge-tree'', ''--write-tree''] @ parents)) (\<lambda>a. Done
        (an_code a = 0 \<and> take 1 (split_space (an_out a)) = [tree])))"

fun person_authors :: "string \<Rightarrow> string list \<Rightarrow> (wt_error + string list) wt_run" where
  \<comment> \<open>Over the lines of the log; a line that has not three fields is a \<open>ValueError\<close>.\<close>
  "person_authors clone [] = Done (Inr [])"
| "person_authors clone (line # lines) =
     (case split_on (CHR 0x1F) line of
        [author, parents, tree] \<Rightarrow>
          bind_prog (is_clean_merge clone (split_space parents) tree) (\<lambda>clean.
          try_then (person_authors clone lines) (\<lambda>rest.
          Done (Inr (if clean then rest else author # rest))))
      | _ \<Rightarrow> Done (Inl FieldsUnread))"

definition check_authors :: "string option \<Rightarrow> string \<Rightarrow> string list \<Rightarrow> wt_error option" where
  "check_authors app branch authors =
     (if authors = [] then Some (NoCommits branch)
      else case app of
          None \<Rightarrow> Some (NoApp branch)
        | Some b \<Rightarrow> map_option (ForeignAuthor branch) (find (\<lambda>x. x \<noteq> b) authors))"

definition check_names ::
  "string \<times> branch_parts \<Rightarrow> string option \<Rightarrow> string option \<Rightarrow> wt_error option" where
  "check_names pushed kind slug =
     (let differs = (\<lambda>given staged. given \<noteq> None \<and> given \<noteq> Some staged) in
      if differs kind (bp_type (snd pushed)) \<or> differs slug (bp_slug (snd pushed))
      then Some (NamesDiffer (fst pushed)) else None)"

section \<open>Stray branches\<close>

definition tracking_prefix :: string where
  "tracking_prefix = ''refs/remotes/origin/''"

definition live_refs :: "string \<Rightarrow> string \<Rightarrow> string list" where
  \<comment> \<open>Of the lines of \<open>for-each-ref\<close>, the refs that are at the tip that \<open>heads\<close> lists.\<close>
  "live_refs heads tracking =
     (let live = filter (\<lambda>(oid, ref). ref \<noteq> [])
            (map (\<lambda>l. (upto_char (CHR 0x09) l, ref_of_line l)) (splitlines heads)) in
      map ref_of_line (filter (\<lambda>l.
        (upto_char (CHR 0x09) l, heads_prefix @ less_prefix tracking_prefix (ref_of_line l)) \<in> set live)
        (splitlines tracking)))"

definition tracking_args :: "string list" where
  "tracking_args = [''for-each-ref'', ''--format=%(objectname)'' @ [CHR 0x09] @ ''%(refname)'', tracking_prefix]"

definition live_tracking_refs :: "string \<Rightarrow> string \<Rightarrow> (wt_error + string list) wt_run" where
  "live_tracking_refs clone heads =
     try_then (run_git clone tracking_args) (\<lambda>out. Done (Inr (live_refs heads out)))"

definition stray_tip :: "string \<Rightarrow> string \<Rightarrow> (wt_error + string) wt_run" where
  "stray_tip clone branch =
     try_then (run_git clone [''for-each-ref'', ''--format=%(objectname)'', heads_prefix @ branch])
       (\<lambda>out. Done (Inr (strip out)))"

definition unpushed_args :: "string \<Rightarrow> string list \<Rightarrow> string list" where
  "unpushed_args branch held = [''rev-list'', ''--count'', heads_prefix @ branch, ''--not'', main_ref] @ held"

definition stray_branch_reason :: "string \<Rightarrow> string \<Rightarrow> string \<Rightarrow> (wt_error + wt_error option) wt_run" where
  "stray_branch_reason clone branch heads =
     try_then (stray_tip clone branch) (\<lambda>tip.
       if tip = [] then Done (Inr None)
       else try_then (live_tracking_refs clone heads) (\<lambda>held.
            try_then (run_git clone (unpushed_args branch held)) (\<lambda>out. Done
              (case int_of_text out of
                 None \<Rightarrow> Inl FieldsUnread
               | Some n \<Rightarrow> Inr (if n = 0 then None else Some (StrayUnpushed branch n))))))"

definition delete_args :: "string \<Rightarrow> string list" where
  "delete_args branch = [''branch'', ''-D'', branch]"

definition clear_stray_branch :: "string \<Rightarrow> string \<Rightarrow> string \<Rightarrow> (wt_error + unit) wt_run" where
  "clear_stray_branch clone branch heads =
     try_then (stray_tip clone branch) (\<lambda>tip.
       if tip = [] then Done (Inr ())
       else try_then (stray_branch_reason clone branch heads) (\<lambda>why.
         case why of
           Some e \<Rightarrow> Done (Inl e)
         | None \<Rightarrow> try_then (run_git clone (delete_args branch)) (\<lambda>_. Done (Inr ()))))"

section \<open>Adding a worktree\<close>

definition track_args :: "string \<Rightarrow> string \<Rightarrow> string list" where
  "track_args branch directory =
     [''worktree'', ''add'', ''--track'', ''-b'', branch, directory, ''origin/'' @ branch]"

definition take_over ::
  "wt_settings \<Rightarrow> int \<Rightarrow> string \<Rightarrow> string \<Rightarrow> reclaim_result \<Rightarrow> string \<Rightarrow> (wt_error + add_report) wt_run" where
  "take_over st issue branch directory reclaim heads =
     (let clone = ws_clone st in
      try_then (run_git clone [''fetch'', ''origin'', main_branch,
          ''+'' @ heads_prefix @ branch @ '':refs/remotes/origin/'' @ branch]) (\<lambda>_.
      try_then (run_git clone [''log'', log_format, main_ref @ ''..origin/'' @ branch]) (\<lambda>out.
      try_then (person_authors clone (splitlines out)) (\<lambda>authors.
      case check_authors (ws_bot st) branch authors of
        Some e \<Rightarrow> Done (Inl e)
      | None \<Rightarrow>
          try_then (clear_stray_branch clone branch heads) (\<lambda>_.
          try_then (run_git clone (track_args branch directory)) (\<lambda>_.
          Done (Inr \<lparr>ar_issue = issue, ar_branch = branch, ar_path = directory, ar_status = TookOver,
                     ar_commits = length authors, ar_reads = [], ar_commands = [], ar_reclaim = reclaim\<rparr>)))))))"

definition create_worktree ::
  "wt_settings \<Rightarrow> int \<Rightarrow> string \<Rightarrow> string \<Rightarrow> reclaim_result \<Rightarrow> string \<Rightarrow> string option \<Rightarrow>
   (wt_error + add_report) wt_run" where
  \<comment> \<open>\<open>_create\<close>\<close>
  "create_worktree st issue branch directory reclaim heads base =
     (let clone = ws_clone st in
      try_then (run_git clone [''fetch'', ''origin'', main_branch]) (\<lambda>_.
      try_then (clear_stray_branch clone branch heads) (\<lambda>_.
      try_then (run_git clone (create_args branch directory base)) (\<lambda>_.
      Done (Inr \<lparr>ar_issue = issue, ar_branch = branch, ar_path = directory, ar_status = Created,
                 ar_commits = 0, ar_reads = [], ar_commands = [], ar_reclaim = reclaim\<rparr>)))))"

definition new_branch :: "int \<Rightarrow> string option \<Rightarrow> string option \<Rightarrow> wt_error + string" where
  "new_branch issue kind slug =
     (case (kind, slug) of
        (Some k, Some s) \<Rightarrow> Inr (branch_name issue k s)
      | _ \<Rightarrow> Inl NeedsBranchOptions)"

definition from_heads ::
  "wt_settings \<Rightarrow> int \<Rightarrow> string option \<Rightarrow> string option \<Rightarrow> reclaim_result \<Rightarrow> string option \<Rightarrow> string \<Rightarrow>
   (wt_error + add_report) wt_run" where
  \<comment> \<open>The end of \<open>add_worktree\<close>, once the branches of \<open>origin\<close> are read.\<close>
  "from_heads st issue kind slug reclaim base heads =
     (case staged_branch heads issue of
        Inl e \<Rightarrow> Done (Inl e)
      | Inr None \<Rightarrow>
          (case new_branch issue kind slug of
             Inl e \<Rightarrow> Done (Inl e)
           | Inr branch \<Rightarrow> create_worktree st issue branch (ws_directory st issue) reclaim heads base)
      | Inr (Some pushed) \<Rightarrow>
          (case check_names pushed kind slug of
             Some e \<Rightarrow> Done (Inl e)
           | None \<Rightarrow> take_over st issue (fst pushed) (ws_directory st issue) reclaim heads))"

definition add_worktree ::
  "wt_settings \<Rightarrow> int \<Rightarrow> string option \<Rightarrow> string option \<Rightarrow> bool \<Rightarrow> reclaim_result option \<Rightarrow>
   string option \<Rightarrow> (wt_error + add_report) wt_run" where
  "add_worktree st issue kind slug dry_run given base =
     (let reclaim = (case given of None \<Rightarrow> no_reclaim | Some r \<Rightarrow> r);
          clone = ws_clone st; directory = ws_directory st issue in
      try_then (require_origin clone) (\<lambda>_.
      bind_prog (local_holder clone issue directory) (\<lambda>held.
      case held of
        Some h \<Rightarrow> Done (Inl (HeldBy h))
      | None \<Rightarrow>
          if dry_run then
            (case new_branch issue kind slug of
               Inl e \<Rightarrow> Done (Inl e)
             | Inr branch \<Rightarrow> Done (Inr
                 \<lparr>ar_issue = issue, ar_branch = branch, ar_path = directory, ar_status = WouldCreate,
                  ar_commits = 0, ar_reads = rr_requests reclaim,
                  ar_commands = add_commands branch directory base, ar_reclaim = reclaim\<rparr>))
          else try_then (run_git clone ls_remote_args)
                 (from_heads st issue kind slug reclaim base))))"

section \<open>Reclaiming merged worktrees\<close>

definition reclaim_merged_worktrees :: "wt_settings \<Rightarrow> bool \<Rightarrow> (wt_error + reclaim_result) wt_run" where
  "reclaim_merged_worktrees st dry_run =
     (let clone = ws_clone st in
      try_then (require_origin clone) (\<lambda>_.
      bind_prog (inventory_worktrees clone) (\<lambda>entries.
      if dry_run then
        bind_prog (plan_prune (ws_here st) entries (ws_repo st) False) (\<lambda>r.
          Done (Inr (no_reclaim\<lparr>rr_requests := pr_requests r\<rparr>)))
      else bind_prog (prune_worktrees (ws_here st) clone entries (ws_repo st) False True) (\<lambda>r. Done
        (case r of
           Inl e \<Rightarrow> if is_cli_failure e then Inr (no_reclaim\<lparr>rr_error := Some e\<rparr>) else Inl e
         | Inr report \<Rightarrow> Inr (no_reclaim\<lparr>
             rr_removed := filter (\<lambda>i. pi_status i = TreeRemoved) (pr_items report),
             rr_failed := map (\<lambda>i. (pi_path i, pi_reason i))
               (filter (\<lambda>i. pi_status i = TreeFailed) (pr_items report))\<rparr>))))))"

section \<open>Judging an issue\<close>

definition read_remote_heads :: "string \<Rightarrow> (wt_error + string) wt_run" where
  "read_remote_heads clone = try_then (require_origin clone) (\<lambda>_. run_git clone ls_remote_args)"

datatype issue_hold = HeldElsewhere wt_holder | HeldByStray wt_error

definition issue_holder ::
  "wt_settings \<Rightarrow> int \<Rightarrow> string \<Rightarrow> string option \<Rightarrow> (wt_error + issue_hold option) wt_run" where
  "issue_holder st issue heads branch =
     bind_prog (local_holder (ws_clone st) issue (ws_directory st issue)) (\<lambda>held.
       case held of
         Some h \<Rightarrow> Done (Inr (Some (HeldElsewhere h)))
       | None \<Rightarrow>
           (let pushed = pushed_branches heads issue in
            if pushed \<noteq> [] then Done (Inr (Some (HeldElsewhere (PushedBranches (map fst pushed)))))
            else case branch of
                None \<Rightarrow> Done (Inr None)
              | Some b \<Rightarrow>
                  try_then (stray_branch_reason (ws_clone st) b heads)
                    (\<lambda>why. Done (Inr (map_option HeldByStray why)))))"

end
