(* ===== verification/WorktreeRuns.thy ===== *)
theory WorktreeRuns
  imports WorktreeAdd
begin

text \<open>
  The runs of the worktree commands: which of them only read, what stands before the deletion of a
  branch, how a run that adds a worktree ends, and what a removal was decided on.
\<close>

section \<open>Runs and their traces\<close>

lemma runs_try_then:
  "runs (try_then p f) t r \<longleftrightarrow>
     (\<exists>e. runs p t (Inl e) \<and> r = Inl e) \<or>
     (\<exists>t1 t2 x. t = t1 @ t2 \<and> runs p t1 (Inr x) \<and> runs (f x) t2 r)"
  (is "?l \<longleftrightarrow> ?e \<or> ?o")
proof
  assume ?l
  then obtain t1 t2 z where "t = t1 @ t2" "runs p t1 z"
      "runs (case z of Inl e \<Rightarrow> Done (Inl e) | Inr x \<Rightarrow> f x) t2 r"
    by (auto simp: try_then_def runs_bind)
  then show "?e \<or> ?o" by (cases z) auto
next
  assume "?e \<or> ?o"
  then show ?l
    unfolding try_then_def runs_bind by (metis append_Nil2 runs_Done sum.simps(5,6))
qed

lemma runs_run_git:
  "runs (run_git c args) t r \<longleftrightarrow>
     (\<exists>a. t = [(Git c args, a)] \<and>
        r = (if an_code a \<noteq> 0 then Inl (GitRefused args (git_message a)) else Inr (an_out a)))"
  by (auto simp: run_git_def runs_Ask_iff)

text \<open>
  \<open>traces G p\<close>: every run of \<open>p\<close> has a trace with \<open>G\<close>, a property that two traces in a row keep.
\<close>

definition traces :: "(('q, 'a) trace \<Rightarrow> bool) \<Rightarrow> ('q, 'a, 'x) prog \<Rightarrow> bool" where
  "traces G p = (\<forall>t x. runs p t x \<longrightarrow> G t)"

definition chained :: "(('q, 'a) trace \<Rightarrow> bool) \<Rightarrow> bool" where
  "chained G = (G [] \<and> (\<forall>t u. G t \<longrightarrow> G u \<longrightarrow> G (t @ u)))"

lemma tracesD: "traces G p \<Longrightarrow> runs p t x \<Longrightarrow> G t"
  by (auto simp: traces_def)

lemma traces_Done: "chained G \<Longrightarrow> traces G (Done x)"
  by (simp add: traces_def chained_def)

lemma traces_Ask: "chained G \<Longrightarrow> (\<And>a. G [(q, a)]) \<Longrightarrow> (\<And>a. traces G (k a)) \<Longrightarrow> traces G (Ask q k)"
  unfolding traces_def chained_def runs_Ask_iff by (metis append_Cons append_Nil)

lemma traces_bind: "chained G \<Longrightarrow> traces G p \<Longrightarrow> (\<And>x. traces G (f x)) \<Longrightarrow> traces G (bind_prog p f)"
  unfolding traces_def chained_def runs_bind by blast

lemma traces_try_then: "chained G \<Longrightarrow> traces G p \<Longrightarrow> (\<And>x. traces G (f x)) \<Longrightarrow> traces G (try_then p f)"
  unfolding try_then_def by (rule traces_bind) (auto intro: traces_Done split: sum.splits)

lemma traces_ask_each: "chained G \<Longrightarrow> (\<And>x. traces G (f x)) \<Longrightarrow> traces G (ask_each f xs)"
  by (induction xs) (auto intro!: traces_Done traces_bind)

lemma traces_try_each: "chained G \<Longrightarrow> (\<And>x. traces G (f x)) \<Longrightarrow> traces G (try_each f xs)"
  by (induction xs) (auto intro!: traces_Done traces_try_then)

lemma traces_run_git: "chained G \<Longrightarrow> (\<And>a. G [(Git c args, a)]) \<Longrightarrow> traces G (run_git c args)"
  by (auto simp: traces_def runs_run_git)

lemmas traces_intros =
  traces_Done traces_Ask traces_bind traces_try_then traces_ask_each traces_try_each traces_run_git

section \<open>Reads\<close>

fun changes :: "wt_request \<Rightarrow> bool" where
  \<comment> \<open>Commands that change branches, remote-tracking refs or worktrees.\<close>
  "changes (Git c (cmd # args)) =
     (cmd = ''branch'' \<or> cmd = ''fetch'' \<or> cmd = ''worktree'' \<and> take 1 args \<noteq> [''list''])"
| "changes _ = False"

definition unchanging :: "(wt_request, wt_answer) trace \<Rightarrow> bool" where
  "unchanging t = (\<forall>(q, a) \<in> set t. \<not> changes q)"

lemma chained_unchanging [simp]: "chained unchanging"
  by (auto simp: chained_def unchanging_def)

lemma unchanging_one [simp]: "unchanging [(q, a)] = (\<not> changes q)"
  by (simp add: unchanging_def)

lemma count_dirty_reads: "traces unchanging (count_dirty_paths path)"
  unfolding count_dirty_paths_def by (intro traces_Ask) (auto intro!: traces_intros)

lemma first_ref_reads: "traces unchanging (first_ref c rs)"
  by (induction rs) (auto intro!: traces_intros)

lemma ahead_reads: "traces unchanging (count_commits_ahead_of_main c head base)"
  unfolding count_commits_ahead_of_main_def resolve_base_ref_def
  by (auto intro!: traces_intros first_ref_reads split: option.split)

lemma list_reads: "traces unchanging (list_worktree_infos c)"
  unfolding list_worktree_infos_def by (auto intro!: traces_intros)

lemma inventory_reads: "traces unchanging (inventory_worktrees c)"
  unfolding inventory_worktrees_def enrich_worktree_entry_def
  by (intro traces_intros chained_unchanging list_reads count_dirty_reads ahead_reads)

lemma decide_reads: "traces unchanging (decide here force repo e)"
  unfolding decide_def merged_pull_def
  by (auto intro!: traces_intros split: option.split)

lemma size_reads: "traces unchanging (size_of path)"
  unfolding size_of_def by (auto intro!: traces_intros)

lemma plan_reads: "traces unchanging (plan_prune here entries repo force)"
  unfolding plan_prune_def plan_item_def
  by (auto intro!: traces_intros size_reads split: option.split)

lemma holder_reads: "traces unchanging (local_holder c issue directory)"
  unfolding local_holder_def by (auto intro!: traces_intros list_reads split: option.split)

lemma origin_reads: "traces unchanging (require_origin c)"
  unfolding require_origin_def by (auto intro!: traces_intros)

lemma tracking_reads: "traces unchanging (live_tracking_refs c heads)"
  unfolding live_tracking_refs_def tracking_args_def by (auto intro!: traces_intros)

lemma tip_reads: "traces unchanging (stray_tip c b)"
  unfolding stray_tip_def by (auto intro!: traces_intros)

lemma stray_reads: "traces unchanging (stray_branch_reason c b heads)"
  unfolding stray_branch_reason_def
  by (auto intro!: traces_intros tip_reads tracking_reads simp: unpushed_args_def split: option.split)

lemma authors_read: "traces unchanging (person_authors c lines)"
  by (induction lines)
    (auto intro!: traces_intros simp: is_clean_merge_def split: list.split)

section \<open>Deleted branches\<close>

definition tip_args :: "string \<Rightarrow> string list" where
  "tip_args b = [''for-each-ref'', ''--format=%(objectname)'', heads_prefix @ b]"

text \<open>
  The request right before a deletion shows that the branch has no commit that the live refs of \<open>origin\<close>
  lack, or that the clone has no such branch.
\<close>

definition nothing_unpushed ::
  "string \<Rightarrow> string \<Rightarrow> string \<Rightarrow> (wt_request, wt_answer) trace \<Rightarrow> bool" where
  "nothing_unpushed heads c b t =
     (\<exists>t0 a1 a2.
        t = t0 @ [(Git c tracking_args, a1), (Git c (unpushed_args b (live_refs heads (an_out a1))), a2)] \<and>
          an_code a1 = 0 \<and> an_code a2 = 0 \<and> int_of_text (an_out a2) = Some 0 \<or>
        t = t0 @ [(Git c (tip_args b), a2)] \<and> an_code a2 = 0 \<and> strip (an_out a2) = [])"

definition cleared :: "string \<Rightarrow> (wt_request, wt_answer) trace \<Rightarrow> bool" where
  "cleared heads t =
     (\<forall>t0 c args a t1. t = t0 @ (Git c (''branch'' # args), a) # t1 \<longrightarrow>
        (\<exists>b. args = [''-D'', b] \<and> nothing_unpushed heads c b t0))"

lemma nothing_unpushed_later: "nothing_unpushed heads c b t \<Longrightarrow> nothing_unpushed heads c b (u @ t)"
  unfolding nothing_unpushed_def by (metis append_assoc)

lemma chained_cleared [simp]: "chained (cleared heads)"
proof -
  have "cleared heads (t @ u)" if t: "cleared heads t" and u: "cleared heads u" for t u
    unfolding cleared_def
  proof (intro allI impI)
    fix t0 c args a t1
    assume "t @ u = t0 @ (Git c (''branch'' # args), a) # t1"
    then consider us where "t = t0 @ us" "us @ u = (Git c (''branch'' # args), a) # t1"
      | us where "t0 = t @ us" "u = us @ (Git c (''branch'' # args), a) # t1"
      unfolding append_eq_append_conv2 by metis
    then show "\<exists>b. args = [''-D'', b] \<and> nothing_unpushed heads c b t0"
    proof cases
      case 1
      show ?thesis
      proof (cases us)
        case Nil
        with 1 have "u = [] @ (Git c (''branch'' # args), a) # t1" by simp
        then obtain b where "args = [''-D'', b]" "nothing_unpushed heads c b []"
          using u[unfolded cleared_def, rule_format, of "[]" c args a t1] by blast
        then show ?thesis using nothing_unpushed_later[of heads c b "[]" t0] by auto
      next
        case (Cons v vs)
        with 1 have "t = t0 @ (Git c (''branch'' # args), a) # vs" by simp
        then show ?thesis using t[unfolded cleared_def, rule_format, of t0 c args a vs] by blast
      qed
    next
      case 2
      from u[unfolded cleared_def, rule_format, OF 2(2)] obtain b
        where "args = [''-D'', b]" "nothing_unpushed heads c b us" by blast
      then show ?thesis using nothing_unpushed_later 2(1) by blast
    qed
  qed
  moreover have "cleared heads []" by (simp add: cleared_def)
  ultimately show ?thesis unfolding chained_def by blast
qed

lemma unchanging_cleared: "unchanging t \<Longrightarrow> cleared heads t"
  by (auto simp: cleared_def unchanging_def)

lemma reads_cleared: "traces unchanging p \<Longrightarrow> traces (cleared heads) p"
  by (auto simp: traces_def intro: unchanging_cleared)

lemma run_git_cleared: "args \<noteq> [] \<Longrightarrow> hd args \<noteq> ''branch'' \<Longrightarrow> traces (cleared heads) (run_git c args)"
  by (rule traces_run_git) (auto simp: cleared_def Cons_eq_append_conv)

lemma stray_none:
  assumes "runs (stray_branch_reason c b heads) t (Inr None)"
  shows "nothing_unpushed heads c b t"
  using assms
  unfolding stray_branch_reason_def stray_tip_def live_tracking_refs_def tip_args_def nothing_unpushed_def
  by (fastforce simp: runs_try_then runs_run_git split: if_splits option.splits)

lemma clear_stray_cleared: "traces (cleared heads) (clear_stray_branch c b heads)"
  unfolding traces_def
proof (intro allI impI)
  fix t r
  assume run: "runs (clear_stray_branch c b heads) t r"
  have tip: "cleared heads u" if "runs (stray_tip c b) u x" for u x
    using tracesD[OF tip_reads that] by (rule unchanging_cleared)
  have why: "cleared heads u" if "runs (stray_branch_reason c b heads) u x" for u x
    using tracesD[OF stray_reads that] by (rule unchanging_cleared)
  have app: "cleared heads (u @ v)" if "cleared heads u" "cleared heads v" for u v
    using that chained_cleared by (simp add: chained_def)
  have del: "cleared heads (u @ [(Git c (delete_args b), a)])"
    if "runs (stray_branch_reason c b heads) u (Inr None)" for u a
    unfolding cleared_def
  proof (intro allI impI)
    fix t0 d args x t1
    assume "u @ [(Git c (delete_args b), a)] = t0 @ (Git d (''branch'' # args), x) # t1"
    then show "\<exists>b. args = [''-D'', b] \<and> nothing_unpushed heads d b t0"
      using why[OF that] stray_none[OF that]
      by (cases t1 rule: rev_cases) (auto simp: cleared_def delete_args_def)
  qed
  show "cleared heads t"
    using run unfolding clear_stray_branch_def
    by (auto simp: runs_try_then runs_run_git split: if_splits option.splits
        intro: tip app[OF tip why] app[OF tip del])
qed

lemma take_over_cleared: "traces (cleared heads) (take_over st issue b d rc heads)"
  unfolding take_over_def Let_def track_args_def
  by (intro traces_intros chained_cleared run_git_cleared clear_stray_cleared reads_cleared[OF authors_read])
    (auto intro!: traces_intros run_git_cleared clear_stray_cleared split: option.split)

lemma create_cleared: "traces (cleared heads) (create_worktree st issue b d rc heads base)"
  unfolding create_worktree_def Let_def create_args_def
  by (auto intro!: traces_intros run_git_cleared clear_stray_cleared)

lemma from_heads_cleared: "traces (cleared heads) (from_heads st issue kind slug rc base heads)"
  unfolding from_heads_def
  by (auto intro!: traces_Done take_over_cleared create_cleared split: sum.split option.split)
section \<open>Added worktrees\<close>

fun adds :: "wt_request \<Rightarrow> bool" where
  "adds (Git c (cmd # sub # args)) = (cmd = ''worktree'' \<and> sub = ''add'')"
| "adds _ = False"

definition unadding :: "(wt_request, wt_answer) trace \<Rightarrow> bool" where
  "unadding t = (\<forall>(q, a) \<in> set t. \<not> adds q)"

lemma adds_changes: "adds q \<Longrightarrow> changes q"
  by (cases q rule: adds.cases) auto

lemma chained_unadding [simp]: "chained unadding"
  by (auto simp: chained_def unadding_def)

lemma unadding_simps [simp]:
  "unadding []" "unadding ((q, a) # t) = (\<not> adds q \<and> unadding t)"
  "unadding (t @ u) = (unadding t \<and> unadding u)"
  by (auto simp: unadding_def)

lemma reads_unadding: "traces unchanging p \<Longrightarrow> runs p t x \<Longrightarrow> unadding t"
  unfolding traces_def unchanging_def unadding_def using adds_changes by fast

lemma reads_unadding_traces: "traces unchanging p \<Longrightarrow> traces unadding p"
  unfolding traces_def[of unadding] by (blast intro: reads_unadding)

lemma clear_stray_unadding: "traces unadding (clear_stray_branch c b heads)"
  unfolding clear_stray_branch_def
  by (auto intro!: traces_intros reads_unadding_traces[OF tip_reads] reads_unadding_traces[OF stray_reads]
      simp: delete_args_def split: option.split)

lemma try_then_cases:
  assumes "runs (try_then p f) t r"
  obtains e where "runs p t (Inl e)" "r = Inl e"
  | t1 u x where "t = t1 @ u" "runs p t1 (Inr x)" "runs (f x) u r"
  using assms unfolding runs_try_then by blast

lemma run_git_then:
  assumes "runs (try_then (run_git c args) f) t r"
  obtains a where "t = [(Git c args, a)]" "an_code a \<noteq> 0" "r = Inl (GitRefused args (git_message a))"
  | a u where "t = (Git c args, a) # u" "an_code a = 0" "runs (f (an_out a)) u r"
  using assms by (cases rule: try_then_cases) (auto simp: runs_run_git split: if_splits)

text \<open>A run that takes a branch over or makes one ends with the worktree, or adds none.\<close>

lemma take_over_run:
  assumes "runs (take_over st issue b d rc heads) t r"
  obtains e where "unadding t" "r = Inl e"
  | t0 af al ta tc authors a where
      "t = (Git (ws_clone st) t0, af) # (Git (ws_clone st) [''log'', log_format, main_ref @ ''..origin/'' @ b], al) #
         ta @ tc @ [(Git (ws_clone st) (track_args b d), a)]"
      "\<not> adds (Git (ws_clone st) t0)" "unadding ta" "unadding tc" "an_code al = 0"
      "runs (person_authors (ws_clone st) (splitlines (an_out al))) ta (Inr authors)"
      "check_authors (ws_bot st) b authors = None"
      "r = (if an_code a \<noteq> 0 then Inl (GitRefused (track_args b d) (git_message a)) else Inr
         \<lparr>ar_issue = issue, ar_branch = b, ar_path = d, ar_status = TookOver, ar_commits = length authors,
          ar_reads = [], ar_commands = [], ar_reclaim = rc\<rparr>)"
  using assms[unfolded take_over_def Let_def]
proof (cases rule: run_git_then)
  case fetched: (2 af t1)
  from fetched(3) show thesis
  proof (cases rule: run_git_then)
    case logged: (2 al t2)
    from logged(3) show thesis
    proof (cases rule: try_then_cases)
      case 1
      with fetched logged show thesis
        using reads_unadding[OF authors_read] by (intro that(1)) auto
    next
      case (2 ta t3 authors)
      note ta = reads_unadding[OF authors_read 2(2)]
      show thesis
      proof (cases "check_authors (ws_bot st) b authors")
        case (Some e)
        with 2 ta fetched logged show thesis by (intro that(1)) auto
      next
        case None
        from 2(3)[unfolded None option.case] show thesis
        proof (cases rule: try_then_cases)
          case 1
          with 2(1) ta fetched logged show thesis
            using tracesD[OF clear_stray_unadding] by (intro that(1)) auto
        next
          case cl: (2 tc t4)
          note tc = tracesD[OF clear_stray_unadding cl(2)]
          from cl(3) show thesis
          proof (cases rule: run_git_then)
            case (1 a)
            with cl 2 fetched logged None ta tc show thesis 
              by (intro that(2)[of "[''fetch'', ''origin'', main_branch,
                  ''+'' @ heads_prefix @ b @ '':refs/remotes/origin/'' @ b]" af al ta tc a authors]) auto
          next
            case t: (2 a u)
            with cl 2 fetched logged None ta tc show thesis 
              by (intro that(2)[of "[''fetch'', ''origin'', main_branch,
                  ''+'' @ heads_prefix @ b @ '':refs/remotes/origin/'' @ b]" af al ta tc a authors]) auto
          qed
        qed
      qed
    qed
  qed (use fetched in \<open>intro that(1); simp\<close>)
qed (intro that(1); simp)

lemma create_run:
  assumes "runs (create_worktree st issue b d rc heads base) t r"
  obtains e where "unadding t" "r = Inl e"
  | t1 a where "t = t1 @ [(Git (ws_clone st) (create_args b d base), a)]" "unadding t1"
      "r = (if an_code a \<noteq> 0 then Inl (GitRefused (create_args b d base) (git_message a)) else Inr
         \<lparr>ar_issue = issue, ar_branch = b, ar_path = d, ar_status = Created, ar_commits = 0,
          ar_reads = [], ar_commands = [], ar_reclaim = rc\<rparr>)"
  using assms[unfolded create_worktree_def Let_def]
proof (cases rule: run_git_then)
  case fetched: (2 af t1)
  from fetched(3) show thesis
  proof (cases rule: try_then_cases)
    case 1
    with fetched show thesis
      using tracesD[OF clear_stray_unadding] by (intro that(1)) auto
  next
    case cl: (2 tc t4)
    note tc = tracesD[OF clear_stray_unadding cl(2)]
    from cl(3) show thesis
    proof (cases rule: run_git_then)
      case (1 a)
      with cl fetched tc show thesis by (intro that(2)[of "(Git (ws_clone st) [''fetch'', ''origin'', main_branch], af) # tc" a]) auto
    next
      case (2 a u)
      with cl fetched tc show thesis by (intro that(2)[of "(Git (ws_clone st) [''fetch'', ''origin'', main_branch], af) # tc" a]) auto
    qed
  qed
qed (intro that(1); simp)

text \<open>A run that reads the branches of \<open>origin\<close>, and one that ends before it.\<close>

lemma add_worktree_run:
  assumes "runs (add_worktree st issue kind slug dry given base) t r"
  obtains "unchanging t" "\<forall>rep. r = Inr rep \<longrightarrow> dry \<and> ar_status rep = WouldCreate"
  | t1 a t2 rc where "\<not> dry" "t = t1 @ (Git (ws_clone st) ls_remote_args, a) # t2" "unchanging t1" "an_code a = 0"
      "runs (from_heads st issue kind slug rc base (an_out a)) t2 r"
  using assms[unfolded add_worktree_def Let_def]
proof (cases rule: try_then_cases)
  case (1 e)
  then show thesis using tracesD[OF origin_reads] by (intro that(1)) auto
next
  case origin: (2 t1 u x)
  note t1 = tracesD[OF origin_reads origin(2)]
  let ?reclaim = "case given of None \<Rightarrow> no_reclaim | Some r \<Rightarrow> r"
  from origin(3) obtain t2 v held where held: "u = t2 @ v"
    "runs (local_holder (ws_clone st) issue (ws_directory st issue)) t2 held"
    "runs (case held of
       Some h \<Rightarrow> Done (Inl (HeldBy h))
     | None \<Rightarrow>
         if dry then
           (case new_branch issue kind slug of
              Inl e \<Rightarrow> Done (Inl e)
            | Inr branch \<Rightarrow> Done (Inr
                \<lparr>ar_issue = issue, ar_branch = branch, ar_path = ws_directory st issue, ar_status = WouldCreate,
                 ar_commits = 0, ar_reads = rr_requests ?reclaim,
                 ar_commands = add_commands branch (ws_directory st issue) base, ar_reclaim = ?reclaim\<rparr>))
         else try_then (run_git (ws_clone st) ls_remote_args)
                (from_heads st issue kind slug ?reclaim base)) v r"
    unfolding runs_bind by blast
  have before: "unchanging (t1 @ t2)"
    using t1 tracesD[OF holder_reads held(2)] by (auto simp: unchanging_def)
  show thesis
  proof (cases "held = None \<and> \<not> dry")
    case True
    with held(3) have "runs (try_then (run_git (ws_clone st) ls_remote_args)
        (from_heads st issue kind slug ?reclaim base)) v r" by simp
    then show thesis
    proof (cases rule: run_git_then)
      case (1 a)
      with before origin(1) held(1) show thesis
        by (intro that(1)) (auto simp: unchanging_def ls_remote_args_def)
    next
      case (2 a w)
      with before origin(1) held(1) True show thesis by (intro that(2)[of "t1 @ t2" a w ?reclaim]) auto
    qed
  next
    case False
    with held(3) have "v = [] \<and> (\<forall>rep. r = Inr rep \<longrightarrow> dry \<and> ar_status rep = WouldCreate)"
      by (auto split: option.splits sum.splits)
    with before origin(1) held(1) show thesis by (intro that(1)) auto
  qed
qed

lemma from_heads_adds:
  assumes "runs (from_heads st issue kind slug rc base heads) t r"
  shows "(\<exists>(q, a) \<in> set t. adds q \<and> an_code a = 0) \<longleftrightarrow> (\<exists>rep. r = Inr rep)"
    and "r = Inr rep \<Longrightarrow> ar_status rep \<noteq> WouldCreate"
proof -
  have none: "\<not> (\<exists>(q, a) \<in> set t. adds q \<and> an_code a = 0)" if "unadding t" for t
    using that by (auto simp: unadding_def)
  consider e where "t = []" "r = Inl e"
    | b where "runs (create_worktree st issue b (ws_directory st issue) rc heads base) t r"
    | b where "runs (take_over st issue b (ws_directory st issue) rc heads) t r"
    using assms unfolding from_heads_def by (auto split: sum.splits option.splits)
  then have "((\<exists>(q, a) \<in> set t. adds q \<and> an_code a = 0) \<longleftrightarrow> (\<exists>rep. r = Inr rep)) \<and>
    (\<forall>rep. r = Inr rep \<longrightarrow> ar_status rep \<noteq> WouldCreate)"
  proof cases
    case (2 b)
    then show ?thesis
    proof (cases rule: create_run)
      case (2 t1 a)
      with none[OF 2(2)] show ?thesis by (auto simp: create_args_def)
    qed (use none in auto)
  next
    case (3 b)
    then show ?thesis
    proof (cases rule: take_over_run)
      case (2 t0 af al ta tc authors a)
      with none[OF 2(3)] none[OF 2(4)] show ?thesis by (auto simp: track_args_def)
    qed (use none in auto)
  qed simp
  then show "(\<exists>(q, a) \<in> set t. adds q \<and> an_code a = 0) \<longleftrightarrow> (\<exists>rep. r = Inr rep)"
    and "r = Inr rep \<Longrightarrow> ar_status rep \<noteq> WouldCreate" by auto
qed

lemma person_authors_lines:
  "runs (person_authors c lines) t (Inr authors) \<Longrightarrow> line \<in> set lines \<Longrightarrow>
     \<exists>author parents tree. split_on (CHR 0x1F) line = [author, parents, tree] \<and>
       (author \<in> set authors \<or>
        length (split_space parents) = 2 \<and>
          (\<exists>a. (Git c ([''merge-tree'', ''--write-tree''] @ split_space parents), a) \<in> set t \<and>
               an_code a = 0 \<and> take 1 (split_space (an_out a)) = [tree]))"
proof (induction lines arbitrary: t authors)
  case (Cons l lines)
  from Cons.prems(1) obtain author parents tree where l: "split_on (CHR 0x1F) l = [author, parents, tree]"
    by (auto split: list.splits)
  from Cons.prems(1) obtain t1 t2 clean rest where steps: "t = t1 @ t2"
    "runs (is_clean_merge c (split_space parents) tree) t1 clean"
    "runs (person_authors c lines) t2 (Inr rest)" "authors = (if clean then rest else author # rest)"
    unfolding person_authors.simps l list.case runs_bind by (auto simp: runs_try_then)
  show ?case
  proof (cases "line = l")
    case True
    have "author \<in> set authors \<or> length (split_space parents) = 2 \<and>
        (\<exists>a. (Git c ([''merge-tree'', ''--write-tree''] @ split_space parents), a) \<in> set t \<and>
             an_code a = 0 \<and> take 1 (split_space (an_out a)) = [tree])"
      using steps(1,2,4) by (auto simp: is_clean_merge_def runs_Ask_iff split: if_splits)
    then show ?thesis using l True by blast
  next
    case False
    with Cons.prems(2) have "line \<in> set lines" by simp
    from Cons.IH[OF steps(3) this] show ?thesis using steps(1,4) by (auto split: if_splits)
  qed
qed simp

section \<open>Removed worktrees\<close>

lemma ask_each_in:
  "runs (ask_each f xs) t ys \<Longrightarrow> (q, a) \<in> set t \<Longrightarrow> \<exists>x \<in> set xs. \<exists>u y. runs (f x) u y \<and> (q, a) \<in> set u"
proof (induction xs arbitrary: t ys)
  case (Cons x xs)
  then obtain t1 t2 y zs where "t = t1 @ t2" "runs (f x) t1 y" "runs (ask_each f xs) t2 zs"
    by (auto simp: runs_bind)
  with Cons.IH[of t2 zs] Cons.prems(2) show ?case by auto
qed simp

lemma try_each_in:
  "runs (try_each f xs) t (Inr ys) \<Longrightarrow> y \<in> set ys \<Longrightarrow>
     \<exists>x \<in> set xs. \<exists>u. runs (f x) u (Inr y) \<and> set u \<subseteq> set t"
proof (induction xs arbitrary: t ys)
  case (Cons x xs)
  then obtain t1 t2 z zs where "t = t1 @ t2" "runs (f x) t1 (Inr z)" "runs (try_each f xs) t2 (Inr zs)"
      "ys = z # zs"
    by (auto simp: runs_try_then)
  with Cons.IH[of t2 zs] Cons.prems(2) show ?case by (auto; blast)
qed simp

lemma prune_worktrees_run:
  assumes "runs (prune_worktrees here c entries repo force confirm) t r"
  obtains e where "unchanging t" "r = Inl e"
  | t1 t2 ds items where "t = t1 @ t2" "unchanging t1" "runs (try_each (decide here force repo) entries) t1 (Inr ds)"
      "runs (ask_each (apply_decision c force confirm) ds) t2 items" "\<exists>report. r = Inr report"
  using assms[unfolded prune_worktrees_def]
proof (cases rule: try_then_cases)
  case (1 e)
  then show thesis
    using tracesD[OF traces_try_each[OF chained_unchanging decide_reads]] by (intro that(1)) auto
next
  case (2 t1 u x)
  then show thesis
    using tracesD[OF traces_try_each[OF chained_unchanging decide_reads] 2(2)]
    by (auto simp: runs_bind intro: that(2))
qed

lemma applied_change:
  assumes "runs (apply_decision c force confirm d) t i" and "(q, a) \<in> set t" and "changes q"
  shows "wd_removable d \<and> confirm \<and> q = Git c (remove_args force (we_path (wd_entry d)))"
proof -
  have "\<not> changes q" if "runs (size_of path) u x" "(q, a) \<in> set u" for path u x
    using tracesD[OF size_reads that(1)] that(2) by (auto simp: unchanging_def)
  then show ?thesis
    using assms unfolding apply_decision_def Let_def
    by (auto simp: runs_bind runs_Ask_iff split: if_splits)
qed

lemma removable_decision:
  assumes "runs (decide here False repo e) t (Inr d)" and "wd_removable d"
  shows "wd_entry d = e \<and> \<not> we_main e \<and> \<not> here (we_path e) \<and> \<not> we_locked e \<and>
    (we_prunable e \<or> we_dirty e = Some 0 \<and>
      (\<exists>k pa ps p. repo = Some k \<and> (CommitPulls k (we_head e), pa) \<in> set t \<and> an_pulls pa = Inr ps \<and>
         p \<in> set ps \<and> cp_merged_at p \<noteq> None \<and> cp_head_sha p = we_head e))"
proof (cases "decided_by_local_state here False e")
  case (Some w)
  then have "d = w" using assms(1) by (simp add: decide_def)
  with Some assms(2) show ?thesis
    by (auto simp: decided_by_local_state_def Let_def split: if_splits option.splits)
next
  case None
  then have local: "\<not> we_main e" "\<not> here (we_path e)" "\<not> we_locked e" "we_dirty e = Some 0"
    by (auto simp: decided_by_local_state_def Let_def split: if_splits option.splits)
  from assms(1) None obtain n where n: "runs (merged_pull repo (we_head e)) t (Inr n)"
    "d = (case n of
            None \<Rightarrow> \<lparr>wd_entry = e, wd_removable = False, wd_reason = NoMergedPull\<rparr>
          | Some k \<Rightarrow> \<lparr>wd_entry = e, wd_removable = True, wd_reason = MergedPull k\<rparr>)"
    by (auto simp: decide_def runs_try_then)
  with assms(2) obtain k where k: "n = Some k" "wd_entry d = e" by (cases n) auto
  from n(1) obtain h pa where ask: "repo = Some h" "t = [(CommitPulls h (we_head e), pa)]"
    "Inr n = (case an_pulls pa of
        Inl g \<Rightarrow> Inl (PullsUnread g)
      | Inr pulls \<Rightarrow> Inr (map_option cp_number
          (find (\<lambda>p. cp_merged_at p \<noteq> None \<and> cp_head_sha p = we_head e) pulls)))"
    by (auto simp: merged_pull_def runs_Ask_iff split: option.splits)
  with k(1) obtain ps where pull: "repo = Some h" "t = [(CommitPulls h (we_head e), pa)]"
    "an_pulls pa = Inr ps" "find (\<lambda>p. cp_merged_at p \<noteq> None \<and> cp_head_sha p = we_head e) ps \<noteq> None"
    by (cases "an_pulls pa") (auto simp: eq_commute[of "Some k"])
  then obtain p where "p \<in> set ps" "cp_merged_at p \<noteq> None" "cp_head_sha p = we_head e"
    by (auto simp: find_None_iff)
  with pull local k(2) show ?thesis by auto
qed

lemma person_authors_from:
  "runs (person_authors c lines) t (Inr authors) \<Longrightarrow> x \<in> set authors \<Longrightarrow>
     \<exists>line \<in> set lines. hd (split_on (CHR 0x1F) line) = x"
proof (induction lines arbitrary: t authors)
  case (Cons l lines)
  from Cons.prems(1) obtain author parents tree where l: "split_on (CHR 0x1F) l = [author, parents, tree]"
    by (auto split: list.splits)
  from Cons.prems(1) obtain t2 clean rest where
    "runs (person_authors c lines) t2 (Inr rest)" "authors = (if clean then rest else author # rest)"
    unfolding person_authors.simps l list.case runs_bind by (auto simp: runs_try_then)
  with Cons.IH Cons.prems(2) l show ?case by (fastforce split: if_splits)
qed simp

end
