(* ===== verification/WorktreeProps.thy ===== *)
theory WorktreeProps
  imports WorktreeRuns
begin

text \<open>
  What the worktrees promise, whatever git, the file system and GitHub answer: a branch with commits
  that \<open>origin\<close> lacks is not deleted, a pushed branch is taken over only when the App wrote it, a
  refused run leaves no worktree, a removed worktree held no work, and what git prints of its worktrees
  reads back.
\<close>

section \<open>Properties\<close>

text \<open>
  C6: A branch of the clone is deleted only by \<open>git branch -D\<close>, after the branches of \<open>origin\<close> are
  read, and the request right before it shows that \<open>origin\<close> holds every commit of the branch (the main
  branch and the remote-tracking refs that are at the tip \<open>origin\<close> lists leave none out), or that the
  clone has no such branch.
\<close>
theorem unpushed_branch_is_never_deleted:
  assumes "runs (add_worktree st issue kind slug dry given base) t r"
    and "t = t0 @ (Git c (''branch'' # args), a) # t1"
  shows "\<exists>heads b. (Git (ws_clone st) ls_remote_args, heads) \<in> set t0 \<and> args = [''-D'', b] \<and>
    nothing_unpushed (an_out heads) c b t0"
  using assms(1)
proof (cases rule: add_worktree_run)
  case 1
  then show ?thesis using assms(2) by (auto simp: unchanging_def)
next
  case (2 u1 ah u2 rc)
  note heads = tracesD[OF from_heads_cleared 2(5)]
  have "u1 @ (Git (ws_clone st) ls_remote_args, ah) # u2 = t0 @ (Git c (''branch'' # args), a) # t1"
    using 2(2) assms(2) by simp
  moreover have "(Git c (''branch'' # args), a) \<notin> set u1" using 2(3) by (auto simp: unchanging_def)
  ultimately obtain v where v: "t0 = u1 @ (Git (ws_clone st) ls_remote_args, ah) # v"
      "u2 = v @ (Git c (''branch'' # args), a) # t1"
    by (auto simp: append_eq_append_conv2 Cons_eq_append_conv append_eq_Cons_conv ls_remote_args_def)
  from heads[unfolded cleared_def, rule_format, OF v(2)] obtain b
    where "args = [''-D'', b]" "nothing_unpushed (an_out ah) c b v" by blast
  then show ?thesis
    using v(1) nothing_unpushed_later[of "an_out ah" c b v "u1 @ [(Git (ws_clone st) ls_remote_args, ah)]"]
    by auto
qed

text \<open>
  C7: A worktree is put on a pushed branch only when the read of its log shows that the App wrote
  each of its commits past the main branch, but for a merge of two parents whose tree git's own merge of
  them gives, and that there is a commit of the App.
\<close>
theorem taken_over_branch_is_the_apps:
  assumes "runs (add_worktree st issue kind slug dry given base) t r"
    and "(Git c [''worktree'', ''add'', ''--track'', ''-b'', b, d, tip], a) \<in> set t"
  shows "\<exists>app al. ws_bot st = Some app \<and>
    (Git c [''log'', log_format, main_ref @ ''..origin/'' @ b], al) \<in> set t \<and> an_code al = 0 \<and>
    (\<exists>line \<in> set (splitlines (an_out al)). hd (split_on (CHR 0x1F) line) = app) \<and>
    (\<forall>line \<in> set (splitlines (an_out al)).
       \<exists>author parents tree. split_on (CHR 0x1F) line = [author, parents, tree] \<and>
         (author = app \<or> length (split_space parents) = 2 \<and>
           (\<exists>m. (Git c ([''merge-tree'', ''--write-tree''] @ split_space parents), m) \<in> set t \<and>
                an_code m = 0 \<and> take 1 (split_space (an_out m)) = [tree])))"
  using assms(1)
proof (cases rule: add_worktree_run)
  case 1
  then show ?thesis using assms(2) by (auto simp: unchanging_def)
next
  case (2 u1 ah u2 rc)
  have "adds (Git c [''worktree'', ''add'', ''--track'', ''-b'', b, d, tip])" by simp
  then have in2: "(Git c [''worktree'', ''add'', ''--track'', ''-b'', b, d, tip], a) \<in> set u2"
    using assms(2) 2(2,3) adds_changes by (fastforce simp: unchanging_def ls_remote_args_def)
  have plain: "(Git c [''worktree'', ''add'', ''--track'', ''-b'', b, d, tip], a) \<notin> set u" if "unadding u" for u
    using that by (auto simp: unadding_def dest!: bspec)
  have "\<not> runs (create_worktree st issue nb dir rc heads base) u2 r" for nb dir heads
  proof
    assume "runs (create_worktree st issue nb dir rc heads base) u2 r"
    then show False
      by (cases rule: create_run) (use in2 plain in \<open>auto simp: create_args_def\<close>)
  qed
  then have "\<exists>pb. runs (take_over st issue pb (ws_directory st issue) rc (an_out ah)) u2 r"
    using 2(5) in2 unfolding from_heads_def by (auto split: sum.splits option.splits)
  then obtain pb where "runs (take_over st issue pb (ws_directory st issue) rc (an_out ah)) u2 r" by blast
  then show ?thesis
  proof (cases rule: take_over_run)
    case 1
    then show ?thesis using in2 plain by blast
  next
    case t: (2 t0 af al ta tc authors x)
    have eq: "c = ws_clone st" "b = pb"
      using in2 t(1,2) plain[OF t(3)] plain[OF t(4)] by (auto simp: track_args_def)
    from t(7) obtain app where app: "ws_bot st = Some app" "authors \<noteq> []" "\<forall>x \<in> set authors. x = app"
      by (auto simp: check_authors_def find_None_iff split: if_splits option.splits)
    from app(2) obtain x0 where "x0 \<in> set authors" by (cases authors) auto
    with person_authors_from[OF t(6)] app(3)
    have "\<exists>line \<in> set (splitlines (an_out al)). hd (split_on (CHR 0x1F) line) = app" by metis
    moreover have "\<exists>author parents tree. split_on (CHR 0x1F) line = [author, parents, tree] \<and>
         (author = app \<or> length (split_space parents) = 2 \<and>
           (\<exists>m. (Git c ([''merge-tree'', ''--write-tree''] @ split_space parents), m) \<in> set t \<and>
                an_code m = 0 \<and> take 1 (split_space (an_out m)) = [tree]))"
      if "line \<in> set (splitlines (an_out al))" for line
    proof -
      have "set ta \<subseteq> set t" using 2(2) t(1) by auto
      then show ?thesis using person_authors_lines[OF t(6) that] app(3) eq(1) by blast
    qed
    moreover have "(Git c [''log'', log_format, main_ref @ ''..origin/'' @ b], al) \<in> set t"
      using 2(2) t(1) eq by simp
    ultimately show ?thesis using app(1) t(5) by blast
  qed
qed

text \<open>
  C29: A run reports a worktree exactly when git added one: a refused run leaves no worktree and no
  new branch, and a dry run sends no command that changes the clone.
\<close>
theorem worktree_is_added_exactly_when_reported:
  assumes "runs (add_worktree st issue kind slug dry given base) t r"
  shows "((\<exists>(q, a) \<in> set t. adds q \<and> an_code a = 0) \<longleftrightarrow>
      (\<exists>rep. r = Inr rep \<and> ar_status rep \<noteq> WouldCreate)) \<and>
    (dry \<longrightarrow> unchanging t)"
  using assms
proof (cases rule: add_worktree_run)
  case 1
  then show ?thesis using adds_changes by (auto simp: unchanging_def)
next
  case (2 t1 a t2 rc)
  have "\<not> (\<exists>(q, a) \<in> set t1. adds q \<and> an_code a = 0)"
    using 2(3) adds_changes by (auto simp: unchanging_def)
  then have "(\<exists>(q, a) \<in> set t. adds q \<and> an_code a = 0) \<longleftrightarrow> (\<exists>(q, a) \<in> set t2. adds q \<and> an_code a = 0)"
    using 2(2) by (auto simp: ls_remote_args_def)
  then show ?thesis using from_heads_adds[OF 2(5)] 2(1) by auto
qed

text \<open>
  C8: Without \<open>--force\<close> the only command that changes the clone is the removal of a worktree of the
  inventory that is not the main one, does not hold the current directory and is not locked, and that
  either is gone from the disk or has nothing uncommitted and heads a merged pull request. Git is given no
  \<open>--force\<close>, and nothing is removed without \<open>confirm\<close>.
\<close>
theorem removed_worktree_held_no_work:
  assumes "runs (prune_worktrees here c entries repo False confirm) t r"
    and "(q, a) \<in> set t" and "changes q"
  shows "confirm \<and> (\<exists>e \<in> set entries. q = Git c [''worktree'', ''remove'', we_path e] \<and>
    \<not> we_main e \<and> \<not> here (we_path e) \<and> \<not> we_locked e \<and>
    (we_prunable e \<or> we_dirty e = Some 0 \<and>
      (\<exists>k pa ps p. repo = Some k \<and> (CommitPulls k (we_head e), pa) \<in> set t \<and> an_pulls pa = Inr ps \<and>
         p \<in> set ps \<and> cp_merged_at p \<noteq> None \<and> cp_head_sha p = we_head e)))"
  using assms(1)
proof (cases rule: prune_worktrees_run)
  case 1
  then show ?thesis using assms(2,3) by (auto simp: unchanging_def)
next
  case (2 t1 t2 ds items)
  then have "(q, a) \<in> set t2" using assms(2,3) by (auto simp: unchanging_def)
  with 2(4) obtain d u i where d: "d \<in> set ds" "runs (apply_decision c False confirm d) u i" "(q, a) \<in> set u"
    using ask_each_in by blast
  note applied = applied_change[OF d(2,3) assms(3)]
  from try_each_in[OF 2(3) d(1)] obtain e v
    where e: "e \<in> set entries" "runs (decide here False repo e) v (Inr d)" "set v \<subseteq> set t1" by blast
  have sub: "set v \<subseteq> set t" using e(3) 2(1) by auto
  have "wd_removable d" using applied by blast
  note held = removable_decision[OF e(2) this]
  show ?thesis
    using applied held e(1) sub unfolding remove_args_def by simp blast
qed

text \<open>
  A pull request that cannot be read ends the prune with an error and nothing removed: every
  worktree is decided before any is removed.
\<close>
theorem unread_pull_removes_nothing:
  assumes "runs (prune_worktrees here c entries repo force confirm) t (Inl e)"
  shows "\<forall>(q, a) \<in> set t. \<not> changes q"
  using assms by (cases rule: prune_worktrees_run) (auto simp: unchanging_def)

section \<open>Witnesses\<close>

definition sample_wt_settings :: wt_settings where
  "sample_wt_settings =
     \<lparr>ws_clone = ''/c'', ws_directory = (\<lambda>n. ''/w''), ws_bot = Some ''app'', ws_repo = Some ''o/r'',
      ws_here = (\<lambda>p. False)\<rparr>"

definition said :: "string \<Rightarrow> wt_answer" where
  "said out = \<lparr>an_code = 0, an_out = out, an_err = [], an_held = False, an_size = 0, an_pulls = Inr []\<rparr>"

definition sample_creation :: "(wt_error + add_report) wt_run" where
  "sample_creation = add_worktree sample_wt_settings 7 (Some ''fix'') (Some ''x'') False None None"

definition creation_answers :: "wt_answer list" where
  "creation_answers = map said [''url'', [], [], [], [], ''abc'', ''abc'', [], ''0'', [], []]"

definition takeover_answers :: "wt_answer list" where
  "takeover_answers =
     map said [''url'', [], [], ''abc'' @ [CHR 0x09] @ ''refs/heads/fix/7-x'', [],
       ''app'' @ [CHR 0x1F] @ ''p'' @ [CHR 0x1F] @ ''t'', [], []]"

definition sends :: "wt_request \<Rightarrow> (wt_request, wt_answer) trace \<Rightarrow> bool" where
  "sends q t = list_ex (\<lambda>(p, a). p = q) t"

lemma sendsD: "sends q t \<Longrightarrow> \<exists>a. (q, a) \<in> set t"
  by (auto simp: sends_def list_ex_iff)

lemma unpushed_branch_is_never_deleted_witness:
  "\<exists>t0 a heads. (Git ''/c'' ls_remote_args, heads) \<in> set t0 \<and>
     nothing_unpushed (an_out heads) ''/c'' ''fix/7-x'' t0 \<and>
     (\<exists>t1 r. runs sample_creation (t0 @ (Git ''/c'' [''branch'', ''-D'', ''fix/7-x''], a) # t1) r)"
proof (rule answered_gives[where p = sample_creation and as = creation_answers and
      P = "\<lambda>x t. sends (Git ''/c'' [''branch'', ''-D'', ''fix/7-x'']) t"])
  show "case answered sample_creation creation_answers of
    None \<Rightarrow> False | Some (x, t) \<Rightarrow> sends (Git ''/c'' [''branch'', ''-D'', ''fix/7-x'']) t"
    by code_simp
next
  fix x t
  assume run: "runs sample_creation t x" and "sends (Git ''/c'' [''branch'', ''-D'', ''fix/7-x'']) t"
  then obtain a t0 t1 where t: "t = t0 @ (Git ''/c'' [''branch'', ''-D'', ''fix/7-x''], a) # t1"
    by (meson sendsD split_list)
  from unpushed_branch_is_never_deleted[OF run[unfolded sample_creation_def] t]
  have "\<exists>heads. (Git ''/c'' ls_remote_args, heads) \<in> set t0 \<and>
      nothing_unpushed (an_out heads) ''/c'' ''fix/7-x'' t0"
    by (auto simp: sample_wt_settings_def)
  then show ?thesis using run unfolding t by blast
qed

lemma taken_over_branch_is_the_apps_witness:
  "\<exists>t r al. runs sample_creation t r \<and>
     (Git ''/c'' [''worktree'', ''add'', ''--track'', ''-b'', ''fix/7-x'', ''/w'', ''origin/fix/7-x''], said []) \<in> set t \<and>
     (Git ''/c'' [''log'', log_format, main_ref @ ''..origin/fix/7-x''], al) \<in> set t \<and>
     (\<exists>line \<in> set (splitlines (an_out al)). hd (split_on (CHR 0x1F) line) = ''app'')"
proof (rule answered_gives[where p = sample_creation and as = takeover_answers and
      P = "\<lambda>x t. list_ex (\<lambda>(q, a). q = Git ''/c'' (track_args ''fix/7-x'' ''/w'') \<and> a = said []) t"])
  show "case answered sample_creation takeover_answers of None \<Rightarrow> False
    | Some (x, t) \<Rightarrow> list_ex (\<lambda>(q, a). q = Git ''/c'' (track_args ''fix/7-x'' ''/w'') \<and> a = said []) t"
    by code_simp
next
  fix x t
  assume run: "runs sample_creation t x"
    and "list_ex (\<lambda>(q, a). q = Git ''/c'' (track_args ''fix/7-x'' ''/w'') \<and> a = said []) t"
  then have sent: "(Git ''/c'' [''worktree'', ''add'', ''--track'', ''-b'', ''fix/7-x'', ''/w'', ''origin/fix/7-x''], said [])
      \<in> set t" by (auto simp: list_ex_iff track_args_def)
  from taken_over_branch_is_the_apps[OF run[unfolded sample_creation_def] sent]
  have "\<exists>al. (Git ''/c'' [''log'', log_format, main_ref @ ''..origin/fix/7-x''], al) \<in> set t \<and>
     (\<exists>line \<in> set (splitlines (an_out al)). hd (split_on (CHR 0x1F) line) = ''app'')"
    by (auto simp: sample_wt_settings_def)
  then show ?thesis using run sent by blast
qed

lemma worktree_is_added_exactly_when_reported_witness:
  "\<exists>t r. runs sample_creation t r \<and> (\<exists>(q, a) \<in> set t. adds q \<and> an_code a = 0) \<and>
     (\<exists>rep. r = Inr rep \<and> ar_status rep \<noteq> WouldCreate)"
proof (rule answered_gives[where p = sample_creation and as = creation_answers and
      P = "\<lambda>x t. list_ex (\<lambda>(q, a). adds q \<and> an_code a = 0) t"])
  show "case answered sample_creation creation_answers of None \<Rightarrow> False
    | Some (x, t) \<Rightarrow> list_ex (\<lambda>(q, a). adds q \<and> an_code a = 0) t"
    by code_simp
next
  fix x t
  assume run: "runs sample_creation t x" and "list_ex (\<lambda>(q, a). adds q \<and> an_code a = 0) t"
  then have "\<exists>(q, a) \<in> set t. adds q \<and> an_code a = 0" by (auto simp: list_ex_iff)
  with worktree_is_added_exactly_when_reported[OF run[unfolded sample_creation_def]] run
  show ?thesis by blast
qed

definition sample_entry :: worktree_entry where
  "sample_entry =
     \<lparr>we_path = ''/p'', we_head = ''abc'', we_branch = Some ''fix/7-x'', we_issue = Some 7, we_ahead = 1,
      we_dirty = Some 0, we_locked = False, we_lock_reason = None, we_prunable = False,
      we_prunable_reason = None, we_main = False\<rparr>"

definition sample_prune :: "(wt_error + prune_report) wt_run" where
  "sample_prune = prune_worktrees (\<lambda>p. False) ''/c'' [sample_entry] (Some ''o/r'') False True"

definition prune_answers :: "wt_answer list" where
  "prune_answers =
     [(said [])\<lparr>an_pulls := Inr [\<lparr>cp_number = 3, cp_merged_at = Some ''now'', cp_head_sha = ''abc''\<rparr>]\<rparr>,
      said [], said []]"

lemma removed_worktree_held_no_work_witness:
  "\<exists>t r a pa. runs sample_prune t r \<and> (Git ''/c'' [''worktree'', ''remove'', ''/p''], a) \<in> set t \<and>
     (CommitPulls ''o/r'' ''abc'', pa) \<in> set t \<and> changes (Git ''/c'' [''worktree'', ''remove'', ''/p''])"
proof (rule answered_gives[where p = sample_prune and as = prune_answers and
      P = "\<lambda>x t. sends (Git ''/c'' [''worktree'', ''remove'', ''/p'']) t"])
  show "case answered sample_prune prune_answers of
    None \<Rightarrow> False | Some (x, t) \<Rightarrow> sends (Git ''/c'' [''worktree'', ''remove'', ''/p'']) t"
    by code_simp
next
  fix x t
  assume run: "runs sample_prune t x" and "sends (Git ''/c'' [''worktree'', ''remove'', ''/p'']) t"
  then obtain a where a: "(Git ''/c'' [''worktree'', ''remove'', ''/p''], a) \<in> set t" using sendsD by blast
  have "changes (Git ''/c'' [''worktree'', ''remove'', ''/p''])" by simp
  with removed_worktree_held_no_work[OF run[unfolded sample_prune_def] a]
  have "\<exists>pa. (CommitPulls ''o/r'' ''abc'', pa) \<in> set t" by (auto simp: sample_entry_def)
  then show ?thesis using run a by auto
qed

lemma unread_pull_removes_nothing_witness:
  "\<exists>t e. runs sample_prune t (Inl e) \<and> (\<forall>(q, a) \<in> set t. \<not> changes q)"
proof (rule answered_gives[where p = sample_prune and as = "[(said [])\<lparr>an_pulls := Inl UnreadError\<rparr>]" and
      P = "\<lambda>x t. x = Inl (PullsUnread UnreadError)"])
  show "case answered sample_prune [(said [])\<lparr>an_pulls := Inl UnreadError\<rparr>] of
    None \<Rightarrow> False | Some (x, t) \<Rightarrow> x = Inl (PullsUnread UnreadError)"
    by (simp add: sample_prune_def prune_worktrees_def decide_def decided_by_local_state_def
        sample_entry_def merged_pull_def try_then_def said_def)
next
  fix x t
  assume "runs sample_prune t x" and "x = Inl (PullsUnread UnreadError)"
  then show ?thesis using unread_pull_removes_nothing unfolding sample_prune_def by blast
qed

section \<open>The records of git\<close>

text \<open>
  What \<open>git worktree list --porcelain -z\<close> prints: each attribute of a worktree as a token with a NUL at
  its end, and one more NUL after the last. A bare repository has neither a head nor a branch.
\<close>

fun reason_token :: "string \<Rightarrow> bool \<Rightarrow> string option \<Rightarrow> string list" where
  "reason_token w False why = []"
| "reason_token w True None = [w]"
| "reason_token w True (Some why) = [w @ '' '' @ why]"

definition porcelain_tokens :: "worktree_info \<Rightarrow> string list" where
  "porcelain_tokens i =
     (''worktree '' @ wi_path i) #
     (if wi_bare i then [''bare'']
      else [''HEAD '' @ wi_head i, case wi_branch i of Some b \<Rightarrow> ''branch '' @ b | None \<Rightarrow> ''detached'']) @
     reason_token ''locked'' (wi_locked i) (wi_lock_reason i) @
     reason_token ''prunable'' (wi_prunable i) (wi_prunable_reason i)"

definition ended :: "char \<Rightarrow> string list \<Rightarrow> string" where
  "ended c ts = concat (map (\<lambda>t. t @ [c]) ts)"

definition porcelain :: "worktree_info list \<Rightarrow> string" where
  "porcelain infos = ended (CHR 0x00) (concat (map (\<lambda>i. porcelain_tokens i @ [[]]) infos))"

definition is_reason :: "bool \<Rightarrow> string option \<Rightarrow> bool" where
  "is_reason flag why =
     (case why of None \<Rightarrow> True | Some r \<Rightarrow> flag \<and> r \<noteq> [] \<and> strip r = r \<and> CHR 0x00 \<notin> set r)"

definition printable_info :: "worktree_info \<Rightarrow> bool" where
  "printable_info i =
     (CHR 0x00 \<notin> set (wi_path i) \<and> CHR 0x00 \<notin> set (wi_head i) \<and>
      (case wi_branch i of None \<Rightarrow> True | Some b \<Rightarrow> CHR 0x00 \<notin> set b) \<and>
      (if wi_bare i then wi_head i = [] \<and> wi_branch i = None \<and> \<not> wi_detached i
       else wi_detached i = (wi_branch i = None)) \<and>
      is_reason (wi_locked i) (wi_lock_reason i) \<and> is_reason (wi_prunable i) (wi_prunable_reason i))"

lemma split_ended: "\<forall>t \<in> set ts. c \<notin> set t \<Longrightarrow> split_on c (ended c ts) = ts @ [[]]"
proof (induction ts)
  case (Cons t ts)
  have "split_on c (t @ c # s) = t # split_on c s" if "c \<notin> set t" for t s
    using that by (induction t) (auto split: list.splits)
  then show ?case using Cons by (simp add: ended_def)
qed (simp add: ended_def)

lemma record_groups_block:
  "\<forall>t \<in> set ts. t \<noteq> [] \<Longrightarrow> current @ ts \<noteq> [] \<Longrightarrow>
     record_groups current (ts @ [] # rest) = (current @ ts) # record_groups [] rest"
  by (induction ts arbitrary: current) auto

lemma tokens_nonempty: "t \<in> set (porcelain_tokens i) \<Longrightarrow> t \<noteq> []"
proof -
  have "t \<noteq> []" if "t \<in> set (reason_token w f why)" "w \<noteq> []" for w f why
    using that by (cases "(w, f, why)" rule: reason_token.cases) auto
  then show "t \<in> set (porcelain_tokens i) \<Longrightarrow> t \<noteq> []"
    by (auto simp: porcelain_tokens_def split: if_splits option.splits)
qed

lemma record_groups_tokens:
  "record_groups [] (concat (map (\<lambda>i. porcelain_tokens i @ [[]]) infos) @ [[]]) = map porcelain_tokens infos"
proof (induction infos)
  case (Cons i infos)
  have "porcelain_tokens i \<noteq> []" by (simp add: porcelain_tokens_def)
  with Cons record_groups_block[of "porcelain_tokens i" "[]"] tokens_nonempty show ?case by simp
qed simp

lemma read_reason:
  assumes "is_reason flag why"
  shows "foldl read_attribute (Some p, i) (reason_token ''locked'' flag why) =
      (Some p, if flag then i\<lparr>wi_locked := True, wi_lock_reason := why\<rparr> else i)"
    and "foldl read_attribute (Some p, i) (reason_token ''prunable'' flag why) =
      (Some p, if flag then i\<lparr>wi_prunable := True, wi_prunable_reason := why\<rparr> else i)"
proof -
  have space: "strip (CHR '' '' # r) = strip r" "strip [] = []" for r
    by (simp_all add: strip_def lstrip_def rstrip_def is_space_def)
  show "foldl read_attribute (Some p, i) (reason_token ''locked'' flag why) =
      (Some p, if flag then i\<lparr>wi_locked := True, wi_lock_reason := why\<rparr> else i)"
    using assms
    by (cases "(''locked'', flag, why)" rule: reason_token.cases)
      (auto simp: read_attribute_def less_prefix_def or_none_def is_reason_def space)
  show "foldl read_attribute (Some p, i) (reason_token ''prunable'' flag why) =
      (Some p, if flag then i\<lparr>wi_prunable := True, wi_prunable_reason := why\<rparr> else i)"
    using assms
    by (cases "(''prunable'', flag, why)" rule: reason_token.cases)
      (auto simp: read_attribute_def less_prefix_def or_none_def is_reason_def space)
qed

lemma read_place:
  "foldl read_attribute (None, blank_info m)
     ((''worktree '' @ p) # (if b then [''bare''] else [''HEAD '' @ h, case br of Some x \<Rightarrow> ''branch '' @ x | None \<Rightarrow> ''detached'']) @ ts) =
   foldl read_attribute (Some p, if b then (blank_info m)\<lparr>wi_bare := True\<rparr>
     else (blank_info m)\<lparr>wi_head := h, wi_branch := br, wi_detached := (br = None)\<rparr>) ts"
  by (cases b; cases br) (simp_all add: read_attribute_def less_prefix_def blank_info_def)

lemma parse_tokens: "printable_info i \<Longrightarrow> parse_single_record (porcelain_tokens i) (wi_main i) = Some i"
proof -
  assume i: "printable_info i"
  then have r: "is_reason (wi_locked i) (wi_lock_reason i)" "is_reason (wi_prunable i) (wi_prunable_reason i)"
    by (auto simp: printable_info_def)
  show ?thesis
    unfolding parse_single_record_def porcelain_tokens_def read_place foldl_append read_reason[OF r(1)]
      read_reason(2)[OF r(2)]
    using i by (cases i) (auto simp: printable_info_def is_reason_def blank_info_def split: option.splits if_splits)
qed

lemma tokens_printable: "printable_info i \<Longrightarrow> t \<in> set (porcelain_tokens i) \<Longrightarrow> CHR 0x00 \<notin> set t"
proof -
  have reason: "CHR 0x00 \<notin> set u"
    if "u \<in> set (reason_token w f why)" "CHR 0x00 \<notin> set w" "is_reason f why" for u w f why
    using that by (cases "(w, f, why)" rule: reason_token.cases) (auto simp: is_reason_def)
  assume i: "printable_info i" and t: "t \<in> set (porcelain_tokens i)"
  have r: "is_reason (wi_locked i) (wi_lock_reason i)" "is_reason (wi_prunable i) (wi_prunable_reason i)"
    using i by (auto simp: printable_info_def)
  have "CHR 0x00 \<notin> set ''locked''" "CHR 0x00 \<notin> set ''prunable''" by simp_all
  note reason[OF _ this(1) r(1)] reason[OF _ this(2) r(2)]
  then show "CHR 0x00 \<notin> set t"
    using t i by (auto simp: porcelain_tokens_def printable_info_def split: if_splits option.splits)
qed

lemma parse_rest:
  "\<forall>i \<in> set infos. printable_info i \<and> \<not> wi_main i \<Longrightarrow>
     concat (map (\<lambda>x. case x of None \<Rightarrow> [] | Some i \<Rightarrow> [i])
       (map (\<lambda>q. parse_single_record q False) (map porcelain_tokens infos))) = infos"
proof (induction infos)
  case (Cons i infos)
  then show ?case using parse_tokens[of i] by simp
qed simp

text \<open>
  C30: What git prints of its worktrees reads back as the worktrees, the first of them as the main one:
  paths, branches, lock reasons with spaces and a missing directory included.
\<close>
theorem worktree_listing_reads_back:
  assumes "infos \<noteq> []" and "\<forall>i \<in> set infos. printable_info i"
    and "wi_main (hd infos)" and "\<forall>i \<in> set (tl infos). \<not> wi_main i"
  shows "parse_worktree_porcelain_z (porcelain infos) = infos"
proof -
  obtain i rest where infos: "infos = i # rest" using assms(1) by (cases infos) auto
  have "\<forall>t \<in> set (concat (map (\<lambda>i. porcelain_tokens i @ [[]]) infos)). CHR 0x00 \<notin> set t"
    using assms(2) tokens_printable by auto
  note split_ended[OF this]
  then have "parse_worktree_porcelain_z (porcelain infos) = parse_records True (map porcelain_tokens infos)"
    unfolding parse_worktree_porcelain_z_def porcelain_def by (simp only: record_groups_tokens)
  also have "\<dots> = infos"
    using parse_tokens[of i] parse_rest[of rest] assms(2-4) by (simp add: infos parse_records_def comp_assoc)
  finally show ?thesis .
qed

definition sample_infos :: "worktree_info list" where
  "sample_infos =
     [(blank_info True)\<lparr>wi_path := ''/c'', wi_head := ''a'', wi_branch := Some ''refs/heads/main''\<rparr>,
      (blank_info False)\<lparr>wi_path := ''/w t'', wi_head := ''b'', wi_detached := True, wi_locked := True,
        wi_lock_reason := Some ''in use'', wi_prunable := True\<rparr>]"

lemma worktree_listing_reads_back_witness:
  "parse_worktree_porcelain_z (porcelain sample_infos) = sample_infos \<and> map wi_lock_reason sample_infos = [None, Some ''in use'']"
proof -
  have "sample_infos \<noteq> []" "\<forall>i \<in> set sample_infos. printable_info i" "wi_main (hd sample_infos)"
    "\<forall>i \<in> set (tl sample_infos). \<not> wi_main i"
    by (simp_all add: sample_infos_def printable_info_def is_reason_def blank_info_def strip_def lstrip_def
        rstrip_def is_space_def)
  from worktree_listing_reads_back[OF this] show ?thesis by (simp add: sample_infos_def blank_info_def)
qed

end
