(* ===== verification/Trust.thy ===== *)
theory Trust
  imports Items BranchForm Rounds
begin

text \<open>
  Which Items the roadmap jobs trust, \<^verbatim>\<open>src/devops_cli/roadmap/trust.py\<close>, and the sections and hashes of
  a body that the approval of an Item rests on, \<^verbatim>\<open>src/devops_cli/roadmap/body_hash.py\<close>. The digest is a
  parameter, and so is the login of the Service App's bot.
\<close>

section \<open>Sections and hashes of a body\<close>

fun cut_at :: "string \<Rightarrow> string \<Rightarrow> (string \<times> string) option" where
  \<comment> \<open>What stands before and after the first occurrence of a text.\<close>
  "cut_at p [] = (if p = [] then Some ([], []) else None)"
| "cut_at p (c # s) =
     (if prefix p (c # s) then Some ([], drop (length p) (c # s))
      else map_option (\<lambda>(a, b). (c # a, b)) (cut_at p s))"

definition refine_start :: string where "refine_start = ''<!-- devops-roadmap-refine:start -->''"
definition refine_end :: string where "refine_end = ''<!-- devops-roadmap-refine:end -->''"
definition alternatives_start :: string where
  "alternatives_start = ''<!-- devops-roadmap-alternatives:start -->''"
definition alternatives_end :: string where
  "alternatives_end = ''<!-- devops-roadmap-alternatives:end -->''"

definition extract_section_and_outside :: "string \<Rightarrow> string \<Rightarrow> string \<Rightarrow> string \<times> string option" where
  "extract_section_and_outside body start stop =
     (case cut_at start body of
        None \<Rightarrow> (body, None)
      | Some (ahead, rest) \<Rightarrow>
          (case cut_at stop rest of
             None \<Rightarrow> (body, None)
           | Some (inside, behind) \<Rightarrow> (ahead @ behind, Some inside)))"

definition hash_text :: "(string \<Rightarrow> string) \<Rightarrow> string \<Rightarrow> string" where
  "hash_text digest s = digest (strip s)"

definition without_alternatives :: "string \<Rightarrow> string" where
  "without_alternatives body = fst (extract_section_and_outside body alternatives_start alternatives_end)"

definition text_of_a_person :: "string \<Rightarrow> string" where
  "text_of_a_person body = fst (extract_section_and_outside (without_alternatives body) refine_start refine_end)"

definition body_hashes :: "(string \<Rightarrow> string) \<Rightarrow> string \<Rightarrow> string \<times> string option" where
  "body_hashes digest body =
     (let (outside, inside) = extract_section_and_outside (without_alternatives body) refine_start refine_end
      in (hash_text digest outside, if falsy inside then None else map_option (hash_text digest) inside))"

definition is_unchanged :: "(string \<Rightarrow> string) \<Rightarrow> item \<Rightarrow> string \<Rightarrow> bool" where
  "is_unchanged digest i body =
     (let (outside, inside) = body_hashes digest body
      in record_get (it_job_record i) ''refine.body_hash'' = Some outside \<and>
         record_get (it_job_record i) ''refine.section_hash'' = inside)"

section \<open>Trust\<close>

record trust_settings =
  ts_bot :: "string option"
  ts_digest :: "string \<Rightarrow> string"

definition actions_bot :: string where
  "actions_bot = ''github-actions[bot]''"

definition bot_logins :: "string option \<Rightarrow> string list" where
  "bot_logins app = actions_bot # (case app of Some l \<Rightarrow> if l = [] then [] else [l] | None \<Rightarrow> [])"

definition is_bot_filed :: "trust_settings \<Rightarrow> item \<Rightarrow> bool" where
  "is_bot_filed ts i = (case it_author_login i of None \<Rightarrow> False | Some l \<Rightarrow> l \<in> set (bot_logins (ts_bot ts)))"

definition has_write_access :: "string option \<Rightarrow> bool" where
  "has_write_access association = (case association of None \<Rightarrow> False | Some a \<Rightarrow> a \<in> set trusted_authors)"

definition is_trusted :: "trust_settings \<Rightarrow> item \<Rightarrow> bool" where
  "is_trusted ts i = (has_write_access (it_author_association i) \<or> is_bot_filed ts i)"

definition is_approved :: "trust_settings \<Rightarrow> item \<Rightarrow> bool" where
  "is_approved ts i =
     (if \<not> is_bot_filed ts i then True
      else record_get (it_job_record i) ''refine.judge'' = Some ''approved'' \<and>
           is_unchanged (ts_digest ts) i (it_body i))"

definition trusted_replies :: "trust_settings \<Rightarrow> issue_comment list \<Rightarrow> issue_comment list" where
  "trusted_replies ts comments =
     filter (\<lambda>c. has_write_access (ic_author_association c) \<or>
                 ts_bot ts \<noteq> None \<and> ic_author_login c = ts_bot ts) comments"

end
