(* ===== verification/Selection.thy ===== *)
theory Selection
  imports Trust StopClear WorktreeAdd "HOL-Library.Product_Lexorder" "HOL-Library.List_Lexorder" "HOL-Library.Char_ord"
begin

text \<open>
  How the stage and the implement job name and walk the Items: the label filter and the walk of
  \<^verbatim>\<open>src/devops_cli/roadmap/stage/stage.py\<close> and \<^verbatim>\<open>stage_filter.py\<close>, over any store. A reason to leave an
  Item out is a value that holds what its text shows; the wording is not modelled.
\<close>

section \<open>The filter\<close>

definition filter_families :: "string list" where
  "filter_families = [''status'', ''priority'', ''type'', ''value'', ''effort'']"

datatype filter_error = FilterForm string | FilterFamily string string

definition split_filter_entry :: "string \<Rightarrow> filter_error + string \<times> string" where
  "split_filter_entry option =
     (let family = lower (strip (upto_char (CHR ''='') option));
          value = lower (strip (past_char (CHR ''='') option))
      in if family = [] \<or> value = [] then Inl (FilterForm option)
         else if family \<notin> set filter_families then Inl (FilterFamily option family)
         else Inr (family, value))"

text \<open>A filter gives each family its labels; a set of labels is a list without repetitions.\<close>

type_synonym stage_filter = "(string, string list) dict"

definition add_label :: "string \<times> string \<Rightarrow> stage_filter \<Rightarrow> stage_filter" where
  "add_label e fs =
     (let label = fst e @ ''/'' @ snd e; held = get_or [] fs (fst e)
      in dict_set (fst e) (if label \<in> set held then held else held @ [label]) fs)"

definition parse_filters :: "string list \<Rightarrow> string list \<Rightarrow> filter_error + stage_filter" where
  \<comment> \<open>The defaults are those of the caller or of the settings.\<close>
  "parse_filters options defaults =
     (case map_each split_filter_entry (if options = [] then defaults else options) of
        Inl e \<Rightarrow> Inl e
      | Inr entries \<Rightarrow> Inr (foldl (\<lambda>fs e. add_label e fs) [] entries))"

definition missed_family :: "stage_filter \<Rightarrow> item \<Rightarrow> (string \<times> string list) option" where
  "missed_family fs i = find (\<lambda>(family, wanted). set wanted \<inter> set (it_labels i) = {}) fs"

definition matches_filter :: "stage_filter \<Rightarrow> item \<Rightarrow> bool" where
  "matches_filter fs i = (missed_family fs i = None)"

section \<open>Reasons\<close>

datatype left_reason =
    NotReady "string option"
  | ClaimedBy string
  | NeedsSplit
  | IsTracker
  | UntrustedAuthor "string option" "string option"
  | Unjudged
  | TitleType
  | TitleLong nat
  | TitleSlug
  | OpenDependencies "int list"
  | OpenBlockers "int list"
  | OnDefault string
  | ArchivedThere string
  | PlanRejected int
  | HeldIssue issue_hold
  | LooksSecret
  | RecordedSplit string
  | FailedLately "string option" instant
  | QueueFull int int
  | NoItem
  | ItemClosed
  | StoppedAt string
  | NeitherStagedNorPlanned
  | NoBranchName string string
  | NoTasks string
  | AllTicked string
  | PlanProblem string
  | PlanUnread string string
  | PlanOfGit
  | NoFolder int
  | SeveralFolders int "string list"
  | NoAppLogin
  | BranchGone string
  | ForeignCommit string
  | NoOpenDraft int
  | EarlierEffort string
  | MissesFilter string "string list" "string list"

definition mismatch :: "stage_filter \<Rightarrow> item \<Rightarrow> left_reason option" where
  "mismatch fs i =
     map_option (\<lambda>(family, wanted). let p = family @ ''/'' in
         MissesFilter family (sort (map (less_prefix p) wanted))
           (map (less_prefix p) (filter (prefix p) (it_labels i))))
       (missed_family fs i)"

record left_out =
  lo_number :: int
  lo_reason :: left_reason
  lo_title :: string

definition leave_out :: "item \<Rightarrow> left_reason \<Rightarrow> left_out" where
  "leave_out i why = \<lparr>lo_number = it_number i, lo_reason = why, lo_title = it_title i\<rparr>"

section \<open>The order\<close>

definition has_digest_clear :: "item \<Rightarrow> bool" where
  "has_digest_clear i = (\<not> falsy (record_get (it_job_record i) ''implement.digest_clears''))"

fun place_in :: "string list \<Rightarrow> string option \<Rightarrow> nat" where
  \<comment> \<open>The index of a value, or the length of the list.\<close>
  "place_in [] v = 0"
| "place_in (x # xs) v = (if v = Some x then 0 else Suc (place_in xs v))"

definition priority_order :: "item \<Rightarrow> nat \<times> bool \<times> int" where
  "priority_order i = (place_in priority_values (it_priority i), has_digest_clear i, it_number i)"

definition open_items :: "('s, 'q, 'a) store_ops \<Rightarrow> 's \<Rightarrow> ('q, 'a, 's \<times> (roadmap_error + item list)) prog" where
  "open_items ops s =
     and_then (so_items ops s) (\<lambda>s items.
       Done (s, Inr (sort_key priority_order (filter (\<lambda>i. it_state i = StateOpen) items))))"

definition named_items ::
  "('s, 'q, 'a) store_ops \<Rightarrow> stage_filter \<Rightarrow> 's \<Rightarrow> ('q, 'a, 's \<times> (roadmap_error + item list)) prog" where
  "named_items ops fs s =
     and_then (open_items ops s) (\<lambda>s items. Done (s, Inr (filter (matches_filter fs) items)))"

definition unmatched_items ::
  "('s, 'q, 'a) store_ops \<Rightarrow> stage_filter \<Rightarrow> 's \<Rightarrow> ('q, 'a, 's \<times> (roadmap_error + left_out list)) prog" where
  "unmatched_items ops fs s =
     and_then (open_items ops s) (\<lambda>s items. Done (s, Inr
       (concat (map (\<lambda>i. case mismatch fs i of None \<Rightarrow> [] | Some why \<Rightarrow> [leave_out i why]) items))))"

section \<open>The walk\<close>

record 't walk =
  wk_taken :: "'t list"
  wk_left :: "left_out list"
  wk_beyond :: "int list"

definition no_walk :: "'t walk" where
  "no_walk = \<lparr>wk_taken = [], wk_left = [], wk_beyond = []\<rparr>"

definition record_verdict :: "item \<Rightarrow> bool \<Rightarrow> left_reason + 't \<Rightarrow> 't walk \<Rightarrow> 't walk" where
  "record_verdict i full v w =
     (case v of
        Inl why \<Rightarrow> w\<lparr>wk_left := wk_left w @ [leave_out i why]\<rparr>
      | Inr x \<Rightarrow> if full then w\<lparr>wk_beyond := wk_beyond w @ [it_number i]\<rparr>
                 else w\<lparr>wk_taken := wk_taken w @ [x]\<rparr>)"

fun walk_from ::
  "(item \<Rightarrow> 's \<Rightarrow> ('q, 'a, 's \<times> (roadmap_error + left_reason + 't)) prog) \<Rightarrow> int \<Rightarrow> int option \<Rightarrow>
   item list \<Rightarrow> 't walk \<Rightarrow> 's \<Rightarrow> ('q, 'a, 's \<times> (roadmap_error + 't walk)) prog" where
  "walk_from judge limit probe [] w s = Done (s, Inr w)"
| "walk_from judge limit probe (i # is) w s =
     (let full = int (length (wk_taken w)) \<ge> limit in
      if full \<and> probe \<noteq> Some (it_number i) then
        (if probe = None then Done (s, Inr w) else walk_from judge limit probe is w s)
      else and_then (judge i s) (\<lambda>s v. walk_from judge limit probe is (record_verdict i full v w) s))"

definition walk_named ::
  "item list \<Rightarrow> (item \<Rightarrow> 's \<Rightarrow> ('q, 'a, 's \<times> (roadmap_error + left_reason + 't)) prog) \<Rightarrow> int \<Rightarrow>
   int option \<Rightarrow> 's \<Rightarrow> ('q, 'a, 's \<times> (roadmap_error + 't walk)) prog" where
  "walk_named named judge limit probe s = walk_from judge limit probe named no_walk s"

text \<open>The checks of a judge, each a run that gives a reason or none, up to the first reason.\<close>

fun first_reason ::
  "('s \<Rightarrow> ('q, 'a, 's \<times> (roadmap_error + left_reason option)) prog) list \<Rightarrow> 's \<Rightarrow>
   ('q, 'a, 's \<times> (roadmap_error + left_reason option)) prog" where
  "first_reason [] s = Done (s, Inr None)"
| "first_reason (c # cs) s =
     and_then (c s) (\<lambda>s why. case why of None \<Rightarrow> first_reason cs s | Some x \<Rightarrow> Done (s, Inr (Some x)))"

section \<open>Titles and numbers\<close>

definition long_title_reason :: "string \<Rightarrow> left_reason option" where
  "long_title_reason title =
     (let n = summary_length (commit_summary title) in
      if n \<le> summary_max_chars then None else Some (TitleLong n))"

definition is_superscript :: "char \<Rightarrow> bool" where
  "is_superscript c = (c \<in> {CHR 0xB2, CHR 0xB3, CHR 0xB9})"

definition text_isdigit :: "string \<Rightarrow> bool" where
  \<comment> \<open>\<open>text.isdigit()\<close>: the superscripts two, three and one are digits too.\<close>
  "text_isdigit s = (s \<noteq> [] \<and> list_all (\<lambda>c. is_digit c \<or> is_superscript c) s)"

definition int_of_digits :: "string \<Rightarrow> py_error + int" where
  \<comment> \<open>\<open>int(text)\<close> of a text whose \<open>isdigit()\<close> holds.\<close>
  "int_of_digits s = (if list_all is_digit s then Inr (digits_val s) else Inl ValueError)"

definition pull_number :: "string option \<Rightarrow> py_error + int option" where
  "pull_number recorded =
     (case recorded of
        None \<Rightarrow> Inr None
      | Some s \<Rightarrow>
          if \<not> text_isdigit s then Inr None
          else (case int_of_digits s of Inl e \<Rightarrow> Inl e | Inr n \<Rightarrow> Inr (Some n)))"

end
