(* ===== verification/StageSelect.thy ===== *)
theory StageSelect
  imports Selection
begin

text \<open>
  Which Items the stage job plans: the judge and the selection of
  \<^verbatim>\<open>src/devops_cli/roadmap/stage/stage.py\<close>, with the hold of a rejected plan
  (\<^verbatim>\<open>stage_rejected.py\<close>) and the issues that a body and a record name (\<^verbatim>\<open>refine.py\<close>), over any store.
  Who holds an issue in git and when a path changed are requests of the environment. The Markdown parser,
  the readers of times and records and the masking of secrets are parameters.
\<close>

section \<open>Settings and environment\<close>

text \<open>A time of Python has a zone or none; one that has none does not compare with one that has.\<close>

datatype py_time = NaiveTime | AwareTime instant

record rejected_plan =
  rp_pull :: int
  rp_text_hash :: string
  rp_closed_at :: py_time
  rp_paths :: "string list"

record ('s, 'q, 'a) stage_env =
  sg_trust :: trust_settings
  sg_planned :: planned_changes
  sg_limit :: int
  sg_now :: instant
  sg_retry :: seconds
  sg_rejected :: "(int, rejected_plan) dict"
  sg_dependency_texts :: "string \<Rightarrow> string list"
  sg_time :: "string \<Rightarrow> py_time option"
  sg_rejection :: "string \<Rightarrow> rejected_plan option"
  sg_redacted :: "string \<Rightarrow> string"
  sg_holder :: "int \<Rightarrow> string \<Rightarrow> 's \<Rightarrow> ('q, 'a, 's \<times> (roadmap_error + issue_hold option)) prog"
  sg_path_changed :: "string \<Rightarrow> 's \<Rightarrow> ('q, 'a, 's \<times> (roadmap_error + instant option)) prog"

record stage_target =
  st_item :: item
  st_type :: string
  st_slug :: string

definition target_change :: "stage_target \<Rightarrow> string" where
  "target_change x = int_text (it_number (st_item x)) @ ''-'' @ st_slug x"

definition target_branch :: "stage_target \<Rightarrow> string" where
  "target_branch x = branch_name (it_number (st_item x)) (st_type x) (st_slug x)"

definition target_of :: "item \<Rightarrow> stage_target" where
  "target_of i = \<lparr>st_item = i, st_type = given_text (commit_type (it_title i)), st_slug = slug_of (it_title i)\<rparr>"

section \<open>The issues that an Item names\<close>

definition reference_punctuation :: string where
  "reference_punctuation = ''.,;:()[]''"

definition body_dependencies :: "(string \<Rightarrow> string list) \<Rightarrow> string \<Rightarrow> py_error + int list" where
  \<comment> \<open>\<open>texts body\<close>: what the inline tokens under the heading hold.\<close>
  "body_dependencies texts body =
     map_each int_of_digits
       (map tl (filter (\<lambda>w. prefix ''#'' w \<and> text_isdigit (tl w))
         (map (strip_chars reference_punctuation) (concat (map split_space (texts body))))))"

definition recorded_blockers :: "item \<Rightarrow> int list" where
  "recorded_blockers i =
     map (\<lambda>p. digits_val (strip p))
       (filter (\<lambda>p. strip p \<noteq> [] \<and> list_all is_digit (strip p))
         (split_on (CHR '','') (given_text (record_get (it_job_record i) ''refine.blocked_by''))))"

fun open_among ::
  "('s, 'q, 'a) store_ops \<Rightarrow> int list \<Rightarrow> 's \<Rightarrow> ('q, 'a, 's \<times> (roadmap_error + int list)) prog" where
  \<comment> \<open>The issues of a list that are open Items, in order.\<close>
  "open_among ops [] s = Done (s, Inr [])"
| "open_among ops (n # ns) s =
     and_then (so_item ops s n) (\<lambda>s found.
     and_then (open_among ops ns s) (\<lambda>s rest.
     Done (s, Inr (case found of
       Some i \<Rightarrow> if it_state i = StateOpen then n # rest else rest
     | None \<Rightarrow> rest))))"

section \<open>The checks\<close>

definition not_ready :: "item \<Rightarrow> left_reason option" where
  "not_ready i = (if it_status i = Some ''Ready'' then None else Some (NotReady (it_status i)))"

definition claimed_reason :: "item \<Rightarrow> left_reason option" where
  "claimed_reason i = map_option ClaimedBy (claimed_by i)"

definition needs_split_label :: string where
  "needs_split_label = ''needs-split''"

definition epic_label :: string where
  "epic_label = ''type/epic''"

definition needs_split :: "item \<Rightarrow> left_reason option" where
  "needs_split i = (if needs_split_label \<in> set (it_labels i) then Some NeedsSplit else None)"

definition tracker :: "item \<Rightarrow> left_reason option" where
  "tracker i = (if it_sub_issues i > 0 \<or> epic_label \<in> set (it_labels i) then Some IsTracker else None)"

definition author_reason :: "trust_settings \<Rightarrow> item \<Rightarrow> left_reason option" where
  "author_reason ts i =
     (if \<not> is_trusted ts i then Some (UntrustedAuthor (it_author_login i) (it_author_association i))
      else if is_approved ts i then None else Some Unjudged)"

definition title_reason :: "item \<Rightarrow> left_reason option" where
  "title_reason i =
     (if commit_type (it_title i) = None then Some TitleType
      else case long_title_reason (it_title i) of
          Some why \<Rightarrow> Some why
        | None \<Rightarrow> if slug_of (it_title i) = [] then Some TitleSlug else None)"

definition dependency_reason ::
  "('s, 'q, 'a) store_ops \<Rightarrow> ('s, 'q, 'a) stage_env \<Rightarrow> item \<Rightarrow> 's \<Rightarrow>
   ('q, 'a, 's \<times> (roadmap_error + left_reason option)) prog" where
  "dependency_reason ops env i s =
     (case body_dependencies (sg_dependency_texts env) (it_body i) of
        Inl e \<Rightarrow> Done (s, Inl (RecordUnread e))
      | Inr ns \<Rightarrow> and_then (open_among ops ns s) (\<lambda>s found.
          Done (s, Inr (if found = [] then None else Some (OpenDependencies found)))))"

definition blocker_reason ::
  "('s, 'q, 'a) store_ops \<Rightarrow> item \<Rightarrow> 's \<Rightarrow> ('q, 'a, 's \<times> (roadmap_error + left_reason option)) prog" where
  "blocker_reason ops i s =
     and_then (open_among ops (recorded_blockers i) s) (\<lambda>s found.
       Done (s, Inr (if found = [] then None else Some (OpenBlockers found))))"

definition planned_on_default :: "planned_changes \<Rightarrow> item \<Rightarrow> left_reason option" where
  "planned_on_default p i =
     (case dict_get (pc_active p) (it_number i) of
        Some folder \<Rightarrow> Some (OnDefault folder)
      | None \<Rightarrow> map_option ArchivedThere (dict_get (pc_archived p) (it_number i)))"

definition recorded_rejection :: "('s, 'q, 'a) stage_env \<Rightarrow> item \<Rightarrow> rejected_plan option" where
  "recorded_rejection env i =
     (case record_get (it_job_record i) ''stage.rejected'' of
        Some (c # cs) \<Rightarrow> sg_rejection env (c # cs)
      | _ \<Rightarrow> None)"

fun changed_since ::
  "('s, 'q, 'a) stage_env \<Rightarrow> string list \<Rightarrow> py_time \<Rightarrow> 's \<Rightarrow> ('q, 'a, 's \<times> (roadmap_error + bool)) prog" where
  \<comment> \<open>A path with a time compares it with \<open>since\<close>.\<close>
  "changed_since env [] since s = Done (s, Inr False)"
| "changed_since env (p # ps) since s =
     and_then (sg_path_changed env p s) (\<lambda>s t.
       case t of
         Some x \<Rightarrow>
           (case since of
              NaiveTime \<Rightarrow> Done (s, Inl (RecordUnread TypeError))
            | AwareTime u \<Rightarrow> if x \<ge> u then Done (s, Inr True) else changed_since env ps since s)
       | None \<Rightarrow> changed_since env ps since s)"

definition hold_reason ::
  "('s, 'q, 'a) stage_env \<Rightarrow> item \<Rightarrow> rejected_plan \<Rightarrow> 's \<Rightarrow>
   ('q, 'a, 's \<times> (roadmap_error + left_reason option)) prog" where
  "hold_reason env i r s =
     (if fst (body_hashes (ts_digest (sg_trust env)) (it_body i)) \<noteq> rp_text_hash r then Done (s, Inr None)
      else and_then (changed_since env (rp_paths r) (rp_closed_at r) s) (\<lambda>s changed.
        Done (s, Inr (if changed then None else Some (PlanRejected (rp_pull r))))))"

definition rejected_reason ::
  "('s, 'q, 'a) stage_env \<Rightarrow> item \<Rightarrow> 's \<Rightarrow> ('q, 'a, 's \<times> (roadmap_error + left_reason option)) prog" where
  \<comment> \<open>\<open>_rejected\<close>\<close>
  "rejected_reason env i s =
     (case dict_get (sg_rejected env) (it_number i) of
        Some r \<Rightarrow> hold_reason env i r s
      | None \<Rightarrow>
          (case recorded_rejection env i of
             Some r \<Rightarrow> hold_reason env i r s
           | None \<Rightarrow> Done (s, Inr None)))"

definition held_reason ::
  "('s, 'q, 'a) stage_env \<Rightarrow> item \<Rightarrow> 's \<Rightarrow> ('q, 'a, 's \<times> (roadmap_error + left_reason option)) prog" where
  "held_reason env i s =
     and_then (sg_holder env (it_number i) (target_branch (target_of i)) s) (\<lambda>s held.
       Done (s, Inr (map_option HeldIssue held)))"

definition secret_reason :: "('s, 'q, 'a) stage_env \<Rightarrow> item \<Rightarrow> left_reason option" where
  "secret_reason env i =
     (if sg_redacted env (it_title i) \<noteq> it_title i \<or> sg_redacted env (it_body i) \<noteq> it_body i
      then Some LooksSecret else None)"

definition file_max_tokens :: int where
  "file_max_tokens = 8000"

definition recorded_split :: "item \<Rightarrow> left_reason option" where
  "recorded_split i =
     (case record_get (it_job_record i) ''stage.needs_split'' of
        Some (c # cs) \<Rightarrow>
          if record_get (it_job_record i) ''stage.file_cap'' = Some (int_text file_max_tokens)
          then Some (RecordedSplit (c # cs)) else None
      | _ \<Rightarrow> None)"

definition failed_lately ::
  "('s, 'q, 'a) stage_env \<Rightarrow> item \<Rightarrow> roadmap_error + left_reason option" where
  \<comment> \<open>The largest time Python holds is not modelled.\<close>
  "failed_lately env i =
     (case record_get (it_job_record i) ''stage.failed_at'' of
        Some (c # cs) \<Rightarrow>
          (case sg_time env (c # cs) of
             None \<Rightarrow> Inr None
           | Some NaiveTime \<Rightarrow> Inl (RecordUnread TypeError)
           | Some (AwareTime t) \<Rightarrow>
               if t + sg_retry env \<le> sg_now env then Inr None
               else Inr (Some (FailedLately (record_get (it_job_record i) ''stage.failed_error'')
                                            (t + sg_retry env))))
      | _ \<Rightarrow> Inr None)"

definition planned_limit_priorities :: "string list" where
  "planned_limit_priorities = [''P0-Critical'', ''P1-High'']"

definition planned_count :: "item list \<Rightarrow> int" where
  "planned_count items =
     int (length (filter (\<lambda>i. it_state i = StateOpen \<and> it_status i = Some ''Planned'') items))"

definition queue_full :: "int \<Rightarrow> int \<Rightarrow> item \<Rightarrow> left_reason option" where
  "queue_full waiting limit i =
     (if waiting < limit \<or> (case it_priority i of None \<Rightarrow> False | Some p \<Rightarrow> p \<in> set planned_limit_priorities)
      then None else Some (QueueFull waiting limit))"

section \<open>The judge and the selection\<close>

definition told :: "'x \<Rightarrow> 's \<Rightarrow> ('q, 'a, 's \<times> (roadmap_error + 'x)) prog" where
  \<comment> \<open>A check that makes no request.\<close>
  "told x s = Done (s, Inr x)"

definition stage_checks ::
  "('s, 'q, 'a) store_ops \<Rightarrow> ('s, 'q, 'a) stage_env \<Rightarrow> int \<Rightarrow> item \<Rightarrow> bool \<Rightarrow>
   ('s \<Rightarrow> ('q, 'a, 's \<times> (roadmap_error + left_reason option)) prog) list" where
  "stage_checks ops env waiting i named =
     [told (not_ready i), told (claimed_reason i), told (needs_split i), told (tracker i),
      told (author_reason (sg_trust env) i), told (title_reason i), dependency_reason ops env i,
      blocker_reason ops i, told (planned_on_default (sg_planned env) i)] @
     (if named then [] else [rejected_reason env i]) @
     [held_reason env i, told (secret_reason env i)] @
     (if named then []
      else [told (recorded_split i), \<lambda>s. Done (s, failed_lately env i),
            told (queue_full waiting (sg_limit env) i)])"

definition stage_reason ::
  "('s, 'q, 'a) store_ops \<Rightarrow> ('s, 'q, 'a) stage_env \<Rightarrow> int \<Rightarrow> item \<Rightarrow> bool \<Rightarrow> 's \<Rightarrow>
   ('q, 'a, 's \<times> (roadmap_error + left_reason option)) prog" where
  "stage_reason ops env waiting i named = first_reason (stage_checks ops env waiting i named)"

definition stage_verdict ::
  "('s, 'q, 'a) store_ops \<Rightarrow> ('s, 'q, 'a) stage_env \<Rightarrow> int \<Rightarrow> item \<Rightarrow> 's \<Rightarrow>
   ('q, 'a, 's \<times> (roadmap_error + left_reason + stage_target)) prog" where
  "stage_verdict ops env waiting i s =
     and_then (stage_reason ops env waiting i False s) (\<lambda>s why.
       Done (s, Inr (case why of None \<Rightarrow> Inr (target_of i) | Some x \<Rightarrow> Inl x)))"

definition named_item ::
  "('s, 'q, 'a) store_ops \<Rightarrow> ('s, 'q, 'a) stage_env \<Rightarrow> int \<Rightarrow> int \<Rightarrow> 's \<Rightarrow>
   ('q, 'a, 's \<times> (roadmap_error + stage_target walk)) prog" where
  "named_item ops env waiting n s =
     and_then (so_item ops s n) (\<lambda>s found.
       case found of
         None \<Rightarrow> Done (s, Inr (no_walk\<lparr>wk_left := [\<lparr>lo_number = n, lo_reason = NoItem, lo_title = []\<rparr>]\<rparr>))
       | Some i \<Rightarrow>
           if it_state i \<noteq> StateOpen then
             Done (s, Inr (no_walk\<lparr>wk_left := [\<lparr>lo_number = n, lo_reason = ItemClosed, lo_title = it_title i\<rparr>]\<rparr>))
           else and_then (stage_reason ops env waiting i True s) (\<lambda>s why.
             Done (s, Inr (case why of
               None \<Rightarrow> no_walk\<lparr>wk_taken := [target_of i]\<rparr>
             | Some x \<Rightarrow> no_walk\<lparr>wk_left := [\<lparr>lo_number = n, lo_reason = x, lo_title = it_title i\<rparr>]\<rparr>))))"

definition select_stageable ::
  "('s, 'q, 'a) store_ops \<Rightarrow> ('s, 'q, 'a) stage_env \<Rightarrow> stage_filter \<Rightarrow> int \<Rightarrow> int option \<Rightarrow> int option \<Rightarrow> 's \<Rightarrow>
   ('q, 'a, 's \<times> (roadmap_error + stage_target walk)) prog" where
  "select_stageable ops env fs limit number probe s =
     and_then (open_items ops s) (\<lambda>s opened.
       let waiting = planned_count opened in
       case number of
         Some n \<Rightarrow> named_item ops env waiting n s
       | None \<Rightarrow>
           walk_named (filter (matches_filter fs) opened) (stage_verdict ops env waiting) limit probe s)"

end
