(* ===== verification/ImplementSelect.thy ===== *)
theory ImplementSelect
  imports StageSelect
begin

text \<open>
  Which Items the implement job takes: \<^verbatim>\<open>src/devops_cli/roadmap/implement/implement.py\<close>, over any store.
  What git and the pull request answer are requests of the environment, \<open>plan_ops\<close>; the reader of the
  task list and the gates of a plan answer through it. The checks of the checkout and the report are not
  modelled.
\<close>

section \<open>Filters and passes\<close>

definition default_implement_filters :: "string list" where
  "default_implement_filters = [''status=ready'', ''status=planned'']"

definition parse_implement_filters :: "string list \<Rightarrow> filter_error + stage_filter" where
  "parse_implement_filters options = parse_filters options default_implement_filters"

definition effort_label :: "string \<Rightarrow> string" where
  "effort_label v = ''effort/'' @ v"

definition effort_filter :: "stage_filter \<Rightarrow> string list \<Rightarrow> stage_filter" where
  "effort_filter fs efforts =
     (if dict_get fs ''effort'' \<noteq> None then fs
      else dict_set ''effort'' (remdups (map effort_label efforts)) fs)"

definition effort_passes :: "stage_filter \<Rightarrow> string list \<Rightarrow> (string \<times> stage_filter) list" where
  "effort_passes fs efforts =
     (case dict_get fs ''effort'' of
        Some labels \<Rightarrow> [(joined_by '','' (sort (map (less_prefix ''effort/'') labels)), fs)]
      | None \<Rightarrow> map (\<lambda>v. (v, dict_set ''effort'' [effort_label v] fs)) efforts)"

section \<open>Targets\<close>

record implement_target =
  im_item :: item
  im_branch :: string
  im_pull :: "int option"
  im_retry :: bool

definition is_planned_target :: "implement_target \<Rightarrow> bool" where
  "is_planned_target x = (im_pull x = None)"

definition new_branch_parts :: "implement_target \<Rightarrow> branch_parts option" where
  "new_branch_parts x = (if is_planned_target x then parse_branch (Some (im_branch x)) else None)"

definition recorded_pair :: "job_record \<Rightarrow> string \<Rightarrow> string \<Rightarrow> py_error + (string \<times> int) option" where
  \<comment> \<open>One turn of the loop of \<open>recorded_branch\<close>.\<close>
  "recorded_pair r branch_key pull_key =
     (case pull_number (record_get r pull_key) of
        Inl e \<Rightarrow> Inl e
      | Inr None \<Rightarrow> Inr None
      | Inr (Some n) \<Rightarrow>
          Inr (if falsy (record_get r branch_key) then None
               else Some (given_text (record_get r branch_key), n)))"

definition recorded_branch :: "item \<Rightarrow> py_error + (string \<times> int) option" where
  "recorded_branch i =
     (case recorded_pair (it_job_record i) ''implement.branch'' ''implement.pr'' of
        Inl e \<Rightarrow> Inl e
      | Inr (Some b) \<Rightarrow> Inr (Some b)
      | Inr None \<Rightarrow> recorded_pair (it_job_record i) ''stage.branch'' ''stage.pr'')"

definition takeable_status :: "item \<Rightarrow> bool" where
  "takeable_status i =
     (it_status i = Some ''Ready'' \<or> it_status i = Some ''Planned'' \<or>
      it_status i = Some ''In Progress'' \<and> job_holds i)"

datatype plan_route = Staged string int | Planned string

section \<open>The environment of a judge\<close>

datatype plan_answer = GateProblems "string list" | PlanNotRead string string

record ('s, 'q, 'a) plan_ops =
  po_holder :: "int \<Rightarrow> string \<Rightarrow> 's \<Rightarrow> ('q, 'a, 's \<times> (roadmap_error + issue_hold option)) prog"
  po_local_holder :: "int \<Rightarrow> 's \<Rightarrow> ('q, 'a, 's \<times> (roadmap_error + issue_hold option)) prog"
  po_stray :: "string \<Rightarrow> 's \<Rightarrow> ('q, 'a, 's \<times> (roadmap_error + issue_hold option)) prog"
  po_authors :: "string \<Rightarrow> 's \<Rightarrow> ('q, 'a, 's \<times> (roadmap_error + string list)) prog"
  po_tasks :: "string \<Rightarrow> 's \<Rightarrow> ('q, 'a, 's \<times> (roadmap_error + bool list)) prog"
  po_tree :: "string \<Rightarrow> 's \<Rightarrow> ('q, 'a, 's \<times> (roadmap_error + string list)) prog"
  po_plans :: "string \<Rightarrow> 's \<Rightarrow> ('q, 'a, 's \<times> (roadmap_error + planned_changes)) prog"
  po_gates :: "string \<Rightarrow> string list \<Rightarrow> item \<Rightarrow> 's \<Rightarrow> ('q, 'a, 's \<times> (roadmap_error + plan_answer)) prog"
  po_pull :: "int \<Rightarrow> 's \<Rightarrow> ('q, 'a, 's \<times> (roadmap_error + string \<times> bool)) prog"

record ('s, 'q, 'a) implement_env =
  ie_trust :: trust_settings
  ie_planned :: planned_changes
  ie_default :: string
  ie_pushed :: "string list"
  ie_ops :: "('s, 'q, 'a) plan_ops"

definition is_open_draft :: "string \<times> bool \<Rightarrow> bool" where
  "is_open_draft p = (fst p = ''open'' \<and> snd p)"

section \<open>The judge\<close>

definition item_route :: "('s, 'q, 'a) implement_env \<Rightarrow> item \<Rightarrow> py_error + plan_route option" where
  \<comment> \<open>\<open>_route\<close>\<close>
  "item_route env i =
     (let folder = dict_get (pc_active (ie_planned env)) (it_number i) in
      case recorded_branch i of
        Inl e \<Rightarrow> Inl e
      | Inr recorded \<Rightarrow> Inr
          (case recorded of
             Some (b, n) \<Rightarrow>
               if folder = None \<or> b \<in> set (ie_pushed env) then Some (Staged b n) else map_option Planned folder
           | None \<Rightarrow> map_option Planned folder))"

definition not_taken :: "('s, 'q, 'a) implement_env \<Rightarrow> item \<Rightarrow> left_reason" where
  "not_taken env i =
     (case dict_get (pc_archived (ie_planned env)) (it_number i) of
        Some folder \<Rightarrow> ArchivedThere folder
      | None \<Rightarrow> NeitherStagedNorPlanned)"

definition change_root :: "string list \<Rightarrow> int \<Rightarrow> left_reason + string" where
  "change_root files issue =
     (let p = openspec_changes_dir @ ''/'' @ int_text issue @ ''-'';
          named = filter (\<lambda>f. prefix p f \<and> 3 < length (split_on (CHR ''/'') f)) files;
          names = sort (remdups (map (\<lambda>f. split_on (CHR ''/'') f ! 2) named))
      in case names of
           [] \<Rightarrow> Inl (NoFolder issue)
         | [n] \<Rightarrow> Inr (openspec_changes_dir @ ''/'' @ n)
         | _ \<Rightarrow> Inl (SeveralFolders issue names))"

definition or_reason ::
  "('q, 'a, 's \<times> (roadmap_error + left_reason option)) prog \<Rightarrow> left_reason \<Rightarrow>
   ('q, 'a, 's \<times> (roadmap_error + left_reason option)) prog" where
  \<comment> \<open>An error of git is the reason given.\<close>
  "or_reason p why =
     bind_prog p (\<lambda>(s, r). Done (s, case r of Inl GitFailed \<Rightarrow> Inr (Some why) | _ \<Rightarrow> r))"

definition archived_at ::
  "('s, 'q, 'a) plan_ops \<Rightarrow> string \<Rightarrow> int \<Rightarrow> 's \<Rightarrow> ('q, 'a, 's \<times> (roadmap_error + bool)) prog" where
  "archived_at po cm issue s =
     and_then (po_plans po cm s) (\<lambda>s held. Done (s, Inr
       (dict_get (pc_archived held) issue \<noteq> None \<and> dict_get (pc_active held) issue = None)))"

definition plan_reason ::
  "('s, 'q, 'a) plan_ops \<Rightarrow> item \<Rightarrow> string \<Rightarrow> 's \<Rightarrow> ('q, 'a, 's \<times> (roadmap_error + left_reason option)) prog" where
  "plan_reason po i cm s =
     or_reason
       (and_then (po_tree po cm s) (\<lambda>s files.
          case change_root files (it_number i) of
            Inl why \<Rightarrow>
              and_then (archived_at po cm (it_number i) s) (\<lambda>s archived.
                Done (s, Inr (if archived then None else Some why)))
          | Inr folder \<Rightarrow>
              and_then (po_gates po cm (filter (prefix (folder @ ''/'')) files) i s) (\<lambda>s answer. Done (s, Inr
                (case answer of
                   PlanNotRead path why \<Rightarrow> Some (PlanUnread path why)
                 | GateProblems ps \<Rightarrow> if ps = [] then None else Some (PlanProblem (hd ps)))))))
       PlanOfGit"

definition branch_reason ::
  "('s, 'q, 'a) implement_env \<Rightarrow> item \<Rightarrow> string \<Rightarrow> 's \<Rightarrow> ('q, 'a, 's \<times> (roadmap_error + left_reason option)) prog" where
  "branch_reason env i branch s =
     (let po = ie_ops env in
      case ts_bot (ie_trust env) of
        None \<Rightarrow> Done (s, Inr (Some NoAppLogin))
      | Some app \<Rightarrow>
          if branch \<notin> set (ie_pushed env) then Done (s, Inr (Some (BranchGone branch)))
          else and_then (po_local_holder po (it_number i) s) (\<lambda>s held.
            case held of
              Some h \<Rightarrow> Done (s, Inr (Some (HeldIssue h)))
            | None \<Rightarrow>
                and_then (po_authors po branch s) (\<lambda>s authors.
                  case find (\<lambda>x. x \<noteq> app) authors of
                    Some other \<Rightarrow> Done (s, Inr (Some (ForeignCommit other)))
                  | None \<Rightarrow>
                      and_then (po_stray po branch s) (\<lambda>s why.
                        Done (s, Inr (map_option HeldIssue why))))))"

definition pull_reason ::
  "('s, 'q, 'a) plan_ops \<Rightarrow> int \<Rightarrow> 's \<Rightarrow> ('q, 'a, 's \<times> (roadmap_error + left_reason option)) prog" where
  "pull_reason po n s =
     bind_prog (po_pull po n s) (\<lambda>(s, r). Done (s,
       case r of
         Inl (GhRefused NotFoundError) \<Rightarrow> Inr (Some (NoOpenDraft n))
       | Inl e \<Rightarrow> Inl e
       | Inr p \<Rightarrow> Inr (if is_open_draft p then None else Some (NoOpenDraft n))))"

definition planned_target ::
  "('s, 'q, 'a) implement_env \<Rightarrow> item \<Rightarrow> string \<Rightarrow> bool \<Rightarrow> 's \<Rightarrow>
   ('q, 'a, 's \<times> (roadmap_error + left_reason + implement_target)) prog" where
  "planned_target env i folder retry s =
     (case commit_type (it_title i) of
        None \<Rightarrow> Done (s, Inr (Inl TitleType))
      | Some kind \<Rightarrow>
          (case long_title_reason (it_title i) of
             Some why \<Rightarrow> Done (s, Inr (Inl why))
           | None \<Rightarrow>
               (let po = ie_ops env;
                    branch = branch_name (it_number i) kind (past_char (CHR ''-'') folder) in
                if parse_branch (Some branch) = None
                then Done (s, Inr (Inl (NoBranchName folder branch)))
                else and_then (po_holder po (it_number i) branch s) (\<lambda>s held.
                  case held of
                    Some h \<Rightarrow> Done (s, Inr (Inl (HeldIssue h)))
                  | None \<Rightarrow>
                      bind_prog (po_tasks po folder s) (\<lambda>(s, r).
                        case r of
                          Inl GitFailed \<Rightarrow> Done (s, Inr (Inl (NoTasks folder)))
                        | Inl e \<Rightarrow> Done (s, Inl e)
                        | Inr ticks \<Rightarrow>
                            if list_all (\<lambda>b. b) ticks then Done (s, Inr (Inl (AllTicked folder)))
                            else and_then (plan_reason po i (''origin/'' @ ie_default env) s) (\<lambda>s why.
                              Done (s, Inr (case why of
                                Some x \<Rightarrow> Inl x
                              | None \<Rightarrow> Inr \<lparr>im_item = i, im_branch = branch, im_pull = None,
                                             im_retry = retry\<rparr>))))))))"

definition staged_target ::
  "('s, 'q, 'a) implement_env \<Rightarrow> item \<Rightarrow> string \<Rightarrow> int \<Rightarrow> bool \<Rightarrow> 's \<Rightarrow>
   ('q, 'a, 's \<times> (roadmap_error + left_reason + implement_target)) prog" where
  \<comment> \<open>The end of \<open>judge\<close>.\<close>
  "staged_target env i branch n retry s =
     and_then
       (first_reason [branch_reason env i branch, plan_reason (ie_ops env) i (''origin/'' @ branch),
                      pull_reason (ie_ops env) n] s) (\<lambda>s why.
       Done (s, Inr (case why of
         Some x \<Rightarrow> Inl x
       | None \<Rightarrow> Inr \<lparr>im_item = i, im_branch = branch, im_pull = Some n, im_retry = retry\<rparr>)))"

definition judge_route ::
  "('s, 'q, 'a) implement_env \<Rightarrow> item \<Rightarrow> plan_route \<Rightarrow> bool \<Rightarrow> 's \<Rightarrow>
   ('q, 'a, 's \<times> (roadmap_error + left_reason + implement_target)) prog" where
  "judge_route env i r retry =
     (case r of
        Planned folder \<Rightarrow> planned_target env i folder retry
      | Staged branch n \<Rightarrow> staged_target env i branch n retry)"

definition implement_judge ::
  "('s, 'q, 'a) store_ops \<Rightarrow> ('s, 'q, 'a) implement_env \<Rightarrow> item \<Rightarrow> 's \<Rightarrow>
   ('q, 'a, 's \<times> (roadmap_error + left_reason + implement_target)) prog" where
  "implement_judge ops env i s =
     (if \<not> takeable_status i then Done (s, Inr (Inl (NotReady (it_status i))))
      else case claimed_by i of
          Some owner \<Rightarrow> Done (s, Inr (Inl (ClaimedBy owner)))
        | None \<Rightarrow>
            (case item_route env i of
               Inl e \<Rightarrow> Done (s, Inl (RecordUnread e))
             | Inr None \<Rightarrow> Done (s, Inr (Inl (not_taken env i)))
             | Inr (Some r) \<Rightarrow>
                 (case author_reason (ie_trust env) i of
                    Some why \<Rightarrow> Done (s, Inr (Inl why))
                  | None \<Rightarrow>
                      (let stopped = record_get (it_job_record i) stopped_key in
                       if falsy stopped then judge_route env i r False s
                       else and_then (so_comments_on ops s (it_number i)) (\<lambda>s comments.
                         if \<not> retry_asked comments
                         then Done (s, Inr (Inl (StoppedAt (given_text stopped))))
                         else judge_route env i r True s)))))"

section \<open>The plan of a run\<close>

record implement_plan =
  ip_selected :: "implement_target list"
  ip_left :: "left_out list"
  ip_unmatched :: "left_out list"
  ip_beyond :: "int list"
  ip_effort :: string
  ip_fallback :: bool

definition implement_named ::
  "('s, 'q, 'a) store_ops \<Rightarrow> ('s, 'q, 'a) implement_env \<Rightarrow> int \<Rightarrow> 's \<Rightarrow>
   ('q, 'a, 's \<times> (roadmap_error + implement_plan)) prog" where
  \<comment> \<open>\<open>_named\<close> with the plan it gives.\<close>
  "implement_named ops env n s =
     (let plan = (\<lambda>taken left. \<lparr>ip_selected = taken, ip_left = left, ip_unmatched = [], ip_beyond = [],
                                ip_effort = [], ip_fallback = False\<rparr>) in
      and_then (so_item ops s n) (\<lambda>s found.
        case found of
          None \<Rightarrow> Done (s, Inr (plan [] [\<lparr>lo_number = n, lo_reason = NoItem, lo_title = []\<rparr>]))
        | Some i \<Rightarrow>
            if it_state i \<noteq> StateOpen then Done (s, Inr (plan [] [leave_out i ItemClosed]))
            else and_then (implement_judge ops env i s) (\<lambda>s v. Done (s, Inr
              (case v of Inl why \<Rightarrow> plan [] [leave_out i why] | Inr x \<Rightarrow> plan [x] [])))))"

record pass_walk =
  pw_walk :: "implement_target walk"
  pw_effort :: string

definition later_effort :: "string \<Rightarrow> item list \<Rightarrow> implement_target walk \<Rightarrow> left_out list" where
  \<comment> \<open>The reason of the probe in a pass after the one that took an item.\<close>
  "later_effort effort named w =
     map (\<lambda>i. leave_out i (EarlierEffort effort)) (filter (\<lambda>i. it_number i \<in> set (wk_beyond w)) named)"

fun walk_passes ::
  "('s, 'q, 'a) store_ops \<Rightarrow> ('s, 'q, 'a) implement_env \<Rightarrow> int \<Rightarrow> int option \<Rightarrow> (string \<times> stage_filter) list \<Rightarrow>
   pass_walk \<Rightarrow> 's \<Rightarrow> ('q, 'a, 's \<times> (roadmap_error + pass_walk)) prog" where
  "walk_passes ops env limit probe [] p s = Done (s, Inr p)"
| "walk_passes ops env limit probe ((effort, fs) # passes) p s =
     and_then (named_items ops fs s) (\<lambda>s named.
       let held = pw_walk p in
       if wk_taken held \<noteq> [] then
         and_then (walk_named named (implement_judge ops env) 0 probe s) (\<lambda>s w.
           walk_passes ops env limit probe passes
             (p\<lparr>pw_walk := held\<lparr>wk_left := wk_left held @ wk_left w @ later_effort (pw_effort p) named w\<rparr>\<rparr>) s)
       else
         and_then (walk_named named (implement_judge ops env) limit probe s) (\<lambda>s w.
           let left = wk_left held @ wk_left w in
           walk_passes ops env limit probe passes
             (if wk_taken w \<noteq> [] then \<lparr>pw_walk = w\<lparr>wk_left := left\<rparr>, pw_effort = effort\<rparr>
              else p\<lparr>pw_walk := held\<lparr>wk_left := left\<rparr>\<rparr>) s))"

definition plan_implement ::
  "('s, 'q, 'a) store_ops \<Rightarrow> ('s, 'q, 'a) implement_env \<Rightarrow> string list \<Rightarrow> stage_filter \<Rightarrow> int option \<Rightarrow> int \<Rightarrow>
   bool \<Rightarrow> int option \<Rightarrow> 's \<Rightarrow> ('q, 'a, 's \<times> (roadmap_error + implement_plan)) prog" where
  \<comment> \<open>From the judge on; \<open>efforts\<close> is the setting \<open>roadmap.implement.effort\<close>.\<close>
  "plan_implement ops env efforts fs number limit why probe s =
     (case number of
        Some n \<Rightarrow> implement_named ops env n s
      | None \<Rightarrow>
          and_then (walk_passes ops env limit probe (effort_passes fs efforts)
                      \<lparr>pw_walk = no_walk, pw_effort = []\<rparr> s) (\<lambda>s p.
          and_then (if why then unmatched_items ops (effort_filter fs efforts) s else told [] s) (\<lambda>s unmatched.
          Done (s, Inr
            \<lparr>ip_selected = wk_taken (pw_walk p), ip_left = wk_left (pw_walk p), ip_unmatched = unmatched,
             ip_beyond = wk_beyond (pw_walk p), ip_effort = pw_effort p,
             ip_fallback = (pw_effort p \<noteq> [] \<and> dict_get fs ''effort'' = None \<and> pw_effort p \<noteq> hd efforts)\<rparr>))))"

end
