(* ===== verification/SelectionFacts.thy ===== *)
theory SelectionFacts
  imports ImplementSelect
begin

text \<open>
  What a selection of the stage and of the implement job read, over any store and whatever git and
  GitHub answer: the verdicts of a walk, the checks that gave no reason, and what they show of the Item.
\<close>

section \<open>Reads within a run\<close>

text \<open>A part of a run gave this result: its requests are among those of the whole run.\<close>

definition reads_in :: "('q, 'a, 's \<times> ('e + 'x)) prog \<Rightarrow> ('q, 'a) trace \<Rightarrow> 'x \<Rightarrow> bool" where
  "reads_in p t x = (\<exists>s' u. runs p u (s', Inr x) \<and> set u \<subseteq> set t)"

lemma reads_inI: "runs p u (s', Inr x) \<Longrightarrow> set u \<subseteq> set t \<Longrightarrow> reads_in p t x"
  by (auto simp: reads_in_def)

lemma reads_in_mono: "reads_in p u x \<Longrightarrow> set u \<subseteq> set t \<Longrightarrow> reads_in p t x"
  unfolding reads_in_def by (meson subset_trans)

lemma reads_in_told [simp]: "reads_in (told x s) t y \<longleftrightarrow> y = x"
  unfolding reads_in_def told_def by (auto intro!: exI[of _ "[]"])

lemma reads_in_Done [simp]: "reads_in (Done (s, r)) t y \<longleftrightarrow> r = Inr y"
  unfolding reads_in_def by (auto intro!: exI[of _ "[]"])

lemma and_then_reads:
  assumes "runs (and_then p f) t (s', Inr y)"
  obtains t1 t2 s1 x where "t = t1 @ t2" "runs p t1 (s1, Inr x)" "runs (f s1 x) t2 (s', Inr y)"
    "reads_in p t x" "reads_in (f s1 x) t y"
  using assms unfolding runs_and_then by (fastforce simp: reads_in_def)

lemma reads_in_and_then:
  assumes "reads_in (and_then p f) t y"
  obtains s1 x where "reads_in p t x" "reads_in (f s1 x) t y"
proof -
  from assms obtain s' u where u: "runs (and_then p f) u (s', Inr y)" "set u \<subseteq> set t"
    by (auto simp: reads_in_def)
  from u(1) obtain t1 t2 s1 x where "reads_in p u x" "reads_in (f s1 x) u y"
    by (rule and_then_reads)
  with that reads_in_mono u(2) show thesis by metis
qed

lemma runs_then_done:
  assumes "runs (and_then p (\<lambda>s x. Done (s, Inr (f x)))) t (s', Inr y)"
  obtains x where "runs p t (s', Inr x)" "y = f x"
  using assms by (auto simp: runs_and_then)

lemma reads_then_done:
  assumes "reads_in (and_then p (\<lambda>s x. Done (s, Inr (f x)))) t y"
  obtains x where "reads_in p t x" "y = f x"
  using assms unfolding reads_in_def by (blast elim: runs_then_done)

lemma first_reason_none:
  assumes "runs (first_reason cs s) t (s', Inr None)" and "c \<in> set cs"
  shows "\<exists>s1. reads_in (c s1) t None"
  using assms
proof (induction cs arbitrary: s t)
  case (Cons d cs)
  from Cons.prems(1)[unfolded first_reason.simps] obtain t1 t2 s1 x where step: "t = t1 @ t2"
    "runs (d s) t1 (s1, Inr x)"
    "runs (case x of None \<Rightarrow> first_reason cs s1 | Some x \<Rightarrow> Done (s1, Inr (Some x))) t2 (s', Inr None)"
    "reads_in (d s) t x"
    by (rule and_then_reads)
  then have x: "x = None" by (cases x) auto
  show ?case
  proof (cases "c = d")
    case True
    then show ?thesis using step(4) x by blast
  next
    case False
    then have "\<exists>s1. reads_in (c s1) t2 None" using Cons.IH[of s1 t2] Cons.prems(2) step(3) x by auto
    then show ?thesis using reads_in_mono[of _ t2 None t] step(1) by auto
  qed
qed simp

lemma reads_in_first_reason:
  "reads_in (first_reason cs s) t None \<Longrightarrow> c \<in> set cs \<Longrightarrow> \<exists>s1. reads_in (c s1) t None"
  unfolding reads_in_def[of "first_reason cs s"] using first_reason_none reads_in_mono by meson

section \<open>The walk\<close>

text \<open>The verdicts of a walk without a probe: one for each Item up to where it stopped.\<close>

definition verdict_taken :: "(left_reason + 't) list \<Rightarrow> 't list" where
  "verdict_taken vs = concat (map (\<lambda>v. case v of Inr x \<Rightarrow> [x] | Inl _ \<Rightarrow> []) vs)"

definition verdict_left :: "item list \<Rightarrow> (left_reason + 't) list \<Rightarrow> left_out list" where
  "verdict_left is vs = concat (map (\<lambda>(i, v). case v of Inl why \<Rightarrow> [leave_out i why] | Inr _ \<Rightarrow> []) (zip is vs))"

lemma verdict_taken_simps [simp]:
  "verdict_taken [] = []" "verdict_taken (Inr x # vs) = x # verdict_taken vs" "verdict_taken (Inl why # vs) = verdict_taken vs"
  by (simp_all add: verdict_taken_def)

lemma verdict_left_simps [simp]:
  "verdict_left is [] = []" "verdict_left (i # is) (Inr x # vs) = verdict_left is vs"
  "verdict_left (i # is) (Inl why # vs) = leave_out i why # verdict_left is vs"
  by (simp_all add: verdict_left_def)

lemma walk_from_verdicts:
  assumes "runs (walk_from judge limit None is w s) t (s', Inr w')"
  shows "\<exists>vs. length vs \<le> length is \<and> wk_taken w' = wk_taken w @ verdict_taken vs \<and>
    wk_left w' = wk_left w @ verdict_left is vs \<and> wk_beyond w' = wk_beyond w \<and>
    (length vs = length is \<or> int (length (wk_taken w')) \<ge> limit) \<and>
    (\<forall>k < length vs. \<exists>s1. reads_in (judge (is ! k) s1) t (vs ! k))"
  using assms
proof (induction "is" arbitrary: w s t)
  case (Cons i "is")
  show ?case
  proof (cases "int (length (wk_taken w)) \<ge> limit")
    case True
    then have "w' = w" using Cons.prems by simp
    then show ?thesis using True by (intro exI[of _ "[]"]) simp
  next
    case False
    with Cons.prems have "runs (and_then (judge i s) (\<lambda>s v.
        walk_from judge limit None is (record_verdict i False v w) s)) t (s', Inr w')" by (simp add: Let_def)
    then obtain t1 t2 s1 v where step: "t = t1 @ t2"
      "runs (walk_from judge limit None is (record_verdict i False v w) s1) t2 (s', Inr w')"
      "reads_in (judge i s) t v"
      by (rule and_then_reads)
    from Cons.IH[OF step(2)] obtain vs where vs: "length vs \<le> length is"
      "wk_taken w' = wk_taken (record_verdict i False v w) @ verdict_taken vs"
      "wk_left w' = wk_left (record_verdict i False v w) @ verdict_left is vs"
      "wk_beyond w' = wk_beyond (record_verdict i False v w)"
      "length vs = length is \<or> int (length (wk_taken w')) \<ge> limit"
      "\<forall>k < length vs. \<exists>s1. reads_in (judge (is ! k) s1) t2 (vs ! k)" by blast
    have "\<exists>s1. reads_in (judge ((i # is) ! k) s1) t ((v # vs) ! k)" if "k < length (v # vs)" for k
    proof (cases k)
      case 0
      then show ?thesis using step(3) by auto
    next
      case (Suc j)
      with that have "j < length vs" by simp
      with vs(6) obtain s2 where "reads_in (judge (is ! j) s2) t2 (vs ! j)" by blast
      then have "reads_in (judge (is ! j) s2) t (vs ! j)" using step(1) by (auto intro: reads_in_mono)
      then show ?thesis using Suc by auto
    qed
    then show ?thesis
      using vs(1-5) by (intro exI[of _ "v # vs"]) (cases v; auto simp: record_verdict_def)
  qed
qed (intro exI[of _ "[]"]; simp)

lemma walk_from_taken:
  assumes "runs (walk_from judge limit probe is w s) t (s', Inr w')" and "x \<in> set (wk_taken w')"
  shows "x \<in> set (wk_taken w) \<or> (\<exists>i \<in> set is. \<exists>s1. reads_in (judge i s1) t (Inr x))"
  using assms
proof (induction "is" arbitrary: w s t)
  case (Cons i "is")
  let ?full = "int (length (wk_taken w)) \<ge> limit"
  consider "w' = w"
    | "runs (walk_from judge limit probe is w s) t (s', Inr w')"
    | "runs (and_then (judge i s) (\<lambda>s v.
        walk_from judge limit probe is (record_verdict i ?full v w) s)) t (s', Inr w')"
    using Cons.prems(1) by (auto simp: Let_def split: if_splits)
  then show ?case
  proof cases
    case 1
    then show ?thesis using Cons.prems(2) by simp
  next
    case 2
    from Cons.IH[OF this Cons.prems(2)] show ?thesis by auto
  next
    case 3
    then obtain t1 t2 s1 v where step: "t = t1 @ t2"
      "runs (walk_from judge limit probe is (record_verdict i ?full v w) s1) t2 (s', Inr w')"
      "reads_in (judge i s) t v"
      by (rule and_then_reads)
    from Cons.IH[OF step(2) Cons.prems(2)] consider
        "x \<in> set (wk_taken (record_verdict i ?full v w))"
      | j s2 where "j \<in> set is" "reads_in (judge j s2) t2 (Inr x)" by blast
    then show ?thesis
    proof cases
      case 1
      then show ?thesis using step(3) by (cases v) (auto simp: record_verdict_def split: if_splits)
    next
      case 2
      then show ?thesis using reads_in_mono[OF 2(2), of t] step(1) by auto
    qed
  qed
qed simp

lemma walk_from_limit:
  assumes "runs (walk_from judge limit probe is w s) t (s', Inr w')"
  shows "int (length (wk_taken w')) \<le> max limit (int (length (wk_taken w)))"
  using assms
proof (induction "is" arbitrary: w s t)
  case (Cons i "is")
  let ?full = "int (length (wk_taken w)) \<ge> limit"
  consider "w' = w"
    | "runs (walk_from judge limit probe is w s) t (s', Inr w')"
    | "runs (and_then (judge i s) (\<lambda>s v.
        walk_from judge limit probe is (record_verdict i ?full v w) s)) t (s', Inr w')"
    using Cons.prems by (auto simp: Let_def split: if_splits)
  then show ?case
  proof cases
    case 3
    then obtain t1 t2 s1 v where
      "runs (walk_from judge limit probe is (record_verdict i ?full v w) s1) t2 (s', Inr w')"
      by (rule and_then_reads)
    from Cons.IH[OF this] show ?thesis by (cases v) (auto simp: record_verdict_def split: if_splits)
  qed (use Cons.IH in auto)
qed simp

section \<open>The stage job\<close>

lemma open_among_none:
  "runs (open_among ops ns s) t (s', Inr []) \<Longrightarrow> n \<in> set ns \<Longrightarrow>
     \<exists>s1 found. reads_in (so_item ops s1 n) t found \<and> (\<forall>i. found = Some i \<longrightarrow> it_state i \<noteq> StateOpen)"
proof (induction ns arbitrary: s t s')
  case (Cons m ns)
  from Cons.prems(1)[unfolded open_among.simps] obtain t1 t2 s1 found where a: "t = t1 @ t2"
    "runs (and_then (open_among ops ns s1) (\<lambda>s rest. Done (s, Inr (case found of
       Some i \<Rightarrow> if it_state i = StateOpen then m # rest else rest
     | None \<Rightarrow> rest)))) t2 (s', Inr [])" "reads_in (so_item ops s m) t found"
    by (rule and_then_reads)
  from a(2) obtain rest where b: "runs (open_among ops ns s1) t2 (s', Inr rest)"
    "[] = (case found of
       Some i \<Rightarrow> if it_state i = StateOpen then m # rest else rest
     | None \<Rightarrow> rest)"
    by (rule runs_then_done)
  from b(2) have c: "rest = []" "\<forall>i. found = Some i \<longrightarrow> it_state i \<noteq> StateOpen"
    by (auto split: option.splits if_splits)
  show ?case
  proof (cases "n = m")
    case True
    then show ?thesis using a(3) c(2) by blast
  next
    case False
    then obtain s3 g where "reads_in (so_item ops s3 n) t2 g" "\<forall>i. g = Some i \<longrightarrow> it_state i \<noteq> StateOpen"
      using Cons.IH[OF b(1)[unfolded c(1)]] Cons.prems(2) by auto
    moreover from this(1) have "reads_in (so_item ops s3 n) t g" by (rule reads_in_mono) (simp add: a(1))
    ultimately show ?thesis by blast
  qed
qed simp

text \<open>The issues that keep an Item back are read, and none of them is an open Item.\<close>

definition none_open :: "('s, 'q, 'a) store_ops \<Rightarrow> ('q, 'a) trace \<Rightarrow> int list \<Rightarrow> bool" where
  "none_open ops t ns =
     (\<forall>n \<in> set ns. \<exists>s1 found. reads_in (so_item ops s1 n) t found \<and>
        (\<forall>i. found = Some i \<longrightarrow> it_state i \<noteq> StateOpen))"

lemma reads_open_among: "reads_in (open_among ops ns s) t [] \<Longrightarrow> none_open ops t ns"
  unfolding none_open_def reads_in_def[of "open_among ops ns s"]
  using open_among_none reads_in_mono by meson

lemma dependency_reason_none:
  assumes "reads_in (dependency_reason ops env i s) t None"
  shows "\<exists>ns. body_dependencies (sg_dependency_texts env) (it_body i) = Inr ns \<and> none_open ops t ns"
proof (cases "body_dependencies (sg_dependency_texts env) (it_body i)")
  case (Inr ns)
  with assms have "reads_in (and_then (open_among ops ns s) (\<lambda>s found.
      Done (s, Inr (if found = [] then None else Some (OpenDependencies found))))) t None"
    by (simp add: dependency_reason_def)
  then obtain found where "reads_in (open_among ops ns s) t found"
    "None = (if found = [] then None else Some (OpenDependencies found))"
    by (rule reads_then_done)
  then show ?thesis using Inr by (auto split: if_splits dest: reads_open_among)
qed (use assms in \<open>simp add: dependency_reason_def\<close>)

lemma blocker_reason_none:
  assumes "reads_in (blocker_reason ops i s) t None"
  shows "none_open ops t (recorded_blockers i)"
proof -
  from assms[unfolded blocker_reason_def] obtain found where
    "reads_in (open_among ops (recorded_blockers i) s) t found"
    "None = (if found = [] then None else Some (OpenBlockers found))"
    by (rule reads_then_done)
  then show ?thesis by (auto split: if_splits dest: reads_open_among)
qed

lemma held_reason_none:
  assumes "reads_in (held_reason env i s) t None"
  shows "\<exists>s1. reads_in (sg_holder env (it_number i) (target_branch (target_of i)) s1) t None"
proof -
  from assms[unfolded held_reason_def] obtain held where
    "reads_in (sg_holder env (it_number i) (target_branch (target_of i)) s) t held"
    "None = map_option HeldIssue held"
    by (rule reads_then_done)
  then show ?thesis by (cases held) auto
qed

text \<open>What the run read of an Item that the stage job takes.\<close>

definition stageable ::
  "('s, 'q, 'a) store_ops \<Rightarrow> ('s, 'q, 'a) stage_env \<Rightarrow> ('q, 'a) trace \<Rightarrow> item \<Rightarrow> bool" where
  "stageable ops env t i =
     (it_status i = Some ''Ready'' \<and> claimed_by i = None \<and> needs_split_label \<notin> set (it_labels i) \<and>
      it_sub_issues i \<le> 0 \<and> epic_label \<notin> set (it_labels i) \<and>
      is_trusted (sg_trust env) i \<and> is_approved (sg_trust env) i \<and>
      \<not> plan_merged i (sg_planned env) \<and>
      sg_redacted env (it_title i) = it_title i \<and> sg_redacted env (it_body i) = it_body i \<and>
      (\<exists>ns. body_dependencies (sg_dependency_texts env) (it_body i) = Inr ns \<and> none_open ops t ns) \<and>
      none_open ops t (recorded_blockers i) \<and>
      (\<exists>s. reads_in (sg_holder env (it_number i) (target_branch (target_of i)) s) t None))"

text \<open>
  What it read further of one that the caller did not name: the hold of a rejected plan ended, by a
  new text or a later change of a file that the reason names; no split is recorded under the file cap
  of today; and the time to try again after a failure has come.
\<close>

definition rejection_of :: "('s, 'q, 'a) stage_env \<Rightarrow> item \<Rightarrow> rejected_plan option" where
  "rejection_of env i =
     (case dict_get (sg_rejected env) (it_number i) of Some r \<Rightarrow> Some r | None \<Rightarrow> recorded_rejection env i)"

definition hold_ended :: "('s, 'q, 'a) stage_env \<Rightarrow> ('q, 'a) trace \<Rightarrow> item \<Rightarrow> rejected_plan \<Rightarrow> bool" where
  "hold_ended env t i r =
     (fst (body_hashes (ts_digest (sg_trust env)) (it_body i)) \<noteq> rp_text_hash r \<or>
      (\<exists>p \<in> set (rp_paths r). \<exists>s x u. reads_in (sg_path_changed env p s) t (Some x) \<and>
         rp_closed_at r = AwareTime u \<and> u \<le> x))"

definition retry_due :: "('s, 'q, 'a) stage_env \<Rightarrow> item \<Rightarrow> bool" where
  "retry_due env i =
     (\<forall>c. record_get (it_job_record i) ''stage.failed_at'' = Some c \<and> c \<noteq> [] \<longrightarrow>
        (case sg_time env c of
           None \<Rightarrow> True | Some NaiveTime \<Rightarrow> False | Some (AwareTime u) \<Rightarrow> u + sg_retry env \<le> sg_now env))"

definition unnamed_passed :: "('s, 'q, 'a) stage_env \<Rightarrow> ('q, 'a) trace \<Rightarrow> item \<Rightarrow> bool" where
  "unnamed_passed env t i =
     ((\<forall>r. rejection_of env i = Some r \<longrightarrow> hold_ended env t i r) \<and>
      (given_text (record_get (it_job_record i) ''stage.needs_split'') = [] \<or>
       record_get (it_job_record i) ''stage.file_cap'' \<noteq> Some (int_text file_max_tokens)) \<and>
      retry_due env i)"

lemma changed_since_true:
  "runs (changed_since env ps since s) t (s', Inr True) \<Longrightarrow>
   \<exists>p \<in> set ps. \<exists>s1 x u. reads_in (sg_path_changed env p s1) t (Some x) \<and> since = AwareTime u \<and> u \<le> x"
proof (induction ps arbitrary: s t)
  case (Cons p ps)
  from Cons.prems[unfolded changed_since.simps] obtain t1 t2 s1 x where a: "t = t1 @ t2"
    "runs (case x of
         Some x \<Rightarrow>
           (case since of
              NaiveTime \<Rightarrow> Done (s1, Inl (RecordUnread TypeError))
            | AwareTime u \<Rightarrow> if x \<ge> u then Done (s1, Inr True) else changed_since env ps since s1)
       | None \<Rightarrow> changed_since env ps since s1) t2 (s', Inr True)" "reads_in (sg_path_changed env p s) t x"
    by (rule and_then_reads)
  show ?case
  proof (cases "\<exists>y u. x = Some y \<and> since = AwareTime u \<and> u \<le> y")
    case True
    then show ?thesis using a(3) by auto
  next
    case False
    then have "runs (changed_since env ps since s1) t2 (s', Inr True)"
      using a(2) by (auto split: option.splits py_time.splits)
    from Cons.IH[OF this] obtain q s3 y u where q: "q \<in> set ps" "reads_in (sg_path_changed env q s3) t2 (Some y)"
      "since = AwareTime u" "u \<le> y" by blast
    from q(2) have "reads_in (sg_path_changed env q s3) t (Some y)" by (rule reads_in_mono) (simp add: a(1))
    with q show ?thesis by auto
  qed
qed simp

lemma hold_reason_none:
  assumes "reads_in (hold_reason env i r s) t None"
  shows "hold_ended env t i r"
proof (cases "fst (body_hashes (ts_digest (sg_trust env)) (it_body i)) = rp_text_hash r")
  case True
  with assms have "reads_in (and_then (changed_since env (rp_paths r) (rp_closed_at r) s) (\<lambda>s changed.
      Done (s, Inr (if changed then None else Some (PlanRejected (rp_pull r)))))) t None"
    by (simp add: hold_reason_def)
  then obtain changed where "reads_in (changed_since env (rp_paths r) (rp_closed_at r) s) t changed"
    "None = (if changed then None else Some (PlanRejected (rp_pull r)))"
    by (rule reads_then_done)
  then have "reads_in (changed_since env (rp_paths r) (rp_closed_at r) s) t True" by (simp split: if_splits)
  then obtain t1 s' where run: "runs (changed_since env (rp_paths r) (rp_closed_at r) s) t1 (s', Inr True)"
    "set t1 \<subseteq> set t" by (auto simp: reads_in_def)
  from changed_since_true[OF run(1)] obtain p s1 x u where "p \<in> set (rp_paths r)"
    "reads_in (sg_path_changed env p s1) t1 (Some x)" "rp_closed_at r = AwareTime u" "u \<le> x" by blast
  moreover from this(2) run(2) have "reads_in (sg_path_changed env p s1) t (Some x)" by (rule reads_in_mono)
  ultimately show ?thesis unfolding hold_ended_def by blast
qed (simp add: hold_ended_def)

lemma rejected_reason_none:
  "reads_in (rejected_reason env i s) t None \<Longrightarrow> rejection_of env i = Some r \<Longrightarrow> hold_ended env t i r"
  by (auto simp: rejected_reason_def rejection_of_def dest: hold_reason_none split: option.splits)

lemma recorded_split_none:
  "recorded_split i = None \<Longrightarrow>
   given_text (record_get (it_job_record i) ''stage.needs_split'') = [] \<or>
   record_get (it_job_record i) ''stage.file_cap'' \<noteq> Some (int_text file_max_tokens)"
  by (auto simp: recorded_split_def given_text_def split: option.splits list.splits if_splits)

lemma failed_lately_none:
  assumes "failed_lately env i = Inr None"
  shows "retry_due env i"
  unfolding retry_due_def
proof (intro allI impI)
  fix c assume c: "record_get (it_job_record i) ''stage.failed_at'' = Some c \<and> c \<noteq> []"
  then obtain x xs where "c = x # xs" by (cases c) auto
  then show "case sg_time env c of
      None \<Rightarrow> True | Some NaiveTime \<Rightarrow> False | Some (AwareTime u) \<Rightarrow> u + sg_retry env \<le> sg_now env"
    using assms c by (auto simp: failed_lately_def split: option.splits py_time.splits if_splits)
qed

lemma stage_reason_none:
  assumes "reads_in (stage_reason ops env waiting i named s) t None"
  shows "stageable ops env t i" and "title_reason i = None"
    and "\<not> named \<Longrightarrow> queue_full waiting (sg_limit env) i = None"
    and "\<not> named \<Longrightarrow> unnamed_passed env t i"
proof -
  have passed: "\<exists>s1. reads_in (c s1) t None" if "c \<in> set (stage_checks ops env waiting i named)" for c
    using reads_in_first_reason[OF assms[unfolded stage_reason_def] that] .
  have pure: "w = None" if "told w \<in> set (stage_checks ops env waiting i named)" for w
    using passed[OF that] by simp
  have "not_ready i = None" "claimed_reason i = None" "needs_split i = None" "tracker i = None"
    "author_reason (sg_trust env) i = None" "planned_on_default (sg_planned env) i = None"
    "secret_reason env i = None"
    by (rule pure; simp add: stage_checks_def)+
  moreover show title: "title_reason i = None" by (rule pure) (simp add: stage_checks_def)
  moreover show "queue_full waiting (sg_limit env) i = None" if "\<not> named"
    by (rule pure) (use that in \<open>simp add: stage_checks_def\<close>)
  moreover show "unnamed_passed env t i" if "\<not> named"
  proof -
    have "\<exists>s1. reads_in (rejected_reason env i s1) t None"
      by (rule passed) (use that in \<open>simp add: stage_checks_def\<close>)
    moreover have "(\<lambda>s. Done (s, failed_lately env i)) \<in> set (stage_checks ops env waiting i named)"
      using that by (simp add: stage_checks_def)
    from passed[OF this] have "failed_lately env i = Inr None" by simp
    moreover have "recorded_split i = None" by (rule pure) (use that in \<open>simp add: stage_checks_def\<close>)
    ultimately show ?thesis
      unfolding unnamed_passed_def
      by (auto dest: rejected_reason_none recorded_split_none failed_lately_none)
  qed
  moreover have "\<exists>s1. reads_in (dependency_reason ops env i s1) t None"
    "\<exists>s1. reads_in (blocker_reason ops i s1) t None" "\<exists>s1. reads_in (held_reason env i s1) t None"
    by (rule passed; simp add: stage_checks_def)+
  ultimately show "stageable ops env t i"
    unfolding stageable_def
    using dependency_reason_none[of ops env i] blocker_reason_none[of ops i] held_reason_none[of env i]
    by (auto simp: not_ready_def claimed_reason_def needs_split_def tracker_def author_reason_def
        planned_on_default_def secret_reason_def plan_merged_def split: if_splits option.splits)
qed

lemma title_target:
  assumes "title_reason i = None" and "0 \<le> it_number i"
  shows "\<exists>kind. commit_type (it_title i) = Some kind \<and> kind \<in> set branch_types \<and>
    parse_branch (Some (target_branch (target_of i))) =
      Some \<lparr>bp_type = kind, bp_issue = it_number i, bp_slug = slug_of (it_title i)\<rparr>"
proof -
  from assms(1) obtain kind where kind: "commit_type (it_title i) = Some kind" "slug_of (it_title i) \<noteq> []"
    by (auto simp: title_reason_def split: if_splits option.splits)
  then have "kind \<in> set branch_types" by (auto simp: commit_type_def Let_def split: if_splits)
  with parse_branch_name[OF assms(2) this slug_of_valid[OF kind(2)]] kind(1) show ?thesis
    by (simp add: target_branch_def target_of_def given_text_def)
qed

lemma stage_verdict_taken:
  assumes "reads_in (stage_verdict ops env waiting i s) t (Inr x)"
  shows "x = target_of i \<and> reads_in (stage_reason ops env waiting i False s) t None"
proof -
  from assms[unfolded stage_verdict_def] obtain why where
    "reads_in (stage_reason ops env waiting i False s) t why"
    "Inr x = (case why of None \<Rightarrow> Inr (target_of i) | Some x \<Rightarrow> Inl x)"
    by (rule reads_then_done)
  then show ?thesis by (auto split: option.splits)
qed

lemma open_items_open:
  assumes "runs (open_items ops s) t (s', Inr items)"
  shows "\<forall>i \<in> set items. it_state i = StateOpen" and "sorted (map priority_order items)"
  using assms by (auto simp: open_items_def runs_and_then)

lemma select_stageable_taken:
  assumes "runs (select_stageable ops env fs limit number probe s) t (s', Inr w)" and "x \<in> set (wk_taken w)"
  shows "x = target_of (st_item x) \<and> it_state (st_item x) = StateOpen \<and>
    (\<exists>opened s1. reads_in (open_items ops s) t opened \<and>
       reads_in (stage_reason ops env (planned_count opened) (st_item x) (number \<noteq> None) s1) t None)"
proof -
  from assms(1)[unfolded select_stageable_def] obtain t1 t2 s1 opened where sel: "t = t1 @ t2"
    "runs (open_items ops s) t1 (s1, Inr opened)"
    "runs (let waiting = planned_count opened in case number of
         Some n \<Rightarrow> named_item ops env waiting n s1
       | None \<Rightarrow> walk_named (filter (matches_filter fs) opened) (stage_verdict ops env waiting) limit probe s1)
       t2 (s', Inr w)" "reads_in (open_items ops s) t opened"
    by (rule and_then_reads)
  have sub: "set t2 \<subseteq> set t" using sel(1) by auto
  let ?n = "planned_count opened"
  show ?thesis
  proof (cases number)
    case None
    with sel(3) have "runs (walk_from (stage_verdict ops env ?n) limit probe
        (filter (matches_filter fs) opened) no_walk s1) t2 (s', Inr w)"
      by (simp add: walk_named_def Let_def)
    from walk_from_taken[OF this assms(2)] obtain i s2 where i: "i \<in> set opened"
      "reads_in (stage_verdict ops env ?n i s2) t2 (Inr x)" by (auto simp: no_walk_def)
    from stage_verdict_taken[OF i(2)] have "x = target_of i"
      "reads_in (stage_reason ops env ?n i False s2) t2 None" by auto
    moreover from this(2) have "reads_in (stage_reason ops env ?n i False s2) t None"
      by (rule reads_in_mono) (rule sub)
    ultimately show ?thesis
      using open_items_open(1)[OF sel(2)] i(1) None sel(4) by (auto simp: target_of_def)
  next
    case (Some n)
    with sel(3) have "runs (named_item ops env ?n n s1) t2 (s', Inr w)" by (simp add: Let_def)
    from this[unfolded named_item_def] obtain t3 t4 s2 found where found: "t2 = t3 @ t4"
      "runs (case found of
         None \<Rightarrow> Done (s2, Inr (no_walk\<lparr>wk_left := [\<lparr>lo_number = n, lo_reason = NoItem, lo_title = []\<rparr>]\<rparr>))
       | Some i \<Rightarrow>
           if it_state i \<noteq> StateOpen then
             Done (s2, Inr (no_walk\<lparr>wk_left := [\<lparr>lo_number = n, lo_reason = ItemClosed, lo_title = it_title i\<rparr>]\<rparr>))
           else and_then (stage_reason ops env ?n i True s2) (\<lambda>s why.
             Done (s, Inr (case why of
               None \<Rightarrow> no_walk\<lparr>wk_taken := [target_of i]\<rparr>
             | Some x \<Rightarrow> no_walk\<lparr>wk_left := [\<lparr>lo_number = n, lo_reason = x, lo_title = it_title i\<rparr>]\<rparr>))))
       t4 (s', Inr w)"
      by (rule and_then_reads)
    from found(2) assms(2) obtain i where i: "found = Some i" "it_state i = StateOpen"
      by (cases found) (auto simp: no_walk_def split: if_splits)
    from found(2)[unfolded i(1)] i(2) have "runs (and_then (stage_reason ops env ?n i True s2) (\<lambda>s why.
             Done (s, Inr (case why of
               None \<Rightarrow> no_walk\<lparr>wk_taken := [target_of i]\<rparr>
             | Some x \<Rightarrow> no_walk\<lparr>wk_left := [\<lparr>lo_number = n, lo_reason = x, lo_title = it_title i\<rparr>]\<rparr>))))
       t4 (s', Inr w)" by simp
    then obtain why where "runs (stage_reason ops env ?n i True s2) t4 (s', Inr why)"
      "w = (case why of
               None \<Rightarrow> no_walk\<lparr>wk_taken := [target_of i]\<rparr>
             | Some x \<Rightarrow> no_walk\<lparr>wk_left := [\<lparr>lo_number = n, lo_reason = x, lo_title = it_title i\<rparr>]\<rparr>)"
      by (rule runs_then_done)
    then have "x = target_of i" "reads_in (stage_reason ops env ?n i True s2) t4 None"
      using assms(2) by (auto simp: no_walk_def split: option.splits intro: reads_inI)
    moreover from this(2) have "reads_in (stage_reason ops env ?n i True s2) t None"
      by (rule reads_in_mono) (use sub found(1) in auto)
    ultimately show ?thesis using i(2) Some sel(4) by (auto simp: target_of_def)
  qed
qed


section \<open>The implement job\<close>

lemma reads_in_bind:
  assumes "reads_in (bind_prog p f) t y"
  obtains u z where "runs p u z" "set u \<subseteq> set t" "reads_in (f z) t y"
proof -
  from assms obtain s' v where v: "runs (bind_prog p f) v (s', Inr y)" "set v \<subseteq> set t"
    by (auto simp: reads_in_def)
  from v(1) obtain t1 t2 z where z: "v = t1 @ t2" "runs p t1 z" "runs (f z) t2 (s', Inr y)"
    by (auto simp: runs_bind)
  have "reads_in (f z) t y" by (rule reads_inI[OF z(3)]) (use v(2) z(1) in auto)
  then show thesis using that[OF z(2)] v(2) z(1) by auto
qed

lemma reads_or_reason: "reads_in (or_reason p why) t None \<Longrightarrow> reads_in p t None"
  unfolding or_reason_def
  by (elim reads_in_bind) (auto intro: reads_inI split: prod.splits sum.splits roadmap_error.splits)

text \<open>The gates passed the plan at a commit, or the commit holds the change archived.\<close>

definition plan_passed ::
  "('s, 'q, 'a) plan_ops \<Rightarrow> ('q, 'a) trace \<Rightarrow> item \<Rightarrow> string \<Rightarrow> bool" where
  "plan_passed po t i cm =
     (\<exists>s1 files. reads_in (po_tree po cm s1) t files \<and>
        (case change_root files (it_number i) of
           Inl why \<Rightarrow> \<exists>s2 held. reads_in (po_plans po cm s2) t held \<and>
             dict_get (pc_archived held) (it_number i) \<noteq> None \<and> dict_get (pc_active held) (it_number i) = None
         | Inr folder \<Rightarrow> \<exists>s2. reads_in (po_gates po cm (filter (prefix (folder @ ''/'')) files) i s2) t
             (GateProblems [])))"

lemma plan_reason_none:
  assumes "reads_in (plan_reason po i cm s) t None"
  shows "plan_passed po t i cm"
proof -
  from reads_or_reason[OF assms[unfolded plan_reason_def]] obtain s1 files where
    files: "reads_in (po_tree po cm s) t files"
    "reads_in (case change_root files (it_number i) of
            Inl why \<Rightarrow>
              and_then (archived_at po cm (it_number i) s1) (\<lambda>s archived.
                Done (s, Inr (if archived then None else Some why)))
          | Inr folder \<Rightarrow>
              and_then (po_gates po cm (filter (prefix (folder @ ''/'')) files) i s1) (\<lambda>s answer. Done (s, Inr
                (case answer of
                   PlanNotRead path why \<Rightarrow> Some (PlanUnread path why)
                 | GateProblems ps \<Rightarrow> if ps = [] then None else Some (PlanProblem (hd ps)))))) t None"
    by (rule reads_in_and_then)
  show ?thesis
  proof (cases "change_root files (it_number i)")
    case (Inl why)
    with files(2) have "reads_in (and_then (archived_at po cm (it_number i) s1) (\<lambda>s archived.
        Done (s, Inr (if archived then None else Some why)))) t None" by simp
    then obtain archived where "reads_in (archived_at po cm (it_number i) s1) t archived"
      "None = (if archived then None else Some why)" by (rule reads_then_done)
    then have "reads_in (archived_at po cm (it_number i) s1) t True" by (auto split: if_splits)
    from this[unfolded archived_at_def] obtain held where "reads_in (po_plans po cm s1) t held"
      "True = (dict_get (pc_archived held) (it_number i) \<noteq> None \<and> dict_get (pc_active held) (it_number i) = None)"
      by (rule reads_then_done)
    then show ?thesis
      using files(1) Inl unfolding plan_passed_def by (intro exI[of _ s] exI[of _ files]) auto
  next
    case (Inr folder)
    with files(2) have "reads_in (and_then (po_gates po cm (filter (prefix (folder @ ''/'')) files) i s1)
        (\<lambda>s answer. Done (s, Inr (case answer of
           PlanNotRead path why \<Rightarrow> Some (PlanUnread path why)
         | GateProblems ps \<Rightarrow> if ps = [] then None else Some (PlanProblem (hd ps)))))) t None" by simp
    then obtain answer where "reads_in (po_gates po cm (filter (prefix (folder @ ''/'')) files) i s1) t answer"
      "None = (case answer of
           PlanNotRead path why \<Rightarrow> Some (PlanUnread path why)
         | GateProblems ps \<Rightarrow> if ps = [] then None else Some (PlanProblem (hd ps)))"
      by (rule reads_then_done)
    then have "reads_in (po_gates po cm (filter (prefix (folder @ ''/'')) files) i s1) t (GateProblems [])"
      by (auto split: plan_answer.splits if_splits)
    then show ?thesis
      using files(1) Inr unfolding plan_passed_def by (intro exI[of _ s] exI[of _ files]) auto
  qed
qed

lemma branch_reason_none:
  assumes "reads_in (branch_reason env i branch s) t None"
  shows "branch \<in> set (ie_pushed env) \<and>
    (\<exists>app s1 s2 authors. ts_bot (ie_trust env) = Some app \<and>
       reads_in (po_local_holder (ie_ops env) (it_number i) s1) t None \<and>
       reads_in (po_authors (ie_ops env) branch s2) t authors \<and> (\<forall>a \<in> set authors. a = app))"
proof -
  from assms obtain app where app: "ts_bot (ie_trust env) = Some app" "branch \<in> set (ie_pushed env)"
    by (cases "ts_bot (ie_trust env)") (auto simp: branch_reason_def Let_def split: if_splits)
  from assms have "reads_in (and_then (po_local_holder (ie_ops env) (it_number i) s) (\<lambda>s held.
            case held of
              Some h \<Rightarrow> Done (s, Inr (Some (HeldIssue h)))
            | None \<Rightarrow>
                and_then (po_authors (ie_ops env) branch s) (\<lambda>s authors.
                  case find (\<lambda>x. x \<noteq> app) authors of
                    Some other \<Rightarrow> Done (s, Inr (Some (ForeignCommit other)))
                  | None \<Rightarrow>
                      and_then (po_stray (ie_ops env) branch s) (\<lambda>s why.
                        Done (s, Inr (map_option HeldIssue why)))))) t None"
    by (simp add: branch_reason_def Let_def app)
  then obtain s1 held where held: "reads_in (po_local_holder (ie_ops env) (it_number i) s) t held"
    "reads_in (case held of
              Some h \<Rightarrow> Done (s1, Inr (Some (HeldIssue h)))
            | None \<Rightarrow>
                and_then (po_authors (ie_ops env) branch s1) (\<lambda>s authors.
                  case find (\<lambda>x. x \<noteq> app) authors of
                    Some other \<Rightarrow> Done (s, Inr (Some (ForeignCommit other)))
                  | None \<Rightarrow>
                      and_then (po_stray (ie_ops env) branch s) (\<lambda>s why.
                        Done (s, Inr (map_option HeldIssue why))))) t None"
    by (rule reads_in_and_then)
  then have none: "held = None" by (cases held) auto
  from held(2)[unfolded none option.case] obtain s2 authors where
    authors: "reads_in (po_authors (ie_ops env) branch s1) t authors"
    "reads_in (case find (\<lambda>x. x \<noteq> app) authors of
                    Some other \<Rightarrow> Done (s2, Inr (Some (ForeignCommit other)))
                  | None \<Rightarrow>
                      and_then (po_stray (ie_ops env) branch s2) (\<lambda>s why.
                        Done (s, Inr (map_option HeldIssue why)))) t None"
    by (rule reads_in_and_then)
  then have "find (\<lambda>x. x \<noteq> app) authors = None" by (cases "find (\<lambda>x. x \<noteq> app) authors") auto
  then have "\<forall>a \<in> set authors. a = app" by (auto simp: find_None_iff)
  then show ?thesis using app held(1) none authors(1) by blast
qed

lemma pull_reason_none:
  assumes "reads_in (pull_reason po n s) t None"
  shows "\<exists>s1 p. reads_in (po_pull po n s1) t p \<and> is_open_draft p"
  using assms unfolding pull_reason_def
  by (elim reads_in_bind)
    (auto intro: reads_inI split: prod.splits sum.splits roadmap_error.splits gh_error.splits if_splits)

text \<open>What the run read of the branch and the pull request of a target.\<close>

definition target_checked :: "('s, 'q, 'a) implement_env \<Rightarrow> ('q, 'a) trace \<Rightarrow> implement_target \<Rightarrow> bool" where
  "target_checked env t x =
     (case im_pull x of
        Some n \<Rightarrow>
          im_branch x \<in> set (ie_pushed env) \<and>
          (\<exists>app s1 authors. ts_bot (ie_trust env) = Some app \<and>
             reads_in (po_authors (ie_ops env) (im_branch x) s1) t authors \<and> (\<forall>a \<in> set authors. a = app)) \<and>
          (\<exists>s1 p. reads_in (po_pull (ie_ops env) n s1) t p \<and> is_open_draft p) \<and>
          plan_passed (ie_ops env) t (im_item x) (''origin/'' @ im_branch x)
      | None \<Rightarrow>
          (\<exists>folder s1 ticks. dict_get (pc_active (ie_planned env)) (it_number (im_item x)) = Some folder \<and>
             reads_in (po_tasks (ie_ops env) folder s1) t ticks \<and> False \<in> set ticks) \<and>
          issue_of_branch (Some (im_branch x)) = Some (it_number (im_item x)) \<and>
          (\<exists>s1. reads_in (po_holder (ie_ops env) (it_number (im_item x)) (im_branch x) s1) t None) \<and>
          plan_passed (ie_ops env) t (im_item x) (''origin/'' @ ie_default env))"

lemma staged_target_taken:
  assumes "reads_in (staged_target env i branch n retry s) t (Inr x)"
  shows "im_item x = i \<and> im_retry x = retry \<and> target_checked env t x"
proof -
  let ?cs = "[branch_reason env i branch, plan_reason (ie_ops env) i (''origin/'' @ branch),
              pull_reason (ie_ops env) n]"
  from assms[unfolded staged_target_def] obtain why where
    why: "reads_in (first_reason ?cs s) t why"
    "Inr x = (case why of
         Some x \<Rightarrow> Inl x
       | None \<Rightarrow> Inr \<lparr>im_item = i, im_branch = branch, im_pull = Some n, im_retry = retry\<rparr>)"
    by (rule reads_then_done)
  then have x: "why = None" "x = \<lparr>im_item = i, im_branch = branch, im_pull = Some n, im_retry = retry\<rparr>"
    by (auto split: option.splits)
  have passed: "\<exists>s1. reads_in (c s1) t None" if "c \<in> set ?cs" for c
    using reads_in_first_reason[OF why(1)[unfolded x(1)] that] .
  have "\<exists>s1. reads_in (branch_reason env i branch s1) t None"
    "\<exists>s1. reads_in (plan_reason (ie_ops env) i (''origin/'' @ branch) s1) t None"
    "\<exists>s1. reads_in (pull_reason (ie_ops env) n s1) t None"
    by (rule passed; simp)+
  then obtain s1 s2 s3 where "reads_in (branch_reason env i branch s1) t None"
    "reads_in (plan_reason (ie_ops env) i (''origin/'' @ branch) s2) t None"
    "reads_in (pull_reason (ie_ops env) n s3) t None" by blast
  from branch_reason_none[OF this(1)] plan_reason_none[OF this(2)] pull_reason_none[OF this(3)]
  show ?thesis unfolding target_checked_def x(2) implement_target.simps option.case by blast
qed

lemma parsed_issue: "parse_branch (Some (branch_name n kind slug)) = Some p \<Longrightarrow> kind \<in> set branch_types \<Longrightarrow> bp_issue p = n"
proof -
  assume p: "parse_branch (Some (branch_name n kind slug)) = Some p" and kind: "kind \<in> set branch_types"
  have up: "upto_char (CHR ''/'') (kind @ CHR ''/'' # r) = kind" for r
    by (rule upto_char_in[OF branch_types_plain[OF kind]])
  show ?thesis
  proof (cases "0 \<le> n")
    case True
    then have ds: "list_all is_digit (digits_text (nat n))" "digits_val (digits_text (nat n)) = n"
      using digits_text_ok[of "nat n"] by auto
    then show ?thesis
      using p True digits_then[OF ds(1), of slug] up
      by (auto simp: parse_branch_def branch_name_def int_text_def Let_def split: if_splits)
  next
    case False
    then show ?thesis
      using p up
      by (auto simp: parse_branch_def branch_name_def int_text_def Let_def is_digit_def split: if_splits)
  qed
qed

lemma planned_target_taken:
  assumes "reads_in (planned_target env i folder retry s) t (Inr x)"
    and "dict_get (pc_active (ie_planned env)) (it_number i) = Some folder"
  shows "im_item x = i \<and> im_retry x = retry \<and> target_checked env t x"
proof -
  from assms(1) obtain kind where kind: "commit_type (it_title i) = Some kind" "long_title_reason (it_title i) = None"
    by (auto simp: planned_target_def split: option.splits)
  let ?b = "branch_name (it_number i) kind (past_char (CHR ''-'') folder)"
  from assms(1) have parse: "parse_branch (Some ?b) \<noteq> None"
    by (auto simp: planned_target_def kind Let_def split: if_splits)
  then have issue: "issue_of_branch (Some ?b) = Some (it_number i)"
    using parsed_issue kind(1) by (fastforce simp: issue_of_branch_def commit_type_def Let_def split: if_splits)
  let ?rest = "\<lambda>s. bind_prog (po_tasks (ie_ops env) folder s) (\<lambda>(s, r).
                        case r of
                          Inl GitFailed \<Rightarrow> Done (s, Inr (Inl (NoTasks folder)))
                        | Inl e \<Rightarrow> Done (s, Inl e)
                        | Inr ticks \<Rightarrow>
                            if list_all (\<lambda>b. b) ticks then Done (s, Inr (Inl (AllTicked folder)))
                            else and_then (plan_reason (ie_ops env) i (''origin/'' @ ie_default env) s) (\<lambda>s why.
                              Done (s, Inr (case why of
                                Some x \<Rightarrow> Inl x
                              | None \<Rightarrow> Inr \<lparr>im_item = i, im_branch = ?b, im_pull = None, im_retry = retry\<rparr>))))"
  from assms(1) parse have "reads_in (and_then (po_holder (ie_ops env) (it_number i) ?b s) (\<lambda>s held.
                  case held of Some h \<Rightarrow> Done (s, Inr (Inl (HeldIssue h))) | None \<Rightarrow> ?rest s)) t (Inr x)"
    by (auto simp: planned_target_def kind Let_def)
  then obtain s1 held where held: "reads_in (po_holder (ie_ops env) (it_number i) ?b s) t held"
    "reads_in (case held of Some h \<Rightarrow> Done (s1, Inr (Inl (HeldIssue h))) | None \<Rightarrow> ?rest s1) t (Inr x)"
    by (rule reads_in_and_then)
  then have none: "held = None" by (cases held) auto
  from held(2)[unfolded none option.case] obtain u z where z: "runs (po_tasks (ie_ops env) folder s1) u z"
    "set u \<subseteq> set t"
    "reads_in ((\<lambda>(s, r).
                        case r of
                          Inl GitFailed \<Rightarrow> Done (s, Inr (Inl (NoTasks folder)))
                        | Inl e \<Rightarrow> Done (s, Inl e)
                        | Inr ticks \<Rightarrow>
                            if list_all (\<lambda>b. b) ticks then Done (s, Inr (Inl (AllTicked folder)))
                            else and_then (plan_reason (ie_ops env) i (''origin/'' @ ie_default env) s) (\<lambda>s why.
                              Done (s, Inr (case why of
                                Some x \<Rightarrow> Inl x
                              | None \<Rightarrow> Inr \<lparr>im_item = i, im_branch = ?b, im_pull = None, im_retry = retry\<rparr>)))) z)
       t (Inr x)"
    by (rule reads_in_bind)
  then obtain s2 ticks where ticks: "z = (s2, Inr ticks)" "\<not> list_all (\<lambda>b. b) ticks"
    by (cases z; cases "snd z") (auto split: roadmap_error.splits if_splits)
  with z(3) have "reads_in (and_then (plan_reason (ie_ops env) i (''origin/'' @ ie_default env) s2) (\<lambda>s why.
                              Done (s, Inr (case why of
                                Some x \<Rightarrow> Inl x
                              | None \<Rightarrow> Inr \<lparr>im_item = i, im_branch = ?b, im_pull = None, im_retry = retry\<rparr>))))
       t (Inr x)" by simp
  then obtain why where why: "reads_in (plan_reason (ie_ops env) i (''origin/'' @ ie_default env) s2) t why"
    "Inr x = (case why of
                Some x \<Rightarrow> Inl x
              | None \<Rightarrow> Inr \<lparr>im_item = i, im_branch = ?b, im_pull = None, im_retry = retry\<rparr>)"
    by (rule reads_then_done)
  then have x: "why = None" "x = \<lparr>im_item = i, im_branch = ?b, im_pull = None, im_retry = retry\<rparr>"
    by (auto split: option.splits)
  have "reads_in (po_tasks (ie_ops env) folder s1) t ticks" using z(1,2) ticks(1) by (auto intro: reads_inI)
  moreover have "False \<in> set ticks" using ticks(2) by (auto simp: list_all_iff)
  ultimately show ?thesis
    using assms(2) issue held(1) none plan_reason_none[OF why(1)[unfolded x(1)]]
    unfolding target_checked_def x(2) by auto
qed

lemma planned_route:
  assumes "item_route env i = Inr (Some (Planned folder))"
  shows "dict_get (pc_active (ie_planned env)) (it_number i) = Some folder"
proof (cases "dict_get (pc_active (ie_planned env)) (it_number i)")
  case None
  with assms show ?thesis
    by (simp add: item_route_def Let_def split: sum.splits option.splits prod.splits)
next
  case (Some g)
  with assms show ?thesis
    by (simp add: item_route_def Let_def split: sum.splits option.splits prod.splits if_splits)
qed

lemma implement_judge_taken1:
  assumes "reads_in (implement_judge ops env i s) t (Inr x)"
  shows "\<exists>r. takeable_status i \<and> claimed_by i = None \<and> item_route env i = Inr (Some r) \<and>
    author_reason (ie_trust env) i = None"
proof -
  have 1: "takeable_status i" using assms by (rule contrapos_pp) (simp add: implement_judge_def)
  have 2: "claimed_by i = None"
    using assms 1 by (cases "claimed_by i") (simp_all add: implement_judge_def)
  obtain r where 3: "item_route env i = Inr (Some r)"
  proof (cases "item_route env i")
    case (Inr q)
    then show thesis using that assms 1 2 by (cases q) (simp_all add: implement_judge_def)
  qed (use assms 1 2 in \<open>simp add: implement_judge_def\<close>)
  have 4: "author_reason (ie_trust env) i = None"
    using assms 1 2 3 by (cases "author_reason (ie_trust env) i") (simp_all add: implement_judge_def)
  from 1 2 3 4 show ?thesis by blast
qed

lemma judge_route_taken:
  assumes "item_route env i = Inr (Some r)" "reads_in (judge_route env i r retry s1) t (Inr x)"
  shows "im_item x = i \<and> im_retry x = retry \<and> target_checked env t x"
proof (cases r)
  case (Staged branch n)
  then have "reads_in (staged_target env i branch n retry s1) t (Inr x)" using assms(2) by (simp add: judge_route_def)
  from staged_target_taken[OF this] show ?thesis by simp
next
  case (Planned folder)
  from assms(1)[unfolded this] have "dict_get (pc_active (ie_planned env)) (it_number i) = Some folder"
    by (rule planned_route)
  moreover have "reads_in (planned_target env i folder retry s1) t (Inr x)"
    using assms(2) Planned by (simp add: judge_route_def)
  ultimately show ?thesis using planned_target_taken[of env i folder retry s1 t x] by simp
qed

lemma implement_judge_taken:
  assumes "reads_in (implement_judge ops env i s) t (Inr x)"
  shows "im_item x = i \<and> target_checked env t x \<and> takeable_status i \<and> claimed_by i = None \<and>
    is_trusted (ie_trust env) i \<and> is_approved (ie_trust env) i \<and>
    (if falsy (record_get (it_job_record i) stopped_key) then \<not> im_retry x
     else im_retry x \<and> (\<exists>s1 comments. reads_in (so_comments_on ops s1 (it_number i)) t comments \<and>
            retry_asked comments))"
proof -
  from implement_judge_taken1[OF assms] obtain r where r: "takeable_status i" "claimed_by i = None" "item_route env i = Inr (Some r)"
    "author_reason (ie_trust env) i = None" by blast
  have trust: "is_trusted (ie_trust env) i" "is_approved (ie_trust env) i"
    using r(4) by (auto simp: author_reason_def split: if_splits)
  show ?thesis
  proof (cases "falsy (record_get (it_job_record i) stopped_key)")
    case True
    then have "reads_in (judge_route env i r False s) t (Inr x)"
      using assms r by (simp add: implement_judge_def)
    from judge_route_taken[OF r(3) this] show ?thesis using r trust True by auto
  next
    case False
    let ?stopped = "record_get (it_job_record i) stopped_key"
    have "reads_in (and_then (so_comments_on ops s (it_number i)) (\<lambda>s comments.
        if \<not> retry_asked comments then Done (s, Inr (Inl (StoppedAt (given_text ?stopped))))
        else judge_route env i r True s)) t (Inr x)"
      using assms r False by (simp add: implement_judge_def)
    then obtain s1 comments where c: "reads_in (so_comments_on ops s (it_number i)) t comments"
      "reads_in (if \<not> retry_asked comments then Done (s1, Inr (Inl (StoppedAt (given_text ?stopped))))
        else judge_route env i r True s1) t (Inr x)"
      by (rule reads_in_and_then)
    have asked: "retry_asked comments" using c(2) by (rule contrapos_pp) simp
    with c(2) have "reads_in (judge_route env i r True s1) t (Inr x)" by simp
    from judge_route_taken[OF r(3) this] show ?thesis using asked c(1) r trust False by auto
  qed
qed

text \<open>An Item of a walk over the passes comes from a pass, and no pass before it took one.\<close>

lemma named_items_named:
  assumes "runs (named_items ops fs s) t (s', Inr named)"
  shows "\<forall>i \<in> set named. it_state i = StateOpen \<and> matches_filter fs i"
proof -
  from assms[unfolded named_items_def] obtain items where
    "runs (open_items ops s) t (s', Inr items)" "named = filter (matches_filter fs) items"
    by (rule runs_then_done)
  with open_items_open(1)[OF this(1)] show ?thesis by auto
qed

text \<open>Each Item that a pass names is left out with a reason.\<close>

definition all_left ::
  "('s, 'q, 'a) store_ops \<Rightarrow> ('q, 'a) trace \<Rightarrow> stage_filter \<Rightarrow> left_out list \<Rightarrow> bool" where
  "all_left ops t fs left =
     (\<exists>s1 named. reads_in (named_items ops fs s1) t named \<and>
        (\<forall>i \<in> set named. \<exists>l \<in> set left. lo_number l = it_number i))"

lemma all_left_mono: "all_left ops u fs left \<Longrightarrow> set u \<subseteq> set t \<Longrightarrow> all_left ops t fs left"
  unfolding all_left_def by (meson reads_in_mono)

lemma verdict_left_all:
  "length vs = length is \<Longrightarrow> verdict_taken vs = [] \<Longrightarrow> i \<in> set is \<Longrightarrow> \<exists>l \<in> set (verdict_left is vs). lo_number l = it_number i"
proof (induction vs arbitrary: "is")
  case (Cons v vs)
  then obtain j js where js: "is = j # js" by (cases "is") auto
  then obtain why where "v = Inl why" using Cons.prems(2) by (cases v) auto
  with Cons js show ?case by (auto simp: leave_out_def)
qed simp

lemma walk_passes_kept:
  assumes "runs (walk_passes ops env limit probe passes p s) t (s', Inr p')" and "wk_taken (pw_walk p) \<noteq> []"
  shows "wk_taken (pw_walk p') = wk_taken (pw_walk p) \<and> pw_effort p' = pw_effort p \<and>
    set (wk_left (pw_walk p)) \<subseteq> set (wk_left (pw_walk p'))"
  using assms
proof (induction passes arbitrary: p s t)
  case (Cons e passes)
  obtain effort fs where e: "e = (effort, fs)" by (cases e)
  from Cons.prems(1)[unfolded e walk_passes.simps] obtain t1 t2 s1 named where
    "runs (let held = pw_walk p in
       if wk_taken held \<noteq> [] then
         and_then (walk_named named (implement_judge ops env) 0 probe s1) (\<lambda>s w.
           walk_passes ops env limit probe passes
             (p\<lparr>pw_walk := held\<lparr>wk_left := wk_left held @ wk_left w @ later_effort (pw_effort p) named w\<rparr>\<rparr>) s)
       else
         and_then (walk_named named (implement_judge ops env) limit probe s1) (\<lambda>s w.
           let left = wk_left held @ wk_left w in
           walk_passes ops env limit probe passes
             (if wk_taken w \<noteq> [] then \<lparr>pw_walk = w\<lparr>wk_left := left\<rparr>, pw_effort = effort\<rparr>
              else p\<lparr>pw_walk := held\<lparr>wk_left := left\<rparr>\<rparr>) s)) t2 (s', Inr p')"
    by (rule and_then_reads)
  then have "runs (and_then (walk_named named (implement_judge ops env) 0 probe s1) (\<lambda>s w.
           walk_passes ops env limit probe passes
             (p\<lparr>pw_walk := (pw_walk p)\<lparr>wk_left := wk_left (pw_walk p) @ wk_left w @
                later_effort (pw_effort p) named w\<rparr>\<rparr>) s)) t2 (s', Inr p')"
    using Cons.prems(2) by (simp add: Let_def)
  then obtain t3 t4 s2 w where
    "runs (walk_passes ops env limit probe passes
       (p\<lparr>pw_walk := (pw_walk p)\<lparr>wk_left := wk_left (pw_walk p) @ wk_left w @
          later_effort (pw_effort p) named w\<rparr>\<rparr>) s2) t4 (s', Inr p')"
    by (rule and_then_reads)
  from Cons.IH[OF this] Cons.prems(2) show ?case by auto
qed simp

lemma walk_passes_left:
  assumes "runs (walk_passes ops env limit probe passes p s) t (s', Inr p')"
  shows "set (wk_left (pw_walk p)) \<subseteq> set (wk_left (pw_walk p'))"
  using assms
proof (induction passes arbitrary: p s t)
  case (Cons e passes)
  obtain effort fs where e: "e = (effort, fs)" by (cases e)
  show ?case
  proof (cases "wk_taken (pw_walk p) = []")
    case True
    with Cons.prems obtain u v w s1 where
      "runs (walk_passes ops env limit probe passes
         (if wk_taken w \<noteq> [] then \<lparr>pw_walk = w\<lparr>wk_left := wk_left (pw_walk p) @ wk_left w\<rparr>, pw_effort = effort\<rparr>
          else p\<lparr>pw_walk := (pw_walk p)\<lparr>wk_left := wk_left (pw_walk p) @ wk_left w\<rparr>\<rparr>) s1) v (s', Inr p')"
      by (auto simp: e Let_def runs_and_then)
    from Cons.IH[OF this] show ?thesis by (auto split: if_splits)
  next
    case False
    from walk_passes_kept[OF Cons.prems False] show ?thesis by simp
  qed
qed simp


lemma walk_named_verdicts:
  assumes "runs (walk_named named judge limit None s) t (s', Inr w)"
  shows "\<exists>vs. length vs \<le> length named \<and> wk_taken w = verdict_taken vs \<and>
    wk_left w = verdict_left named vs \<and> wk_beyond w = [] \<and>
    (length vs = length named \<or> int (length (wk_taken w)) \<ge> limit) \<and>
    (\<forall>k < length vs. \<exists>s1. reads_in (judge (named ! k) s1) t (vs ! k))"
  using walk_from_verdicts[OF assms[unfolded walk_named_def]] by (simp add: no_walk_def)

lemma walk_passes_taken:
  assumes "runs (walk_passes ops env limit None passes p s) t (s', Inr p')" and "wk_taken (pw_walk p) = []"
    and "x \<in> set (wk_taken (pw_walk p'))"
  shows "\<exists>k < length passes. pw_effort p' = fst (passes ! k) \<and>
    it_state (im_item x) = StateOpen \<and> matches_filter (snd (passes ! k)) (im_item x) \<and>
    (\<exists>s1. reads_in (implement_judge ops env (im_item x) s1) t (Inr x)) \<and>
    int (length (wk_taken (pw_walk p'))) \<le> limit \<and>
    (\<forall>j < k. all_left ops t (snd (passes ! j)) (wk_left (pw_walk p')))"
  using assms
proof (induction passes arbitrary: p s t)
  case (Cons e passes)
  obtain effort fs where e: "e = (effort, fs)" by (cases e)
  from Cons.prems(1)[unfolded e walk_passes.simps] obtain t1 t2 s1 named where a: "t = t1 @ t2"
    "runs (named_items ops fs s) t1 (s1, Inr named)"
    "runs (let held = pw_walk p in
       if wk_taken held \<noteq> [] then
         and_then (walk_named named (implement_judge ops env) 0 None s1) (\<lambda>s w.
           walk_passes ops env limit None passes
             (p\<lparr>pw_walk := held\<lparr>wk_left := wk_left held @ wk_left w @ later_effort (pw_effort p) named w\<rparr>\<rparr>) s)
       else
         and_then (walk_named named (implement_judge ops env) limit None s1) (\<lambda>s w.
           let left = wk_left held @ wk_left w in
           walk_passes ops env limit None passes
             (if wk_taken w \<noteq> [] then \<lparr>pw_walk = w\<lparr>wk_left := left\<rparr>, pw_effort = effort\<rparr>
              else p\<lparr>pw_walk := held\<lparr>wk_left := left\<rparr>\<rparr>) s)) t2 (s', Inr p')"
    "reads_in (named_items ops fs s) t named"
    by (rule and_then_reads)
  let ?next = "\<lambda>w. if wk_taken w \<noteq> []
    then \<lparr>pw_walk = w\<lparr>wk_left := wk_left (pw_walk p) @ wk_left w\<rparr>, pw_effort = effort\<rparr>
    else p\<lparr>pw_walk := (pw_walk p)\<lparr>wk_left := wk_left (pw_walk p) @ wk_left w\<rparr>\<rparr>"
  from a(3) Cons.prems(2) have "runs (and_then (walk_named named (implement_judge ops env) limit None s1) (\<lambda>s w.
        walk_passes ops env limit None passes (?next w) s)) t2 (s', Inr p')"
    by (simp add: Let_def)
  then obtain t3 t4 s2 w where b: "t2 = t3 @ t4"
    "runs (walk_named named (implement_judge ops env) limit None s1) t3 (s2, Inr w)"
    "runs (walk_passes ops env limit None passes (?next w) s2) t4 (s', Inr p')"
    by (rule and_then_reads)
  have sub: "set t3 \<subseteq> set t" "set t4 \<subseteq> set t" using a(1) b(1) by auto
  note walked = b(2)[unfolded walk_named_def]
  show ?case
  proof (cases "wk_taken w = []")
    case True
    from walk_named_verdicts[OF b(2)] obtain vs where "wk_taken w = verdict_taken vs"
      and left_out: "wk_left w = verdict_left named vs"
      and ends: "length vs = length named \<or> int (length (wk_taken w)) \<ge> limit"
      by (elim exE conjE) (rule that)
    with True have vs: "verdict_taken vs = []" "wk_left w = verdict_left named vs"
      "length vs = length named \<or> limit \<le> 0" by simp_all
    have "wk_taken (pw_walk (?next w)) = []" using True Cons.prems(2) by simp
    from Cons.IH[OF b(3) this Cons.prems(3)] obtain k where walk: "k < length passes \<and>
        pw_effort p' = fst (passes ! k) \<and>
        it_state (im_item x) = StateOpen \<and> matches_filter (snd (passes ! k)) (im_item x) \<and>
        (\<exists>s1. reads_in (implement_judge ops env (im_item x) s1) t4 (Inr x)) \<and>
        int (length (wk_taken (pw_walk p'))) \<le> limit \<and>
        (\<forall>j < k. all_left ops t4 (snd (passes ! j)) (wk_left (pw_walk p')))" ..
    then have k: "k < length passes" "pw_effort p' = fst (passes ! k)"
      "it_state (im_item x) = StateOpen" "matches_filter (snd (passes ! k)) (im_item x)"
      "\<exists>s1. reads_in (implement_judge ops env (im_item x) s1) t4 (Inr x)"
      "int (length (wk_taken (pw_walk p'))) \<le> limit"
      "\<forall>j < k. all_left ops t4 (snd (passes ! j)) (wk_left (pw_walk p'))"
      by - (elim conjE, assumption)+
    have "0 < limit" using k(6) Cons.prems(3) by (cases "wk_taken (pw_walk p')") auto
    then have full: "length vs = length named" using vs(3) by simp
    have kept: "set (wk_left (pw_walk (?next w))) \<subseteq> set (wk_left (pw_walk p'))"
      using walk_passes_left[OF b(3)] .
    have left: "set (verdict_left named vs) \<subseteq> set (wk_left (pw_walk p'))"
      using kept True unfolding vs(2) by (simp add: subset_iff)
    have "\<forall>i \<in> set named. \<exists>l \<in> set (wk_left (pw_walk p')). lo_number l = it_number i"
      using verdict_left_all[OF full vs(1)] left by blast
    then have first: "all_left ops t fs (wk_left (pw_walk p'))"
      using a(4) unfolding all_left_def by blast
    have "all_left ops t (snd ((e # passes) ! j)) (wk_left (pw_walk p'))" if "j < Suc k" for j
    proof (cases j)
      case 0
      then show ?thesis using first e by simp
    next
      case (Suc m)
      with that have "all_left ops t4 (snd (passes ! m)) (wk_left (pw_walk p'))" using k(7) by simp
      from all_left_mono[OF this sub(2)] show ?thesis using Suc by simp
    qed
    moreover have "\<exists>s1. reads_in (implement_judge ops env (im_item x) s1) t (Inr x)"
      using k(5) sub(2) by (blast intro: reads_in_mono)
    ultimately show ?thesis using k(1-4,6) by (intro exI[of _ "Suc k"]) simp
  next
    case False
    with walk_passes_kept[OF b(3)] have kept: "wk_taken (pw_walk p') = wk_taken w" "pw_effort p' = effort" by auto
    with Cons.prems(3) have "x \<in> set (wk_taken w)" by simp
    from walk_from_taken[OF walked this] obtain i s3 where i: "i \<in> set named"
      "reads_in (implement_judge ops env i s3) t3 (Inr x)" by (auto simp: no_walk_def)
    have "im_item x = i" using implement_judge_taken[OF i(2)] by simp
    moreover have "int (length (wk_taken w)) \<le> limit"
      using walk_from_limit[OF walked] False by (auto simp: no_walk_def max_def split: if_splits)
    moreover have "reads_in (implement_judge ops env i s3) t (Inr x)" using i(2) sub(1) by (rule reads_in_mono)
    moreover have "it_state i = StateOpen" "matches_filter fs i" using named_items_named[OF a(2)] i(1) by simp_all
    ultimately show ?thesis
      using kept e by (intro exI[of _ 0]) (simp, blast)
  qed
qed simp

text \<open>What a walk over the passes takes, with a probe or without one.\<close>

lemma walk_passes_judged:
  assumes "runs (walk_passes ops env limit probe passes p s) t (s', Inr p')"
    and "x \<in> set (wk_taken (pw_walk p'))"
  shows "x \<in> set (wk_taken (pw_walk p)) \<or>
    (it_state (im_item x) = StateOpen \<and> (\<exists>s1. reads_in (implement_judge ops env (im_item x) s1) t (Inr x)))"
  using assms
proof (induction passes arbitrary: p s t)
  case (Cons e passes)
  obtain effort fs where e: "e = (effort, fs)" by (cases e)
  show ?case
  proof (cases "wk_taken (pw_walk p) = []")
    case False
    from walk_passes_kept[OF Cons.prems(1) this] Cons.prems(2) show ?thesis by simp
  next
    case True
    from Cons.prems(1)[unfolded e walk_passes.simps] obtain t1 t2 s1 named where a: "t = t1 @ t2"
      "runs (named_items ops fs s) t1 (s1, Inr named)"
      "runs (let held = pw_walk p in
         if wk_taken held \<noteq> [] then
           and_then (walk_named named (implement_judge ops env) 0 probe s1) (\<lambda>s w.
             walk_passes ops env limit probe passes
               (p\<lparr>pw_walk := held\<lparr>wk_left := wk_left held @ wk_left w @ later_effort (pw_effort p) named w\<rparr>\<rparr>) s)
         else
           and_then (walk_named named (implement_judge ops env) limit probe s1) (\<lambda>s w.
             let left = wk_left held @ wk_left w in
             walk_passes ops env limit probe passes
               (if wk_taken w \<noteq> [] then \<lparr>pw_walk = w\<lparr>wk_left := left\<rparr>, pw_effort = effort\<rparr>
                else p\<lparr>pw_walk := held\<lparr>wk_left := left\<rparr>\<rparr>) s)) t2 (s', Inr p')"
      by (rule and_then_reads)
    let ?next = "\<lambda>w. if wk_taken w \<noteq> []
      then \<lparr>pw_walk = w\<lparr>wk_left := wk_left (pw_walk p) @ wk_left w\<rparr>, pw_effort = effort\<rparr>
      else p\<lparr>pw_walk := (pw_walk p)\<lparr>wk_left := wk_left (pw_walk p) @ wk_left w\<rparr>\<rparr>"
    from a(3) True have "runs (and_then (walk_named named (implement_judge ops env) limit probe s1) (\<lambda>s w.
          walk_passes ops env limit probe passes (?next w) s)) t2 (s', Inr p')"
      by (simp add: Let_def)
    then obtain t3 t4 s2 w where b: "t2 = t3 @ t4"
      "runs (walk_named named (implement_judge ops env) limit probe s1) t3 (s2, Inr w)"
      "runs (walk_passes ops env limit probe passes (?next w) s2) t4 (s', Inr p')"
      by (rule and_then_reads)
    have sub: "set t3 \<subseteq> set t" "set t4 \<subseteq> set t" using a(1) b(1) by auto
    from Cons.IH[OF b(3) Cons.prems(2)] consider "x \<in> set (wk_taken w)"
      | s3 where "it_state (im_item x) = StateOpen" "reads_in (implement_judge ops env (im_item x) s3) t4 (Inr x)"
      using True by (auto split: if_splits)
    then show ?thesis
    proof cases
      case 1
      from walk_from_taken[OF b(2)[unfolded walk_named_def] this] obtain i s3 where i: "i \<in> set named"
        "reads_in (implement_judge ops env i s3) t3 (Inr x)" by (auto simp: no_walk_def)
      moreover have "im_item x = i" using implement_judge_taken[OF i(2)] by simp
      moreover have "reads_in (implement_judge ops env i s3) t (Inr x)" using i(2) sub(1) by (rule reads_in_mono)
      ultimately show ?thesis using named_items_named[OF a(2)] by blast
    next
      case 2
      have "reads_in (implement_judge ops env (im_item x) s3) t (Inr x)" using 2(2) sub(2) by (rule reads_in_mono)
      with 2(1) show ?thesis by blast
    qed
  qed
qed simp

lemma plan_implement_walk:
  assumes "runs (plan_implement ops env efforts fs None limit why probe s) t (s', Inr plan)"
  obtains t1 s1 p where
    "runs (walk_passes ops env limit probe (effort_passes fs efforts) \<lparr>pw_walk = no_walk, pw_effort = []\<rparr> s) t1 (s1, Inr p)"
    "set t1 \<subseteq> set t" "ip_selected plan = wk_taken (pw_walk p)" "ip_left plan = wk_left (pw_walk p)"
    "ip_effort plan = pw_effort p"
proof -
  from assms[unfolded plan_implement_def option.case] obtain t1 t2 s1 p where a: "t = t1 @ t2"
    "runs (walk_passes ops env limit probe (effort_passes fs efforts) \<lparr>pw_walk = no_walk, pw_effort = []\<rparr> s) t1 (s1, Inr p)"
    "runs (and_then (if why then unmatched_items ops (effort_filter fs efforts) s1 else told [] s1) (\<lambda>s unmatched.
          Done (s, Inr
            \<lparr>ip_selected = wk_taken (pw_walk p), ip_left = wk_left (pw_walk p), ip_unmatched = unmatched,
             ip_beyond = wk_beyond (pw_walk p), ip_effort = pw_effort p,
             ip_fallback = (pw_effort p \<noteq> [] \<and> dict_get fs ''effort'' = None \<and> pw_effort p \<noteq> hd efforts)\<rparr>)))
       t2 (s', Inr plan)"
    by (rule and_then_reads)
  from a(3) obtain unmatched where "plan =
            \<lparr>ip_selected = wk_taken (pw_walk p), ip_left = wk_left (pw_walk p), ip_unmatched = unmatched,
             ip_beyond = wk_beyond (pw_walk p), ip_effort = pw_effort p,
             ip_fallback = (pw_effort p \<noteq> [] \<and> dict_get fs ''effort'' = None \<and> pw_effort p \<noteq> hd efforts)\<rparr>"
    by (rule runs_then_done)
  with that[OF a(2)] a(1) show ?thesis by simp
qed

lemma implement_named_taken:
  assumes "runs (implement_named ops env n s) t (s', Inr plan)" and "x \<in> set (ip_selected plan)"
  shows "it_state (im_item x) = StateOpen \<and> (\<exists>s1. reads_in (implement_judge ops env (im_item x) s1) t (Inr x))"
proof -
  let ?plan = "\<lambda>taken left. \<lparr>ip_selected = taken, ip_left = left, ip_unmatched = [], ip_beyond = [],
                                ip_effort = [], ip_fallback = False\<rparr>"
  from assms(1)[unfolded implement_named_def Let_def] obtain t1 t2 s1 found where a: "t = t1 @ t2"
    "runs (case found of
          None \<Rightarrow> Done (s1, Inr (?plan [] [\<lparr>lo_number = n, lo_reason = NoItem, lo_title = []\<rparr>]))
        | Some i \<Rightarrow>
            if it_state i \<noteq> StateOpen then Done (s1, Inr (?plan [] [leave_out i ItemClosed]))
            else and_then (implement_judge ops env i s1) (\<lambda>s v. Done (s, Inr
              (case v of Inl why \<Rightarrow> ?plan [] [leave_out i why] | Inr x \<Rightarrow> ?plan [x] []))))
       t2 (s', Inr plan)"
    by (rule and_then_reads)
  have "found \<noteq> None"
  proof
    assume "found = None"
    with a(2) have "ip_selected plan = []" by simp
    with assms(2) show False by simp
  qed
  then obtain i where i: "found = Some i" by blast
  have i: "found = Some i" "it_state i = StateOpen"
  proof (rule i, rule ccontr)
    assume "it_state i \<noteq> StateOpen"
    with a(2)[unfolded i] have "ip_selected plan = []" by simp
    with assms(2) show False by simp
  qed
  from a(2)[unfolded i(1)] i(2) have "runs (and_then (implement_judge ops env i s1) (\<lambda>s v. Done (s, Inr
              (case v of Inl why \<Rightarrow> ?plan [] [leave_out i why] | Inr x \<Rightarrow> ?plan [x] [])))) t2 (s', Inr plan)"
    by simp
  then obtain v where v: "runs (implement_judge ops env i s1) t2 (s', Inr v)"
    "plan = (case v of Inl why \<Rightarrow> ?plan [] [leave_out i why] | Inr x \<Rightarrow> ?plan [x] [])"
    by (rule runs_then_done)
  then have x: "v = Inr x" using assms(2) by (cases v) auto
  have judged: "reads_in (implement_judge ops env i s1) t (Inr x)"
    by (rule reads_inI[OF v(1)[unfolded x]]) (simp add: a(1))
  moreover have "im_item x = i" using implement_judge_taken[OF judged] by simp
  ultimately show ?thesis using i(2) by blast
qed

lemma plan_implement_taken:
  assumes "runs (plan_implement ops env efforts fs number limit why probe s) t (s', Inr plan)"
    and "x \<in> set (ip_selected plan)"
  shows "it_state (im_item x) = StateOpen \<and> (\<exists>s1. reads_in (implement_judge ops env (im_item x) s1) t (Inr x))"
proof (cases number)
  case (Some n)
  from assms(1)[unfolded Some plan_implement_def option.case] have "runs (implement_named ops env n s) t (s', Inr plan)" .
  from implement_named_taken[OF this assms(2)] show ?thesis .
next
  case None
  from plan_implement_walk[OF assms(1)[unfolded None]] obtain t1 s1 p where p:
    "runs (walk_passes ops env limit probe (effort_passes fs efforts) \<lparr>pw_walk = no_walk, pw_effort = []\<rparr> s) t1 (s1, Inr p)"
    "set t1 \<subseteq> set t" "ip_selected plan = wk_taken (pw_walk p)" "ip_left plan = wk_left (pw_walk p)"
    "ip_effort plan = pw_effort p" .
  have "x \<in> set (wk_taken (pw_walk p))" using assms(2) p(3) by simp
  from walk_passes_judged[OF p(1) this] obtain s2 where j: "it_state (im_item x) = StateOpen"
    "reads_in (implement_judge ops env (im_item x) s2) t1 (Inr x)"
    by (auto simp: no_walk_def)
  have "reads_in (implement_judge ops env (im_item x) s2) t (Inr x)" using j(2) p(2) by (rule reads_in_mono)
  with j(1) show ?thesis by blast
qed

section \<open>A reference that is not a number\<close>

lemma map_each_error:
  assumes "\<And>y e. f y = Inl e \<Longrightarrow> e = e0" and "x \<in> set xs" and "f x = Inl e0"
  shows "map_each f xs = Inl e0"
  using assms(2)
proof (induction xs)
  case (Cons y ys)
  show ?case
  proof (cases "f y")
    case (Inl e)
    with assms(1)[OF Inl] show ?thesis by simp
  next
    case (Inr z)
    with assms(3) Cons show ?thesis by auto
  qed
qed simp

lemma int_of_digits_error: "int_of_digits d = Inl e \<longleftrightarrow> \<not> list_all is_digit d \<and> e = ValueError"
  by (auto simp: int_of_digits_def)

lemma body_dependencies_error:
  assumes "w \<in> set (concat (map split_space (texts body)))"
    and "strip_chars reference_punctuation w = CHR ''#'' # d" and "text_isdigit d" and "\<not> list_all is_digit d"
  shows "body_dependencies texts body = Inl ValueError"
  unfolding body_dependencies_def
proof (rule map_each_error)
  show "\<And>y e. int_of_digits y = Inl e \<Longrightarrow> e = ValueError" by (simp add: int_of_digits_error)
  show "int_of_digits d = Inl ValueError" using assms(4) by (simp add: int_of_digits_error)
  have "tl (strip_chars reference_punctuation w) = d" "prefix ''#'' (strip_chars reference_punctuation w)"
    using assms(2) by simp_all
  then show "d \<in> set (map tl (filter (\<lambda>w. prefix ''#'' w \<and> text_isdigit (tl w))
      (map (strip_chars reference_punctuation) (concat (map split_space (texts body))))))"
    using assms(1,3) by (force simp del: set_concat)
qed

lemma and_then_Done [simp]: "and_then (Done (s, Inr x)) f = f s x" "and_then (Done (s, Inl e)) f = Done (s, Inl e)"
  by (simp_all add: and_then_def)

end
