(* ===== verification/SelectionProps.thy ===== *)
theory SelectionProps
  imports SelectionFacts
begin

text \<open>
  What the selections of the stage and the implement job promise, over any store and whatever git and
  GitHub answer: a taken Item passed every rule on what the run read, nothing is passed over without a
  reason, a later effort waits for an earlier one, and the branch of a target names its issue.
\<close>

section \<open>A sample run\<close>

text \<open>A store of two open Items; git and the pull request answer what lets an Item pass.\<close>

definition sample_stage_item :: "int \<Rightarrow> string option \<Rightarrow> string list \<Rightarrow> item" where
  "sample_stage_item n who labels =
     \<lparr>it_number = n, it_title = ''fix: a'', it_url = ''u'', it_body = [], it_state = StateOpen,
      it_state_reason = None, it_labels = labels, it_milestone = None, it_author_association = Some ''MEMBER'',
      it_author_login = Some ''ada'', it_sub_issues = 0, it_updated_at = None, it_comments = 0,
      it_status = Some ''Ready'', it_priority = Some ''P1-High'', it_value = None, it_effort = None,
      it_owner = who, it_job_record = []\<rparr>"

definition sample_items :: "item list" where
  "sample_items = [sample_stage_item 8 None [''effort/s''], sample_stage_item 7 (Some ''Human'') [''effort/xs'']]"

definition sample_reads :: "(unit, string, string) store_ops" where
  "sample_reads =
     \<lparr>so_item = (\<lambda>s n. Ask ''item'' (\<lambda>a. Done (s, Inr (find (\<lambda>i. it_number i = n) sample_items)))),
      so_items = (\<lambda>s. Ask ''items'' (\<lambda>a. Done (s, Inr sample_items))),
      so_set_field = (\<lambda>s i f v r. Done (s, Inl ValueUnknown)), so_set_marks = (\<lambda>s i r. Done (s, Inl ValueUnknown)),
      so_comments_on = (\<lambda>s n. Done (s, Inr [])), so_comment = (\<lambda>s n b. Done (s, Inl ValueUnknown))\<rparr>"

definition sample_trust :: trust_settings where
  "sample_trust = \<lparr>ts_bot = Some ''app[bot]'', ts_digest = (\<lambda>s. s)\<rparr>"

definition sample_stage_env :: "(string \<Rightarrow> string list) \<Rightarrow> (unit, string, string) stage_env" where
  "sample_stage_env texts =
     \<lparr>sg_trust = sample_trust, sg_planned = \<lparr>pc_active = [], pc_archived = []\<rparr>, sg_limit = 5, sg_now = 100,
      sg_retry = 10, sg_rejected = [], sg_dependency_texts = texts, sg_time = (\<lambda>_. None),
      sg_rejection = (\<lambda>_. None), sg_redacted = (\<lambda>s. s),
      sg_holder = (\<lambda>n b s. Ask b (\<lambda>a. Done (s, Inr None))), sg_path_changed = (\<lambda>p s. Done (s, Inr None))\<rparr>"

definition sample_implement_env :: "(unit, string, string) implement_env" where
  "sample_implement_env =
     \<lparr>ie_trust = sample_trust,
      ie_planned = \<lparr>pc_active = [(8, ''8-a''), (7, ''7-a'')], pc_archived = []\<rparr>,
      ie_default = ''main'', ie_pushed = [],
      ie_ops = \<lparr>po_holder = (\<lambda>n b s. Ask b (\<lambda>a. Done (s, Inr None))),
                po_local_holder = (\<lambda>n s. Done (s, Inr None)), po_stray = (\<lambda>b s. Done (s, Inr None)),
                po_authors = (\<lambda>b s. Done (s, Inr [])), po_tasks = (\<lambda>f s. Done (s, Inr [True, False])),
                po_tree = (\<lambda>c s. Done (s, Inr [''openspec/changes/8-a/tasks.md''])),
                po_plans = (\<lambda>c s. Done (s, Inr \<lparr>pc_active = [], pc_archived = []\<rparr>)),
                po_gates = (\<lambda>c fs i s. Done (s, Inr (GateProblems []))),
                po_pull = (\<lambda>n s. Done (s, Inr (''open'', True)))\<rparr>\<rparr>"

lemma sample_stage_run:
  obtains s' t w x where
    "runs (select_stageable sample_reads (sample_stage_env (\<lambda>_. [])) [] 1 None None ()) t (s', Inr w)"
    "wk_taken w = [x]" "it_number (st_item x) = 8"
proof (rule answered_gives[where p = "select_stageable sample_reads (sample_stage_env (\<lambda>_. [])) [] 1 None None ()" and
      as = "[''a'', ''b'']" and
      P = "\<lambda>x t. case snd x of Inl e \<Rightarrow> False | Inr w \<Rightarrow> map (\<lambda>x. it_number (st_item x)) (wk_taken w) = [8]"])
  show "case answered (select_stageable sample_reads (sample_stage_env (\<lambda>_. [])) [] 1 None None ()) [''a'', ''b''] of
    None \<Rightarrow> False | Some (x, t) \<Rightarrow> (case snd x of Inl e \<Rightarrow> False | Inr w \<Rightarrow>
      map (\<lambda>x. it_number (st_item x)) (wk_taken w) = [8])"
    by code_simp
next
  fix r t
  assume r: "runs (select_stageable sample_reads (sample_stage_env (\<lambda>_. [])) [] 1 None None ()) t r"
    and "case snd r of Inl e \<Rightarrow> False | Inr w \<Rightarrow> map (\<lambda>x. it_number (st_item x)) (wk_taken w) = [8]"
  then obtain w x where "r = (fst r, Inr w)" "wk_taken w = [x]" "it_number (st_item x) = 8"
    by (cases r; cases "snd r") auto
  with that[of t "fst r" w x] r show thesis by simp
qed

lemma sample_implement_run:
  obtains s' t plan x where
    "runs (plan_implement sample_reads sample_implement_env [''xs'', ''s''] [] None 1 False None ()) t (s', Inr plan)"
    "ip_selected plan = [x]" "it_number (im_item x) = 8"
proof (rule answered_gives[where
      p = "plan_implement sample_reads sample_implement_env [''xs'', ''s''] [] None 1 False None ()" and
      as = "[''a'', ''b'', ''c'']" and
      P = "\<lambda>x t. case snd x of Inl e \<Rightarrow> False | Inr p \<Rightarrow> map (\<lambda>x. it_number (im_item x)) (ip_selected p) = [8]"])
  show "case answered (plan_implement sample_reads sample_implement_env [''xs'', ''s''] [] None 1 False None ())
      [''a'', ''b'', ''c''] of
    None \<Rightarrow> False | Some (x, t) \<Rightarrow> (case snd x of Inl e \<Rightarrow> False | Inr p \<Rightarrow>
      map (\<lambda>x. it_number (im_item x)) (ip_selected p) = [8])"
    by code_simp
next
  fix r t
  assume r: "runs (plan_implement sample_reads sample_implement_env [''xs'', ''s''] [] None 1 False None ()) t r"
    and "case snd r of Inl e \<Rightarrow> False | Inr p \<Rightarrow> map (\<lambda>x. it_number (im_item x)) (ip_selected p) = [8]"
  then obtain p x where "r = (fst r, Inr p)" "ip_selected p = [x]" "it_number (im_item x) = 8"
    by (cases r; cases "snd r") auto
  with that[of t "fst r" p x] r show thesis by simp
qed

section \<open>Properties\<close>



text \<open>
  C23: The branch of a target has the form of a branch and reads back to its issue: parsing it gives the
  type of the Item's title, the Item's number and the slug of its title.
\<close>

theorem stage_target_names_its_issue:
  assumes "runs (select_stageable ops env fs limit number probe s) t (s', Inr w)" and "x \<in> set (wk_taken w)"
    and "0 \<le> it_number (st_item x)"
  shows "\<exists>kind \<in> set branch_types. commit_type (it_title (st_item x)) = Some kind \<and>
    parse_branch (Some (target_branch x)) =
      Some \<lparr>bp_type = kind, bp_issue = it_number (st_item x), bp_slug = slug_of (it_title (st_item x))\<rparr>"
proof -
  from select_stageable_taken[OF assms(1,2)] obtain opened s1 where x: "x = target_of (st_item x)"
    "reads_in (stage_reason ops env (planned_count opened) (st_item x) (number \<noteq> None) s1) t None" by blast
  from title_target[OF stage_reason_none(2)[OF x(2)] assms(3)] x(1) show ?thesis by auto
qed

theorem stage_target_names_its_issue_witness:
  "\<exists>(x :: stage_target) kind. it_number (st_item x) = 8 \<and> parse_branch (Some (target_branch x)) =
      Some \<lparr>bp_type = kind, bp_issue = 8, bp_slug = slug_of (it_title (st_item x))\<rparr>"
proof -
  obtain s' t w x where r:
    "runs (select_stageable sample_reads (sample_stage_env (\<lambda>_. [])) [] 1 None None ()) t (s', Inr w)"
    "wk_taken w = [x]" "it_number (st_item x) = 8" by (rule sample_stage_run)
  have "x \<in> set (wk_taken w)" "0 \<le> it_number (st_item x)" using r(2,3) by simp_all
  from stage_target_names_its_issue[OF r(1) this] r(3) show ?thesis by auto
qed

text \<open>
  C24: A run without a number walks the open Items of its filter in the order of their priorities, and
  passes over none in silence: up to where it stopped it judged each of them, took the target or gave
  the reason, in order. It took at most its limit, and it stopped before the end only at the limit.
\<close>

theorem stage_walk_passes_over_nothing:
  assumes "runs (select_stageable ops env fs limit None None s) t (s', Inr w)"
  shows "\<exists>opened vs. let named = filter (matches_filter fs) opened in
    reads_in (open_items ops s) t opened \<and> sorted (map priority_order opened) \<and>
    wk_taken w = verdict_taken vs \<and> wk_left w = verdict_left named vs \<and>
    int (length (wk_taken w)) \<le> max limit 0 \<and> length vs \<le> length named \<and>
    (length vs < length named \<longrightarrow> int (length (wk_taken w)) \<ge> limit) \<and>
    (\<forall>k < length vs. \<exists>s1. reads_in (stage_verdict ops env (planned_count opened) (named ! k) s1) t (vs ! k))"
proof -
  from assms[unfolded select_stageable_def Let_def option.case] obtain t1 t2 s1 opened where a: "t = t1 @ t2"
    "runs (open_items ops s) t1 (s1, Inr opened)"
    "runs (walk_named (filter (matches_filter fs) opened) (stage_verdict ops env (planned_count opened)) limit None s1)
       t2 (s', Inr w)"
    "reads_in (open_items ops s) t opened"
    by (rule and_then_reads)
  let ?named = "filter (matches_filter fs) opened"
  from walk_named_verdicts[OF a(3)] obtain vs where vs: "length vs \<le> length ?named \<and>
      wk_taken w = verdict_taken vs \<and> wk_left w = verdict_left ?named vs \<and> wk_beyond w = [] \<and>
      (length vs = length ?named \<or> int (length (wk_taken w)) \<ge> limit) \<and>
      (\<forall>k < length vs. \<exists>s1. reads_in (stage_verdict ops env (planned_count opened) (?named ! k) s1) t2 (vs ! k))" ..
  have judged: "\<exists>s1. reads_in (stage_verdict ops env (planned_count opened) (?named ! k) s1) t (vs ! k)"
    if "k < length vs" for k
  proof -
    from vs that obtain s2 where "reads_in (stage_verdict ops env (planned_count opened) (?named ! k) s2) t2 (vs ! k)"
      by blast
    then have "reads_in (stage_verdict ops env (planned_count opened) (?named ! k) s2) t (vs ! k)"
      by (rule reads_in_mono) (simp add: a(1))
    then show ?thesis ..
  qed
  have "int (length (wk_taken w)) \<le> max limit 0"
    using walk_from_limit[OF a(3)[unfolded walk_named_def]] by (simp add: no_walk_def)
  then show ?thesis
    unfolding Let_def using a(4) open_items_open(2)[OF a(2)] vs judged
    by (intro exI[of _ opened] exI[of _ vs]) auto
qed

theorem stage_walk_passes_over_nothing_witness:
  "\<exists>t (w :: stage_target walk). (\<exists>x. wk_taken w = [x] \<and> it_number (st_item x) = 8) \<and>
     (\<exists>opened vs. reads_in (open_items sample_reads ()) t opened \<and> wk_taken w = verdict_taken vs \<and>
        wk_left w = verdict_left opened vs)"
proof -
  obtain s' t w x where r:
    "runs (select_stageable sample_reads (sample_stage_env (\<lambda>_. [])) [] 1 None None ()) t (s', Inr w)"
    "wk_taken w = [x]" "it_number (st_item x) = 8" by (rule sample_stage_run)
  have all: "filter (matches_filter []) is = is" for "is"
    by (simp add: matches_filter_def missed_family_def)
  from stage_walk_passes_over_nothing[OF r(1)] r(2,3) show ?thesis unfolding Let_def all by blast
qed

text \<open>
  C10: An Item that the implement job takes is open, in a Status that it may take and unclaimed, its
  author is trusted and its text approved; when an earlier run stopped on it, a comment that the run
  read asks for the retry. A staged plan has a branch that is still pushed, with commits of the App
  alone, and an open draft; a plan of the default branch has an open task and a branch that names the
  issue and that nobody holds; and the gates passed the plan at that commit, or it is archived there.
\<close>

theorem implemented_item_passed_every_rule:
  assumes "runs (plan_implement ops env efforts fs number limit why probe s) t (s', Inr plan)"
    and "x \<in> set (ip_selected plan)"
  shows "it_state (im_item x) = StateOpen \<and> takeable_status (im_item x) \<and> claimed_by (im_item x) = None \<and>
    is_trusted (ie_trust env) (im_item x) \<and> is_approved (ie_trust env) (im_item x) \<and>
    (im_retry x \<longleftrightarrow> \<not> falsy (record_get (it_job_record (im_item x)) stopped_key)) \<and>
    (im_retry x \<longrightarrow> (\<exists>s1 comments. reads_in (so_comments_on ops s1 (it_number (im_item x))) t comments \<and>
       retry_asked comments)) \<and>
    target_checked env t x"
proof -
  from plan_implement_taken[OF assms] obtain s1 where x: "it_state (im_item x) = StateOpen"
    "reads_in (implement_judge ops env (im_item x) s1) t (Inr x)" by blast
  from implement_judge_taken[OF x(2)] x(1) show ?thesis by (auto split: if_splits)
qed

theorem implemented_item_passed_every_rule_witness:
  "\<exists>t (x :: implement_target). it_number (im_item x) = 8 \<and> target_checked sample_implement_env t x \<and> claimed_by (im_item x) = None"
proof -
  obtain s' t plan x where r:
    "runs (plan_implement sample_reads sample_implement_env [''xs'', ''s''] [] None 1 False None ()) t (s', Inr plan)"
    "ip_selected plan = [x]" "it_number (im_item x) = 8" by (rule sample_implement_run)
  have "x \<in> set (ip_selected plan)" using r(2) by simp
  from implemented_item_passed_every_rule[OF r(1) this] r(3) show ?thesis by blast
qed

text \<open>
  C25: A later effort waits for an earlier one. In a run that names no Item and has no probe, every target
  of a plan comes from the pass over one effort, the plan names that effort and holds at most the limit,
  and each Item that an earlier pass named is left out with a reason.
\<close>

theorem later_effort_waits:
  assumes "runs (plan_implement ops env efforts fs None limit why None s) t (s', Inr plan)"
    and "x \<in> set (ip_selected plan)"
  shows "\<exists>k < length (effort_passes fs efforts). ip_effort plan = fst (effort_passes fs efforts ! k) \<and>
    matches_filter (snd (effort_passes fs efforts ! k)) (im_item x) \<and>
    int (length (ip_selected plan)) \<le> limit \<and>
    (\<forall>j < k. all_left ops t (snd (effort_passes fs efforts ! j)) (ip_left plan))"
proof -
  from plan_implement_walk[OF assms(1)] obtain t1 s1 p where p:
    "runs (walk_passes ops env limit None (effort_passes fs efforts) \<lparr>pw_walk = no_walk, pw_effort = []\<rparr> s) t1 (s1, Inr p)"
    "set t1 \<subseteq> set t" "ip_selected plan = wk_taken (pw_walk p)" "ip_left plan = wk_left (pw_walk p)"
    "ip_effort plan = pw_effort p" .
  have "x \<in> set (wk_taken (pw_walk p))" using assms(2) p(3) by simp
  then obtain k where k: "k < length (effort_passes fs efforts)" "pw_effort p = fst (effort_passes fs efforts ! k)"
    "matches_filter (snd (effort_passes fs efforts ! k)) (im_item x)"
    "int (length (wk_taken (pw_walk p))) \<le> limit"
    "\<forall>j < k. all_left ops t1 (snd (effort_passes fs efforts ! j)) (wk_left (pw_walk p))"
    using walk_passes_taken[OF p(1)] by (auto simp: no_walk_def)
  have "all_left ops t (snd (effort_passes fs efforts ! j)) (ip_left plan)" if "j < k" for j
    using all_left_mono[of ops t1 "snd (effort_passes fs efforts ! j)" "ip_left plan", OF _ p(2)] k(5) that p(4) by simp
  with k(1-4) p(3,5) show ?thesis by auto
qed

theorem later_effort_waits_witness:
  "\<exists>t (plan :: implement_plan) k. map (\<lambda>x. it_number (im_item x)) (ip_selected plan) = [8] \<and>
     k < length (effort_passes [] [''xs'', ''s'']) \<and> ip_effort plan = fst (effort_passes [] [''xs'', ''s''] ! k) \<and>
     (\<forall>j < k. all_left sample_reads t (snd (effort_passes [] [''xs'', ''s''] ! j)) (ip_left plan))"
proof -
  obtain s' t plan x where r:
    "runs (plan_implement sample_reads sample_implement_env [''xs'', ''s''] [] None 1 False None ()) t (s', Inr plan)"
    "ip_selected plan = [x]" "it_number (im_item x) = 8" by (rule sample_implement_run)
  have "x \<in> set (ip_selected plan)" using r(2) by simp
  from later_effort_waits[OF r(1) this] obtain k where "k < length (effort_passes [] [''xs'', ''s''])"
    "ip_effort plan = fst (effort_passes [] [''xs'', ''s''] ! k)"
    "\<forall>j < k. all_left sample_reads t (snd (effort_passes [] [''xs'', ''s''] ! j)) (ip_left plan)" by blast
  with r(2,3) show ?thesis by (intro exI[of _ t] exI[of _ plan] exI[of _ k]) simp
qed

text \<open>
  C40: A reference that ends in a superscript digit ends the whole selection. \<open>isdigit()\<close> takes it for a
  number and \<open>int()\<close> raises, so a walk that comes to an Item that passed the checks before and names
  such an issue under its heading of dependencies gives the error and no target, whatever it took.
\<close>

theorem superscript_reference_ends_the_walk:
  assumes "int (length (wk_taken w)) < limit" and "not_ready i = None" and "claimed_reason i = None"
    and "needs_split i = None" and "tracker i = None" and "author_reason (sg_trust env) i = None"
    and "title_reason i = None" and "v \<in> set (concat (map split_space (sg_dependency_texts env (it_body i))))"
    and "strip_chars reference_punctuation v = CHR ''#'' # d" and "text_isdigit d" and "\<not> list_all is_digit d"
  shows "walk_from (stage_verdict ops env waiting) limit probe (i # is) w s = Done (s, Inl (RecordUnread ValueError))"
  using assms(1-7) body_dependencies_error[of v "sg_dependency_texts env" "it_body i" d, OF assms(8-11)]
  by (simp add: stage_verdict_def stage_reason_def stage_checks_def told_def dependency_reason_def Let_def)

theorem superscript_reference_ends_the_walk_witness:
  "walk_from (stage_verdict sample_reads (sample_stage_env (\<lambda>_. [''- #12'' @ [CHR 0xB2]])) 0) 3 None
     (sample_stage_item 8 None [] # sample_items) no_walk () = Done ((), Inl (RecordUnread ValueError))"
  by (rule superscript_reference_ends_the_walk[where v = "''#12'' @ [CHR 0xB2]" and d = "''12'' @ [CHR 0xB2]"])
    code_simp+

end
