(* ===== verification/TitleForm.thy ===== *)
theory TitleForm
  imports BranchForm
begin

text \<open>
  The form of the title of a pull request, \<^verbatim>\<open>src/devops_cli/roadmap/pull_form.py\<close>: what
  \<open><type>(<scope>): <summary>\<close> is, the problems of a title, and the builder. A problem is a value with
  what its text repeats. Dashes and dots outside ASCII do not occur in a text here.
\<close>

section \<open>The parts of a title\<close>

record title_parts =
  tp_type :: string
  tp_scope :: "string option"
  tp_bang :: bool
  tp_summary :: string

definition is_small_letter :: "char \<Rightarrow> bool" where
  "is_small_letter c = (let n = of_char c :: nat in 97 \<le> n \<and> n \<le> 122)"

definition is_scope_char :: "char \<Rightarrow> bool" where
  "is_scope_char c = (c \<noteq> CHR ''('' \<and> c \<noteq> CHR '')'' \<and> \<not> is_space c)"

definition scope_then :: "string \<Rightarrow> (string option \<times> string) option" where
  \<comment> \<open>\<open>(?:\((?P<scope>[^()\s]+)\))?\<close> and what follows it; nothing else of the form begins with a bracket.\<close>
  "scope_then s =
     (if s = [] \<or> hd s \<noteq> CHR ''('' then Some (None, s)
      else let scope = takeWhile is_scope_char (tl s); s1 = drop (length scope) (tl s)
           in if scope \<noteq> [] \<and> s1 \<noteq> [] \<and> hd s1 = CHR '')'' then Some (Some scope, tl s1) else None)"

definition summary_then :: "string \<Rightarrow> (bool \<times> string) option" where
  \<comment> \<open>\<open>(?P<bang>!?): (?P<summary>\S.*)\<close> up to the end.\<close>
  "summary_then s =
     (let bang = (s \<noteq> [] \<and> hd s = CHR ''!''); s1 = (if bang then tl s else s); summary = drop 2 s1
      in if prefix '': '' s1 \<and> summary \<noteq> [] \<and> \<not> is_space (hd summary) \<and> CHR 0x0A \<notin> set summary
         then Some (bang, summary) else None)"

definition title_match :: "string \<Rightarrow> title_parts option" where
  "title_match s =
     (let kind = takeWhile is_small_letter s
      in if kind = [] then None
         else case scope_then (drop (length kind) s) of
             None \<Rightarrow> None
           | Some (scope, s1) \<Rightarrow>
               map_option (\<lambda>(bang, summary). \<lparr>tp_type = kind, tp_scope = scope, tp_bang = bang, tp_summary = summary\<rparr>)
                 (summary_then s1))"

section \<open>The problems of a title\<close>

datatype title_problem =
    TitleLines
  | TitleShape string
  | TitleKind string
  | TitleBreaking
  | TitleScope string
  | SummaryPlaceholder string
  | SummaryLong nat
  | SummaryCut
  | RepeatsWord string string
  | RepeatsNumber string string
  | IssueTitleKind string

definition scope_prefix :: string where "scope_prefix = ''scope/''"
definition release_scope :: string where "release_scope = ''main''"

definition declared_scopes :: "string list \<Rightarrow> string list" where
  "declared_scopes declared = map (less_prefix scope_prefix) (filter (prefix scope_prefix) declared) @ [release_scope]"

fun word_starts :: "bool \<Rightarrow> string \<Rightarrow> string list" where
  \<comment> \<open>What stands from the start of each word on; the flag says that a space stands before the text.\<close>
  "word_starts sp [] = []"
| "word_starts sp (c # s) =
     (if sp \<and> \<not> is_space c then (c # s) # word_starts False s else word_starts (is_space c) s)"

definition lead_here :: "string \<Rightarrow> (string \<times> string \<times> string) option" where
  \<comment> \<open>The word, the number and the rest of \<open>_LEAD\<close> at the start of a word.\<close>
  "lead_here s =
     (let word = takeWhile (\<lambda>c. is_word_char c \<or> c = CHR ''-'') s; s1 = drop (length word) s;
          s2 = dropWhile is_space s1; number = takeWhile is_digit (tl s2)
      in if word = [] \<or> is_digit (hd word) \<or> hd word = CHR ''_'' \<or> hd word = CHR ''-'' \<or> s1 = [] \<or>
            \<not> is_space (hd s1) \<or> s2 = [] \<or> hd s2 \<noteq> CHR ''#'' \<or> number = [] then None
         else Some (word, number, takeWhile (\<lambda>c. c \<noteq> CHR 0x0A)
                (dropWhile (\<lambda>c. is_space c \<or> c = CHR '':'' \<or> c = CHR ''-'') (drop (length number) (tl s2)))))"

definition title_lead :: "string \<Rightarrow> (string \<times> string \<times> string) option" where
  "title_lead s =
     (if s \<noteq> [] \<and> is_space (hd s) then None
      else case List.map_filter lead_here (word_starts True s) of [] \<Rightarrow> None | x # _ \<Rightarrow> Some x)"

fun names_number :: "string \<Rightarrow> string \<Rightarrow> bool" where
  "names_number n [] = False"
| "names_number n (c # s) =
     (let r = drop (length n) s
      in c = CHR ''#'' \<and> prefix n s \<and> (r = [] \<or> \<not> is_digit (hd r)) \<or> names_number n s)"

definition repeat_problems :: "string \<Rightarrow> title_problem list" where
  "repeat_problems summary =
     (case title_lead summary of
        None \<Rightarrow> []
      | Some (word, number, rest) \<Rightarrow>
          (let first = (case split_space rest of [] \<Rightarrow> [] | x # _ \<Rightarrow> strip_chars placeholder_edges x)
           in (if lower first = lower word then [RepeatsWord word number] else [])
            @ (if names_number number rest then [RepeatsNumber word number] else [])))"

definition summary_problems :: "string \<Rightarrow> title_problem list" where
  "summary_problems summary =
     (if is_placeholder summary then [SummaryPlaceholder (strip summary)]
      else (if summary_length summary > summary_max_chars then [SummaryLong (summary_length summary)] else [])
         @ (if suffix ''...'' (rstrip summary) then [SummaryCut] else [])
         @ repeat_problems summary)"

definition scope_problems :: "string option \<Rightarrow> string list option \<Rightarrow> title_problem list" where
  "scope_problems scope declared =
     (case (scope, declared) of
        (Some s, Some labels) \<Rightarrow> if s \<in> set (declared_scopes labels) then [] else [TitleScope s]
      | _ \<Rightarrow> [])"

definition title_problems :: "string \<Rightarrow> string list option \<Rightarrow> title_problem list" where
  "title_problems title declared =
     (let s = strip title
      in if CHR 0x0A \<in> set s \<or> CHR 0x0D \<in> set s then [TitleLines]
         else case title_match s of
             None \<Rightarrow> [TitleShape s]
           | Some p \<Rightarrow>
               (if tp_type p \<in> set branch_types then [] else [TitleKind (tp_type p)])
             @ (if tp_bang p then [TitleBreaking] else [])
             @ scope_problems (tp_scope p) declared
             @ summary_problems (tp_summary p))"

definition build_title :: "string \<Rightarrow> string \<Rightarrow> string list option \<Rightarrow> title_problem list + string" where
  "build_title issue_title summary declared =
     (case commit_type issue_title of
        None \<Rightarrow> Inl [IssueTitleKind (strip issue_title)]
      | Some kind \<Rightarrow>
          (let title = (case commit_scope issue_title of
                          Some scope \<Rightarrow> kind @ ''('' @ scope @ ''): '' @ strip summary
                        | None \<Rightarrow> kind @ '': '' @ strip summary);
               problems = title_problems title declared
           in if problems \<noteq> [] then Inl problems else Inr title))"

section \<open>How a built title reads back\<close>

lemma branch_kind:
  assumes "kind \<in> set branch_types"
  shows "kind \<noteq> []" "list_all is_small_letter kind" "less_suffix ''!'' kind = kind"
    "CHR ''('' \<notin> set kind" "CHR '':'' \<notin> set kind"
proof -
  have "list_all (\<lambda>k. k \<noteq> [] \<and> list_all is_small_letter k \<and> less_suffix ''!'' k = k \<and>
      CHR ''('' \<notin> set k \<and> CHR '':'' \<notin> set k) branch_types" by code_simp
  with assms show "kind \<noteq> []" "list_all is_small_letter kind" "less_suffix ''!'' kind = kind"
    "CHR ''('' \<notin> set kind" "CHR '':'' \<notin> set kind" by (auto simp: list_all_iff)
qed

lemma set_strip: "set (strip s) \<subseteq> set s"
  by (auto simp: strip_def rstrip_def lstrip_def dest!: set_dropWhileD)

lemma strip_edges:
  assumes "strip s \<noteq> []"
  shows "\<not> is_space (hd (strip s))" "\<not> is_space (last (strip s))"
proof -
  have r: "rstrip x \<noteq> [] \<Longrightarrow> \<not> is_space (last (rstrip x))" for x
    unfolding rstrip_def by (simp add: last_rev hd_dropWhile)
  then show "\<not> is_space (last (strip s))" using assms by (simp add: strip_def)
  have "rstrip (lstrip s) \<noteq> []" using assms by (simp add: strip_def)
  then have ne: "lstrip s \<noteq> []" by (auto simp: rstrip_def)
  have "prefix (rstrip x) x" for x
    unfolding rstrip_def by (metis dropWhile_eq_drop rev_drop rev_rev_ident take_is_prefix)
  then have "hd (rstrip (lstrip s)) = hd (lstrip s)"
    using \<open>rstrip (lstrip s) \<noteq> []\<close> by (metis hd_append2 prefix_def)
  then show "\<not> is_space (hd (strip s))" using ne by (simp add: strip_def lstrip_def hd_dropWhile)
qed

lemma strip_keeps: "s = [] \<or> \<not> is_space (hd s) \<and> \<not> is_space (last s) \<Longrightarrow> strip s = s"
  by (auto simp: strip_def rstrip_def lstrip_def dropWhile_eq_self_iff[THEN iffD2] hd_rev)

lemma strip_strip [simp]: "strip (strip s) = strip s"
  using strip_edges[of s] strip_keeps[of "strip s"] by blast

lemma strip_space_before: "strip (CHR '' '' # s) = strip s"
  by (simp add: strip_def lstrip_def is_space_def)

lemma set_past_char: "set (past_char c s) \<subseteq> set s"
  unfolding past_char_def using set_mono_suffix[OF suffix_tl] set_dropWhileD by fast

lemma scope_plain:
  assumes "commit_scope title = Some sc"
  shows "sc \<noteq> []" "strip sc = sc" "CHR '':'' \<notin> set sc"
proof -
  let ?head = "upto_char (CHR '':'') title"
  have "CHR ''('' \<in> set ?head"
    using assms by (rule contrapos_pp) (simp add: commit_scope_def Let_def strip_def lstrip_def rstrip_def)
  then have sc: "sc = strip (less_suffix '')'' (less_suffix ''!'' (past_char (CHR ''('') ?head)))" "sc \<noteq> []"
    using assms by (auto simp: commit_scope_def Let_def split: if_splits)
  show "sc \<noteq> []" "strip sc = sc" using sc by simp_all
  have "set (less_suffix p s) \<subseteq> set s" for p s by (auto simp: less_suffix_def dest: in_set_takeD)
  then have "set sc \<subseteq> set ?head" using set_strip set_past_char sc(1) by (meson order_trans)
  moreover have "CHR '':'' \<notin> set ?head" by (auto simp: upto_char_def dest: set_takeWhileD)
  ultimately show "CHR '':'' \<notin> set sc" by blast
qed

end
