(* ===== verification/TitleProps.thy ===== *)
theory TitleProps
  imports TitleForm
begin

text \<open>
  What a built title says: a title that \<open>build_title\<close> returns has the form, within the limit of a
  summary, and reads back as the type and the scope of the issue's title and the summary it was given.
\<close>

section \<open>The match of a built title\<close>

definition scope_mark :: "string option \<Rightarrow> string" where
  "scope_mark scope = (case scope of None \<Rightarrow> [] | Some sc \<Rightarrow> ''('' @ sc @ '')'')"

lemma kind_then:
  assumes "list_all is_small_letter kind" and "s \<noteq> [] \<longrightarrow> \<not> is_small_letter (hd s)"
  shows "takeWhile is_small_letter (kind @ s) = kind"
  using assms by (cases s) (simp_all add: takeWhile_append2 list_all_iff)

lemma scope_then_read:
  assumes "scope_then (scope_mark scope @ '': '' @ text) = Some (found, rest)"
    and "summary_then rest = Some (bang, summary)"
    and "\<forall>sc. scope = Some sc \<longrightarrow> CHR '':'' \<notin> set sc"
  shows "found = scope \<and> \<not> bang \<and> summary = text"
proof (cases scope)
  case None
  then have "found = None" "rest = '': '' @ text" using assms(1) by (simp_all add: scope_then_def scope_mark_def)
  then show ?thesis using assms(2) None by (auto simp: summary_then_def Let_def split: if_splits)
next
  case (Some sc)
  let ?f = "takeWhile is_scope_char sc" and ?b = "dropWhile is_scope_char sc"
  have colon: "CHR '':'' \<notin> set sc" using assms(3) Some by simp
  have close: "\<not> is_scope_char (CHR '')'')" by (simp add: is_scope_char_def)
  have take: "takeWhile is_scope_char (sc @ CHR '')'' # '': '' @ text) = ?f"
    using close by (cases "\<forall>c \<in> set sc. is_scope_char c") (simp_all add: takeWhile_append takeWhile_eq_all_conv[THEN iffD2])
  have drop: "drop (length ?f) (sc @ CHR '')'' # '': '' @ text) = ?b @ CHR '')'' # '': '' @ text"
    using length_takeWhile_le[of is_scope_char sc] by (simp add: dropWhile_eq_drop)
  have read: "found = Some ?f" "rest = tl (?b @ CHR '')'' # '': '' @ text)" "hd (?b @ CHR '')'' # '': '' @ text) = CHR '')''"
    using assms(1) Some take drop by (auto simp: scope_then_def scope_mark_def Let_def split: if_splits)
  have b: "?b = []"
  proof (rule ccontr)
    assume "?b \<noteq> []"
    then obtain r where b: "?b = CHR '')'' # r" using read(3) by (cases ?b) auto
    then have rest: "rest = r @ CHR '')'' # '': '' @ text" using read(2) by simp
    have "CHR '':'' \<notin> set r" using colon b by (metis list.set_intros(2) set_dropWhileD)
    then show False
      using assms(2) rest by (cases r; cases "tl r") (auto simp: summary_then_def Let_def split: if_splits)
  qed
  have "?f = sc" using takeWhile_dropWhile_id[of is_scope_char sc] unfolding b by simp
  with read(1) Some have "found = scope" by simp
  moreover have "rest = '': '' @ text" using read(2) unfolding b by simp
  ultimately have "found = scope" "rest = '': '' @ text" by simp_all
  then show ?thesis using assms(2) by (auto simp: summary_then_def Let_def split: if_splits)
qed

lemma built_match:
  assumes "kind \<in> set branch_types" and "title_match (kind @ scope_mark scope @ '': '' @ text) = Some p"
    and "\<forall>sc. scope = Some sc \<longrightarrow> CHR '':'' \<notin> set sc"
  shows "p = \<lparr>tp_type = kind, tp_scope = scope, tp_bang = False, tp_summary = text\<rparr>"
proof -
  note kind = branch_kind[OF assms(1)]
  have "hd (scope_mark scope @ '': '' @ text) \<in> {CHR ''('', CHR '':''}"
    by (cases scope) (simp_all add: scope_mark_def)
  then have "takeWhile is_small_letter (kind @ scope_mark scope @ '': '' @ text) = kind"
    by (intro kind_then[OF kind(2)]) (auto simp: is_small_letter_def)
  then obtain found rest bang summary where "scope_then (scope_mark scope @ '': '' @ text) = Some (found, rest)"
      "summary_then rest = Some (bang, summary)"
      "p = \<lparr>tp_type = kind, tp_scope = found, tp_bang = bang, tp_summary = summary\<rparr>"
    using assms(2) kind(1) by (auto simp: title_match_def split: option.splits)
  with scope_then_read[OF this(1,2) assms(3)] show ?thesis by simp
qed

lemma summary_then_form: "summary_then s = Some (bang, summary) \<Longrightarrow> \<exists>a. s = a @ '': '' @ summary \<and> summary \<noteq> []"
proof -
  assume m: "summary_then s = Some (bang, summary)"
  show ?thesis
  proof (cases "s \<noteq> [] \<and> hd s = CHR ''!''")
    case True
    then have "s = ''!'' @ tl s" by (cases s) simp_all
    moreover have r: "prefix '': '' (tl s)" "summary = drop 2 (tl s)" "summary \<noteq> []"
      using m True by (auto simp: summary_then_def Let_def split: if_splits)
    from r(1,2) have "tl s = '': '' @ summary" by (auto simp: prefix_def)
    ultimately have "s = ''!'' @ '': '' @ summary" by simp
    with r(3) show ?thesis by blast
  next
    case False
    then have r: "prefix '': '' s" "summary = drop 2 s" "summary \<noteq> []"
      using m by (auto simp: summary_then_def Let_def split: if_splits)
    from r(1,2) have "s = [] @ '': '' @ summary" by (auto simp: prefix_def)
    with r(3) show ?thesis by blast
  qed
qed

lemma matched_form:
  assumes "title_match s = Some p"
  shows "\<exists>a. s = a @ '': '' @ tp_summary p \<and> tp_summary p \<noteq> []"
proof -
  let ?s1 = "drop (length (takeWhile is_small_letter s)) s"
  from assms obtain scope s2 bang where m: "scope_then ?s1 = Some (scope, s2)" "summary_then s2 = Some (bang, tp_summary p)"
    by (auto simp: title_match_def Let_def split: if_splits option.splits)
  have tail: "suffix s2 ?s1"
    using m(1) by (auto simp: scope_then_def Let_def split: if_splits intro: suffix_order.trans[OF suffix_tl]
        suffix_order.trans[OF suffix_drop])
  obtain a where "s2 = a @ '': '' @ tp_summary p" "tp_summary p \<noteq> []" using summary_then_form[OF m(2)] by blast
  moreover obtain b where "s = b @ s2" using suffix_order.trans[OF tail suffix_drop] by (auto simp: suffix_def)
  ultimately show ?thesis by (metis append.assoc)
qed

section \<open>The parts of a built title\<close>

lemma past_plain: "c \<notin> set a \<Longrightarrow> dropWhile (\<lambda>x. x \<noteq> c) (a @ s) = dropWhile (\<lambda>x. x \<noteq> c) s"
  by (induction a) auto

lemma built_parts:
  assumes "kind \<in> set branch_types" and "\<forall>sc. scope = Some sc \<longrightarrow> sc \<noteq> [] \<and> strip sc = sc \<and> CHR '':'' \<notin> set sc"
  shows "commit_type (kind @ scope_mark scope @ '': '' @ text) = Some kind"
    and "commit_scope (kind @ scope_mark scope @ '': '' @ text) = scope"
    and "commit_summary (kind @ scope_mark scope @ '': '' @ text) = strip text"
proof -
  note kind = branch_kind[OF assms(1)]
  let ?head = "kind @ scope_mark scope" and ?t = "kind @ scope_mark scope @ '': '' @ text"
  have colon: "CHR '':'' \<notin> set ?head" using kind(5) assms(2) by (auto simp: scope_mark_def split: option.split)
  have head: "upto_char (CHR '':'') ?t = ?head" using upto_char_in[OF colon, of "'' '' @ text"] by simp
  have paren: "upto_char (CHR ''('') ?head = kind"
    using upto_char_in[OF kind(4)] kind(4)
    by (cases scope) (auto simp: scope_mark_def upto_char_def takeWhile_eq_all_conv)
  show type: "commit_type ?t = Some kind"
    using head paren kind(3) assms(1) by (simp add: commit_type_def Let_def)
  show "commit_scope ?t = scope"
  proof (cases scope)
    case None
    with head type kind(4) show ?thesis
      by (simp add: commit_scope_def Let_def scope_mark_def strip_def lstrip_def rstrip_def)
  next
    case (Some sc)
    have "past_char (CHR ''('') ?head = sc @ '')''"
      using kind(4) Some by (simp add: past_char_def scope_mark_def past_plain)
    then have "strip (less_suffix '')'' (less_suffix ''!'' (past_char (CHR ''('') ?head))) = sc"
      using assms(2) Some by (simp add: less_suffix_def suffix_def)
    moreover have "CHR ''('' \<in> set ?head" using Some by (simp add: scope_mark_def)
    ultimately show ?thesis using type head assms(2) Some by (simp add: commit_scope_def Let_def)
  qed
  have "past_char (CHR '':'') ?t = CHR '' '' # text"
    using past_plain[OF colon, of "'': '' @ text"] by (simp add: past_char_def)
  then show "commit_summary ?t = strip text" by (simp add: commit_summary_def strip_space_before)
qed

lemma strip_space_after: "strip (s @ '' '') = strip s"
proof (cases "\<forall>c \<in> set s. is_space c")
  case True
  then have "dropWhile is_space s = []" "dropWhile is_space (s @ '' '') = []"
    by (simp_all add: dropWhile_eq_Nil_conv is_space_def)
  then show ?thesis by (simp only: strip_def lstrip_def)
next
  case False
  then have "dropWhile is_space (s @ '' '') = dropWhile is_space s @ '' ''" by (auto simp: dropWhile_append)
  moreover have "is_space (CHR '' '')" by (simp add: is_space_def)
  ultimately show ?thesis by (simp add: strip_def lstrip_def rstrip_def)
qed

section \<open>Properties\<close>

text \<open>
  C34: A title that \<open>build_title\<close> returns reads back as what it was built from: its type and its scope are
  those of the issue's title, and its summary is the one given, of at most sixty characters and no
  placeholder. It stands on one line, and with the labels declared its scope is a release's or has its
  label.
\<close>

theorem built_title_reads_back:
  assumes "build_title issue_title summary declared = Inr title"
  shows "commit_type title = commit_type issue_title \<and> commit_type title \<noteq> None \<and>
    commit_scope title = commit_scope issue_title \<and> commit_summary title = strip summary \<and>
    summary_length (commit_summary title) \<le> summary_max_chars \<and> \<not> is_placeholder (commit_summary title) \<and>
    CHR 0x0A \<notin> set title \<and> CHR 0x0D \<notin> set title \<and>
    (\<forall>labels sc. declared = Some labels \<and> commit_scope title = Some sc \<longrightarrow>
       sc = release_scope \<or> scope_prefix @ sc \<in> set labels)"
proof -
  let ?text = "strip summary" and ?scope = "commit_scope issue_title"
  from assms obtain kind where kind: "commit_type issue_title = Some kind"
    by (cases "commit_type issue_title") (simp_all add: build_title_def)
  then have types: "kind \<in> set branch_types" by (auto simp: commit_type_def Let_def split: if_splits)
  have built: "title = kind @ scope_mark ?scope @ '': '' @ ?text" "title_problems title declared = []"
    using assms kind by (auto simp: build_title_def scope_mark_def Let_def split: option.splits if_splits)
  have scope: "\<forall>sc. ?scope = Some sc \<longrightarrow> sc \<noteq> [] \<and> strip sc = sc \<and> CHR '':'' \<notin> set sc"
    using scope_plain by blast
  note parts = built_parts[OF types scope, of ?text, folded built(1)]
  obtain p where p: "title_match (strip title) = Some p" "CHR 0x0A \<notin> set (strip title)" "CHR 0x0D \<notin> set (strip title)"
    "scope_problems (tp_scope p) declared = []" "summary_problems (tp_summary p) = []"
    using built(2) by (auto simp: title_problems_def Let_def split: if_splits option.splits)
  have stripped: "strip title = title"
  proof (cases "?text = []")
    case False
    have "\<not> is_space (hd title)"
      using branch_kind(1,2)[OF types] built(1)
      by (cases kind) (auto simp: is_small_letter_def is_space_def Let_def)
    moreover have "last title = last ?text" using built(1) False by simp
    ultimately show ?thesis using strip_edges(2)[OF False] by (intro strip_keeps) simp
  next
    case True
    let ?cut = "kind @ scope_mark ?scope @ '':''"
    have "\<not> is_space (hd ?cut)" "\<not> is_space (last ?cut)"
      using branch_kind(1,2)[OF types]
      by (cases kind; auto simp: is_small_letter_def is_space_def Let_def)+
    then have cut: "strip ?cut = ?cut" by (intro strip_keeps) simp
    have "strip title = ?cut"
      using True built(1) cut strip_space_after[of ?cut] by simp
    with matched_form[OF p(1)] obtain a where a: "?cut = a @ '': '' @ tp_summary p" "tp_summary p \<noteq> []" by auto
    have "CHR '':'' \<in> set (butlast (a @ '': '' @ tp_summary p))" using a(2) by (simp add: butlast_append)
    then have "CHR '':'' \<in> set (kind @ scope_mark ?scope)" unfolding a(1)[symmetric] by (simp add: butlast_append)
    then show ?thesis using branch_kind(5)[OF types] scope by (auto simp: scope_mark_def split: option.splits)
  qed
  have "p = \<lparr>tp_type = kind, tp_scope = ?scope, tp_bang = False, tp_summary = ?text\<rparr>"
    using p(1)[unfolded stripped] built(1) scope built_match[OF types, of ?scope ?text p] by auto
  then have s: "scope_problems ?scope declared = []" "summary_problems ?text = []" using p(4,5) by simp_all
  have "summary_length ?text \<le> summary_max_chars \<and> \<not> is_placeholder ?text"
    using s(2) by (auto simp: summary_problems_def split: if_splits)
  moreover have "sc = release_scope \<or> scope_prefix @ sc \<in> set labels"
    if "declared = Some labels" "?scope = Some sc" for labels sc
    using s(1) that by (auto simp: scope_problems_def declared_scopes_def less_prefix_def prefix_def split: if_splits)
  ultimately show ?thesis using parts kind p(2,3) stripped by auto
qed

theorem built_title_reads_back_witness:
  "\<exists>title. build_title ''fix(security): old'' ''hold the tokens of a run'' (Some [''scope/security'']) = Inr title
    \<and> commit_scope title = Some ''security'' \<and> commit_summary title = ''hold the tokens of a run''"
proof -
  have b: "build_title ''fix(security): old'' ''hold the tokens of a run'' (Some [''scope/security''])
      = Inr ''fix(security): hold the tokens of a run''" by code_simp
  have "commit_scope ''fix(security): old'' = Some ''security''" "strip ''hold the tokens of a run'' = ''hold the tokens of a run''"
    by code_simp+
  with built_title_reads_back[OF b] b show ?thesis by auto
qed

end
