(* ===== verification/Deadline.thy ===== *)
theory Deadline
  imports Requests
begin

text \<open>
  The deadline of a runner Job follows its progress:
  \<^verbatim>\<open>src/devops_cli/roadmap/implement/implement_deadline.py\<close>, over any answers of the Kubernetes API. The
  digest of a log is a parameter; the span and the log line of a change are not modelled.
\<close>

section \<open>Jobs and the API\<close>

record cluster_job =
  jb_name :: string
  jb_running :: bool
  jb_started :: "instant option"
  jb_deadline :: "int option"
  jb_annotations :: "(string, string) dict"

datatype job_call = LogTail string | PatchJob string "int option" "(string, string) dict"

datatype job_answer = ApiRefused | ApiText string

datatype deadline_error = JobRefused | SilenceOverflow | SilenceNotANumber

definition progress_key :: string where "progress_key = ''roadmap.devops-cli/progress''"
definition progress_at_key :: string where "progress_at_key = ''roadmap.devops-cli/progress-at''"
definition stalled_key :: string where "stalled_key = ''roadmap.devops-cli/stalled''"

record deadline_env =
  de_extension :: int
  de_ceiling :: int
  de_stall :: int
  de_digest :: "string \<Rightarrow> string"

datatype change_reason = MadeProgress | ReachedCeiling | Stalled

record deadline_change =
  dc_job :: string
  dc_previous :: int
  dc_seconds :: int
  dc_reason :: change_reason

definition is_managed :: "cluster_job \<Rightarrow> bool" where
  "is_managed j = (dict_get (jb_annotations j) progress_at_key \<noteq> None)"

section \<open>Times in annotations\<close>

datatype float_read = NoFloat | FiniteFloat rat | InfiniteFloat | NanFloat

definition float_overflow :: rat where
  \<comment> \<open>The least number that rounds to an infinite float.\<close>
  "float_overflow = 2 ^ 1024 - 2 ^ 970"

definition read_float :: "string \<Rightarrow> float_read" where
  \<comment> \<open>\<open>float(text)\<close> with its names of infinity and not-a-number.\<close>
  "read_float s =
     (let t = lower (strip s); u = (if t \<noteq> [] \<and> hd t \<in> {CHR ''+'', CHR ''-''} then tl t else t)
      in if u = ''inf'' \<or> u = ''infinity'' then InfiniteFloat
         else if u = ''nan'' then NanFloat
         else case float_of_text s of
             None \<Rightarrow> NoFloat
           | Some x \<Rightarrow> if \<bar>x\<bar> \<ge> float_overflow then InfiniteFloat else FiniteFloat x)"

definition epoch :: "string option \<Rightarrow> instant \<Rightarrow> float_read" where
  "epoch text otherwise =
     (case text of
        None \<Rightarrow> FiniteFloat otherwise
      | Some s \<Rightarrow> (case read_float s of NoFloat \<Rightarrow> FiniteFloat otherwise | x \<Rightarrow> x))"

definition silence_since :: "instant \<Rightarrow> float_read \<Rightarrow> deadline_error + int" where
  \<comment> \<open>\<open>int(moment - last)\<close>\<close>
  "silence_since moment at_last =
     (case at_last of
        FiniteFloat x \<Rightarrow> Inr (trunc (moment - x))
      | InfiniteFloat \<Rightarrow> Inl SilenceOverflow
      | _ \<Rightarrow> Inl SilenceNotANumber)"

section \<open>One Job\<close>

definition log_digest :: "deadline_env \<Rightarrow> string \<Rightarrow> (job_call, job_answer, string) prog" where
  "log_digest env name =
     Ask (LogTail name) (\<lambda>a. Done
       (case a of
          ApiRefused \<Rightarrow> []
        | ApiText tail \<Rightarrow> if strip tail = [] then [] else de_digest env tail))"

definition progress_target :: "deadline_env \<Rightarrow> int \<Rightarrow> int \<Rightarrow> int" where
  "progress_target env deadline elapsed = max deadline (min (de_ceiling env) (elapsed + de_extension env))"

definition on_progress ::
  "deadline_env \<Rightarrow> cluster_job \<Rightarrow> int \<Rightarrow> int \<Rightarrow> string \<Rightarrow> instant \<Rightarrow>
   (job_call, job_answer, deadline_error + deadline_change option) prog" where
  "on_progress env j deadline elapsed digest now =
     (let wanted = progress_target env deadline elapsed;
          marks = [(progress_key, digest), (progress_at_key, int_text (trunc now))]
      in Ask (PatchJob (jb_name j) (if wanted \<noteq> deadline then Some wanted else None) marks) (\<lambda>a. Done
           (case a of
              ApiRefused \<Rightarrow> Inl JobRefused
            | ApiText _ \<Rightarrow> Inr
                (if wanted = deadline then None
                 else Some \<lparr>dc_job = jb_name j, dc_previous = deadline, dc_seconds = wanted,
                            dc_reason = (if elapsed + de_extension env > de_ceiling env then ReachedCeiling
                                         else MadeProgress)\<rparr>))))"

definition on_stall ::
  "cluster_job \<Rightarrow> int \<Rightarrow> int \<Rightarrow> int \<Rightarrow> (job_call, job_answer, deadline_error + deadline_change option) prog" where
  "on_stall j deadline elapsed silence =
     Ask (PatchJob (jb_name j) (Some (min deadline elapsed)) [(stalled_key, int_text silence)]) (\<lambda>a. Done
       (case a of
          ApiRefused \<Rightarrow> Inl JobRefused
        | ApiText _ \<Rightarrow> Inr (Some \<lparr>dc_job = jb_name j, dc_previous = deadline, dc_seconds = min deadline elapsed,
                                 dc_reason = Stalled\<rparr>)))"

definition elapsed_at :: "instant \<Rightarrow> instant \<Rightarrow> int" where
  "elapsed_at moment started = max 1 \<lceil>moment - started\<rceil>"

definition watch ::
  "deadline_env \<Rightarrow> cluster_job \<Rightarrow> int \<Rightarrow> instant \<Rightarrow> instant \<Rightarrow>
   (job_call, job_answer, deadline_error + deadline_change option) prog" where
  "watch env j deadline started moment =
     (let elapsed = elapsed_at moment started;
          seen = get_or [] (jb_annotations j) progress_key;
          since = epoch (dict_get (jb_annotations j) progress_at_key) moment
      in bind_prog (log_digest env (jb_name j)) (\<lambda>digest.
        case silence_since moment since of
          Inl e \<Rightarrow> Done (Inl e)
        | Inr silence \<Rightarrow>
            if digest \<noteq> [] \<and> digest \<noteq> seen then on_progress env j deadline elapsed digest moment
            else if silence \<ge> de_stall env then on_stall j deadline elapsed silence
            else Done (Inr None)))"

section \<open>A round\<close>

definition watched :: "cluster_job \<Rightarrow> (int \<times> instant) option" where
  \<comment> \<open>The deadline and the start of a Job that the round watches.\<close>
  "watched j =
     (if jb_running j \<and> is_managed j \<and> dict_get (jb_annotations j) stalled_key = None then
        (case (jb_started j, jb_deadline j) of (Some st, Some d) \<Rightarrow> Some (d, st) | _ \<Rightarrow> None)
      else None)"

fun manage_deadlines ::
  "deadline_env \<Rightarrow> instant \<Rightarrow> cluster_job list \<Rightarrow> (job_call, job_answer, deadline_error + deadline_change list) prog" where
  "manage_deadlines env moment [] = Done (Inr [])"
| "manage_deadlines env moment (j # js) =
     (case watched j of
        None \<Rightarrow> manage_deadlines env moment js
      | Some (d, st) \<Rightarrow>
          bind_prog (watch env j d st moment) (\<lambda>r.
            case r of
              Inl e \<Rightarrow> Done (Inl e)
            | Inr c \<Rightarrow>
                bind_prog (manage_deadlines env moment js) (\<lambda>r. Done
                  (case r of
                     Inl e \<Rightarrow> Inl e
                   | Inr cs \<Rightarrow> Inr (case c of Some x \<Rightarrow> x # cs | None \<Rightarrow> cs)))))"

end
