(* ===== verification/DeadlineProps.thy ===== *)
theory DeadlineProps
  imports Deadline
begin

text \<open>
  What the deadlines promise, whatever the API answers: only a running Job of the Service is patched, a
  deadline moves ahead on progress and never past the ceiling, a stalled Job is marked once and left
  alone, and over a Job's whole life its deadline stays below the ceiling or where it began.
\<close>

section \<open>The patches of a round\<close>

text \<open>
  What a patch of a watched Job may say, after the answer \<open>shown_tail\<close> of the read of its log: on a new digest, the
  digest, its time and the deadline that it moves ahead; else the mark of a stall.
\<close>

definition answer_digest :: "deadline_env \<Rightarrow> job_answer \<Rightarrow> string" where
  "answer_digest env shown_tail =
     (case shown_tail of ApiRefused \<Rightarrow> [] | ApiText tail \<Rightarrow> if strip tail = [] then [] else de_digest env tail)"

definition new_progress :: "deadline_env \<Rightarrow> cluster_job \<Rightarrow> job_answer \<Rightarrow> bool" where
  "new_progress env j shown_tail =
     (answer_digest env shown_tail \<noteq> [] \<and> answer_digest env shown_tail \<noteq> get_or [] (jb_annotations j) progress_key)"

definition moves_ahead :: "deadline_env \<Rightarrow> int \<Rightarrow> int \<Rightarrow> int option \<Rightarrow> bool" where
  \<comment> \<open>No deadline where the one it has is already as late as progress allows.\<close>
  "moves_ahead env d elapsed dl =
     (let allowed = min (de_ceiling env) (elapsed + de_extension env)
      in case dl of Some x \<Rightarrow> d < x \<and> x = allowed | None \<Rightarrow> allowed \<le> d)"

definition silent_for :: "deadline_env \<Rightarrow> cluster_job \<Rightarrow> instant \<Rightarrow> bool" where
  "silent_for env j moment =
     (\<exists>x. epoch (dict_get (jb_annotations j) progress_at_key) moment = FiniteFloat x \<and>
        de_stall env \<le> trunc (moment - x))"

definition patch_ok :: "deadline_env \<Rightarrow> instant \<Rightarrow> cluster_job \<Rightarrow> job_answer \<Rightarrow> job_call \<Rightarrow> bool" where
  "patch_ok env moment j shown_tail q =
     (case q of
        LogTail n \<Rightarrow> False
      | PatchJob n dl marks \<Rightarrow>
          n = jb_name j \<and>
          (\<exists>d st. watched j = Some (d, st) \<and>
             (if new_progress env j shown_tail
              then marks = [(progress_key, answer_digest env shown_tail), (progress_at_key, int_text (trunc moment))] \<and>
                moves_ahead env d (elapsed_at moment st) dl
              else map fst marks = [stalled_key] \<and> dl = Some (min d (elapsed_at moment st)) \<and>
                silent_for env j moment)))"

lemma keys_differ [simp]:
  "stalled_key \<noteq> progress_key" "stalled_key \<noteq> progress_at_key" "progress_key \<noteq> stalled_key"
  "progress_at_key \<noteq> stalled_key" "progress_key \<noteq> progress_at_key" "progress_at_key \<noteq> progress_key"
  by (simp_all add: stalled_key_def progress_key_def progress_at_key_def)

lemma watch_calls:
  assumes "runs (watch env j d st moment) t r" and "watched j = Some (d, st)"
  shows "\<exists>a u. t = (LogTail (jb_name j), a) # u \<and> (u = [] \<or> (\<exists>q b. u = [(q, b)] \<and> patch_ok env moment j a q))"
proof -
  from assms(1) obtain t1 t2 digest where t: "t = t1 @ t2" "runs (log_digest env (jb_name j)) t1 digest"
    "runs (case silence_since moment (epoch (dict_get (jb_annotations j) progress_at_key) moment) of
          Inl e \<Rightarrow> Done (Inl e)
        | Inr silence \<Rightarrow>
            if digest \<noteq> [] \<and> digest \<noteq> get_or [] (jb_annotations j) progress_key
            then on_progress env j d (elapsed_at moment st) digest moment
            else if silence \<ge> de_stall env then on_stall j d (elapsed_at moment st) silence
            else Done (Inr None)) t2 r"
    by (auto simp: watch_def Let_def runs_bind)
  from t(2) obtain a where t1: "t1 = [(LogTail (jb_name j), a)]" and digest: "digest = answer_digest env a"
    by (auto simp: log_digest_def answer_digest_def runs_Ask_iff)
  have "t2 = [] \<or> (\<exists>q b. t2 = [(q, b)] \<and> patch_ok env moment j a q)"
  proof (cases "epoch (dict_get (jb_annotations j) progress_at_key) moment")
    case (FiniteFloat x)
    with t(3) show ?thesis
      using assms(2)
      by (auto simp: silence_since_def on_progress_def on_stall_def runs_Ask_iff patch_ok_def progress_target_def
          new_progress_def moves_ahead_def silent_for_def digest max_def Let_def split: if_splits)
  qed (use t(3) in \<open>auto simp: silence_since_def\<close>)
  then show ?thesis using t(1) t1 by simp
qed

lemma manage_runs:
  assumes "runs (manage_deadlines env moment (j # js)) t r" and "watched j = Some (d, st)"
  obtains t1 t2 r1 where "t = t1 @ t2" "runs (watch env j d st moment) t1 r1"
    "t2 = [] \<or> (\<exists>r2. runs (manage_deadlines env moment js) t2 r2)"
proof -
  from assms obtain t1 t2 r1 where t: "t = t1 @ t2" "runs (watch env j d st moment) t1 r1"
      "runs (case r1 of
              Inl e \<Rightarrow> Done (Inl e)
            | Inr c \<Rightarrow>
                bind_prog (manage_deadlines env moment js) (\<lambda>r. Done
                  (case r of
                     Inl e \<Rightarrow> Inl e
                   | Inr cs \<Rightarrow> Inr (case c of Some x \<Rightarrow> x # cs | None \<Rightarrow> cs)))) t2 r"
    by (auto simp: runs_bind)
  moreover have "t2 = [] \<or> (\<exists>r2. runs (manage_deadlines env moment js) t2 r2)"
    using t(3) by (cases r1) (auto simp: runs_bind)
  ultimately show thesis using that by blast
qed

lemma manage_calls:
  assumes "runs (manage_deadlines env moment jobs) t r" and "t = pre @ (PatchJob n dl marks, a) # post"
  shows "\<exists>j \<in> set jobs. \<exists>pre' shown_tail. pre = pre' @ [(LogTail (jb_name j), shown_tail)] \<and>
    patch_ok env moment j shown_tail (PatchJob n dl marks)"
  using assms
proof (induction jobs arbitrary: t r pre)
  case (Cons j js)
  show ?case
  proof (cases "watched j")
    case None
    with Cons show ?thesis by auto
  next
    case (Some w)
    obtain d st where w: "watched j = Some (d, st)" using Some by (cases w) auto
    from manage_runs[OF Cons.prems(1) w] obtain t1 t2 r1 where t: "t = t1 @ t2"
      "runs (watch env j d st moment) t1 r1" "t2 = [] \<or> (\<exists>r2. runs (manage_deadlines env moment js) t2 r2)" .
    have later: ?thesis if "t2 = pre2 @ (PatchJob n dl marks, a) # post" "pre = pre1 @ pre2" for pre1 pre2
    proof -
      from that(1) t(3) obtain r2 where "runs (manage_deadlines env moment js) t2 r2" by auto
      from Cons.IH[OF this that(1)] obtain k pre' shown_tail where "k \<in> set js"
        "pre2 = pre' @ [(LogTail (jb_name k), shown_tail)]" "patch_ok env moment k shown_tail (PatchJob n dl marks)" by blast
      then show ?thesis using that(2) by (intro bexI[of _ k] exI[of _ "pre1 @ pre'"] exI[of _ shown_tail]) auto
    qed
    from watch_calls[OF t(2) w] obtain shown_tail u where u: "t1 = (LogTail (jb_name j), shown_tail) # u"
      "u = [] \<or> (\<exists>q b. u = [(q, b)] \<and> patch_ok env moment j shown_tail q)" by blast
    obtain pre0 where pre: "pre = (LogTail (jb_name j), shown_tail) # pre0" "u @ t2 = pre0 @ (PatchJob n dl marks, a) # post"
      using Cons.prems(2) t(1) u(1) by (cases pre) auto
    show ?thesis
    proof (cases u)
      case Nil
      then show ?thesis using later[of pre0 "[(LogTail (jb_name j), shown_tail)]"] pre by simp
    next
      case (Cons c u')
      then obtain q b where q: "u = [(q, b)]" "patch_ok env moment j shown_tail q" using u(2) by auto
      show ?thesis
      proof (cases pre0)
        case Nil
        then show ?thesis using pre q by auto
      next
        case (Cons e pre1)
        then show ?thesis
          using later[of pre1 "[(LogTail (jb_name j), shown_tail), (q, b)]"] pre q(1) by simp
      qed
    qed
  qed
qed simp

section \<open>The life of a Job\<close>

text \<open>
  A patch that the API accepts sets the deadline when it names one and merges the annotations; a Job's
  life is any number of rounds over it, at any times and with any answers.
\<close>

definition patched :: "job_call \<Rightarrow> cluster_job \<Rightarrow> cluster_job" where
  "patched q j =
     (case q of
        LogTail _ \<Rightarrow> j
      | PatchJob _ dl marks \<Rightarrow>
          j\<lparr>jb_deadline := (case dl of Some x \<Rightarrow> Some x | None \<Rightarrow> jb_deadline j),
            jb_annotations := foldl (\<lambda>as (k, v). dict_set k v as) (jb_annotations j) marks\<rparr>)"

definition job_after :: "(job_call, job_answer) trace \<Rightarrow> cluster_job \<Rightarrow> cluster_job" where
  "job_after t j = foldl (\<lambda>j (q, a). if a = ApiRefused then j else patched q j) j t"

inductive job_life :: "deadline_env \<Rightarrow> cluster_job \<Rightarrow> cluster_job \<Rightarrow> bool" for env where
  life_begins: "job_life env j j"
| life_round: "job_life env j k \<Longrightarrow> runs (manage_deadlines env moment [k]) t r \<Longrightarrow> job_life env j (job_after t k)"

lemma round_of_one:
  assumes "runs (manage_deadlines env moment [j]) t r"
  shows "t = [] \<or> (\<exists>d st a. watched j = Some (d, st) \<and> t = [(LogTail (jb_name j), a)]) \<or>
    (\<exists>d st a q b. watched j = Some (d, st) \<and> t = [(LogTail (jb_name j), a), (q, b)] \<and> patch_ok env moment j a q)"
proof (cases "watched j")
  case None
  with assms show ?thesis by simp
next
  case (Some w)
  obtain d st where w: "watched j = Some (d, st)" using Some by (cases w) auto
  from manage_runs[OF assms w] obtain t1 t2 r1 where t: "t = t1 @ t2" "runs (watch env j d st moment) t1 r1"
      "t2 = [] \<or> (\<exists>r2. runs (manage_deadlines env moment []) t2 r2)" .
  have t2: "t2 = []" using t(3) by auto
  from watch_calls[OF t(2) w] t(1) t2 w show ?thesis by auto
qed

lemma round_bounded:
  assumes "runs (manage_deadlines env moment [j]) t r" and "jb_deadline j = Some d"
  shows "\<exists>d'. jb_deadline (job_after t j) = Some d' \<and> d' \<le> max d (de_ceiling env)"
proof -
  have same: "watched j = Some (d', st) \<Longrightarrow> d' = d" for d' st
    using assms(2) by (auto simp: watched_def split: if_splits option.splits)
  have patch: "\<exists>d'. jb_deadline (patched q j) = Some d' \<and> d' \<le> max d (de_ceiling env)" if "patch_ok env moment j shown_tail q" for shown_tail q
  proof (cases q)
    case (PatchJob n dl marks)
    then show ?thesis using that assms(2)
      by (cases dl) (auto simp: patch_ok_def patched_def moves_ahead_def Let_def dest!: same split: if_splits)
  qed (use that in \<open>simp add: patch_ok_def\<close>)
  from round_of_one[OF assms(1)] show ?thesis
    using assms(2) patch by (auto simp: job_after_def patched_def[of "LogTail _"])
qed

section \<open>A sample round\<close>

definition sample_deadlines :: deadline_env where
  "sample_deadlines = \<lparr>de_extension = 600, de_ceiling = 3600, de_stall = 300, de_digest = (\<lambda>s. s)\<rparr>"

definition sample_job :: "string \<Rightarrow> cluster_job" where
  "sample_job at_time =
     \<lparr>jb_name = ''run-7'', jb_running = True, jb_started = Some 0, jb_deadline = Some 600,
      jb_annotations = [(progress_at_key, at_time)]\<rparr>"

lemma sample_watch:
  obtains t r marks where "runs (manage_deadlines sample_deadlines 200 [sample_job ''100'']) t r"
    "t = [(LogTail ''run-7'', ApiText ''tool call'')] @ (PatchJob ''run-7'' (Some 800) marks, ApiText []) # []"
proof (rule answered_gives[where p = "manage_deadlines sample_deadlines 200 [sample_job ''100'']" and
      as = "[ApiText ''tool call'', ApiText []]" and
      P = "\<lambda>x t. t = [(LogTail ''run-7'', ApiText ''tool call''),
        (PatchJob ''run-7'' (Some 800) [(progress_key, ''tool call''), (progress_at_key, ''200'')], ApiText [])]"])
  show "case answered (manage_deadlines sample_deadlines 200 [sample_job ''100'']) [ApiText ''tool call'', ApiText []] of
    None \<Rightarrow> False | Some (x, t) \<Rightarrow> t = [(LogTail ''run-7'', ApiText ''tool call''),
      (PatchJob ''run-7'' (Some 800) [(progress_key, ''tool call''), (progress_at_key, ''200'')], ApiText [])]"
    by code_simp
qed (use that in auto)

section \<open>Properties\<close>

text \<open>
  C18: The Service moves only the deadline of its own Job that runs, and only for a reason. Every patch of
  a round comes right after a read of the log of its Job, which runs, was made by the Service, has no mark of a
  stall, and has a start and a deadline. When the log's digest is there and is not the one that the Job
  holds, the patch keeps the new digest and its time, and moves the deadline ahead to the time that
  has passed with the extension, at most to the ceiling; it names no deadline where the Job's own is as
  late. When the digest is not new, the patch marks the Job and ends it, after a silence of at least the
  stall time, at the time that has passed or the earlier deadline it had.
\<close>

theorem patches_follow_progress:
  assumes "runs (manage_deadlines env moment jobs) t r" and "t = pre @ (PatchJob n dl marks, a) # post"
  shows "\<exists>j \<in> set jobs. n = jb_name j \<and> jb_running j \<and> is_managed j \<and>
    dict_get (jb_annotations j) stalled_key = None \<and>
    (\<exists>pre' shown_tail d st. pre = pre' @ [(LogTail n, shown_tail)] \<and> jb_deadline j = Some d \<and> jb_started j = Some st \<and>
       (if new_progress env j shown_tail
        then marks = [(progress_key, answer_digest env shown_tail), (progress_at_key, int_text (trunc moment))] \<and>
          moves_ahead env d (elapsed_at moment st) dl
        else map fst marks = [stalled_key] \<and> dl = Some (min d (elapsed_at moment st)) \<and>
          silent_for env j moment))"
proof -
  from manage_calls[OF assms] obtain j pre' shown_tail where j: "j \<in> set jobs"
    "pre = pre' @ [(LogTail (jb_name j), shown_tail)]" "patch_ok env moment j shown_tail (PatchJob n dl marks)" by blast
  from j(3) obtain d st where w: "n = jb_name j" "watched j = Some (d, st)"
      "if new_progress env j shown_tail
        then marks = [(progress_key, answer_digest env shown_tail), (progress_at_key, int_text (trunc moment))] \<and>
          moves_ahead env d (elapsed_at moment st) dl
        else map fst marks = [stalled_key] \<and> dl = Some (min d (elapsed_at moment st)) \<and>
          silent_for env j moment"
    unfolding patch_ok_def job_call.case by blast
  have "jb_running j \<and> is_managed j \<and> dict_get (jb_annotations j) stalled_key = None \<and>
      jb_deadline j = Some d \<and> jb_started j = Some st"
    using w(2) by (auto simp: watched_def split: if_splits option.splits)
  then show ?thesis using j(1,2) w(1,3) by blast
qed

theorem patches_follow_progress_witness:
  "\<exists>t r marks. runs (manage_deadlines sample_deadlines 200 [sample_job ''100'']) t r \<and>
     (PatchJob ''run-7'' (Some 800) marks, ApiText []) \<in> set t \<and>
     dict_get marks progress_key = Some ''tool call''"
proof -
  obtain t r marks where t: "runs (manage_deadlines sample_deadlines 200 [sample_job ''100'']) t r"
    "t = [(LogTail ''run-7'', ApiText ''tool call'')] @ (PatchJob ''run-7'' (Some 800) marks, ApiText []) # []"
    by (rule sample_watch)
  have fresh: "new_progress sample_deadlines (sample_job ''100'') (ApiText ''tool call'')"
    "answer_digest sample_deadlines (ApiText ''tool call'') = ''tool call''" by code_simp+
  from patches_follow_progress[OF t] fresh have "dict_get marks progress_key = Some ''tool call''" by auto
  with t show ?thesis by auto
qed

text \<open>
  C19: Over a Job's whole life, whatever the API answers and whenever the rounds come, its deadline is
  never above the ceiling, or the deadline it began with when that is above it.
\<close>

theorem deadline_stays_bounded:
  assumes "job_life env j k" and "jb_deadline j = Some d"
  shows "\<exists>d'. jb_deadline k = Some d' \<and> d' \<le> max d (de_ceiling env)"
  using assms
proof (induction rule: job_life.induct)
  case (life_round j k moment t r)
  then obtain d' where d': "jb_deadline k = Some d'" "d' \<le> max d (de_ceiling env)" by blast
  from round_bounded[OF life_round.hyps(2) d'(1)] d'(2) show ?case by auto
qed auto

theorem deadline_stays_bounded_witness:
  "\<exists>t r k. runs (manage_deadlines sample_deadlines 200 [sample_job ''100'']) t r \<and> k = job_after t (sample_job ''100'') \<and>
     (\<exists>d'. jb_deadline k = Some d' \<and> d' \<le> max 600 (de_ceiling sample_deadlines))"
proof -
  obtain t r marks where t: "runs (manage_deadlines sample_deadlines 200 [sample_job ''100'']) t r"
    "t = [(LogTail ''run-7'', ApiText ''tool call'')] @ (PatchJob ''run-7'' (Some 800) marks, ApiText []) # []"
    by (rule sample_watch)
  have "jb_deadline (sample_job ''100'') = Some 600" by (simp add: sample_job_def)
  from deadline_stays_bounded[OF life_round[OF life_begins t(1)] this] t(1) show ?thesis by blast
qed

text \<open>
  An annotation that a person changed to the name of an infinite number ends the round: the log is
  read, and then the time of silence raises, whatever the log holds, so no later Job is watched.
\<close>

theorem infinite_mark_ends_the_round:
  assumes "watched j = Some (d, st)" and "dict_get (jb_annotations j) progress_at_key = Some s"
    and "read_float s = InfiniteFloat"
  shows "manage_deadlines env moment (j # js) = Ask (LogTail (jb_name j)) (\<lambda>a. Done (Inl SilenceOverflow))"
  using assms by (simp add: watch_def log_digest_def epoch_def silence_since_def)

theorem infinite_mark_ends_the_round_witness:
  "manage_deadlines sample_deadlines 200 [sample_job ''inf'', sample_job ''100''] =
     Ask (LogTail ''run-7'') (\<lambda>a. Done (Inl SilenceOverflow))"
proof -
  have "watched (sample_job ''inf'') = Some (600, 0)" "read_float ''inf'' = InfiniteFloat"
    "dict_get (jb_annotations (sample_job ''inf'')) progress_at_key = Some ''inf''"
    by code_simp+
  from infinite_mark_ends_the_round[OF this(1,3,2)] show ?thesis by (simp add: sample_job_def)
qed

end
